(* ===== verification/JsNumber.thy ===== *)
theory JsNumber
  imports Complex_Main "HOL-Library.Log_Nat"
begin

text \<open>
  ECMAScript numbers: IEEE 754 binary64 values with the arithmetic of the language.
  A finite number is the rational it denotes; every arithmetic operation computes the exact
  rational result and rounds it once, to nearest with ties to even, with gradual underflow
  and overflow to the infinities.  The two zeros are identified (\<open>Fin 0\<close>): the modelled
  arithmetic neither divides by a negative zero nor inspects its sign.  A value of unknown type may be
  a negative zero, which the code does inspect there (JsValue).  The theory proves that the rounding is monotone, odd, idempotent and
  exact on integers up to \<open>2 ^ 53\<close>; these are the facts every money property rests on.
\<close>

section \<open>Rounding a rational to binary64\<close>

text \<open>Round to the nearest integer, ties to the even one.\<close>

definition round_even :: "rat \<Rightarrow> int" where
  "round_even x =
     (let f = \<lfloor>x\<rfloor>; d = x - of_int f
      in if d < 1/2 then f else if 1/2 < d then f + 1 else if even f then f else f + 1)"

text \<open>The exponent \<open>e\<close> with \<open>2 ^ e \<le> x < 2 ^ (e + 1)\<close>, for positive \<open>x\<close>.\<close>

definition ilog2 :: "rat \<Rightarrow> int" where
  "ilog2 x = (if 1 \<le> x then bitlen \<lfloor>x\<rfloor> - 1 else - bitlen (\<lceil>1 / x\<rceil> - 1))"

definition pow2 :: "int \<Rightarrow> rat" where
  "pow2 k = (if 0 \<le> k then 2 ^ nat k else 1 / 2 ^ nat (- k))"

text \<open>The weight of the last place of the significand: 53 bits, never below \<open>2 ^ - 1074\<close>.\<close>

definition lastplace :: "rat \<Rightarrow> int" where
  "lastplace x = max (ilog2 \<bar>x\<bar> - 52) (- 1074)"

definition rnd :: "rat \<Rightarrow> rat" where
  "rnd x = (if x = 0 then 0
            else (let u = pow2 (lastplace x) in of_int (round_even (x / u)) * u))"

definition max_finite :: rat where
  "max_finite = (2 ^ 53 - 1) * 2 ^ 971"

subsection \<open>Powers of two\<close>

lemma pow2_powi: "pow2 k = 2 powi k"
  by (simp add: pow2_def power_int_def field_simps)

lemma pow2_pos [simp]: "0 < pow2 k"
  by (simp add: pow2_powi)

lemma pow2_nonneg [simp]: "0 \<le> pow2 k"
  using pow2_pos [of k] by linarith

lemma pow2_neq_0 [simp]: "pow2 k \<noteq> 0"
  using pow2_pos [of k] by linarith

lemma pow2_add: "pow2 (a + b) = pow2 a * pow2 b"
  by (simp add: pow2_powi power_int_add)

lemma pow2_minus: "pow2 (- a) = 1 / pow2 a"
  by (simp add: pow2_powi power_int_minus_divide)

lemma pow2_of_nat [simp]: "pow2 (int n) = 2 ^ n"
  by (simp add: pow2_def)

lemma pow2_0 [simp]: "pow2 0 = 1"
  by (simp add: pow2_def)

lemma pow2_mono: "a \<le> b \<Longrightarrow> pow2 a \<le> pow2 b"
  by (simp add: pow2_powi power_int_increasing)

lemma pow2_less_cancel: "pow2 a < pow2 b \<Longrightarrow> a < b"
  using pow2_mono [of b a] by (cases "b \<le> a") auto

subsection \<open>The exponent\<close>

lemma bitlen_bounds_rat:
  assumes "0 < n"
  shows "pow2 (bitlen n - 1) \<le> of_int n" and "of_int n < pow2 (bitlen n)"
proof -
  from assms have b: "2 ^ nat (bitlen n - 1) \<le> n" "n < 2 ^ nat (bitlen n)"
    using bitlen_bounds [of n] by auto
  from assms have "0 < bitlen n"
    using bitlen_eq_zero_iff [of n] bitlen_nonneg [of n] by linarith
  then have nn: "0 \<le> bitlen n - 1" "0 \<le> bitlen n" by auto
  have "(of_int (2 ^ nat (bitlen n - 1)) :: rat) \<le> of_int n"
    using b(1) of_int_le_iff by blast
  with nn show "pow2 (bitlen n - 1) \<le> of_int n" by (simp add: pow2_def)
  have "(of_int n :: rat) < of_int (2 ^ nat (bitlen n))"
    using b(2) of_int_less_iff by blast
  with nn show "of_int n < pow2 (bitlen n)" by (simp add: pow2_def)
qed

lemma ilog2_bounds:
  assumes "0 < x"
  shows "pow2 (ilog2 x) \<le> x" and "x < pow2 (ilog2 x + 1)"
proof -
  have "pow2 (ilog2 x) \<le> x \<and> x < pow2 (ilog2 x + 1)"
  proof (cases "1 \<le> x")
    case True
    then have fl: "0 < \<lfloor>x\<rfloor>" by linarith
    have "x < of_int (\<lfloor>x\<rfloor> + 1)" by linarith
    also have "\<dots> \<le> pow2 (bitlen \<lfloor>x\<rfloor>)"
    proof -
      have "\<lfloor>x\<rfloor> < 2 ^ nat (bitlen \<lfloor>x\<rfloor>)" using fl bitlen_bounds [of "\<lfloor>x\<rfloor>"] by auto
      then have "\<lfloor>x\<rfloor> + 1 \<le> 2 ^ nat (bitlen \<lfloor>x\<rfloor>)" by linarith
      then have "(of_int (\<lfloor>x\<rfloor> + 1) :: rat) \<le> of_int (2 ^ nat (bitlen \<lfloor>x\<rfloor>))"
        using of_int_le_iff by blast
      then show ?thesis by (simp add: pow2_def bitlen_nonneg)
    qed
    finally have "x < pow2 (bitlen \<lfloor>x\<rfloor>)" .
    moreover have "pow2 (bitlen \<lfloor>x\<rfloor> - 1) \<le> x"
      using bitlen_bounds_rat(1) [OF fl] by linarith
    ultimately show ?thesis using True by (simp add: ilog2_def)
  next
    case False
    define n where "n = \<lceil>1 / x\<rceil>"
    define k where "k = bitlen (n - 1)"
    from False assms have "1 < 1 / x" by simp
    then have n1: "0 < n - 1" unfolding n_def by linarith
    have up: "of_int (n - 1) < 1 / x" unfolding n_def by linarith
    have lo: "1 / x \<le> of_int n" unfolding n_def by linarith
    have "n - 1 < 2 ^ nat k" using n1 bitlen_bounds [of "n - 1"] by (auto simp: k_def)
    then have "n \<le> 2 ^ nat k" by linarith
    then have "(of_int n :: rat) \<le> of_int (2 ^ nat k)" using of_int_le_iff by blast
    then have "of_int n \<le> pow2 k" by (simp add: pow2_def k_def bitlen_nonneg)
    with lo have "1 / x \<le> pow2 k" by linarith
    then have a: "pow2 (- k) \<le> x" using assms by (simp add: pow2_minus field_simps)
    have "pow2 (k - 1) \<le> of_int (n - 1)"
      using bitlen_bounds_rat(1) [OF n1] by (simp add: k_def)
    with up have "pow2 (k - 1) < 1 / x" by linarith
    then have "x < 1 / pow2 (k - 1)" using assms by (simp add: field_simps)
    then have b: "x < pow2 (- k + 1)" using pow2_minus [of "k - 1"] by simp
    from a b False show ?thesis by (simp add: ilog2_def k_def n_def)
  qed
  then show "pow2 (ilog2 x) \<le> x" and "x < pow2 (ilog2 x + 1)" by auto
qed

lemma ilog2_mono: "0 < x \<Longrightarrow> x \<le> y \<Longrightarrow> ilog2 x \<le> ilog2 y"
proof -
  assume "0 < x" "x \<le> y"
  then have "pow2 (ilog2 x) < pow2 (ilog2 y + 1)"
    using ilog2_bounds(1) [of x] ilog2_bounds(2) [of y] by linarith
  then show ?thesis using pow2_less_cancel by fastforce
qed

lemma ilog2_less: "0 < x \<Longrightarrow> x < pow2 k \<Longrightarrow> ilog2 x < k"
  using ilog2_bounds(1) [of x] pow2_less_cancel [of "ilog2 x" k] by linarith

subsection \<open>Rounding to an integer\<close>

lemma round_even_of_int [simp]: "round_even (of_int n) = n"
  by (simp add: round_even_def)

lemma round_even_0 [simp]: "round_even 0 = 0"
  using round_even_of_int [of 0] by simp

lemma round_even_floor: "\<lfloor>x\<rfloor> \<le> round_even x" and round_even_floor1: "round_even x \<le> \<lfloor>x\<rfloor> + 1"
  by (simp_all add: round_even_def Let_def)

lemma round_even_mono: "x \<le> y \<Longrightarrow> round_even x \<le> round_even y"
proof -
  assume le: "x \<le> y"
  then have "\<lfloor>x\<rfloor> \<le> \<lfloor>y\<rfloor>" by (rule floor_mono)
  then consider "\<lfloor>x\<rfloor> = \<lfloor>y\<rfloor>" | "\<lfloor>x\<rfloor> + 1 \<le> \<lfloor>y\<rfloor>" by linarith
  then show ?thesis
  proof cases
    case 1
    with le show ?thesis by (auto simp: round_even_def Let_def)
  next
    case 2
    then show ?thesis using round_even_floor1 [of x] round_even_floor [of y] by linarith
  qed
qed

lemma round_even_minus: "round_even (- x) = - round_even x"
proof (cases "x = of_int \<lfloor>x\<rfloor>")
  case True
  then have "round_even (- x) = round_even (of_int (- \<lfloor>x\<rfloor>))" by simp
  also have "\<dots> = - round_even (of_int \<lfloor>x\<rfloor>)" by (simp only: round_even_of_int)
  finally show ?thesis using True by simp
next
  case False
  then have fl: "\<lfloor>- x\<rfloor> = - \<lfloor>x\<rfloor> - 1" by linarith
  then have "- x - of_int \<lfloor>- x\<rfloor> = 1 - (x - of_int \<lfloor>x\<rfloor>)" by simp
  then show ?thesis unfolding round_even_def Let_def fl by auto
qed

lemma round_even_near: "\<bar>of_int (round_even x) - x\<bar> \<le> 1/2"
proof -
  have "0 \<le> x - of_int \<lfloor>x\<rfloor>" "x - of_int \<lfloor>x\<rfloor> < 1" by linarith+
  then show ?thesis by (auto simp: round_even_def Let_def abs_le_iff)
qed

subsection \<open>Rounding to binary64\<close>

definition representable :: "rat \<Rightarrow> bool" where
  "representable x \<longleftrightarrow> (\<exists>m k. x = of_int m * pow2 k \<and> \<bar>m\<bar> \<le> 2 ^ 53 \<and> - 1074 \<le> k)"

lemma rnd_0 [simp]: "rnd 0 = 0"
  by (simp add: rnd_def)

lemma lastplace_minus: "lastplace (- x) = lastplace x"
  by (simp add: lastplace_def)

lemma rnd_minus [simp]: "rnd (- x) = - rnd x"
proof (cases "x = 0")
  case False
  have "- x / pow2 (lastplace x) = - (x / pow2 (lastplace x))" by simp
  then have "round_even (- x / pow2 (lastplace x)) = - round_even (x / pow2 (lastplace x))"
    by (metis round_even_minus)
  with False show ?thesis by (simp add: rnd_def Let_def lastplace_minus)
qed simp

lemma rnd_nonneg: "0 \<le> x \<Longrightarrow> 0 \<le> rnd x"
proof -
  assume "0 \<le> x"
  then have "0 \<le> x / pow2 (lastplace x)" by simp
  then have "round_even 0 \<le> round_even (x / pow2 (lastplace x))" by (rule round_even_mono)
  then show ?thesis by (simp add: rnd_def Let_def)
qed

lemma scaled_upper:
  assumes "0 < x"
  shows "round_even (x / pow2 (lastplace x)) \<le> 2 ^ 53"
proof -
  have "x < pow2 (ilog2 x + 1)" using assms by (rule ilog2_bounds(2))
  also have "\<dots> \<le> pow2 (lastplace x + 53)"
    using assms by (intro pow2_mono) (simp add: lastplace_def)
  also have "\<dots> = pow2 (lastplace x) * 2 ^ 53"
    using pow2_add [of "lastplace x" 53] pow2_of_nat [of 53] by simp
  finally have "x / pow2 (lastplace x) \<le> of_int (2 ^ 53)" by (simp add: field_simps)
  then have "round_even (x / pow2 (lastplace x)) \<le> round_even (of_int (2 ^ 53))"
    by (rule round_even_mono)
  then show ?thesis by (simp only: round_even_of_int)
qed

lemma rnd_upper: "0 < x \<Longrightarrow> rnd x \<le> pow2 (lastplace x + 53)"
proof -
  assume x: "0 < x"
  have "(of_int (round_even (x / pow2 (lastplace x))) :: rat) \<le> of_int (2 ^ 53)"
    using scaled_upper [OF x] of_int_le_iff by blast
  then have "of_int (round_even (x / pow2 (lastplace x))) * pow2 (lastplace x)
      \<le> 2 ^ 53 * pow2 (lastplace x)"
    by (intro mult_right_mono) auto
  also have "\<dots> = pow2 (lastplace x + 53)"
    using pow2_add [of "lastplace x" 53] pow2_of_nat [of 53] by simp
  finally show ?thesis using x by (simp add: rnd_def Let_def)
qed

lemma rnd_lower:
  assumes x: "0 < x" and n: "- 1074 < lastplace x"
  shows "pow2 (lastplace x + 52) \<le> rnd x"
proof -
  from x n have e: "lastplace x + 52 = ilog2 x" by (auto simp: lastplace_def)
  have "pow2 (lastplace x) * 2 ^ 52 = pow2 (lastplace x + 52)"
    using pow2_add [of "lastplace x" 52] pow2_of_nat [of 52] by simp
  also have "\<dots> \<le> x" unfolding e using x by (rule ilog2_bounds(1))
  finally have "of_int (2 ^ 52) \<le> x / pow2 (lastplace x)" by (simp add: field_simps)
  then have "round_even (of_int (2 ^ 52)) \<le> round_even (x / pow2 (lastplace x))"
    by (rule round_even_mono)
  then have "2 ^ 52 \<le> round_even (x / pow2 (lastplace x))" by (simp only: round_even_of_int)
  then have "(of_int (2 ^ 52) :: rat) \<le> of_int (round_even (x / pow2 (lastplace x)))"
    using of_int_le_iff by blast
  then have "2 ^ 52 * pow2 (lastplace x)
      \<le> of_int (round_even (x / pow2 (lastplace x))) * pow2 (lastplace x)"
    by (intro mult_right_mono) auto
  then show ?thesis
    using x pow2_add [of "lastplace x" 52] pow2_of_nat [of 52] by (simp add: rnd_def Let_def)
qed

lemma lastplace_mono: "0 < x \<Longrightarrow> x \<le> y \<Longrightarrow> lastplace x \<le> lastplace y"
  using ilog2_mono [of x y] by (simp add: lastplace_def)

lemma rnd_mono_pos:
  assumes "0 < x" and "x \<le> y"
  shows "rnd x \<le> rnd y"
proof (cases "lastplace x = lastplace y")
  case True
  from assms have "x / pow2 (lastplace y) \<le> y / pow2 (lastplace y)"
    by (intro divide_right_mono) auto
  then have "round_even (x / pow2 (lastplace y)) \<le> round_even (y / pow2 (lastplace y))"
    by (rule round_even_mono)
  then have "(of_int (round_even (x / pow2 (lastplace y))) :: rat)
      \<le> of_int (round_even (y / pow2 (lastplace y)))" by simp
  then show ?thesis
    using assms True by (simp add: rnd_def Let_def mult_right_mono)
next
  case False
  with lastplace_mono [OF assms] have lt: "lastplace x + 1 \<le> lastplace y" by linarith
  have "- 1074 \<le> lastplace x" by (simp add: lastplace_def)
  with lt have n: "- 1074 < lastplace y" by linarith
  have "rnd x \<le> pow2 (lastplace x + 53)" using assms(1) by (rule rnd_upper)
  also have "\<dots> \<le> pow2 (lastplace y + 52)" using lt by (intro pow2_mono) linarith
  also have "\<dots> \<le> rnd y" using assms n by (intro rnd_lower) auto
  finally show ?thesis .
qed

lemma rnd_mono: "x \<le> y \<Longrightarrow> rnd x \<le> rnd y"
proof -
  assume le: "x \<le> y"
  consider "0 < x" | "x \<le> 0" "0 \<le> y" | "y < 0" by linarith
  then show ?thesis
  proof cases
    case 1
    then show ?thesis using le by (rule rnd_mono_pos)
  next
    case 2
    then have "0 \<le> rnd (- x)" "0 \<le> rnd y" by (auto intro!: rnd_nonneg simp del: rnd_minus)
    then show ?thesis by simp
  next
    case 3
    then have "rnd (- y) \<le> rnd (- x)" using le by (intro rnd_mono_pos) auto
    then show ?thesis by simp
  qed
qed

lemma rnd_exact_aux:
  assumes "x = of_int m * pow2 k" and "0 < m" and "m < 2 ^ 53" and "- 1074 \<le> k"
  shows "rnd x = x"
proof -
  have x: "0 < x" using assms by simp
  have "(of_int m :: rat) < of_int (2 ^ 53)" using assms(3) of_int_less_iff by blast
  then have "x < 2 ^ 53 * pow2 k" using assms(1) by simp
  also have "\<dots> = pow2 (k + 53)" using pow2_add [of k 53] pow2_of_nat [of 53] by simp
  finally have "ilog2 x < k + 53" using x by (intro ilog2_less)
  then have lp: "lastplace x \<le> k" using x assms(4) by (simp add: lastplace_def)
  define d where "d = nat (k - lastplace x)"
  define u where "u = pow2 (lastplace x)"
  have u: "u \<noteq> 0" by (simp add: u_def)
  have "pow2 k = pow2 (lastplace x + int d)" using lp by (simp add: d_def)
  then have "pow2 k = u * 2 ^ d" by (simp only: pow2_add pow2_of_nat u_def)
  then have xu: "x = of_int (m * 2 ^ d) * u" using assms(1) by simp
  then have "x / u = of_int (m * 2 ^ d)" using u by simp
  then have "round_even (x / u) = m * 2 ^ d" by (simp only: round_even_of_int)
  moreover have "rnd x = of_int (round_even (x / u)) * u"
    using x by (simp add: rnd_def Let_def u_def)
  ultimately show ?thesis using xu by simp
qed

lemma rnd_exact_pos:
  assumes "x = of_int m * pow2 k" and "0 < m" and "m \<le> 2 ^ 53" and "- 1074 \<le> k"
  shows "rnd x = x"
proof (cases "m = 2 ^ 53")
  case True
  have "x = of_int (2 ^ 52) * pow2 (k + 1)"
    using assms(1) True pow2_add [of k 1] pow2_of_nat [of 1] by simp
  then show ?thesis using assms(4) by (intro rnd_exact_aux [of x "2 ^ 52" "k + 1"]) auto
qed (use assms rnd_exact_aux [of x m k] in auto)

lemma rnd_representable: "representable x \<Longrightarrow> rnd x = x"
proof -
  assume "representable x"
  then obtain m k where mk: "x = of_int m * pow2 k" "\<bar>m\<bar> \<le> 2 ^ 53" "- 1074 \<le> k"
    by (auto simp: representable_def)
  consider "m = 0" | "0 < m" | "m < 0" by linarith
  then show ?thesis
  proof cases
    case 3
    then have "rnd (- x) = - x" using mk by (intro rnd_exact_pos [of _ "- m" k]) auto
    then show ?thesis by simp
  qed (use mk rnd_exact_pos [of x m k] in auto)
qed

lemma representable_minus: "representable x \<Longrightarrow> representable (- x)"
proof -
  assume "representable x"
  then obtain m k where "x = of_int m * pow2 k" "\<bar>m\<bar> \<le> 2 ^ 53" "- 1074 \<le> k"
    by (auto simp: representable_def)
  then have "- x = of_int (- m) * pow2 k \<and> \<bar>- m\<bar> \<le> 2 ^ 53 \<and> - 1074 \<le> k" by simp
  then show ?thesis unfolding representable_def by (intro exI)
qed

lemma representable_rnd [simp]: "representable (rnd x)"
proof -
  have pos: "representable (rnd y)" if y: "0 < y" for y
  proof -
    have "0 \<le> round_even (y / pow2 (lastplace y))"
      using round_even_mono [of 0 "y / pow2 (lastplace y)"] y by simp
    then have "\<bar>round_even (y / pow2 (lastplace y))\<bar> \<le> 2 ^ 53" using scaled_upper [OF y] by simp
    moreover have "- 1074 \<le> lastplace y" by (simp add: lastplace_def)
    ultimately show ?thesis using y by (auto simp: representable_def rnd_def Let_def)
  qed
  consider "x = 0" | "0 < x" | "x < 0" by linarith
  then show ?thesis
  proof cases
    case 1
    have "0 = of_int 0 * pow2 0" by simp
    then show ?thesis using 1 unfolding representable_def by (intro exI [of _ 0]) auto
  next
    case 3
    then have "representable (- rnd (- x))" using pos [of "- x"] by (intro representable_minus) auto
    then show ?thesis by simp
  qed (rule pos)
qed

lemma representable_of_int: "\<bar>n\<bar> \<le> 2 ^ 53 \<Longrightarrow> representable (of_int n)"
  unfolding representable_def by (intro exI [of _ n] exI [of _ 0]) simp

lemma rnd_of_int: "\<bar>n\<bar> \<le> 2 ^ 53 \<Longrightarrow> rnd (of_int n) = of_int n"
  by (intro rnd_representable representable_of_int)

lemma rnd_idem [simp]: "rnd (rnd x) = rnd x"
  by (intro rnd_representable representable_rnd)

lemma rnd_numeral [simp]: "numeral w \<le> (2 ^ 53 :: int) \<Longrightarrow> rnd (numeral w) = numeral w"
  using rnd_of_int [of "numeral w"] by simp

lemma rnd_1 [simp]: "rnd 1 = 1"
  using rnd_of_int [of 1] by simp

lemma representable_0 [simp]: "representable 0" and representable_1 [simp]: "representable 1"
  using representable_of_int [of 0] representable_of_int [of 1] by simp_all

lemma rnd_le_representable: "representable y \<Longrightarrow> x \<le> y \<Longrightarrow> rnd x \<le> y"
  using rnd_mono [of x y] by (simp add: rnd_representable)

lemma rnd_ge_representable: "representable y \<Longrightarrow> y \<le> x \<Longrightarrow> y \<le> rnd x"
  using rnd_mono [of y x] by (simp add: rnd_representable)


section \<open>Number values\<close>

datatype jsnum = Fin rat | PInf | NInf | NaN

text \<open>Rounding an exact result, with overflow to the infinities.\<close>

definition mk :: "rat \<Rightarrow> jsnum" where
  "mk x = (let r = rnd x in
     if max_finite < r then PInf else if r < - max_finite then NInf else Fin r)"

text \<open>The value of a numeric literal, and the integers of the sources.\<close>

abbreviation lit :: "rat \<Rightarrow> jsnum" where
  "lit x \<equiv> mk x"

abbreviation num :: "int \<Rightarrow> jsnum" where
  "num n \<equiv> Fin (of_int n)"

definition MAX_SAFE_INTEGER :: jsnum where
  "MAX_SAFE_INTEGER = Fin 9007199254740991"

subsection \<open>Arithmetic\<close>

fun jneg :: "jsnum \<Rightarrow> jsnum" where
  "jneg (Fin a) = Fin (- a)"
| "jneg PInf = NInf"
| "jneg NInf = PInf"
| "jneg NaN = NaN"

fun jadd :: "jsnum \<Rightarrow> jsnum \<Rightarrow> jsnum" where
  "jadd (Fin a) (Fin b) = mk (a + b)"
| "jadd NaN _ = NaN"
| "jadd _ NaN = NaN"
| "jadd PInf NInf = NaN"
| "jadd NInf PInf = NaN"
| "jadd PInf _ = PInf"
| "jadd _ PInf = PInf"
| "jadd NInf _ = NInf"
| "jadd _ NInf = NInf"

definition jsub :: "jsnum \<Rightarrow> jsnum \<Rightarrow> jsnum" where
  "jsub x y = jadd x (jneg y)"

fun jsgn :: "jsnum \<Rightarrow> rat" where
  "jsgn (Fin a) = sgn a"
| "jsgn PInf = 1"
| "jsgn NInf = - 1"
| "jsgn NaN = 0"

text \<open>The infinity (or NaN for a zero sign) with a given sign.\<close>

definition inf_of_sign :: "rat \<Rightarrow> jsnum" where
  "inf_of_sign s = (if 0 < s then PInf else if s < 0 then NInf else NaN)"

fun jmul :: "jsnum \<Rightarrow> jsnum \<Rightarrow> jsnum" where
  "jmul (Fin a) (Fin b) = mk (a * b)"
| "jmul x y = inf_of_sign (jsgn x * jsgn y)"

fun jdiv :: "jsnum \<Rightarrow> jsnum \<Rightarrow> jsnum" where
  "jdiv (Fin a) (Fin b) = (if b = 0 then inf_of_sign (sgn a) else mk (a / b))"
| "jdiv NaN _ = NaN"
| "jdiv _ NaN = NaN"
| "jdiv (Fin a) _ = Fin 0"
| "jdiv x (Fin b) = inf_of_sign (jsgn x * (if b = 0 then 1 else sgn b))"
| "jdiv _ _ = NaN"

fun jabs :: "jsnum \<Rightarrow> jsnum" where
  "jabs (Fin a) = Fin \<bar>a\<bar>"
| "jabs NaN = NaN"
| "jabs _ = PInf"

text \<open>\<open>Math.round\<close> rounds half up; \<open>Math.floor\<close> and \<open>Math.ceil\<close> are exact.\<close>

fun jround :: "jsnum \<Rightarrow> jsnum" where
  "jround (Fin a) = num \<lfloor>a + 1/2\<rfloor>"
| "jround x = x"

fun jfloor :: "jsnum \<Rightarrow> jsnum" where
  "jfloor (Fin a) = num \<lfloor>a\<rfloor>"
| "jfloor x = x"

fun jceil :: "jsnum \<Rightarrow> jsnum" where
  "jceil (Fin a) = num \<lceil>a\<rceil>"
| "jceil x = x"

subsection \<open>Comparison\<close>

text \<open>The operators \<open><\<close> and \<open><=\<close>: false as soon as one side is NaN.\<close>

fun jlt :: "jsnum \<Rightarrow> jsnum \<Rightarrow> bool" where
  "jlt (Fin a) (Fin b) = (a < b)"
| "jlt NaN _ = False"
| "jlt _ NaN = False"
| "jlt PInf _ = False"
| "jlt _ NInf = False"
| "jlt _ _ = True"

definition jle :: "jsnum \<Rightarrow> jsnum \<Rightarrow> bool" where
  "jle x y \<longleftrightarrow> x \<noteq> NaN \<and> y \<noteq> NaN \<and> \<not> jlt y x"

text \<open>Strict equality \<open>===\<close> on numbers.\<close>

definition jeq :: "jsnum \<Rightarrow> jsnum \<Rightarrow> bool" where
  "jeq x y \<longleftrightarrow> x \<noteq> NaN \<and> x = y"

fun is_finite :: "jsnum \<Rightarrow> bool" where
  "is_finite (Fin _) = True"
| "is_finite _ = False"

fun is_integer :: "jsnum \<Rightarrow> bool" where
  "is_integer (Fin a) = (of_int \<lfloor>a\<rfloor> = a)"
| "is_integer _ = False"

definition is_safe_integer :: "jsnum \<Rightarrow> bool" where
  "is_safe_integer x \<longleftrightarrow> is_integer x \<and> jle (jabs x) MAX_SAFE_INTEGER"

text \<open>A number used as a condition: zero and NaN are falsy.\<close>

definition truthy_num :: "jsnum \<Rightarrow> bool" where
  "truthy_num x \<longleftrightarrow> x \<noteq> NaN \<and> x \<noteq> Fin 0"

text \<open>\<open>Math.max\<close> and \<open>Math.min\<close>, of two and of many arguments.\<close>

definition jmax :: "jsnum \<Rightarrow> jsnum \<Rightarrow> jsnum" where
  "jmax x y = (if x = NaN \<or> y = NaN then NaN else if jlt x y then y else x)"

definition jmin :: "jsnum \<Rightarrow> jsnum \<Rightarrow> jsnum" where
  "jmin x y = (if x = NaN \<or> y = NaN then NaN else if jlt y x then y else x)"

definition jmax_list :: "jsnum list \<Rightarrow> jsnum" where
  "jmax_list xs = foldl jmax NInf xs"

definition jmin_list :: "jsnum list \<Rightarrow> jsnum" where
  "jmin_list xs = foldl jmin PInf xs"

text \<open>
  \<open>Number(x.toFixed(d))\<close>: the decimal with \<open>d\<close> places nearest to \<open>x\<close> (the larger
  on a tie, in magnitude), read back.  From \<open>10 ^ 21\<close> on \<open>toFixed\<close> prints the number
  itself.
\<close>

definition fixed_units :: "nat \<Rightarrow> rat \<Rightarrow> int" where
  "fixed_units d a = (if 0 \<le> a then \<lfloor>a * 10 ^ d + 1/2\<rfloor> else - \<lfloor>- a * 10 ^ d + 1/2\<rfloor>)"

fun to_fixed_number :: "nat \<Rightarrow> jsnum \<Rightarrow> jsnum" where
  "to_fixed_number d (Fin a) =
     (if 10 ^ 21 \<le> \<bar>a\<bar> then Fin a else mk (of_int (fixed_units d a) / 10 ^ d))"
| "to_fixed_number d x = x"

text \<open>The numbers a program can hold: finite values are binary64 values.\<close>

fun binary64 :: "jsnum \<Rightarrow> bool" where
  "binary64 (Fin a) = (representable a \<and> \<bar>a\<bar> \<le> max_finite)"
| "binary64 _ = True"


section \<open>Laws of the arithmetic\<close>

named_theorems num_eval \<open>equations that evaluate number operations on concrete values\<close>

lemma jle_Fin [simp]: "jle (Fin a) (Fin b) \<longleftrightarrow> a \<le> b"
  by (auto simp: jle_def)

lemma jeq_Fin [simp]: "jeq (Fin a) (Fin b) \<longleftrightarrow> a = b"
  by (simp add: jeq_def)

lemma jle_NaN [simp]: "\<not> jle NaN x" "\<not> jle x NaN"
  by (simp_all add: jle_def)

lemma jlt_NaN [simp]: "\<not> jlt NaN x" "\<not> jlt x NaN"
  by (cases x; simp)+

lemma jlt_NInf [simp]: "\<not> jlt x NInf" and jlt_PInf [simp]: "\<not> jlt PInf x"
  by (cases x; simp)+

lemma jle_PInf [simp]: "jle x PInf \<longleftrightarrow> x \<noteq> NaN" and jle_NInf [simp]: "jle NInf x \<longleftrightarrow> x \<noteq> NaN"
  by (cases x; simp add: jle_def)+

lemma jle_refl [simp]: "jle x x \<longleftrightarrow> x \<noteq> NaN"
  by (cases x) (auto simp: jle_def)

lemma jle_trans: "jle x y \<Longrightarrow> jle y z \<Longrightarrow> jle x z"
  by (cases x; cases y; cases z) (auto simp: jle_def)

lemma jle_lt_trans: "jle x y \<Longrightarrow> jlt y z \<Longrightarrow> jlt x z"
  by (cases x; cases y; cases z) (auto simp: jle_def)

lemma jlt_le_trans: "jlt x y \<Longrightarrow> jle y z \<Longrightarrow> jlt x z"
  by (cases x; cases y; cases z) (auto simp: jle_def)

lemma jlt_imp_jle: "jlt x y \<Longrightarrow> jle x y"
  by (cases x; cases y) (auto simp: jle_def)

lemma not_jlt: "x \<noteq> NaN \<Longrightarrow> y \<noteq> NaN \<Longrightarrow> \<not> jlt x y \<longleftrightarrow> jle y x"
  by (auto simp: jle_def)

lemma jle_antisym: "jle x y \<Longrightarrow> jle y x \<Longrightarrow> x = y"
  by (cases x; cases y) (auto simp: jle_def)

subsection \<open>Rounded results\<close>

lemma representable_max_finite [simp]: "representable max_finite"
proof -
  have "max_finite = of_int (2 ^ 53 - 1) * pow2 971"
    using pow2_of_nat [of 971] by (simp add: max_finite_def)
  then show ?thesis unfolding representable_def by (intro exI [of _ "2 ^ 53 - 1"] exI [of _ 971]) simp
qed

lemma max_finite_ge: "2 ^ 53 \<le> max_finite"
proof -
  have "(2::rat) ^ 52 * 2 \<le> (2 ^ 53 - 1) * 2 ^ 971" by (intro mult_mono) simp_all
  then show ?thesis by (simp add: max_finite_def)
qed

lemma max_finite_pos [simp]: "0 < max_finite" and max_finite_nonneg [simp]: "0 \<le> max_finite"
  using max_finite_ge by simp_all

lemma mk_bounded: "\<bar>x\<bar> \<le> max_finite \<Longrightarrow> mk x = Fin (rnd x)"
proof -
  assume b: "\<bar>x\<bar> \<le> max_finite"
  then have "rnd x \<le> max_finite" by (intro rnd_le_representable) auto
  moreover have "- max_finite \<le> rnd x"
    using b by (intro rnd_ge_representable representable_minus) auto
  ultimately show ?thesis by (simp add: mk_def Let_def)
qed

lemma mk_exact: "binary64 (Fin x) \<Longrightarrow> mk x = Fin x"
  by (simp add: mk_bounded rnd_representable)

lemma mk_not_NaN [simp]: "mk x \<noteq> NaN"
  by (simp add: mk_def Let_def)

lemma binary64_mk [simp]: "binary64 (mk x)"
  by (auto simp: mk_def Let_def)

lemma mk_mono: "x \<le> y \<Longrightarrow> jle (mk x) (mk y)"
proof -
  assume "x \<le> y"
  then have r: "rnd x \<le> rnd y" by (rule rnd_mono)
  show ?thesis
  proof (cases "rnd x < - max_finite \<or> max_finite < rnd y")
    case True
    then show ?thesis using r max_finite_pos unfolding mk_def Let_def by (auto simp: jle_def)
  next
    case False
    then show ?thesis using r by (simp add: mk_def Let_def)
  qed
qed

lemma binary64_int: "\<bar>n\<bar> \<le> 2 ^ 53 \<Longrightarrow> binary64 (num n)"
proof -
  assume n: "\<bar>n\<bar> \<le> 2 ^ 53"
  then have "(of_int \<bar>n\<bar> :: rat) \<le> of_int (2 ^ 53)" using of_int_le_iff by blast
  also have "\<dots> \<le> max_finite" using max_finite_ge by simp
  finally show ?thesis using n by (simp add: representable_of_int)
qed

lemma mk_of_int: "\<bar>n\<bar> \<le> 2 ^ 53 \<Longrightarrow> mk (of_int n) = num n"
  by (intro mk_exact binary64_int)

lemma mk_0 [simp, num_eval]: "mk 0 = Fin 0" and mk_1 [simp, num_eval]: "mk 1 = Fin 1"
  using mk_of_int [of 0] mk_of_int [of 1] by simp_all

lemma mk_numeral [simp, num_eval]: "numeral w \<le> (2 ^ 53 :: int) \<Longrightarrow> mk (numeral w) = Fin (numeral w)"
  using mk_of_int [of "numeral w"] by simp

lemma mk_neg_numeral [simp, num_eval]:
  "numeral w \<le> (2 ^ 53 :: int) \<Longrightarrow> mk (- numeral w) = Fin (- numeral w)"
  using mk_of_int [of "- numeral w"] by simp

text \<open>Rounding an integer gives an integer, and moves a value below \<open>2 ^ 53\<close> by at most a half.\<close>

lemma rnd_near: "\<bar>x\<bar> \<le> 2 ^ 53 \<Longrightarrow> \<bar>rnd x - x\<bar> \<le> 1/2"
proof (cases "\<bar>x\<bar> = 2 ^ 53 \<or> x = 0")
  case True
  then consider "x = 2 ^ 53" | "x = - (2 ^ 53)" | "x = 0" by (auto simp: abs_if split: if_splits)
  then have "rnd x = x"
  proof cases
    case 1
    then show ?thesis using rnd_of_int [of "2 ^ 53"] by simp
  next
    case 2
    then show ?thesis using rnd_of_int [of "- (2 ^ 53)"] by simp
  qed simp
  then show ?thesis by simp
next
  case False
  assume "\<bar>x\<bar> \<le> 2 ^ 53"
  with False have lt: "\<bar>x\<bar> < pow2 53" and x: "0 < \<bar>x\<bar>" using pow2_of_nat [of 53] by auto
  define u where "u = pow2 (lastplace x)"
  have "lastplace x \<le> 0" using ilog2_less [OF x lt] by (simp add: lastplace_def)
  then have "u \<le> pow2 0" unfolding u_def by (rule pow2_mono)
  then have u: "0 < u" "u \<le> 1" by (simp_all add: u_def)
  have "rnd x - x = (of_int (round_even (x / u)) - x / u) * u"
    using x u by (simp add: rnd_def Let_def u_def left_diff_distrib)
  then have "\<bar>rnd x - x\<bar> = \<bar>of_int (round_even (x / u)) - x / u\<bar> * u" using u by (simp add: abs_mult)
  also have "\<dots> \<le> 1/2 * 1" using u round_even_near [of "x / u"] by (intro mult_mono) auto
  finally show ?thesis by simp
qed

lemma rnd_Ints: "rnd (of_int n) \<in> \<int>"
proof (cases "\<bar>n\<bar> \<le> 2 ^ 53")
  case True
  then show ?thesis by (simp add: rnd_of_int)
next
  case False
  then have "pow2 53 \<le> \<bar>of_int n\<bar>"
  proof -
    from False have "(of_int (2 ^ 53) :: rat) \<le> of_int \<bar>n\<bar>" by (intro of_int_le_iff [THEN iffD2]) linarith
    then show ?thesis using pow2_of_nat [of 53] by simp
  qed
  moreover have "\<bar>of_int n :: rat\<bar> < pow2 (ilog2 \<bar>of_int n\<bar> + 1)"
    using False by (intro ilog2_bounds(2)) auto
  ultimately have "pow2 53 < pow2 (ilog2 \<bar>of_int n :: rat\<bar> + 1)" by linarith
  then have "53 < ilog2 \<bar>of_int n :: rat\<bar> + 1" by (rule pow2_less_cancel)
  then have "0 \<le> lastplace (of_int n)" by (simp add: lastplace_def)
  then have "pow2 (lastplace (of_int n)) = of_int (2 ^ nat (lastplace (of_int n)))"
    by (simp add: pow2_def)
  then show ?thesis using False by (auto simp: rnd_def Let_def simp del: of_int_power)
qed

lemma is_integer_num [simp]: "is_integer (num n)"
  by simp

lemma is_integer_iff: "is_integer x \<longleftrightarrow> (\<exists>n. x = num n)"
proof (cases x)
  case (Fin a)
  have "of_int \<lfloor>a\<rfloor> = a" if "a = of_int n" for n :: int
    using that by simp
  with Fin show ?thesis by (auto intro: exI [of _ "\<lfloor>a\<rfloor>"])
qed simp_all


subsection \<open>Finite results come from finite operands\<close>

named_theorems finite_dest \<open>what a finite result says of the operands\<close>

lemma jadd_FinD [finite_dest]: "jadd x y = Fin c \<Longrightarrow> \<exists>a b. x = Fin a \<and> y = Fin b"
  by (cases x; cases y) auto

lemma jneg_FinD: "jneg x = Fin c \<Longrightarrow> x = Fin (- c)"
  by (cases x) auto

lemma jsub_FinD [finite_dest]: "jsub x y = Fin c \<Longrightarrow> \<exists>a b. x = Fin a \<and> y = Fin b"
  unfolding jsub_def by (drule jadd_FinD) (auto dest: jneg_FinD)

lemma inf_of_sign_not_Fin [simp]: "inf_of_sign s \<noteq> Fin c"
  by (simp add: inf_of_sign_def)

lemma jmul_FinD [finite_dest]: "jmul x y = Fin c \<Longrightarrow> \<exists>a b. x = Fin a \<and> y = Fin b"
  by (cases x; cases y) auto

lemma jdiv_FinD [finite_dest]: "jdiv x (Fin b) = Fin c \<Longrightarrow> \<exists>a. x = Fin a"
  by (cases x) auto

lemma jround_FinD [finite_dest]: "jround x = Fin c \<Longrightarrow> \<exists>a. x = Fin a \<and> c = of_int \<lfloor>a + 1/2\<rfloor>"
  by (cases x) auto

lemma jfloor_FinD [finite_dest]: "jfloor x = Fin c \<Longrightarrow> \<exists>a. x = Fin a \<and> c = of_int \<lfloor>a\<rfloor>"
  by (cases x) auto

lemma mk_FinD: "mk a = Fin c \<Longrightarrow> c = rnd a \<and> \<bar>c\<bar> \<le> max_finite"
  by (auto simp: mk_def Let_def split: if_splits)

lemma jle_FinD: "jle x (Fin b) \<Longrightarrow> jle (Fin a) x \<Longrightarrow> \<exists>c. x = Fin c \<and> a \<le> c \<and> c \<le> b"
  by (cases x) (auto simp: jle_def)

subsection \<open>Signs\<close>

lemma jle_0_mk [simp]: "0 \<le> a \<Longrightarrow> jle (Fin 0) (mk a)"
  using mk_mono [of 0 a] by simp

lemma jle_mk_0 [simp]: "a \<le> 0 \<Longrightarrow> jle (mk a) (Fin 0)"
  using mk_mono [of a 0] by simp

lemma jround_nonneg: "jle (Fin 0) x \<Longrightarrow> jle (Fin 0) (jround x)"
  by (cases x) (auto simp: jle_def not_less)

lemma jfloor_nonneg: "jle (Fin 0) x \<Longrightarrow> jle (Fin 0) (jfloor x)"
  by (cases x) (auto simp: jle_def not_less)

lemma jle_NInf_right [simp]: "jle x NInf \<longleftrightarrow> x = NInf"
  by (cases x) (auto simp: jle_def)

lemma jle_PInf_left [simp]: "jle PInf x \<longleftrightarrow> x = PInf"
  by (cases x) (auto simp: jle_def)

lemma jadd_nonneg: "jle (Fin 0) x \<Longrightarrow> jle (Fin 0) y \<Longrightarrow> jle (Fin 0) (jadd x y)"
  by (cases x; cases y) auto

lemma jmul_nonneg: "0 \<le> a \<Longrightarrow> 0 \<le> b \<Longrightarrow> jle (Fin 0) (jmul (Fin a) (Fin b))"
  by simp

lemma jmax_ge: "x \<noteq> NaN \<Longrightarrow> y \<noteq> NaN \<Longrightarrow> jle x (jmax x y) \<and> jle y (jmax x y)"
  by (cases x; cases y) (auto simp: jmax_def jle_def)

lemma jmin_le: "x \<noteq> NaN \<Longrightarrow> y \<noteq> NaN \<Longrightarrow> jle (jmin x y) x \<and> jle (jmin x y) y"
  by (cases x; cases y) (auto simp: jmin_def jle_def)

subsection \<open>Integers\<close>

lemma jround_int: "is_integer x \<Longrightarrow> jround x = x"
proof -
  assume "is_integer x"
  then obtain n where n: "x = num n" by (auto simp: is_integer_iff)
  have "\<lfloor>of_int n + 1/2 :: rat\<rfloor> = n" by linarith
  with n show ?thesis by simp
qed

lemma jadd_int: "is_integer x \<Longrightarrow> is_integer y \<Longrightarrow> is_finite (jadd x y) \<Longrightarrow> is_integer (jadd x y)"
proof -
  assume x: "is_integer x" and y: "is_integer y" and f: "is_finite (jadd x y)"
  from x y obtain m n where mn: "x = num m" "y = num n" by (auto simp: is_integer_iff)
  from f obtain c where c: "jadd x y = Fin c" by (cases "jadd x y") auto
  with mn have "c = rnd (of_int (m + n))" by (auto dest!: mk_FinD)
  then obtain k where "c = of_int k" using rnd_Ints [of "m + n"] by (auto elim: Ints_cases)
  with c show ?thesis by simp
qed

text \<open>Below \<open>2 ^ 53\<close> the addition of non-negative integers is exact.\<close>

lemma jadd_exact:
  assumes "0 \<le> m" and "0 \<le> n" and le: "jle (jadd (num m) (num n)) (Fin 9007199254740991)"
  shows "jadd (num m) (num n) = num (m + n) \<and> m + n \<le> 9007199254740991"
proof -
  have b: "m + n < 2 ^ 53"
  proof (rule ccontr)
    assume "\<not> m + n < 2 ^ 53"
    then have "(of_int (2 ^ 53) :: rat) \<le> of_int (m + n)" by (simp only: of_int_le_iff not_less)
    then have "jle (mk (of_int (2 ^ 53))) (mk (of_int m + of_int n))" by (intro mk_mono) simp
    then have "jle (Fin (2 ^ 53)) (jadd (num m) (num n))" by simp
    from jle_trans [OF this le] show False by simp
  qed
  then have "mk (of_int (m + n)) = num (m + n)" using assms by (intro mk_of_int) auto
  with b show ?thesis by simp
qed

lemma jsub_exact:
  "0 \<le> n \<Longrightarrow> n \<le> m \<Longrightarrow> m \<le> 9007199254740991 \<Longrightarrow> jsub (num m) (num n) = num (m - n)"
  using mk_of_int [of "m - n"] by (simp add: jsub_def)

subsection \<open>Values that are not negative\<close>

text \<open>
  NaN or at least zero: the values that no comparison finds negative.  Every operation but
  subtraction keeps to them, so that a result which is also bounded is a number.
\<close>

definition not_neg :: "jsnum \<Rightarrow> bool" where
  "not_neg x \<longleftrightarrow> \<not> jlt x (Fin 0)"

named_theorems not_neg_intros \<open>operations that keep to values that are not negative\<close>

lemma not_neg_iff: "not_neg x \<longleftrightarrow> x = NaN \<or> jle (Fin 0) x"
  by (cases x) (auto simp: not_neg_def jle_def)

lemma not_neg_Fin [simp]: "not_neg (Fin a) \<longleftrightarrow> 0 \<le> a"
  by (auto simp: not_neg_iff)

lemma not_neg_mk [not_neg_intros]: "0 \<le> a \<Longrightarrow> not_neg (mk a)"
  by (simp add: not_neg_iff)

lemma not_neg_simps [simp]: "not_neg NaN" "not_neg PInf" "\<not> not_neg NInf"
  by (simp_all add: not_neg_def)

lemma not_neg_le: "not_neg x \<Longrightarrow> jle x (Fin b) \<Longrightarrow> \<exists>a. x = Fin a \<and> 0 \<le> a \<and> a \<le> b"
  by (cases x) auto

lemma not_neg_jle: "jle (Fin 0) x \<Longrightarrow> not_neg x"
  by (simp add: not_neg_iff)

lemma not_neg_inf: "0 \<le> s \<Longrightarrow> not_neg (inf_of_sign s)"
  by (simp add: inf_of_sign_def)

lemma sgn_nonneg: "0 \<le> a \<Longrightarrow> 0 \<le> (sgn a :: rat)"
  by (simp add: sgn_if)

lemma not_neg_jadd [not_neg_intros]: "not_neg x \<Longrightarrow> not_neg y \<Longrightarrow> not_neg (jadd x y)"
  by (cases x; cases y) (auto intro: not_neg_intros)

lemma not_neg_jmul [not_neg_intros]: "not_neg x \<Longrightarrow> not_neg y \<Longrightarrow> not_neg (jmul x y)"
  by (cases x; cases y) (auto intro: not_neg_intros not_neg_inf sgn_nonneg)

lemma not_neg_jdiv [not_neg_intros]: "not_neg x \<Longrightarrow> not_neg y \<Longrightarrow> not_neg (jdiv x y)"
  by (cases x; cases y) (auto intro: not_neg_intros not_neg_inf sgn_nonneg)

lemma not_neg_jround [not_neg_intros]: "not_neg x \<Longrightarrow> not_neg (jround x)"
  by (cases x) auto

lemma not_neg_jfloor [not_neg_intros]: "not_neg x \<Longrightarrow> not_neg (jfloor x)"
  by (cases x) auto

lemma not_neg_jabs [not_neg_intros]: "not_neg (jabs x)"
  by (cases x) auto

lemma not_neg_jmax0 [not_neg_intros]: "not_neg (jmax (Fin 0) x)"
  by (cases x) (auto simp: jmax_def)

lemma not_neg_jmin [not_neg_intros]: "not_neg x \<Longrightarrow> not_neg y \<Longrightarrow> not_neg (jmin x y)"
  by (auto simp: jmin_def)

lemma not_neg_fixed [not_neg_intros]: "not_neg x \<Longrightarrow> not_neg (to_fixed_number d x)"
  by (cases x) (auto simp: fixed_units_def intro!: not_neg_mk)

text \<open>Amounts: whatever is not negative and, if finite, an integer.\<close>

definition int_amount :: "jsnum \<Rightarrow> bool" where
  "int_amount x \<longleftrightarrow> not_neg x \<and> (is_finite x \<longrightarrow> is_integer x)"

lemma int_amount_jround [not_neg_intros]: "not_neg x \<Longrightarrow> int_amount (jround x)"
  by (cases x) (auto simp: int_amount_def)

lemma int_amount_jadd [not_neg_intros]: "int_amount x \<Longrightarrow> int_amount y \<Longrightarrow> int_amount (jadd x y)"
proof -
  assume x: "int_amount x" and y: "int_amount y"
  have "is_integer x \<and> is_integer y" if f: "is_finite (jadd x y)"
  proof -
    from f obtain c where "jadd x y = Fin c" by (cases "jadd x y") auto
    with x y show ?thesis by (auto simp: int_amount_def dest: jadd_FinD)
  qed
  with x y show ?thesis by (auto simp: int_amount_def intro: not_neg_jadd jadd_int)
qed

lemma int_amount_num [simp]: "int_amount (num n) \<longleftrightarrow> 0 \<le> n"
  by (simp add: int_amount_def)

lemma int_amount_0 [simp]: "int_amount (Fin 0)"
  by (simp add: int_amount_def)

lemma int_amountE:
  assumes "int_amount x" and "jle x (Fin b)"
  obtains n where "x = num n" "0 \<le> n"
  using assms by (cases x) (auto simp: int_amount_def elim: that is_integer_iff [THEN iffD1, THEN exE])

text \<open>A bounded sum of amounts is exact, and bounds its terms.\<close>

lemma int_amount_sum:
  assumes "int_amount x" and "int_amount y" and "jle (jadd x y) (Fin 9007199254740991)"
  obtains m n where "x = num m" "y = num n" "0 \<le> m" "0 \<le> n" "jadd x y = num (m + n)"
    "m + n \<le> 9007199254740991"
proof -
  from assms have "not_neg (jadd x y)" by (auto simp: int_amount_def intro: not_neg_jadd)
  from not_neg_le [OF this assms(3)] obtain r where "jadd x y = Fin r" by blast
  from jadd_FinD [OF this] obtain a b where "x = Fin a" "y = Fin b" by blast
  with assms(1,2) obtain m n where mn: "x = num m" "y = num n" "0 \<le> m" "0 \<le> n"
    by (auto simp: int_amount_def is_integer_iff)
  with assms(3) jadd_exact [of m n] that show thesis by auto
qed

subsection \<open>Bounded magnitudes\<close>

text \<open>A finite value between 0 and \<open>2 ^ k\<close>; sums and products of such values do not overflow.\<close>

definition capped :: "nat \<Rightarrow> jsnum \<Rightarrow> bool" where
  "capped k x \<longleftrightarrow> is_finite x \<and> jle (Fin 0) x \<and> jle x (Fin (2 ^ k))"

lemma capped_Fin [simp]: "capped k (Fin a) \<longleftrightarrow> 0 \<le> a \<and> a \<le> 2 ^ k"
  by (auto simp: capped_def)

lemma cappedE: "capped k x \<Longrightarrow> (\<And>a. x = Fin a \<Longrightarrow> 0 \<le> a \<Longrightarrow> a \<le> 2 ^ k \<Longrightarrow> thesis) \<Longrightarrow> thesis"
  by (cases x) (auto simp: capped_def)

lemma capped_mono: "capped k x \<Longrightarrow> k \<le> m \<Longrightarrow> capped m x"
proof (erule cappedE)
  fix a assume "x = Fin a" "0 \<le> a" "a \<le> 2 ^ k" "k \<le> m"
  moreover have "(2::rat) ^ k \<le> 2 ^ m" using \<open>k \<le> m\<close> by (intro power_increasing) auto
  ultimately show ?thesis by (auto intro: order_trans)
qed

lemma representable_power: "k \<le> 1000 \<Longrightarrow> representable (2 ^ k)"
  unfolding representable_def using pow2_of_nat [of k]
  by (intro exI [of _ 1] exI [of _ "int k"]) simp

lemma power_le_max_finite: "k \<le> 1000 \<Longrightarrow> 2 ^ k \<le> max_finite"
proof -
  assume "k \<le> 1000"
  then have "(2::rat) ^ k \<le> 2 ^ 29 * 2 ^ 971"
    unfolding power_add [symmetric] by (intro power_increasing) auto
  also have "\<dots> \<le> (2 ^ 53 - 1) * 2 ^ 971" by (intro mult_right_mono) auto
  finally show ?thesis by (simp add: max_finite_def)
qed

lemma capped_mk: "k \<le> 1000 \<Longrightarrow> 0 \<le> a \<Longrightarrow> a \<le> 2 ^ k \<Longrightarrow> capped k (mk a)"
proof -
  assume k: "k \<le> 1000" and a: "0 \<le> a" "a \<le> 2 ^ k"
  then have "\<bar>a\<bar> \<le> max_finite" using power_le_max_finite [OF k] by simp
  with k a show ?thesis
    by (simp add: mk_bounded rnd_nonneg rnd_le_representable representable_power)
qed

lemma capped_jadd: "capped k x \<Longrightarrow> capped k y \<Longrightarrow> k < 1000 \<Longrightarrow> capped (Suc k) (jadd x y)"
  by (erule cappedE, erule cappedE) (auto intro!: capped_mk)

lemma capped_jmul: "capped k x \<Longrightarrow> capped m y \<Longrightarrow> k + m \<le> 1000 \<Longrightarrow> capped (k + m) (jmul x y)"
  by (erule cappedE, erule cappedE) (auto intro!: capped_mk mult_mono simp: power_add)

lemma capped_jdiv: "capped k x \<Longrightarrow> jle (Fin 1) y \<Longrightarrow> k \<le> 1000 \<Longrightarrow> capped k (jdiv x y)"
proof (erule cappedE)
  fix a assume x: "x = Fin a" "0 \<le> a" "a \<le> 2 ^ k" and y: "jle (Fin 1) y" and k: "k \<le> 1000"
  show ?thesis
  proof (cases y)
    case (Fin b)
    with y have b: "1 \<le> b" by simp
    with x have "a / b \<le> a / 1" by (intro divide_left_mono) auto
    with x b k Fin show ?thesis by (auto intro!: capped_mk)
  qed (use x y in auto)
qed

lemma floor_half_le: "a \<le> of_int n \<Longrightarrow> (of_int \<lfloor>a + 1/2 :: rat\<rfloor> :: rat) \<le> of_int n"
  by (simp only: of_int_le_iff) linarith

lemma capped_jround: "capped k x \<Longrightarrow> capped k (jround x)"
proof (erule cappedE)
  fix a assume x: "x = Fin a" "0 \<le> a" "a \<le> 2 ^ k"
  then have "(of_int \<lfloor>a + 1/2\<rfloor> :: rat) \<le> of_int (2 ^ k)" by (intro floor_half_le) simp
  with x show ?thesis by simp
qed

lemma capped_jfloor: "capped k x \<Longrightarrow> capped k (jfloor x)"
proof (erule cappedE)
  fix a assume x: "x = Fin a" "0 \<le> a" "a \<le> 2 ^ k"
  then have "(of_int \<lfloor>a\<rfloor> :: rat) \<le> 2 ^ k" by linarith
  with x show ?thesis by simp
qed

lemma capped_fixed:
  assumes "capped k x" and "k < 1000" and "d \<le> 20"
  shows "capped (Suc k) (to_fixed_number d x)"
proof -
  from assms(1) obtain a where x: "x = Fin a" "0 \<le> a" "a \<le> 2 ^ k" by (elim cappedE)
  define u where "u = fixed_units d a"
  have p: "(1::rat) \<le> 10 ^ d" by simp
  have u: "of_int u \<le> a * 10 ^ d + 1/2" "0 \<le> u" using x by (auto simp: u_def fixed_units_def)
  then have "of_int u / 10 ^ d \<le> (a * 10 ^ d + 1/2) / 10 ^ d" by (intro divide_right_mono) auto
  also have "\<dots> = a + 1/2 / 10 ^ d" by (simp add: add_divide_distrib)
  also have "\<dots> \<le> a + 1"
  proof -
    have "1 * 1 \<le> 2 * (10::rat) ^ d" using p by (intro mult_mono) auto
    then show ?thesis by (simp add: divide_le_eq)
  qed
  also have "\<dots> \<le> 2 ^ k + 2 ^ k" using x by (intro add_mono) auto
  finally have "(of_int u :: rat) / 10 ^ d \<le> 2 ^ Suc k" by simp
  then have "capped (Suc k) (mk (of_int u / 10 ^ d))" using u assms(2) by (intro capped_mk) auto
  then show ?thesis using x by (auto simp: u_def)
qed

text \<open>Adding less than half a unit of the last place to a finite value does not overflow.\<close>

lemma round_even_le: "x < of_int n + 1/2 \<Longrightarrow> round_even x \<le> n"
proof -
  assume x: "x < of_int n + 1/2"
  then consider "\<lfloor>x\<rfloor> < n" | "\<lfloor>x\<rfloor> = n" by linarith
  then show ?thesis
  proof cases
    case 1
    then show ?thesis using round_even_floor1 [of x] by linarith
  next
    case 2
    with x show ?thesis by (simp add: round_even_def)
  qed
qed

lemma rnd_no_overflow:
  assumes "0 \<le> x" and "x < max_finite + 2 ^ 970"
  shows "rnd x \<le> max_finite"
proof (cases "x \<le> max_finite")
  case True
  then show ?thesis by (intro rnd_le_representable) auto
next
  case False
  then have x: "0 < x" "max_finite < x" using max_finite_pos by linarith+
  have "pow2 1023 \<le> max_finite"
    using pow2_of_nat [of 1023] by (simp add: max_finite_def)
  then have "pow2 1023 \<le> x" using x by linarith
  then have lo: "pow2 1023 < pow2 (ilog2 x + 1)" using ilog2_bounds(2) [OF x(1)] by linarith
  have "max_finite + 2 ^ 970 < pow2 1024"
    using pow2_of_nat [of 1024] by (simp add: max_finite_def)
  then have "ilog2 x < 1024" using x assms(2) by (intro ilog2_less) linarith+
  with pow2_less_cancel [OF lo] have "ilog2 x = 1023" by linarith
  then have lp: "lastplace x = 971" using x by (simp add: lastplace_def)
  have u: "pow2 971 = 2 ^ 971" using pow2_of_nat [of 971] by simp
  have "x < ((2 ^ 53 - 1) + 1/2) * 2 ^ 971"
    using assms(2) by (simp add: max_finite_def algebra_simps)
  then have "x / 2 ^ 971 < of_int (2 ^ 53 - 1) + 1/2" by (simp add: divide_less_eq)
  then have "round_even (x / 2 ^ 971) \<le> 2 ^ 53 - 1" by (rule round_even_le)
  then have "(of_int (round_even (x / 2 ^ 971)) :: rat) \<le> of_int (2 ^ 53 - 1)"
    by (simp only: of_int_le_iff)
  then have "of_int (round_even (x / 2 ^ 971)) * 2 ^ 971 \<le> (max_finite :: rat)"
    unfolding max_finite_def by (intro mult_right_mono) auto
  then show ?thesis using x by (simp add: rnd_def Let_def lp u)
qed

subsection \<open>Evaluation on concrete values\<close>

lemma bitlen_numeral [num_eval]: "bitlen (numeral n) = bitlen (numeral n div 2) + 1"
  using compute_bitlen [of "numeral n"] by simp

lemma bitlen_1 [num_eval]: "bitlen 1 = 1" and bitlen_0 [num_eval]: "bitlen 0 = 0"
  using compute_bitlen [of 1] by simp_all

lemma mk_small [num_eval]: "\<bar>x\<bar> \<le> 2 ^ 53 \<Longrightarrow> mk x = Fin (rnd x)"
  using max_finite_ge by (intro mk_bounded) linarith

lemma floor_rat_div [num_eval]:
  "\<lfloor>numeral a / numeral b :: rat\<rfloor> = numeral a div numeral b"
  "\<lfloor>- (numeral a / numeral b) :: rat\<rfloor> = - numeral a div numeral b"
  "\<lfloor>- numeral a / numeral b :: rat\<rfloor> = - numeral a div numeral b"
  "\<lfloor>1 / numeral b :: rat\<rfloor> = 1 div numeral b"
  "\<lfloor>- (1 / numeral b) :: rat\<rfloor> = - 1 div numeral b"
  using floor_divide_of_int_eq [of "numeral a" "numeral b", where 'a = rat]
    floor_divide_of_int_eq [of "- numeral a" "numeral b", where 'a = rat]
    floor_divide_of_int_eq [of 1 "numeral b", where 'a = rat]
    floor_divide_of_int_eq [of "- 1" "numeral b", where 'a = rat]
  by simp_all

lemma ceiling_rat [num_eval]: "\<lceil>x :: rat\<rceil> = - \<lfloor>- x\<rfloor>"
  by (rule ceiling_def)

declare rnd_def [num_eval] round_even_def [num_eval] lastplace_def [num_eval] ilog2_def [num_eval]
  pow2_def [num_eval] jsub_def [num_eval] jmax_def [num_eval] jmin_def [num_eval]
  fixed_units_def [num_eval] truthy_num_def [num_eval] MAX_SAFE_INTEGER_def [num_eval]
  jmax_list_def [num_eval] jmin_list_def [num_eval] is_safe_integer_def [num_eval]

end
