(* ===== verification/JsText.thy ===== *)
theory JsText
  imports JsNumber
begin

text \<open>
  Strings, dates and thrown errors of the language.  A string is a list of code units below
  256; \<open>trim\<close>, \<open>toUpperCase\<close> and UTF-8 lengths are those of ECMAScript on that range (the
  capitals of U+00B5 and U+00FF lie outside it and are left alone).  A \<open>Date\<close> is its time
  value, a number of milliseconds or NaN.  The environment record holds what a run of the
  program takes from outside the language: the platform's reading of date strings that are not
  in the ISO interchange format, the clock, SHA-256, and the shortest decimal text of a number.
\<close>

section \<open>Errors and the environment\<close>

datatype js_error = Error string | RangeError string

type_synonym 'a result = "js_error + 'a"

record js_env =
  legacy_parse :: "string \<Rightarrow> jsnum"
  clock :: jsnum
  sha256 :: "string \<Rightarrow> string"
  number_text :: "jsnum \<Rightarrow> string"

definition bind_result :: "'a result \<Rightarrow> ('a \<Rightarrow> 'b result) \<Rightarrow> 'b result" where
  "bind_result r f = (case r of Inl e \<Rightarrow> Inl e | Inr a \<Rightarrow> f a)"

lemma bind_result_simps [simp]:
  "bind_result (Inl e) f = Inl e"
  "bind_result (Inr a) f = f a"
  by (simp_all add: bind_result_def)

lemma bind_result_Inr: "bind_result r f = Inr b \<longleftrightarrow> (\<exists>a. r = Inr a \<and> f a = Inr b)"
  by (cases r) auto

section \<open>Strings\<close>

definition is_space :: "char \<Rightarrow> bool" where
  "is_space c = (of_char c \<in> {9 :: nat, 10, 11, 12, 13, 32, 160})"

definition trim :: "string \<Rightarrow> string" where
  "trim s = rev (dropWhile is_space (rev (dropWhile is_space s)))"

definition upper_char :: "char \<Rightarrow> string" where
  "upper_char c =
     (let n = of_char c :: nat in
      if 97 \<le> n \<and> n \<le> 122 \<or> 224 \<le> n \<and> n \<le> 254 \<and> n \<noteq> 247 then [char_of (n - 32)]
      else if n = 223 then ''SS'' else [c])"

definition to_upper :: "string \<Rightarrow> string" where
  "to_upper s = concat (map upper_char s)"

definition non_empty :: "string \<Rightarrow> bool" where
  "non_empty s \<longleftrightarrow> trim s \<noteq> []"

definition is_digit :: "char \<Rightarrow> bool" where
  "is_digit c = (48 \<le> (of_char c :: nat) \<and> of_char c \<le> (57 :: nat))"

definition digit_char :: "nat \<Rightarrow> char" where
  "digit_char d = char_of (48 + d)"

definition digit_val :: "char \<Rightarrow> nat" where
  "digit_val c = of_char c - 48"

fun nat_str :: "nat \<Rightarrow> string" where
  "nat_str n = (if n < 10 then [digit_char n] else nat_str (n div 10) @ [digit_char (n mod 10)])"

declare nat_str.simps [simp del]

fun str_nat :: "string \<Rightarrow> nat" where
  "str_nat s = foldl (\<lambda>a c. 10 * a + digit_val c) 0 s"

definition pad0 :: "nat \<Rightarrow> nat \<Rightarrow> string" where
  "pad0 w n = replicate (w - length (nat_str n)) CHR ''0'' @ nat_str n"

text \<open>\<open>Buffer.byteLength(s, "utf8")\<close> and the length-prefixed encoding of a field.\<close>

definition utf8_length :: "string \<Rightarrow> nat" where
  "utf8_length s = sum_list (map (\<lambda>c. if (of_char c :: nat) < 128 then 1 else 2) s)"

definition length_prefix :: "string \<Rightarrow> string" where
  "length_prefix s = nat_str (utf8_length s) @ '':'' @ s"

text \<open>
  \<open>x.toFixed(d)\<close>: a sign, the whole part and \<open>d\<close> decimals; from \<open>10 ^ 21\<close> on the text of the
  number itself.
\<close>

definition fixed_text :: "nat \<Rightarrow> rat \<Rightarrow> string" where
  "fixed_text d a =
     (let n = nat \<bar>fixed_units d a\<bar> in
      (if a < 0 then ''-'' else []) @ nat_str (n div 10 ^ d) @
      (if d = 0 then [] else ''.'' @ pad0 d (n mod 10 ^ d)))"

definition to_fixed :: "js_env \<Rightarrow> nat \<Rightarrow> jsnum \<Rightarrow> string" where
  "to_fixed env d x =
     (case x of Fin a \<Rightarrow> if 10 ^ 21 \<le> \<bar>a\<bar> then number_text env x else fixed_text d a
      | NaN \<Rightarrow> ''NaN'' | PInf \<Rightarrow> ''Infinity'' | NInf \<Rightarrow> ''-Infinity'')"

subsection \<open>Numerals\<close>

lemma nat_str_digits: "c \<in> set (nat_str n) \<Longrightarrow> is_digit c"
proof (induction n rule: nat_str.induct)
  case (1 n)
  have d: "is_digit (digit_char d)" if "d < 10" for d
    using that by (simp add: is_digit_def digit_char_def)
  show ?case
  proof (cases "n < 10")
    case True
    with "1.prems" d show ?thesis by (simp add: nat_str.simps [of n])
  next
    case False
    with "1.prems" have "c \<in> set (nat_str (n div 10)) \<or> c = digit_char (n mod 10)"
      by (auto simp: nat_str.simps [of n])
    with False "1.IH" d show ?thesis by auto
  qed
qed

lemma digit_val_char [simp]: "d < 10 \<Longrightarrow> digit_val (digit_char d) = d"
  by (simp add: digit_val_def digit_char_def)

lemma str_nat_nat_str [simp]: "str_nat (nat_str n) = n"
proof (induction n rule: nat_str.induct)
  case (1 n)
  show ?case
  proof (cases "n < 10")
    case True
    then show ?thesis by (simp add: nat_str.simps [of n])
  next
    case False
    with 1 show ?thesis by (simp add: nat_str.simps [of n])
  qed
qed

lemma nat_str_inj: "nat_str m = nat_str n \<Longrightarrow> m = n"
  by (metis str_nat_nat_str)

subsection \<open>Length-prefixed fields are uniquely decodable\<close>

lemma utf8_length_append [simp]: "utf8_length (a @ b) = utf8_length a + utf8_length b"
  by (simp add: utf8_length_def)

lemma utf8_length_0 [simp]: "utf8_length a = 0 \<longleftrightarrow> a = []"
  by (cases a) (auto simp: utf8_length_def)

lemma digits_colon:
  assumes "\<forall>c \<in> set a. is_digit c" and "\<forall>c \<in> set b. is_digit c"
    and "a @ '':'' @ x = b @ '':'' @ y"
  shows "a = b \<and> x = y"
proof -
  have nd: "\<not> is_digit (CHR '':'')" by (simp add: is_digit_def)
  have tw: "takeWhile is_digit (s @ '':'' @ z) = s" if "\<forall>c \<in> set s. is_digit c" for s z
    using that nd by (simp add: takeWhile_append2)
  from assms tw [of a x] tw [of b y] have "a = b" by metis
  with assms(3) show ?thesis by simp
qed

lemma length_prefix_inj:
  assumes "length_prefix a @ x = length_prefix b @ y"
  shows "a = b \<and> x = y"
proof -
  from assms have "nat_str (utf8_length a) @ '':'' @ (a @ x) = nat_str (utf8_length b) @ '':'' @ (b @ y)"
    by (simp add: length_prefix_def)
  then have n: "nat_str (utf8_length a) = nat_str (utf8_length b)" and e: "a @ x = b @ y"
    using digits_colon [of "nat_str (utf8_length a)" "nat_str (utf8_length b)"] nat_str_digits by blast+
  from n have l: "utf8_length a = utf8_length b" by (rule nat_str_inj)
  from e obtain us where "a = b @ us \<and> us @ x = y \<or> a @ us = b \<and> x = us @ y"
    by (auto simp: append_eq_append_conv2)
  with l show ?thesis by auto
qed

section \<open>Dates\<close>

text \<open>Days since 1970-01-01 of a proleptic Gregorian date, and back.\<close>

definition days_from_civil :: "int \<Rightarrow> int \<Rightarrow> int \<Rightarrow> int" where
  "days_from_civil year m d =
     (let y = (if m \<le> 2 then year - 1 else year); era = y div 400; yoe = y mod 400;
          doy = (153 * (if 2 < m then m - 3 else m + 9) + 2) div 5 + d - 1;
          doe = yoe * 365 + yoe div 4 - yoe div 100 + doy
      in era * 146097 + doe - 719468)"

definition civil_from_days :: "int \<Rightarrow> int \<times> int \<times> int" where
  "civil_from_days days =
     (let z = days + 719468; era = z div 146097; doe = z mod 146097;
          yoe = (doe - doe div 1460 + doe div 36524 - doe div 146096) div 365;
          doy = doe - (365 * yoe + yoe div 4 - yoe div 100);
          mp = (5 * doy + 2) div 153; d = doy - (153 * mp + 2) div 5 + 1;
          m = (if mp < 10 then mp + 3 else mp - 9); y = yoe + era * 400
      in (if m \<le> 2 then y + 1 else y, m, d))"

definition year_str :: "int \<Rightarrow> string" where
  "year_str y = (if 0 \<le> y \<and> y \<le> 9999 then pad0 4 (nat y)
                 else (if y < 0 then ''-'' else ''+'') @ pad0 6 (nat \<bar>y\<bar>))"

definition iso_string :: "int \<Rightarrow> string" where
  "iso_string t =
     (let days = t div 86400000; ms = t mod 86400000
      in case civil_from_days days of (y, m, d) \<Rightarrow>
        year_str y @ ''-'' @ pad0 2 (nat m) @ ''-'' @ pad0 2 (nat d) @ ''T'' @
        pad0 2 (nat (ms div 3600000)) @ '':'' @ pad0 2 (nat (ms div 60000 mod 60)) @ '':'' @
        pad0 2 (nat (ms div 1000 mod 60)) @ ''.'' @ pad0 3 (nat (ms mod 1000)) @ ''Z'')"

text \<open>\<open>Date.prototype.toISOString\<close> throws on an invalid date.\<close>

fun to_iso :: "jsnum \<Rightarrow> string result" where
  "to_iso (Fin t) = Inr (iso_string \<lfloor>t\<rfloor>)"
| "to_iso _ = Inl (RangeError ''Invalid time value'')"

text \<open>
  The date-time interchange format: a date, or a date and a time with seconds, an optional
  fraction of up to three digits and an offset.
\<close>

definition two :: "string \<Rightarrow> (int \<times> string) option" where
  "two s = (case s of a # b # r \<Rightarrow>
      if is_digit a \<and> is_digit b then Some (int (str_nat [a, b]), r) else None | _ \<Rightarrow> None)"

definition days_in_month :: "int \<Rightarrow> int \<Rightarrow> int" where
  "days_in_month y m =
     (if m = 2 then (if y mod 4 = 0 \<and> (y mod 100 \<noteq> 0 \<or> y mod 400 = 0) then 29 else 28)
      else if m \<in> {4, 6, 9, 11} then 30 else 31)"

definition parse_date :: "string \<Rightarrow> (int \<times> string) option" where
  "parse_date s =
     (case s of a # b # c # d # e # r \<Rightarrow>
        if is_digit a \<and> is_digit b \<and> is_digit c \<and> is_digit d \<and> e = CHR ''-'' then
          (let y = int (str_nat [a, b, c, d]) in
           case two r of Some (m, CHR ''-'' # r2) \<Rightarrow>
             (case two r2 of Some (dd, r3) \<Rightarrow>
                if 1 \<le> m \<and> m \<le> 12 \<and> 1 \<le> dd \<and> dd \<le> days_in_month y m
                then Some (days_from_civil y m dd, r3) else None
              | None \<Rightarrow> None)
           | _ \<Rightarrow> None)
        else None
      | _ \<Rightarrow> None)"

definition parse_fraction :: "string \<Rightarrow> (int \<times> string) option" where
  "parse_fraction s =
     (case s of CHR ''.'' # r \<Rightarrow>
        (let ds = takeWhile is_digit r; n = length ds in
         if 1 \<le> n \<and> n \<le> 3 then Some (int (str_nat ds) * 10 ^ (3 - n), drop n r) else None)
      | _ \<Rightarrow> Some (0, s))"

definition parse_offset :: "string \<Rightarrow> int option" where
  "parse_offset s =
     (case s of [CHR ''Z''] \<Rightarrow> Some 0
      | sg # r \<Rightarrow>
          (if sg = CHR ''+'' \<or> sg = CHR ''-'' then
             (case two r of Some (h, CHR '':'' # r2) \<Rightarrow>
                (case two r2 of Some (mi, []) \<Rightarrow>
                   if h < 24 \<and> mi < 60
                   then Some ((if sg = CHR ''+'' then 1 else - 1) * (h * 60 + mi) * 60000) else None
                 | _ \<Rightarrow> None)
              | _ \<Rightarrow> None)
           else None)
      | [] \<Rightarrow> None)"

definition parse_time :: "string \<Rightarrow> (int \<times> string) option" where
  "parse_time s =
     (case two s of Some (h, CHR '':'' # r) \<Rightarrow>
        (case two r of Some (mi, CHR '':'' # r2) \<Rightarrow>
           (case two r2 of Some (sec, r3) \<Rightarrow>
              (case parse_fraction r3 of Some (ms, r4) \<Rightarrow>
                 if h < 24 \<and> mi < 60 \<and> sec < 60
                 then Some (h * 3600000 + mi * 60000 + sec * 1000 + ms, r4) else None
               | None \<Rightarrow> None)
            | None \<Rightarrow> None)
         | _ \<Rightarrow> None)
      | _ \<Rightarrow> None)"

definition parse_iso :: "string \<Rightarrow> int option" where
  "parse_iso s =
     (case parse_date s of Some (days, []) \<Rightarrow> Some (days * 86400000)
      | Some (days, CHR ''T'' # r) \<Rightarrow>
          (case parse_time r of Some (ms, r2) \<Rightarrow>
             (case parse_offset r2 of Some off \<Rightarrow> Some (days * 86400000 + ms - off) | None \<Rightarrow> None)
           | None \<Rightarrow> None)
      | _ \<Rightarrow> None)"

text \<open>\<open>Date.parse\<close>: the interchange format, else the platform's own reading.\<close>

definition date_parse :: "js_env \<Rightarrow> string \<Rightarrow> jsnum" where
  "date_parse env s = (case parse_iso s of Some t \<Rightarrow> num t | None \<Rightarrow> legacy_parse env s)"

end
