(* ===== verification/Prelude.thy ===== *)
theory Prelude
  imports JsText "HOL-Library.Multiset"
begin

text \<open>
  What the components share: the collections their lemmas are declared into, the array idioms
  of the sources (\<open>[...new Set(xs)]\<close>, push unless included, \<open>find\<close> followed by mutation of
  the element found, \<open>filter\<close> by key) as list functions with their laws, and the optional
  operators \<open>??\<close> and \<open>?.\<close>.
\<close>

named_theorems engine_defs \<open>definitions a component's evaluation unfolds\<close>
named_theorems code_facts \<open>which reject codes an evaluation can produce\<close>
named_theorems preserved \<open>operations that keep an invariant\<close>

section \<open>Optional values\<close>

text \<open>\<open>x ?? d\<close>, with the undefined value as \<open>None\<close>.\<close>

definition or_else :: "'a option \<Rightarrow> 'a \<Rightarrow> 'a" where
  "or_else x d = (case x of None \<Rightarrow> d | Some a \<Rightarrow> a)"

definition or_opt :: "'a option \<Rightarrow> 'a option \<Rightarrow> 'a option" where
  "or_opt x y = (case x of None \<Rightarrow> y | Some a \<Rightarrow> Some a)"

lemma or_else_simps [simp]: "or_else None d = d" "or_else (Some a) d = a"
  by (simp_all add: or_else_def)

lemma or_opt_simps [simp]: "or_opt None y = y" "or_opt (Some a) y = Some a" "or_opt x None = x"
  by (simp_all add: or_opt_def split: option.split)

section \<open>Sets as arrays\<close>

text \<open>\<open>[...new Set(xs)]\<close>: the first occurrence of each element, in order.\<close>

definition dedup :: "'a list \<Rightarrow> 'a list" where
  "dedup xs = rev (remdups (rev xs))"

lemma set_dedup [simp]: "set (dedup xs) = set xs"
  by (simp add: dedup_def)

lemma distinct_dedup [simp]: "distinct (dedup xs)"
  by (simp add: dedup_def)

lemma dedup_distinct: "distinct xs \<Longrightarrow> dedup xs = xs"
  by (simp add: dedup_def distinct_remdups_id)

lemma dedup_Nil_iff [simp]: "dedup xs = [] \<longleftrightarrow> xs = []"
  by (simp add: dedup_def)

text \<open>\<open>if (!target.includes(code)) target.push(code)\<close>, once and for every code of a list.\<close>

definition append_unique :: "'a list \<Rightarrow> 'a \<Rightarrow> 'a list" where
  "append_unique target code = (if code \<in> set target then target else target @ [code])"

definition append_all :: "'a list \<Rightarrow> 'a list \<Rightarrow> 'a list" where
  "append_all target codes = foldl append_unique target codes"

definition append_if :: "bool \<Rightarrow> 'a \<Rightarrow> 'a list \<Rightarrow> 'a list" where
  "append_if b code target = (if b then append_unique target code else target)"

lemma set_append_unique [simp]: "set (append_unique xs c) = insert c (set xs)"
  by (auto simp: append_unique_def)

lemma distinct_append_unique [simp]: "distinct (append_unique xs c) \<longleftrightarrow> distinct xs"
  by (simp add: append_unique_def)

lemma append_unique_not_Nil [simp]: "append_unique xs c \<noteq> []"
  by (auto simp: append_unique_def)

lemma set_append_all [simp]: "set (append_all xs cs) = set xs \<union> set cs"
  by (induction cs arbitrary: xs) (auto simp: append_all_def)

lemma distinct_append_all [simp]: "distinct (append_all xs cs) \<longleftrightarrow> distinct xs"
  by (induction cs arbitrary: xs) (auto simp: append_all_def)

lemma set_append_if [simp]: "set (append_if b c xs) = set xs \<union> (if b then {c} else {})"
  by (simp add: append_if_def)

lemma distinct_append_if [simp]: "distinct (append_if b c xs) \<longleftrightarrow> distinct xs"
  by (simp add: append_if_def)

lemma append_if_Nil [simp]: "append_if b c xs = [] \<longleftrightarrow> \<not> b \<and> xs = []"
  by (simp add: append_if_def)

lemma append_all_Nil [simp]: "append_all xs cs = [] \<longleftrightarrow> xs = [] \<and> cs = []"
proof -
  have "append_all xs cs = [] \<longleftrightarrow> set (append_all xs cs) = {}" by (simp only: set_empty)
  also have "\<dots> \<longleftrightarrow> xs = [] \<and> cs = []" by (simp only: set_append_all) simp
  finally show ?thesis .
qed

text \<open>The same for codes collected with a plain \<open>push\<close>.\<close>

definition push_if :: "bool \<Rightarrow> 'a \<Rightarrow> 'a list" where
  "push_if b code = (if b then [code] else [])"

lemma set_push_if [simp]: "set (push_if b c) = (if b then {c} else {})"
  by (simp add: push_if_def)

lemma push_if_Nil [simp]: "push_if b c = [] \<longleftrightarrow> \<not> b"
  by (simp add: push_if_def)

section \<open>Sorting\<close>

text \<open>The stable sort of an array by a comparison, as insertion from the right.\<close>

fun insert_by :: "('a \<Rightarrow> 'a \<Rightarrow> bool) \<Rightarrow> 'a \<Rightarrow> 'a list \<Rightarrow> 'a list" where
  "insert_by le x [] = [x]"
| "insert_by le x (y # ys) = (if le x y then x # y # ys else y # insert_by le x ys)"

definition sort_by :: "('a \<Rightarrow> 'a \<Rightarrow> bool) \<Rightarrow> 'a list \<Rightarrow> 'a list" where
  "sort_by le xs = foldr (insert_by le) xs []"

lemma mset_insert_by [simp]: "mset (insert_by le x xs) = add_mset x (mset xs)"
  by (induction xs) auto

lemma mset_sort_by [simp]: "mset (sort_by le xs) = mset xs"
  by (induction xs) (auto simp: sort_by_def)

lemma set_sort_by [simp]: "set (sort_by le xs) = set xs"
  by (rule mset_eq_setD) simp

lemma length_sort_by [simp]: "length (sort_by le xs) = length xs"
  by (rule mset_eq_length) simp

text \<open>The comparisons of the code: total and transitive on the elements they are used on.\<close>

locale comparison =
  fixes ok :: "'a \<Rightarrow> bool"
    and le :: "'a \<Rightarrow> 'a \<Rightarrow> bool"
  assumes le_total: "ok x \<Longrightarrow> ok y \<Longrightarrow> le x y \<or> le y x"
    and le_trans: "ok x \<Longrightarrow> ok y \<Longrightarrow> ok z \<Longrightarrow> le x y \<Longrightarrow> le y z \<Longrightarrow> le x z"
begin

lemma sorted_insert:
  "ok x \<Longrightarrow> \<forall>y \<in> set ys. ok y \<Longrightarrow> sorted_wrt le ys \<Longrightarrow> sorted_wrt le (insert_by le x ys)"
proof (induction ys)
  case (Cons y ys)
  have set: "set (insert_by le x ys) = insert x (set ys)"
    using mset_eq_setD [of "insert_by le x ys" "x # ys"] by simp
  have tail: "\<forall>z \<in> set ys. le y z" "sorted_wrt le ys" using Cons.prems(3) by auto
  show ?case
  proof (cases "le x y")
    case True
    have "le x z" if "z \<in> set ys" for z
      using le_trans [of x y z] Cons.prems(1,2) True tail(1) that by simp
    then show ?thesis using True tail by simp
  next
    case False
    then have "le y x" using le_total [of x y] Cons.prems(1,2) by simp
    moreover have "sorted_wrt le (insert_by le x ys)"
      using Cons.IH [OF Cons.prems(1) _ tail(2)] Cons.prems(2) by simp
    ultimately show ?thesis using False tail(1) set by simp
  qed
qed simp

lemma sorted_sort_by: "\<forall>x \<in> set xs. ok x \<Longrightarrow> sorted_wrt le (sort_by le xs)"
proof (induction xs)
  case (Cons x xs)
  then have "sorted_wrt le (sort_by le xs)" by simp
  then have "sorted_wrt le (insert_by le x (sort_by le xs))"
    using Cons.prems by (intro sorted_insert) auto
  then show ?case by (simp add: sort_by_def)
qed (simp add: sort_by_def)

end

section \<open>Mutating the element found\<close>

text \<open>\<open>const x = xs.find(p); if (x) mutate(x)\<close>: the first match is replaced.\<close>

fun update_first :: "('a \<Rightarrow> bool) \<Rightarrow> ('a \<Rightarrow> 'a) \<Rightarrow> 'a list \<Rightarrow> 'a list" where
  "update_first p f [] = []"
| "update_first p f (x # xs) = (if p x then f x # xs else x # update_first p f xs)"

lemma length_update_first [simp]: "length (update_first p f xs) = length xs"
  by (induction xs) auto

lemma update_first_map: "(\<And>x. g (f x) = g x) \<Longrightarrow> map g (update_first p f xs) = map g xs"
  by (induction xs) auto

lemma update_first_filter_out:
  "(\<And>x. p (f x) = p x) \<Longrightarrow> filter (\<lambda>x. \<not> p x) (update_first p f xs) = filter (\<lambda>x. \<not> p x) xs"
  by (induction xs) auto

lemma find_update_first:
  assumes "\<And>x. p (f x) = p x"
  shows "find p (update_first p f xs) = map_option f (find p xs)"
  by (induction xs) (auto simp: assms)

lemma set_update_first: "set (update_first p f xs) \<subseteq> set xs \<union> f ` {x \<in> set xs. p x}"
  by (induction xs) auto

lemma find_set: "find p xs = Some x \<Longrightarrow> x \<in> set xs \<and> p x"
  by (auto simp: find_Some_iff)

lemma update_first_all:
  assumes "\<forall>x \<in> set xs. Q x" and "\<And>x. find p xs = Some x \<Longrightarrow> Q (f x)"
  shows "\<forall>x \<in> set (update_first p f xs). Q x"
  using assms by (induction xs) (auto split: if_splits)

lemma update_first_none: "find p xs = None \<Longrightarrow> update_first p f xs = xs"
  by (induction xs) (auto split: if_splits)

section \<open>Loops over a list that may throw\<close>

text \<open>\<open>for (const item of items) state = step(state, item)\<close>, ended by the first exception.\<close>

fun fold_result :: "('s \<Rightarrow> 'i \<Rightarrow> 's result) \<Rightarrow> 's \<Rightarrow> 'i list \<Rightarrow> 's result" where
  "fold_result step s [] = Inr s"
| "fold_result step s (i # is) = bind_result (step s i) (\<lambda>s'. fold_result step s' is)"

lemma fold_result_append:
  "fold_result step s (xs @ ys) =
     bind_result (fold_result step s xs) (\<lambda>s'. fold_result step s' ys)"
  by (induction xs arbitrary: s) (auto simp: bind_result_def split: sum.split)

text \<open>A map whose function may throw: the first exception ends it.\<close>

fun map_result :: "('a \<Rightarrow> 'b result) \<Rightarrow> 'a list \<Rightarrow> 'b list result" where
  "map_result f [] = Inr []"
| "map_result f (x # xs) =
     bind_result (f x) (\<lambda>y. bind_result (map_result f xs) (\<lambda>ys. Inr (y # ys)))"

lemma map_result_Inr:
  "map_result f xs = Inr ys \<longleftrightarrow> length ys = length xs \<and> (\<forall>i < length xs. f (xs ! i) = Inr (ys ! i))"
proof (induction xs arbitrary: ys)
  case (Cons x xs)
  show ?case
  proof (cases ys)
    case (Cons y ys')
    with Cons.IH show ?thesis by (auto simp: bind_result_Inr nth_Cons' less_Suc_eq_0_disj)
  qed (auto simp: bind_result_Inr)
qed auto

lemma map_result_all: "(\<And>x. x \<in> set xs \<Longrightarrow> f x = Inr (g x)) \<Longrightarrow> map_result f xs = Inr (map g xs)"
  by (induction xs) auto

text \<open>
  A machine whose steps keep an invariant whenever a guard holds.  The guard is checked at
  every state the loop passes through.
\<close>

fun guarded :: "('s \<Rightarrow> 'i \<Rightarrow> 's result) \<Rightarrow> ('s \<Rightarrow> 'i \<Rightarrow> bool) \<Rightarrow> 's \<Rightarrow> 'i list \<Rightarrow> bool" where
  "guarded step guard s [] \<longleftrightarrow> True"
| "guarded step guard s (i # is) \<longleftrightarrow>
     guard s i \<and> (case step s i of Inl _ \<Rightarrow> True | Inr s' \<Rightarrow> guarded step guard s' is)"

locale guarded_machine =
  fixes step :: "'s \<Rightarrow> 'i \<Rightarrow> 's result"
    and guard :: "'s \<Rightarrow> 'i \<Rightarrow> bool"
    and good :: "'s \<Rightarrow> bool"
  assumes step_good: "good s \<Longrightarrow> guard s i \<Longrightarrow> step s i = Inr s' \<Longrightarrow> good s'"
begin

lemma loop_good: "good s \<Longrightarrow> guarded step guard s is \<Longrightarrow> fold_result step s is = Inr s' \<Longrightarrow> good s'"
proof (induction "is" arbitrary: s)
  case (Cons i "is")
  then obtain s1 where s1: "step s i = Inr s1" "fold_result step s1 is = Inr s'"
    by (auto simp: bind_result_Inr)
  with Cons.prems have "good s1" "guarded step guard s1 is" by (auto intro: step_good)
  with Cons.IH s1(2) show ?case by blast
qed simp

end

text \<open>A machine that also keeps a balance: every step adds to it what it books.\<close>

locale booking_machine = guarded_machine step guard good
  for step :: "'s \<Rightarrow> 'i \<Rightarrow> 's result" and guard :: "'s \<Rightarrow> 'i \<Rightarrow> bool" and good :: "'s \<Rightarrow> bool" +
  fixes balance :: "'s \<Rightarrow> int"
    and booked :: "'s \<Rightarrow> int"
  assumes step_balance: "good s \<Longrightarrow> guard s i \<Longrightarrow> step s i = Inr s' \<Longrightarrow>
    balance s' - balance s = booked s' - booked s"
begin

lemma loop_balance:
  "good s \<Longrightarrow> guarded step guard s is \<Longrightarrow> fold_result step s is = Inr s' \<Longrightarrow>
   balance s' - balance s = booked s' - booked s"
proof (induction "is" arbitrary: s)
  case (Cons i "is")
  then obtain s1 where s1: "step s i = Inr s1" "fold_result step s1 is = Inr s'"
    by (auto simp: bind_result_Inr)
  with Cons.prems have "good s1" "guarded step guard s1 is" by (auto intro: step_good)
  with Cons.IH s1(2) have "balance s' - balance s1 = booked s' - booked s1" by blast
  moreover have "balance s1 - balance s = booked s1 - booked s"
    using step_balance [OF Cons.prems(1) _ s1(1)] Cons.prems(2) by simp
  ultimately show ?case by simp
qed simp

end

section \<open>Accumulators by key\<close>

text \<open>
  The interface of the maps of amounts: what is read after an amount was added under a key.
  A loop that adds one amount per item leaves, under each key, the sum over the items of that
  key in their order.
\<close>

locale accumulator =
  fixes read :: "'m \<Rightarrow> 'k \<Rightarrow> jsnum"
    and add :: "'m \<Rightarrow> 'k \<Rightarrow> jsnum \<Rightarrow> 'm"
  assumes read_add: "read (add m k v) k' = (if k' = k then jadd (read m k) v else read m k')"
begin

lemma read_loop:
  "read (foldl (\<lambda>m i. add m (key i) (amount i)) m is) k =
     foldl (\<lambda>s i. jadd s (amount i)) (read m k) (filter (\<lambda>i. key i = k) is)"
  by (induction "is" arbitrary: m) (auto simp: read_add)

end

end
