(* ===== verification/PaperSchemas.thy ===== *)
theory PaperSchemas
  imports Prelude
begin

text \<open>
  The data of the paper-trading domain (\<open>src/domain/schemas.ts\<close>): the enumerations, the
  portfolio and its positions, the market packet with its candidates, decisions, risk
  decisions and trades, as records with the fields of the source (an optional field is an
  option).  A predicate \<open>..._ok\<close> states the numeric part of a record's schema, which is what
  the properties of the engine assume of their input.
\<close>

section \<open>Enumerations\<close>

datatype Market = KR | US
datatype AssetType = STOCK | ETF
datatype AssetClass = Equity | Bond | CashLike | Commodity | Currency | Inverse | Leveraged
datatype AssetRegion = RegionKR | RegionUS | RegionGlobal
datatype AssetRiskTag = TagInverse | TagLeveraged | TagCurrencyExposed | TagSectorConcentrated
datatype StrategyBucket = LongTerm | Swing | ShortTerm | Intraday | HedgeBucket
datatype LifecycleStatus = LifeActive | LifeSuspended | LifeDelisted | LifeUnknown
datatype VirtualAction = VIRTUAL_BUY | VIRTUAL_SELL | VIRTUAL_HOLD
datatype HoldReasonCode =
    INSUFFICIENT_EVIDENCE | STALE_DATA | CONTRADICTORY_SIGNALS | POLICY_BLOCKED
  | PORTFOLIO_CONFLICT | NO_POSITION_TO_SELL | NOT_IN_CANDIDATES | LOW_LIQUIDITY
datatype BudgetTier = TierNone | TierSmall | TierMedium | TierLarge

text \<open>The string values of the enumerations that the code splices into identifiers.\<close>

fun market_str :: "Market \<Rightarrow> string" where
  "market_str KR = ''KR''"
| "market_str US = ''US''"

fun action_str :: "VirtualAction \<Rightarrow> string" where
  "action_str VIRTUAL_BUY = ''VIRTUAL_BUY''"
| "action_str VIRTUAL_SELL = ''VIRTUAL_SELL''"
| "action_str VIRTUAL_HOLD = ''VIRTUAL_HOLD''"

fun bucket_str :: "StrategyBucket \<Rightarrow> string" where
  "bucket_str LongTerm = ''long_term''"
| "bucket_str Swing = ''swing''"
| "bucket_str ShortTerm = ''short_term''"
| "bucket_str Intraday = ''intraday''"
| "bucket_str HedgeBucket = ''hedge''"

section \<open>Portfolio\<close>

record VirtualPosition =
  pos_market :: Market
  pos_symbol :: string
  pos_assetType :: "AssetType option"
  pos_assetClass :: "AssetClass option"
  pos_region :: "AssetRegion option"
  pos_riskTags :: "AssetRiskTag list option"
  pos_strategyBucket :: "StrategyBucket option"
  pos_sector :: "string option"
  pos_quantity :: jsnum
  pos_averagePriceKrw :: jsnum
  pos_marketPriceKrw :: "jsnum option"
  pos_marketValueKrw :: "jsnum option"
  pos_unrealizedPnlKrw :: "jsnum option"
  pos_priceUpdatedAt :: "string option"
  pos_priceStaleAfter :: "string option"
  pos_priceSourceRefs :: "string list option"
  pos_isPriceStale :: "bool option"
  pos_updatedAt :: string

record VirtualPortfolio =
  pf_portfolioId :: string
  pf_cashKrw :: jsnum
  pf_positions :: "VirtualPosition list"
  pf_updatedAt :: string

section \<open>Market packet\<close>

datatype FeatureScoreType =
  ScoreAvailability | ScoreRanking | ScoreValue | ScorePolicy | ScoreState

record FeatureScore =
  fs_featureRef :: string
  fs_score :: jsnum
  fs_scoreType :: FeatureScoreType
  fs_reasonCode :: string

record MarketCandidate =
  cand_market :: Market
  cand_symbol :: string
  cand_name :: "string option"
  cand_assetType :: "AssetType option"
  cand_assetClass :: "AssetClass option"
  cand_region :: "AssetRegion option"
  cand_riskTags :: "AssetRiskTag list option"
  cand_strategyBucket :: "StrategyBucket option"
  cand_sector :: "string option"
  cand_industry :: "string option"
  cand_lifecycleStatus :: "LifecycleStatus option"
  cand_lastPriceKrw :: "jsnum option"
  cand_volume :: "jsnum option"
  cand_averageVolume :: "jsnum option"
  cand_ranking :: "jsnum option"
  cand_score :: "jsnum option"
  cand_reasonCodes :: "string list"
  cand_eventTags :: "string list option"
  cand_newsRefs :: "string list option"
  cand_featureRefs :: "string list option"
  cand_featureScores :: "FeatureScore list option"
  cand_dividendYieldPct :: "jsnum option"
  cand_exDividendDate :: "string option"
  cand_buyEligible :: "bool option"
  cand_sellEligible :: "bool option"
  cand_blockedReasonCodes :: "string list option"
  cand_budgetTierAllowed :: "BudgetTier option"
  cand_positionExists :: "bool option"
  cand_cooldownActive :: "bool option"
  cand_dataRefs :: "string list option"
  cand_sourceRefs :: "string list"
  cand_collectedAt :: string
  cand_staleAfter :: string

text \<open>An observation of the market in the history.\<close>

datatype SnapshotInterval = Interval1m | Interval5m | Interval15m | Interval1h | Interval1d

record HistoricalMarketSnapshot =
  snap_snapshotId :: string
  snap_market :: Market
  snap_symbol :: string
  snap_name :: "string option"
  snap_assetType :: "AssetType option"
  snap_assetClass :: "AssetClass option"
  snap_region :: "AssetRegion option"
  snap_riskTags :: "AssetRiskTag list option"
  snap_strategyBucket :: "StrategyBucket option"
  snap_sector :: "string option"
  snap_observedAt :: string
  snap_interval :: SnapshotInterval
  snap_openPriceKrw :: "jsnum option"
  snap_highPriceKrw :: "jsnum option"
  snap_lowPriceKrw :: "jsnum option"
  snap_closePriceKrw :: "jsnum option"
  snap_lastPriceKrw :: jsnum
  snap_volume :: "jsnum option"
  snap_sourceRefs :: "string list"
  snap_createdAt :: string

text \<open>The allocation of the packet; the counts of the positions are numbers.\<close>

record MarketAllocation =
  ma_market :: Market
  ma_targetExposureRatio :: jsnum
  ma_scheduledTargetExposureRatio :: "jsnum option"
  ma_currentExposureRatio :: jsnum
  ma_targetExposureGapRatio :: jsnum
  ma_targetExposureGapKrw :: jsnum
  ma_maxAdditionalBuyBudgetKrw :: jsnum
  ma_currentOpenPositionCount :: "jsnum option"
  ma_scheduledOpenPositionCeiling :: "jsnum option"
  ma_remainingScheduledOpenPositionSlots :: "jsnum option"

record PortfolioAllocation =
  alloc_policyName :: string
  alloc_targetExposureRatio :: jsnum
  alloc_minCashReserveRatio :: jsnum
  alloc_maxBudgetPerDecisionRatio :: jsnum
  alloc_maxSymbolExposureRatio :: jsnum
  alloc_deploymentRampDays :: "jsnum option"
  alloc_rampDayIndex :: "jsnum option"
  alloc_maxInitialDeploymentRatio :: "jsnum option"
  alloc_maxDailyGrossBuyRatio :: "jsnum option"
  alloc_maxInitialOpenPositions :: "jsnum option"
  alloc_maxNewPositionsPerDay :: "jsnum option"
  alloc_maxConcurrentPositions :: "jsnum option"
  alloc_positionSlotRampDays :: "jsnum option"
  alloc_marketTargetExposureRatios :: "(Market \<times> jsnum) list option"
  alloc_currentExposureRatio :: jsnum
  alloc_currentCashRatio :: jsnum
  alloc_targetCashRatio :: jsnum
  alloc_targetExposureGapRatio :: jsnum
  alloc_targetExposureGapKrw :: jsnum
  alloc_maxAdditionalBuyBudgetKrw :: jsnum
  alloc_maxBudgetPerDecisionKrw :: jsnum
  alloc_maxSymbolExposureKrw :: jsnum
  alloc_minCashReserveKrw :: jsnum
  alloc_scheduledExposureCeilingRatio :: "jsnum option"
  alloc_scheduledExposureHeadroomKrw :: "jsnum option"
  alloc_maxDailyGrossBuyBudgetKrw :: "jsnum option"
  alloc_opportunityReserveRatio :: "jsnum option"
  alloc_scheduledOpenPositionCeiling :: "jsnum option"
  alloc_remainingScheduledOpenPositionSlots :: "jsnum option"
  alloc_remainingNewPositionSlots :: "jsnum option"
  alloc_marketAllocations :: "(Market \<times> MarketAllocation) list option"

text \<open>\<open>allocationCaps?.marketAllocations?.[market]?.maxAdditionalBuyBudgetKrw\<close>.\<close>

definition alloc_marketAdditionalBuyBudgetKrw :: "PortfolioAllocation \<Rightarrow> Market \<rightharpoonup> jsnum" where
  "alloc_marketAdditionalBuyBudgetKrw a market =
     map_option ma_maxAdditionalBuyBudgetKrw
       (Option.bind (alloc_marketAllocations a) (\<lambda>m. map_of m market))"

record MarketPacket =
  pkt_packetId :: string
  pkt_generatedAt :: string
  pkt_expiresAt :: string
  pkt_virtualPortfolio :: VirtualPortfolio
  pkt_candidates :: "MarketCandidate list"
  pkt_maxNewPositions :: jsnum
  pkt_maxBudgetPerSymbolKrw :: jsnum
  pkt_allowedActions :: "VirtualAction list"
  pkt_portfolioAllocation :: "PortfolioAllocation option"

section \<open>Decisions, risk decisions and trades\<close>

record ClaimSupport =
  claim_text :: string
  claim_dataRefs :: "string list option"
  claim_featureRefs :: "string list option"

record ConfidenceBreakdown =
  cb_modelConfidence :: jsnum
  cb_evidenceQualityScore :: jsnum
  cb_dataCompletenessScore :: jsnum
  cb_policyEligibilityScore :: jsnum
  cb_executionRiskScore :: jsnum
  cb_overallScore :: jsnum
  cb_reasonCodes :: "string list"

record VirtualDecisionItem =
  dec_symbol :: string
  dec_market :: Market
  dec_action :: VirtualAction
  dec_holdReasonCode :: "HoldReasonCode option"
  dec_confidence :: jsnum
  dec_budgetKrw :: jsnum
  dec_maxBudgetKrw :: "jsnum option"
  dec_sellQuantity :: "jsnum option"
  dec_sellRatio :: "jsnum option"
  dec_targetWeightPct :: "jsnum option"
  dec_sellAll :: "bool option"
  dec_reduceOnly :: "bool option"
  dec_thesis :: string
  dec_riskFactors :: "string list"
  dec_dataRefs :: "string list"
  dec_featureRefs :: "string list option"
  dec_claimSupport :: "ClaimSupport list option"
  dec_confidenceBreakdown :: "ConfidenceBreakdown option"
  dec_expiresAt :: string

record VirtualDecision =
  vd_packetId :: string
  vd_packetHash :: "string option"
  vd_decisionHash :: "string option"
  vd_promptVersion :: "string option"
  vd_modelId :: "string option"
  vd_schemaVersion :: "string option"
  vd_policyVersion :: "string option"
  vd_summary :: string
  vd_decisions :: "VirtualDecisionItem list"

datatype RejectCode =
    PACKET_STALE | DECISION_STALE | CANDIDATE_NOT_FOUND | PRICE_MISSING | LIFECYCLE_NOT_ELIGIBLE
  | CASH_EXCEEDED | CASH_RESERVE_BREACHED | REGIME_CASH_RESERVE_BREACHED | BUDGET_EXCEEDED
  | TARGET_EXPOSURE_EXCEEDED | SYMBOL_EXPOSURE_EXCEEDED | POSITION_WEIGHT_EXCEEDED
  | BUCKET_BUDGET_EXCEEDED | BUCKET_TURNOVER_EXCEEDED | SECTOR_EXPOSURE_EXCEEDED
  | COUNTRY_EXPOSURE_EXCEEDED | CURRENCY_EXPOSURE_EXCEEDED | EXPOSURE_METADATA_MISSING
  | HEDGE_NOT_REDUCE_RISK | HEDGE_GROSS_EXPOSURE_EXCEEDED | HEDGE_METADATA_MISSING
  | POSITION_NOT_FOUND | SELL_AMOUNT_REQUIRED | SELL_AMOUNT_EXCEEDED
  | LIQUIDITY_STALE | LIQUIDITY_INSUFFICIENT | COOLDOWN_ACTIVE

datatype RuleId =
    Rule_packet_freshness | Rule_decision_freshness | Rule_candidate_presence
  | Rule_candidate_price | Rule_candidate_lifecycle | Rule_cash_limit | Rule_cash_reserve
  | Rule_regime_cash_reserve | Rule_budget_limit | Rule_target_exposure | Rule_symbol_exposure
  | Rule_position_weight | Rule_bucket_budget | Rule_bucket_turnover | Rule_sector_exposure
  | Rule_country_exposure | Rule_currency_exposure | Rule_exposure_metadata | Rule_hedge_policy
  | Rule_sell_position | Rule_cooldown | Rule_liquidity

record VirtualRiskDecision =
  rd_riskDecisionId :: string
  rd_packetId :: string
  rd_symbol :: string
  rd_approved :: bool
  rd_rejectCodes :: "RejectCode list"
  rd_checkedRules :: "RuleId list"
  rd_createdAt :: string

datatype FillStatus = Filled | Partial | Rejected

datatype LiquidityStatus = NotModeled | Sufficient | LiqPartial | LiqRejected | Stale

record VirtualTrade =
  tr_tradeId :: string
  tr_packetId :: string
  tr_decisionId :: string
  tr_market :: Market
  tr_symbol :: string
  tr_action :: VirtualAction
  tr_quantity :: jsnum
  tr_sourcePriceKrw :: jsnum
  tr_priceKrw :: jsnum
  tr_grossAmountKrw :: jsnum
  tr_amountKrw :: jsnum
  tr_netAmountKrw :: jsnum
  tr_feeKrw :: jsnum
  tr_taxKrw :: jsnum
  tr_slippageKrw :: jsnum
  tr_spreadCostKrw :: jsnum
  tr_impactCostKrw :: jsnum
  tr_totalCostKrw :: jsnum
  tr_costModelVersion :: string
  tr_requestedNotionalKrw :: jsnum
  tr_filledNotionalKrw :: jsnum
  tr_fillStatus :: FillStatus
  tr_liquidityStatus :: LiquidityStatus
  tr_maxParticipationRate :: jsnum
  tr_priceSourceRefs :: "string list"
  tr_strategyBucket :: "StrategyBucket option"
  tr_fillRatio :: jsnum
  tr_fractionalShares :: bool
  tr_executedAt :: string
  tr_realizedPnlKrw :: "jsnum option"
  tr_participationRate :: "jsnum option"
  tr_volume :: "jsnum option"
  tr_averageVolume :: "jsnum option"

section \<open>Lookup by market and symbol\<close>

definition pos_key :: "VirtualPosition \<Rightarrow> Market \<times> string" where
  "pos_key p = (pos_market p, pos_symbol p)"

definition dec_key :: "VirtualDecisionItem \<Rightarrow> Market \<times> string" where
  "dec_key d = (dec_market d, dec_symbol d)"

definition findCandidate :: "MarketPacket \<Rightarrow> VirtualDecisionItem \<Rightarrow> MarketCandidate option" where
  "findCandidate pkt d =
     find (\<lambda>c. cand_market c = dec_market d \<and> cand_symbol c = dec_symbol d) (pkt_candidates pkt)"

definition find_position :: "VirtualPortfolio \<Rightarrow> VirtualDecisionItem \<Rightarrow> VirtualPosition option" where
  "find_position pf d =
     find (\<lambda>p. pos_market p = dec_market d \<and> pos_symbol p = dec_symbol d) (pf_positions pf)"

text \<open>\<open>isFresh\<close>: an instant in the future, by a clock that may be invalid.\<close>

definition isFresh :: "js_env \<Rightarrow> string \<Rightarrow> jsnum \<Rightarrow> bool" where
  "isFresh env expiresAt now =
     (let ms = date_parse env expiresAt in is_finite ms \<and> jlt now ms)"

section \<open>The numeric schemas\<close>

text \<open>\<open>z.number().int().nonnegative()\<close>: a safe integer, not negative.\<close>

definition money :: "jsnum \<Rightarrow> bool" where
  "money x \<longleftrightarrow> is_safe_integer x \<and> jle (Fin 0) x"

definition nonneg_number :: "jsnum \<Rightarrow> bool" where
  "nonneg_number x \<longleftrightarrow> is_finite x \<and> binary64 x \<and> jle (Fin 0) x"

definition ratio_number :: "jsnum \<Rightarrow> bool" where
  "ratio_number x \<longleftrightarrow> nonneg_number x \<and> jle x (Fin 1)"

definition opt_all :: "('a \<Rightarrow> bool) \<Rightarrow> 'a option \<Rightarrow> bool" where
  "opt_all P x = (case x of None \<Rightarrow> True | Some a \<Rightarrow> P a)"

definition position_ok :: "VirtualPosition \<Rightarrow> bool" where
  "position_ok p \<longleftrightarrow> nonneg_number (pos_quantity p) \<and> money (pos_averagePriceKrw p) \<and>
     opt_all money (pos_marketPriceKrw p) \<and> opt_all money (pos_marketValueKrw p)"

definition portfolio_ok :: "VirtualPortfolio \<Rightarrow> bool" where
  "portfolio_ok pf \<longleftrightarrow> money (pf_cashKrw pf) \<and> list_all position_ok (pf_positions pf)"

definition candidate_ok :: "MarketCandidate \<Rightarrow> bool" where
  "candidate_ok c \<longleftrightarrow> opt_all money (cand_lastPriceKrw c) \<and>
     opt_all nonneg_number (cand_volume c) \<and> opt_all nonneg_number (cand_averageVolume c)"

definition decision_ok :: "VirtualDecisionItem \<Rightarrow> bool" where
  "decision_ok d \<longleftrightarrow> money (dec_budgetKrw d) \<and>
     opt_all (\<lambda>q. nonneg_number q \<and> jlt (Fin 0) q) (dec_sellQuantity d) \<and>
     opt_all (\<lambda>q. ratio_number q \<and> jlt (Fin 0) q) (dec_sellRatio d) \<and>
     opt_all ratio_number (dec_targetWeightPct d)"

lemma opt_all_simps [simp]: "opt_all P None" "opt_all P (Some a) = P a"
  by (simp_all add: opt_all_def)

lemma moneyE:
  assumes "money x"
  obtains n where "x = num n" "0 \<le> n" "n \<le> 9007199254740991"
proof (cases x)
  case (Fin a)
  with assms obtain n where n: "a = of_int n"
    by (auto simp: money_def is_safe_integer_def)
  with assms Fin have "0 \<le> (of_int n :: rat)" and "\<bar>of_int n :: rat\<bar> \<le> of_int 9007199254740991"
    by (auto simp: money_def is_safe_integer_def MAX_SAFE_INTEGER_def)
  then have "0 \<le> n" and "\<bar>n\<bar> \<le> 9007199254740991"
    by (simp_all only: of_int_abs [symmetric] of_int_le_iff of_int_0_le_iff)
  with n Fin that show thesis by auto
qed (use assms in \<open>auto simp: money_def is_safe_integer_def\<close>)

lemma moneyI: "0 \<le> n \<Longrightarrow> n \<le> 9007199254740991 \<Longrightarrow> money (num n)"
proof -
  assume "0 \<le> n" "n \<le> 9007199254740991"
  then have "(of_int n :: rat) \<le> of_int 9007199254740991" by (simp only: of_int_le_iff)
  with \<open>0 \<le> n\<close> show ?thesis by (simp add: money_def is_safe_integer_def MAX_SAFE_INTEGER_def)
qed

lemma money_iff: "money x \<longleftrightarrow> (\<exists>n. x = num n \<and> 0 \<le> n \<and> n \<le> 9007199254740991)"
  by (auto elim!: moneyE intro: moneyI)

lemma money_if_between:
  assumes "is_integer x" and "jle (Fin 0) x" and "jle x y" and "money y"
  shows "money x"
proof -
  from assms obtain m n where "x = num m" "y = num n" "n \<le> 9007199254740991"
    by (auto simp: is_integer_iff money_iff)
  with assms show ?thesis by (auto simp: money_iff)
qed

lemma nonneg_numberE:
  assumes "nonneg_number x"
  obtains a where "x = Fin a" "0 \<le> a" "representable a" "a \<le> max_finite"
  using assms that by (cases x) (auto simp: nonneg_number_def)

lemma find_position_SomeD:
  "find_position pf d = Some p \<Longrightarrow> p \<in> set (pf_positions pf) \<and> pos_key p = dec_key d"
  by (auto simp: find_position_def pos_key_def dec_key_def dest: find_set)

lemma findCandidate_SomeD:
  "findCandidate pkt d = Some c \<Longrightarrow>
   c \<in> set (pkt_candidates pkt) \<and> cand_market c = dec_market d \<and> cand_symbol c = dec_symbol d"
  by (auto simp: findCandidate_def dest: find_set)

end
