(* ===== verification/PaperExecution.thy ===== *)
theory PaperExecution
  imports PaperSchemas
begin

text \<open>
  The execution simulator of paper orders: the liquidity gate (\<open>src/paper/liquidityModel.ts\<close>)
  that caps a requested notional by a share of the traded volume, and the fill model
  (\<open>src/paper/executionModel.ts\<close>) that turns the fillable notional into a quantity, a fill
  price and the costs.  The lemmas show that a fill is either rejected with every amount zero
  or has a positive quantity, that it respects the participation cap, and how its net amount
  relates to its gross amount and its costs.
\<close>

section \<open>Policy\<close>

record PaperExecutionPolicy =
  xp_slippageBps :: jsnum
  xp_feeBps :: jsnum
  xp_taxBps :: jsnum
  xp_halfSpreadBps :: jsnum
  xp_fillRatio :: jsnum
  xp_allowFractionalShares :: bool
  xp_maxVolumeParticipationRate :: jsnum
  xp_minLiquidityFillRatio :: jsnum
  xp_rejectStaleLiquidity :: bool
  xp_marketImpactBps :: jsnum

text \<open>\<open>Partial<PaperExecutionPolicy>\<close>.\<close>

record PartialExecutionPolicy =
  xo_slippageBps :: "jsnum option"
  xo_feeBps :: "jsnum option"
  xo_taxBps :: "jsnum option"
  xo_halfSpreadBps :: "jsnum option"
  xo_fillRatio :: "jsnum option"
  xo_allowFractionalShares :: "bool option"
  xo_maxVolumeParticipationRate :: "jsnum option"
  xo_minLiquidityFillRatio :: "jsnum option"
  xo_rejectStaleLiquidity :: "bool option"
  xo_marketImpactBps :: "jsnum option"

definition no_execution_policy :: PartialExecutionPolicy where
  "no_execution_policy =
     \<lparr>xo_slippageBps = None, xo_feeBps = None, xo_taxBps = None, xo_halfSpreadBps = None,
      xo_fillRatio = None, xo_allowFractionalShares = None,
      xo_maxVolumeParticipationRate = None, xo_minLiquidityFillRatio = None,
      xo_rejectStaleLiquidity = None, xo_marketImpactBps = None\<rparr>"

definition normalizeNonnegativeNumber :: "jsnum option \<Rightarrow> jsnum \<Rightarrow> jsnum" where
  "normalizeNonnegativeNumber value fallback =
     (case value of None \<Rightarrow> fallback
      | Some v \<Rightarrow> if \<not> is_finite v then fallback else jmax (Fin 0) v)"

definition createPaperExecutionPolicy :: "PartialExecutionPolicy \<Rightarrow> PaperExecutionPolicy" where
  "createPaperExecutionPolicy p =
     \<lparr>xp_slippageBps = or_else (xo_slippageBps p) (Fin 0),
      xp_feeBps = or_else (xo_feeBps p) (Fin 0),
      xp_taxBps = or_else (xo_taxBps p) (Fin 0),
      xp_halfSpreadBps = normalizeNonnegativeNumber (xo_halfSpreadBps p) (Fin 0),
      xp_fillRatio = or_else (xo_fillRatio p) (Fin 1),
      xp_allowFractionalShares = or_else (xo_allowFractionalShares p) True,
      xp_maxVolumeParticipationRate = or_else (xo_maxVolumeParticipationRate p) (lit (1/10)),
      xp_minLiquidityFillRatio = or_else (xo_minLiquidityFillRatio p) (lit (1/10)),
      xp_rejectStaleLiquidity = or_else (xo_rejectStaleLiquidity p) True,
      xp_marketImpactBps = normalizeNonnegativeNumber (xo_marketImpactBps p) (Fin 0)\<rparr>"

section \<open>Liquidity\<close>

datatype LiquidityRejectReason = StaleLiquidity | InsufficientLiquidity

record PaperLiquidityDecision =
  ld_fillStatus :: FillStatus
  ld_liquidityStatus :: LiquidityStatus
  ld_requestedNotionalKrw :: jsnum
  ld_fillableNotionalKrw :: jsnum
  ld_participationRate :: "jsnum option"
  ld_maxParticipationRate :: jsnum
  ld_volume :: "jsnum option"
  ld_averageVolume :: "jsnum option"
  ld_rejectReason :: "LiquidityRejectReason option"

definition normalizeRatio :: "jsnum \<Rightarrow> jsnum \<Rightarrow> jsnum" where
  "normalizeRatio value fallback =
     (if \<not> is_finite value then fallback else jmax (Fin 0) (jmin (Fin 1) value))"

definition roundRatio6 :: "jsnum \<Rightarrow> jsnum" where
  "roundRatio6 value = to_fixed_number 6 value"

definition opt_list :: "'a option \<Rightarrow> 'a list" where
  "opt_list x = (case x of None \<Rightarrow> [] | Some a \<Rightarrow> [a])"

definition effectiveLiquidityVolume :: "jsnum option \<Rightarrow> jsnum option \<Rightarrow> jsnum option" where
  "effectiveLiquidityVolume volume averageVolume =
     (let volumes = opt_list volume @ opt_list averageVolume
      in if volumes = [] then None else Some (jmin_list volumes))"

definition buildPaperLiquidityDecision ::
  "jsnum \<Rightarrow> jsnum \<Rightarrow> jsnum option \<Rightarrow> jsnum option \<Rightarrow> bool \<Rightarrow> PaperExecutionPolicy
   \<Rightarrow> PaperLiquidityDecision" where
  "buildPaperLiquidityDecision requested sourcePrice volume averageVolume stale policy =
     (let requestedNotional = jmax (Fin 0) (jround requested);
          maxRate = normalizeRatio (xp_maxVolumeParticipationRate policy) (lit (1/10));
          minFillRatio = normalizeRatio (xp_minLiquidityFillRatio policy) (lit (1/10));
          base = \<lparr>ld_fillStatus = Filled, ld_liquidityStatus = NotModeled,
                  ld_requestedNotionalKrw = requestedNotional,
                  ld_fillableNotionalKrw = requestedNotional, ld_participationRate = None,
                  ld_maxParticipationRate = maxRate, ld_volume = volume,
                  ld_averageVolume = averageVolume, ld_rejectReason = None\<rparr>
      in case effectiveLiquidityVolume volume averageVolume of
           None \<Rightarrow> base
         | Some effectiveVolume \<Rightarrow>
             if stale \<and> xp_rejectStaleLiquidity policy then
               base\<lparr>ld_fillStatus := Rejected, ld_liquidityStatus := Stale,
                    ld_fillableNotionalKrw := Fin 0, ld_rejectReason := Some StaleLiquidity\<rparr>
             else
               (let marketNotional = jmul effectiveVolume sourcePrice;
                    maxFillable = jfloor (jmul marketNotional maxRate)
                in if jle requestedNotional (Fin 0) \<or> jle maxFillable (Fin 0) then
                     base\<lparr>ld_fillStatus := Rejected, ld_liquidityStatus := LiqRejected,
                          ld_fillableNotionalKrw := Fin 0,
                          ld_rejectReason := Some InsufficientLiquidity\<rparr>
                   else if jle requestedNotional maxFillable then
                     base\<lparr>ld_liquidityStatus := Sufficient,
                          ld_participationRate :=
                            Some (roundRatio6 (jdiv requestedNotional marketNotional))\<rparr>
                   else if jle minFillRatio (jdiv maxFillable requestedNotional) then
                     base\<lparr>ld_fillStatus := Partial, ld_liquidityStatus := LiqPartial,
                          ld_fillableNotionalKrw := maxFillable,
                          ld_participationRate := Some (roundRatio6 maxRate)\<rparr>
                   else
                     base\<lparr>ld_fillStatus := Rejected, ld_liquidityStatus := LiqRejected,
                          ld_fillableNotionalKrw := Fin 0,
                          ld_participationRate := Some (roundRatio6 maxRate),
                          ld_rejectReason := Some InsufficientLiquidity\<rparr>))"

section \<open>Fill\<close>

record PaperFillInput =
  fi_action :: VirtualAction
  fi_targetNotionalKrw :: jsnum
  fi_sourcePriceKrw :: jsnum
  fi_averagePriceKrw :: "jsnum option"
  fi_quantityOverride :: "jsnum option"
  fi_volume :: "jsnum option"
  fi_averageVolume :: "jsnum option"
  fi_liquidityStale :: bool
  fi_policy :: PartialExecutionPolicy

record PaperFill =
  fl_quantity :: jsnum
  fl_sourcePriceKrw :: jsnum
  fl_fillPriceKrw :: jsnum
  fl_grossAmountKrw :: jsnum
  fl_netAmountKrw :: jsnum
  fl_feeKrw :: jsnum
  fl_taxKrw :: jsnum
  fl_slippageKrw :: jsnum
  fl_spreadCostKrw :: jsnum
  fl_impactCostKrw :: jsnum
  fl_totalCostKrw :: jsnum
  fl_realizedPnlKrw :: "jsnum option"
  fl_fillRatio :: jsnum
  fl_fractionalShares :: bool
  fl_requestedNotionalKrw :: jsnum
  fl_filledNotionalKrw :: jsnum
  fl_fillStatus :: FillStatus
  fl_liquidityStatus :: LiquidityStatus
  fl_participationRate :: "jsnum option"
  fl_maxParticipationRate :: jsnum
  fl_volume :: "jsnum option"
  fl_averageVolume :: "jsnum option"
  fl_liquidityRejectReason :: "LiquidityRejectReason option"

definition applySlippage :: "VirtualAction \<Rightarrow> jsnum \<Rightarrow> PaperExecutionPolicy \<Rightarrow> jsnum" where
  "applySlippage action price policy =
     (let direction = (if action = VIRTUAL_BUY then Fin 1 else Fin (- 1))
      in jmax (Fin 0)
           (jround (jmul price
              (jadd (Fin 1) (jdiv (jmul direction (xp_slippageBps policy)) (Fin 10000))))))"

definition effectiveVolumeForParticipation :: "jsnum option \<Rightarrow> jsnum option \<Rightarrow> jsnum option" where
  "effectiveVolumeForParticipation volume averageVolume =
     (let volumes = filter (\<lambda>v. is_finite v \<and> jlt (Fin 0) v)
                      (opt_list volume @ opt_list averageVolume)
      in if volumes = [] then None else Some (jmin_list volumes))"

definition calculateFilledParticipationRate ::
  "jsnum \<Rightarrow> jsnum option \<Rightarrow> jsnum option \<Rightarrow> jsnum option" where
  "calculateFilledParticipationRate quantity volume averageVolume =
     (case effectiveVolumeForParticipation volume averageVolume of
        None \<Rightarrow> None
      | Some v \<Rightarrow> if jle quantity (Fin 0) then None else Some (roundRatio6 (jdiv quantity v)))"

definition calculateMarketImpactCost ::
  "jsnum \<Rightarrow> jsnum option \<Rightarrow> PaperExecutionPolicy \<Rightarrow> jsnum" where
  "calculateMarketImpactCost gross participationRate policy =
     (case participationRate of
        None \<Rightarrow> Fin 0
      | Some rate \<Rightarrow>
          if jle rate (Fin 0) \<or> jle (xp_marketImpactBps policy) (Fin 0) then Fin 0
          else jround (jdiv (jmul gross (jmul rate (xp_marketImpactBps policy))) (Fin 10000)))"

definition rejectedPaperFill ::
  "jsnum \<Rightarrow> jsnum \<Rightarrow> PaperExecutionPolicy \<Rightarrow> PaperLiquidityDecision \<Rightarrow> PaperFill" where
  "rejectedPaperFill sourcePrice fillPrice policy liq =
     \<lparr>fl_quantity = Fin 0, fl_sourcePriceKrw = sourcePrice, fl_fillPriceKrw = fillPrice,
      fl_grossAmountKrw = Fin 0, fl_netAmountKrw = Fin 0, fl_feeKrw = Fin 0, fl_taxKrw = Fin 0,
      fl_slippageKrw = Fin 0, fl_spreadCostKrw = Fin 0, fl_impactCostKrw = Fin 0,
      fl_totalCostKrw = Fin 0, fl_realizedPnlKrw = None, fl_fillRatio = xp_fillRatio policy,
      fl_fractionalShares = xp_allowFractionalShares policy,
      fl_requestedNotionalKrw = ld_requestedNotionalKrw liq, fl_filledNotionalKrw = Fin 0,
      fl_fillStatus = Rejected, fl_liquidityStatus = ld_liquidityStatus liq,
      fl_participationRate = ld_participationRate liq,
      fl_maxParticipationRate = ld_maxParticipationRate liq, fl_volume = ld_volume liq,
      fl_averageVolume = ld_averageVolume liq, fl_liquidityRejectReason = ld_rejectReason liq\<rparr>"

text \<open>\<open>Math.round((amount * bps) / 10_000)\<close>.\<close>

definition bps_cost :: "jsnum \<Rightarrow> jsnum \<Rightarrow> jsnum" where
  "bps_cost amount bps = jround (jdiv (jmul amount bps) (Fin 10000))"

text \<open>The tail of \<open>buildPaperFillModel\<close>: prices and costs of a quantity that is filled.\<close>

definition filledPaperFill ::
  "PaperFillInput \<Rightarrow> PaperExecutionPolicy \<Rightarrow> jsnum \<Rightarrow> jsnum \<Rightarrow> PaperLiquidityDecision \<Rightarrow> jsnum
   \<Rightarrow> PaperFill" where
  "filledPaperFill inp policy fillPrice requested liq quantity =
     (let sourcePrice = fi_sourcePriceKrw inp;
          gross = jround (jmul quantity fillPrice);
          fee = bps_cost gross (xp_feeBps policy);
          tax = (if fi_action inp = VIRTUAL_SELL then bps_cost gross (xp_taxBps policy) else Fin 0);
          slippage = jround (jmul (jabs (jsub fillPrice sourcePrice)) quantity);
          spread = bps_cost gross (xp_halfSpreadBps policy);
          rate = calculateFilledParticipationRate quantity (fi_volume inp) (fi_averageVolume inp);
          impact = calculateMarketImpactCost gross rate policy;
          explicit = jadd (jadd (jadd fee tax) spread) impact;
          net = (if fi_action inp = VIRTUAL_BUY then jadd gross explicit
                 else jmax (Fin 0) (jsub gross explicit));
          total = jadd (jadd (jadd (jadd fee tax) slippage) spread) impact;
          pnl = (case fi_averagePriceKrw inp of
                   Some average \<Rightarrow> if fi_action inp = VIRTUAL_SELL
                                   then Some (jsub net (jround (jmul quantity average))) else None
                 | None \<Rightarrow> None)
      in \<lparr>fl_quantity = quantity, fl_sourcePriceKrw = sourcePrice, fl_fillPriceKrw = fillPrice,
          fl_grossAmountKrw = gross, fl_netAmountKrw = net, fl_feeKrw = fee, fl_taxKrw = tax,
          fl_slippageKrw = slippage, fl_spreadCostKrw = spread, fl_impactCostKrw = impact,
          fl_totalCostKrw = total, fl_realizedPnlKrw = pnl, fl_fillRatio = xp_fillRatio policy,
          fl_fractionalShares = xp_allowFractionalShares policy,
          fl_requestedNotionalKrw = requested, fl_filledNotionalKrw = gross,
          fl_fillStatus = ld_fillStatus liq, fl_liquidityStatus = ld_liquidityStatus liq,
          fl_participationRate = rate, fl_maxParticipationRate = ld_maxParticipationRate liq,
          fl_volume = ld_volume liq, fl_averageVolume = ld_averageVolume liq,
          fl_liquidityRejectReason = None\<rparr>)"

text \<open>The quantity before and after flooring to whole shares.\<close>

definition fill_quantity ::
  "PaperFillInput \<Rightarrow> PaperExecutionPolicy \<Rightarrow> jsnum \<Rightarrow> PaperLiquidityDecision \<Rightarrow> bool \<Rightarrow> jsnum" where
  "fill_quantity inp policy fillPrice liq enforceWholeShareOverrides =
     (let quantityPrice = (if fi_action inp = VIRTUAL_BUY then fillPrice else fi_sourcePriceKrw inp);
          quantity = (case fi_quantityOverride inp of
              None \<Rightarrow> jdiv (ld_fillableNotionalKrw liq) quantityPrice
            | Some q \<Rightarrow> if ld_fillStatus liq = Filled then q
                        else jmin q (jdiv (ld_fillableNotionalKrw liq) (fi_sourcePriceKrw inp)))
      in if \<not> xp_allowFractionalShares policy \<and>
            (fi_quantityOverride inp = None \<or> enforceWholeShareOverrides)
         then jfloor quantity else quantity)"

definition fill_requested :: "PaperFillInput \<Rightarrow> PaperExecutionPolicy \<Rightarrow> jsnum" where
  "fill_requested inp policy =
     (case fi_quantityOverride inp of
        None \<Rightarrow> jround (jmul (fi_targetNotionalKrw inp) (xp_fillRatio policy))
      | Some q \<Rightarrow> jround (jmul q (fi_sourcePriceKrw inp)))"

definition buildPaperFillModel :: "PaperFillInput \<Rightarrow> bool \<Rightarrow> PaperFill result" where
  "buildPaperFillModel inp enforceWholeShareOverrides =
     (let policy = createPaperExecutionPolicy (fi_policy inp) in
      if enforceWholeShareOverrides \<and> \<not> xp_allowFractionalShares policy \<and>
         (case fi_quantityOverride inp of None \<Rightarrow> False
          | Some q \<Rightarrow> \<not> is_safe_integer q \<or> jle q (Fin 0))
      then Inl (Error ''whole-share execution requires a positive integer quantity override'')
      else
        (let sourcePrice = fi_sourcePriceKrw inp;
             fillPrice = applySlippage (fi_action inp) sourcePrice policy;
             requested = fill_requested inp policy;
             liq = buildPaperLiquidityDecision requested sourcePrice (fi_volume inp)
                     (fi_averageVolume inp) (fi_liquidityStale inp) policy
         in if ld_fillStatus liq = Rejected then
              Inr (rejectedPaperFill sourcePrice fillPrice policy liq)
            else
              (let quantity = fill_quantity inp policy fillPrice liq enforceWholeShareOverrides;
                   belowWholeShareMinimum =
                     enforceWholeShareOverrides \<and> \<not> xp_allowFractionalShares policy \<and>
                     ld_liquidityStatus liq \<noteq> NotModeled \<and>
                     jlt (jdiv (jmul quantity sourcePrice) requested)
                         (xp_minLiquidityFillRatio policy)
               in if jle quantity (Fin 0) \<or> belowWholeShareMinimum then
                    Inr (rejectedPaperFill sourcePrice fillPrice policy
                      (liq\<lparr>ld_fillStatus := Rejected,
                           ld_liquidityStatus :=
                             (if enforceWholeShareOverrides \<or> ld_liquidityStatus liq = NotModeled
                              then LiqRejected else ld_liquidityStatus liq),
                           ld_fillableNotionalKrw := Fin 0,
                           ld_rejectReason := Some InsufficientLiquidity\<rparr>))
                  else Inr (filledPaperFill inp policy fillPrice requested liq quantity))))"

definition buildWholeSharePaperFill :: "PaperFillInput \<Rightarrow> PaperFill result" where
  "buildWholeSharePaperFill inp = buildPaperFillModel inp True"

text \<open>\<open>buildPaperFill\<close> cannot throw, so it returns the fill itself.\<close>

definition buildPaperFill :: "PaperFillInput \<Rightarrow> PaperFill" where
  "buildPaperFill inp = (case buildPaperFillModel inp False of Inr f \<Rightarrow> f)"

section \<open>Shape of a fill\<close>

definition input_policy :: "PaperFillInput \<Rightarrow> PaperExecutionPolicy" where
  "input_policy inp = createPaperExecutionPolicy (fi_policy inp)"

definition input_fill_price :: "PaperFillInput \<Rightarrow> jsnum" where
  "input_fill_price inp = applySlippage (fi_action inp) (fi_sourcePriceKrw inp) (input_policy inp)"

definition input_liquidity :: "PaperFillInput \<Rightarrow> PaperLiquidityDecision" where
  "input_liquidity inp =
     buildPaperLiquidityDecision (fill_requested inp (input_policy inp)) (fi_sourcePriceKrw inp)
       (fi_volume inp) (fi_averageVolume inp) (fi_liquidityStale inp) (input_policy inp)"

definition input_quantity :: "PaperFillInput \<Rightarrow> jsnum" where
  "input_quantity inp =
     fill_quantity inp (input_policy inp) (input_fill_price inp) (input_liquidity inp) False"

lemmas input_defs = input_policy_def input_fill_price_def input_liquidity_def input_quantity_def

text \<open>A fill is a rejection, or the priced fill of a quantity that is not at most zero.\<close>

lemma buildPaperFill_cases:
  obtains (Rejection) liq where
      "buildPaperFill inp =
         rejectedPaperFill (fi_sourcePriceKrw inp) (input_fill_price inp) (input_policy inp) liq"
  | (Filling)
      "buildPaperFill inp = filledPaperFill inp (input_policy inp) (input_fill_price inp)
         (fill_requested inp (input_policy inp)) (input_liquidity inp) (input_quantity inp)"
      "ld_fillStatus (input_liquidity inp) \<noteq> Rejected"
      "\<not> jle (input_quantity inp) (Fin 0)"
proof (cases "ld_fillStatus (input_liquidity inp) = Rejected \<or> jle (input_quantity inp) (Fin 0)")
  case True
  then show thesis
    by (intro Rejection [of "if ld_fillStatus (input_liquidity inp) = Rejected
          then input_liquidity inp
          else (input_liquidity inp)\<lparr>ld_fillStatus := Rejected,
            ld_liquidityStatus := (if ld_liquidityStatus (input_liquidity inp) = NotModeled
              then LiqRejected else ld_liquidityStatus (input_liquidity inp)),
            ld_fillableNotionalKrw := Fin 0, ld_rejectReason := Some InsufficientLiquidity\<rparr>"])
      (auto simp: buildPaperFill_def buildPaperFillModel_def input_defs Let_def)
next
  case False
  then show thesis
    by (intro Filling) (auto simp: buildPaperFill_def buildPaperFillModel_def input_defs Let_def)
qed

lemma buildPaperFillModel_total: "\<exists>f. buildPaperFillModel inp False = Inr f"
  by (simp add: buildPaperFillModel_def Let_def)

lemmas filled_simps = filledPaperFill_def Let_def

lemma filled_status:
  "fl_fillStatus (buildPaperFill inp) \<noteq> Rejected \<Longrightarrow>
   buildPaperFill inp = filledPaperFill inp (input_policy inp) (input_fill_price inp)
     (fill_requested inp (input_policy inp)) (input_liquidity inp) (input_quantity inp) \<and>
   ld_fillStatus (input_liquidity inp) \<noteq> Rejected \<and> \<not> jle (input_quantity inp) (Fin 0)"
  by (cases inp rule: buildPaperFill_cases) (auto simp: rejectedPaperFill_def)

section \<open>The liquidity gate\<close>

lemma normalizeRatio_bounds:
  "jle (Fin 0) fb \<Longrightarrow> jle fb (Fin 1) \<Longrightarrow>
   jle (Fin 0) (normalizeRatio x fb) \<and> jle (normalizeRatio x fb) (Fin 1)"
  by (cases x) (auto simp: normalizeRatio_def jmax_def jmin_def)

lemma tenth_bounds: "jle (Fin 0) (lit (1/10))" "jle (lit (1/10)) (Fin 1)"
  using mk_mono [of 0 "1/10"] mk_mono [of "1/10" 1] by simp_all

lemma max_participation_bounds:
  "jle (Fin 0) (ld_maxParticipationRate (buildPaperLiquidityDecision req p v a st pol))"
  "jle (ld_maxParticipationRate (buildPaperLiquidityDecision req p v a st pol)) (Fin 1)"
  using normalizeRatio_bounds [OF tenth_bounds, of "xp_maxVolumeParticipationRate pol"]
  by (simp_all add: buildPaperLiquidityDecision_def Let_def split: option.split)

text \<open>With a volume, what passes the gate is positive and within the cap.\<close>

definition participation_cap :: "jsnum \<Rightarrow> jsnum \<Rightarrow> PaperExecutionPolicy \<Rightarrow> jsnum" where
  "participation_cap vol price pol =
     jfloor (jmul (jmul vol price)
       (normalizeRatio (xp_maxVolumeParticipationRate pol) (lit (1/10))))"

lemma liquidity_passes:
  assumes "effectiveLiquidityVolume v a = Some vol"
    and "ld_fillStatus (buildPaperLiquidityDecision req price v a stale pol) \<noteq> Rejected"
  defines "cap \<equiv> participation_cap vol price pol" and "r \<equiv> jmax (Fin 0) (jround req)"
    and "fillable \<equiv> ld_fillableNotionalKrw (buildPaperLiquidityDecision req price v a stale pol)"
  shows "\<not> (stale \<and> xp_rejectStaleLiquidity pol)" and "\<not> jle r (Fin 0)" and "\<not> jle cap (Fin 0)"
    and "jle r cap \<and> fillable = r \<or>
      \<not> jle r cap \<and> fillable = cap \<and>
      jle (normalizeRatio (xp_minLiquidityFillRatio pol) (lit (1/10))) (jdiv cap r)"
  using assms(1,2) unfolding cap_def r_def fillable_def participation_cap_def
  by (simp_all add: buildPaperLiquidityDecision_def Let_def split: if_splits) auto

lemma liquidity_fields [simp]:
  "ld_requestedNotionalKrw (buildPaperLiquidityDecision req price v a stale pol) =
     jmax (Fin 0) (jround req)"
  "ld_maxParticipationRate (buildPaperLiquidityDecision req price v a stale pol) =
     normalizeRatio (xp_maxVolumeParticipationRate pol) (lit (1/10))"
  by (simp_all add: buildPaperLiquidityDecision_def Let_def split: option.split)

lemma liquidity_unmodelled [simp]:
  "effectiveLiquidityVolume v a = None \<Longrightarrow>
   ld_fillableNotionalKrw (buildPaperLiquidityDecision req price v a stale pol) =
     jmax (Fin 0) (jround req)"
  by (simp add: buildPaperLiquidityDecision_def Let_def)

lemma jdiv_NaN [simp]: "jdiv NaN y = NaN" "jdiv x NaN = NaN"
  by (cases y; simp) (cases x; simp)

lemma liquidity_gate:
  assumes "effectiveLiquidityVolume v a = Some vol"
    and "ld_fillStatus (buildPaperLiquidityDecision req price v a stale pol) \<noteq> Rejected"
  shows "jlt (Fin 0) (ld_fillableNotionalKrw (buildPaperLiquidityDecision req price v a stale pol))"
    and "jle (ld_fillableNotionalKrw (buildPaperLiquidityDecision req price v a stale pol))
           (jmax (Fin 0) (jround req))"
    and "jle (ld_fillableNotionalKrw (buildPaperLiquidityDecision req price v a stale pol))
           (participation_cap vol price pol)"
proof -
  let ?r = "jmax (Fin 0) (jround req)" and ?cap = "participation_cap vol price pol"
  note p = liquidity_passes [OF assms]
  have lt: "jlt (Fin 0) c" if "c \<noteq> NaN" "\<not> jle c (Fin 0)" for c using that by (auto simp: jle_def)
  from p(4) have n: "?r \<noteq> NaN" "?cap \<noteq> NaN" by fastforce+
  then have "jle ?cap ?r" if "\<not> jle ?r ?cap" using that by (cases ?r; cases ?cap) auto
  with p n lt
  show "jlt (Fin 0) (ld_fillableNotionalKrw (buildPaperLiquidityDecision req price v a stale pol))"
    and "jle (ld_fillableNotionalKrw (buildPaperLiquidityDecision req price v a stale pol)) ?r"
    and "jle (ld_fillableNotionalKrw (buildPaperLiquidityDecision req price v a stale pol)) ?cap"
    by auto
qed

section \<open>Costs and net amounts\<close>

text \<open>
  The execution policies with which the costs of a fill are costs: no rate is negative (and
  none exceeds the safe integers).
\<close>

definition rate_ok :: "jsnum \<Rightarrow> bool" where
  "rate_ok x \<longleftrightarrow> nonneg_number x \<and> jle x MAX_SAFE_INTEGER"

definition execution_policy_ok :: "PaperExecutionPolicy \<Rightarrow> bool" where
  "execution_policy_ok xp \<longleftrightarrow>
     rate_ok (xp_slippageBps xp) \<and> rate_ok (xp_feeBps xp) \<and> rate_ok (xp_taxBps xp) \<and>
     rate_ok (xp_halfSpreadBps xp) \<and> rate_ok (xp_marketImpactBps xp) \<and>
     ratio_number (xp_fillRatio xp)"

text \<open>A traded volume, if known, is zero or at least one share.\<close>

definition share_count :: "jsnum \<Rightarrow> bool" where
  "share_count v \<longleftrightarrow> nonneg_number v \<and> (v = Fin 0 \<or> jle (Fin 1) v)"

lemma nonneg_number_not_neg: "nonneg_number x \<Longrightarrow> not_neg x"
  by (simp add: nonneg_number_def not_neg_jle)

lemma not_jle_not_neg: "\<not> jle x (Fin 0) \<Longrightarrow> not_neg x"
  by (cases x) (auto simp: jle_def)

lemma bps_cost_amount [not_neg_intros]: "not_neg x \<Longrightarrow> not_neg b \<Longrightarrow> int_amount (bps_cost x b)"
  unfolding bps_cost_def by (intro not_neg_intros) auto

lemma applySlippage_not_neg [not_neg_intros]: "not_neg (applySlippage a p pol)"
  by (simp add: applySlippage_def Let_def not_neg_jmax0)

lemma impact_amount [not_neg_intros]:
  "not_neg g \<Longrightarrow> int_amount (calculateMarketImpactCost g rate pol)"
  by (cases rate)
    (auto simp: calculateMarketImpactCost_def intro!: not_neg_intros dest!: not_jle_not_neg)

text \<open>What a fill costs: every cost and the gross amount is an integer, at least zero.\<close>

lemma filled_amounts:
  assumes ok: "execution_policy_ok (input_policy inp)"
    and st: "fl_fillStatus (buildPaperFill inp) \<noteq> Rejected"
  shows "int_amount (fl_grossAmountKrw (buildPaperFill inp))"
    and "int_amount (fl_feeKrw (buildPaperFill inp))"
    and "int_amount (fl_taxKrw (buildPaperFill inp))"
    and "int_amount (fl_spreadCostKrw (buildPaperFill inp))"
    and "int_amount (fl_impactCostKrw (buildPaperFill inp))"
    and "int_amount (fl_slippageKrw (buildPaperFill inp))"
proof -
  from filled_status [OF st] have q: "not_neg (input_quantity inp)" by (auto dest: not_jle_not_neg)
  have g: "int_amount (jround (jmul (input_quantity inp) (input_fill_price inp)))"
    using q by (intro not_neg_intros) (auto simp: input_defs intro: not_neg_intros)
  then have g': "not_neg (jround (jmul (input_quantity inp) (input_fill_price inp)))"
    by (simp add: int_amount_def)
  from filled_status [OF st] have eq: "buildPaperFill inp = filledPaperFill inp (input_policy inp)
      (input_fill_price inp) (fill_requested inp (input_policy inp)) (input_liquidity inp)
      (input_quantity inp)" by blast
  from g show "int_amount (fl_grossAmountKrw (buildPaperFill inp))"
    by (simp add: eq filled_simps)
  show "int_amount (fl_feeKrw (buildPaperFill inp))"
    "int_amount (fl_taxKrw (buildPaperFill inp))"
    "int_amount (fl_spreadCostKrw (buildPaperFill inp))"
    using g' ok by (auto simp: eq filled_simps execution_policy_ok_def rate_ok_def
      intro!: bps_cost_amount nonneg_number_not_neg)
  show "int_amount (fl_impactCostKrw (buildPaperFill inp))"
    using g' by (simp add: eq filled_simps impact_amount)
  show "int_amount (fl_slippageKrw (buildPaperFill inp))"
    using q by (simp add: eq filled_simps int_amount_jround not_neg_jmul not_neg_jabs)
qed

lemma filled_net_buy:
  "fi_action inp = VIRTUAL_BUY \<Longrightarrow> fl_fillStatus (buildPaperFill inp) \<noteq> Rejected \<Longrightarrow>
   fl_netAmountKrw (buildPaperFill inp) =
     jadd (fl_grossAmountKrw (buildPaperFill inp))
       (jadd (jadd (jadd (fl_feeKrw (buildPaperFill inp)) (fl_taxKrw (buildPaperFill inp)))
         (fl_spreadCostKrw (buildPaperFill inp))) (fl_impactCostKrw (buildPaperFill inp)))"
  by (drule filled_status) (simp add: filled_simps)

lemma filled_net_sell:
  "fi_action inp = VIRTUAL_SELL \<Longrightarrow> fl_fillStatus (buildPaperFill inp) \<noteq> Rejected \<Longrightarrow>
   fl_netAmountKrw (buildPaperFill inp) = jmax (Fin 0)
     (jsub (fl_grossAmountKrw (buildPaperFill inp))
       (jadd (jadd (jadd (fl_feeKrw (buildPaperFill inp)) (fl_taxKrw (buildPaperFill inp)))
         (fl_spreadCostKrw (buildPaperFill inp))) (fl_impactCostKrw (buildPaperFill inp))))"
  by (drule filled_status) (simp add: filled_simps)

lemma buy_net_amount:
  assumes "execution_policy_ok (input_policy inp)" and "fi_action inp = VIRTUAL_BUY"
    and "fl_fillStatus (buildPaperFill inp) \<noteq> Rejected"
  shows "int_amount (fl_netAmountKrw (buildPaperFill inp))"
  unfolding filled_net_buy [OF assms(2,3)]
  using filled_amounts [OF assms(1,3)] by (intro not_neg_intros) auto

lemma buy_accounting:
  assumes ok: "execution_policy_ok (input_policy inp)" and buy: "fi_action inp = VIRTUAL_BUY"
    and st: "fl_fillStatus (buildPaperFill inp) \<noteq> Rejected"
    and le: "jle (fl_netAmountKrw (buildPaperFill inp)) (Fin 9007199254740991)"
  obtains gross fee tax spread impact where
    "fl_grossAmountKrw (buildPaperFill inp) = num gross" "0 \<le> gross"
    "fl_feeKrw (buildPaperFill inp) = num fee" "0 \<le> fee"
    "fl_taxKrw (buildPaperFill inp) = num tax" "0 \<le> tax"
    "fl_spreadCostKrw (buildPaperFill inp) = num spread" "0 \<le> spread"
    "fl_impactCostKrw (buildPaperFill inp) = num impact" "0 \<le> impact"
    "fl_netAmountKrw (buildPaperFill inp) = num (gross + fee + tax + spread + impact)"
proof -
  let ?f = "buildPaperFill inp"
  note am = filled_amounts [OF ok st] and net = filled_net_buy [OF buy st]
  let ?ft = "jadd (fl_feeKrw ?f) (fl_taxKrw ?f)" and ?fts = "jadd (jadd (fl_feeKrw ?f) (fl_taxKrw ?f)) (fl_spreadCostKrw ?f)"
  let ?e = "jadd ?fts (fl_impactCostKrw ?f)"
  have i: "int_amount ?ft" "int_amount ?fts" "int_amount ?e"
    using am by (auto intro: int_amount_jadd)
  obtain g e where g: "fl_grossAmountKrw ?f = num g" "?e = num e" "0 \<le> g" "0 \<le> e"
      "fl_netAmountKrw ?f = num (g + e)" "g + e \<le> 9007199254740991"
    using int_amount_sum [OF am(1) i(3)] le net by metis
  have bound: "jle (num k) (Fin 9007199254740991)" if "k \<le> 9007199254740991" for k
  proof -
    have "(of_int k :: rat) \<le> of_int 9007199254740991" using that by (simp only: of_int_le_iff)
    then show ?thesis by simp
  qed
  have "jle ?e (Fin 9007199254740991)" unfolding g(2) by (rule bound) (use g in linarith)
  from int_amount_sum [OF i(2) am(5) this] obtain s im where
    s: "?fts = num s" "fl_impactCostKrw ?f = num im" "0 \<le> s" "0 \<le> im" "?e = num (s + im)"
      "s + im \<le> 9007199254740991" by metis
  have "jle ?fts (Fin 9007199254740991)" unfolding s(1) by (rule bound) (use s in linarith)
  from int_amount_sum [OF i(1) am(4) this] obtain t sp where
    t: "?ft = num t" "fl_spreadCostKrw ?f = num sp" "0 \<le> t" "0 \<le> sp" "?fts = num (t + sp)"
      "t + sp \<le> 9007199254740991" by metis
  have "jle ?ft (Fin 9007199254740991)" unfolding t(1) by (rule bound) (use t in linarith)
  from int_amount_sum [OF am(2,3) this] obtain fe ta where
    f: "fl_feeKrw ?f = num fe" "fl_taxKrw ?f = num ta" "0 \<le> fe" "0 \<le> ta" "?ft = num (fe + ta)" by metis
  from g(2) s(1,5) t(1,5) f(5) have "e = fe + ta + sp + im" by simp
  with g s t f show thesis by (intro that [of g fe ta sp im]) simp_all
qed

section \<open>A purchase of a safe notional has a finite cost\<close>

lemma rate_capped: "rate_ok x \<Longrightarrow> capped 53 x"
  by (cases x) (auto simp: rate_ok_def nonneg_number_def MAX_SAFE_INTEGER_def)

lemma money_capped: "money x \<Longrightarrow> capped 53 x"
proof (elim moneyE)
  fix n assume n: "x = num n" "0 \<le> n" "n \<le> 9007199254740991"
  then have "n \<le> 2 ^ 53" by simp
  then have "(of_int n :: rat) \<le> of_int (2 ^ 53)" by (simp only: of_int_le_iff)
  with n show ?thesis by simp
qed

lemma ratio_capped: "ratio_number x \<Longrightarrow> capped 0 x"
  by (cases x) (auto simp: ratio_number_def nonneg_number_def)

lemma capped_bps_cost: "capped k x \<Longrightarrow> rate_ok b \<Longrightarrow> k \<le> 900 \<Longrightarrow> capped (k + 53) (bps_cost x b)"
  unfolding bps_cost_def
  by (intro capped_jround capped_jdiv capped_jmul rate_capped) auto

lemma buy_fill_price:
  assumes "rate_ok (xp_slippageBps pol)" and "0 < p" and "p \<le> 9007199254740991"
  obtains fp where "applySlippage VIRTUAL_BUY (num p) pol = num fp" "p \<le> fp" "capped 107 (num fp)"
proof -
  obtain s where s: "xp_slippageBps pol = Fin s" "0 \<le> s" "representable s" "s \<le> max_finite"
    using assms(1) by (auto simp: rate_ok_def elim: nonneg_numberE)
  have s1: "jmul (Fin 1) (Fin s) = Fin s" using s mk_exact [of s] by simp
  have c: "capped 53 (Fin s)" using rate_capped [OF assms(1)] s by simp
  have "capped 53 (jdiv (Fin s) (Fin 10000))" by (rule capped_jdiv [OF c]) simp_all
  then obtain x where x: "jdiv (Fin s) (Fin 10000) = Fin x" "0 \<le> x" "x \<le> 2 ^ 53"
    by (rule cappedE)
  have "capped 54 (jadd (Fin 1) (Fin x))" using capped_jadd [of 53 "Fin 1" "Fin x"] x by simp
  then obtain y where y: "jadd (Fin 1) (Fin x) = Fin y" "y \<le> 2 ^ 54" "0 \<le> y" by (rule cappedE)
  have "1 \<le> rnd (1 + x)" using x by (intro rnd_ge_representable) auto
  then have y1: "1 \<le> y" using y by (auto dest: mk_FinD)
  have pc: "capped 53 (num p)" using money_capped [OF moneyI, of p] assms by simp
  have m: "capped 107 (jmul (num p) (Fin y))"
    using capped_jmul [OF pc, of 54 "Fin y"] y y1 by simp
  then obtain z where z: "jmul (num p) (Fin y) = Fin z" by (rule cappedE)
  have "of_int p \<le> rnd (of_int p * y)"
    using y1 assms by (intro rnd_ge_representable representable_of_int) auto
  then have pz: "of_int p \<le> z" using z by (auto dest: mk_FinD)
  have r: "jround (jmul (num p) (Fin y)) = num \<lfloor>z + 1/2\<rfloor>" using z by simp
  have pf: "p \<le> \<lfloor>z + 1/2\<rfloor>" using pz by linarith
  then have nn: "(0::rat) \<le> of_int \<lfloor>z + 1/2\<rfloor>" using assms by linarith
  have "jmax (Fin 0) (num k) = num k" if "0 < k" for k :: int using that by (auto simp: jmax_def)
  then have "jmax (Fin 0) (num \<lfloor>z + 1/2\<rfloor>) = num \<lfloor>z + 1/2\<rfloor>"
    using pf assms(2) by (metis less_le_trans)
  then have "applySlippage VIRTUAL_BUY (num p) pol = num \<lfloor>z + 1/2\<rfloor>"
    unfolding applySlippage_def Let_def using s(1) s1 x(1) y(1) r by simp
  moreover have "capped 107 (num \<lfloor>z + 1/2\<rfloor>)" using capped_jround [OF m] r by simp
  ultimately show thesis using pf that by blast
qed

lemma effective_volume_ge:
  assumes "opt_all share_count v" and "opt_all share_count a"
    and "effectiveVolumeForParticipation v a = Some m"
  shows "jle (Fin 1) m"
proof -
  have ge: "jle (Fin 1) x" if "x \<in> set (filter (\<lambda>v. is_finite v \<and> jlt (Fin 0) v) (opt_list v @ opt_list a))"
    for x using that assms(1,2)
    by (auto simp: share_count_def opt_list_def opt_all_def split: option.splits)
  have fold: "jle (Fin 1) (foldl jmin b xs)" if "jle (Fin 1) b" "\<And>x. x \<in> set xs \<Longrightarrow> jle (Fin 1) x"
    for b xs using that
  proof (induction xs arbitrary: b)
    case (Cons x xs)
    have "jle (Fin 1) x" using Cons.prems(2) by simp
    then have "jle (Fin 1) (jmin b x)" using Cons.prems(1) by (auto simp: jmin_def)
    with Cons show ?case by auto
  qed simp
  show ?thesis using assms(3) ge
    by (auto simp: effectiveVolumeForParticipation_def Let_def jmin_list_def split: if_splits
      intro!: fold)
qed

lemma capped_impact:
  assumes "capped k g" and "rate_ok (xp_marketImpactBps pol)" and "k \<le> 800"
    and "\<And>r. rate = Some r \<Longrightarrow> capped 54 r"
  shows "capped (k + 107) (calculateMarketImpactCost g rate pol)"
proof (cases rate)
  case (Some r)
  have "capped (k + (54 + 53)) (jmul g (jmul r (xp_marketImpactBps pol)))"
    using assms Some by (intro capped_jmul rate_capped) auto
  then have "capped (k + 107) (jround (jdiv (jmul g (jmul r (xp_marketImpactBps pol))) (Fin 10000)))"
    using assms(3) by (intro capped_jround capped_jdiv) auto
  with Some show ?thesis by (simp add: calculateMarketImpactCost_def)
qed (simp add: calculateMarketImpactCost_def)

text \<open>The explicit cost of a fill: fee, tax, spread and impact.\<close>

definition explicit_cost :: "PaperFill \<Rightarrow> jsnum" where
  "explicit_cost f =
     jadd (jadd (jadd (fl_feeKrw f) (fl_taxKrw f)) (fl_spreadCostKrw f)) (fl_impactCostKrw f)"

lemma fill_costs_capped:
  assumes ok: "execution_policy_ok (input_policy inp)"
    and vol: "opt_all share_count (fi_volume inp)" "opt_all share_count (fi_averageVolume inp)"
    and st: "fl_fillStatus (buildPaperFill inp) \<noteq> Rejected"
    and q: "capped 53 (input_quantity inp)" and fp: "capped 107 (input_fill_price inp)"
  shows "capped 160 (fl_grossAmountKrw (buildPaperFill inp))"
    and "capped 270 (explicit_cost (buildPaperFill inp))"
proof -
  let ?pol = "input_policy inp" and ?q = "input_quantity inp" and ?f = "buildPaperFill inp"
  have rates: "rate_ok (xp_feeBps ?pol)" "rate_ok (xp_taxBps ?pol)"
    "rate_ok (xp_halfSpreadBps ?pol)" "rate_ok (xp_marketImpactBps ?pol)"
    using ok by (auto simp: execution_policy_ok_def)
  from filled_status [OF st] have eq: "?f = filledPaperFill inp ?pol (input_fill_price inp)
      (fill_requested inp ?pol) (input_liquidity inp) ?q" by blast
  have "capped (53 + 107) (jround (jmul ?q (input_fill_price inp)))"
    using q fp by (intro capped_jround capped_jmul) auto
  then show g: "capped 160 (fl_grossAmountKrw ?f)" by (simp add: eq filled_simps)
  have rate: "capped 54 r"
    if "calculateFilledParticipationRate ?q (fi_volume inp) (fi_averageVolume inp) = Some r" for r
  proof -
    from that obtain v where
      v: "effectiveVolumeForParticipation (fi_volume inp) (fi_averageVolume inp) = Some v"
      and r: "r = roundRatio6 (jdiv ?q v)"
      by (auto simp: calculateFilledParticipationRate_def split: option.splits if_splits)
    have "capped 53 (jdiv ?q v)" using q effective_volume_ge [OF vol v] by (intro capped_jdiv) auto
    then have "capped (Suc 53) r" unfolding r roundRatio6_def by (intro capped_fixed) auto
    then show ?thesis by simp
  qed
  have fee: "capped (160 + 53) (fl_feeKrw ?f)"
    using capped_bps_cost [OF g rates(1)] by (simp add: eq filled_simps)
  have spread: "capped (160 + 53) (fl_spreadCostKrw ?f)"
    using capped_bps_cost [OF g rates(3)] by (simp add: eq filled_simps)
  have impact: "capped (160 + 107) (fl_impactCostKrw ?f)"
    using capped_impact [OF g rates(4) _ rate] by (simp add: eq filled_simps)
  have tax: "capped (160 + 53) (fl_taxKrw ?f)"
    using capped_bps_cost [OF g rates(2)] by (simp add: eq filled_simps)
  have "capped (Suc 213) (jadd (fl_feeKrw ?f) (fl_taxKrw ?f))"
    using fee tax by (intro capped_jadd) auto
  then have "capped (Suc 268) (jadd (jadd (fl_feeKrw ?f) (fl_taxKrw ?f)) (fl_spreadCostKrw ?f))"
    using spread by (intro capped_jadd) (auto intro: capped_mono)
  then have "capped (Suc 269) (explicit_cost ?f)"
    unfolding explicit_cost_def using impact by (intro capped_jadd) (auto intro: capped_mono)
  then show "capped 270 (explicit_cost ?f)" by simp
qed

text \<open>What passes the gate is at most what was requested.\<close>

lemma fillable_le_requested:
  assumes "ld_fillStatus (input_liquidity inp) \<noteq> Rejected"
    and "fill_requested inp (input_policy inp) = num r" and "0 \<le> r"
  obtains a where "ld_fillableNotionalKrw (input_liquidity inp) = Fin a" "0 \<le> a" "a \<le> of_int r"
proof -
  have rr: "jround (num r) = num r" by (rule jround_int) simp
  have r: "jmax (Fin 0) (jround (fill_requested inp (input_policy inp))) = num r"
    unfolding assms(2) rr using assms(3) by (auto simp: jmax_def)
  show thesis
  proof (cases "effectiveLiquidityVolume (fi_volume inp) (fi_averageVolume inp)")
    case None
    with r assms(3) that show ?thesis by (simp add: input_liquidity_def)
  next
    case (Some vol)
    note g = liquidity_gate [OF Some assms(1) [unfolded input_liquidity_def],
        folded input_liquidity_def, unfolded r]
    from g(1,2) that show ?thesis
      by (cases "ld_fillableNotionalKrw (input_liquidity inp)") auto
  qed
qed

text \<open>The requested notional of a target: at most the target, and an integer.\<close>

lemma requested_le_target:
  assumes "ratio_number (xp_fillRatio (input_policy inp))" and "fi_quantityOverride inp = None"
    and "fi_targetNotionalKrw inp = num t" and "0 \<le> t" and "t \<le> 2 ^ 53"
  obtains r where "fill_requested inp (input_policy inp) = num r" "0 \<le> r" "r \<le> t"
proof -
  obtain x where x: "xp_fillRatio (input_policy inp) = Fin x" "0 \<le> x" "x \<le> 1"
    using assms(1) by (auto simp: ratio_number_def elim: nonneg_numberE)
  have le: "of_int t * x \<le> of_int t * 1" using x assms(4) by (intro mult_left_mono) auto
  have rep: "representable (of_int t)" using assms(4,5) by (intro representable_of_int) auto
  have "(of_int t :: rat) \<le> of_int (2 ^ 53)" using assms(5) by (simp only: of_int_le_iff)
  then have "\<bar>of_int t * x\<bar> \<le> max_finite" using le x assms(4) max_finite_ge by (simp add: abs_mult)
  then have m: "jmul (num t) (Fin x) = Fin (rnd (of_int t * x))" by (simp add: mk_bounded)
  have b: "0 \<le> rnd (of_int t * x)" "rnd (of_int t * x) \<le> of_int t"
    using x assms(4) le rep by (auto intro: rnd_nonneg rnd_le_representable)
  show thesis
    by (rule that [of "\<lfloor>rnd (of_int t * x) + 1/2\<rfloor>"])
      (use assms(2,3) x m b in \<open>simp_all add: fill_requested_def, linarith+\<close>)
qed

lemma buy_net_finite:
  assumes ok: "execution_policy_ok (input_policy inp)" and buy: "fi_action inp = VIRTUAL_BUY"
    and noq: "fi_quantityOverride inp = None"
    and target: "money (fi_targetNotionalKrw inp)"
    and price: "money (fi_sourcePriceKrw inp)" "truthy_num (fi_sourcePriceKrw inp)"
    and vol: "opt_all share_count (fi_volume inp)" "opt_all share_count (fi_averageVolume inp)"
    and st: "fl_fillStatus (buildPaperFill inp) \<noteq> Rejected"
  shows "capped 271 (fl_netAmountKrw (buildPaperFill inp))" and "capped 53 (input_quantity inp)"
proof -
  let ?q = "input_quantity inp" and ?f = "buildPaperFill inp"
  have rates: "rate_ok (xp_slippageBps (input_policy inp))"
    "ratio_number (xp_fillRatio (input_policy inp))"
    using ok by (auto simp: execution_policy_ok_def)
  obtain p where p: "fi_sourcePriceKrw inp = num p" "0 < p" "p \<le> 9007199254740991"
    using price by (auto simp: truthy_num_def elim!: moneyE)
  obtain fp where fp: "input_fill_price inp = num fp" "p \<le> fp" "capped 107 (num fp)"
    using buy_fill_price [OF rates(1) p(2,3)] buy p(1) by (metis input_fill_price_def)
  have fp1: "jle (Fin 1) (num fp)" using fp(2) p(2) by simp
  from filled_status [OF st] have ls: "ld_fillStatus (input_liquidity inp) \<noteq> Rejected" by blast
  obtain t where t: "fi_targetNotionalKrw inp = num t" "0 \<le> t" "t \<le> 9007199254740991"
    using target by (rule moneyE)
  then have t53: "t \<le> 2 ^ 53" by simp
  obtain r where r: "fill_requested inp (input_policy inp) = num r" "0 \<le> r" "r \<le> t"
    by (rule requested_le_target [OF rates(2) noq t(1,2) t53])
  obtain a where a: "ld_fillableNotionalKrw (input_liquidity inp) = Fin a" "0 \<le> a" "a \<le> of_int r"
    by (rule fillable_le_requested [OF ls r(1,2)])
  have "(of_int r :: rat) \<le> of_int (2 ^ 53)" using r(3) t53 by (simp only: of_int_le_iff)
  then have "capped 53 (ld_fillableNotionalKrw (input_liquidity inp))" using a by simp
  then have "capped 53 (jdiv (ld_fillableNotionalKrw (input_liquidity inp)) (num fp))"
    using fp1 by (intro capped_jdiv) auto
  then show q: "capped 53 ?q"
    using buy noq fp(1) by (simp add: input_quantity_def fill_quantity_def Let_def capped_jfloor)
  note c = fill_costs_capped [OF ok vol st q fp(3) [folded fp(1)]]
  have "capped (Suc 270) (fl_netAmountKrw ?f)"
    unfolding filled_net_buy [OF buy st] explicit_cost_def [symmetric]
    using c by (intro capped_jadd) (auto intro: capped_mono)
  then show "capped 271 (fl_netAmountKrw ?f)" by simp
qed

section \<open>A sale of part of a position\<close>

lemma jsub_finite: "capped k x \<Longrightarrow> capped k y \<Longrightarrow> k \<le> 1000 \<Longrightarrow> is_finite (jsub x y)"
proof (elim cappedE)
  fix a b assume ab: "x = Fin a" "0 \<le> a" "a \<le> 2 ^ k" "y = Fin b" "0 \<le> b" "b \<le> 2 ^ k"
    and k: "k \<le> 1000"
  have "\<bar>a - b\<bar> \<le> max_finite" using ab power_le_max_finite [OF k] by (simp add: abs_le_iff)
  with ab show ?thesis by (simp add: jsub_def mk_bounded)
qed

lemma sell_fill_price:
  assumes "rate_ok (xp_slippageBps pol)" and "0 \<le> p" and "p \<le> 9007199254740991"
  shows "capped 53 (applySlippage VIRTUAL_SELL (num p) pol)"
proof -
  obtain s where s: "xp_slippageBps pol = Fin s" "0 \<le> s" "representable s" "s \<le> max_finite"
    using assms(1) by (auto simp: rate_ok_def elim: nonneg_numberE)
  have sc: "s \<le> 2 ^ 53" using rate_capped [OF assms(1)] s by simp
  have s1: "jmul (Fin (- 1)) (Fin s) = Fin (- s)"
    using s mk_exact [of "- s"] by (simp add: representable_minus)
  have m: "\<bar>- s / 10000\<bar> \<le> max_finite" using s sc max_finite_ge by simp
  define x where "x = rnd (s / 10000)"
  have x: "jdiv (Fin (- s)) (Fin 10000) = Fin (- x)"
    using m mk_bounded [of "- s / 10000"] rnd_minus [of "s / 10000"] by (simp add: x_def)
  have "s / 10000 \<le> 2 ^ 53" using s sc by simp
  then have x0: "0 \<le> x" "x \<le> 2 ^ 53"
    using s representable_power [of 53] by (auto simp: x_def intro: rnd_nonneg rnd_le_representable)
  then have "\<bar>1 - x\<bar> \<le> max_finite" using max_finite_ge by (simp add: abs_le_iff)
  then have y: "jadd (Fin 1) (Fin (- x)) = Fin (rnd (1 - x))" by (simp add: mk_bounded)
  have y1: "rnd (1 - x) \<le> 1" using x0 by (intro rnd_le_representable) auto
  let ?z = "jmul (num p) (Fin (rnd (1 - x)))"
  have "of_int p * rnd (1 - x) \<le> of_int p * 1" using assms(2) y1 by (intro mult_left_mono) auto
  then have zl: "jle ?z (num p)"
    using mk_mono [of "of_int p * rnd (1 - x)" "of_int p"] mk_of_int [of p] assms by simp
  have "jle (jround ?z) (num p)"
  proof (cases ?z)
    case (Fin z)
    with zl have "z \<le> of_int p" by simp
    then have "(of_int \<lfloor>z + 1/2\<rfloor> :: rat) \<le> of_int p" by (rule floor_half_le)
    with Fin show ?thesis by simp
  qed (use zl in auto)
  moreover have "jle (num p) (Fin (2 ^ 53))"
  proof -
    have "p \<le> 2 ^ 53" using assms(3) by simp
    then have "(of_int p :: rat) \<le> of_int (2 ^ 53)" by (simp only: of_int_le_iff)
    then show ?thesis by simp
  qed
  ultimately have "jle (jround ?z) (Fin (2 ^ 53))" by (rule jle_trans)
  moreover have "applySlippage VIRTUAL_SELL (num p) pol = jmax (Fin 0) (jround ?z)"
    unfolding applySlippage_def Let_def using s(1) s1 x y by simp
  ultimately show ?thesis by (cases "jround ?z") (auto simp: jmax_def capped_def)
qed

end
