(* ===== verification/MarketRegime.thy ===== *)
theory MarketRegime
  imports PaperSchemas
begin

text \<open>
  The result of the market regime classifier (\<open>src/analytics/marketRegimeClassifier.ts\<close>), as
  the cash reserve policy reads it: the label of the regime and the return of each symbol.
\<close>

datatype MarketRegimeLabel =
  RegimeBull | RegimeBear | RegimeSideways | RegimeMixed | RegimeInsufficientData

fun regime_str :: "MarketRegimeLabel \<Rightarrow> string" where
  "regime_str RegimeBull = ''bull''"
| "regime_str RegimeBear = ''bear''"
| "regime_str RegimeSideways = ''sideways''"
| "regime_str RegimeMixed = ''mixed''"
| "regime_str RegimeInsufficientData = ''insufficient_data''"

record MarketRegimeSymbolReturn =
  msr_market :: Market
  msr_symbol :: string
  msr_snapshotCount :: nat
  msr_firstObservedAt :: string
  msr_lastObservedAt :: string
  msr_firstPriceKrw :: jsnum
  msr_lastPriceKrw :: jsnum
  msr_returnRatio :: jsnum

record MarketRegimeClassification =
  mrc_label :: MarketRegimeLabel
  mrc_symbolReturns :: "MarketRegimeSymbolReturn list"

end
