(* ===== verification/PaperRiskPolicy.thy ===== *)
theory PaperRiskPolicy
  imports MarketRegime
begin

text \<open>
  The policy of the paper risk engine (\<open>src/paper/riskPolicy.ts\<close>) and the dynamic cash reserve
  (\<open>src/paper/dynamicCashReservePolicy.ts\<close>): defaults of a partial policy, net worth, the static
  reserve, cooldowns, and the reserve that a market regime asks for.
\<close>

section \<open>Net worth\<close>

definition position_value :: "VirtualPosition \<Rightarrow> jsnum" where
  "position_value p =
     or_else (pos_marketValueKrw p) (jround (jmul (pos_quantity p) (pos_averagePriceKrw p)))"

text \<open>\<open>positions.reduce((sum, position) => sum + ..., 0)\<close>.\<close>

definition portfolioExposureKrw :: "VirtualPortfolio \<Rightarrow> jsnum" where
  "portfolioExposureKrw pf =
     foldl (\<lambda>sum p. jadd sum (position_value p)) (Fin 0) (pf_positions pf)"

definition virtualNetWorthKrw :: "VirtualPortfolio \<Rightarrow> jsnum" where
  "virtualNetWorthKrw pf = jadd (pf_cashKrw pf) (portfolioExposureKrw pf)"

section \<open>Dynamic cash reserve\<close>

record DynamicCashReservePolicy =
  dcr_lookbackDays :: jsnum
  dcr_minSymbols :: "jsnum option"
  dcr_minSnapshotsPerSymbol :: "jsnum option"
  dcr_bullReturnThreshold :: "jsnum option"
  dcr_bearReturnThreshold :: "jsnum option"
  dcr_sidewaysAbsReturnThreshold :: "jsnum option"
  dcr_breadthThreshold :: "jsnum option"
  dcr_minimumCashReserveRatioFloor :: "jsnum option"
  dcr_regimeCashReserveRatios :: "(MarketRegimeLabel \<times> jsnum) list"
  dcr_highVolatilityReturnThreshold :: "jsnum option"
  dcr_highVolatilityCashReserveRatio :: "jsnum option"

datatype DynamicCashReserveReason =
  Reason_static | Reason_high_volatility | Reason_regime MarketRegimeLabel

record DynamicCashReserveAssessment =
  dca_minimumCashReserveRatio :: jsnum
  dca_minimumCashReserveKrw :: jsnum
  dca_baseMinimumCashReserveKrw :: jsnum
  dca_marketRegimeLabel :: MarketRegimeLabel
  dca_highVolatility :: bool
  dca_averageAbsoluteReturnRatio :: "jsnum option"
  dca_reason :: DynamicCashReserveReason

fun DEFAULT_DYNAMIC_CASH_RESERVE_RATIOS :: "MarketRegimeLabel \<Rightarrow> jsnum" where
  "DEFAULT_DYNAMIC_CASH_RESERVE_RATIOS RegimeBull = lit (2/100)"
| "DEFAULT_DYNAMIC_CASH_RESERVE_RATIOS RegimeSideways = lit (1/10)"
| "DEFAULT_DYNAMIC_CASH_RESERVE_RATIOS RegimeMixed = lit (15/100)"
| "DEFAULT_DYNAMIC_CASH_RESERVE_RATIOS RegimeBear = lit (1/4)"
| "DEFAULT_DYNAMIC_CASH_RESERVE_RATIOS RegimeInsufficientData = lit (35/100)"

definition check_that :: "bool \<Rightarrow> string \<Rightarrow> unit result" where
  "check_that b message = (if b then Inr () else Inl (Error message))"

definition validateOptionalPositiveInteger :: "jsnum option \<Rightarrow> string \<Rightarrow> unit result" where
  "validateOptionalPositiveInteger value label =
     (case value of None \<Rightarrow> Inr ()
      | Some v \<Rightarrow> check_that (is_integer v \<and> \<not> jle v (Fin 0)) (label @ '' must be a positive integer''))"

definition validateOptionalRatio :: "jsnum option \<Rightarrow> string \<Rightarrow> unit result" where
  "validateOptionalRatio value label =
     (case value of None \<Rightarrow> Inr ()
      | Some v \<Rightarrow> check_that (is_finite v \<and> \<not> jlt v (Fin 0) \<and> \<not> jlt (Fin 1) v)
                  (label @ '' must be between 0 and 1''))"

fun validateRegimeRatios :: "(MarketRegimeLabel \<times> jsnum) list \<Rightarrow> unit result" where
  "validateRegimeRatios [] = Inr ()"
| "validateRegimeRatios ((label, v) # rest) =
     bind_result (validateOptionalRatio (Some v) (''regimeCashReserveRatios.'' @ regime_str label))
       (\<lambda>_. validateRegimeRatios rest)"

definition validateDynamicCashReservePolicy :: "DynamicCashReservePolicy \<Rightarrow> unit result" where
  "validateDynamicCashReservePolicy p =
     bind_result (check_that (is_integer (dcr_lookbackDays p) \<and> \<not> jle (dcr_lookbackDays p) (Fin 0))
       ''lookbackDays must be a positive integer'') (\<lambda>_.
     bind_result (validateOptionalPositiveInteger (dcr_minSymbols p) ''minSymbols'') (\<lambda>_.
     bind_result (validateOptionalPositiveInteger (dcr_minSnapshotsPerSymbol p)
       ''minSnapshotsPerSymbol'') (\<lambda>_.
     bind_result (validateOptionalRatio (dcr_minimumCashReserveRatioFloor p)
       ''minimumCashReserveRatioFloor'') (\<lambda>_.
     bind_result (validateOptionalRatio (dcr_highVolatilityReturnThreshold p)
       ''highVolatilityReturnThreshold'') (\<lambda>_.
     bind_result (validateOptionalRatio (dcr_highVolatilityCashReserveRatio p)
       ''highVolatilityCashReserveRatio'') (\<lambda>_.
     validateRegimeRatios (dcr_regimeCashReserveRatios p)))))))"

definition roundRatio :: "jsnum \<Rightarrow> jsnum" where
  "roundRatio value = jdiv (jround (jmul value (Fin 1000000))) (Fin 1000000)"

definition averageAbsoluteReturnRatioFor :: "MarketRegimeClassification option \<Rightarrow> jsnum option" where
  "averageAbsoluteReturnRatioFor regime =
     (case regime of None \<Rightarrow> None
      | Some r \<Rightarrow>
          (let returns = map (\<lambda>item. jabs (msr_returnRatio item)) (mrc_symbolReturns r)
           in if returns = [] then None
              else Some (roundRatio (jdiv (foldl jadd (Fin 0) returns) (num (int (length returns)))))))"

definition boundedRatio :: "jsnum \<Rightarrow> jsnum" where
  "boundedRatio value =
     (if \<not> is_finite value then Fin 0 else jmax (Fin 0) (jmin (Fin 1) value))"

definition reserveReason ::
  "MarketRegimeLabel \<Rightarrow> bool \<Rightarrow> jsnum \<Rightarrow> jsnum \<Rightarrow> DynamicCashReserveReason" where
  "reserveReason label highVolatility ratio baseRatio =
     (if jle ratio baseRatio then Reason_static
      else if highVolatility then Reason_high_volatility else Reason_regime label)"

text \<open>
  \<open>assessDynamicCashReserve\<close>; without a policy there is no assessment, an invalid policy
  throws.
\<close>

definition dynamic_assessment ::
  "VirtualPortfolio \<Rightarrow> jsnum \<Rightarrow> jsnum \<Rightarrow> DynamicCashReservePolicy
   \<Rightarrow> MarketRegimeClassification option \<Rightarrow> DynamicCashReserveAssessment" where
  "dynamic_assessment pf baseRatio baseKrw p regime =
     (let label = (case regime of None \<Rightarrow> RegimeInsufficientData | Some r \<Rightarrow> mrc_label r);
          floorRatio = or_else (dcr_minimumCashReserveRatioFloor p) (lit (2/100));
          avg = averageAbsoluteReturnRatioFor regime;
          highVolatility = (case avg of None \<Rightarrow> False
            | Some a \<Rightarrow> jle (or_else (dcr_highVolatilityReturnThreshold p) (lit (8/100))) a);
          regimeRatio = or_else (map_of (dcr_regimeCashReserveRatios p) label)
                          (DEFAULT_DYNAMIC_CASH_RESERVE_RATIOS label);
          highVolatilityRatio = (if highVolatility
            then or_else (dcr_highVolatilityCashReserveRatio p) (lit (3/10)) else Fin 0);
          ratio = boundedRatio (jmax_list [floorRatio, baseRatio, regimeRatio, highVolatilityRatio])
      in \<lparr>dca_minimumCashReserveRatio = ratio,
          dca_minimumCashReserveKrw =
            jmax baseKrw (jround (jmul (virtualNetWorthKrw pf) ratio)),
          dca_baseMinimumCashReserveKrw =
            jmax baseKrw (jround (jmul (virtualNetWorthKrw pf) baseRatio)),
          dca_marketRegimeLabel = label, dca_highVolatility = highVolatility,
          dca_averageAbsoluteReturnRatio = avg,
          dca_reason = reserveReason label highVolatility ratio baseRatio\<rparr>)"

definition assessDynamicCashReserve ::
  "VirtualPortfolio \<Rightarrow> jsnum \<Rightarrow> jsnum \<Rightarrow> DynamicCashReservePolicy option
   \<Rightarrow> MarketRegimeClassification option \<Rightarrow> DynamicCashReserveAssessment option result" where
  "assessDynamicCashReserve pf baseRatio baseKrw policy regime =
     (case policy of None \<Rightarrow> Inr None
      | Some p \<Rightarrow> bind_result (validateDynamicCashReservePolicy p)
          (\<lambda>_. Inr (Some (dynamic_assessment pf baseRatio baseKrw p regime))))"

section \<open>The risk policy\<close>

record HedgePolicy =
  hp_maxGrossExposureKrw :: "jsnum option"
  hp_maxGrossExposureRatio :: "jsnum option"
  hp_requireHedgeBucket :: "bool option"

record VirtualRiskCooldownEntry =
  ce_market :: "Market option"
  ce_symbol :: string
  ce_action :: "VirtualAction option"
  ce_activeUntil :: string

text \<open>
  The limits that are optional in the full policy and in a partial one alike, then the full
  policy, and a partial one.
\<close>

record RiskLimits =
  rl_targetExposureRatio :: "jsnum option"
  rl_maxStrategyBucketExposureKrw :: "(string \<rightharpoonup> jsnum) option"
  rl_maxStrategyBucketExposureRatio :: "(string \<rightharpoonup> jsnum) option"
  rl_maxBucketTurnoverKrw :: "(string \<rightharpoonup> jsnum) option"
  rl_maxBucketTurnoverRatio :: "(string \<rightharpoonup> jsnum) option"
  rl_maxSectorExposureKrw :: "jsnum option"
  rl_maxSectorExposureRatio :: "jsnum option"
  rl_maxCountryExposureKrw :: "jsnum option"
  rl_maxCountryExposureRatio :: "jsnum option"
  rl_maxCurrencyExposureKrw :: "jsnum option"
  rl_maxCurrencyExposureRatio :: "jsnum option"
  rl_maxUnknownMetadataExposureKrw :: "jsnum option"
  rl_maxUnknownMetadataExposureRatio :: "jsnum option"
  rl_dynamicCashReservePolicy :: "DynamicCashReservePolicy option"
  rl_dynamicCashReserveMarketRegime :: "MarketRegimeClassification option"
  rl_hedgePolicy :: "HedgePolicy option"

record VirtualRiskPolicy =
  rp_maxBudgetPerDecisionKrw :: jsnum
  rp_maxSymbolExposureKrw :: jsnum
  rp_maxPositionWeightRatio :: jsnum
  rp_minCashReserveRatio :: jsnum
  rp_minCashReserveKrw :: jsnum
  rp_cooldownEntries :: "VirtualRiskCooldownEntry list"
  rp_now :: jsnum
  rp_limits :: RiskLimits

record PartialRiskPolicy =
  ro_maxBudgetPerDecisionKrw :: "jsnum option"
  ro_maxSymbolExposureKrw :: "jsnum option"
  ro_maxPositionWeightRatio :: "jsnum option"
  ro_minCashReserveRatio :: "jsnum option"
  ro_minCashReserveKrw :: "jsnum option"
  ro_cooldownEntries :: "VirtualRiskCooldownEntry list option"
  ro_now :: "jsnum option"
  ro_limits :: RiskLimits

definition no_limits :: RiskLimits where
  "no_limits =
     \<lparr>rl_targetExposureRatio = None, rl_maxStrategyBucketExposureKrw = None,
      rl_maxStrategyBucketExposureRatio = None, rl_maxBucketTurnoverKrw = None,
      rl_maxBucketTurnoverRatio = None, rl_maxSectorExposureKrw = None,
      rl_maxSectorExposureRatio = None, rl_maxCountryExposureKrw = None,
      rl_maxCountryExposureRatio = None, rl_maxCurrencyExposureKrw = None,
      rl_maxCurrencyExposureRatio = None, rl_maxUnknownMetadataExposureKrw = None,
      rl_maxUnknownMetadataExposureRatio = None, rl_dynamicCashReservePolicy = None,
      rl_dynamicCashReserveMarketRegime = None, rl_hedgePolicy = None\<rparr>"

definition no_risk_policy :: PartialRiskPolicy where
  "no_risk_policy =
     \<lparr>ro_maxBudgetPerDecisionKrw = None, ro_maxSymbolExposureKrw = None,
      ro_maxPositionWeightRatio = None, ro_minCashReserveRatio = None,
      ro_minCashReserveKrw = None, ro_cooldownEntries = None, ro_now = None,
      ro_limits = no_limits\<rparr>"

text \<open>\<open>new Date()\<close> is the clock of the environment.\<close>

definition createVirtualRiskPolicy ::
  "js_env \<Rightarrow> jsnum \<Rightarrow> PartialRiskPolicy \<Rightarrow> VirtualRiskPolicy" where
  "createVirtualRiskPolicy env maxBudgetPerSymbolKrw p =
     \<lparr>rp_maxBudgetPerDecisionKrw = or_else (ro_maxBudgetPerDecisionKrw p) maxBudgetPerSymbolKrw,
      rp_maxSymbolExposureKrw = or_else (ro_maxSymbolExposureKrw p) maxBudgetPerSymbolKrw,
      rp_maxPositionWeightRatio = or_else (ro_maxPositionWeightRatio p) (lit (35/100)),
      rp_minCashReserveRatio = or_else (ro_minCashReserveRatio p) (lit (1/10)),
      rp_minCashReserveKrw = or_else (ro_minCashReserveKrw p) (Fin 0),
      rp_cooldownEntries = or_else (ro_cooldownEntries p) [],
      rp_now = or_else (ro_now p) (clock env),
      rp_limits = ro_limits p\<rparr>"

definition VIRTUAL_RISK_RULE_IDS :: "RuleId list" where
  "VIRTUAL_RISK_RULE_IDS =
     [Rule_packet_freshness, Rule_decision_freshness, Rule_candidate_presence,
      Rule_candidate_price, Rule_candidate_lifecycle, Rule_cash_limit, Rule_cash_reserve,
      Rule_regime_cash_reserve, Rule_budget_limit, Rule_target_exposure, Rule_symbol_exposure,
      Rule_position_weight, Rule_bucket_budget, Rule_bucket_turnover, Rule_sector_exposure,
      Rule_country_exposure, Rule_currency_exposure, Rule_exposure_metadata, Rule_hedge_policy,
      Rule_sell_position, Rule_cooldown]"

definition appendVirtualRiskRejectCode :: "RejectCode list \<Rightarrow> RejectCode \<Rightarrow> RejectCode list" where
  "appendVirtualRiskRejectCode target code = append_unique target code"

definition normalizeVirtualRiskRejectCodes :: "RejectCode list \<Rightarrow> RejectCode list" where
  "normalizeVirtualRiskRejectCodes codes = dedup codes"

definition minimumCashReserveKrw :: "VirtualPortfolio \<Rightarrow> VirtualRiskPolicy \<Rightarrow> jsnum" where
  "minimumCashReserveKrw pf policy =
     jmax (rp_minCashReserveKrw policy)
       (jround (jmul (virtualNetWorthKrw pf) (rp_minCashReserveRatio policy)))"

definition isActiveCooldown :: "js_env \<Rightarrow> VirtualRiskCooldownEntry \<Rightarrow> jsnum \<Rightarrow> bool" where
  "isActiveCooldown env entry now =
     (let activeUntilMs = date_parse env (ce_activeUntil entry)
      in is_finite activeUntilMs \<and> jlt now activeUntilMs)"

definition isVirtualRiskCooldownActive ::
  "js_env \<Rightarrow> VirtualDecisionItem \<Rightarrow> VirtualRiskPolicy \<Rightarrow> bool" where
  "isVirtualRiskCooldownActive env d policy =
     (if dec_action d = VIRTUAL_SELL \<and> dec_reduceOnly d = Some True then False
      else list_ex (\<lambda>entry.
        isActiveCooldown env entry (rp_now policy) \<and>
        \<not> (ce_market entry \<noteq> None \<and> ce_market entry \<noteq> Some (dec_market d)) \<and>
        ce_symbol entry = dec_symbol d \<and>
        (ce_action entry = None \<or> ce_action entry = Some (dec_action d)))
        (rp_cooldownEntries policy))"

section \<open>Bounds of the dynamic reserve\<close>

lemma jround_mono: "jle x y \<Longrightarrow> jle (jround x) (jround y)"
  by (cases x; cases y) (auto simp: floor_mono)

lemma jmul_mono_right: "0 \<le> a \<Longrightarrow> r \<le> s \<Longrightarrow> jle (jmul (Fin a) (Fin r)) (jmul (Fin a) (Fin s))"
  by (simp add: mk_mono mult_left_mono)

lemma jmax_mono_right: "k \<noteq> NaN \<Longrightarrow> jle x y \<Longrightarrow> jle (jmax k x) (jmax k y)"
  by (cases k; cases x; cases y) (auto simp: jmax_def split: if_splits)

lemma foldl_jmax_ge:
  "foldl jmax a xs \<noteq> NaN \<Longrightarrow> a \<noteq> NaN \<and> jle a (foldl jmax a xs) \<and> (\<forall>x \<in> set xs. jle x (foldl jmax a xs))"
proof (induction xs arbitrary: a)
  case (Cons x xs)
  then have "jmax a x \<noteq> NaN" and "jle (jmax a x) (foldl jmax (jmax a x) xs)"
    and "\<forall>y \<in> set xs. jle y (foldl jmax (jmax a x) xs)" by auto
  moreover from \<open>jmax a x \<noteq> NaN\<close> have "a \<noteq> NaN" "x \<noteq> NaN" by (auto simp: jmax_def)
  ultimately show ?case using jmax_ge [of a x] jle_trans by auto
qed simp

lemma finite_not_special: "is_finite x \<Longrightarrow> x \<noteq> NaN \<and> x \<noteq> PInf"
  by (cases x) auto

lemma foldl_jmax_finite:
  "list_all is_finite xs \<Longrightarrow> xs \<noteq> [] \<Longrightarrow> is_finite (jmax_list xs)"
proof -
  have "a \<noteq> NaN \<Longrightarrow> a \<noteq> PInf \<Longrightarrow> list_all is_finite xs \<Longrightarrow>
    foldl jmax a xs \<noteq> NaN \<and> foldl jmax a xs \<noteq> PInf" for a
    by (induction xs arbitrary: a) (auto simp: jmax_def list_all_iff dest: finite_not_special)
  moreover assume "list_all is_finite xs" "xs \<noteq> []"
  ultimately have b: "jmax_list xs \<noteq> NaN" "jmax_list xs \<noteq> PInf" by (auto simp: jmax_list_def)
  then have "jle (hd xs) (jmax_list xs)" using foldl_jmax_ge [of NInf xs] \<open>xs \<noteq> []\<close>
    by (simp add: jmax_list_def)
  moreover have "is_finite (hd xs)" using \<open>list_all is_finite xs\<close> \<open>xs \<noteq> []\<close> by (cases xs) auto
  ultimately show "is_finite (jmax_list xs)" using b by (cases "jmax_list xs"; cases "hd xs") auto
qed

lemma boundedRatio_range: "jle (Fin 0) (boundedRatio x)" "jle (boundedRatio x) (Fin 1)"
  by (cases x; simp add: boundedRatio_def jmax_def jmin_def)+

lemma boundedRatio_ge: "is_finite x \<Longrightarrow> jle r x \<Longrightarrow> jle r (Fin 1) \<Longrightarrow> jle r (boundedRatio x)"
  by (cases x; cases r) (auto simp: boundedRatio_def jmax_def jmin_def)

text \<open>A validated policy has only finite ratios.\<close>

lemma check_that_Inr: "check_that b m = Inr u \<longleftrightarrow> b"
  by (simp add: check_that_def)

lemma ratio_validated: "validateOptionalRatio v label = Inr () \<Longrightarrow> d = or_else v f \<Longrightarrow> is_finite f \<Longrightarrow> is_finite d"
  by (auto simp: validateOptionalRatio_def check_that_def split: option.splits if_splits)

lemma regime_ratios_validated:
  "validateRegimeRatios rs = Inr u \<Longrightarrow> map_of rs label = Some v \<Longrightarrow> is_finite v"
  by (induction rs arbitrary: u)
    (auto simp: bind_result_Inr validateOptionalRatio_def check_that_def split: if_splits)

lemma lit_finite: "\<bar>x\<bar> \<le> max_finite \<Longrightarrow> is_finite (lit x)"
  by (simp add: mk_bounded)

lemma default_ratio_finite: "is_finite (DEFAULT_DYNAMIC_CASH_RESERVE_RATIOS label)"
  using max_finite_ge by (cases label) (simp_all add: lit_finite)

lemma validated_ratios:
  assumes "validateDynamicCashReservePolicy p = Inr u"
  shows "is_finite (or_else (dcr_minimumCashReserveRatioFloor p) (lit (2/100)))"
    and "is_finite (or_else (dcr_highVolatilityCashReserveRatio p) (lit (3/10)))"
    and "is_finite (or_else (map_of (dcr_regimeCashReserveRatios p) label)
      (DEFAULT_DYNAMIC_CASH_RESERVE_RATIOS label))"
proof -
  have l: "is_finite (lit (2/100))" "is_finite (lit (3/10))"
    using max_finite_ge by (simp_all add: lit_finite)
  from assms have v: "validateOptionalRatio (dcr_minimumCashReserveRatioFloor p)
       ''minimumCashReserveRatioFloor'' = Inr ()"
    "validateOptionalRatio (dcr_highVolatilityCashReserveRatio p)
       ''highVolatilityCashReserveRatio'' = Inr ()"
    "validateRegimeRatios (dcr_regimeCashReserveRatios p) = Inr u"
    by (auto simp: validateDynamicCashReservePolicy_def bind_result_Inr)
  from ratio_validated [OF v(1) refl l(1)] ratio_validated [OF v(2) refl l(2)]
  show "is_finite (or_else (dcr_minimumCashReserveRatioFloor p) (lit (2/100)))"
    "is_finite (or_else (dcr_highVolatilityCashReserveRatio p) (lit (3/10)))" by simp_all
  show "is_finite (or_else (map_of (dcr_regimeCashReserveRatios p) label)
      (DEFAULT_DYNAMIC_CASH_RESERVE_RATIOS label))"
    using regime_ratios_validated [OF v(3)] default_ratio_finite
    by (cases "map_of (dcr_regimeCashReserveRatios p) label") auto
qed

section \<open>The validation of a reserve policy\<close>

text \<open>What the validation of the policy asks for.\<close>

definition ratio_valid :: "jsnum \<Rightarrow> bool" where
  "ratio_valid v \<longleftrightarrow> jle (Fin 0) v \<and> jle v (Fin 1)"

definition positive_integer :: "jsnum \<Rightarrow> bool" where
  "positive_integer v \<longleftrightarrow> is_integer v \<and> jlt (Fin 0) v"

definition reserve_policy_valid :: "DynamicCashReservePolicy \<Rightarrow> bool" where
  "reserve_policy_valid p \<longleftrightarrow> positive_integer (dcr_lookbackDays p) \<and>
     opt_all positive_integer (dcr_minSymbols p) \<and>
     opt_all positive_integer (dcr_minSnapshotsPerSymbol p) \<and>
     opt_all ratio_valid (dcr_minimumCashReserveRatioFloor p) \<and>
     opt_all ratio_valid (dcr_highVolatilityReturnThreshold p) \<and>
     opt_all ratio_valid (dcr_highVolatilityCashReserveRatio p) \<and>
     list_all (\<lambda>(label, v). ratio_valid v) (dcr_regimeCashReserveRatios p)"

lemma ratio_valid_iff: "ratio_valid v \<longleftrightarrow> is_finite v \<and> \<not> jlt v (Fin 0) \<and> \<not> jlt (Fin 1) v"
  by (cases v) (auto simp: ratio_valid_def)

lemma positive_integer_iff: "positive_integer v \<longleftrightarrow> is_integer v \<and> \<not> jle v (Fin 0)"
  by (cases v) (auto simp: positive_integer_def)

lemma unit_result_Inr: "(r :: unit result) = Inr u \<longleftrightarrow> r = Inr ()"
  by simp

lemma validate_optional_iff:
  "validateOptionalRatio v label = Inr () \<longleftrightarrow> opt_all ratio_valid v"
  "validateOptionalPositiveInteger v label = Inr () \<longleftrightarrow> opt_all positive_integer v"
  by (auto simp: validateOptionalRatio_def validateOptionalPositiveInteger_def check_that_def
    opt_all_def ratio_valid_iff positive_integer_iff split: option.split)

lemma validate_regimes_iff:
  "validateRegimeRatios rs = Inr () \<longleftrightarrow> list_all (\<lambda>(label, v). ratio_valid v) rs"
  by (induction rs rule: validateRegimeRatios.induct)
    (auto simp: bind_result_Inr validate_optional_iff)

lemma validate_policy_iff: "validateDynamicCashReservePolicy p = Inr () \<longleftrightarrow> reserve_policy_valid p"
  by (simp add: validateDynamicCashReservePolicy_def bind_result_Inr check_that_Inr
    validate_optional_iff validate_regimes_iff reserve_policy_valid_def positive_integer_iff
    [of "dcr_lookbackDays p"] conj_ac)

end
