(* ===== verification/PaperSizing.thy ===== *)
theory PaperSizing
  imports PaperRiskPolicy
begin

text \<open>
  Sizing of a decision: the normalized order (\<open>src/paper/decisionNormalizer.ts\<close>) with the caps
  on a buy and the four ways to size a sell, and the dust positions
  (\<open>src/paper/dustPosition.ts\<close>) that an exit closes without a trade.  The lemmas bound the
  notional of an order by every cap and by the value of the position.
\<close>

section \<open>Normalized orders\<close>

datatype NormalizationNote =
    BUY_BUDGET_CAPPED_BY_PACKET_POLICY | BUY_BUDGET_CAPPED_BY_TARGET_EXPOSURE
  | BUY_BUDGET_CAPPED_BY_MARKET_TARGET_EXPOSURE | SELL_CLIPPED_TO_AVAILABLE_POSITION

record NormalizedVirtualOrder =
  no_action :: VirtualAction
  no_market :: Market
  no_symbol :: string
  no_targetNotionalKrw :: jsnum
  no_expectedPriceKrw :: "jsnum option"
  no_quantity :: "jsnum option"
  no_reduceOnly :: bool
  no_originalDecisionRef :: string
  no_normalizationNotes :: "NormalizationNote list"

definition base_order ::
  "MarketPacket \<Rightarrow> VirtualDecisionItem \<Rightarrow> MarketCandidate option \<Rightarrow> NormalizedVirtualOrder" where
  "base_order pkt d candidate =
     \<lparr>no_action = dec_action d, no_market = dec_market d, no_symbol = dec_symbol d,
      no_targetNotionalKrw = Fin 0,
      no_expectedPriceKrw = Option.bind candidate cand_lastPriceKrw,
      no_quantity = None, no_reduceOnly = True,
      no_originalDecisionRef = pkt_packetId pkt @ '':'' @ market_str (dec_market d) @ '':'' @
        dec_symbol d @ '':'' @ action_str (dec_action d),
      no_normalizationNotes = []\<rparr>"

text \<open>The caps of a buy, in the order of the arguments of \<open>Math.min\<close>.\<close>

definition buy_budgets :: "MarketPacket \<Rightarrow> VirtualDecisionItem \<Rightarrow> jsnum list" where
  "buy_budgets pkt d =
     (let caps = pkt_portfolioAllocation pkt;
          marketCap = Option.bind caps (\<lambda>a. alloc_marketAdditionalBuyBudgetKrw a (dec_market d))
      in [dec_budgetKrw d, pkt_maxBudgetPerSymbolKrw pkt,
          or_else (map_option alloc_maxBudgetPerDecisionKrw caps) MAX_SAFE_INTEGER,
          or_else (map_option alloc_maxAdditionalBuyBudgetKrw caps) MAX_SAFE_INTEGER,
          or_else marketCap MAX_SAFE_INTEGER])"

definition normalizeBuy ::
  "MarketPacket \<Rightarrow> VirtualDecisionItem \<Rightarrow> NormalizedVirtualOrder \<Rightarrow> NormalizedVirtualOrder" where
  "normalizeBuy pkt d base =
     (let caps = pkt_portfolioAllocation pkt;
          marketCap = Option.bind caps (\<lambda>a. alloc_marketAdditionalBuyBudgetKrw a (dec_market d));
          requested = jmin_list (buy_budgets pkt d);
          capped = (\<lambda>cap. jle requested cap \<and> jlt cap (dec_budgetKrw d))
      in base\<lparr>no_targetNotionalKrw := requested,
              no_quantity := (case no_expectedPriceKrw base of
                  None \<Rightarrow> None
                | Some p \<Rightarrow> if truthy_num p \<and> jlt (Fin 0) p then Some (jdiv requested p) else None),
              no_reduceOnly := False,
              no_normalizationNotes :=
                push_if (jlt requested (dec_budgetKrw d)) BUY_BUDGET_CAPPED_BY_PACKET_POLICY @
                push_if (case caps of None \<Rightarrow> False
                         | Some a \<Rightarrow> capped (alloc_maxAdditionalBuyBudgetKrw a))
                  BUY_BUDGET_CAPPED_BY_TARGET_EXPOSURE @
                push_if (case marketCap of None \<Rightarrow> False | Some c \<Rightarrow> capped c)
                  BUY_BUDGET_CAPPED_BY_MARKET_TARGET_EXPOSURE\<rparr>)"

definition sellTargetNotionalKrw ::
  "VirtualDecisionItem \<Rightarrow> VirtualPortfolio \<Rightarrow> jsnum \<Rightarrow> jsnum \<Rightarrow> jsnum" where
  "sellTargetNotionalKrw d pf positionQuantity price =
     (if dec_sellAll d = Some True then jround (jmul positionQuantity price)
      else case dec_sellQuantity d of
        Some q \<Rightarrow> jround (jmul q price)
      | None \<Rightarrow>
          (case dec_sellRatio d of
             Some r \<Rightarrow> jround (jmul (jmul positionQuantity r) price)
           | None \<Rightarrow>
               (case dec_targetWeightPct d of
                  Some w \<Rightarrow> jmax (Fin 0)
                    (jsub (jround (jmul positionQuantity price))
                      (jround (jmul (virtualNetWorthKrw pf) w)))
                | None \<Rightarrow> dec_budgetKrw d)))"

definition normalizeSell ::
  "VirtualPortfolio \<Rightarrow> VirtualDecisionItem \<Rightarrow> NormalizedVirtualOrder \<Rightarrow> MarketCandidate option
   \<Rightarrow> NormalizedVirtualOrder" where
  "normalizeSell pf d base candidate =
     (case (find_position pf d, Option.bind candidate cand_lastPriceKrw) of
        (Some position, Some price) \<Rightarrow>
          (let positionNotional = jround (jmul (pos_quantity position) price);
               target = sellTargetNotionalKrw d pf (pos_quantity position) price;
               capped = jmin target positionNotional
           in base\<lparr>no_targetNotionalKrw := capped,
                   no_quantity := (if jlt (Fin 0) capped then Some (jdiv capped price) else None),
                   no_reduceOnly := True,
                   no_normalizationNotes :=
                     push_if (jlt capped target) SELL_CLIPPED_TO_AVAILABLE_POSITION\<rparr>)
      | _ \<Rightarrow> base\<lparr>no_targetNotionalKrw := dec_budgetKrw d, no_quantity := None,
                 no_reduceOnly := (dec_reduceOnly d \<noteq> Some False),
                 no_normalizationNotes := []\<rparr>)"

definition normalizeVirtualDecision ::
  "MarketPacket \<Rightarrow> VirtualPortfolio \<Rightarrow> VirtualDecisionItem \<Rightarrow> NormalizedVirtualOrder" where
  "normalizeVirtualDecision pkt pf d =
     (let candidate = findCandidate pkt d; base = base_order pkt d candidate
      in case dec_action d of
           VIRTUAL_HOLD \<Rightarrow> base
         | VIRTUAL_BUY \<Rightarrow> normalizeBuy pkt d base
         | VIRTUAL_SELL \<Rightarrow> normalizeSell pf d base candidate)"

section \<open>Dust\<close>

definition DUST_POSITION_QUANTITY_EPSILON :: jsnum where
  "DUST_POSITION_QUANTITY_EPSILON = lit (1/1000000)"

definition positionMarketValueKrw :: "VirtualPosition \<Rightarrow> jsnum option \<Rightarrow> jsnum" where
  "positionMarketValueKrw p price =
     (case price of Some v \<Rightarrow> jmul (pos_quantity p) v
      | None \<Rightarrow> or_else (pos_marketValueKrw p) (jmul (pos_quantity p) (pos_averagePriceKrw p)))"

definition isDustPosition :: "VirtualPosition \<Rightarrow> jsnum option \<Rightarrow> bool" where
  "isDustPosition p price \<longleftrightarrow>
     jle (pos_quantity p) DUST_POSITION_QUANTITY_EPSILON \<or>
     jlt (positionMarketValueKrw p price) (Fin 1)"

definition isSellAllDustClose ::
  "VirtualDecisionItem \<Rightarrow> VirtualPosition \<Rightarrow> jsnum option \<Rightarrow> bool" where
  "isSellAllDustClose d p price \<longleftrightarrow>
     dec_action d = VIRTUAL_SELL \<and> dec_sellAll d = Some True \<and> isDustPosition p price"

section \<open>Bounds of the notional\<close>

lemma foldl_jmin_le:
  "foldl jmin a xs \<noteq> NaN \<Longrightarrow> a \<noteq> NaN \<and> jle (foldl jmin a xs) a \<and> (\<forall>x \<in> set xs. jle (foldl jmin a xs) x)"
proof (induction xs arbitrary: a)
  case (Cons x xs)
  then have m: "jmin a x \<noteq> NaN" "jle (foldl jmin (jmin a x) xs) (jmin a x)"
    "\<forall>y \<in> set xs. jle (foldl jmin (jmin a x) xs) y"
    by auto
  from m(1) have "a \<noteq> NaN" "x \<noteq> NaN" by (auto simp: jmin_def)
  with jmin_le [of a x] m show ?case by (auto intro: jle_trans)
qed simp

lemma jmin_list_le: "jmin_list xs \<noteq> NaN \<Longrightarrow> x \<in> set xs \<Longrightarrow> jle (jmin_list xs) x"
  using foldl_jmin_le [of PInf xs] by (simp add: jmin_list_def)

lemma foldl_jmin_in: "foldl jmin a xs \<in> {NaN, a} \<union> set xs"
  by (induction xs arbitrary: a) (auto simp: jmin_def; fastforce)+

lemma foldl_jmin_NaN: "foldl jmin a xs = NaN \<longleftrightarrow> a = NaN \<or> NaN \<in> set xs"
proof (induction xs arbitrary: a)
  case (Cons x xs)
  have "jmin a x = NaN \<longleftrightarrow> a = NaN \<or> x = NaN" by (auto simp: jmin_def)
  with Cons show ?case by auto
qed auto

lemma jmin_list_NaN: "jmin_list xs = NaN \<longleftrightarrow> NaN \<in> set xs"
  by (simp add: jmin_list_def foldl_jmin_NaN)

lemma normalize_fields [simp]:
  "no_action (normalizeVirtualDecision pkt pf d) = dec_action d"
  "no_market (normalizeVirtualDecision pkt pf d) = dec_market d"
  "no_symbol (normalizeVirtualDecision pkt pf d) = dec_symbol d"
  by (auto simp: normalizeVirtualDecision_def normalizeBuy_def normalizeSell_def base_order_def
    Let_def split: VirtualAction.split option.split)

lemma buy_notional:
  "dec_action d = VIRTUAL_BUY \<Longrightarrow>
   no_targetNotionalKrw (normalizeVirtualDecision pkt pf d) = jmin_list (buy_budgets pkt d)"
  by (simp add: normalizeVirtualDecision_def normalizeBuy_def Let_def)

lemma hold_notional:
  "dec_action d = VIRTUAL_HOLD \<Longrightarrow> no_targetNotionalKrw (normalizeVirtualDecision pkt pf d) = Fin 0"
  by (simp add: normalizeVirtualDecision_def base_order_def Let_def)

lemma sell_order:
  assumes "dec_action d = VIRTUAL_SELL" and "find_position pf d = Some p"
    and "findCandidate pkt d = Some c" and "cand_lastPriceKrw c = Some price"
  shows "no_targetNotionalKrw (normalizeVirtualDecision pkt pf d) =
      jmin (sellTargetNotionalKrw d pf (pos_quantity p) price) (jround (jmul (pos_quantity p) price))"
    and "no_reduceOnly (normalizeVirtualDecision pkt pf d)"
  using assms by (simp_all add: normalizeVirtualDecision_def normalizeSell_def Let_def)

lemma sell_order_missing:
  assumes "dec_action d = VIRTUAL_SELL"
    and "find_position pf d = None \<or> Option.bind (findCandidate pkt d) cand_lastPriceKrw = None"
  shows "no_targetNotionalKrw (normalizeVirtualDecision pkt pf d) = dec_budgetKrw d"
  using assms by (auto simp: normalizeVirtualDecision_def normalizeSell_def Let_def split: option.split)

end
