(* ===== verification/PaperExposure.thy ===== *)
theory PaperExposure
  imports PaperSizing
begin

text \<open>
  Exposure of the paper portfolio: the aggregate of \<open>src/paper/portfolioExposureAggregator.ts\<close>
  (totals, and amounts by market, asset type, asset class, strategy bucket and symbol) and the
  hedge policy of \<open>src/paper/hedgePolicy.ts\<close>, which admits an inverse position only when it
  reduces the net downside exposure.  A \<open>Record\<close> with a fixed set of keys and a \<open>Map\<close> are
  association lists in insertion order; the collation of \<open>localeCompare\<close> is a parameter.
\<close>

section \<open>Accumulators\<close>

text \<open>\<open>map.set(key, (map.get(key) ?? 0) + value)\<close> on a map that keeps insertion order.\<close>

fun incrementMap :: "('k \<times> jsnum) list \<Rightarrow> 'k \<Rightarrow> jsnum \<Rightarrow> ('k \<times> jsnum) list" where
  "incrementMap [] key v = [(key, jadd (Fin 0) v)]"
| "incrementMap ((k, x) # rest) key v =
     (if k = key then (k, jadd x v) # rest else (k, x) # incrementMap rest key v)"

definition get_or_zero :: "('k \<times> jsnum) list \<Rightarrow> 'k \<Rightarrow> jsnum" where
  "get_or_zero m key = or_else (map_of m key) (Fin 0)"

lemma get_incrementMap:
  "get_or_zero (incrementMap m key v) k =
     (if k = key then jadd (get_or_zero m key) v else get_or_zero m k)"
  by (induction m) (auto simp: get_or_zero_def)

interpretation increment: accumulator get_or_zero incrementMap
  by unfold_locales (simp add: get_incrementMap)

lemma keys_incrementMap: "fst ` set (incrementMap m key v) = insert key (fst ` set m)"
  by (induction m key v rule: incrementMap.induct) auto

section \<open>Aggregate\<close>

definition positionExposureValueKrw :: "VirtualPosition \<Rightarrow> jsnum" where
  "positionExposureValueKrw p =
     (let value = position_value p in if is_finite value then value else Fin 0)"

definition exposureRatio :: "jsnum \<Rightarrow> jsnum \<Rightarrow> jsnum" where
  "exposureRatio value denominator =
     (if \<not> is_finite value \<or> \<not> is_finite denominator \<or> jle denominator (Fin 0) then Fin 0
      else to_fixed_number 6 (jdiv value denominator))"

record SymbolExposure =
  se_market :: Market
  se_symbol :: string
  se_grossExposureKrw :: jsnum
  se_netExposureKrw :: jsnum
  se_positionCount :: nat
  se_strategyBuckets :: "StrategyBucket option list"
  se_assetTypes :: "AssetType option list"
  se_assetClasses :: "AssetClass option list"

record ExposureTotals =
  et_totalGrossExposureKrw :: jsnum
  et_totalNetExposureKrw :: jsnum
  et_byMarketKrw :: "(Market \<times> jsnum) list"
  et_byAssetTypeKrw :: "(AssetType option \<times> jsnum) list"
  et_byAssetClassKrw :: "(AssetClass option \<times> jsnum) list"
  et_byStrategyBucketKrw :: "(StrategyBucket option \<times> jsnum) list"
  et_symbolExposures :: "(string \<times> SymbolExposure) list"
  et_unknownMetadataExposureKrw :: jsnum

definition zero_totals :: ExposureTotals where
  "zero_totals =
     \<lparr>et_totalGrossExposureKrw = Fin 0, et_totalNetExposureKrw = Fin 0,
      et_byMarketKrw = [(KR, Fin 0), (US, Fin 0)],
      et_byAssetTypeKrw = [(Some STOCK, Fin 0), (Some ETF, Fin 0), (None, Fin 0)],
      et_byAssetClassKrw =
        map (\<lambda>c. (Some c, Fin 0)) [Equity, Bond, CashLike, Commodity, Currency, Inverse, Leveraged]
        @ [(None, Fin 0)],
      et_byStrategyBucketKrw =
        map (\<lambda>b. (Some b, Fin 0)) [LongTerm, Swing, ShortTerm, Intraday, HedgeBucket]
        @ [(None, Fin 0)],
      et_symbolExposures = [], et_unknownMetadataExposureKrw = Fin 0\<rparr>"

definition createMutableSymbolExposure :: "VirtualPosition \<Rightarrow> SymbolExposure" where
  "createMutableSymbolExposure p =
     \<lparr>se_market = pos_market p, se_symbol = pos_symbol p, se_grossExposureKrw = Fin 0,
      se_netExposureKrw = Fin 0, se_positionCount = 0, se_strategyBuckets = [],
      se_assetTypes = [], se_assetClasses = []\<rparr>"

definition add_to_symbol :: "VirtualPosition \<Rightarrow> SymbolExposure \<Rightarrow> SymbolExposure" where
  "add_to_symbol p s =
     s\<lparr>se_grossExposureKrw := jadd (se_grossExposureKrw s) (jabs (positionExposureValueKrw p)),
       se_netExposureKrw := jadd (se_netExposureKrw s) (positionExposureValueKrw p),
       se_positionCount := se_positionCount s + 1,
       se_strategyBuckets := append_unique (se_strategyBuckets s) (pos_strategyBucket p),
       se_assetTypes := append_unique (se_assetTypes s) (pos_assetType p),
       se_assetClasses := append_unique (se_assetClasses s) (pos_assetClass p)\<rparr>"

fun upsert_symbol ::
  "string \<Rightarrow> VirtualPosition \<Rightarrow> (string \<times> SymbolExposure) list \<Rightarrow> (string \<times> SymbolExposure) list" where
  "upsert_symbol key p [] = [(key, add_to_symbol p (createMutableSymbolExposure p))]"
| "upsert_symbol key p ((k, s) # rest) =
     (if k = key then (k, add_to_symbol p s) # rest else (k, s) # upsert_symbol key p rest)"

text \<open>One turn of the loop over the positions.\<close>

definition add_position :: "ExposureTotals \<Rightarrow> VirtualPosition \<Rightarrow> ExposureTotals" where
  "add_position t p =
     (let exposure = positionExposureValueKrw p; gross = jabs exposure
      in \<lparr>et_totalGrossExposureKrw = jadd (et_totalGrossExposureKrw t) gross,
          et_totalNetExposureKrw = jadd (et_totalNetExposureKrw t) exposure,
          et_byMarketKrw = incrementMap (et_byMarketKrw t) (pos_market p) gross,
          et_byAssetTypeKrw = incrementMap (et_byAssetTypeKrw t) (pos_assetType p) gross,
          et_byAssetClassKrw = incrementMap (et_byAssetClassKrw t) (pos_assetClass p) gross,
          et_byStrategyBucketKrw =
            incrementMap (et_byStrategyBucketKrw t) (pos_strategyBucket p) gross,
          et_symbolExposures =
            upsert_symbol (market_str (pos_market p) @ '':'' @ pos_symbol p) p
              (et_symbolExposures t),
          et_unknownMetadataExposureKrw =
            (if pos_assetType p = None \<or> pos_assetClass p = None \<or> pos_strategyBucket p = None
             then jadd (et_unknownMetadataExposureKrw t) gross
             else et_unknownMetadataExposureKrw t)\<rparr>)"

definition exposure_totals :: "VirtualPortfolio \<Rightarrow> ExposureTotals" where
  "exposure_totals pf = foldl add_position zero_totals (pf_positions pf)"

text \<open>
  The report: amounts, their ratios to the net worth, and the symbols in descending order of
  gross exposure, ties by the collation of their keys.
\<close>

fun str_le :: "string \<Rightarrow> string \<Rightarrow> bool" where
  "str_le [] _ = True"
| "str_le (a # as) [] = False"
| "str_le (a # as) (b # bs) =
     (if (of_char a :: nat) = of_char b then str_le as bs else (of_char a :: nat) < of_char b)"

lemma str_le_total: "str_le a b \<or> str_le b a"
  by (induction a b rule: str_le.induct) (auto simp: not_less order_le_less)

lemma str_le_trans: "str_le a b \<Longrightarrow> str_le b c \<Longrightarrow> str_le a c"
proof (induction a b arbitrary: c rule: str_le.induct)
  case (3 a as b bs)
  then show ?case by (cases c) (auto split: if_splits)
qed auto

text \<open>The keys of an exposure are sorted as texts; every text has a place in the order.\<close>

interpretation key_order: comparison "\<lambda>_. True" "\<lambda>a b. str_le (key a) (key b)" for key :: "'a \<Rightarrow> string"
  by unfold_locales (use str_le_total str_le_trans in blast)+

fun bucket_key :: "StrategyBucket option \<Rightarrow> string" where
  "bucket_key None = ''unknown''"
| "bucket_key (Some b) = bucket_str b"

fun asset_type_key :: "AssetType option \<Rightarrow> string" where
  "asset_type_key None = ''UNKNOWN''"
| "asset_type_key (Some STOCK) = ''STOCK''"
| "asset_type_key (Some ETF) = ''ETF''"

fun asset_class_key :: "AssetClass option \<Rightarrow> string" where
  "asset_class_key None = ''UNKNOWN''"
| "asset_class_key (Some Equity) = ''equity''"
| "asset_class_key (Some Bond) = ''bond''"
| "asset_class_key (Some CashLike) = ''cash_like''"
| "asset_class_key (Some Commodity) = ''commodity''"
| "asset_class_key (Some Currency) = ''currency''"
| "asset_class_key (Some Inverse) = ''inverse''"
| "asset_class_key (Some Leveraged) = ''leveraged''"

definition finalizeSymbolExposure :: "SymbolExposure \<Rightarrow> SymbolExposure" where
  "finalizeSymbolExposure s =
     s\<lparr>se_strategyBuckets :=
         sort_by (\<lambda>a b. str_le (bucket_key a) (bucket_key b)) (se_strategyBuckets s),
       se_assetTypes :=
         sort_by (\<lambda>a b. str_le (asset_type_key a) (asset_type_key b)) (se_assetTypes s),
       se_assetClasses :=
         sort_by (\<lambda>a b. str_le (asset_class_key a) (asset_class_key b)) (se_assetClasses s)\<rparr>"

lemma finalized_sorted:
  "sorted_wrt (\<lambda>a b. str_le (bucket_key a) (bucket_key b)) (se_strategyBuckets (finalizeSymbolExposure s))"
  "sorted_wrt (\<lambda>a b. str_le (asset_type_key a) (asset_type_key b)) (se_assetTypes (finalizeSymbolExposure s))"
  "sorted_wrt (\<lambda>a b. str_le (asset_class_key a) (asset_class_key b)) (se_assetClasses (finalizeSymbolExposure s))"
  using key_order.sorted_sort_by [of "se_strategyBuckets s" bucket_key]
    key_order.sorted_sort_by [of "se_assetTypes s" asset_type_key]
    key_order.sorted_sort_by [of "se_assetClasses s" asset_class_key]
  by (simp_all add: finalizeSymbolExposure_def)

definition ratioRecord :: "('k \<times> jsnum) list \<Rightarrow> jsnum \<Rightarrow> ('k \<times> jsnum) list" where
  "ratioRecord values denominator = map (\<lambda>(k, v). (k, exposureRatio v denominator)) values"

text \<open>\<open>compareSymbolExposure(left, right) <= 0\<close>.\<close>

definition symbol_before ::
  "(string \<Rightarrow> string \<Rightarrow> int) \<Rightarrow> string \<times> SymbolExposure \<Rightarrow> string \<times> SymbolExposure \<Rightarrow> bool" where
  "symbol_before collate l r =
     (if \<not> jeq (se_grossExposureKrw (snd r)) (se_grossExposureKrw (snd l))
      then \<not> jlt (Fin 0) (jsub (se_grossExposureKrw (snd r)) (se_grossExposureKrw (snd l)))
      else collate (fst l) (fst r) \<le> 0)"

record PortfolioExposureAggregate =
  ag_virtualNetWorthKrw :: jsnum
  ag_totals :: ExposureTotals
  ag_totalGrossExposureRatio :: jsnum
  ag_totalNetExposureRatio :: jsnum
  ag_positionCount :: nat
  ag_byMarketRatio :: "(Market \<times> jsnum) list"
  ag_byAssetTypeRatio :: "(AssetType option \<times> jsnum) list"
  ag_byAssetClassRatio :: "(AssetClass option \<times> jsnum) list"
  ag_byStrategyBucketRatio :: "(StrategyBucket option \<times> jsnum) list"
  ag_symbolExposures :: "(string \<times> SymbolExposure) list"
  ag_symbolRatios :: "(string \<times> jsnum) list"
  ag_unknownMetadataExposureRatio :: jsnum

definition buildPortfolioExposureAggregate ::
  "(string \<Rightarrow> string \<Rightarrow> int) \<Rightarrow> VirtualPortfolio \<Rightarrow> PortfolioExposureAggregate" where
  "buildPortfolioExposureAggregate collate pf =
     (let netWorth = virtualNetWorthKrw pf; t = exposure_totals pf;
          symbols = sort_by (symbol_before collate)
            (map (\<lambda>(k, s). (k, finalizeSymbolExposure s)) (et_symbolExposures t))
      in \<lparr>ag_virtualNetWorthKrw = netWorth, ag_totals = t,
          ag_totalGrossExposureRatio = exposureRatio (et_totalGrossExposureKrw t) netWorth,
          ag_totalNetExposureRatio = exposureRatio (et_totalNetExposureKrw t) netWorth,
          ag_positionCount = length (pf_positions pf),
          ag_byMarketRatio = ratioRecord (et_byMarketKrw t) netWorth,
          ag_byAssetTypeRatio = ratioRecord (et_byAssetTypeKrw t) netWorth,
          ag_byAssetClassRatio = ratioRecord (et_byAssetClassKrw t) netWorth,
          ag_byStrategyBucketRatio = ratioRecord (et_byStrategyBucketKrw t) netWorth,
          ag_symbolExposures = symbols,
          ag_symbolRatios =
            map (\<lambda>(k, s). (k, exposureRatio (se_grossExposureKrw s) netWorth)) symbols,
          ag_unknownMetadataExposureRatio =
            exposureRatio (et_unknownMetadataExposureKrw t) netWorth\<rparr>)"

section \<open>Hedge policy\<close>

definition isInverseExposure :: "AssetClass option \<Rightarrow> AssetRiskTag list option \<Rightarrow> bool" where
  "isInverseExposure assetClass tags \<longleftrightarrow>
     assetClass = Some Inverse \<or> TagInverse \<in> set (or_else tags [])"

definition isLeveragedExposure :: "AssetClass option \<Rightarrow> AssetRiskTag list option \<Rightarrow> bool" where
  "isLeveragedExposure assetClass tags \<longleftrightarrow>
     assetClass = Some Leveraged \<or> TagLeveraged \<in> set (or_else tags [])"

definition effectiveExposureKrw ::
  "AssetClass option \<Rightarrow> AssetRiskTag list option \<Rightarrow> jsnum \<Rightarrow> jsnum" where
  "effectiveExposureKrw assetClass tags exposure =
     jmul (jabs exposure) (if isLeveragedExposure assetClass tags then Fin 3 else Fin 1)"

definition position_effective :: "VirtualPosition \<Rightarrow> jsnum" where
  "position_effective p =
     effectiveExposureKrw (pos_assetClass p) (pos_riskTags p) (positionExposureValueKrw p)"

text \<open>\<open>downsideExposureContribution\<close>: the value, and whether the asset class is missing.\<close>

definition downsideExposureContribution :: "VirtualPosition \<Rightarrow> jsnum \<times> bool" where
  "downsideExposureContribution p =
     (if isInverseExposure (pos_assetClass p) (pos_riskTags p)
      then (jneg (position_effective p), pos_assetClass p = None)
      else if pos_assetClass p = Some Equity \<or> pos_assetClass p = Some Leveraged \<or>
              pos_assetType p = Some STOCK
      then (position_effective p, pos_assetClass p = None)
      else (Fin 0, pos_assetClass p = None))"

record DownsideSummary =
  ds_downsideExposureKrw :: jsnum
  ds_hedgeExposureKrw :: jsnum
  ds_netDownsideExposureKrw :: jsnum
  ds_metadataMissing :: bool

fun downside_step :: "jsnum \<times> jsnum \<times> bool \<Rightarrow> VirtualPosition \<Rightarrow> jsnum \<times> jsnum \<times> bool" where
  "downside_step (down, hedge, missing) p =
     (case downsideExposureContribution p of (v, m) \<Rightarrow>
        if jlt v (Fin 0) then (down, jadd hedge (jabs v), missing \<or> m)
        else (jadd down v, hedge, missing \<or> m))"

definition summarizePortfolioDownsideExposure :: "VirtualPortfolio \<Rightarrow> DownsideSummary" where
  "summarizePortfolioDownsideExposure pf =
     (case foldl downside_step (Fin 0, Fin 0, False) (pf_positions pf) of (down, hedge, missing) \<Rightarrow>
        \<lparr>ds_downsideExposureKrw = down, ds_hedgeExposureKrw = hedge,
         ds_netDownsideExposureKrw = jmax (Fin 0) (jsub down hedge),
         ds_metadataMissing = missing\<rparr>)"

definition reducesNetDownsideExposure :: "jsnum \<Rightarrow> jsnum \<Rightarrow> bool" where
  "reducesNetDownsideExposure current delta \<longleftrightarrow>
     \<not> jle current (Fin 0) \<and>
     jle (Fin 0) (jadd current delta) \<and> jlt (jadd current delta) current"

definition currentEffectiveGrossExposureKrw :: "VirtualPortfolio \<Rightarrow> jsnum" where
  "currentEffectiveGrossExposureKrw pf =
     foldl (\<lambda>sum p. jadd sum (position_effective p)) (Fin 0) (pf_positions pf)"

text \<open>The aggregate is consulted for the net worth alone.\<close>

definition exceedsGrossExposureLimit :: "VirtualPortfolio \<Rightarrow> jsnum \<Rightarrow> HedgePolicy \<Rightarrow> bool" where
  "exceedsGrossExposureLimit pf hedgeGross policy =
     (let netWorth = virtualNetWorthKrw pf;
          nextGross = jadd (currentEffectiveGrossExposureKrw pf) hedgeGross
      in (case hp_maxGrossExposureKrw policy of None \<Rightarrow> False
          | Some l \<Rightarrow> is_finite l \<and> jlt l nextGross) \<or>
         (case hp_maxGrossExposureRatio policy of None \<Rightarrow> False
          | Some l \<Rightarrow> is_finite l \<and> jlt (Fin 0) netWorth \<and> jlt l (jdiv nextGross netWorth)))"

definition hedge_like :: "MarketCandidate \<Rightarrow> bool" where
  "hedge_like c \<longleftrightarrow>
     cand_strategyBucket c = Some HedgeBucket \<or> isInverseExposure (cand_assetClass c) (cand_riskTags c)"

definition evaluateHedgePolicy ::
  "VirtualPortfolio \<Rightarrow> MarketCandidate option \<Rightarrow> jsnum \<Rightarrow> HedgePolicy option \<Rightarrow> RejectCode list" where
  "evaluateHedgePolicy pf candidate notional policy =
     (case (policy, candidate) of
        (Some hp, Some c) \<Rightarrow>
          if jle notional (Fin 0) \<or> \<not> hedge_like c then []
          else
            (let inverse = isInverseExposure (cand_assetClass c) (cand_riskTags c);
                 gross = effectiveExposureKrw (cand_assetClass c) (cand_riskTags c) notional;
                 delta = (if inverse then jneg gross else gross);
                 downside = summarizePortfolioDownsideExposure pf;
                 c1 = append_if (cand_assetType c = None \<or> cand_assetClass c = None \<or>
                        cand_strategyBucket c = None) HEDGE_METADATA_MISSING [];
                 c2 = append_if (or_else (hp_requireHedgeBucket hp) True \<and>
                        cand_strategyBucket c \<noteq> None \<and>
                        cand_strategyBucket c \<noteq> Some HedgeBucket) HEDGE_NOT_REDUCE_RISK c1;
                 c3 = append_if (\<not> inverse) HEDGE_NOT_REDUCE_RISK c2;
                 c4 = append_if (ds_metadataMissing downside) HEDGE_METADATA_MISSING c3;
                 c5 = append_if (\<not> reducesNetDownsideExposure (ds_netDownsideExposureKrw downside) delta)
                        HEDGE_NOT_REDUCE_RISK c4
             in append_if (exceedsGrossExposureLimit pf gross hp) HEDGE_GROSS_EXPOSURE_EXCEEDED c5)
      | _ \<Rightarrow> [])"

section \<open>What the hedge policy admits\<close>

lemma hedge_codes [code_facts]:
  "set (evaluateHedgePolicy pf c n hp) \<subseteq>
     {HEDGE_METADATA_MISSING, HEDGE_NOT_REDUCE_RISK, HEDGE_GROSS_EXPOSURE_EXCEEDED}"
proof (cases hp; cases c)
  fix p k assume "hp = Some p" "c = Some k"
  then show ?thesis by (auto simp: evaluateHedgePolicy_def Let_def simp del: jle_Fin)
qed (simp_all add: evaluateHedgePolicy_def)

lemma hedge_admitted:
  assumes "evaluateHedgePolicy pf (Some c) n (Some hp) = []" and "hedge_like c" and "\<not> jle n (Fin 0)"
  defines "gross \<equiv> effectiveExposureKrw (cand_assetClass c) (cand_riskTags c) n"
    and "down \<equiv> ds_netDownsideExposureKrw (summarizePortfolioDownsideExposure pf)"
  shows "isInverseExposure (cand_assetClass c) (cand_riskTags c)"
    and "cand_assetType c \<noteq> None \<and> cand_assetClass c \<noteq> None \<and> cand_strategyBucket c \<noteq> None"
    and "reducesNetDownsideExposure down (jneg gross)"
    and "\<not> exceedsGrossExposureLimit pf gross hp"
    and "\<not> ds_metadataMissing (summarizePortfolioDownsideExposure pf)"
  using assms by (simp_all add: evaluateHedgePolicy_def Let_def) (auto split: if_splits)

section \<open>Amounts by key\<close>

lemma totals_by_market:
  "et_byMarketKrw (foldl add_position t ps) =
     foldl (\<lambda>m p. incrementMap m (pos_market p) (jabs (positionExposureValueKrw p)))
       (et_byMarketKrw t) ps"
  by (induction ps arbitrary: t) (simp_all add: add_position_def Let_def)

lemma totals_by_bucket:
  "et_byStrategyBucketKrw (foldl add_position t ps) =
     foldl (\<lambda>m p. incrementMap m (pos_strategyBucket p) (jabs (positionExposureValueKrw p)))
       (et_byStrategyBucketKrw t) ps"
  by (induction ps arbitrary: t) (simp_all add: add_position_def Let_def)

lemma totals_gross:
  "et_totalGrossExposureKrw (foldl add_position t ps) =
     foldl (\<lambda>s p. jadd s (jabs (positionExposureValueKrw p))) (et_totalGrossExposureKrw t) ps"
  by (induction ps arbitrary: t) (simp_all add: add_position_def Let_def)

text \<open>Sums of whole amounts that stay safe are exact, whatever the order.\<close>

lemma foldl_jadd_exact:
  assumes "\<And>p. p \<in> set ps \<Longrightarrow> f p = num (g p) \<and> 0 \<le> g p"
    and "0 \<le> s" and "s + sum_list (map g ps) \<le> 9007199254740991"
  shows "foldl (\<lambda>a p. jadd a (f p)) (num s) ps = num (s + sum_list (map g ps))"
  using assms
proof (induction ps arbitrary: s)
  case (Cons p ps)
  have g: "0 \<le> g p" "f p = num (g p)" using Cons.prems(1) by auto
  have nn: "0 \<le> sum_list (map g ps)" using Cons.prems(1) by (intro sum_list_nonneg) auto
  then have "\<bar>s + g p\<bar> \<le> 2 ^ 53" using Cons.prems(2,3) g by simp
  then have "jadd (num s) (f p) = num (s + g p)" using g mk_of_int [of "s + g p"] by simp
  then have "foldl (\<lambda>a p. jadd a (f p)) (num s) (p # ps) =
      foldl (\<lambda>a p. jadd a (f p)) (num (s + g p)) ps" by simp
  also have "\<dots> = num (s + g p + sum_list (map g ps))"
    using Cons.prems g by (intro Cons.IH) (auto simp: algebra_simps)
  finally show ?case by (simp add: algebra_simps)
qed simp

text \<open>The value of a position as a whole amount.\<close>

definition whole_value :: "VirtualPosition \<Rightarrow> int" where
  "whole_value p = (case positionExposureValueKrw p of Fin a \<Rightarrow> \<lfloor>a\<rfloor> | _ \<Rightarrow> 0)"

definition values_safe :: "VirtualPortfolio \<Rightarrow> bool" where
  "values_safe pf \<longleftrightarrow>
     list_all (\<lambda>p. money (positionExposureValueKrw p)) (pf_positions pf) \<and>
     sum_list (map whole_value (pf_positions pf)) \<le> 9007199254740991"

lemma whole_value_num:
  assumes "money (positionExposureValueKrw p)"
  shows "jabs (positionExposureValueKrw p) = num (whole_value p)" and "0 \<le> whole_value p"
  using assms by (auto simp: whole_value_def elim!: moneyE)

lemma sum_filter_le:
  "(\<And>x. x \<in> set xs \<Longrightarrow> 0 \<le> g x) \<Longrightarrow> sum_list (map g (filter P xs)) \<le> (sum_list (map g xs) :: int)"
  by (induction xs) (auto intro: add_increasing)

lemma foldl_values:
  assumes "values_safe pf"
  shows "foldl (\<lambda>s p. jadd s (jabs (positionExposureValueKrw p))) (Fin 0)
      (filter P (pf_positions pf)) = num (sum_list (map whole_value (filter P (pf_positions pf))))"
proof -
  have v: "money (positionExposureValueKrw p)" if "p \<in> set (pf_positions pf)" for p
    using assms that by (auto simp: values_safe_def list_all_iff)
  have "sum_list (map whole_value (filter P (pf_positions pf))) \<le> 9007199254740991"
    using assms sum_filter_le [of "pf_positions pf" whole_value P] whole_value_num(2) v
    by (fastforce simp: values_safe_def)
  then show ?thesis
    using foldl_jadd_exact [of "filter P (pf_positions pf)"
        "\<lambda>p. jabs (positionExposureValueKrw p)" whole_value 0] whole_value_num v by simp
qed

end
