(* ===== verification/PaperRiskEngine.thy ===== *)
theory PaperRiskEngine
  imports PaperExposure
begin

text \<open>
  The paper risk engine: the buy and the sell branch (\<open>src/paper/riskBranches.ts\<close>) and the
  evaluation of a decision (\<open>src/paper/riskEngine.ts\<close>), which collects the reject codes of every
  rule and approves exactly when there is none.
\<close>

section \<open>Exposure of the portfolio after the order\<close>

record ExposureMetadata =
  em_sector :: string
  em_country :: "AssetRegion option"
  em_strategyBucket :: "StrategyBucket option"
  em_currencyExposed :: bool
  em_currencyMetadataMissing :: bool
  em_metadataMissing :: bool

record ExposureProfile =
  ep_bySector :: "(string \<times> jsnum) list"
  ep_byCountry :: "(AssetRegion option \<times> jsnum) list"
  ep_byStrategyBucket :: "(StrategyBucket option \<times> jsnum) list"
  ep_currencyExposureKrw :: jsnum
  ep_unknownCurrencyExposureKrw :: jsnum
  ep_unknownMetadataExposureKrw :: jsnum

definition UNKNOWN_EXPOSURE_KEY :: string where
  "UNKNOWN_EXPOSURE_KEY = ''UNKNOWN''"

definition normalizeExposureKey :: "string option \<Rightarrow> string" where
  "normalizeExposureKey value =
     (case value of None \<Rightarrow> UNKNOWN_EXPOSURE_KEY
      | Some v \<Rightarrow> if trim v = [] then UNKNOWN_EXPOSURE_KEY else trim v)"

definition resolveExposureMetadata ::
  "MarketCandidate option \<Rightarrow> VirtualPosition option \<Rightarrow> ExposureMetadata" where
  "resolveExposureMetadata candidate position =
     (let sector = normalizeExposureKey
            (or_opt (Option.bind position pos_sector) (Option.bind candidate cand_sector));
          country = or_opt (Option.bind position pos_region) (Option.bind candidate cand_region);
          bucket = or_opt (Option.bind position pos_strategyBucket) (Option.bind candidate cand_strategyBucket);
          assetType = or_opt (Option.bind position pos_assetType) (Option.bind candidate cand_assetType);
          assetClass = or_opt (Option.bind position pos_assetClass) (Option.bind candidate cand_assetClass);
          tags = or_opt (Option.bind position pos_riskTags) (Option.bind candidate cand_riskTags);
          tagged = TagCurrencyExposed \<in> set (or_else tags []);
          known = country \<noteq> None \<or> assetClass = Some Currency \<or> tagged
      in \<lparr>em_sector = sector, em_country = country, em_strategyBucket = bucket,
          em_currencyExposed =
            assetClass = Some Currency \<or> tagged \<or> country = Some RegionUS \<or>
            country = Some RegionGlobal,
          em_currencyMetadataMissing = (\<not> known),
          em_metadataMissing =
            assetType = None \<or> assetClass = None \<or> bucket = None \<or>
            sector = UNKNOWN_EXPOSURE_KEY \<or> country = None \<or> \<not> known\<rparr>)"

definition resolvePositionExposureMetadata ::
  "MarketPacket \<Rightarrow> VirtualPosition \<Rightarrow> ExposureMetadata" where
  "resolvePositionExposureMetadata pkt p =
     resolveExposureMetadata
       (find (\<lambda>c. cand_market c = pos_market p \<and> cand_symbol c = pos_symbol p) (pkt_candidates pkt))
       (Some p)"

definition resolveDecisionExposureMetadata ::
  "VirtualPortfolio \<Rightarrow> VirtualDecisionItem \<Rightarrow> MarketCandidate option \<Rightarrow> ExposureMetadata" where
  "resolveDecisionExposureMetadata pf d candidate =
     resolveExposureMetadata candidate (find_position pf d)"

text \<open>An amount added to a profile under its metadata: a position, then the order itself.\<close>

definition add_exposure :: "ExposureMetadata \<Rightarrow> jsnum \<Rightarrow> ExposureProfile \<Rightarrow> ExposureProfile" where
  "add_exposure m amount e =
     \<lparr>ep_bySector = incrementMap (ep_bySector e) (em_sector m) amount,
      ep_byCountry = incrementMap (ep_byCountry e) (em_country m) amount,
      ep_byStrategyBucket = incrementMap (ep_byStrategyBucket e) (em_strategyBucket m) amount,
      ep_currencyExposureKrw = (if em_currencyExposed m
        then jadd (ep_currencyExposureKrw e) amount else ep_currencyExposureKrw e),
      ep_unknownCurrencyExposureKrw = (if em_currencyMetadataMissing m
        then jadd (ep_unknownCurrencyExposureKrw e) amount else ep_unknownCurrencyExposureKrw e),
      ep_unknownMetadataExposureKrw = (if em_metadataMissing m
        then jadd (ep_unknownMetadataExposureKrw e) amount else ep_unknownMetadataExposureKrw e)\<rparr>"

definition empty_profile :: ExposureProfile where
  "empty_profile =
     \<lparr>ep_bySector = [], ep_byCountry = [], ep_byStrategyBucket = [],
      ep_currencyExposureKrw = Fin 0, ep_unknownCurrencyExposureKrw = Fin 0,
      ep_unknownMetadataExposureKrw = Fin 0\<rparr>"

definition buildExposureProfile :: "MarketPacket \<Rightarrow> VirtualPortfolio \<Rightarrow> ExposureProfile" where
  "buildExposureProfile pkt pf =
     foldl (\<lambda>e p. add_exposure (resolvePositionExposureMetadata pkt p)
                     (jabs (positionExposureValueKrw p)) e)
       empty_profile (pf_positions pf)"

section \<open>Limits\<close>

definition exceedsLimit :: "jsnum \<Rightarrow> jsnum option \<Rightarrow> jsnum option \<Rightarrow> jsnum \<Rightarrow> bool" where
  "exceedsLimit value krwLimit ratioLimit netWorth \<longleftrightarrow>
     (case krwLimit of None \<Rightarrow> False | Some l \<Rightarrow> is_finite l \<and> jlt l value) \<or>
     (case ratioLimit of None \<Rightarrow> False
      | Some l \<Rightarrow> is_finite l \<and> jlt (Fin 0) netWorth \<and> jlt l (jdiv value netWorth))"

definition exceedsMappedLimit ::
  "jsnum \<Rightarrow> string \<Rightarrow> (string \<rightharpoonup> jsnum) option \<Rightarrow> (string \<rightharpoonup> jsnum) option \<Rightarrow> jsnum \<Rightarrow> bool" where
  "exceedsMappedLimit value key krwLimits ratioLimits netWorth =
     exceedsLimit value (Option.bind krwLimits (\<lambda>m. m key)) (Option.bind ratioLimits (\<lambda>m. m key))
       netWorth"

definition hasSectorExposureLimit :: "RiskLimits \<Rightarrow> bool" where
  "hasSectorExposureLimit l \<longleftrightarrow>
     rl_maxSectorExposureKrw l \<noteq> None \<or> rl_maxSectorExposureRatio l \<noteq> None"

definition hasCountryExposureLimit :: "RiskLimits \<Rightarrow> bool" where
  "hasCountryExposureLimit l \<longleftrightarrow>
     rl_maxCountryExposureKrw l \<noteq> None \<or> rl_maxCountryExposureRatio l \<noteq> None"

definition hasCurrencyExposureLimit :: "RiskLimits \<Rightarrow> bool" where
  "hasCurrencyExposureLimit l \<longleftrightarrow>
     rl_maxCurrencyExposureKrw l \<noteq> None \<or> rl_maxCurrencyExposureRatio l \<noteq> None"

definition hasStrategyBucketLimit :: "RiskLimits \<Rightarrow> bool" where
  "hasStrategyBucketLimit l \<longleftrightarrow>
     \<not> Option.is_none (rl_maxStrategyBucketExposureKrw l) \<or>
     \<not> Option.is_none (rl_maxStrategyBucketExposureRatio l) \<or>
     \<not> Option.is_none (rl_maxBucketTurnoverKrw l) \<or>
     \<not> Option.is_none (rl_maxBucketTurnoverRatio l)"

text \<open>
  \<open>evaluatePortfolioExposureRisk\<close>: the profile after the order, the missing metadata that a
  limit needs, then the limits.
\<close>

definition profile_after_order ::
  "MarketPacket \<Rightarrow> VirtualPortfolio \<Rightarrow> VirtualDecisionItem \<Rightarrow> MarketCandidate option \<Rightarrow> jsnum
   \<Rightarrow> ExposureProfile" where
  "profile_after_order pkt pf d candidate notional =
     add_exposure (resolveDecisionExposureMetadata pf d candidate) notional
       (buildExposureProfile pkt pf)"

definition metadata_gap :: "RiskLimits \<Rightarrow> ExposureProfile \<Rightarrow> bool" where
  "metadata_gap l e \<longleftrightarrow>
     hasSectorExposureLimit l \<and> jlt (Fin 0) (get_or_zero (ep_bySector e) UNKNOWN_EXPOSURE_KEY) \<or>
     hasCountryExposureLimit l \<and> jlt (Fin 0) (get_or_zero (ep_byCountry e) None) \<or>
     hasStrategyBucketLimit l \<and> jlt (Fin 0) (get_or_zero (ep_byStrategyBucket e) None) \<or>
     hasCurrencyExposureLimit l \<and> jlt (Fin 0) (ep_unknownCurrencyExposureKrw e)"

definition evaluatePortfolioExposureRisk ::
  "MarketPacket \<Rightarrow> VirtualPortfolio \<Rightarrow> VirtualDecisionItem \<Rightarrow> RiskLimits \<Rightarrow> MarketCandidate option
   \<Rightarrow> jsnum \<Rightarrow> jsnum \<Rightarrow> RejectCode list" where
  "evaluatePortfolioExposureRisk pkt pf d l candidate notional netWorth =
     (if jle notional (Fin 0) then []
      else
        (let m = resolveDecisionExposureMetadata pf d candidate;
             e = profile_after_order pkt pf d candidate notional;
             key = bucket_key (em_strategyBucket m);
             c1 = append_if (metadata_gap l e) EXPOSURE_METADATA_MISSING [];
             c2 = append_if (exceedsMappedLimit
                    (get_or_zero (ep_byStrategyBucket e) (em_strategyBucket m)) key
                    (rl_maxStrategyBucketExposureKrw l) (rl_maxStrategyBucketExposureRatio l)
                    netWorth) BUCKET_BUDGET_EXCEEDED c1;
             c3 = append_if (exceedsMappedLimit notional key (rl_maxBucketTurnoverKrw l)
                    (rl_maxBucketTurnoverRatio l) netWorth) BUCKET_TURNOVER_EXCEEDED c2;
             c4 = append_if (exceedsLimit (get_or_zero (ep_bySector e) (em_sector m))
                    (rl_maxSectorExposureKrw l) (rl_maxSectorExposureRatio l) netWorth)
                    SECTOR_EXPOSURE_EXCEEDED c3;
             c5 = append_if (exceedsLimit (get_or_zero (ep_byCountry e) (em_country m))
                    (rl_maxCountryExposureKrw l) (rl_maxCountryExposureRatio l) netWorth)
                    COUNTRY_EXPOSURE_EXCEEDED c4;
             c6 = append_if (exceedsLimit (ep_currencyExposureKrw e)
                    (rl_maxCurrencyExposureKrw l) (rl_maxCurrencyExposureRatio l) netWorth)
                    CURRENCY_EXPOSURE_EXCEEDED c5
         in append_if (exceedsLimit (ep_unknownMetadataExposureKrw e)
              (rl_maxUnknownMetadataExposureKrw l) (rl_maxUnknownMetadataExposureRatio l) netWorth)
              EXPOSURE_METADATA_MISSING c6))"

section \<open>The branches\<close>

definition currentSymbolExposureKrw :: "VirtualPortfolio \<Rightarrow> VirtualDecisionItem \<Rightarrow> jsnum" where
  "currentSymbolExposureKrw pf d =
     (case find_position pf d of None \<Rightarrow> Fin 0 | Some p \<Rightarrow> position_value p)"

text \<open>The codes of a funding check: cash, static reserve, regime reserve.\<close>

definition funding_codes ::
  "jsnum \<Rightarrow> jsnum \<Rightarrow> jsnum \<Rightarrow> DynamicCashReserveAssessment option \<Rightarrow> RejectCode list" where
  "funding_codes amount cash staticReserve dynamic =
     (let remaining = jsub cash amount in
      push_if (jlt cash amount) CASH_EXCEEDED @
      push_if (jlt remaining staticReserve) CASH_RESERVE_BREACHED @
      push_if (case dynamic of None \<Rightarrow> False
               | Some a \<Rightarrow> jlt staticReserve (dca_minimumCashReserveKrw a) \<and>
                            jlt remaining (dca_minimumCashReserveKrw a))
        REGIME_CASH_RESERVE_BREACHED)"

definition policy_assessment ::
  "VirtualPortfolio \<Rightarrow> VirtualRiskPolicy \<Rightarrow> DynamicCashReserveAssessment option result" where
  "policy_assessment pf policy =
     assessDynamicCashReserve pf (rp_minCashReserveRatio policy) (rp_minCashReserveKrw policy)
       (rl_dynamicCashReservePolicy (rp_limits policy))
       (rl_dynamicCashReserveMarketRegime (rp_limits policy))"

text \<open>The codes of the buy branch, the dynamic assessment being known.\<close>

definition buy_codes ::
  "MarketPacket \<Rightarrow> VirtualPortfolio \<Rightarrow> VirtualDecisionItem \<Rightarrow> VirtualRiskPolicy
   \<Rightarrow> MarketCandidate option \<Rightarrow> DynamicCashReserveAssessment option \<Rightarrow> RejectCode list" where
  "buy_codes pkt pf d policy candidate dynamic =
     (let notional = no_targetNotionalKrw (normalizeVirtualDecision pkt pf d);
          l = rp_limits policy;
          netWorth = virtualNetWorthKrw pf;
          currentExposure = currentSymbolExposureKrw pf d
      in funding_codes notional (pf_cashKrw pf) (minimumCashReserveKrw pf policy) dynamic @
         push_if (jlt (rp_maxBudgetPerDecisionKrw policy) notional) BUDGET_EXCEEDED @
         push_if (case rl_targetExposureRatio l of None \<Rightarrow> False
           | Some r \<Rightarrow> jlt (Fin 0) netWorth \<and>
               jlt r (jdiv (jadd (portfolioExposureKrw pf) notional) netWorth))
           TARGET_EXPOSURE_EXCEEDED @
         push_if (jlt (rp_maxSymbolExposureKrw policy) (jadd currentExposure notional))
           SYMBOL_EXPOSURE_EXCEEDED @
         push_if (jlt (Fin 0) netWorth \<and>
             jlt (rp_maxPositionWeightRatio policy) (jdiv (jadd currentExposure notional) netWorth))
           POSITION_WEIGHT_EXCEEDED @
         evaluatePortfolioExposureRisk pkt pf d l candidate notional netWorth @
         evaluateHedgePolicy pf candidate notional (rl_hedgePolicy l))"

definition evaluateVirtualBuyRiskBranch ::
  "MarketPacket \<Rightarrow> VirtualPortfolio \<Rightarrow> VirtualDecisionItem \<Rightarrow> VirtualRiskPolicy
   \<Rightarrow> MarketCandidate option \<Rightarrow> RejectCode list result" where
  "evaluateVirtualBuyRiskBranch pkt pf d policy candidate =
     bind_result (policy_assessment pf policy)
       (\<lambda>dynamic. Inr (buy_codes pkt pf d policy candidate dynamic))"

definition evaluateVirtualSellRiskBranch ::
  "MarketPacket \<Rightarrow> VirtualPortfolio \<Rightarrow> VirtualDecisionItem \<Rightarrow> MarketCandidate option
   \<Rightarrow> RejectCode list" where
  "evaluateVirtualSellRiskBranch pkt pf d candidate =
     (let notional = no_targetNotionalKrw (normalizeVirtualDecision pkt pf d);
          lastPrice = Option.bind candidate cand_lastPriceKrw
      in case find_position pf d of
           None \<Rightarrow> [POSITION_NOT_FOUND]
         | Some p \<Rightarrow>
             if jle notional (Fin 0) \<and> \<not> isSellAllDustClose d p lastPrice
             then [SELL_AMOUNT_REQUIRED]
             else (case lastPrice of None \<Rightarrow> []
                   | Some price \<Rightarrow>
                       push_if (truthy_num price \<and> jlt (jround (jmul (pos_quantity p) price)) notional)
                         SELL_AMOUNT_EXCEEDED))"

section \<open>Evaluation\<close>

definition hasIneligibleLifecycle :: "MarketCandidate option \<Rightarrow> bool" where
  "hasIneligibleLifecycle candidate =
     (case candidate of None \<Rightarrow> False
      | Some c \<Rightarrow>
          (case cand_lifecycleStatus c of None \<Rightarrow> False | Some s \<Rightarrow> s \<noteq> LifeActive) \<or>
          list_ex (\<lambda>code. take 10 code = ''LIFECYCLE_'') (or_else (cand_blockedReasonCodes c) []))"

definition has_price :: "MarketCandidate option \<Rightarrow> bool" where
  "has_price candidate =
     (case Option.bind candidate cand_lastPriceKrw of None \<Rightarrow> False | Some p \<Rightarrow> truthy_num p)"

text \<open>The codes of the rules that precede the branches.\<close>

definition common_codes ::
  "js_env \<Rightarrow> MarketPacket \<Rightarrow> VirtualDecisionItem \<Rightarrow> VirtualRiskPolicy \<Rightarrow> RejectCode list" where
  "common_codes env pkt d policy =
     (let candidate = findCandidate pkt d; trades = dec_action d \<noteq> VIRTUAL_HOLD;
          c1 = append_if (\<not> isFresh env (pkt_expiresAt pkt) (rp_now policy)) PACKET_STALE [];
          c2 = append_if (\<not> isFresh env (dec_expiresAt d) (rp_now policy)) DECISION_STALE c1;
          c3 = append_if (Option.is_none candidate) CANDIDATE_NOT_FOUND c2;
          c4 = append_if (trades \<and> \<not> has_price candidate) PRICE_MISSING c3;
          c5 = append_if (trades \<and> hasIneligibleLifecycle candidate) LIFECYCLE_NOT_ELIGIBLE c4
      in append_if (isVirtualRiskCooldownActive env d policy) COOLDOWN_ACTIVE c5)"

definition branch_codes ::
  "MarketPacket \<Rightarrow> VirtualPortfolio \<Rightarrow> VirtualDecisionItem \<Rightarrow> VirtualRiskPolicy
   \<Rightarrow> RejectCode list result" where
  "branch_codes pkt pf d policy =
     (case dec_action d of
        VIRTUAL_BUY \<Rightarrow> evaluateVirtualBuyRiskBranch pkt pf d policy (findCandidate pkt d)
      | VIRTUAL_SELL \<Rightarrow> Inr (evaluateVirtualSellRiskBranch pkt pf d (findCandidate pkt d))
      | VIRTUAL_HOLD \<Rightarrow> Inr [])"

definition evaluate_policy ::
  "js_env \<Rightarrow> MarketPacket \<Rightarrow> VirtualPortfolio \<Rightarrow> VirtualDecisionItem \<Rightarrow> VirtualRiskPolicy
   \<Rightarrow> VirtualRiskDecision result" where
  "evaluate_policy env pkt pf d policy =
     bind_result (branch_codes pkt pf d policy) (\<lambda>codes.
       (let rejectCodes = append_all (common_codes env pkt d policy) codes
        in bind_result (to_iso (rp_now policy)) (\<lambda>createdAt.
             Inr \<lparr>rd_riskDecisionId = ''vrisk_'' @ pkt_packetId pkt @ ''_'' @ dec_symbol d,
                  rd_packetId = pkt_packetId pkt, rd_symbol = dec_symbol d,
                  rd_approved = (rejectCodes = []),
                  rd_rejectCodes = normalizeVirtualRiskRejectCodes rejectCodes,
                  rd_checkedRules = VIRTUAL_RISK_RULE_IDS, rd_createdAt = createdAt\<rparr>)))"

text \<open>\<open>VirtualRiskEngine.evaluate\<close>.\<close>

definition evaluate ::
  "js_env \<Rightarrow> MarketPacket \<Rightarrow> VirtualPortfolio \<Rightarrow> VirtualDecisionItem \<Rightarrow> PartialRiskPolicy
   \<Rightarrow> VirtualRiskDecision result" where
  "evaluate env pkt pf d p =
     evaluate_policy env pkt pf d (createVirtualRiskPolicy env (pkt_maxBudgetPerSymbolKrw pkt) p)"

section \<open>What an evaluation says\<close>

lemma evaluate_policy_InrD:
  assumes "evaluate_policy env pkt pf d policy = Inr rd"
  obtains codes where "branch_codes pkt pf d policy = Inr codes"
    "to_iso (rp_now policy) = Inr (rd_createdAt rd)"
    "rd_approved rd = (append_all (common_codes env pkt d policy) codes = [])"
    "rd_rejectCodes rd = append_all (common_codes env pkt d policy) codes"
    "rd_riskDecisionId rd = ''vrisk_'' @ pkt_packetId pkt @ ''_'' @ dec_symbol d"
    "rd_packetId rd = pkt_packetId pkt" "rd_symbol rd = dec_symbol d"
    "rd_checkedRules rd = VIRTUAL_RISK_RULE_IDS"
proof -
  have "distinct (common_codes env pkt d policy)" by (simp add: common_codes_def Let_def)
  then have dd: "dedup (append_all (common_codes env pkt d policy) codes) =
      append_all (common_codes env pkt d policy) codes" for codes
    by (intro dedup_distinct) simp
  from assms show thesis
    by (auto simp: evaluate_policy_def bind_result_Inr Let_def normalizeVirtualRiskRejectCodes_def dd
      intro!: that)
qed

lemma evaluate_decision:
  assumes "evaluate_policy env pkt pf d policy = Inr rd"
  shows "rd_approved rd \<longleftrightarrow> rd_rejectCodes rd = []" and "distinct (rd_rejectCodes rd)"
    and "rd_packetId rd = pkt_packetId pkt" and "rd_symbol rd = dec_symbol d"
    and "rd_checkedRules rd = VIRTUAL_RISK_RULE_IDS"
  using assms by (auto elim!: evaluate_policy_InrD simp: common_codes_def Let_def)

text \<open>The codes of the common rules, each with its condition.\<close>

lemma common_codes_iff [code_facts]:
  "PACKET_STALE \<in> set (common_codes env pkt d policy) \<longleftrightarrow>
     \<not> isFresh env (pkt_expiresAt pkt) (rp_now policy)"
  "DECISION_STALE \<in> set (common_codes env pkt d policy) \<longleftrightarrow>
     \<not> isFresh env (dec_expiresAt d) (rp_now policy)"
  "CANDIDATE_NOT_FOUND \<in> set (common_codes env pkt d policy) \<longleftrightarrow> findCandidate pkt d = None"
  "PRICE_MISSING \<in> set (common_codes env pkt d policy) \<longleftrightarrow>
     dec_action d \<noteq> VIRTUAL_HOLD \<and> \<not> has_price (findCandidate pkt d)"
  "LIFECYCLE_NOT_ELIGIBLE \<in> set (common_codes env pkt d policy) \<longleftrightarrow>
     dec_action d \<noteq> VIRTUAL_HOLD \<and> hasIneligibleLifecycle (findCandidate pkt d)"
  "COOLDOWN_ACTIVE \<in> set (common_codes env pkt d policy) \<longleftrightarrow>
     isVirtualRiskCooldownActive env d policy"
  by (simp_all add: common_codes_def Let_def Option.is_none_def)

lemma common_codes_subset:
  "set (common_codes env pkt d policy) \<subseteq> {PACKET_STALE, DECISION_STALE, CANDIDATE_NOT_FOUND,
     PRICE_MISSING, LIFECYCLE_NOT_ELIGIBLE, COOLDOWN_ACTIVE}"
  by (auto simp: common_codes_def Let_def split: if_splits)

lemma common_codes_Nil:
  "common_codes env pkt d policy = [] \<longleftrightarrow>
     isFresh env (pkt_expiresAt pkt) (rp_now policy) \<and> isFresh env (dec_expiresAt d) (rp_now policy) \<and>
     findCandidate pkt d \<noteq> None \<and>
     (dec_action d \<noteq> VIRTUAL_HOLD \<longrightarrow>
        has_price (findCandidate pkt d) \<and> \<not> hasIneligibleLifecycle (findCandidate pkt d)) \<and>
     \<not> isVirtualRiskCooldownActive env d policy"
  by (auto simp: common_codes_def Let_def Option.is_none_def)

lemma approved_policy:
  assumes "evaluate_policy env pkt pf d policy = Inr rd" and "rd_approved rd"
  shows "common_codes env pkt d policy = []" and "branch_codes pkt pf d policy = Inr []"
  using assms by (auto elim!: evaluate_policy_InrD)

lemma approved_common:
  assumes "evaluate_policy env pkt pf d policy = Inr rd" and "rd_approved rd"
  shows "isFresh env (pkt_expiresAt pkt) (rp_now policy)"
    and "isFresh env (dec_expiresAt d) (rp_now policy)"
    and "\<not> isVirtualRiskCooldownActive env d policy"
    and "findCandidate pkt d \<noteq> None"
    and "dec_action d \<noteq> VIRTUAL_HOLD \<Longrightarrow> has_price (findCandidate pkt d)"
    and "dec_action d \<noteq> VIRTUAL_HOLD \<Longrightarrow> \<not> hasIneligibleLifecycle (findCandidate pkt d)"
  using approved_policy(1) [OF assms] by (simp_all add: common_codes_Nil)

lemma has_priceE:
  assumes "has_price candidate"
  obtains c price where "candidate = Some c" "cand_lastPriceKrw c = Some price" "truthy_num price"
  using assms that by (auto simp: has_price_def bind_eq_Some_conv split: option.splits)

subsection \<open>Funding\<close>

lemma funding_codes_iff [code_facts]:
  "CASH_EXCEEDED \<in> set (funding_codes amount cash reserve dyn) \<longleftrightarrow> jlt cash amount"
  "CASH_RESERVE_BREACHED \<in> set (funding_codes amount cash reserve dyn) \<longleftrightarrow>
     jlt (jsub cash amount) reserve"
  "REGIME_CASH_RESERVE_BREACHED \<in> set (funding_codes amount cash reserve dyn) \<longleftrightarrow>
     (\<exists>a. dyn = Some a \<and> jlt reserve (dca_minimumCashReserveKrw a) \<and>
          jlt (jsub cash amount) (dca_minimumCashReserveKrw a))"
  by (auto simp: funding_codes_def Let_def split: option.splits if_splits)

lemma funding_codes_Nil:
  "funding_codes amount cash reserve dyn = [] \<longleftrightarrow>
     \<not> jlt cash amount \<and> \<not> jlt (jsub cash amount) reserve \<and>
     (\<forall>a. dyn = Some a \<longrightarrow> jlt reserve (dca_minimumCashReserveKrw a) \<longrightarrow>
        \<not> jlt (jsub cash amount) (dca_minimumCashReserveKrw a))"
  by (auto simp: funding_codes_def Let_def split: option.splits)

subsection \<open>The buy branch\<close>

lemma approved_buy:
  assumes "evaluate_policy env pkt pf d policy = Inr rd" and "rd_approved rd"
    and "dec_action d = VIRTUAL_BUY"
  defines "n \<equiv> no_targetNotionalKrw (normalizeVirtualDecision pkt pf d)"
    and "nw \<equiv> virtualNetWorthKrw pf"
  obtains dyn where "policy_assessment pf policy = Inr dyn"
    "funding_codes n (pf_cashKrw pf) (minimumCashReserveKrw pf policy) dyn = []"
    "\<not> jlt (rp_maxBudgetPerDecisionKrw policy) n"
    "\<not> jlt (rp_maxSymbolExposureKrw policy) (jadd (currentSymbolExposureKrw pf d) n)"
    "jlt (Fin 0) nw \<Longrightarrow>
       \<not> jlt (rp_maxPositionWeightRatio policy) (jdiv (jadd (currentSymbolExposureKrw pf d) n) nw)"
    "\<And>r. rl_targetExposureRatio (rp_limits policy) = Some r \<Longrightarrow> jlt (Fin 0) nw \<Longrightarrow>
       \<not> jlt r (jdiv (jadd (portfolioExposureKrw pf) n) nw)"
    "evaluatePortfolioExposureRisk pkt pf d (rp_limits policy) (findCandidate pkt d) n nw = []"
    "evaluateHedgePolicy pf (findCandidate pkt d) n (rl_hedgePolicy (rp_limits policy)) = []"
proof -
  from approved_policy(2) [OF assms(1,2)] assms(3) obtain dyn where
    d: "policy_assessment pf policy = Inr dyn" "buy_codes pkt pf d policy (findCandidate pkt d) dyn = []"
    by (auto simp: branch_codes_def evaluateVirtualBuyRiskBranch_def bind_result_Inr)
  show thesis
    by (rule that [OF d(1)]) (use d(2) in \<open>auto simp: buy_codes_def Let_def n_def nw_def\<close>)
qed

lemma exposure_limits_Nil:
  assumes "evaluatePortfolioExposureRisk pkt pf d l candidate n nw = []" and "\<not> jle n (Fin 0)"
  defines "m \<equiv> resolveDecisionExposureMetadata pf d candidate"
    and "e \<equiv> profile_after_order pkt pf d candidate n"
  shows "\<not> metadata_gap l e"
    and "\<not> exceedsMappedLimit (get_or_zero (ep_byStrategyBucket e) (em_strategyBucket m))
           (bucket_key (em_strategyBucket m)) (rl_maxStrategyBucketExposureKrw l)
           (rl_maxStrategyBucketExposureRatio l) nw"
    and "\<not> exceedsMappedLimit n (bucket_key (em_strategyBucket m)) (rl_maxBucketTurnoverKrw l)
           (rl_maxBucketTurnoverRatio l) nw"
    and "\<not> exceedsLimit (get_or_zero (ep_bySector e) (em_sector m)) (rl_maxSectorExposureKrw l)
           (rl_maxSectorExposureRatio l) nw"
    and "\<not> exceedsLimit (get_or_zero (ep_byCountry e) (em_country m)) (rl_maxCountryExposureKrw l)
           (rl_maxCountryExposureRatio l) nw"
    and "\<not> exceedsLimit (ep_currencyExposureKrw e) (rl_maxCurrencyExposureKrw l)
           (rl_maxCurrencyExposureRatio l) nw"
    and "\<not> exceedsLimit (ep_unknownMetadataExposureKrw e) (rl_maxUnknownMetadataExposureKrw l)
           (rl_maxUnknownMetadataExposureRatio l) nw"
  using assms by (simp_all add: evaluatePortfolioExposureRisk_def Let_def)

subsection \<open>The sell branch\<close>

lemma approved_sell:
  assumes "evaluate_policy env pkt pf d policy = Inr rd" and "rd_approved rd"
    and "dec_action d = VIRTUAL_SELL"
  obtains c p price where "findCandidate pkt d = Some c" "find_position pf d = Some p"
    "cand_lastPriceKrw c = Some price" "truthy_num price"
    "\<not> jlt (jround (jmul (pos_quantity p) price))
        (no_targetNotionalKrw (normalizeVirtualDecision pkt pf d))"
    "\<not> jle (no_targetNotionalKrw (normalizeVirtualDecision pkt pf d)) (Fin 0) \<or>
     isSellAllDustClose d p (Some price)"
proof -
  from approved_common(5) [OF assms(1,2)] assms(3) obtain c price where
    c: "findCandidate pkt d = Some c" "cand_lastPriceKrw c = Some price" "truthy_num price"
    by (auto elim!: has_priceE)
  from approved_policy(2) [OF assms(1,2)] assms(3) c
  have "evaluateVirtualSellRiskBranch pkt pf d (Some c) = []" by (simp add: branch_codes_def)
  with c that show thesis
    by (auto simp: evaluateVirtualSellRiskBranch_def Let_def split: option.splits if_splits)
qed

subsection \<open>Which branch raises which code\<close>

lemma exposure_codes [code_facts]:
  "set (evaluatePortfolioExposureRisk pkt pf d l c n nw) \<subseteq>
     {EXPOSURE_METADATA_MISSING, BUCKET_BUDGET_EXCEEDED, BUCKET_TURNOVER_EXCEEDED,
      SECTOR_EXPOSURE_EXCEEDED, COUNTRY_EXPOSURE_EXCEEDED, CURRENCY_EXPOSURE_EXCEEDED}"
  unfolding evaluatePortfolioExposureRisk_def Let_def by (simp add: if_distrib [of set] cong: if_cong)

lemma funding_codes_subset [code_facts]:
  "set (funding_codes a cash reserve dyn) \<subseteq>
     {CASH_EXCEEDED, CASH_RESERVE_BREACHED, REGIME_CASH_RESERVE_BREACHED}"
  unfolding funding_codes_def Let_def by simp

definition limit_codes :: "RejectCode set" where
  "limit_codes = {BUDGET_EXCEEDED, TARGET_EXPOSURE_EXCEEDED, SYMBOL_EXPOSURE_EXCEEDED,
     POSITION_WEIGHT_EXCEEDED, EXPOSURE_METADATA_MISSING, BUCKET_BUDGET_EXCEEDED,
     BUCKET_TURNOVER_EXCEEDED, SECTOR_EXPOSURE_EXCEEDED, COUNTRY_EXPOSURE_EXCEEDED,
     CURRENCY_EXPOSURE_EXCEEDED, HEDGE_METADATA_MISSING, HEDGE_NOT_REDUCE_RISK,
     HEDGE_GROSS_EXPOSURE_EXCEEDED}"

lemma buy_codes_split:
  "\<exists>X. X \<subseteq> limit_codes \<and> set (buy_codes pkt pf d policy c dyn) =
     set (funding_codes (no_targetNotionalKrw (normalizeVirtualDecision pkt pf d)) (pf_cashKrw pf)
       (minimumCashReserveKrw pf policy) dyn) \<union> X"
proof -
  let ?n = "no_targetNotionalKrw (normalizeVirtualDecision pkt pf d)"
  note e = exposure_codes [of pkt pf d "rp_limits policy" c ?n "virtualNetWorthKrw pf"]
  note h = hedge_codes [of pf c ?n "rl_hedgePolicy (rp_limits policy)"]
  show ?thesis
    unfolding buy_codes_def Let_def set_append
    by (intro exI conjI, rule_tac [2] refl)
      (intro Un_least order_trans [OF e] order_trans [OF h], simp_all add: limit_codes_def)
qed

definition common_rules :: "RejectCode set" where
  "common_rules = {PACKET_STALE, DECISION_STALE, CANDIDATE_NOT_FOUND, PRICE_MISSING,
     LIFECYCLE_NOT_ELIGIBLE, COOLDOWN_ACTIVE}"

definition funding_rules :: "RejectCode set" where
  "funding_rules = {CASH_EXCEEDED, CASH_RESERVE_BREACHED, REGIME_CASH_RESERVE_BREACHED}"

lemma rule_groups:
  "limit_codes \<inter> common_rules = {}" "funding_rules \<inter> common_rules = {}"
  "limit_codes \<inter> funding_rules = {}"
  "{POSITION_NOT_FOUND, SELL_AMOUNT_REQUIRED, SELL_AMOUNT_EXCEEDED} \<inter> common_rules = {}"
  by (simp_all add: limit_codes_def common_rules_def funding_rules_def)

lemma funding_codes_rules: "set (funding_codes a cash reserve dyn) \<subseteq> funding_rules"
  unfolding funding_rules_def by (rule funding_codes_subset)

lemma disjoint_subset: "s \<subseteq> A \<Longrightarrow> A \<inter> C = {} \<Longrightarrow> s \<inter> C = {}"
  by auto

lemma union_disjoint: "s = F \<union> X \<Longrightarrow> F \<subseteq> A \<Longrightarrow> X \<subseteq> B \<Longrightarrow> A \<inter> C = {} \<Longrightarrow> B \<inter> C = {} \<Longrightarrow> s \<inter> C = {}"
  by auto

lemma branch_codes_disjoint:
  assumes "branch_codes pkt pf d policy = Inr codes"
  shows "set codes \<inter> common_rules = {}"
proof (cases "dec_action d")
  case VIRTUAL_BUY
  with assms obtain dyn where c: "codes = buy_codes pkt pf d policy (findCandidate pkt d) dyn"
    by (auto simp: branch_codes_def evaluateVirtualBuyRiskBranch_def bind_result_Inr)
  obtain X where "X \<subseteq> limit_codes" "set codes =
     set (funding_codes (no_targetNotionalKrw (normalizeVirtualDecision pkt pf d)) (pf_cashKrw pf)
       (minimumCashReserveKrw pf policy) dyn) \<union> X"
    using buy_codes_split [of pkt pf d policy "findCandidate pkt d" dyn] c by blast
  then show ?thesis
    by (intro union_disjoint [OF _ funding_codes_rules _ rule_groups(2,1)])
next
  case VIRTUAL_SELL
  with assms have "codes = evaluateVirtualSellRiskBranch pkt pf d (findCandidate pkt d)"
    by (simp add: branch_codes_def)
  then have "set codes \<subseteq> {POSITION_NOT_FOUND, SELL_AMOUNT_REQUIRED, SELL_AMOUNT_EXCEEDED}"
    by (auto simp: evaluateVirtualSellRiskBranch_def Let_def split: option.splits if_splits)
  then show ?thesis by (rule disjoint_subset [OF _ rule_groups(4)])
next
  case VIRTUAL_HOLD
  with assms show ?thesis by (simp add: branch_codes_def)
qed

lemma reject_codes_set:
  assumes "evaluate_policy env pkt pf d policy = Inr rd"
  obtains codes where "branch_codes pkt pf d policy = Inr codes"
    "set (rd_rejectCodes rd) = set (common_codes env pkt d policy) \<union> set codes"
  using assms by (metis evaluate_policy_InrD set_append_all)

lemma common_rule_code:
  assumes "evaluate_policy env pkt pf d policy = Inr rd" and "code \<in> common_rules"
  shows "code \<in> set (rd_rejectCodes rd) \<longleftrightarrow> code \<in> set (common_codes env pkt d policy)"
proof -
  obtain codes where c: "branch_codes pkt pf d policy = Inr codes"
    "set (rd_rejectCodes rd) = set (common_codes env pkt d policy) \<union> set codes"
    using assms(1) by (rule reject_codes_set)
  from branch_codes_disjoint [OF c(1)] c(2) assms(2) show ?thesis by blast
qed

lemma buy_funding_code:
  assumes "evaluate_policy env pkt pf d policy = Inr rd" and "dec_action d = VIRTUAL_BUY"
  obtains dyn where "policy_assessment pf policy = Inr dyn"
    "\<And>code. code \<in> funding_rules \<Longrightarrow>
       code \<in> set (rd_rejectCodes rd) \<longleftrightarrow>
       code \<in> set (funding_codes (no_targetNotionalKrw (normalizeVirtualDecision pkt pf d))
         (pf_cashKrw pf) (minimumCashReserveKrw pf policy) dyn)"
proof -
  obtain codes where c: "branch_codes pkt pf d policy = Inr codes"
    "set (rd_rejectCodes rd) = set (common_codes env pkt d policy) \<union> set codes"
    using assms(1) by (rule reject_codes_set)
  with assms(2) obtain dyn where d: "policy_assessment pf policy = Inr dyn"
    "codes = buy_codes pkt pf d policy (findCandidate pkt d) dyn"
    by (auto simp: branch_codes_def evaluateVirtualBuyRiskBranch_def bind_result_Inr)
  obtain X where x: "X \<subseteq> limit_codes" "set codes =
     set (funding_codes (no_targetNotionalKrw (normalizeVirtualDecision pkt pf d)) (pf_cashKrw pf)
       (minimumCashReserveKrw pf policy) dyn) \<union> X"
    using buy_codes_split [of pkt pf d policy "findCandidate pkt d" dyn] d(2) by blast
  have s: "set (common_codes env pkt d policy) \<subseteq> common_rules"
    unfolding common_rules_def by (rule common_codes_subset)
  show thesis
    by (intro that [OF d(1)])
      (use s c(2) x rule_groups(2,3) in \<open>metis (no_types, opaque_lifting) Un_iff disjoint_iff subset_iff\<close>)
qed

end
