(* ===== verification/PaperOrder.thy ===== *)
theory PaperOrder
  imports PaperExecution PaperRiskEngine
begin

text \<open>
  The paper order engine (\<open>src/paper/orderEngine.ts\<close>): a decision is evaluated, sized, filled,
  checked against the funds, and applied to a copy of the portfolio.  The ledger of
  \<open>src/paper/ledger.ts\<close> keeps what was applied.
\<close>

section \<open>Results\<close>

record PaperOrderInput =
  oi_packet :: MarketPacket
  oi_portfolio :: VirtualPortfolio
  oi_decision :: VirtualDecisionItem
  oi_riskPolicy :: PartialRiskPolicy
  oi_executionPolicy :: PartialExecutionPolicy

datatype NoOpReason = NO_OP_EXIT_DUST_CLOSED

record PaperOrderResult =
  or_portfolio :: VirtualPortfolio
  or_riskDecision :: VirtualRiskDecision
  or_trade :: "VirtualTrade option"
  or_noOpReason :: "NoOpReason option"

text \<open>The result of an order that leaves the portfolio alone.\<close>

definition no_trade :: "VirtualPortfolio \<Rightarrow> VirtualRiskDecision \<Rightarrow> PaperOrderResult" where
  "no_trade pf rd =
     \<lparr>or_portfolio = pf, or_riskDecision = rd, or_trade = None, or_noOpReason = None\<rparr>"

definition rejectLiquidityFill :: "VirtualRiskDecision \<Rightarrow> PaperFill \<Rightarrow> VirtualRiskDecision" where
  "rejectLiquidityFill rd fill =
     (let code = (if fl_liquidityRejectReason fill = Some StaleLiquidity
                  then LIQUIDITY_STALE else LIQUIDITY_INSUFFICIENT)
      in rd\<lparr>rd_approved := False,
            rd_rejectCodes := dedup (rd_rejectCodes rd @ [code]),
            rd_checkedRules := dedup (rd_checkedRules rd @ [Rule_liquidity])\<rparr>)"

definition input_risk_policy :: "js_env \<Rightarrow> PaperOrderInput \<Rightarrow> VirtualRiskPolicy" where
  "input_risk_policy env inp =
     createVirtualRiskPolicy env (pkt_maxBudgetPerSymbolKrw (oi_packet inp)) (oi_riskPolicy inp)"

text \<open>\<open>rejectInsufficientBuyFunding\<close>: \<open>None\<close> when the fill can be paid for.\<close>

definition rejectInsufficientBuyFunding ::
  "js_env \<Rightarrow> PaperOrderInput \<Rightarrow> VirtualRiskDecision \<Rightarrow> PaperFill
   \<Rightarrow> VirtualRiskDecision option result" where
  "rejectInsufficientBuyFunding env inp rd fill =
     (let policy = input_risk_policy env inp; pf = oi_portfolio inp
      in bind_result (policy_assessment pf policy) (\<lambda>dynamic.
           (let codes = funding_codes (fl_netAmountKrw fill) (pf_cashKrw pf)
                          (minimumCashReserveKrw pf policy) dynamic
            in if codes = [] then Inr None
               else Inr (Some (rd\<lparr>rd_approved := False,
                                 rd_rejectCodes := dedup (rd_rejectCodes rd @ codes)\<rparr>)))))"

definition isCandidateLiquidityStale :: "js_env \<Rightarrow> MarketCandidate \<Rightarrow> string \<Rightarrow> bool" where
  "isCandidateLiquidityStale env c evaluatedAt =
     (if cand_volume c = None \<and> cand_averageVolume c = None then False
      else (let staleAfterMs = date_parse env (cand_staleAfter c);
                evaluatedAtMs = date_parse env evaluatedAt
            in is_finite staleAfterMs \<and> is_finite evaluatedAtMs \<and> jle staleAfterMs evaluatedAtMs))"

section \<open>Positions\<close>

definition syncPositionMetadata :: "VirtualPosition \<Rightarrow> MarketCandidate \<Rightarrow> VirtualPosition" where
  "syncPositionMetadata p c =
     p\<lparr>pos_assetType := or_opt (pos_assetType p) (cand_assetType c),
       pos_assetClass := or_opt (pos_assetClass p) (cand_assetClass c),
       pos_region := or_opt (pos_region p) (cand_region c),
       pos_riskTags := or_opt (pos_riskTags p) (cand_riskTags c),
       pos_strategyBucket := or_opt (pos_strategyBucket p) (cand_strategyBucket c),
       pos_sector := or_opt (pos_sector p) (cand_sector c)\<rparr>"

definition buy_more ::
  "MarketCandidate \<Rightarrow> jsnum \<Rightarrow> PaperFill \<Rightarrow> string \<Rightarrow> VirtualPosition \<Rightarrow> VirtualPosition" where
  "buy_more c price fill createdAt p =
     (let previousAmount = jmul (pos_quantity p) (pos_averagePriceKrw p);
          nextQuantity = jadd (pos_quantity p) (fl_quantity fill);
          average = jround (jdiv (jadd previousAmount (fl_netAmountKrw fill)) nextQuantity);
          marketValue = jround (jmul nextQuantity price)
      in (syncPositionMetadata
           (p\<lparr>pos_quantity := nextQuantity, pos_averagePriceKrw := average,
              pos_marketPriceKrw := Some price, pos_marketValueKrw := Some marketValue,
              pos_unrealizedPnlKrw :=
                Some (jsub marketValue (jround (jmul nextQuantity average)))\<rparr>) c)
         \<lparr>pos_updatedAt := createdAt\<rparr>)"

definition new_position ::
  "VirtualDecisionItem \<Rightarrow> MarketCandidate \<Rightarrow> jsnum \<Rightarrow> PaperFill \<Rightarrow> string \<Rightarrow> VirtualPosition" where
  "new_position d c price fill createdAt =
     \<lparr>pos_market = dec_market d, pos_symbol = dec_symbol d,
      pos_assetType = cand_assetType c, pos_assetClass = cand_assetClass c,
      pos_region = cand_region c, pos_riskTags = cand_riskTags c,
      pos_strategyBucket = cand_strategyBucket c, pos_sector = cand_sector c,
      pos_quantity = fl_quantity fill,
      pos_averagePriceKrw = jround (jdiv (fl_netAmountKrw fill) (fl_quantity fill)),
      pos_marketPriceKrw = Some price,
      pos_marketValueKrw = Some (jround (jmul (fl_quantity fill) price)),
      pos_unrealizedPnlKrw =
        Some (jsub (jround (jmul (fl_quantity fill) price)) (fl_netAmountKrw fill)),
      pos_priceUpdatedAt = None, pos_priceStaleAfter = None, pos_priceSourceRefs = None,
      pos_isPriceStale = None, pos_updatedAt = createdAt\<rparr>"

definition sell_some :: "jsnum \<Rightarrow> PaperFill \<Rightarrow> string \<Rightarrow> VirtualPosition \<Rightarrow> VirtualPosition" where
  "sell_some price fill createdAt p =
     (let quantity = jsub (pos_quantity p) (fl_quantity fill);
          marketValue = jround (jmul quantity price)
      in p\<lparr>pos_quantity := quantity, pos_marketPriceKrw := Some price,
           pos_marketValueKrw := Some marketValue,
           pos_unrealizedPnlKrw :=
             Some (jsub marketValue (jround (jmul quantity (pos_averagePriceKrw p)))),
           pos_updatedAt := createdAt\<rparr>)"

text \<open>The position the decision is about, and the positions without it.\<close>

definition same_key :: "VirtualDecisionItem \<Rightarrow> VirtualPosition \<Rightarrow> bool" where
  "same_key d p \<longleftrightarrow> pos_market p = dec_market d \<and> pos_symbol p = dec_symbol d"

definition drop_positions :: "VirtualDecisionItem \<Rightarrow> VirtualPosition list \<Rightarrow> VirtualPosition list" where
  "drop_positions d ps = filter (\<lambda>p. \<not> same_key d p) ps"

section \<open>Trades\<close>

definition PAPER_COST_MODEL_VERSION :: string where
  "PAPER_COST_MODEL_VERSION = ''paper_cost_model.v5''"

definition buildTrade ::
  "PaperOrderInput \<Rightarrow> VirtualRiskDecision \<Rightarrow> VirtualAction \<Rightarrow> PaperFill \<Rightarrow> string list
   \<Rightarrow> StrategyBucket option \<Rightarrow> VirtualTrade" where
  "buildTrade inp rd action fill priceSourceRefs bucket =
     \<lparr>tr_tradeId = ''vtrade_'' @ pkt_packetId (oi_packet inp) @ ''_'' @
        dec_symbol (oi_decision inp) @ ''_'' @ action_str (dec_action (oi_decision inp)),
      tr_packetId = pkt_packetId (oi_packet inp), tr_decisionId = rd_riskDecisionId rd,
      tr_market = dec_market (oi_decision inp), tr_symbol = dec_symbol (oi_decision inp),
      tr_action = action, tr_quantity = fl_quantity fill,
      tr_sourcePriceKrw = fl_sourcePriceKrw fill, tr_priceKrw = fl_fillPriceKrw fill,
      tr_grossAmountKrw = fl_grossAmountKrw fill, tr_amountKrw = fl_grossAmountKrw fill,
      tr_netAmountKrw = fl_netAmountKrw fill, tr_feeKrw = fl_feeKrw fill,
      tr_taxKrw = fl_taxKrw fill, tr_slippageKrw = fl_slippageKrw fill,
      tr_spreadCostKrw = fl_spreadCostKrw fill, tr_impactCostKrw = fl_impactCostKrw fill,
      tr_totalCostKrw = fl_totalCostKrw fill, tr_costModelVersion = PAPER_COST_MODEL_VERSION,
      tr_requestedNotionalKrw = fl_requestedNotionalKrw fill,
      tr_filledNotionalKrw = fl_filledNotionalKrw fill, tr_fillStatus = fl_fillStatus fill,
      tr_liquidityStatus = fl_liquidityStatus fill,
      tr_maxParticipationRate = fl_maxParticipationRate fill,
      tr_priceSourceRefs = priceSourceRefs, tr_strategyBucket = bucket,
      tr_fillRatio = fl_fillRatio fill, tr_fractionalShares = fl_fractionalShares fill,
      tr_executedAt = rd_createdAt rd, tr_realizedPnlKrw = fl_realizedPnlKrw fill,
      tr_participationRate = fl_participationRate fill, tr_volume = fl_volume fill,
      tr_averageVolume = fl_averageVolume fill\<rparr>"

definition resolveExecutionStrategyBucket ::
  "MarketCandidate \<Rightarrow> VirtualPosition option \<Rightarrow> StrategyBucket option" where
  "resolveExecutionStrategyBucket c existing =
     or_opt (Option.bind existing pos_strategyBucket) (cand_strategyBucket c)"

section \<open>Buying\<close>

definition buy_fill_input ::
  "js_env \<Rightarrow> PaperOrderInput \<Rightarrow> VirtualRiskDecision \<Rightarrow> MarketCandidate \<Rightarrow> jsnum
   \<Rightarrow> NormalizedVirtualOrder \<Rightarrow> PaperFillInput" where
  "buy_fill_input env inp rd c price order =
     \<lparr>fi_action = VIRTUAL_BUY, fi_targetNotionalKrw = no_targetNotionalKrw order,
      fi_sourcePriceKrw = price, fi_averagePriceKrw = None, fi_quantityOverride = None,
      fi_volume = cand_volume c, fi_averageVolume = cand_averageVolume c,
      fi_liquidityStale = isCandidateLiquidityStale env c (rd_createdAt rd),
      fi_policy = oi_executionPolicy inp\<rparr>"

text \<open>The portfolio after a purchase that is paid for.\<close>

definition apply_buy ::
  "PaperOrderInput \<Rightarrow> MarketCandidate \<Rightarrow> jsnum \<Rightarrow> PaperFill \<Rightarrow> string \<Rightarrow> VirtualPortfolio" where
  "apply_buy inp c price fill createdAt =
     (let pf = oi_portfolio inp; d = oi_decision inp
      in pf\<lparr>pf_positions :=
              (case find_position pf d of
                 Some _ \<Rightarrow> update_first (same_key d) (buy_more c price fill createdAt) (pf_positions pf)
               | None \<Rightarrow> pf_positions pf @ [new_position d c price fill createdAt]),
            pf_cashKrw := jsub (pf_cashKrw pf) (fl_netAmountKrw fill),
            pf_updatedAt := createdAt\<rparr>)"

definition executeBuy ::
  "js_env \<Rightarrow> PaperOrderInput \<Rightarrow> VirtualRiskDecision \<Rightarrow> MarketCandidate \<Rightarrow> jsnum
   \<Rightarrow> NormalizedVirtualOrder \<Rightarrow> PaperOrderResult result" where
  "executeBuy env inp rd c price order =
     (let pf = oi_portfolio inp; d = oi_decision inp;
          fill = buildPaperFill (buy_fill_input env inp rd c price order)
      in if fl_fillStatus fill = Rejected then Inr (no_trade pf (rejectLiquidityFill rd fill))
         else bind_result (rejectInsufficientBuyFunding env inp rd fill) (\<lambda>rejection.
           case rejection of
             Some rd' \<Rightarrow> Inr (no_trade pf rd')
           | None \<Rightarrow>
               (let existing = map_option (buy_more c price fill (rd_createdAt rd)) (find_position pf d)
                in Inr \<lparr>or_portfolio = apply_buy inp c price fill (rd_createdAt rd),
                        or_riskDecision = rd,
                        or_trade = Some (buildTrade inp rd VIRTUAL_BUY fill (cand_sourceRefs c)
                          (resolveExecutionStrategyBucket c existing)),
                        or_noOpReason = None\<rparr>)))"

section \<open>Selling\<close>

definition shouldSnapToFullExit ::
  "NormalizedVirtualOrder \<Rightarrow> VirtualPosition \<Rightarrow> jsnum \<Rightarrow> bool" where
  "shouldSnapToFullExit order existing price =
     (let value = jround (jmul (pos_quantity existing) price)
      in no_reduceOnly order \<and> jlt (Fin 0) value \<and> jle value (no_targetNotionalKrw order))"

definition sell_fill_input ::
  "js_env \<Rightarrow> PaperOrderInput \<Rightarrow> VirtualRiskDecision \<Rightarrow> MarketCandidate \<Rightarrow> jsnum
   \<Rightarrow> NormalizedVirtualOrder \<Rightarrow> VirtualPosition \<Rightarrow> PaperFillInput" where
  "sell_fill_input env inp rd c price order existing =
     \<lparr>fi_action = VIRTUAL_SELL, fi_targetNotionalKrw = no_targetNotionalKrw order,
      fi_sourcePriceKrw = price, fi_averagePriceKrw = Some (pos_averagePriceKrw existing),
      fi_quantityOverride =
        (if shouldSnapToFullExit order existing price then Some (pos_quantity existing) else None),
      fi_volume = cand_volume c, fi_averageVolume = cand_averageVolume c,
      fi_liquidityStale = isCandidateLiquidityStale env c (rd_createdAt rd),
      fi_policy = oi_executionPolicy inp\<rparr>"

definition apply_sell ::
  "PaperOrderInput \<Rightarrow> jsnum \<Rightarrow> PaperFill \<Rightarrow> string \<Rightarrow> VirtualPosition \<Rightarrow> VirtualPortfolio" where
  "apply_sell inp price fill createdAt existing =
     (let pf = oi_portfolio inp; d = oi_decision inp;
          positions = update_first (same_key d) (sell_some price fill createdAt) (pf_positions pf)
      in pf\<lparr>pf_positions :=
              (if isDustPosition (sell_some price fill createdAt existing) (Some price)
               then drop_positions d positions else positions),
            pf_cashKrw := jadd (pf_cashKrw pf) (fl_netAmountKrw fill),
            pf_updatedAt := createdAt\<rparr>)"

definition executeSell ::
  "js_env \<Rightarrow> PaperOrderInput \<Rightarrow> VirtualRiskDecision \<Rightarrow> MarketCandidate \<Rightarrow> jsnum
   \<Rightarrow> NormalizedVirtualOrder \<Rightarrow> PaperOrderResult" where
  "executeSell env inp rd c price order =
     (let pf = oi_portfolio inp; d = oi_decision inp
      in case find_position pf d of
           None \<Rightarrow> no_trade pf rd
         | Some existing \<Rightarrow>
             if jle (no_targetNotionalKrw order) (Fin 0) \<and> isSellAllDustClose d existing (Some price)
             then \<lparr>or_portfolio = pf\<lparr>pf_positions := drop_positions d (pf_positions pf),
                                     pf_updatedAt := rd_createdAt rd\<rparr>,
                   or_riskDecision = rd, or_trade = None,
                   or_noOpReason = Some NO_OP_EXIT_DUST_CLOSED\<rparr>
             else
               (let fill = buildPaperFill (sell_fill_input env inp rd c price order existing)
                in if fl_fillStatus fill = Rejected then no_trade pf (rejectLiquidityFill rd fill)
                   else \<lparr>or_portfolio = apply_sell inp price fill (rd_createdAt rd) existing,
                         or_riskDecision = rd,
                         or_trade = Some (buildTrade inp rd VIRTUAL_SELL fill (cand_sourceRefs c)
                           (resolveExecutionStrategyBucket c
                             (Some (sell_some price fill (rd_createdAt rd) existing)))),
                         or_noOpReason = None\<rparr>))"

section \<open>Execution\<close>

text \<open>\<open>PaperOrderEngine.execute\<close>.\<close>

definition execute :: "js_env \<Rightarrow> PaperOrderInput \<Rightarrow> PaperOrderResult result" where
  "execute env inp =
     (let pkt = oi_packet inp; pf = oi_portfolio inp; d = oi_decision inp
      in bind_result (evaluate env pkt pf d (oi_riskPolicy inp)) (\<lambda>rd.
           if \<not> rd_approved rd \<or> dec_action d = VIRTUAL_HOLD then Inr (no_trade pf rd)
           else
             case findCandidate pkt d of
               None \<Rightarrow> Inr (no_trade pf (rd\<lparr>rd_approved := False,
                         rd_rejectCodes := rd_rejectCodes rd @ [PRICE_MISSING]\<rparr>))
             | Some c \<Rightarrow>
                 (case cand_lastPriceKrw c of
                    None \<Rightarrow> Inr (no_trade pf (rd\<lparr>rd_approved := False,
                              rd_rejectCodes := rd_rejectCodes rd @ [PRICE_MISSING]\<rparr>))
                  | Some price \<Rightarrow>
                      if \<not> truthy_num price then
                        Inr (no_trade pf (rd\<lparr>rd_approved := False,
                          rd_rejectCodes := rd_rejectCodes rd @ [PRICE_MISSING]\<rparr>))
                      else
                        (let order = normalizeVirtualDecision pkt pf d
                         in if dec_action d = VIRTUAL_BUY then executeBuy env inp rd c price order
                            else Inr (executeSell env inp rd c price order)))))"

section \<open>The outcomes of an execution\<close>

text \<open>
  Every execution that returns is one of four: no trade and an unchanged portfolio, a purchase,
  a sale, or a dust position closed without a trade.
\<close>

definition order_size :: "PaperOrderInput \<Rightarrow> NormalizedVirtualOrder" where
  "order_size inp = normalizeVirtualDecision (oi_packet inp) (oi_portfolio inp) (oi_decision inp)"

definition buy_fill ::
  "js_env \<Rightarrow> PaperOrderInput \<Rightarrow> VirtualRiskDecision \<Rightarrow> MarketCandidate \<Rightarrow> jsnum \<Rightarrow> PaperFill" where
  "buy_fill env inp rd c price = buildPaperFill (buy_fill_input env inp rd c price (order_size inp))"

definition sell_fill ::
  "js_env \<Rightarrow> PaperOrderInput \<Rightarrow> VirtualRiskDecision \<Rightarrow> MarketCandidate \<Rightarrow> jsnum
   \<Rightarrow> VirtualPosition \<Rightarrow> PaperFill" where
  "sell_fill env inp rd c price p =
     buildPaperFill (sell_fill_input env inp rd c price (order_size inp) p)"

lemmas outcome_defs = order_size_def buy_fill_def sell_fill_def

text \<open>A priced order is one that the risk engine approved for a candidate with a price.\<close>

definition priced_order ::
  "js_env \<Rightarrow> PaperOrderInput \<Rightarrow> VirtualRiskDecision \<Rightarrow> MarketCandidate \<Rightarrow> jsnum \<Rightarrow> bool" where
  "priced_order env inp rd c price \<longleftrightarrow>
     evaluate env (oi_packet inp) (oi_portfolio inp) (oi_decision inp) (oi_riskPolicy inp) = Inr rd \<and>
     rd_approved rd \<and> dec_action (oi_decision inp) \<noteq> VIRTUAL_HOLD \<and>
     findCandidate (oi_packet inp) (oi_decision inp) = Some c \<and>
     cand_lastPriceKrw c = Some price \<and> truthy_num price"

lemma executeBuy_cases:
  assumes "executeBuy env inp rd c price (order_size inp) = Inr r"
  obtains (Rejection) rd' where "r = no_trade (oi_portfolio inp) rd'" "\<not> rd_approved rd'"
  | (Purchase)
      "fl_fillStatus (buy_fill env inp rd c price) \<noteq> Rejected"
      "rejectInsufficientBuyFunding env inp rd (buy_fill env inp rd c price) = Inr None"
      "or_portfolio r = apply_buy inp c price (buy_fill env inp rd c price) (rd_createdAt rd)"
      "or_riskDecision r = rd" "or_noOpReason r = None"
      "\<exists>bucket. or_trade r =
         Some (buildTrade inp rd VIRTUAL_BUY (buy_fill env inp rd c price) (cand_sourceRefs c) bucket)"
proof (cases "fl_fillStatus (buy_fill env inp rd c price) = Rejected")
  case True
  with assms show thesis
    by (intro Rejection [of "rejectLiquidityFill rd (buy_fill env inp rd c price)"])
      (auto simp: executeBuy_def Let_def buy_fill_def rejectLiquidityFill_def)
next
  case False
  with assms obtain rejection where
    rej: "rejectInsufficientBuyFunding env inp rd (buy_fill env inp rd c price) = Inr rejection"
    by (auto simp: executeBuy_def Let_def buy_fill_def bind_result_Inr)
  show thesis
  proof (cases rejection)
    case (Some rd')
    with rej have "\<not> rd_approved rd'"
      by (auto simp: rejectInsufficientBuyFunding_def Let_def bind_result_Inr split: if_splits)
    with Some rej False assms show thesis
      by (intro Rejection [of rd']) (auto simp: executeBuy_def Let_def buy_fill_def)
  next
    case None
    with rej False assms show thesis
      by (intro Purchase) (auto simp: executeBuy_def Let_def buy_fill_def)
  qed
qed

lemma executeSell_cases:
  obtains (Rejection) rd' where "executeSell env inp rd c price (order_size inp) =
      no_trade (oi_portfolio inp) rd'"
      "rd_approved rd' \<longrightarrow> find_position (oi_portfolio inp) (oi_decision inp) = None"
  | (DustClose) p where "find_position (oi_portfolio inp) (oi_decision inp) = Some p"
      "jle (no_targetNotionalKrw (order_size inp)) (Fin 0)"
      "isSellAllDustClose (oi_decision inp) p (Some price)"
      "executeSell env inp rd c price (order_size inp) =
        \<lparr>or_portfolio = (oi_portfolio inp)\<lparr>
           pf_positions := drop_positions (oi_decision inp) (pf_positions (oi_portfolio inp)),
           pf_updatedAt := rd_createdAt rd\<rparr>,
         or_riskDecision = rd, or_trade = None, or_noOpReason = Some NO_OP_EXIT_DUST_CLOSED\<rparr>"
  | (Sale) p where "find_position (oi_portfolio inp) (oi_decision inp) = Some p"
      "\<not> (jle (no_targetNotionalKrw (order_size inp)) (Fin 0) \<and>
          isSellAllDustClose (oi_decision inp) p (Some price))"
      "fl_fillStatus (sell_fill env inp rd c price p) \<noteq> Rejected"
      "or_portfolio (executeSell env inp rd c price (order_size inp)) =
         apply_sell inp price (sell_fill env inp rd c price p) (rd_createdAt rd) p"
      "or_riskDecision (executeSell env inp rd c price (order_size inp)) = rd"
      "or_noOpReason (executeSell env inp rd c price (order_size inp)) = None"
      "\<exists>bucket. or_trade (executeSell env inp rd c price (order_size inp)) =
         Some (buildTrade inp rd VIRTUAL_SELL (sell_fill env inp rd c price p) (cand_sourceRefs c) bucket)"
proof (cases "find_position (oi_portfolio inp) (oi_decision inp)")
  case None
  then show thesis by (intro Rejection [of rd]) (simp_all add: executeSell_def Let_def)
next
  case (Some p)
  show thesis
  proof (cases "jle (no_targetNotionalKrw (order_size inp)) (Fin 0) \<and>
      isSellAllDustClose (oi_decision inp) p (Some price)")
    case True
    with Some show thesis by (intro DustClose [of p]) (simp_all add: executeSell_def Let_def)
  next
    case no: False
    show thesis
    proof (cases "fl_fillStatus (sell_fill env inp rd c price p) = Rejected")
      case True
      with Some no show thesis
        by (intro Rejection [of "rejectLiquidityFill rd (sell_fill env inp rd c price p)"])
          (auto simp: executeSell_def Let_def sell_fill_def rejectLiquidityFill_def)
    next
      case False
      with Some no show thesis
        by (intro Sale [of p]) (auto simp: executeSell_def Let_def sell_fill_def)
    qed
  qed
qed

lemma execute_InrD:
  assumes "execute env inp = Inr r"
  obtains (Rejection) rd where "r = no_trade (oi_portfolio inp) rd"
      "rd_approved rd \<longrightarrow> dec_action (oi_decision inp) = VIRTUAL_HOLD"
  | (Buying) rd c price where "priced_order env inp rd c price"
      "dec_action (oi_decision inp) = VIRTUAL_BUY"
      "executeBuy env inp rd c price (order_size inp) = Inr r"
  | (Selling) rd c price where "priced_order env inp rd c price"
      "dec_action (oi_decision inp) = VIRTUAL_SELL"
      "r = executeSell env inp rd c price (order_size inp)"
proof -
  from assms obtain rd where
    rd: "evaluate env (oi_packet inp) (oi_portfolio inp) (oi_decision inp) (oi_riskPolicy inp) = Inr rd"
    by (auto simp: execute_def Let_def bind_result_Inr)
  show thesis
  proof (cases "\<not> rd_approved rd \<or> dec_action (oi_decision inp) = VIRTUAL_HOLD")
    case True
    with rd assms show thesis by (intro Rejection [of rd]) (auto simp: execute_def Let_def)
  next
    case False
    then obtain c price where
      c: "findCandidate (oi_packet inp) (oi_decision inp) = Some c" "cand_lastPriceKrw c = Some price"
        "truthy_num price"
      using approved_common(5) [OF rd [unfolded evaluate_def]] by (auto elim: has_priceE)
    with rd False have "priced_order env inp rd c price" by (simp add: priced_order_def)
    moreover from False have "dec_action (oi_decision inp) = VIRTUAL_BUY \<or>
        dec_action (oi_decision inp) = VIRTUAL_SELL" by (cases "dec_action (oi_decision inp)") auto
    ultimately show thesis
      using assms rd False c by (auto simp: execute_def Let_def order_size_def intro: Buying Selling)
  qed
qed

text \<open>In particular the portfolio changes only with an approved decision.\<close>

lemma no_trade_simps [simp]:
  "or_portfolio (no_trade pf rd) = pf" "or_riskDecision (no_trade pf rd) = rd"
  "or_trade (no_trade pf rd) = None" "or_noOpReason (no_trade pf rd) = None"
  by (simp_all add: no_trade_def)

lemma execute_unapproved:
  assumes "execute env inp = Inr r" and "\<not> rd_approved (or_riskDecision r)"
  shows "or_portfolio r = oi_portfolio inp" and "or_trade r = None" and "or_noOpReason r = None"
proof -
  have "or_portfolio r = oi_portfolio inp \<and> or_trade r = None \<and> or_noOpReason r = None"
    using assms(1)
  proof (cases rule: execute_InrD)
    case (Buying rd c price)
    from Buying(3) show ?thesis
      by (cases rule: executeBuy_cases)
        (use Buying(1) assms(2) in \<open>auto simp: priced_order_def\<close>)
  next
    case (Selling rd c price)
    show ?thesis
      by (cases rule: executeSell_cases [where env = env and inp = inp and rd = rd and c = c and price = price])
        (use Selling(1,3) assms(2) in \<open>auto simp: priced_order_def\<close>)
  qed simp
  then show "or_portfolio r = oi_portfolio inp" and "or_trade r = None" and "or_noOpReason r = None"
    by auto
qed

lemma execute_hold:
  assumes "execute env inp = Inr r" and "dec_action (oi_decision inp) = VIRTUAL_HOLD"
  shows "or_portfolio r = oi_portfolio inp \<and> or_trade r = None"
  using assms(1) by (cases rule: execute_InrD) (use assms(2) in auto)

section \<open>Ledger\<close>

record VirtualLedgerEntry =
  le_trade :: VirtualTrade
  le_riskDecision :: VirtualRiskDecision
  le_resultingPortfolio :: VirtualPortfolio

type_synonym VirtualLedger = "VirtualLedgerEntry list"

text \<open>\<open>record\<close> appends a copy, \<open>list\<close> returns copies.\<close>

definition ledger_record :: "VirtualLedger \<Rightarrow> VirtualLedgerEntry \<Rightarrow> VirtualLedger" where
  "ledger_record entries entry = entries @ [entry]"

definition ledger_list :: "VirtualLedger \<Rightarrow> VirtualLedgerEntry list" where
  "ledger_list entries = entries"

end
