(* ===== verification/PaperAccounting.thy ===== *)
theory PaperAccounting
  imports PaperOrder
begin

text \<open>
  What an executed order does to the account: a purchase is paid from the cash and leaves the
  reserves, a sale never sells more than is held, other positions are untouched, and the
  positions keep distinct keys.  The schemas of \<open>src/domain/schemas.ts\<close> are the hypotheses.
\<close>

section \<open>Admissible inputs\<close>

definition allocation_ok :: "PortfolioAllocation \<Rightarrow> bool" where
  "allocation_ok a \<longleftrightarrow> money (alloc_maxAdditionalBuyBudgetKrw a) \<and>
     money (alloc_maxBudgetPerDecisionKrw a) \<and>
     opt_all money (alloc_marketAdditionalBuyBudgetKrw a KR) \<and>
     opt_all money (alloc_marketAdditionalBuyBudgetKrw a US)"

definition packet_ok :: "MarketPacket \<Rightarrow> bool" where
  "packet_ok pkt \<longleftrightarrow> money (pkt_maxBudgetPerSymbolKrw pkt) \<and>
     opt_all allocation_ok (pkt_portfolioAllocation pkt) \<and>
     list_all (\<lambda>c. opt_all money (cand_lastPriceKrw c) \<and> opt_all share_count (cand_volume c) \<and>
        opt_all share_count (cand_averageVolume c)) (pkt_candidates pkt)"

text \<open>The account: whole cash, and quantities that are not negative.\<close>

definition holdings_ok :: "VirtualPortfolio \<Rightarrow> bool" where
  "holdings_ok pf \<longleftrightarrow>
     money (pf_cashKrw pf) \<and> list_all (\<lambda>p. nonneg_number (pos_quantity p)) (pf_positions pf)"

definition order_ok :: "PaperOrderInput \<Rightarrow> bool" where
  "order_ok inp \<longleftrightarrow> packet_ok (oi_packet inp) \<and> holdings_ok (oi_portfolio inp) \<and>
     decision_ok (oi_decision inp) \<and>
     execution_policy_ok (createPaperExecutionPolicy (oi_executionPolicy inp))"

lemma order_okD:
  assumes "order_ok inp"
  shows "packet_ok (oi_packet inp)" and "money (pf_cashKrw (oi_portfolio inp))"
    and "decision_ok (oi_decision inp)"
    and "execution_policy_ok (createPaperExecutionPolicy (oi_executionPolicy inp))"
    and "\<And>p. p \<in> set (pf_positions (oi_portfolio inp)) \<Longrightarrow> nonneg_number (pos_quantity p)"
  using assms by (auto simp: order_ok_def holdings_ok_def list_all_iff)

lemma candidate_of_packet:
  assumes "packet_ok pkt" and "findCandidate pkt d = Some c" and "cand_lastPriceKrw c = Some price"
    and "truthy_num price"
  shows "opt_all share_count (cand_volume c)" and "opt_all share_count (cand_averageVolume c)"
    and "money price" and "\<exists>p. price = num p \<and> 0 < p \<and> p \<le> 9007199254740991"
proof -
  from assms(2) have "c \<in> set (pkt_candidates pkt)" by (blast dest: findCandidate_SomeD)
  with assms(1,3) show "opt_all share_count (cand_volume c)"
    and "opt_all share_count (cand_averageVolume c)" and m: "money price"
    by (auto simp: packet_ok_def list_all_iff)
  from m assms(4) show "\<exists>p. price = num p \<and> 0 < p \<and> p \<le> 9007199254740991"
    by (auto simp: truthy_num_def elim!: moneyE)
qed

subsection \<open>Sizes\<close>

lemma jmin_money: "money a \<Longrightarrow> money b \<Longrightarrow> money (jmin a b)"
  by (auto simp: jmin_def)

lemma foldl_jmin_money: "money a \<Longrightarrow> \<forall>x \<in> set xs. money x \<Longrightarrow> money (foldl jmin a xs)"
  by (induction xs arbitrary: a) (auto simp: jmin_money)

lemma money_MAX: "money MAX_SAFE_INTEGER"
  by (simp add: money_def is_safe_integer_def MAX_SAFE_INTEGER_def)

lemma jmin_PInf: "money a \<Longrightarrow> jmin PInf a = a"
  by (auto simp: jmin_def elim!: moneyE)

lemma buy_notional_money:
  assumes "packet_ok pkt" and "decision_ok d" and "dec_action d = VIRTUAL_BUY"
  shows "money (no_targetNotionalKrw (normalizeVirtualDecision pkt pf d))"
proof -
  have m: "money (dec_budgetKrw d)" using assms(2) by (simp add: decision_ok_def)
  have "\<forall>x \<in> set (buy_budgets pkt d). money x"
    using assms(1,2) money_MAX
    by (cases "dec_market d"; cases "pkt_portfolioAllocation pkt")
      (auto simp: buy_budgets_def Let_def packet_ok_def decision_ok_def allocation_ok_def or_else_def
        opt_all_def split: option.splits)
  then have "money (foldl jmin (dec_budgetKrw d) (tl (buy_budgets pkt d)))"
    using m by (intro foldl_jmin_money) (auto simp: buy_budgets_def Let_def)
  moreover have "jmin_list (buy_budgets pkt d) = foldl jmin (dec_budgetKrw d) (tl (buy_budgets pkt d))"
    using m by (simp add: jmin_list_def buy_budgets_def Let_def jmin_PInf)
  ultimately show ?thesis by (simp add: buy_notional assms(3))
qed

lemma int_amount_jmax0:
  "x \<noteq> NaN \<Longrightarrow> (is_finite x \<Longrightarrow> is_integer x) \<Longrightarrow> int_amount (jmax (Fin 0) x)"
  by (cases x) (auto simp: jmax_def int_amount_def)

lemma int_amount_jmin:
  assumes "int_amount x" and "x \<noteq> NaN" and "0 \<le> v"
  obtains t where "jmin x (num v) = num t" "0 \<le> t" "t \<le> v"
proof (cases x)
  case (Fin a)
  with assms obtain n where "x = num n" "0 \<le> n" by (auto simp: int_amount_def is_integer_iff)
  with that [of "min n v"] assms(3) show thesis by (auto simp: jmin_def min_def)
next
  case PInf
  with that [of v] assms(3) show thesis by (simp add: jmin_def)
qed (use assms in \<open>auto simp: int_amount_def\<close>)

lemma jmul_not_NaN [simp]: "jmul (Fin a) (Fin b) \<noteq> NaN"
  by simp

lemma jmul_pos_not_NaN: "x \<noteq> NaN \<Longrightarrow> 0 < b \<Longrightarrow> jmul x (Fin b) \<noteq> NaN"
  by (cases x) (auto simp: inf_of_sign_def)

lemma jround_not_NaN: "x \<noteq> NaN \<Longrightarrow> jround x \<noteq> NaN"
  by (cases x) auto

text \<open>What a sell asks for is an integer, not negative, or infinite.\<close>

lemma sell_target_amount:
  assumes d: "decision_ok d" and nw: "is_finite (virtualNetWorthKrw pf)"
    and Q: "0 \<le> Q" and p: "0 < p"
    and v: "jround (jmul (Fin Q) (num p)) = num v" "0 \<le> v"
  shows "int_amount (sellTargetNotionalKrw d pf (Fin Q) (num p))"
    and "sellTargetNotionalKrw d pf (Fin Q) (num p) \<noteq> NaN"
proof -
  let ?x = "sellTargetNotionalKrw d pf (Fin Q) (num p)"
  have pn: "not_neg (num p)" using p by simp
  have "int_amount ?x \<and> ?x \<noteq> NaN"
  proof (cases "dec_sellAll d = Some True")
    case True
    with v show ?thesis by (simp add: sellTargetNotionalKrw_def)
  next
    case no: False
    show ?thesis
    proof (cases "dec_sellQuantity d")
      case (Some q)
      with d obtain b where b: "q = Fin b" "0 \<le> b"
        by (auto simp: decision_ok_def elim: nonneg_numberE)
      have "int_amount (jround (jmul q (num p)))" using b pn by (intro not_neg_intros) auto
      moreover have "jround (jmul q (num p)) \<noteq> NaN" using b by (intro jround_not_NaN) simp
      ultimately show ?thesis using no Some by (simp add: sellTargetNotionalKrw_def)
    next
      case nq: None
      show ?thesis
      proof (cases "dec_sellRatio d")
        case (Some r)
        with d obtain b where b: "r = Fin b" "0 \<le> b"
          by (auto simp: decision_ok_def ratio_number_def elim: nonneg_numberE)
        have "int_amount (jround (jmul (jmul (Fin Q) r) (num p)))"
          using b pn Q by (intro not_neg_intros) auto
        moreover have "jround (jmul (jmul (Fin Q) r) (num p)) \<noteq> NaN"
          using b p by (intro jround_not_NaN jmul_pos_not_NaN) auto
        ultimately show ?thesis using no nq Some by (simp add: sellTargetNotionalKrw_def)
      next
        case nr: None
        show ?thesis
        proof (cases "dec_targetWeightPct d")
          case (Some w)
          with d obtain b where b: "w = Fin b" by (auto simp: decision_ok_def ratio_number_def
            elim: nonneg_numberE)
          obtain a where a: "virtualNetWorthKrw pf = Fin a" using nw by (cases "virtualNetWorthKrw pf") auto
          define m where "m = jround (jmul (virtualNetWorthKrw pf) w)"
          have m: "m \<noteq> NaN" "is_finite m \<Longrightarrow> is_integer m"
            unfolding m_def a b by (intro jround_not_NaN jmul_not_NaN, cases "jmul (Fin a) (Fin b)") auto
          have "jsub (num v) m \<noteq> NaN" using m by (cases m) (auto simp: jsub_def)
          moreover have "is_integer (jsub (num v) m)" if "is_finite (jsub (num v) m)"
          proof -
            from that obtain c where "jsub (num v) m = Fin c" by (cases "jsub (num v) m") auto
            then have "is_finite m" by (auto dest: jsub_FinD)
            with m obtain k where "m = num k" by (auto simp: is_integer_iff)
            with that show ?thesis using jadd_int [of "num v" "num (- k)"] by (simp add: jsub_def)
          qed
          ultimately have "int_amount (jmax (Fin 0) (jsub (num v) m))" by (rule int_amount_jmax0)
          moreover have "jmax (Fin 0) (jsub (num v) m) \<noteq> NaN"
            using \<open>jsub (num v) m \<noteq> NaN\<close> by (auto simp: jmax_def)
          ultimately show ?thesis using no nq nr Some v by (simp add: sellTargetNotionalKrw_def m_def)
        next
          case None
          with no nq nr d show ?thesis
            by (auto simp: sellTargetNotionalKrw_def decision_ok_def elim!: moneyE)
        qed
      qed
    qed
  qed
  then show "int_amount ?x" and "?x \<noteq> NaN" by auto
qed

section \<open>A purchase\<close>

text \<open>The fill that an input buys with, for the candidate and price of the order.\<close>

lemma buy_input_fields [simp]:
  "fi_action (buy_fill_input env inp rd c price order) = VIRTUAL_BUY"
  "fi_targetNotionalKrw (buy_fill_input env inp rd c price order) = no_targetNotionalKrw order"
  "fi_sourcePriceKrw (buy_fill_input env inp rd c price order) = price"
  "fi_quantityOverride (buy_fill_input env inp rd c price order) = None"
  "fi_volume (buy_fill_input env inp rd c price order) = cand_volume c"
  "fi_averageVolume (buy_fill_input env inp rd c price order) = cand_averageVolume c"
  "input_policy (buy_fill_input env inp rd c price order) =
     createPaperExecutionPolicy (oi_executionPolicy inp)"
  by (simp_all add: buy_fill_input_def input_policy_def)

lemma funding_passed:
  assumes "rejectInsufficientBuyFunding env inp rd fill = Inr None"
  obtains dyn where "policy_assessment (oi_portfolio inp) (input_risk_policy env inp) = Inr dyn"
    "funding_codes (fl_netAmountKrw fill) (pf_cashKrw (oi_portfolio inp))
       (minimumCashReserveKrw (oi_portfolio inp) (input_risk_policy env inp)) dyn = []"
  using assms by (auto simp: rejectInsufficientBuyFunding_def Let_def bind_result_Inr split: if_splits)

text \<open>
  The net amount of a purchase is a whole amount that the cash covers, and what is left is at
  least the reserve.
\<close>

lemma purchase_paid:
  assumes ok: "order_ok inp" and po: "priced_order env inp rd c price"
    and buy: "dec_action (oi_decision inp) = VIRTUAL_BUY"
    and st: "fl_fillStatus (buy_fill env inp rd c price) \<noteq> Rejected"
    and fund: "rejectInsufficientBuyFunding env inp rd (buy_fill env inp rd c price) = Inr None"
  obtains k n where "pf_cashKrw (oi_portfolio inp) = num k"
    "fl_netAmountKrw (buy_fill env inp rd c price) = num n" "0 \<le> n" "n \<le> k"
    "k \<le> 9007199254740991"
    "jsub (pf_cashKrw (oi_portfolio inp)) (fl_netAmountKrw (buy_fill env inp rd c price)) = num (k - n)"
    "\<not> jlt (num (k - n)) (minimumCashReserveKrw (oi_portfolio inp) (input_risk_policy env inp))"
    "capped 53 (input_quantity (buy_fill_input env inp rd c price (order_size inp)))"
proof -
  let ?in = "buy_fill_input env inp rd c price (order_size inp)"
  have pol: "execution_policy_ok (input_policy ?in)" using order_okD(4) [OF ok] by simp
  have c: "findCandidate (oi_packet inp) (oi_decision inp) = Some c" "cand_lastPriceKrw c = Some price"
    "truthy_num price" using po by (simp_all add: priced_order_def)
  note cand = candidate_of_packet [OF order_okD(1) [OF ok] c]
  have target: "money (fi_targetNotionalKrw ?in)"
    using buy_notional_money [OF order_okD(1,3) [OF ok] buy] by (simp add: order_size_def)
  have st': "fl_fillStatus (buildPaperFill ?in) \<noteq> Rejected" using st by (simp add: buy_fill_def)
  note fin = buy_net_finite [OF pol _ _ target _ _ _ _ st', simplified, OF cand(3) c(3) cand(1,2)]
  have ia: "int_amount (fl_netAmountKrw (buildPaperFill ?in))"
    by (rule buy_net_amount [OF pol _ st']) simp
  from fin(1) obtain x where x: "fl_netAmountKrw (buildPaperFill ?in) = Fin x" by (rule cappedE)
  with ia obtain n where n: "fl_netAmountKrw (buildPaperFill ?in) = num n" "0 \<le> n"
    by (auto simp: int_amount_def is_integer_iff)
  obtain k where k: "pf_cashKrw (oi_portfolio inp) = num k" "0 \<le> k" "k \<le> 9007199254740991"
    using order_okD(2) [OF ok] by (rule moneyE)
  from funding_passed [OF fund] obtain dyn where
    f: "funding_codes (fl_netAmountKrw (buy_fill env inp rd c price)) (pf_cashKrw (oi_portfolio inp))
      (minimumCashReserveKrw (oi_portfolio inp) (input_risk_policy env inp)) dyn = []" by blast
  then have nk: "n \<le> k" using n k by (simp add: funding_codes_Nil buy_fill_def)
  have d: "jsub (num k) (num n) = num (k - n)" using n k nk by (intro jsub_exact) auto
  show thesis
    by (rule that [of k n])
      (use n k nk d f fin(2) in \<open>simp_all add: funding_codes_Nil buy_fill_def\<close>)
qed

section \<open>A sale\<close>

lemma sell_input_fields [simp]:
  "fi_action (sell_fill_input env inp rd c price order p) = VIRTUAL_SELL"
  "fi_targetNotionalKrw (sell_fill_input env inp rd c price order p) = no_targetNotionalKrw order"
  "fi_sourcePriceKrw (sell_fill_input env inp rd c price order p) = price"
  "fi_quantityOverride (sell_fill_input env inp rd c price order p) =
     (if shouldSnapToFullExit order p price then Some (pos_quantity p) else None)"
  "fi_volume (sell_fill_input env inp rd c price order p) = cand_volume c"
  "fi_averageVolume (sell_fill_input env inp rd c price order p) = cand_averageVolume c"
  "input_policy (sell_fill_input env inp rd c price order p) =
     createPaperExecutionPolicy (oi_executionPolicy inp)"
  by (simp_all add: sell_fill_input_def input_policy_def)

text \<open>
  Rounding does not oversell: an integer notional strictly below the rounded value of the
  position buys back, at the same price, at most the position.
\<close>

lemma quantity_below_position:
  assumes Q: "0 \<le> Q" "representable Q" and p: "0 < p" and bound: "Q * of_int p \<le> 2 ^ 53"
    and v: "jround (jmul (Fin Q) (num p)) = num v" and a: "a \<le> of_int v - 1" "0 \<le> a"
  shows "jle (jdiv (Fin a) (num p)) (Fin Q)"
proof -
  have x0: "0 \<le> Q * of_int p" using Q p by simp
  then have b: "\<bar>Q * of_int p\<bar> \<le> max_finite" using bound max_finite_ge by linarith
  then have m: "jmul (Fin Q) (num p) = Fin (rnd (Q * of_int p))" by (simp add: mk_bounded)
  have "\<bar>rnd (Q * of_int p) - Q * of_int p\<bar> \<le> 1/2" using x0 bound by (intro rnd_near) simp
  then have near: "rnd (Q * of_int p) \<le> Q * of_int p + 1/2" by linarith
  from v m have "v = \<lfloor>rnd (Q * of_int p) + 1/2\<rfloor>" by simp
  then have "of_int v \<le> rnd (Q * of_int p) + 1/2" by linarith
  then have "a \<le> Q * of_int p" using a near by linarith
  then have le: "a / of_int p \<le> Q" using p by (simp add: divide_le_eq)
  have q0: "0 \<le> a / of_int p" using a p by simp
  have "Q * 1 \<le> Q * of_int p" using Q p by (intro mult_left_mono) auto
  then have "Q \<le> 2 ^ 53" using bound by linarith
  then have "\<bar>a / of_int p\<bar> \<le> max_finite" using le q0 max_finite_ge by linarith
  then have "jdiv (Fin a) (num p) = Fin (rnd (a / of_int p))" using p by (simp add: mk_bounded)
  moreover have "rnd (a / of_int p) \<le> Q" using Q(2) le by (rule rnd_le_representable)
  ultimately show ?thesis by simp
qed

lemma jfloor_le: "jle x (Fin Q) \<Longrightarrow> jle (jfloor x) (Fin Q)"
  by (cases x) (auto, linarith)

text \<open>The quantity of a sale: positive, and at most the position.\<close>

lemma sale_quantity:
  assumes ok: "order_ok inp" and po: "priced_order env inp rd c price"
    and sell: "dec_action (oi_decision inp) = VIRTUAL_SELL"
    and pos: "find_position (oi_portfolio inp) (oi_decision inp) = Some p"
    and nw: "is_finite (virtualNetWorthKrw (oi_portfolio inp))"
    and bound: "pos_quantity p = Fin Q" "price = num pr" "Q * of_int pr \<le> 2 ^ 53"
    and open_order: "\<not> (jle (no_targetNotionalKrw (order_size inp)) (Fin 0) \<and>
          isSellAllDustClose (oi_decision inp) p (Some price))"
    and st: "fl_fillStatus (sell_fill env inp rd c price p) \<noteq> Rejected"
  defines "q \<equiv> input_quantity (sell_fill_input env inp rd c price (order_size inp) p)"
  shows "jle q (pos_quantity p)" and "jlt (Fin 0) q"
proof -
  let ?in = "sell_fill_input env inp rd c price (order_size inp) p"
  let ?liq = "input_liquidity ?in"
  have c: "findCandidate (oi_packet inp) (oi_decision inp) = Some c" "cand_lastPriceKrw c = Some price"
    "truthy_num price"
    and ev: "evaluate_policy env (oi_packet inp) (oi_portfolio inp) (oi_decision inp)
        (createVirtualRiskPolicy env (pkt_maxBudgetPerSymbolKrw (oi_packet inp)) (oi_riskPolicy inp)) = Inr rd"
      "rd_approved rd"
    using po by (simp_all add: priced_order_def evaluate_def)
  obtain pr' where pr': "price = num pr'" "0 < pr'" "pr' \<le> 9007199254740991"
    using candidate_of_packet(4) [OF order_okD(1) [OF ok] c] by blast
  with bound(2) have pr: "0 < pr" "pr \<le> 9007199254740991" by auto
  have posok: "nonneg_number (pos_quantity p)" using pos order_okD(5) [OF ok] by (blast dest: find_position_SomeD)
  then have Q: "0 \<le> Q" "representable Q"
    using bound(1) by (auto elim: nonneg_numberE)
  have Qp0: "0 \<le> Q * of_int pr" using Q pr by simp
  have r53: "rnd (Q * of_int pr) \<le> 2 ^ 53"
    using bound(3) representable_power [of 53] by (intro rnd_le_representable) auto
  define v where "v = \<lfloor>rnd (Q * of_int pr) + 1/2\<rfloor>"
  have m: "jmul (Fin Q) (num pr) = Fin (rnd (Q * of_int pr))"
    using Qp0 bound(3) max_finite_ge by (intro jmul.simps(1) [THEN trans] mk_bounded) linarith
  then have v: "jround (jmul (Fin Q) (num pr)) = num v" by (simp add: v_def)
  have "(of_int v :: rat) \<le> of_int (2 ^ 53)" unfolding v_def using r53 by (intro floor_half_le) simp
  then have v0: "0 \<le> v" "v \<le> 2 ^ 53"
    using rnd_nonneg [OF Qp0] unfolding v_def by (linarith, simp only: of_int_le_iff)
  let ?x = "sellTargetNotionalKrw (oi_decision inp) (oi_portfolio inp) (Fin Q) (num pr)"
  note x = sell_target_amount [OF order_okD(3) [OF ok] nw Q(1) pr(1) v v0(1)]
  obtain t where t: "jmin ?x (num v) = num t" "0 \<le> t" "t \<le> v"
    by (rule int_amount_jmin [OF x v0(1)])
  have target: "no_targetNotionalKrw (order_size inp) = num t"
    using sell_order(1) [OF sell pos c(1,2)] t(1) v bound(1,2) by (simp add: order_size_def)
  have reduce: "no_reduceOnly (order_size inp)"
    using sell_order(2) [OF sell pos c(1,2)] by (simp add: order_size_def)
  have tpos: "0 < t"
    by (rule approved_sell [OF ev sell])
      (use pos c open_order target in \<open>auto simp: order_size_def\<close>)
  have frac: "ratio_number (xp_fillRatio (input_policy ?in))"
    using order_okD(4) [OF ok] by (simp add: execution_policy_ok_def)
  have ls: "ld_fillStatus ?liq \<noteq> Rejected" and qn: "\<not> jle q (Fin 0)"
    using filled_status [OF st [unfolded sell_fill_def]] by (simp_all add: q_def)
  have snap: "shouldSnapToFullExit (order_size inp) p price \<longleftrightarrow> v \<le> t"
    using reduce target v bound tpos t(3) by (auto simp: shouldSnapToFullExit_def)
  have le: "jle q (Fin Q)"
  proof (cases "v \<le> t")
    case True
    then have ov: "fi_quantityOverride ?in = Some (Fin Q)" using snap bound(1) by simp
    have "fill_requested ?in (input_policy ?in) = num v"
      using ov v bound(2) by (simp add: fill_requested_def)
    from fillable_le_requested [OF ls this v0(1)] obtain a where
      a: "ld_fillableNotionalKrw ?liq = Fin a" "0 \<le> a" "a \<le> of_int v" by blast
    have "jdiv (Fin a) (num pr) \<noteq> NaN" using pr by simp
    then have "jle (jmin (Fin Q) (jdiv (Fin a) (num pr))) (Fin Q)" using jmin_le by blast
    then show ?thesis
      using ov a bound(2) by (simp add: q_def input_quantity_def fill_quantity_def Let_def)
  next
    case False
    then have ov: "fi_quantityOverride ?in = None" using snap by simp
    have t53: "t \<le> 2 ^ 53" using t(3) v0(2) by linarith
    have tt: "fi_targetNotionalKrw ?in = num t" using target by simp
    obtain r where r: "fill_requested ?in (input_policy ?in) = num r" "0 \<le> r" "r \<le> t"
      by (rule requested_le_target [OF frac ov tt t(2) t53])
    from fillable_le_requested [OF ls r(1,2)] obtain a where
      a: "ld_fillableNotionalKrw ?liq = Fin a" "0 \<le> a" "a \<le> of_int r" by blast
    have "(of_int r :: rat) \<le> of_int (v - 1)" using r False by (simp only: of_int_le_iff)
    then have "a \<le> of_int v - 1" using a by simp
    from quantity_below_position [OF Q pr(1) bound(3) v this a(2)]
    have "jle (jdiv (Fin a) (num pr)) (Fin Q)" .
    then show ?thesis
      using ov a bound(2) sell
      by (simp add: q_def input_quantity_def fill_quantity_def Let_def jfloor_le)
  qed
  then show "jle q (pos_quantity p)" using bound(1) by simp
  show "jlt (Fin 0) q" using le qn by (cases q) auto
qed

text \<open>The proceeds of a sale: a whole amount, not negative.\<close>

lemma sell_net_amount:
  assumes ok: "execution_policy_ok (input_policy inp)" and sell: "fi_action inp = VIRTUAL_SELL"
    and st: "fl_fillStatus (buildPaperFill inp) \<noteq> Rejected"
    and vol: "opt_all share_count (fi_volume inp)" "opt_all share_count (fi_averageVolume inp)"
    and q: "capped 53 (input_quantity inp)"
    and price: "fi_sourcePriceKrw inp = num p" "0 \<le> p" "p \<le> 9007199254740991"
  obtains n where "fl_netAmountKrw (buildPaperFill inp) = num n" "0 \<le> n"
    "\<And>g. fl_grossAmountKrw (buildPaperFill inp) = num g \<Longrightarrow> g \<le> 2 ^ 53 \<Longrightarrow> n \<le> g"
proof -
  let ?f = "buildPaperFill inp"
  have "capped 53 (input_fill_price inp)"
    unfolding input_fill_price_def sell price(1)
    using ok price by (intro sell_fill_price) (auto simp: execution_policy_ok_def)
  then have fp: "capped 107 (input_fill_price inp)" by (rule capped_mono) simp
  note c = fill_costs_capped [OF ok vol st q fp]
  have g: "capped 270 (fl_grossAmountKrw ?f)" using c(1) by (rule capped_mono) simp
  have "int_amount (explicit_cost ?f)"
    unfolding explicit_cost_def using filled_amounts [OF ok st] by (intro not_neg_intros) auto
  with c(2) obtain e where e: "explicit_cost ?f = num e" "0 \<le> e"
    by (auto simp: int_amount_def is_integer_iff elim!: cappedE)
  from g filled_amounts(1) [OF ok st] obtain gr where gr: "fl_grossAmountKrw ?f = num gr" "0 \<le> gr"
    by (auto simp: int_amount_def is_integer_iff elim!: cappedE)
  have "is_finite (jsub (num gr) (num e))" using jsub_finite [OF g c(2)] e gr by simp
  moreover have d: "jsub (num gr) (num e) = jadd (num gr) (num (- e))" by (simp add: jsub_def)
  ultimately have "is_integer (jsub (num gr) (num e))" using jadd_int [of "num gr" "num (- e)"] by simp
  then obtain k where k: "jsub (num gr) (num e) = num k" by (auto simp: is_integer_iff)
  have net: "fl_netAmountKrw ?f = jmax (Fin 0) (num k)"
    using filled_net_sell [OF sell st] e gr k by (simp add: explicit_cost_def)
  have "k \<le> gr" if "gr \<le> 2 ^ 53"
  proof -
    have "jle (mk (of_int gr - of_int e)) (mk (of_int gr))" using e by (intro mk_mono) simp
    then have "jle (num k) (num gr)" using k mk_of_int [of gr] gr that by (simp add: jsub_def)
    then show ?thesis by simp
  qed
  then show thesis
    using that [of "max k 0"] net gr by (auto simp: jmax_def max_def)
qed

section \<open>Quantities and keys\<close>

text \<open>The quantity of a fill is a binary64 value.\<close>

lemma capped_jfloor_binary64: "capped 53 x \<Longrightarrow> binary64 (jfloor x)"
proof (elim cappedE)
  fix a assume a: "x = Fin a" "0 \<le> a" "a \<le> 2 ^ 53"
  then have "\<lfloor>a\<rfloor> \<le> \<lfloor>of_int (2 ^ 53) :: rat\<rfloor>" by (intro floor_mono) simp
  then have "\<lfloor>a\<rfloor> \<le> 2 ^ 53" by (simp only: floor_of_int)
  then show ?thesis using a binary64_int [of "\<lfloor>a\<rfloor>"] by simp
qed

lemma binary64_jdiv [simp]: "binary64 (jdiv x y)"
  by (cases x; cases y) (auto simp: inf_of_sign_def)

lemma binary64_jmin: "binary64 x \<Longrightarrow> binary64 y \<Longrightarrow> binary64 (jmin x y)"
  by (simp add: jmin_def)

lemma nonneg_number_iff: "nonneg_number x \<longleftrightarrow> binary64 x \<and> is_finite x \<and> jle (Fin 0) x"
  by (auto simp: nonneg_number_def)

lemma nonneg_number_add:
  assumes "nonneg_number x" and "capped 53 y"
  shows "nonneg_number (jadd x y)"
proof -
  obtain a where a: "x = Fin a" "0 \<le> a" "a \<le> max_finite" using assms(1) by (auto elim: nonneg_numberE)
  obtain b where b: "y = Fin b" "0 \<le> b" "b \<le> 2 ^ 53" using assms(2) by (rule cappedE)
  have "b < (2::rat) ^ 970"
  proof -
    have "(2::rat) ^ 53 < 2 ^ 970" by (rule power_strict_increasing) auto
    then show ?thesis using b by linarith
  qed
  then have "a + b < max_finite + 2 ^ 970" using a by linarith
  then have r: "rnd (a + b) \<le> max_finite" using a b by (intro rnd_no_overflow) auto
  moreover have "0 \<le> rnd (a + b)" using a b by (intro rnd_nonneg) simp
  ultimately have "mk (a + b) = Fin (rnd (a + b))"
    using max_finite_nonneg by (auto simp: mk_def Let_def not_less intro: order_trans)
  then show ?thesis
    using a b r \<open>0 \<le> rnd (a + b)\<close> binary64_mk [of "a + b"] by (simp add: nonneg_number_iff)
qed

lemma nonneg_number_sub:
  assumes "nonneg_number x" and "jle y x" and "jlt (Fin 0) y"
  shows "nonneg_number (jsub x y)" and "jle (jsub x y) x"
proof -
  obtain a where a: "x = Fin a" "0 \<le> a" "representable a" "a \<le> max_finite"
    using assms(1) by (rule nonneg_numberE)
  obtain b where b: "y = Fin b" "0 < b" "b \<le> a" using assms a by (cases y) auto
  have "\<bar>a - b\<bar> \<le> max_finite" using a b by linarith
  then have m: "mk (a - b) = Fin (rnd (a - b))" by (rule mk_bounded)
  have r: "0 \<le> rnd (a - b)" "rnd (a - b) \<le> a"
    using a b by (auto intro: rnd_nonneg rnd_le_representable)
  show "nonneg_number (jsub x y)"
    using a b m r binary64_mk [of "a - b"] by (simp add: jsub_def nonneg_number_iff)
  show "jle (jsub x y) x" using a b m r by (simp add: jsub_def)
qed

text \<open>Looking a position up by its key.\<close>

lemma find_position_same_key: "find_position pf d = find (same_key d) (pf_positions pf)"
proof -
  have "same_key d = (\<lambda>p. pos_market p = dec_market d \<and> pos_symbol p = dec_symbol d)"
    by (simp add: same_key_def fun_eq_iff)
  then show ?thesis by (simp add: find_position_def)
qed

lemma same_key_iff: "same_key d p \<longleftrightarrow> pos_key p = dec_key d"
  by (auto simp: same_key_def pos_key_def dec_key_def)

definition keys :: "VirtualPortfolio \<Rightarrow> (Market \<times> string) list" where
  "keys pf = map pos_key (pf_positions pf)"

text \<open>What the decision is not about.\<close>

definition others :: "VirtualDecisionItem \<Rightarrow> VirtualPortfolio \<Rightarrow> VirtualPosition list" where
  "others d pf = drop_positions d (pf_positions pf)"

lemma buy_more_key [simp]: "pos_key (buy_more c price fill ts p) = pos_key p"
  by (simp add: buy_more_def Let_def syncPositionMetadata_def pos_key_def)

lemma sell_some_key [simp]: "pos_key (sell_some price fill ts p) = pos_key p"
  by (simp add: sell_some_def Let_def pos_key_def)

lemma new_position_key [simp]: "pos_key (new_position d c price fill ts) = dec_key d"
  by (simp add: new_position_def pos_key_def dec_key_def)

lemma same_key_updates [simp]:
  "same_key d (buy_more c price fill ts p) = same_key d p"
  "same_key d (sell_some price fill ts p) = same_key d p"
  "same_key d (new_position d c price fill ts)"
  by (simp_all add: same_key_iff)

lemma find_None_key: "find_position pf d = None \<Longrightarrow> dec_key d \<notin> set (keys pf)"
  by (auto simp: find_position_same_key find_None_iff same_key_iff keys_def)

text \<open>A purchase and a sale keep the keys distinct and the other positions as they are.\<close>

lemma apply_buy_keys:
  "keys (apply_buy inp c price fill ts) =
     keys (oi_portfolio inp) @
       (if find_position (oi_portfolio inp) (oi_decision inp) = None
        then [dec_key (oi_decision inp)] else [])"
  by (auto simp: apply_buy_def Let_def keys_def update_first_map split: option.split)

lemma apply_buy_distinct [preserved]:
  "distinct (keys (oi_portfolio inp)) \<Longrightarrow> distinct (keys (apply_buy inp c price fill ts))"
  by (auto simp: apply_buy_keys dest: find_None_key)

lemma apply_sell_keys:
  "set (keys (apply_sell inp price fill ts p)) \<subseteq> set (keys (oi_portfolio inp))"
  by (auto simp: apply_sell_def Let_def keys_def drop_positions_def dest: set_update_first [THEN subsetD])

lemma distinct_map_filter_key: "distinct (map f xs) \<Longrightarrow> distinct (map f (filter P xs))"
  by (induction xs) auto

lemma apply_sell_distinct [preserved]:
  "distinct (keys (oi_portfolio inp)) \<Longrightarrow> distinct (keys (apply_sell inp price fill ts p))"
  by (auto simp: apply_sell_def Let_def keys_def drop_positions_def update_first_map
    intro!: distinct_map_filter_key)

lemma apply_buy_others [preserved]:
  "others (oi_decision inp) (apply_buy inp c price fill ts) =
     others (oi_decision inp) (oi_portfolio inp)"
  by (auto simp: others_def drop_positions_def apply_buy_def Let_def update_first_filter_out
    split: option.split)

lemma apply_sell_others [preserved]:
  "others (oi_decision inp) (apply_sell inp price fill ts p) =
     others (oi_decision inp) (oi_portfolio inp)"
  by (simp add: others_def drop_positions_def apply_sell_def Let_def update_first_filter_out)

section \<open>The account after an execution\<close>

text \<open>
  The sizes at which a sale is exact: the net worth is finite, and the position to sell is
  worth at most \<open>2 ^ 53\<close>.
\<close>

definition position_sized :: "VirtualPosition \<Rightarrow> jsnum \<Rightarrow> bool" where
  "position_sized p price =
     (case (pos_quantity p, price) of (Fin q, Fin r) \<Rightarrow> q * r \<le> 2 ^ 53 | _ \<Rightarrow> False)"

definition sale_sized :: "PaperOrderInput \<Rightarrow> bool" where
  "sale_sized inp =
     (is_finite (virtualNetWorthKrw (oi_portfolio inp)) \<and>
      (case (find_position (oi_portfolio inp) (oi_decision inp),
             Option.bind (findCandidate (oi_packet inp) (oi_decision inp)) cand_lastPriceKrw) of
         (Some p, Some price) \<Rightarrow> position_sized p price
       | _ \<Rightarrow> True))"

lemma sale_paid:
  assumes ok: "order_ok inp" and po: "priced_order env inp rd c price"
    and sell: "dec_action (oi_decision inp) = VIRTUAL_SELL"
    and pos: "find_position (oi_portfolio inp) (oi_decision inp) = Some p"
    and sized: "sale_sized inp"
    and open_order: "\<not> (jle (no_targetNotionalKrw (order_size inp)) (Fin 0) \<and>
          isSellAllDustClose (oi_decision inp) p (Some price))"
    and st: "fl_fillStatus (sell_fill env inp rd c price p) \<noteq> Rejected"
  obtains k n where "pf_cashKrw (oi_portfolio inp) = num k" "0 \<le> k"
    "fl_netAmountKrw (sell_fill env inp rd c price p) = num n" "0 \<le> n"
    "jle (fl_quantity (sell_fill env inp rd c price p)) (pos_quantity p)"
    "jlt (Fin 0) (fl_quantity (sell_fill env inp rd c price p))"
proof -
  let ?in = "sell_fill_input env inp rd c price (order_size inp) p"
  have c: "findCandidate (oi_packet inp) (oi_decision inp) = Some c" "cand_lastPriceKrw c = Some price"
    "truthy_num price" using po by (simp_all add: priced_order_def)
  note cand = candidate_of_packet [OF order_okD(1) [OF ok] c]
  obtain pr where pr: "price = num pr" "0 < pr" "pr \<le> 9007199254740991" using cand(4) by blast
  have "nonneg_number (pos_quantity p)"
    using pos order_okD(5) [OF ok] by (blast dest: find_position_SomeD)
  then obtain Q where Q: "pos_quantity p = Fin Q" "0 \<le> Q" by (auto elim: nonneg_numberE)
  have sz: "is_finite (virtualNetWorthKrw (oi_portfolio inp))" "Q * of_int pr \<le> 2 ^ 53"
    using sized pos c pr(1) Q(1) by (auto simp: sale_sized_def position_sized_def)
  note q = sale_quantity [OF ok po sell pos sz(1) Q(1) pr(1) sz(2) open_order st]
  have "Q * 1 \<le> Q * of_int pr" using Q pr by (intro mult_left_mono) auto
  then have "Q \<le> 2 ^ 53" using sz by linarith
  then have q53: "capped 53 (input_quantity ?in)"
    using q Q by (cases "input_quantity ?in") (auto intro: order_trans)
  obtain n where n: "fl_netAmountKrw (buildPaperFill ?in) = num n" "0 \<le> n"
    by (rule sell_net_amount [of ?in pr])
      (use order_okD(4) [OF ok] st cand q53 pr in \<open>auto simp: sell_fill_def\<close>)
  obtain k where k: "pf_cashKrw (oi_portfolio inp) = num k" "0 \<le> k"
    using order_okD(2) [OF ok] by (rule moneyE)
  have fq: "fl_quantity (sell_fill env inp rd c price p) = input_quantity ?in"
    using filled_status [OF st [unfolded sell_fill_def]] by (simp add: sell_fill_def filled_simps)
  show thesis by (rule that [of k n]) (use k n q fq in \<open>simp_all add: sell_fill_def\<close>)
qed

lemma purchase_quantity:
  assumes "order_ok inp" and "priced_order env inp rd c price"
    and "dec_action (oi_decision inp) = VIRTUAL_BUY"
    and st: "fl_fillStatus (buy_fill env inp rd c price) \<noteq> Rejected"
    and "rejectInsufficientBuyFunding env inp rd (buy_fill env inp rd c price) = Inr None"
  shows "nonneg_number (fl_quantity (buy_fill env inp rd c price))"
    and "jlt (Fin 0) (fl_quantity (buy_fill env inp rd c price))"
    and "capped 53 (fl_quantity (buy_fill env inp rd c price))"
proof -
  let ?in = "buy_fill_input env inp rd c price (order_size inp)"
  have c53: "capped 53 (input_quantity ?in)" by (rule purchase_paid [OF assms])
  have fq: "fl_quantity (buy_fill env inp rd c price) = input_quantity ?in"
    and np: "\<not> jle (input_quantity ?in) (Fin 0)"
    using filled_status [OF st [unfolded buy_fill_def]] by (simp_all add: buy_fill_def filled_simps)
  have "binary64 (input_quantity ?in)"
  proof -
    let ?x = "jdiv (ld_fillableNotionalKrw (input_liquidity ?in)) (input_fill_price ?in)"
    have "input_quantity ?in = ?x \<or> input_quantity ?in = jfloor ?x"
      by (simp add: input_quantity_def fill_quantity_def Let_def)
    then show ?thesis
    proof
      assume f: "input_quantity ?in = jfloor ?x"
      with c53 obtain n where n: "input_quantity ?in = num n"
        by (cases ?x) (auto simp: capped_def)
      with c53 have "(of_int n :: rat) \<le> of_int (2 ^ 53)" "0 \<le> n" by simp_all
      then have "n \<le> 2 ^ 53" "0 \<le> n" by (simp_all only: of_int_le_iff)
      then show ?thesis unfolding n by (intro binary64_int) simp
    next
      assume "input_quantity ?in = ?x"
      then show ?thesis by (metis binary64_jdiv)
    qed
  qed
  with fq c53 np show "nonneg_number (fl_quantity (buy_fill env inp rd c price))"
    and "jlt (Fin 0) (fl_quantity (buy_fill env inp rd c price))"
    and "capped 53 (fl_quantity (buy_fill env inp rd c price))"
    by (auto simp: nonneg_number_iff elim!: cappedE)
qed

text \<open>A purchase and a sale keep the account well-formed.\<close>

lemma quantities_update_first:
  assumes "\<forall>p \<in> set ps. nonneg_number (pos_quantity p)"
    and "\<And>p. find P ps = Some p \<Longrightarrow> nonneg_number (pos_quantity (f p))"
  shows "\<forall>p \<in> set (update_first P f ps). nonneg_number (pos_quantity p)"
  using assms by (rule update_first_all)

lemma apply_buy_holdings [preserved]:
  assumes "order_ok inp" and "priced_order env inp rd c price"
    and "dec_action (oi_decision inp) = VIRTUAL_BUY"
    and "fl_fillStatus (buy_fill env inp rd c price) \<noteq> Rejected"
    and "rejectInsufficientBuyFunding env inp rd (buy_fill env inp rd c price) = Inr None"
  shows "holdings_ok (apply_buy inp c price (buy_fill env inp rd c price) ts)"
proof -
  let ?fill = "buy_fill env inp rd c price" and ?pf = "oi_portfolio inp" and ?d = "oi_decision inp"
  note q = purchase_quantity [OF assms]
  obtain k n where m: "jsub (pf_cashKrw ?pf) (fl_netAmountKrw ?fill) = num (k - n)" "0 \<le> n" "n \<le> k"
    "k \<le> 9007199254740991" by (rule purchase_paid [OF assms])
  then have "money (num (k - n))" by (intro moneyI) auto
  then have cash: "money (jsub (pf_cashKrw ?pf) (fl_netAmountKrw ?fill))" by (simp add: m)
  have old: "\<forall>p \<in> set (pf_positions ?pf). nonneg_number (pos_quantity p)"
    using order_okD(5) [OF assms(1)] by blast
  have more: "nonneg_number (pos_quantity (buy_more c price ?fill ts p))"
    if "find (same_key ?d) (pf_positions ?pf) = Some p" for p
    using that old q(3) find_set [OF that]
    by (simp add: buy_more_def Let_def syncPositionMetadata_def nonneg_number_add)
  have "\<forall>p \<in> set (pf_positions (apply_buy inp c price ?fill ts)). nonneg_number (pos_quantity p)"
  proof (cases "find_position ?pf ?d")
    case None
    then show ?thesis using old q(1) by (simp add: apply_buy_def Let_def new_position_def)
  next
    case (Some p)
    then show ?thesis
      using quantities_update_first [OF old more] by (simp add: apply_buy_def Let_def)
  qed
  with cash show ?thesis by (simp add: holdings_ok_def list_all_iff) (simp add: apply_buy_def Let_def)
qed

lemma apply_sell_holdings [preserved]:
  assumes hyps: "order_ok inp" "priced_order env inp rd c price"
    "dec_action (oi_decision inp) = VIRTUAL_SELL"
    "find_position (oi_portfolio inp) (oi_decision inp) = Some p" "sale_sized inp"
    "\<not> (jle (no_targetNotionalKrw (order_size inp)) (Fin 0) \<and>
        isSellAllDustClose (oi_decision inp) p (Some price))"
    "fl_fillStatus (sell_fill env inp rd c price p) \<noteq> Rejected"
    and max: "jle (jadd (pf_cashKrw (oi_portfolio inp))
        (fl_netAmountKrw (sell_fill env inp rd c price p))) MAX_SAFE_INTEGER"
  shows "holdings_ok (apply_sell inp price (sell_fill env inp rd c price p) ts p)"
proof -
  let ?fill = "sell_fill env inp rd c price p" and ?pf = "oi_portfolio inp" and ?d = "oi_decision inp"
  obtain k n where m: "pf_cashKrw ?pf = num k" "0 \<le> k" "fl_netAmountKrw ?fill = num n" "0 \<le> n"
    "jle (fl_quantity ?fill) (pos_quantity p)" "jlt (Fin 0) (fl_quantity ?fill)"
    by (rule sale_paid [OF hyps])
  have cash: "money (jadd (pf_cashKrw ?pf) (fl_netAmountKrw ?fill))"
    using jadd_exact [of k n] max m moneyI [of "k + n"] by (simp add: MAX_SAFE_INTEGER_def)
  have old: "\<forall>p \<in> set (pf_positions ?pf). nonneg_number (pos_quantity p)"
    using order_okD(5) [OF hyps(1)] by blast
  have some: "nonneg_number (pos_quantity (sell_some price ?fill ts p'))"
    if "find (same_key ?d) (pf_positions ?pf) = Some p'" for p'
  proof -
    from that hyps(4) have "p' = p" by (simp add: find_position_same_key)
    with old find_set [OF that] m show ?thesis
      by (simp add: sell_some_def Let_def nonneg_number_sub)
  qed
  have "\<forall>p \<in> set (pf_positions (apply_sell inp price ?fill ts p)). nonneg_number (pos_quantity p)"
    using quantities_update_first [OF old some] by (simp add: apply_sell_def Let_def drop_positions_def)
  with cash show ?thesis by (simp add: holdings_ok_def list_all_iff) (simp add: apply_sell_def Let_def)
qed

end
