(* ===== verification/PaperReplay.thy ===== *)
theory PaperReplay
  imports PaperAccounting
begin

text \<open>
  The replay of recorded decisions (\<open>src/replay/paperReplay.ts\<close>): the order engine is run over the
  decisions of a packet, the portfolio of each result being the input of the next.  The loop
  is a booking machine: its cash changes by exactly the net amounts of the trades it lists.
\<close>

section \<open>The replay\<close>

record PaperReplayInput =
  ri_packet :: MarketPacket
  ri_decision :: VirtualDecision
  ri_initialPortfolio :: "VirtualPortfolio option"
  ri_now :: "jsnum option"
  ri_promptVersion :: "string option"

datatype ReplayFailure = PacketMismatch | StalePacket

record PaperReplayResult =
  rr_packetId :: string
  rr_promptVersion :: string
  rr_replayedAt :: string
  rr_failureReason :: "ReplayFailure option"
  rr_decisionItemCount :: nat
  rr_tradeCount :: nat
  rr_rejectedCount :: nat
  rr_riskDecisions :: "VirtualRiskDecision list"
  rr_trades :: "VirtualTrade list"
  rr_initialPortfolio :: "VirtualPortfolio option"
  rr_finalPortfolio :: "VirtualPortfolio option"

text \<open>The variables of the loop.\<close>

record ReplayState =
  rs_portfolio :: VirtualPortfolio
  rs_riskDecisions :: "VirtualRiskDecision list"
  rs_trades :: "VirtualTrade list"

definition replay_order ::
  "MarketPacket \<Rightarrow> jsnum \<Rightarrow> VirtualPortfolio \<Rightarrow> VirtualDecisionItem \<Rightarrow> PaperOrderInput" where
  "replay_order pkt now pf d =
     \<lparr>oi_packet = pkt, oi_portfolio = pf, oi_decision = d,
      oi_riskPolicy = no_risk_policy\<lparr>ro_now := Some now\<rparr>,
      oi_executionPolicy = no_execution_policy\<rparr>"

definition replay_step ::
  "js_env \<Rightarrow> MarketPacket \<Rightarrow> jsnum \<Rightarrow> ReplayState \<Rightarrow> VirtualDecisionItem \<Rightarrow> ReplayState result" where
  "replay_step env pkt now s d =
     bind_result (execute env (replay_order pkt now (rs_portfolio s) d)) (\<lambda>r.
       Inr \<lparr>rs_portfolio = or_portfolio r,
            rs_riskDecisions = rs_riskDecisions s @ [or_riskDecision r],
            rs_trades = rs_trades s @ opt_list (or_trade r)\<rparr>)"

definition failedReplay :: "string \<Rightarrow> string \<Rightarrow> string \<Rightarrow> ReplayFailure \<Rightarrow> PaperReplayResult" where
  "failedReplay packetId promptVersion replayedAt reason =
     \<lparr>rr_packetId = packetId, rr_promptVersion = promptVersion, rr_replayedAt = replayedAt,
      rr_failureReason = Some reason, rr_decisionItemCount = 0, rr_tradeCount = 0,
      rr_rejectedCount = 0, rr_riskDecisions = [], rr_trades = [],
      rr_initialPortfolio = None, rr_finalPortfolio = None\<rparr>"

definition replay_now :: "js_env \<Rightarrow> PaperReplayInput \<Rightarrow> jsnum" where
  "replay_now env inp = or_else (ri_now inp) (clock env)"

definition replay_start :: "PaperReplayInput \<Rightarrow> VirtualPortfolio" where
  "replay_start inp = or_else (ri_initialPortfolio inp) (pkt_virtualPortfolio (ri_packet inp))"

definition start_state :: "VirtualPortfolio \<Rightarrow> ReplayState" where
  "start_state pf = \<lparr>rs_portfolio = pf, rs_riskDecisions = [], rs_trades = []\<rparr>"

definition PAPER_DECISION_PROMPT_VERSION :: string where
  "PAPER_DECISION_PROMPT_VERSION = ''paper-v15''"

definition replayPaperDecisions ::
  "js_env \<Rightarrow> PaperReplayInput \<Rightarrow> PaperReplayResult result" where
  "replayPaperDecisions env inp =
     (let now = replay_now env inp;
          promptVersion = or_else (ri_promptVersion inp) PAPER_DECISION_PROMPT_VERSION;
          pkt = ri_packet inp
      in bind_result (to_iso now) (\<lambda>replayedAt.
           if vd_packetId (ri_decision inp) \<noteq> pkt_packetId pkt
           then Inr (failedReplay (pkt_packetId pkt) promptVersion replayedAt PacketMismatch)
           else if \<not> isFresh env (pkt_expiresAt pkt) now
           then Inr (failedReplay (pkt_packetId pkt) promptVersion replayedAt StalePacket)
           else bind_result (fold_result (replay_step env pkt now) (start_state (replay_start inp))
                  (vd_decisions (ri_decision inp))) (\<lambda>s.
             Inr \<lparr>rr_packetId = pkt_packetId pkt, rr_promptVersion = promptVersion,
                  rr_replayedAt = replayedAt, rr_failureReason = None,
                  rr_decisionItemCount = length (vd_decisions (ri_decision inp)),
                  rr_tradeCount = length (rs_trades s),
                  rr_rejectedCount = length (filter (\<lambda>rd. \<not> rd_approved rd) (rs_riskDecisions s)),
                  rr_riskDecisions = rs_riskDecisions s, rr_trades = rs_trades s,
                  rr_initialPortfolio = Some (replay_start inp),
                  rr_finalPortfolio = Some (rs_portfolio s)\<rparr>)))"

section \<open>The books\<close>

text \<open>What a trade adds to the cash, and the cash as a whole amount.\<close>

definition amount_of :: "jsnum \<Rightarrow> int" where
  "amount_of x = (case x of Fin a \<Rightarrow> \<lfloor>a\<rfloor> | _ \<Rightarrow> 0)"

definition cash_effect :: "VirtualTrade \<Rightarrow> int" where
  "cash_effect t =
     (if tr_action t = VIRTUAL_BUY then - amount_of (tr_netAmountKrw t)
      else amount_of (tr_netAmountKrw t))"

lemma amount_of_num [simp]: "amount_of (num n) = n"
  by (simp add: amount_of_def)

definition sound_books :: "ReplayState \<Rightarrow> bool" where
  "sound_books s \<longleftrightarrow> holdings_ok (rs_portfolio s) \<and> distinct (keys (rs_portfolio s))"

text \<open>
  The sizes a step needs: the schemas of its input, the bound on the position it sells, and
  cash that stays a safe integer.
\<close>

definition replay_guard ::
  "js_env \<Rightarrow> MarketPacket \<Rightarrow> jsnum \<Rightarrow> ReplayState \<Rightarrow> VirtualDecisionItem \<Rightarrow> bool" where
  "replay_guard env pkt now s d =
     (packet_ok pkt \<and> decision_ok d \<and> sale_sized (replay_order pkt now (rs_portfolio s) d) \<and>
      (case replay_step env pkt now s d of Inl _ \<Rightarrow> True
       | Inr s' \<Rightarrow> jle (pf_cashKrw (rs_portfolio s')) MAX_SAFE_INTEGER))"

lemma no_policy_ok: "execution_policy_ok (createPaperExecutionPolicy no_execution_policy)"
  using max_finite_ge
  by (simp add: execution_policy_ok_def createPaperExecutionPolicy_def no_execution_policy_def
    rate_ok_def nonneg_number_def ratio_number_def normalizeNonnegativeNumber_def
    MAX_SAFE_INTEGER_def)

lemma trade_of_fill [simp]:
  "tr_action (buildTrade inp rd a fill refs b) = a"
  "tr_netAmountKrw (buildTrade inp rd a fill refs b) = fl_netAmountKrw fill"
  "tr_quantity (buildTrade inp rd a fill refs b) = fl_quantity fill"
  "tr_decisionId (buildTrade inp rd a fill refs b) = rd_riskDecisionId rd"
  "tr_fillStatus (buildTrade inp rd a fill refs b) = fl_fillStatus fill"
  by (simp_all add: buildTrade_def)

text \<open>One execution: the account stays well-formed, and the cash changes by the trade.\<close>

lemma execute_books:
  assumes ok: "order_ok inp" and sized: "sale_sized inp" and dist: "distinct (keys (oi_portfolio inp))"
    and ex: "execute env inp = Inr r"
    and max: "jle (pf_cashKrw (or_portfolio r)) MAX_SAFE_INTEGER"
  shows "holdings_ok (or_portfolio r)" and "distinct (keys (or_portfolio r))"
    and "amount_of (pf_cashKrw (or_portfolio r)) - amount_of (pf_cashKrw (oi_portfolio inp)) =
      sum_list (map cash_effect (opt_list (or_trade r)))"
proof -
  have hold: "holdings_ok (oi_portfolio inp)" using ok by (simp add: order_ok_def)
  have "holdings_ok (or_portfolio r) \<and> distinct (keys (or_portfolio r)) \<and>
      amount_of (pf_cashKrw (or_portfolio r)) - amount_of (pf_cashKrw (oi_portfolio inp)) =
      sum_list (map cash_effect (opt_list (or_trade r)))"
    using ex
  proof (cases rule: execute_InrD)
    case (Rejection rd)
    with hold dist show ?thesis by (simp add: opt_list_def)
  next
    case (Buying rd c price)
    from Buying(3) show ?thesis
    proof (cases rule: executeBuy_cases)
      case (Rejection rd')
      with hold dist show ?thesis by (simp add: opt_list_def)
    next
      case Purchase
      note hyps = ok Buying(1,2) Purchase(1,2)
      obtain k n where m: "pf_cashKrw (oi_portfolio inp) = num k"
        "fl_netAmountKrw (buy_fill env inp rd c price) = num n"
        "jsub (pf_cashKrw (oi_portfolio inp)) (fl_netAmountKrw (buy_fill env inp rd c price)) = num (k - n)"
        by (rule purchase_paid [OF hyps])
      have "pf_cashKrw (or_portfolio r) = num (k - n)"
        using m Purchase(3) by (simp add: apply_buy_def Let_def)
      with Purchase m apply_buy_holdings [OF hyps] apply_buy_distinct [OF dist] show ?thesis
        by (auto simp: opt_list_def cash_effect_def simp del: of_int_diff)
    qed
  next
    case (Selling rd c price)
    show ?thesis
    proof (cases rule: executeSell_cases [where env = env and inp = inp and rd = rd and c = c and price = price])
      case (Rejection rd')
      with Selling(3) hold dist show ?thesis by (simp add: opt_list_def)
    next
      case (DustClose p)
      with Selling(3) hold dist show ?thesis
        by (auto simp: opt_list_def holdings_ok_def keys_def drop_positions_def list_all_iff
          intro: distinct_map_filter_key)
    next
      case (Sale p)
      note hyps = ok Selling(1,2) Sale(1) sized Sale(2,3)
      obtain k n where m: "pf_cashKrw (oi_portfolio inp) = num k" "0 \<le> k"
        "fl_netAmountKrw (sell_fill env inp rd c price p) = num n" "0 \<le> n"
        by (rule sale_paid [OF hyps])
      have cash: "pf_cashKrw (or_portfolio r) = jadd (num k) (num n)"
        using m Sale(4) Selling(3) by (simp add: apply_sell_def Let_def)
      have le: "jle (jadd (num k) (num n)) (Fin 9007199254740991)"
        using max cash by (simp add: MAX_SAFE_INTEGER_def)
      have sum: "pf_cashKrw (or_portfolio r) = num (k + n)" using jadd_exact [OF m(2,4) le] cash by simp
      have "holdings_ok (apply_sell inp price (sell_fill env inp rd c price p) (rd_createdAt rd) p)"
        using le m by (intro apply_sell_holdings [OF hyps]) (simp add: MAX_SAFE_INTEGER_def)
      with Selling(3) Sale m sum apply_sell_distinct [OF dist] show ?thesis
        by (auto simp: opt_list_def cash_effect_def simp del: of_int_add)
    qed
  qed
  then show "holdings_ok (or_portfolio r)" and "distinct (keys (or_portfolio r))"
    and "amount_of (pf_cashKrw (or_portfolio r)) - amount_of (pf_cashKrw (oi_portfolio inp)) =
      sum_list (map cash_effect (opt_list (or_trade r)))" by auto
qed

lemma replay_step_InrD:
  assumes "replay_step env pkt now s d = Inr s'"
  obtains r where "execute env (replay_order pkt now (rs_portfolio s) d) = Inr r"
    "rs_portfolio s' = or_portfolio r" "rs_riskDecisions s' = rs_riskDecisions s @ [or_riskDecision r]"
    "rs_trades s' = rs_trades s @ opt_list (or_trade r)"
  using assms by (auto simp: replay_step_def bind_result_Inr)

lemma replay_step_books:
  assumes "sound_books s" and "replay_guard env pkt now s d" and st: "replay_step env pkt now s d = Inr s'"
  shows "sound_books s'" and "amount_of (pf_cashKrw (rs_portfolio s')) - amount_of (pf_cashKrw (rs_portfolio s)) =
    sum_list (map cash_effect (rs_trades s')) - sum_list (map cash_effect (rs_trades s))"
proof -
  obtain r where r: "execute env (replay_order pkt now (rs_portfolio s) d) = Inr r"
    "rs_portfolio s' = or_portfolio r" "rs_trades s' = rs_trades s @ opt_list (or_trade r)"
    using st by (rule replay_step_InrD)
  have ok: "order_ok (replay_order pkt now (rs_portfolio s) d)"
    and sz: "sale_sized (replay_order pkt now (rs_portfolio s) d)"
    and dist: "distinct (keys (oi_portfolio (replay_order pkt now (rs_portfolio s) d)))"
    and max: "jle (pf_cashKrw (or_portfolio r)) MAX_SAFE_INTEGER"
    using assms r(2) no_policy_ok
    by (auto simp: order_ok_def replay_order_def replay_guard_def sound_books_def)
  note books = execute_books [OF ok sz dist r(1) max]
  from books(1,2) r(2) show "sound_books s'" by (simp add: sound_books_def)
  from books(3) r show "amount_of (pf_cashKrw (rs_portfolio s')) - amount_of (pf_cashKrw (rs_portfolio s)) =
    sum_list (map cash_effect (rs_trades s')) - sum_list (map cash_effect (rs_trades s))"
    by (simp add: replay_order_def)
qed

interpretation replay: booking_machine "replay_step env pkt now" "replay_guard env pkt now" sound_books
  "\<lambda>s. amount_of (pf_cashKrw (rs_portfolio s))" "\<lambda>s. sum_list (map cash_effect (rs_trades s))"
  for env pkt now
  by unfold_locales (blast intro: replay_step_books)+

end
