(* ===== verification/PaperSamples.thy ===== *)
theory PaperSamples
  imports PaperOrder
begin

text \<open>
  Concrete inputs on which the witnesses of the paper engine evaluate: a packet with one
  priced candidate, a portfolio with one position in it, a buy and a sell.
\<close>

section \<open>Small numbers\<close>

lemma representable_numeral_small:
  "numeral w \<le> (2 ^ 53 :: int) \<Longrightarrow> representable (numeral w)"
  using representable_of_int [of "numeral w"] by simp

lemma numeral_max_finite: "numeral w \<le> (2 ^ 53 :: rat) \<Longrightarrow> numeral w \<le> max_finite"
  using max_finite_ge by (rule order_trans [rotated])

lemma one_max_finite: "1 \<le> max_finite"
  using max_finite_ge by simp

section \<open>The inputs\<close>

definition sample_env :: js_env where
  "sample_env = \<lparr>legacy_parse = \<lambda>_. NaN, clock = num 1767225600000, sha256 = \<lambda>s. s,
     number_text = \<lambda>_. []\<rparr>"

definition sample_candidate :: MarketCandidate where
  "sample_candidate =
     \<lparr>cand_market = KR, cand_symbol = ''A'', cand_name = None, cand_assetType = Some STOCK,
      cand_assetClass = Some Equity, cand_region = Some RegionKR, cand_riskTags = None,
      cand_strategyBucket = Some Swing, cand_sector = Some ''tech'',
      cand_industry = None, cand_lifecycleStatus = Some LifeActive, cand_lastPriceKrw = Some (num 50000),
      cand_volume = Some (num 1000), cand_averageVolume = None,
      cand_ranking = None, cand_score = None, cand_reasonCodes = [], cand_eventTags = None,
      cand_newsRefs = None, cand_featureRefs = None, cand_featureScores = None,
      cand_dividendYieldPct = None, cand_exDividendDate = None, cand_buyEligible = None,
      cand_sellEligible = None, cand_blockedReasonCodes = None, cand_budgetTierAllowed = None,
      cand_positionExists = None, cand_cooldownActive = None,
      cand_dataRefs = None, cand_sourceRefs = [''s''], cand_collectedAt = ''2026-01-01'', cand_staleAfter = ''2026-01-02''\<rparr>"

definition sample_position :: VirtualPosition where
  "sample_position =
     \<lparr>pos_market = KR, pos_symbol = ''A'', pos_assetType = Some STOCK,
      pos_assetClass = Some Equity, pos_region = Some RegionKR, pos_riskTags = None,
      pos_strategyBucket = Some Swing, pos_sector = Some ''tech'', pos_quantity = num 2,
      pos_averagePriceKrw = num 40000, pos_marketPriceKrw = Some (num 50000),
      pos_marketValueKrw = Some (num 100000), pos_unrealizedPnlKrw = Some (num 20000),
      pos_priceUpdatedAt = None, pos_priceStaleAfter = None, pos_priceSourceRefs = None,
      pos_isPriceStale = None, pos_updatedAt = ''t''\<rparr>"

definition sample_portfolio :: VirtualPortfolio where
  "sample_portfolio =
     \<lparr>pf_portfolioId = ''v'', pf_cashKrw = num 1000000, pf_positions = [sample_position],
      pf_updatedAt = ''t''\<rparr>"

definition sample_packet :: MarketPacket where
  "sample_packet =
     \<lparr>pkt_packetId = ''p'', pkt_generatedAt = ''2026-01-01'', pkt_expiresAt = ''2026-01-02'',
      pkt_virtualPortfolio = sample_portfolio, pkt_candidates = [sample_candidate],
      pkt_maxNewPositions = num 1, pkt_maxBudgetPerSymbolKrw = num 300000,
      pkt_allowedActions = [VIRTUAL_BUY, VIRTUAL_SELL, VIRTUAL_HOLD],
      pkt_portfolioAllocation = None\<rparr>"

definition sample_buy :: VirtualDecisionItem where
  "sample_buy =
     \<lparr>dec_symbol = ''A'', dec_market = KR, dec_action = VIRTUAL_BUY, dec_holdReasonCode = None,
      dec_confidence = num 1, dec_budgetKrw = num 100000, dec_maxBudgetKrw = None,
      dec_sellQuantity = None,
      dec_sellRatio = None, dec_targetWeightPct = None, dec_sellAll = None,
      dec_reduceOnly = None, dec_thesis = ''x'', dec_riskFactors = [''r''], dec_dataRefs = [''s''],
      dec_featureRefs = None, dec_claimSupport = None,
      dec_confidenceBreakdown = None, dec_expiresAt = ''2026-01-02''\<rparr>"

definition sample_sell :: VirtualDecisionItem where
  "sample_sell = sample_buy\<lparr>dec_action := VIRTUAL_SELL, dec_budgetKrw := num 0,
     dec_sellQuantity := Some (num 1)\<rparr>"

definition sample_risk :: PartialRiskPolicy where
  "sample_risk = no_risk_policy\<lparr>ro_now := Some (num 1767225600000)\<rparr>"

definition sample_order :: "VirtualDecisionItem \<Rightarrow> PaperOrderInput" where
  "sample_order d =
     \<lparr>oi_packet = sample_packet, oi_portfolio = sample_portfolio, oi_decision = d,
      oi_riskPolicy = sample_risk,
      oi_executionPolicy = no_execution_policy\<lparr>xo_feeBps := Some (num 15),
        xo_allowFractionalShares := Some False\<rparr>\<rparr>"

lemmas sample_defs = sample_env_def sample_candidate_def sample_packet_def sample_position_def
  sample_portfolio_def sample_buy_def sample_sell_def sample_risk_def sample_order_def
  no_risk_policy_def no_limits_def no_execution_policy_def

definition sample_policy :: VirtualRiskPolicy where
  "sample_policy = createVirtualRiskPolicy sample_env (num 300000) sample_risk"

section \<open>The fields of the samples\<close>

named_theorems sample_eval \<open>equations that evaluate the engine on a sample\<close>

lemma sample_decision_fields [sample_eval]:
  "dec_action sample_buy = VIRTUAL_BUY" "dec_action sample_sell = VIRTUAL_SELL"
  "dec_symbol sample_buy = ''A''" "dec_symbol sample_sell = ''A''"
  "dec_market sample_buy = KR" "dec_market sample_sell = KR"
  "dec_budgetKrw sample_buy = num 100000" "dec_budgetKrw sample_sell = num 0"
  "dec_sellAll sample_sell = None" "dec_sellQuantity sample_sell = Some (num 1)"
  "dec_reduceOnly sample_buy = None" "dec_reduceOnly sample_sell = None"
  "dec_expiresAt sample_buy = ''2026-01-02''" "dec_expiresAt sample_sell = ''2026-01-02''"
  by (simp_all add: sample_buy_def sample_sell_def)

lemma sample_candidate_fields [sample_eval]:
  "cand_lastPriceKrw sample_candidate = Some (num 50000)"
  "cand_volume sample_candidate = Some (num 1000)" "cand_averageVolume sample_candidate = None"
  "cand_lifecycleStatus sample_candidate = Some LifeActive"
  "cand_blockedReasonCodes sample_candidate = None"
  "cand_staleAfter sample_candidate = ''2026-01-02''"
  by (simp_all add: sample_candidate_def)

lemma sample_position_fields [sample_eval]:
  "pos_quantity sample_position = num 2" "pos_averagePriceKrw sample_position = num 40000"
  "pos_marketValueKrw sample_position = Some (num 100000)"
  by (simp_all add: sample_position_def)

lemma sample_packet_fields [sample_eval]:
  "pkt_expiresAt sample_packet = ''2026-01-02''"
  "pkt_maxBudgetPerSymbolKrw sample_packet = num 300000"
  "pf_cashKrw sample_portfolio = num 1000000" "pkt_portfolioAllocation sample_packet = None"
  by (simp_all add: sample_packet_def sample_portfolio_def)

lemma sample_policy_fields [sample_eval]:
  "rp_maxBudgetPerDecisionKrw sample_policy = num 300000"
  "rp_maxSymbolExposureKrw sample_policy = num 300000"
  "rp_maxPositionWeightRatio sample_policy = lit (35/100)"
  "rp_minCashReserveRatio sample_policy = lit (1/10)"
  "rp_minCashReserveKrw sample_policy = Fin 0" "rp_cooldownEntries sample_policy = []"
  "rp_now sample_policy = num 1767225600000" "rp_limits sample_policy = no_limits"
  by (simp_all add: sample_policy_def sample_defs createVirtualRiskPolicy_def)

lemma sample_find [sample_eval]:
  "find_position sample_portfolio sample_buy = Some sample_position"
  "find_position sample_portfolio sample_sell = Some sample_position"
  "findCandidate sample_packet sample_buy = Some sample_candidate"
  "findCandidate sample_packet sample_sell = Some sample_candidate"
  by (simp_all add: sample_defs find_position_def findCandidate_def)

section \<open>Evaluation on the samples\<close>

lemma sample_dates [sample_eval]:
  "date_parse env ''2026-01-02'' = num 1767312000000"
  "date_parse env ''2026-01-01T00:00:00.000Z'' = num 1767225600000"
  by (simp_all add: date_parse_def parse_iso_def parse_date_def two_def is_digit_def digit_val_def
    parse_time_def parse_fraction_def parse_offset_def days_in_month_def days_from_civil_def)

lemma sample_iso [sample_eval]: "iso_string 1767225600000 = ''2026-01-01T00:00:00.000Z''"
  by code_simp

lemma sample_literals [sample_eval]:
  "lit (1/10) = Fin (3602879701896397 / 36028797018963968)"
  "lit (35/100) = Fin (6305039478318694 / 18014398509481984)"
  by (simp_all add: num_eval)

lemma sample_net_worth [sample_eval]:
  "virtualNetWorthKrw sample_portfolio = num 1100000"
  "portfolioExposureKrw sample_portfolio = num 100000"
  by (simp_all add: sample_defs virtualNetWorthKrw_def portfolioExposureKrw_def position_value_def)

lemma sample_notional [sample_eval]:
  "no_targetNotionalKrw (normalizeVirtualDecision sample_packet sample_portfolio sample_buy) =
     num 100000"
  "no_targetNotionalKrw (normalizeVirtualDecision sample_packet sample_portfolio sample_sell) =
     num 50000"
  "no_reduceOnly (normalizeVirtualDecision sample_packet sample_portfolio sample_sell)"
  by (simp add: buy_notional buy_budgets_def sample_eval num_eval)
    (simp_all add: sample_eval num_eval normalizeVirtualDecision_def normalizeSell_def
      sellTargetNotionalKrw_def Let_def)

lemma sample_common_codes [sample_eval]:
  "common_codes sample_env sample_packet sample_buy sample_policy = []"
  "common_codes sample_env sample_packet sample_sell sample_policy = []"
  by (simp_all add: common_codes_Nil isFresh_def Let_def sample_eval has_price_def
    hasIneligibleLifecycle_def isVirtualRiskCooldownActive_def truthy_num_def)

lemma sample_limits [sample_eval]:
  "rl_targetExposureRatio no_limits = None" "rl_hedgePolicy no_limits = None"
  "rl_dynamicCashReservePolicy no_limits = None"
  by (simp_all add: no_limits_def)

lemma sample_exposure [sample_eval]:
  "evaluatePortfolioExposureRisk pkt pf d no_limits c n nw = []"
  by (simp add: evaluatePortfolioExposureRisk_def Let_def metadata_gap_def no_limits_def
    hasSectorExposureLimit_def hasCountryExposureLimit_def hasCurrencyExposureLimit_def
    hasStrategyBucketLimit_def exceedsMappedLimit_def exceedsLimit_def)

lemma sample_assessment [sample_eval]:
  "policy_assessment sample_portfolio sample_policy = Inr None"
  by (simp add: policy_assessment_def assessDynamicCashReserve_def sample_eval)

lemma sample_reserve [sample_eval]:
  "minimumCashReserveKrw sample_portfolio sample_policy = num 110000"
  by (simp add: minimumCashReserveKrw_def sample_eval num_eval)

lemma sample_branch_codes [sample_eval]:
  "branch_codes sample_packet sample_portfolio sample_buy sample_policy = Inr []"
  "branch_codes sample_packet sample_portfolio sample_sell sample_policy = Inr []"
  by (simp_all add: branch_codes_def evaluateVirtualBuyRiskBranch_def buy_codes_def funding_codes_def
    evaluateVirtualSellRiskBranch_def evaluateHedgePolicy_def currentSymbolExposureKrw_def
    position_value_def Let_def sample_eval num_eval)

definition sample_risk_decision :: VirtualRiskDecision where
  "sample_risk_decision =
     \<lparr>rd_riskDecisionId = ''vrisk_p_A'', rd_packetId = ''p'', rd_symbol = ''A'',
      rd_approved = True, rd_rejectCodes = [], rd_checkedRules = VIRTUAL_RISK_RULE_IDS,
      rd_createdAt = ''2026-01-01T00:00:00.000Z''\<rparr>"

lemma sample_evaluate_policy [sample_eval]:
  "evaluate_policy sample_env sample_packet sample_portfolio sample_buy sample_policy =
     Inr sample_risk_decision"
  "evaluate_policy sample_env sample_packet sample_portfolio sample_sell sample_policy =
     Inr sample_risk_decision"
  by (simp_all add: evaluate_policy_def sample_eval append_all_def sample_risk_decision_def
    normalizeVirtualRiskRejectCodes_def dedup_def Let_def) (simp_all add: sample_packet_def)

lemma sample_evaluate [sample_eval]:
  "evaluate sample_env sample_packet sample_portfolio sample_buy sample_risk =
     Inr sample_risk_decision"
  "evaluate sample_env sample_packet sample_portfolio sample_sell sample_risk =
     Inr sample_risk_decision"
  using sample_evaluate_policy by (simp_all add: evaluate_def sample_eval sample_policy_def)

section \<open>Execution of the samples\<close>

lemma sample_order_fields [sample_eval]:
  "oi_packet (sample_order d) = sample_packet" "oi_portfolio (sample_order d) = sample_portfolio"
  "oi_decision (sample_order d) = d" "oi_riskPolicy (sample_order d) = sample_risk"
  by (simp_all add: sample_order_def)

lemma sample_execution_policy [sample_eval]:
  "createPaperExecutionPolicy (oi_executionPolicy (sample_order d)) =
     \<lparr>xp_slippageBps = num 0, xp_feeBps = num 15, xp_taxBps = num 0, xp_halfSpreadBps = num 0,
      xp_fillRatio = num 1, xp_allowFractionalShares = False,
      xp_maxVolumeParticipationRate = lit (1/10), xp_minLiquidityFillRatio = lit (1/10),
      xp_rejectStaleLiquidity = True, xp_marketImpactBps = num 0\<rparr>"
  by (simp add: sample_order_def createPaperExecutionPolicy_def no_execution_policy_def
    normalizeNonnegativeNumber_def)

lemma sample_size [sample_eval]:
  "no_targetNotionalKrw (order_size (sample_order sample_buy)) = num 100000"
  "no_targetNotionalKrw (order_size (sample_order sample_sell)) = num 50000"
  "no_reduceOnly (order_size (sample_order sample_sell))"
  by (simp_all add: order_size_def sample_eval)

lemma sample_not_stale [sample_eval]:
  "isCandidateLiquidityStale sample_env sample_candidate ''2026-01-01T00:00:00.000Z'' = False"
  by (simp add: isCandidateLiquidityStale_def sample_eval)

lemma sample_rd_fields [sample_eval]:
  "rd_createdAt sample_risk_decision = ''2026-01-01T00:00:00.000Z''"
  "rd_approved sample_risk_decision" "rd_rejectCodes sample_risk_decision = []"
  by (simp_all add: sample_risk_decision_def)

abbreviation sample_buy_input :: PaperFillInput where
  "sample_buy_input \<equiv> buy_fill_input sample_env (sample_order sample_buy) sample_risk_decision
     sample_candidate (Fin 50000) (order_size (sample_order sample_buy))"

abbreviation sample_sell_input :: PaperFillInput where
  "sample_sell_input \<equiv> sell_fill_input sample_env (sample_order sample_sell) sample_risk_decision
     sample_candidate (Fin 50000) (order_size (sample_order sample_sell)) sample_position"

lemma no_impact: "jle (xp_marketImpactBps pol) (Fin 0) \<Longrightarrow> calculateMarketImpactCost g r pol = Fin 0"
  by (cases r) (simp_all add: calculateMarketImpactCost_def)

lemma sample_buy_fill [sample_eval]:
  "fl_fillStatus (buildPaperFill sample_buy_input) = Filled"
  "fl_quantity (buildPaperFill sample_buy_input) = num 2"
  "fl_netAmountKrw (buildPaperFill sample_buy_input) = num 100150"
  by (simp_all add: buildPaperFill_def buildPaperFillModel_def buy_fill_input_def sample_eval Let_def
    applySlippage_def fill_requested_def buildPaperLiquidityDecision_def effectiveLiquidityVolume_def
    opt_list_def normalizeRatio_def fill_quantity_def filledPaperFill_def bps_cost_def
    no_impact num_eval)

lemma sample_sell_fill [sample_eval]:
  "fl_fillStatus (buildPaperFill sample_sell_input) = Filled"
  "fl_quantity (buildPaperFill sample_sell_input) = num 1"
  "fl_netAmountKrw (buildPaperFill sample_sell_input) = num 49925"
  by (simp_all add: buildPaperFill_def buildPaperFillModel_def sell_fill_input_def sample_eval Let_def
    applySlippage_def fill_requested_def buildPaperLiquidityDecision_def effectiveLiquidityVolume_def
    opt_list_def normalizeRatio_def fill_quantity_def filledPaperFill_def bps_cost_def
    no_impact shouldSnapToFullExit_def num_eval)

lemma sample_funding [sample_eval]:
  "rejectInsufficientBuyFunding sample_env (sample_order sample_buy) rd
     (buildPaperFill sample_buy_input) = Inr None"
  using sample_assessment sample_reserve
  by (simp add: rejectInsufficientBuyFunding_def input_risk_policy_def Let_def sample_eval
    sample_policy_def funding_codes_def num_eval)

lemma sample_priced [sample_eval]:
  "priced_order sample_env (sample_order sample_buy) sample_risk_decision sample_candidate (Fin 50000)"
  "priced_order sample_env (sample_order sample_sell) sample_risk_decision sample_candidate (Fin 50000)"
  by (simp_all add: priced_order_def sample_eval truthy_num_def)

text \<open>The sample buy and the sample sell trade.\<close>

lemma sample_buy_trades:
  "\<exists>r t. execute sample_env (sample_order sample_buy) = Inr r \<and> or_trade r = Some t \<and>
     or_riskDecision r = sample_risk_decision \<and> tr_netAmountKrw t = num 100150 \<and>
     tr_quantity t = num 2 \<and> tr_action t = VIRTUAL_BUY"
  by (simp add: execute_def Let_def sample_eval truthy_num_def executeBuy_def order_size_def
    [of "sample_order sample_buy", symmetric, simplified sample_eval] buildTrade_def)

lemma sample_sell_trades:
  "\<exists>r t. execute sample_env (sample_order sample_sell) = Inr r \<and> or_trade r = Some t \<and>
     or_riskDecision r = sample_risk_decision \<and> tr_netAmountKrw t = num 49925 \<and>
     tr_quantity t = num 1 \<and> tr_action t = VIRTUAL_SELL"
  by (simp add: execute_def Let_def sample_eval truthy_num_def executeSell_def order_size_def
    [of "sample_order sample_sell", symmetric, simplified sample_eval] buildTrade_def)

end
