(* ===== verification/PaperClaims.thy ===== *)
theory PaperClaims
  imports PaperReplay PaperSamples
begin

text \<open>
  The properties of the paper engine, each with a witness on the samples where it has
  hypotheses.
\<close>

section \<open>The samples are admissible\<close>

lemmas admissible_defs = order_ok_def packet_ok_def holdings_ok_def decision_ok_def
  execution_policy_ok_def rate_ok_def nonneg_number_def ratio_number_def MAX_SAFE_INTEGER_def
  money_def is_safe_integer_def sale_sized_def position_sized_def share_count_def
  representable_numeral_small numeral_max_finite one_max_finite

lemma sample_order_ok [sample_eval]:
  "order_ok (sample_order sample_buy)" "order_ok (sample_order sample_sell)"
  "sale_sized (sample_order sample_sell)" "sale_sized (sample_order sample_buy)"
  by (simp_all add: admissible_defs sample_eval)
   (simp_all add: admissible_defs sample_defs)

section \<open>Orders and the account\<close>

text \<open>
  C1. A purchase is paid from the cash.  For every admissible input, a buy that trades has a
  whole net amount between zero and the cash; the cash of the resulting portfolio is exactly
  the difference, and it is not below the minimum cash reserve of the policy.
\<close>

theorem purchase_within_means:
  assumes "order_ok inp" and "execute env inp = Inr r"
    and "dec_action (oi_decision inp) = VIRTUAL_BUY" and "or_trade r = Some t"
  shows "\<exists>k n. pf_cashKrw (oi_portfolio inp) = num k \<and> tr_netAmountKrw t = num n \<and>
    0 \<le> n \<and> n \<le> k \<and> pf_cashKrw (or_portfolio r) = num (k - n) \<and>
    \<not> jlt (num (k - n)) (minimumCashReserveKrw (oi_portfolio inp) (input_risk_policy env inp))"
  using assms(2)
proof (cases rule: execute_InrD)
  case (Buying rd c price)
  from Buying(3) show ?thesis
  proof (cases rule: executeBuy_cases)
    case Purchase
    obtain k n where "pf_cashKrw (oi_portfolio inp) = num k"
      "fl_netAmountKrw (buy_fill env inp rd c price) = num n" "0 \<le> n" "n \<le> k"
      "jsub (pf_cashKrw (oi_portfolio inp)) (fl_netAmountKrw (buy_fill env inp rd c price)) = num (k - n)"
      "\<not> jlt (num (k - n)) (minimumCashReserveKrw (oi_portfolio inp) (input_risk_policy env inp))"
      by (rule purchase_paid [OF assms(1) Buying(1,2) Purchase(1,2)])
    with Purchase assms(4) show ?thesis
      by (intro exI [of _ k] exI [of _ n]) (auto simp: apply_buy_def Let_def)
  qed (use assms(4) in simp)
qed (use assms(3,4) in auto)

theorem purchase_within_means_witness:
  "\<exists>r t k n. execute sample_env (sample_order sample_buy) = Inr r \<and> or_trade r = Some t \<and>
     pf_cashKrw (or_portfolio r) = num (k - n) \<and> tr_netAmountKrw t = num n \<and> n = 100150"
proof -
  obtain r t where r: "execute sample_env (sample_order sample_buy) = Inr r" "or_trade r = Some t"
    "tr_netAmountKrw t = num 100150" using sample_buy_trades by blast
  from purchase_within_means [OF sample_order_ok(1) r(1) _ r(2)] r show ?thesis
    by (auto simp: sample_eval)
qed

text \<open>
  C2. A sale never sells more than is held.  For every admissible input whose position is worth
  at most 2^53 won, a sell that trades has a positive quantity, at most that of the position it
  is about, and its net amount is a whole amount that is not negative and is added to the cash.
\<close>

theorem sale_within_position:
  assumes "order_ok inp" and "sale_sized inp" and "execute env inp = Inr r"
    and "dec_action (oi_decision inp) = VIRTUAL_SELL" and "or_trade r = Some t"
  shows "\<exists>p k n. find_position (oi_portfolio inp) (oi_decision inp) = Some p \<and>
    jlt (Fin 0) (tr_quantity t) \<and> jle (tr_quantity t) (pos_quantity p) \<and>
    pf_cashKrw (oi_portfolio inp) = num k \<and> tr_netAmountKrw t = num n \<and> 0 \<le> n \<and>
    pf_cashKrw (or_portfolio r) = jadd (num k) (num n)"
  using assms(3)
proof (cases rule: execute_InrD)
  case (Selling rd c price)
  show ?thesis
  proof (cases rule: executeSell_cases [where env = env and inp = inp and rd = rd and c = c and price = price])
    case (Sale p)
    obtain k n where "pf_cashKrw (oi_portfolio inp) = num k"
      "fl_netAmountKrw (sell_fill env inp rd c price p) = num n" "0 \<le> n"
      "jle (fl_quantity (sell_fill env inp rd c price p)) (pos_quantity p)"
      "jlt (Fin 0) (fl_quantity (sell_fill env inp rd c price p))"
      by (rule sale_paid [OF assms(1) Selling(1,2) Sale(1) assms(2) Sale(2,3)])
    with Sale Selling(3) assms(5) show ?thesis
      by (intro exI [of _ p] exI [of _ k] exI [of _ n]) (auto simp: apply_sell_def Let_def)
  qed (use assms(5) Selling(3) in auto)
qed (use assms(4,5) in auto)

theorem sale_within_position_witness:
  "\<exists>r t p. execute sample_env (sample_order sample_sell) = Inr r \<and> or_trade r = Some t \<and>
     find_position sample_portfolio sample_sell = Some p \<and> jle (tr_quantity t) (pos_quantity p)"
proof -
  obtain r t where r: "execute sample_env (sample_order sample_sell) = Inr r" "or_trade r = Some t"
    using sample_sell_trades by blast
  from sale_within_position [OF sample_order_ok(2,3) r(1) _ r(2)] r show ?thesis
    by (auto simp: sample_eval)
qed

section \<open>Samples of the replay and of a rejection\<close>

definition sample_replay_order :: PaperOrderInput where
  "sample_replay_order = replay_order sample_packet (num 1767225600000) sample_portfolio sample_buy"

definition sample_replay :: PaperReplayInput where
  "sample_replay =
     \<lparr>ri_packet = sample_packet,
      ri_decision = \<lparr>vd_packetId = ''p'', vd_packetHash = None, vd_decisionHash = None,
        vd_promptVersion = None, vd_modelId = None, vd_schemaVersion = None,
        vd_policyVersion = None, vd_summary = ''s'', vd_decisions = [sample_buy]\<rparr>,
      ri_initialPortfolio = None, ri_now = Some (num 1767225600000), ri_promptVersion = None\<rparr>"

definition sample_unknown :: VirtualDecisionItem where
  "sample_unknown = sample_buy\<lparr>dec_symbol := ''B''\<rparr>"

lemma sample_replay_fields [sample_eval]:
  "oi_packet sample_replay_order = sample_packet"
  "oi_portfolio sample_replay_order = sample_portfolio"
  "oi_decision sample_replay_order = sample_buy" "oi_riskPolicy sample_replay_order = sample_risk"
  "oi_executionPolicy sample_replay_order = no_execution_policy"
  by (simp_all add: sample_replay_order_def replay_order_def sample_risk_def)

lemma default_execution_policy [sample_eval]:
  "createPaperExecutionPolicy no_execution_policy =
     \<lparr>xp_slippageBps = Fin 0, xp_feeBps = Fin 0, xp_taxBps = Fin 0, xp_halfSpreadBps = Fin 0,
      xp_fillRatio = Fin 1, xp_allowFractionalShares = True,
      xp_maxVolumeParticipationRate = lit (1/10), xp_minLiquidityFillRatio = lit (1/10),
      xp_rejectStaleLiquidity = True, xp_marketImpactBps = Fin 0\<rparr>"
  by (simp add: createPaperExecutionPolicy_def no_execution_policy_def normalizeNonnegativeNumber_def)

lemma sample_replay_fold [sample_eval]:
  "replay_order sample_packet (Fin 1767225600000) sample_portfolio sample_buy = sample_replay_order"
  by (simp add: sample_replay_order_def)

lemma sample_replay_size [sample_eval]:
  "no_targetNotionalKrw (order_size sample_replay_order) = num 100000"
  by (simp add: order_size_def sample_eval)

abbreviation sample_replay_input :: PaperFillInput where
  "sample_replay_input \<equiv> buy_fill_input sample_env sample_replay_order sample_risk_decision
     sample_candidate (Fin 50000) (order_size sample_replay_order)"

lemma sample_replay_fill [sample_eval]:
  "fl_fillStatus (buildPaperFill sample_replay_input) = Filled"
  "fl_quantity (buildPaperFill sample_replay_input) = num 2"
  "fl_netAmountKrw (buildPaperFill sample_replay_input) = num 100000"
  by (simp_all add: buildPaperFill_def buildPaperFillModel_def buy_fill_input_def sample_eval Let_def
    applySlippage_def fill_requested_def buildPaperLiquidityDecision_def effectiveLiquidityVolume_def
    opt_list_def normalizeRatio_def fill_quantity_def filledPaperFill_def bps_cost_def
    no_impact num_eval)

lemma sample_replay_funding [sample_eval]:
  "rejectInsufficientBuyFunding sample_env sample_replay_order rd
     (buildPaperFill sample_replay_input) = Inr None"
  using sample_assessment sample_reserve
  by (simp add: rejectInsufficientBuyFunding_def input_risk_policy_def Let_def sample_eval
    sample_policy_def funding_codes_def num_eval)

lemma sample_replay_trades:
  "\<exists>r t. execute sample_env sample_replay_order = Inr r \<and> or_trade r = Some t \<and>
     pf_cashKrw (or_portfolio r) = num 900000 \<and> tr_netAmountKrw t = num 100000 \<and>
     tr_action t = VIRTUAL_BUY"
  by (simp add: execute_def Let_def sample_eval truthy_num_def executeBuy_def order_size_def
    [of sample_replay_order, symmetric, simplified sample_eval] buildTrade_def apply_buy_def num_eval)

lemma sample_unknown_rejected:
  "\<exists>r. execute sample_env (sample_order sample_unknown) = Inr r \<and>
     \<not> rd_approved (or_riskDecision r)"
proof -
  have f: "findCandidate sample_packet sample_unknown = None"
    "find_position sample_portfolio sample_unknown = None"
    by (simp_all add: findCandidate_def find_position_def sample_unknown_def sample_defs)
  have a: "dec_action sample_unknown = VIRTUAL_BUY" by (simp add: sample_unknown_def sample_eval)
  have c: "CANDIDATE_NOT_FOUND \<in> set (common_codes sample_env sample_packet sample_unknown sample_policy)"
    by (simp add: common_codes_iff f)
  have b: "\<exists>codes. branch_codes sample_packet sample_portfolio sample_unknown sample_policy = Inr codes"
    by (simp add: branch_codes_def a f evaluateVirtualBuyRiskBranch_def sample_eval bind_result_def)
  obtain codes where "branch_codes sample_packet sample_portfolio sample_unknown sample_policy = Inr codes"
    using b by blast
  then have "\<exists>rd. evaluate_policy sample_env sample_packet sample_portfolio sample_unknown
      sample_policy = Inr rd \<and> \<not> rd_approved rd"
    using c by (auto simp: evaluate_policy_def sample_eval bind_result_def)
  then have "\<exists>rd. evaluate sample_env sample_packet sample_portfolio sample_unknown sample_risk = Inr rd \<and>
      \<not> rd_approved rd"
    by (simp add: evaluate_def sample_eval sample_policy_def)
  then show ?thesis by (auto simp: execute_def sample_eval bind_result_def no_trade_def)
qed

section \<open>What an execution does to the account\<close>

lemma sample_replay_state [sample_eval]:
  "replay_now sample_env sample_replay = num 1767225600000"
  "replay_start sample_replay = sample_portfolio" "ri_packet sample_replay = sample_packet"
  "vd_decisions (ri_decision sample_replay) = [sample_buy]"
  "pkt_virtualPortfolio sample_packet = sample_portfolio" "pkt_packetId sample_packet = ''p''"
  "vd_packetId (ri_decision sample_replay) = ''p''"
  by (simp_all add: sample_replay_def replay_now_def replay_start_def sample_packet_def)

text \<open>
  C3. The replay keeps the books.  A replay that completes from a well-formed account, on
  inputs within the bounds of every step it runs, ends in a well-formed account with distinct
  positions, and the cash has changed by exactly the sum of what its trades booked.
\<close>

theorem replay_keeps_books:
  assumes "replayPaperDecisions env inp = Inr res" and "rr_failureReason res = None"
    and "holdings_ok (replay_start inp)" and "distinct (keys (replay_start inp))"
    and "guarded (replay_step env (ri_packet inp) (replay_now env inp))
      (replay_guard env (ri_packet inp) (replay_now env inp)) (start_state (replay_start inp))
      (vd_decisions (ri_decision inp))"
  shows "\<exists>final. rr_finalPortfolio res = Some final \<and> rr_initialPortfolio res = Some (replay_start inp) \<and>
    holdings_ok final \<and> distinct (keys final) \<and>
    amount_of (pf_cashKrw final) - amount_of (pf_cashKrw (replay_start inp)) =
      sum_list (map cash_effect (rr_trades res))"
proof -
  let ?s0 = "start_state (replay_start inp)"
  from assms(1,2) obtain s where s: "fold_result (replay_step env (ri_packet inp) (replay_now env inp))
      ?s0 (vd_decisions (ri_decision inp)) = Inr s"
    and res: "rr_finalPortfolio res = Some (rs_portfolio s)" "rr_trades res = rs_trades s"
      "rr_initialPortfolio res = Some (replay_start inp)"
    by (auto simp: replayPaperDecisions_def Let_def bind_result_Inr failedReplay_def split: if_splits)
  have good: "sound_books ?s0" using assms(3,4) by (simp add: sound_books_def start_state_def)
  from replay.loop_good [OF good assms(5) s] replay.loop_balance [OF good assms(5) s] res
  show ?thesis by (simp add: sound_books_def start_state_def)
qed

theorem replay_keeps_books_witness:
  "\<exists>res final. replayPaperDecisions sample_env sample_replay = Inr res \<and>
     rr_finalPortfolio res = Some final \<and> rr_trades res \<noteq> [] \<and>
     amount_of (pf_cashKrw final) - 1000000 = sum_list (map cash_effect (rr_trades res))"
proof -
  obtain r t where r: "execute sample_env sample_replay_order = Inr r" "or_trade r = Some t"
    "pf_cashKrw (or_portfolio r) = num 900000" using sample_replay_trades by blast
  let ?step = "replay_step sample_env sample_packet (num 1767225600000)"
  obtain s where s: "?step (start_state sample_portfolio) sample_buy = Inr s"
    "rs_trades s = [t]" "rs_portfolio s = or_portfolio r"
    using r by (simp add: replay_step_def start_state_def sample_replay_fold
      opt_list_def bind_result_def)
  have "sale_sized sample_replay_order" "packet_ok sample_packet" "decision_ok sample_buy"
    and h: "holdings_ok sample_portfolio" "distinct (keys sample_portfolio)"
    using sample_order_ok sample_replay_order_def
    by (auto simp: order_ok_def sale_sized_def sample_eval keys_def sample_portfolio_def)
  then have g: "guarded ?step (replay_guard sample_env sample_packet (num 1767225600000))
      (start_state sample_portfolio) [sample_buy]"
    using s r(3) by (simp add: replay_guard_def start_state_def sample_replay_fold
      MAX_SAFE_INTEGER_def)
  obtain res where res: "replayPaperDecisions sample_env sample_replay = Inr res"
    "rr_failureReason res = None" "rr_trades res = [t]"
    using s by (simp add: replayPaperDecisions_def sample_eval isFresh_def bind_result_def Let_def)
  from replay_keeps_books [OF res(1,2)] h g res show ?thesis
    by (auto simp: sample_eval amount_of_def)
qed

text \<open>
  A decision that is not approved leaves the account alone: whatever rule rejected it, at
  the evaluation, at the fill or at the funds, the portfolio is the one given, no trade is
  reported and no position is closed.
\<close>

theorem unapproved_changes_nothing:
  assumes "execute env inp = Inr r" and "\<not> rd_approved (or_riskDecision r)"
  shows "or_portfolio r = oi_portfolio inp \<and> or_trade r = None \<and> or_noOpReason r = None"
  using execute_unapproved [OF assms] by simp

theorem unapproved_changes_nothing_witness:
  "\<exists>r. execute sample_env (sample_order sample_unknown) = Inr r \<and> or_trade r = None \<and>
     or_portfolio r = sample_portfolio"
proof -
  obtain r where r: "execute sample_env (sample_order sample_unknown) = Inr r"
    "\<not> rd_approved (or_riskDecision r)" using sample_unknown_rejected by blast
  from unapproved_changes_nothing [OF r] r(1) show ?thesis by (simp add: sample_eval)
qed

text \<open>
  A trade belongs to the decision that was approved: it has the decision's action, which
  is not a hold, its market and symbol, and the identifier of an approved risk decision.
\<close>

theorem trade_of_approved_decision:
  assumes "execute env inp = Inr r" and "or_trade r = Some t"
  shows "rd_approved (or_riskDecision r) \<and> tr_decisionId t = rd_riskDecisionId (or_riskDecision r) \<and>
    tr_action t = dec_action (oi_decision inp) \<and> dec_action (oi_decision inp) \<noteq> VIRTUAL_HOLD \<and>
    tr_market t = dec_market (oi_decision inp) \<and> tr_symbol t = dec_symbol (oi_decision inp)"
  using assms(1)
proof (cases rule: execute_InrD)
  case (Rejection rd)
  with assms(2) show ?thesis by simp
next
  case (Buying rd c price)
  from Buying(3) show ?thesis
    by (cases rule: executeBuy_cases) (use assms(2) Buying(1,2) in \<open>auto simp: priced_order_def buildTrade_def\<close>)
next
  case (Selling rd c price)
  show ?thesis
    by (cases rule: executeSell_cases [where env = env and inp = inp and rd = rd and c = c and price = price])
      (use assms(2) Selling in \<open>auto simp: priced_order_def buildTrade_def\<close>)
qed

theorem trade_of_approved_decision_witness:
  "\<exists>r t. execute sample_env (sample_order sample_buy) = Inr r \<and> or_trade r = Some t \<and>
     tr_action t = VIRTUAL_BUY \<and> rd_approved (or_riskDecision r)"
proof -
  obtain r t where r: "execute sample_env (sample_order sample_buy) = Inr r" "or_trade r = Some t"
    using sample_buy_trades by blast
  from trade_of_approved_decision [OF r] r show ?thesis by (simp add: sample_eval)
qed

text \<open>
  C13. An order touches one position.  The positions under any other market and symbol are the
  same, in the same order, after every execution: purchase, sale, closed dust or rejection.
\<close>

theorem other_positions_untouched:
  assumes "execute env inp = Inr r"
  shows "others (oi_decision inp) (or_portfolio r) = others (oi_decision inp) (oi_portfolio inp)"
  using assms
proof (cases rule: execute_InrD)
  case (Buying rd c price)
  from Buying(3) show ?thesis by (cases rule: executeBuy_cases) (auto simp: apply_buy_others)
next
  case (Selling rd c price)
  show ?thesis
    by (cases rule: executeSell_cases [where env = env and inp = inp and rd = rd and c = c and price = price])
      (use Selling(3) in \<open>auto simp: apply_sell_others [unfolded others_def drop_positions_def]
        others_def drop_positions_def\<close>)
qed simp

theorem other_positions_untouched_witness:
  "\<exists>r. execute sample_env (sample_order sample_sell) = Inr r \<and>
     others sample_sell (or_portfolio r) = others sample_sell sample_portfolio"
proof -
  obtain r where r: "execute sample_env (sample_order sample_sell) = Inr r"
    using sample_sell_trades by blast
  from other_positions_untouched [OF r] r show ?thesis by (simp add: sample_eval)
qed

end
