(* ===== verification/RiskClaims.thy ===== *)
theory RiskClaims
  imports PaperSamples
begin

text \<open>
  The properties of the paper risk engine, its cash reserve, its exposure limits and the
  sizing of decisions, each with a witness on the samples where it has hypotheses.
\<close>

section \<open>Reject codes\<close>

text \<open>
  C17. The codes of the common rules are exact.  An evaluation reports a stale packet, a stale
  decision, an unknown candidate, a missing price, an ineligible lifecycle or an active cooldown
  exactly when the packet, the decision, the candidate or the cooldown entries say so, whatever
  the buy and the sell branch add.
\<close>

theorem common_codes_exact:
  assumes "evaluate_policy env pkt pf d policy = Inr rd"
  shows "(PACKET_STALE \<in> set (rd_rejectCodes rd) \<longleftrightarrow> \<not> isFresh env (pkt_expiresAt pkt) (rp_now policy)) \<and>
    (DECISION_STALE \<in> set (rd_rejectCodes rd) \<longleftrightarrow> \<not> isFresh env (dec_expiresAt d) (rp_now policy)) \<and>
    (CANDIDATE_NOT_FOUND \<in> set (rd_rejectCodes rd) \<longleftrightarrow> findCandidate pkt d = None) \<and>
    (PRICE_MISSING \<in> set (rd_rejectCodes rd) \<longleftrightarrow>
       dec_action d \<noteq> VIRTUAL_HOLD \<and> \<not> has_price (findCandidate pkt d)) \<and>
    (LIFECYCLE_NOT_ELIGIBLE \<in> set (rd_rejectCodes rd) \<longleftrightarrow>
       dec_action d \<noteq> VIRTUAL_HOLD \<and> hasIneligibleLifecycle (findCandidate pkt d)) \<and>
    (COOLDOWN_ACTIVE \<in> set (rd_rejectCodes rd) \<longleftrightarrow> isVirtualRiskCooldownActive env d policy)"
  by (intro conjI; subst common_rule_code [OF assms])
    (simp_all add: common_codes_iff common_rules_def)

theorem common_codes_exact_witness:
  "rd_rejectCodes sample_risk_decision = [] \<and>
   isFresh sample_env (pkt_expiresAt sample_packet) (rp_now sample_policy) \<and>
   \<not> isVirtualRiskCooldownActive sample_env sample_buy sample_policy"
  using common_codes_exact [OF sample_evaluate_policy(1)] by (simp add: sample_eval)

text \<open>
  C18. The funding codes of a buy are exact.  A buy is rejected for its cash exactly when the
  sized order costs more than the cash, for the reserve exactly when what remains is below the
  static reserve, and for the regime reserve exactly when a dynamic reserve above the static one
  is assessed and what remains is below it.
\<close>

theorem buy_funding_codes_exact:
  assumes "evaluate_policy env pkt pf d policy = Inr rd" and "dec_action d = VIRTUAL_BUY"
  defines "n \<equiv> no_targetNotionalKrw (normalizeVirtualDecision pkt pf d)"
    and "reserve \<equiv> minimumCashReserveKrw pf policy"
  shows "\<exists>dyn. policy_assessment pf policy = Inr dyn \<and>
    (CASH_EXCEEDED \<in> set (rd_rejectCodes rd) \<longleftrightarrow> jlt (pf_cashKrw pf) n) \<and>
    (CASH_RESERVE_BREACHED \<in> set (rd_rejectCodes rd) \<longleftrightarrow> jlt (jsub (pf_cashKrw pf) n) reserve) \<and>
    (REGIME_CASH_RESERVE_BREACHED \<in> set (rd_rejectCodes rd) \<longleftrightarrow>
       (\<exists>a. dyn = Some a \<and> jlt reserve (dca_minimumCashReserveKrw a) \<and>
          jlt (jsub (pf_cashKrw pf) n) (dca_minimumCashReserveKrw a)))"
proof -
  obtain dyn where dyn: "policy_assessment pf policy = Inr dyn"
    and iff: "\<And>code. code \<in> funding_rules \<Longrightarrow> code \<in> set (rd_rejectCodes rd) \<longleftrightarrow>
       code \<in> set (funding_codes n (pf_cashKrw pf) reserve dyn)"
    unfolding n_def reserve_def by (rule buy_funding_code [OF assms(1,2)]) blast
  show ?thesis
    by (intro exI [of _ dyn] conjI dyn; subst iff)
      (simp_all only: funding_codes_iff, simp_all add: funding_rules_def)
qed

theorem buy_funding_codes_exact_witness:
  "\<not> jlt (num 1000000) (num 100000) \<and>
   CASH_EXCEEDED \<notin> set (rd_rejectCodes sample_risk_decision)"
  using buy_funding_codes_exact [OF sample_evaluate_policy(1)] by (simp add: sample_eval)

text \<open>
  C19. An approved buy stays within the limits of the policy.  Its sized amount is not above the
  cash, leaves the static reserve, is not above the budget per decision, and together with what
  is held of the symbol not above the symbol limit; with a positive net worth the position weight
  and a target exposure, where there is one, are kept too.
\<close>

theorem approved_buy_within_limits:
  assumes "evaluate_policy env pkt pf d policy = Inr rd" and "rd_approved rd"
    and "dec_action d = VIRTUAL_BUY"
  defines "n \<equiv> no_targetNotionalKrw (normalizeVirtualDecision pkt pf d)"
    and "nw \<equiv> virtualNetWorthKrw pf" and "held \<equiv> currentSymbolExposureKrw pf d"
  shows "\<not> jlt (pf_cashKrw pf) n \<and> \<not> jlt (jsub (pf_cashKrw pf) n) (minimumCashReserveKrw pf policy) \<and>
    \<not> jlt (rp_maxBudgetPerDecisionKrw policy) n \<and>
    \<not> jlt (rp_maxSymbolExposureKrw policy) (jadd held n) \<and>
    (jlt (Fin 0) nw \<longrightarrow> \<not> jlt (rp_maxPositionWeightRatio policy) (jdiv (jadd held n) nw)) \<and>
    (\<forall>r. rl_targetExposureRatio (rp_limits policy) = Some r \<longrightarrow> jlt (Fin 0) nw \<longrightarrow>
       \<not> jlt r (jdiv (jadd (portfolioExposureKrw pf) n) nw))"
  unfolding n_def nw_def held_def
  by (rule approved_buy [OF assms(1-3)]) (simp add: funding_codes_Nil)

theorem approved_buy_within_limits_witness:
  "\<not> jlt (num 300000) (num 100000) \<and>
   \<not> jlt (lit (35/100)) (jdiv (jadd (num 100000) (num 100000)) (num 1100000))"
  using approved_buy_within_limits [OF sample_evaluate_policy(1)]
  by (simp add: sample_eval currentSymbolExposureKrw_def position_value_def)

text \<open>
  An approved sell is a sell of what is held.  Its candidate is priced, the portfolio has
  the position, and the sized amount is positive, unless the position is dust that is sold
  off, and not above the rounded value of the position.
\<close>

theorem approved_sell_of_position:
  assumes "evaluate_policy env pkt pf d policy = Inr rd" and "rd_approved rd"
    and "dec_action d = VIRTUAL_SELL"
  shows "\<exists>c p price. findCandidate pkt d = Some c \<and> find_position pf d = Some p \<and>
    cand_lastPriceKrw c = Some price \<and> truthy_num price \<and>
    \<not> jlt (jround (jmul (pos_quantity p) price))
        (no_targetNotionalKrw (normalizeVirtualDecision pkt pf d)) \<and>
    (\<not> jle (no_targetNotionalKrw (normalizeVirtualDecision pkt pf d)) (Fin 0) \<or>
     isSellAllDustClose d p (Some price))"
  by (rule approved_sell [OF assms]) blast

theorem approved_sell_of_position_witness:
  "\<exists>p. find_position sample_portfolio sample_sell = Some p \<and>
     \<not> jlt (jround (jmul (pos_quantity p) (num 50000))) (num 50000)"
  using approved_sell_of_position [OF sample_evaluate_policy(2)]
  by (auto simp: sample_eval)

section \<open>Exposure limits\<close>

text \<open>A policy with a sector limit, which the sample buy stays within.\<close>

definition sample_limits_policy :: VirtualRiskPolicy where
  "sample_limits_policy = sample_policy\<lparr>rp_limits := no_limits\<lparr>
     rl_maxSectorExposureKrw := Some (num 500000),
     rl_maxCountryExposureRatio := Some (num 1)\<rparr>\<rparr>"

lemma sample_limits_fields [sample_eval]:
  "rp_limits sample_limits_policy = no_limits\<lparr>
     rl_maxSectorExposureKrw := Some (num 500000), rl_maxCountryExposureRatio := Some (num 1)\<rparr>"
  "rp_now sample_limits_policy = rp_now sample_policy"
  "rp_cooldownEntries sample_limits_policy = []"
  "rp_maxBudgetPerDecisionKrw sample_limits_policy = num 300000"
  "rp_maxSymbolExposureKrw sample_limits_policy = num 300000"
  "rp_maxPositionWeightRatio sample_limits_policy = lit (35/100)"
  "minimumCashReserveKrw sample_portfolio sample_limits_policy = num 110000"
  using sample_reserve sample_policy_fields
  by (simp_all add: sample_limits_policy_def minimumCashReserveKrw_def)

lemma sample_profile [sample_eval]:
  "resolveDecisionExposureMetadata sample_portfolio sample_buy (Some sample_candidate) =
     \<lparr>em_sector = ''tech'', em_country = Some RegionKR, em_strategyBucket = Some Swing,
      em_currencyExposed = False, em_currencyMetadataMissing = False, em_metadataMissing = False\<rparr>"
  "profile_after_order sample_packet sample_portfolio sample_buy (Some sample_candidate) (Fin 100000) =
     \<lparr>ep_bySector = [(''tech'', num 200000)], ep_byCountry = [(Some RegionKR, num 200000)],
      ep_byStrategyBucket = [(Some Swing, num 200000)], ep_currencyExposureKrw = num 0,
      ep_unknownCurrencyExposureKrw = num 0, ep_unknownMetadataExposureKrw = num 0\<rparr>"
proof -
  have m: "resolveExposureMetadata (Some sample_candidate) (Some sample_position) =
     \<lparr>em_sector = ''tech'', em_country = Some RegionKR, em_strategyBucket = Some Swing,
      em_currencyExposed = False, em_currencyMetadataMissing = False, em_metadataMissing = False\<rparr>"
    by (simp add: resolveExposureMetadata_def sample_candidate_def sample_position_def Let_def
      normalizeExposureKey_def trim_def is_space_def UNKNOWN_EXPOSURE_KEY_def)
  show d: "resolveDecisionExposureMetadata sample_portfolio sample_buy (Some sample_candidate) =
     \<lparr>em_sector = ''tech'', em_country = Some RegionKR, em_strategyBucket = Some Swing,
      em_currencyExposed = False, em_currencyMetadataMissing = False, em_metadataMissing = False\<rparr>"
    by (simp add: resolveDecisionExposureMetadata_def m sample_eval)
  have "resolvePositionExposureMetadata sample_packet sample_position =
     \<lparr>em_sector = ''tech'', em_country = Some RegionKR, em_strategyBucket = Some Swing,
      em_currencyExposed = False, em_currencyMetadataMissing = False, em_metadataMissing = False\<rparr>"
    using m by (simp add: resolvePositionExposureMetadata_def sample_packet_def sample_candidate_def
      sample_position_def)
  moreover have "positionExposureValueKrw sample_position = num 100000"
    by (simp add: positionExposureValueKrw_def position_value_def sample_eval)
  moreover have "pf_positions sample_portfolio = [sample_position]"
    by (simp add: sample_portfolio_def)
  ultimately show "profile_after_order sample_packet sample_portfolio sample_buy
     (Some sample_candidate) (Fin 100000) =
     \<lparr>ep_bySector = [(''tech'', num 200000)], ep_byCountry = [(Some RegionKR, num 200000)],
      ep_byStrategyBucket = [(Some Swing, num 200000)], ep_currencyExposureKrw = num 0,
      ep_unknownCurrencyExposureKrw = num 0, ep_unknownMetadataExposureKrw = num 0\<rparr>"
    by (simp add: profile_after_order_def d buildExposureProfile_def add_exposure_def
      empty_profile_def num_eval)
qed

lemma sample_limits_approved:
  "\<exists>rd. evaluate_policy sample_env sample_packet sample_portfolio sample_buy sample_limits_policy =
     Inr rd \<and> rd_approved rd"
proof -
  have "common_codes sample_env sample_packet sample_buy sample_limits_policy = []"
    using sample_common_codes(1)
    by (simp add: common_codes_def Let_def isVirtualRiskCooldownActive_def sample_eval)
  moreover have "branch_codes sample_packet sample_portfolio sample_buy sample_limits_policy = Inr []"
    by (simp add: branch_codes_def evaluateVirtualBuyRiskBranch_def buy_codes_def funding_codes_def
      evaluateHedgePolicy_def currentSymbolExposureKrw_def policy_assessment_def
      assessDynamicCashReserve_def evaluatePortfolioExposureRisk_def metadata_gap_def
      exceedsMappedLimit_def exceedsLimit_def get_or_zero_def hasSectorExposureLimit_def
      hasCountryExposureLimit_def hasStrategyBucketLimit_def hasCurrencyExposureLimit_def no_limits_def
      UNKNOWN_EXPOSURE_KEY_def position_value_def Let_def sample_eval num_eval)
  ultimately show ?thesis
    by (simp add: evaluate_policy_def sample_eval Let_def bind_result_def)
qed

text \<open>
  C17. An approved buy stays within the exposure limits.  When the sized amount is positive, the
  exposure after the order under the sector, the country and the currency of the order, and the
  exposure without metadata, do not exceed their limits, and no metadata that a limit needs is
  missing.
\<close>

theorem approved_buy_within_exposure:
  assumes "evaluate_policy env pkt pf d policy = Inr rd" and "rd_approved rd"
    and "dec_action d = VIRTUAL_BUY"
    and "\<not> jle (no_targetNotionalKrw (normalizeVirtualDecision pkt pf d)) (Fin 0)"
  defines "m \<equiv> resolveDecisionExposureMetadata pf d (findCandidate pkt d)"
    and "after \<equiv> profile_after_order pkt pf d (findCandidate pkt d)
      (no_targetNotionalKrw (normalizeVirtualDecision pkt pf d))"
    and "l \<equiv> rp_limits policy" and "nw \<equiv> virtualNetWorthKrw pf"
  shows "\<not> metadata_gap l after \<and>
    \<not> exceedsLimit (get_or_zero (ep_bySector after) (em_sector m))
        (rl_maxSectorExposureKrw l) (rl_maxSectorExposureRatio l) nw \<and>
    \<not> exceedsLimit (get_or_zero (ep_byCountry after) (em_country m))
        (rl_maxCountryExposureKrw l) (rl_maxCountryExposureRatio l) nw \<and>
    \<not> exceedsLimit (ep_currencyExposureKrw after)
        (rl_maxCurrencyExposureKrw l) (rl_maxCurrencyExposureRatio l) nw \<and>
    \<not> exceedsMappedLimit (get_or_zero (ep_byStrategyBucket after) (em_strategyBucket m))
        (bucket_key (em_strategyBucket m)) (rl_maxStrategyBucketExposureKrw l)
        (rl_maxStrategyBucketExposureRatio l) nw"
proof -
  have "evaluatePortfolioExposureRisk pkt pf d l (findCandidate pkt d)
      (no_targetNotionalKrw (normalizeVirtualDecision pkt pf d)) nw = []"
    unfolding l_def nw_def by (rule approved_buy [OF assms(1-3)])
  from exposure_limits_Nil [OF this assms(4)] show ?thesis unfolding m_def after_def by blast
qed

theorem approved_buy_within_exposure_witness:
  "\<not> exceedsLimit (num 200000) (Some (num 500000)) None (num 1100000)"
proof -
  obtain rd where rd: "evaluate_policy sample_env sample_packet sample_portfolio sample_buy
      sample_limits_policy = Inr rd" "rd_approved rd" using sample_limits_approved by blast
  from approved_buy_within_exposure [OF rd] show ?thesis
    by (simp add: sample_eval get_or_zero_def no_limits_def)
qed

section \<open>The dynamic cash reserve\<close>

text \<open>
  C20. The dynamic reserve raises the static one.  For a net worth that is not negative and a
  base ratio of at most one, an assessed ratio lies between the base ratio and one, and the
  assessed amount is at least the base amount.
\<close>

theorem dynamic_reserve_raises_base:
  assumes "assessDynamicCashReserve pf r k (Some p) regime = Inr (Some a)"
    and "virtualNetWorthKrw pf = Fin w" and "0 \<le> w" and "r = Fin b" and "b \<le> 1" and "k \<noteq> NaN"
  shows "jle r (dca_minimumCashReserveRatio a) \<and> jle (Fin 0) (dca_minimumCashReserveRatio a) \<and>
    jle (dca_minimumCashReserveRatio a) (Fin 1) \<and>
    jle (dca_baseMinimumCashReserveKrw a) (dca_minimumCashReserveKrw a)"
proof -
  from assms(1) have v: "validateDynamicCashReservePolicy p = Inr ()"
    and a: "a = dynamic_assessment pf r k p regime"
    by (auto simp: assessDynamicCashReserve_def bind_result_Inr)
  obtain x where x: "dca_minimumCashReserveRatio a = boundedRatio (jmax_list x)"
    "list_all is_finite x" "r \<in> set x" "x \<noteq> []"
    using validated_ratios [OF v] assms(4) by (simp add: a dynamic_assessment_def Let_def)
  from foldl_jmax_finite [OF x(2,4)] have f: "is_finite (jmax_list x)" .
  then have "jle r (jmax_list x)"
    using foldl_jmax_ge [of NInf x] x(3) finite_not_special by (auto simp: jmax_list_def)
  from boundedRatio_ge [OF f this] assms(4,5) x(1) have ge: "jle r (dca_minimumCashReserveRatio a)" by simp
  note range = boundedRatio_range [of "jmax_list x", folded x(1)]
  then obtain s where s: "dca_minimumCashReserveRatio a = Fin s" "b \<le> s"
    using ge assms(4) by (cases "dca_minimumCashReserveRatio a") auto
  have "jle (jround (jmul (Fin w) r)) (jround (jmul (Fin w) (Fin s)))"
    using jround_mono [OF jmul_mono_right [OF assms(3) s(2)]] assms(4) by simp
  from jmax_mono_right [OF assms(6) this]
  have "jle (dca_baseMinimumCashReserveKrw a) (dca_minimumCashReserveKrw a)"
    using s(1) assms(2) by (simp add: a dynamic_assessment_def Let_def)
  with ge range show ?thesis by simp
qed

definition sample_reserve_policy :: DynamicCashReservePolicy where
  "sample_reserve_policy =
     \<lparr>dcr_lookbackDays = num 20, dcr_minSymbols = None, dcr_minSnapshotsPerSymbol = None, dcr_bullReturnThreshold = None,
     dcr_bearReturnThreshold = None, dcr_sidewaysAbsReturnThreshold = None, dcr_breadthThreshold = None,
      dcr_minimumCashReserveRatioFloor = None, dcr_regimeCashReserveRatios = [],
      dcr_highVolatilityReturnThreshold = None, dcr_highVolatilityCashReserveRatio = None\<rparr>"

theorem dynamic_reserve_raises_base_witness:
  "\<exists>a. assessDynamicCashReserve sample_portfolio (Fin (1/8)) (num 0) (Some sample_reserve_policy) None =
     Inr (Some a) \<and> jle (Fin (1/8)) (dca_minimumCashReserveRatio a) \<and>
     jle (dca_minimumCashReserveRatio a) (Fin 1)"
proof -
  obtain a where a: "assessDynamicCashReserve sample_portfolio (Fin (1/8)) (num 0)
      (Some sample_reserve_policy) None = Inr (Some a)"
    by (simp add: assessDynamicCashReserve_def validateDynamicCashReservePolicy_def bind_result_def
      check_that_def validateOptionalPositiveInteger_def validateOptionalRatio_def
      sample_reserve_policy_def)
  from dynamic_reserve_raises_base [OF a, of 1100000 "1/8"] a show ?thesis
    by (simp add: sample_eval)
qed

text \<open>
  C19. An invalid reserve policy stops every buy.  When a policy has a dynamic reserve whose
  look-back, counts or ratios are out of range, the evaluation of a buy throws, so it approves
  nothing; a valid policy never makes the assessment throw.
\<close>

theorem invalid_reserve_policy_throws:
  assumes "rl_dynamicCashReservePolicy (rp_limits policy) = Some p" and "dec_action d = VIRTUAL_BUY"
  shows "(\<exists>m. evaluate_policy env pkt pf d policy = Inl m \<and> policy_assessment pf policy = Inl m) \<longleftrightarrow>
    \<not> reserve_policy_valid p"
proof -
  have "(\<exists>m. policy_assessment pf policy = Inl m) \<longleftrightarrow> \<not> reserve_policy_valid p"
    using validate_policy_iff [of p] assms(1)
    by (cases "validateDynamicCashReservePolicy p")
      (auto simp: policy_assessment_def assessDynamicCashReserve_def bind_result_def)
  moreover have "policy_assessment pf policy = Inl m \<Longrightarrow> evaluate_policy env pkt pf d policy = Inl m" for m
    using assms(2) by (simp add: evaluate_policy_def branch_codes_def evaluateVirtualBuyRiskBranch_def
      bind_result_def)
  ultimately show ?thesis by blast
qed

theorem invalid_reserve_policy_throws_witness:
  "\<exists>m. evaluate_policy sample_env sample_packet sample_portfolio sample_buy
     (sample_policy\<lparr>rp_limits := no_limits\<lparr>rl_dynamicCashReservePolicy :=
        Some (sample_reserve_policy\<lparr>dcr_lookbackDays := num 0\<rparr>)\<rparr>\<rparr>) = Inl m"
proof -
  let ?p = "sample_reserve_policy\<lparr>dcr_lookbackDays := num 0\<rparr>"
  let ?policy = "sample_policy\<lparr>rp_limits := no_limits\<lparr>rl_dynamicCashReservePolicy := Some ?p\<rparr>\<rparr>"
  have p: "rl_dynamicCashReservePolicy (rp_limits ?policy) = Some ?p" by simp
  have "\<not> reserve_policy_valid ?p" by (simp add: reserve_policy_valid_def positive_integer_def)
  with invalid_reserve_policy_throws [OF p sample_decision_fields(1),
      of sample_env sample_packet sample_portfolio] show ?thesis by blast
qed

section \<open>Hedges\<close>

lemma jadd_neg_le: "reducesNetDownsideExposure down (jneg gross) \<Longrightarrow>
  jlt (Fin 0) down \<and> jle (Fin 0) (jadd down (jneg gross)) \<and> jlt (jadd down (jneg gross)) down"
  by (cases down) (auto simp: reducesNetDownsideExposure_def Let_def split: if_splits)

text \<open>
  C21. A hedge that is admitted reduces the downside.  When the hedge policy raises no code for a
  candidate that is a hedge, the candidate is an inverse exposure with complete metadata, the
  portfolio has a positive net downside, and adding the hedge lowers it without making it
  negative.
\<close>

theorem admitted_hedge_reduces_downside:
  assumes "evaluateHedgePolicy pf (Some c) n (Some hp) = []" and "hedge_like c" and "\<not> jle n (Fin 0)"
  defines "gross \<equiv> effectiveExposureKrw (cand_assetClass c) (cand_riskTags c) n"
    and "down \<equiv> ds_netDownsideExposureKrw (summarizePortfolioDownsideExposure pf)"
  shows "isInverseExposure (cand_assetClass c) (cand_riskTags c) \<and>
    cand_assetType c \<noteq> None \<and> cand_assetClass c \<noteq> None \<and> cand_strategyBucket c \<noteq> None \<and>
    jlt (Fin 0) down \<and> jle (Fin 0) (jadd down (jneg gross)) \<and> jlt (jadd down (jneg gross)) down \<and>
    \<not> exceedsGrossExposureLimit pf gross hp"
proof -
  note h = hedge_admitted [OF assms(1-3), folded gross_def down_def]
  from h(1,2,4) jadd_neg_le [OF h(3)] show ?thesis by blast
qed

definition sample_hedge :: MarketCandidate where
  "sample_hedge = sample_candidate\<lparr>cand_assetType := Some ETF, cand_assetClass := Some Inverse,
     cand_strategyBucket := Some HedgeBucket\<rparr>"

definition sample_hedge_policy :: HedgePolicy where
  "sample_hedge_policy =
     \<lparr>hp_maxGrossExposureKrw = Some (num 500000), hp_maxGrossExposureRatio = None,
      hp_requireHedgeBucket = None\<rparr>"

lemma sample_position_exposure [sample_eval]:
  "positionExposureValueKrw sample_position = num 100000" "pf_positions sample_portfolio = [sample_position]"
  "pos_assetClass sample_position = Some Equity" "pos_riskTags sample_position = None"
  by (simp_all add: positionExposureValueKrw_def position_value_def sample_eval sample_portfolio_def
    sample_position_def)

theorem admitted_hedge_reduces_downside_witness:
  "evaluateHedgePolicy sample_portfolio (Some sample_hedge) (num 40000) (Some sample_hedge_policy) = [] \<and>
   jlt (jadd (num 100000) (jneg (num 40000))) (num 100000)"
proof -
  have down: "ds_netDownsideExposureKrw (summarizePortfolioDownsideExposure sample_portfolio) = num 100000"
    "\<not> ds_metadataMissing (summarizePortfolioDownsideExposure sample_portfolio)"
    by (simp_all add: summarizePortfolioDownsideExposure_def downside_step.simps
      downsideExposureContribution_def isInverseExposure_def position_effective_def Let_def
      effectiveExposureKrw_def isLeveragedExposure_def sample_eval num_eval)
  have gross: "effectiveExposureKrw (cand_assetClass sample_hedge) (cand_riskTags sample_hedge) (Fin 40000) =
      Fin 40000"
    by (simp add: effectiveExposureKrw_def isLeveragedExposure_def sample_hedge_def sample_candidate_def num_eval)
  have e: "evaluateHedgePolicy sample_portfolio (Some sample_hedge) (num 40000) (Some sample_hedge_policy) = []"
    using down gross
    by (simp add: evaluateHedgePolicy_def sample_hedge_policy_def sample_hedge_def sample_candidate_def
      hedge_like_def isInverseExposure_def reducesNetDownsideExposure_def exceedsGrossExposureLimit_def
      currentEffectiveGrossExposureKrw_def position_effective_def effectiveExposureKrw_def
      isLeveragedExposure_def Let_def sample_eval num_eval)
  have "hedge_like sample_hedge" by (simp add: hedge_like_def sample_hedge_def isInverseExposure_def)
  from admitted_hedge_reduces_downside [OF e this] down gross e show ?thesis by simp
qed

section \<open>The exposure aggregate\<close>

lemma get_or_zero_zeros: "(\<And>k v. (k, v) \<in> set m \<Longrightarrow> v = Fin 0) \<Longrightarrow> get_or_zero m key = Fin 0"
  by (auto simp: get_or_zero_def or_else_def dest: map_of_SomeD split: option.split)

lemma sum_partition:
  "sum_list (map g (filter P xs)) + sum_list (map g (filter (\<lambda>x. \<not> P x) xs)) = (sum_list (map g xs) :: int)"
  by (induction xs) auto

text \<open>
  C22. The aggregate is the exact sum of the positions.  As long as the values of the positions
  add up to a safe integer, the exposure reported under a market and under a strategy bucket is
  the sum of the values of the positions of that key, without rounding, and the two markets
  add up to the total.
\<close>

theorem exposure_is_exact_sum:
  assumes "values_safe pf"
  shows "get_or_zero (et_byMarketKrw (exposure_totals pf)) m =
      num (sum_list (map whole_value (filter (\<lambda>p. pos_market p = m) (pf_positions pf)))) \<and>
    get_or_zero (et_byStrategyBucketKrw (exposure_totals pf)) b =
      num (sum_list (map whole_value (filter (\<lambda>p. pos_strategyBucket p = b) (pf_positions pf)))) \<and>
    et_totalGrossExposureKrw (exposure_totals pf) = num (sum_list (map whole_value (pf_positions pf))) \<and>
    jadd (get_or_zero (et_byMarketKrw (exposure_totals pf)) KR)
      (get_or_zero (et_byMarketKrw (exposure_totals pf)) US) = et_totalGrossExposureKrw (exposure_totals pf)"
proof -
  let ?sum = "\<lambda>P. sum_list (map whole_value (filter P (pf_positions pf)))"
  note v = foldl_values [OF assms]
  have zero: "get_or_zero (et_byMarketKrw zero_totals) k = Fin 0"
    "get_or_zero (et_byStrategyBucketKrw zero_totals) k' = Fin 0" for k k'
    by (rule get_or_zero_zeros, auto simp: zero_totals_def)+
  have market: "get_or_zero (et_byMarketKrw (exposure_totals pf)) k = num (?sum (\<lambda>p. pos_market p = k))" for k
    unfolding exposure_totals_def totals_by_market increment.read_loop zero by (rule v)
  have bucket: "get_or_zero (et_byStrategyBucketKrw (exposure_totals pf)) k =
      num (?sum (\<lambda>p. pos_strategyBucket p = k))" for k
    unfolding exposure_totals_def totals_by_bucket increment.read_loop zero by (rule v)
  have gross: "et_totalGrossExposureKrw (exposure_totals pf) = num (sum_list (map whole_value (pf_positions pf)))"
    using v [of "\<lambda>_. True"] by (simp add: exposure_totals_def totals_gross zero_totals_def)
  have kr: "(\<lambda>p. pos_market p \<noteq> KR) = (\<lambda>p. pos_market p = US)"
    by (rule ext, case_tac "pos_market p") auto
  have part: "?sum (\<lambda>p. pos_market p = KR) + ?sum (\<lambda>p. pos_market p = US) =
      sum_list (map whole_value (pf_positions pf))"
    using sum_partition [of whole_value "\<lambda>p. pos_market p = KR" "pf_positions pf"] unfolding kr .
  have nonneg: "0 \<le> whole_value p" if "p \<in> set (pf_positions pf)" for p
    using assms that whole_value_num(2) by (auto simp: values_safe_def list_all_iff)
  then have "0 \<le> sum_list (map whole_value (pf_positions pf))" by (intro sum_list_nonneg) auto
  then have "jadd (num (?sum (\<lambda>p. pos_market p = KR))) (num (?sum (\<lambda>p. pos_market p = US))) =
      num (sum_list (map whole_value (pf_positions pf)))"
    using assms mk_of_int [of "sum_list (map whole_value (pf_positions pf))"]
    by (simp add: values_safe_def of_int_add [symmetric] part del: of_int_add)
  then show ?thesis using market bucket gross by simp
qed

theorem exposure_is_exact_sum_witness:
  "values_safe sample_portfolio \<and>
   get_or_zero (et_byMarketKrw (exposure_totals sample_portfolio)) KR = num 100000"
proof -
  have v: "values_safe sample_portfolio"
    by (simp add: values_safe_def sample_eval whole_value_def money_def is_safe_integer_def
      MAX_SAFE_INTEGER_def)
  have "pos_market sample_position = KR" by (simp add: sample_position_def)
  with exposure_is_exact_sum [OF v, of KR] v show ?thesis
    by (simp add: sample_eval whole_value_def)
qed

section \<open>Sizing\<close>

text \<open>
  A buy is sized below every cap.  The sized amount is one of the amounts it is the
  minimum of, and not above the budget of the decision, the budget per symbol of the packet, the
  budget per decision and the additional budget of its allocation, nor that of the market.
\<close>

theorem buy_sized_below_caps:
  fixes pf :: VirtualPortfolio
  assumes "dec_action d = VIRTUAL_BUY" and "NaN \<notin> set (buy_budgets pkt d)"
  defines "n \<equiv> no_targetNotionalKrw (normalizeVirtualDecision pkt pf d)"
  shows "n \<in> set (buy_budgets pkt d) \<and> jle n (dec_budgetKrw d) \<and> jle n (pkt_maxBudgetPerSymbolKrw pkt) \<and>
    (\<forall>a. pkt_portfolioAllocation pkt = Some a \<longrightarrow>
       jle n (alloc_maxBudgetPerDecisionKrw a) \<and> jle n (alloc_maxAdditionalBuyBudgetKrw a) \<and>
       (\<forall>c. alloc_marketAdditionalBuyBudgetKrw a (dec_market d) = Some c \<longrightarrow> jle n c))"
proof -
  have n: "n = jmin_list (buy_budgets pkt d)" unfolding n_def by (rule buy_notional [OF assms(1)])
  have ne: "n \<noteq> NaN" using assms(2) by (simp add: n jmin_list_NaN)
  have le: "x \<in> set (buy_budgets pkt d) \<Longrightarrow> jle n x" for x
    using jmin_list_le ne unfolding n by blast
  have budget: "dec_budgetKrw d \<in> set (buy_budgets pkt d)" by (simp add: buy_budgets_def Let_def)
  have "n \<in> set (buy_budgets pkt d)"
  proof -
    have "n \<in> {NaN, PInf} \<union> set (buy_budgets pkt d)" unfolding n jmin_list_def by (rule foldl_jmin_in)
    moreover have "n = PInf \<Longrightarrow> dec_budgetKrw d = PInf" using le [OF budget] by simp
    ultimately show ?thesis using ne budget by auto
  qed
  moreover have "pkt_maxBudgetPerSymbolKrw pkt \<in> set (buy_budgets pkt d)"
    by (simp add: buy_budgets_def Let_def)
  moreover have "pkt_portfolioAllocation pkt = Some a \<Longrightarrow>
      alloc_maxBudgetPerDecisionKrw a \<in> set (buy_budgets pkt d) \<and>
      alloc_maxAdditionalBuyBudgetKrw a \<in> set (buy_budgets pkt d)" for a
    by (simp add: buy_budgets_def Let_def)
  moreover have "pkt_portfolioAllocation pkt = Some a \<Longrightarrow>
      alloc_marketAdditionalBuyBudgetKrw a (dec_market d) = Some c \<Longrightarrow>
      c \<in> set (buy_budgets pkt d)" for a c
    by (simp add: buy_budgets_def Let_def)
  ultimately show ?thesis using budget le by blast
qed

theorem buy_sized_below_caps_witness:
  "jle (no_targetNotionalKrw (normalizeVirtualDecision sample_packet sample_portfolio sample_buy)) (num 300000)"
  using buy_sized_below_caps [of sample_buy sample_packet sample_portfolio]
  by (simp add: sample_eval buy_budgets_def Let_def MAX_SAFE_INTEGER_def)

text \<open>
  A sell is sized by the position.  With a position and a price the sized amount is the
  smaller of what the decision asks for and the rounded value of the position, and the order is
  reduce-only; whatever sizing field the decision used.
\<close>

theorem sell_sized_by_position:
  assumes "dec_action d = VIRTUAL_SELL" and "find_position pf d = Some p"
    and "findCandidate pkt d = Some c" and "cand_lastPriceKrw c = Some price"
    and "sellTargetNotionalKrw d pf (pos_quantity p) price \<noteq> NaN"
    and "jround (jmul (pos_quantity p) price) \<noteq> NaN"
  shows "jle (no_targetNotionalKrw (normalizeVirtualDecision pkt pf d))
      (jround (jmul (pos_quantity p) price)) \<and>
    jle (no_targetNotionalKrw (normalizeVirtualDecision pkt pf d))
      (sellTargetNotionalKrw d pf (pos_quantity p) price) \<and>
    no_reduceOnly (normalizeVirtualDecision pkt pf d) \<and>
    (dec_sellAll d = Some True \<longrightarrow> no_targetNotionalKrw (normalizeVirtualDecision pkt pf d) =
       jround (jmul (pos_quantity p) price))"
proof -
  note s = sell_order [OF assms(1-4)]
  have "dec_sellAll d = Some True \<Longrightarrow>
      sellTargetNotionalKrw d pf (pos_quantity p) price = jround (jmul (pos_quantity p) price)"
    by (simp add: sellTargetNotionalKrw_def)
  moreover have "jmin x x = x" for x by (cases x) (auto simp: jmin_def)
  ultimately show ?thesis using s jmin_le [OF assms(5,6)] by auto
qed

theorem sell_sized_by_position_witness:
  "jle (no_targetNotionalKrw (normalizeVirtualDecision sample_packet sample_portfolio sample_sell))
     (jround (jmul (num 2) (num 50000)))"
  using sell_sized_by_position [OF sample_decision_fields(2) sample_find(2,4) sample_candidate_fields(1)]
  by (simp add: sample_eval sellTargetNotionalKrw_def)

end
