(* ===== verification/RegimeClassifier.thy ===== *)
theory RegimeClassifier
  imports PaperExposure
begin

text \<open>
  The market regime classifier (\<open>src/analytics/marketRegimeClassifier.ts\<close>) and the call of it by the
  cash reserve policy.  A \<open>Date\<close> is its time value; \<open>collate\<close> is \<open>localeCompare\<close>.
\<close>

record MarketRegimeClassifierOptions =
  ro_snapshots :: "HistoricalMarketSnapshot list"
  ro_windowStart :: jsnum
  ro_windowEnd :: jsnum
  ro_minSymbols :: "jsnum option"
  ro_minSnapshotsPerSymbol :: "jsnum option"
  ro_bullReturnThreshold :: "jsnum option"
  ro_bearReturnThreshold :: "jsnum option"
  ro_sidewaysAbsReturnThreshold :: "jsnum option"
  ro_breadthThreshold :: "jsnum option"

record RegimeThresholds =
  rt_bullReturnThreshold :: jsnum
  rt_bearReturnThreshold :: jsnum
  rt_sidewaysAbsReturnThreshold :: jsnum
  rt_breadthThreshold :: jsnum

text \<open>The classification with all of its fields; the cash reserve reads the first two.\<close>

record FullRegimeClassification = MarketRegimeClassification +
  frc_windowStart :: string
  frc_windowEnd :: string
  frc_symbolCount :: nat
  frc_classifiedSymbolCount :: nat
  frc_averageReturnRatio :: "jsnum option"
  frc_medianReturnRatio :: "jsnum option"
  frc_advancingSymbolRatio :: "jsnum option"
  frc_decliningSymbolRatio :: "jsnum option"
  frc_flatSymbolRatio :: "jsnum option"
  frc_minSymbols :: jsnum
  frc_minSnapshotsPerSymbol :: jsnum
  frc_thresholds :: RegimeThresholds
  frc_reasons :: "string list"

section \<open>Validation\<close>

definition validateDate :: "jsnum \<Rightarrow> string \<Rightarrow> unit result" where
  "validateDate value label = check_that (is_finite value) (label @ '' must be a valid date'')"

definition validatePositiveCount :: "jsnum \<Rightarrow> string \<Rightarrow> unit result" where
  "validatePositiveCount value label =
     check_that (is_integer value \<and> \<not> jle value (Fin 0)) (label @ '' must be a positive integer'')"

definition option_minSymbols :: "MarketRegimeClassifierOptions \<Rightarrow> jsnum" where
  "option_minSymbols opts = or_else (ro_minSymbols opts) (Fin 1)"

definition option_minSnapshots :: "MarketRegimeClassifierOptions \<Rightarrow> jsnum" where
  "option_minSnapshots opts = or_else (ro_minSnapshotsPerSymbol opts) (Fin 2)"

definition validateClassifierOptions :: "MarketRegimeClassifierOptions \<Rightarrow> unit result" where
  "validateClassifierOptions opts =
     bind_result (validateDate (ro_windowStart opts) ''windowStart'') (\<lambda>_.
     bind_result (validateDate (ro_windowEnd opts) ''windowEnd'') (\<lambda>_.
     bind_result (check_that (\<not> jlt (ro_windowEnd opts) (ro_windowStart opts))
         ''windowStart must be before or equal to windowEnd'') (\<lambda>_.
     bind_result (validatePositiveCount (option_minSymbols opts) ''minSymbols'') (\<lambda>_.
     validatePositiveCount (option_minSnapshots opts) ''minSnapshotsPerSymbol''))))"

definition option_thresholds :: "MarketRegimeClassifierOptions \<Rightarrow> RegimeThresholds" where
  "option_thresholds opts =
     \<lparr>rt_bullReturnThreshold = or_else (ro_bullReturnThreshold opts) (lit (3/100)),
      rt_bearReturnThreshold = or_else (ro_bearReturnThreshold opts) (lit (-3/100)),
      rt_sidewaysAbsReturnThreshold = or_else (ro_sidewaysAbsReturnThreshold opts) (lit (1/100)),
      rt_breadthThreshold = or_else (ro_breadthThreshold opts) (lit (6/10))\<rparr>"

section \<open>Window and groups\<close>

definition isInsideWindow :: "js_env \<Rightarrow> HistoricalMarketSnapshot \<Rightarrow> jsnum \<Rightarrow> jsnum \<Rightarrow> bool" where
  "isInsideWindow env s windowStart windowEnd \<longleftrightarrow>
     (let observedAt = date_parse env (snap_observedAt s)
      in jle windowStart observedAt \<and> jle observedAt windowEnd)"

text \<open>\<open>compareSnapshots(left, right) <= 0\<close>.\<close>

definition snapshot_before ::
  "js_env \<Rightarrow> (string \<Rightarrow> string \<Rightarrow> int) \<Rightarrow> HistoricalMarketSnapshot \<Rightarrow> HistoricalMarketSnapshot \<Rightarrow> bool" where
  "snapshot_before env collate l r =
     (let timeDiff = jsub (date_parse env (snap_observedAt l)) (date_parse env (snap_observedAt r));
          marketDiff = collate (market_str (snap_market l)) (market_str (snap_market r))
      in if \<not> jeq timeDiff (Fin 0) then \<not> jlt (Fin 0) timeDiff
         else if marketDiff \<noteq> 0 then marketDiff \<le> 0
         else collate (snap_symbol l) (snap_symbol r) \<le> 0)"

definition return_before ::
  "(string \<Rightarrow> string \<Rightarrow> int) \<Rightarrow> MarketRegimeSymbolReturn \<Rightarrow> MarketRegimeSymbolReturn \<Rightarrow> bool" where
  "return_before collate l r =
     (let marketDiff = collate (market_str (msr_market l)) (market_str (msr_market r))
      in if marketDiff \<noteq> 0 then marketDiff \<le> 0 else collate (msr_symbol l) (msr_symbol r) \<le> 0)"

definition snapshot_key :: "HistoricalMarketSnapshot \<Rightarrow> string" where
  "snapshot_key s = market_str (snap_market s) @ '':'' @ snap_symbol s"

text \<open>A \<open>Map\<close> is the list of its entries in insertion order.\<close>

definition group_step ::
  "(string \<times> HistoricalMarketSnapshot list) list \<Rightarrow> HistoricalMarketSnapshot \<Rightarrow>
   (string \<times> HistoricalMarketSnapshot list) list" where
  "group_step groups s =
     (if snapshot_key s \<notin> set (map fst groups) then groups @ [(snapshot_key s, [s])]
      else map (\<lambda>(k, v). (k, if k = snapshot_key s then v @ [s] else v)) groups)"

definition groupBySymbol ::
  "HistoricalMarketSnapshot list \<Rightarrow> (string \<times> HistoricalMarketSnapshot list) list" where
  "groupBySymbol snapshots = foldl group_step [] snapshots"

definition toSymbolReturn :: "HistoricalMarketSnapshot list \<Rightarrow> MarketRegimeSymbolReturn" where
  "toSymbolReturn snapshots =
     (let first = hd snapshots; final = last snapshots
      in \<lparr>msr_market = snap_market first, msr_symbol = snap_symbol first,
          msr_snapshotCount = length snapshots,
          msr_firstObservedAt = snap_observedAt first, msr_lastObservedAt = snap_observedAt final,
          msr_firstPriceKrw = snap_lastPriceKrw first, msr_lastPriceKrw = snap_lastPriceKrw final,
          msr_returnRatio =
            roundRatio (jdiv (jsub (snap_lastPriceKrw final) (snap_lastPriceKrw first))
              (snap_lastPriceKrw first))\<rparr>)"

section \<open>Statistics and label\<close>

definition average :: "jsnum list \<Rightarrow> jsnum" where
  "average values = jdiv (foldl jadd (Fin 0) values) (num (int (length values)))"

text \<open>The comparison \<open>left - right <= 0\<close> of the numeric sort.\<close>

definition numeric_before :: "jsnum \<Rightarrow> jsnum \<Rightarrow> bool" where
  "numeric_before l r \<longleftrightarrow> \<not> jlt (Fin 0) (jsub l r)"

definition item_or_zero :: "jsnum list \<Rightarrow> nat \<Rightarrow> jsnum" where
  "item_or_zero xs i = (if i < length xs then xs ! i else Fin 0)"

definition median :: "jsnum list \<Rightarrow> jsnum" where
  "median values =
     (let sorted = sort_by numeric_before values; midpoint = length sorted div 2
      in if length sorted mod 2 = 1 then sorted ! midpoint
         else jdiv (jadd (item_or_zero sorted (midpoint - 1)) (item_or_zero sorted midpoint)) (Fin 2))"

definition share_of :: "(jsnum \<Rightarrow> bool) \<Rightarrow> jsnum list \<Rightarrow> jsnum" where
  "share_of P values =
     roundRatio (jdiv (num (int (length (filter P values)))) (num (int (length values))))"

definition regimeLabel ::
  "jsnum \<Rightarrow> jsnum \<Rightarrow> jsnum \<Rightarrow> RegimeThresholds \<Rightarrow> MarketRegimeLabel \<times> string list" where
  "regimeLabel averageReturnRatio advancingSymbolRatio decliningSymbolRatio t =
     (if jle (rt_bullReturnThreshold t) averageReturnRatio \<and>
         jle (rt_breadthThreshold t) advancingSymbolRatio
      then (RegimeBull, [''POSITIVE_RETURN_AND_BREADTH''])
      else if jle averageReturnRatio (rt_bearReturnThreshold t) \<and>
         jle (rt_breadthThreshold t) decliningSymbolRatio
      then (RegimeBear, [''NEGATIVE_RETURN_AND_BREADTH''])
      else if jle (jabs averageReturnRatio) (rt_sidewaysAbsReturnThreshold t)
      then (RegimeSideways, [''LOW_ABSOLUTE_AVERAGE_RETURN''])
      else (RegimeMixed, [''DIRECTION_OR_BREADTH_MIXED'']))"

section \<open>Classification\<close>

definition window_snapshots ::
  "js_env \<Rightarrow> (string \<Rightarrow> string \<Rightarrow> int) \<Rightarrow> MarketRegimeClassifierOptions \<Rightarrow> HistoricalMarketSnapshot list" where
  "window_snapshots env collate opts =
     sort_by (snapshot_before env collate)
       (filter (\<lambda>s. isInsideWindow env s (ro_windowStart opts) (ro_windowEnd opts)) (ro_snapshots opts))"

definition symbol_returns ::
  "js_env \<Rightarrow> (string \<Rightarrow> string \<Rightarrow> int) \<Rightarrow> MarketRegimeClassifierOptions \<Rightarrow> MarketRegimeSymbolReturn list" where
  "symbol_returns env collate opts =
     sort_by (return_before collate)
       (map toSymbolReturn
         (filter (\<lambda>v. jle (option_minSnapshots opts) (num (int (length v))))
           (map snd (groupBySymbol (window_snapshots env collate opts)))))"

definition baseClassification ::
  "MarketRegimeClassifierOptions \<Rightarrow> string \<Rightarrow> string \<Rightarrow> nat \<Rightarrow> MarketRegimeSymbolReturn list \<Rightarrow>
   FullRegimeClassification" where
  "baseClassification opts startText endText symbolCount returns =
     \<lparr>mrc_label = RegimeInsufficientData, mrc_symbolReturns = returns,
      frc_windowStart = startText, frc_windowEnd = endText, frc_symbolCount = symbolCount,
      frc_classifiedSymbolCount = length returns,
      frc_averageReturnRatio = None, frc_medianReturnRatio = None,
      frc_advancingSymbolRatio = None, frc_decliningSymbolRatio = None, frc_flatSymbolRatio = None,
      frc_minSymbols = option_minSymbols opts, frc_minSnapshotsPerSymbol = option_minSnapshots opts,
      frc_thresholds = option_thresholds opts, frc_reasons = [''INSUFFICIENT_CLASSIFIABLE_SYMBOLS'']\<rparr>"

definition classifyMarketRegime ::
  "js_env \<Rightarrow> (string \<Rightarrow> string \<Rightarrow> int) \<Rightarrow> MarketRegimeClassifierOptions \<Rightarrow>
   FullRegimeClassification result" where
  "classifyMarketRegime env collate opts =
     bind_result (validateClassifierOptions opts) (\<lambda>_.
       let groups = groupBySymbol (window_snapshots env collate opts);
           items = symbol_returns env collate opts;
           values = map msr_returnRatio items;
           averageRatio = roundRatio (average values);
           advancing = share_of (jlt (Fin 0)) values;
           declining = share_of (\<lambda>v. jlt v (Fin 0)) values
       in bind_result (to_iso (ro_windowStart opts)) (\<lambda>startText.
          bind_result (to_iso (ro_windowEnd opts)) (\<lambda>endText.
            if jlt (num (int (length items))) (option_minSymbols opts)
            then Inr (baseClassification opts startText endText (length groups) items)
            else
              let (label, reasons) = regimeLabel averageRatio advancing declining (option_thresholds opts)
              in Inr \<lparr>mrc_label = label, mrc_symbolReturns = items,
                  frc_windowStart = startText, frc_windowEnd = endText,
                  frc_symbolCount = length groups,
                  frc_classifiedSymbolCount = length items,
                  frc_averageReturnRatio = Some averageRatio,
                  frc_medianReturnRatio = Some (roundRatio (median values)),
                  frc_advancingSymbolRatio = Some advancing,
                  frc_decliningSymbolRatio = Some declining,
                  frc_flatSymbolRatio = Some (share_of (\<lambda>v. jeq v (Fin 0)) values),
                  frc_minSymbols = option_minSymbols opts,
                  frc_minSnapshotsPerSymbol = option_minSnapshots opts,
                  frc_thresholds = option_thresholds opts, frc_reasons = reasons\<rparr>)))"

definition classify_market_step ::
  "js_env \<Rightarrow> (string \<Rightarrow> string \<Rightarrow> int) \<Rightarrow> MarketRegimeClassifierOptions \<Rightarrow>
   (Market \<times> FullRegimeClassification) list \<Rightarrow> Market \<Rightarrow>
   (Market \<times> FullRegimeClassification) list result" where
  "classify_market_step env collate opts acc market =
     bind_result (classifyMarketRegime env collate
         (opts\<lparr>ro_snapshots := filter (\<lambda>s. snap_market s = market) (ro_snapshots opts)\<rparr>))
       (\<lambda>c. Inr (acc @ [(market, c)]))"

definition classifyMarketRegimeByMarket ::
  "js_env \<Rightarrow> (string \<Rightarrow> string \<Rightarrow> int) \<Rightarrow> MarketRegimeClassifierOptions \<Rightarrow>
   (Market \<times> FullRegimeClassification) list result" where
  "classifyMarketRegimeByMarket env collate opts =
     bind_result (validateClassifierOptions opts) (\<lambda>_.
       let markets = sort_by (\<lambda>a b. str_le (market_str a) (market_str b))
             (dedup (map snap_market
               (filter (\<lambda>s. isInsideWindow env s (ro_windowStart opts) (ro_windowEnd opts)) (ro_snapshots opts))))
       in fold_result (classify_market_step env collate opts) [] markets)"

section \<open>The regime of the cash reserve\<close>

text \<open>\<open>new Date(t)\<close>: a time value out of range is invalid, a fraction is cut off.\<close>

definition time_clip :: "jsnum \<Rightarrow> jsnum" where
  "time_clip t =
     (case t of Fin x \<Rightarrow> if \<bar>x\<bar> \<le> 8640000000000000 then Fin (of_int (if 0 \<le> x then \<lfloor>x\<rfloor> else \<lceil>x\<rceil>)) else NaN
      | _ \<Rightarrow> NaN)"

definition classifyDynamicCashReserveRegime ::
  "js_env \<Rightarrow> (string \<Rightarrow> string \<Rightarrow> int) \<Rightarrow> HistoricalMarketSnapshot list \<Rightarrow> jsnum \<Rightarrow>
   DynamicCashReservePolicy \<Rightarrow> FullRegimeClassification result" where
  "classifyDynamicCashReserveRegime env collate snapshots simulatedAt p =
     bind_result (validateDynamicCashReservePolicy p) (\<lambda>_.
     bind_result (validateDate simulatedAt ''simulatedAt'') (\<lambda>_.
       classifyMarketRegime env collate
         \<lparr>ro_snapshots = snapshots,
          ro_windowStart = time_clip (jsub simulatedAt (jmul (dcr_lookbackDays p) (Fin 86400000))),
          ro_windowEnd = simulatedAt, ro_minSymbols = dcr_minSymbols p,
          ro_minSnapshotsPerSymbol = dcr_minSnapshotsPerSymbol p,
          ro_bullReturnThreshold = dcr_bullReturnThreshold p,
          ro_bearReturnThreshold = dcr_bearReturnThreshold p,
          ro_sidewaysAbsReturnThreshold = dcr_sidewaysAbsReturnThreshold p,
          ro_breadthThreshold = dcr_breadthThreshold p\<rparr>))"

section \<open>Groups and order\<close>

lemma dedup_snoc: "dedup (xs @ [x]) = (if x \<in> set xs then dedup xs else dedup xs @ [x])"
  by (simp add: dedup_def)

text \<open>The groups are the snapshots of each key, in the order in which the keys appear.\<close>

lemma groups_by_key:
  "groupBySymbol xs = map (\<lambda>k. (k, filter (\<lambda>s. snapshot_key s = k) xs)) (dedup (map snapshot_key xs))"
proof (induction xs rule: rev_induct)
  case (snoc x xs)
  have step: "groupBySymbol (xs @ [x]) = group_step (groupBySymbol xs) x" by (simp add: groupBySymbol_def)
  have keys: "set (map fst (groupBySymbol xs)) = set (map snapshot_key xs)"
    by (simp add: snoc.IH comp_def)
  show ?case
  proof (cases "snapshot_key x \<in> set (map snapshot_key xs)")
    case True
    then show ?thesis
      unfolding step group_step_def keys by (auto simp: snoc.IH dedup_snoc)
  next
    case False
    then have "\<forall>s\<in>set xs. snapshot_key s \<noteq> snapshot_key x" by (metis imageI list.set_map)
    then have "filter (\<lambda>s. snapshot_key s = snapshot_key x) xs = []" by (simp add: filter_empty_conv)
    moreover have "k \<noteq> snapshot_key x" if "k \<in> set (dedup (map snapshot_key xs))" for k
      using that False by (metis set_dedup)
    ultimately show ?thesis
      using False unfolding step group_step_def keys by (auto simp: snoc.IH dedup_snoc)
  qed
qed (simp add: groupBySymbol_def dedup_def)

lemma snapshot_key_eq:
  "snapshot_key s = snapshot_key t \<longleftrightarrow> snap_market s = snap_market t \<and> snap_symbol s = snap_symbol t"
  by (cases "snap_market s"; cases "snap_market t") (simp_all add: snapshot_key_def)

text \<open>A sort whose comparison refines the order of a key sorts by the key.\<close>

lemma sorted_by_key:
  fixes key :: "'a \<Rightarrow> jsnum"
  assumes "\<And>x y. x \<in> A \<Longrightarrow> y \<in> A \<Longrightarrow> le x y \<Longrightarrow> jle (key x) (key y)"
    and "\<And>x y. x \<in> A \<Longrightarrow> y \<in> A \<Longrightarrow> \<not> le x y \<Longrightarrow> jle (key y) (key x)"
    and "set xs \<subseteq> A"
  shows "sorted_wrt (\<lambda>x y. jle (key x) (key y)) (sort_by le xs)"
proof -
  have insert: "sorted_wrt (\<lambda>x y. jle (key x) (key y)) (insert_by le x ys)"
    if "x \<in> A" "set ys \<subseteq> A" "sorted_wrt (\<lambda>x y. jle (key x) (key y)) ys" for x ys
    using that
  proof (induction ys)
    case (Cons y ys)
    have set: "set (insert_by le x ys) = insert x (set ys)"
      using mset_eq_setD [of "insert_by le x ys" "x # ys"] by simp
    show ?case
    proof (cases "le x y")
      case True
      then have "jle (key x) (key y)" using assms(1) Cons.prems by simp
      then show ?thesis using True Cons.prems(3) by (auto intro: jle_trans)
    next
      case False
      then have "jle (key y) (key x)" using assms(2) Cons.prems by simp
      then show ?thesis using False Cons set by auto
    qed
  qed simp
  show ?thesis
    using assms(3)
  proof (induction xs)
    case (Cons x xs)
    then have "sorted_wrt (\<lambda>x y. jle (key x) (key y)) (insert_by le x (sort_by le xs))"
      by (intro insert) simp_all
    then show ?case by (simp add: sort_by_def)
  qed (simp add: sort_by_def)
qed

text \<open>A time value is a whole number of milliseconds.\<close>

definition dated :: "js_env \<Rightarrow> HistoricalMarketSnapshot \<Rightarrow> bool" where
  "dated env s \<longleftrightarrow>
     (case date_parse env (snap_observedAt s) of Fin x \<Rightarrow> x = of_int \<lfloor>x\<rfloor> | _ \<Rightarrow> False)"

lemma mk_int_sign: "jlt (Fin 0) (mk (of_int d)) \<longleftrightarrow> 0 < d"
  "jeq (mk (of_int d)) (Fin 0) \<longleftrightarrow> d = 0"
proof -
  have one: "mk 1 = Fin 1" using mk_of_int [of 1] by simp
  have pos: "jlt (Fin 0) (mk (of_int d)) \<and> \<not> jeq (mk (of_int d)) (Fin 0)" if "0 < d" for d
  proof -
    have "jle (Fin 1) (mk (of_int d))" using mk_mono [of 1 "of_int d"] that one by simp
    then show ?thesis by (cases "mk (of_int d)") (auto simp: jle_def jeq_def)
  qed
  have neg: "\<not> jlt (Fin 0) (mk (of_int d)) \<and> \<not> jeq (mk (of_int d)) (Fin 0)" if "d < 0" for d
  proof -
    have "jle (mk (of_int d)) (mk (of_int (-1)))" using that by (intro mk_mono) simp
    moreover have "mk (of_int (-1)) = Fin (-1)" using mk_of_int [of "-1"] by simp
    ultimately have "jle (mk (of_int d)) (Fin (-1))" by simp
    then show ?thesis by (cases "mk (of_int d)") (auto simp: jle_def jeq_def)
  qed
  show "jlt (Fin 0) (mk (of_int d)) \<longleftrightarrow> 0 < d" "jeq (mk (of_int d)) (Fin 0) \<longleftrightarrow> d = 0"
    using pos [of d] neg [of d] by (cases d "0::int" rule: linorder_cases; simp add: jeq_def)+
qed

lemma snapshot_before_time:
  assumes "dated env l" "dated env r"
  shows "snapshot_before env collate l r \<Longrightarrow>
      jle (date_parse env (snap_observedAt l)) (date_parse env (snap_observedAt r))"
    and "\<not> snapshot_before env collate l r \<Longrightarrow>
      jle (date_parse env (snap_observedAt r)) (date_parse env (snap_observedAt l))"
proof -
  obtain a b :: int where d: "date_parse env (snap_observedAt l) = Fin (of_int a)"
    "date_parse env (snap_observedAt r) = Fin (of_int b)"
    using assms by (auto simp: dated_def split: jsnum.splits)
  have diff: "jsub (Fin (of_int a)) (Fin (of_int b)) = mk (of_int (a - b))" by (simp add: jsub_def)
  show "snapshot_before env collate l r \<Longrightarrow>
      jle (date_parse env (snap_observedAt l)) (date_parse env (snap_observedAt r))"
    "\<not> snapshot_before env collate l r \<Longrightarrow>
      jle (date_parse env (snap_observedAt r)) (date_parse env (snap_observedAt l))"
    unfolding snapshot_before_def Let_def d diff mk_int_sign by (auto split: if_splits)
qed

section \<open>The return of each symbol\<close>

definition of_symbol :: "Market \<Rightarrow> string \<Rightarrow> HistoricalMarketSnapshot \<Rightarrow> bool" where
  "of_symbol m k s \<longleftrightarrow> snap_market s = m \<and> snap_symbol s = k"

definition in_window :: "js_env \<Rightarrow> MarketRegimeClassifierOptions \<Rightarrow> HistoricalMarketSnapshot list" where
  "in_window env opts =
     filter (\<lambda>s. isInsideWindow env s (ro_windowStart opts) (ro_windowEnd opts)) (ro_snapshots opts)"

text \<open>A return is that of a symbol when it compares the first with the last of its snapshots.\<close>

definition return_of ::
  "js_env \<Rightarrow> HistoricalMarketSnapshot list \<Rightarrow> MarketRegimeSymbolReturn \<Rightarrow> bool" where
  "return_of env ss r \<longleftrightarrow>
     msr_snapshotCount r = length ss \<and>
     (\<exists>a \<in> set ss. \<exists>b \<in> set ss.
       (\<forall>s \<in> set ss. jle (date_parse env (snap_observedAt a)) (date_parse env (snap_observedAt s)) \<and>
                     jle (date_parse env (snap_observedAt s)) (date_parse env (snap_observedAt b))) \<and>
       msr_firstObservedAt r = snap_observedAt a \<and> msr_lastObservedAt r = snap_observedAt b \<and>
       msr_firstPriceKrw r = snap_lastPriceKrw a \<and> msr_lastPriceKrw r = snap_lastPriceKrw b \<and>
       msr_returnRatio r =
         roundRatio (jdiv (jsub (snap_lastPriceKrw b) (snap_lastPriceKrw a)) (snap_lastPriceKrw a)))"

definition return_key :: "MarketRegimeSymbolReturn \<Rightarrow> string" where
  "return_key r = market_str (msr_market r) @ '':'' @ msr_symbol r"

lemma return_key_toSymbolReturn: "return_key (toSymbolReturn g) = snapshot_key (hd g)"
  by (simp add: return_key_def toSymbolReturn_def snapshot_key_def Let_def)

lemma sorted_ends:
  fixes key :: "'a \<Rightarrow> jsnum"
  assumes "sorted_wrt (\<lambda>x y. jle (key x) (key y)) xs" "x \<in> set xs" "\<forall>x \<in> set xs. jle (key x) (key x)"
  shows "jle (key (hd xs)) (key x)" "jle (key x) (key (last xs))"
proof -
  show "jle (key (hd xs)) (key x)" using assms by (cases xs) auto
  show "jle (key x) (key (last xs))" using assms by (cases xs rule: rev_cases) (auto simp: sorted_wrt_append)
qed

lemma classify_inv:
  assumes "classifyMarketRegime env collate opts = Inr c"
  shows "mrc_symbolReturns c = symbol_returns env collate opts"
    and "mrc_label c = RegimeInsufficientData \<longleftrightarrow>
      jlt (num (int (length (mrc_symbolReturns c)))) (option_minSymbols opts)"
    and "\<not> jle (option_minSnapshots opts) (Fin 0)"
  using assms
  by (auto simp: classifyMarketRegime_def bind_result_Inr validateClassifierOptions_def Let_def
      validatePositiveCount_def check_that_def baseClassification_def regimeLabel_def
      split: if_splits prod.splits)

lemma symbol_group:
  assumes "\<forall>s \<in> set (in_window env opts). dated env s"
    and "g = filter (of_symbol m k) (window_snapshots env collate opts)" and "g \<noteq> []"
  shows "return_of env (filter (of_symbol m k) (in_window env opts)) (toSymbolReturn g)"
proof -
  define key where "key s = date_parse env (snap_observedAt s)" for s :: HistoricalMarketSnapshot
  let ?W = "in_window env opts"
  have w: "window_snapshots env collate opts = sort_by (snapshot_before env collate) ?W"
    by (simp add: window_snapshots_def in_window_def)
  have "sorted_wrt (\<lambda>x y. jle (key x) (key y)) (sort_by (snapshot_before env collate) ?W)"
    by (rule sorted_by_key [of "set ?W"])
      (use assms(1) snapshot_before_time [of env _ _ collate] in \<open>auto simp: key_def\<close>)
  then have sorted: "sorted_wrt (\<lambda>x y. jle (key x) (key y)) g"
    unfolding assms(2) w by (rule sorted_wrt_filter)
  have mset: "mset g = mset (filter (of_symbol m k) ?W)"
    unfolding assms(2) w by simp
  then have set: "set g = set (filter (of_symbol m k) ?W)" and len: "length g = length (filter (of_symbol m k) ?W)"
    by (rule mset_eq_setD, rule mset_eq_length)
  have "jle (key x) (key x)" if "x \<in> set g" for x
    using that assms(1) unfolding set key_def dated_def by (auto simp: jle_def split: jsnum.splits)
  then have ends: "jle (key (hd g)) (key s) \<and> jle (key s) (key (last g))" if "s \<in> set g" for s
    using sorted_ends [OF sorted that] by simp
  show ?thesis
    unfolding return_of_def set [symmetric] len [symmetric]
    using ends \<open>g \<noteq> []\<close>
    by (intro conjI bexI [of _ "hd g"] bexI [of _ "last g"]) (auto simp: toSymbolReturn_def Let_def key_def)
qed

lemma symbol_returns_set:
  "r \<in> set (symbol_returns env collate opts) \<longleftrightarrow>
     (\<exists>s \<in> set (in_window env opts).
        let g = filter (of_symbol (snap_market s) (snap_symbol s)) (window_snapshots env collate opts)
        in jle (option_minSnapshots opts) (num (int (length g))) \<and> r = toSymbolReturn g)"
proof -
  have "(\<lambda>t. snapshot_key t = snapshot_key s) = of_symbol (snap_market s) (snap_symbol s)" for s
    by (auto simp: fun_eq_iff snapshot_key_eq of_symbol_def)
  then show ?thesis
    by (auto simp: symbol_returns_def groups_by_key Let_def image_iff comp_def
        window_snapshots_def in_window_def)
qed

lemma symbol_returns_distinct:
  assumes "\<not> jle (option_minSnapshots opts) (Fin 0)"
  shows "distinct (map return_key (symbol_returns env collate opts))"
proof -
  let ?w = "window_snapshots env collate opts"
  let ?g = "\<lambda>k. filter (\<lambda>s. snapshot_key s = k) ?w"
  let ?big = "\<lambda>v. jle (option_minSnapshots opts) (num (int (length v)))"
  have key: "return_key (toSymbolReturn (?g k)) = k" if "k \<in> set (dedup (map snapshot_key ?w))" for k
  proof -
    have "?g k \<noteq> []" using that by (auto simp: filter_empty_conv)
    then have "hd (?g k) \<in> set (?g k)" by (rule hd_in_set)
    then show ?thesis by (simp add: return_key_toSymbolReturn)
  qed
  have "map return_key (map toSymbolReturn (filter ?big (map snd (groupBySymbol ?w)))) =
      filter (\<lambda>k. ?big (?g k)) (dedup (map snapshot_key ?w))"
    by (auto simp: groups_by_key comp_def filter_map intro!: map_idI key)
  then have "distinct (map return_key (map toSymbolReturn (filter ?big (map snd (groupBySymbol ?w)))))"
    by simp
  moreover have "mset (map return_key (symbol_returns env collate opts)) =
      mset (map return_key (map toSymbolReturn (filter ?big (map snd (groupBySymbol ?w)))))"
    by (simp add: symbol_returns_def multiset.map_comp)
  ultimately show ?thesis by (metis mset_eq_imp_distinct_iff)
qed

text \<open>Enough snapshots of a symbol are at least one, and its return bears its name.\<close>

lemma big_group:
  assumes "\<not> jle (option_minSnapshots opts) (Fin 0)"
    and "jle (option_minSnapshots opts) (num (int (length g)))"
    and "g = filter (of_symbol m k) (window_snapshots env collate opts)"
  shows "g \<noteq> []" "msr_market (toSymbolReturn g) = m" "msr_symbol (toSymbolReturn g) = k"
proof -
  show "g \<noteq> []" using assms(1,2) by auto
  then have "hd g \<in> set g" by simp
  then show "msr_market (toSymbolReturn g) = m" "msr_symbol (toSymbolReturn g) = k"
    using assms(3) by (auto simp: of_symbol_def toSymbolReturn_def Let_def)
qed

lemma window_length:
  "length (filter P (window_snapshots env collate opts)) = length (filter P (in_window env opts))"
  by (rule mset_eq_length) (simp only: window_snapshots_def in_window_def mset_filter mset_sort_by)

lemma symbol_return_cases:
  assumes "\<not> jle (option_minSnapshots opts) (Fin 0)" and "r \<in> set (symbol_returns env collate opts)"
  obtains g where "g = filter (of_symbol (msr_market r) (msr_symbol r)) (window_snapshots env collate opts)"
    "jle (option_minSnapshots opts) (num (int (length g)))" "r = toSymbolReturn g"
proof -
  obtain s :: HistoricalMarketSnapshot where s:
    "jle (option_minSnapshots opts) (num (int (length
       (filter (of_symbol (snap_market s) (snap_symbol s)) (window_snapshots env collate opts)))))"
    "r = toSymbolReturn (filter (of_symbol (snap_market s) (snap_symbol s)) (window_snapshots env collate opts))"
    using assms(2) unfolding symbol_returns_set Let_def by blast
  show ?thesis
    by (rule that [OF _ s]) (simp only: s(2) big_group [OF assms(1) s(1) refl])
qed

lemma symbol_return_exists:
  assumes "\<not> jle (option_minSnapshots opts) (Fin 0)"
    and "jle (option_minSnapshots opts) (num (int (length (filter (of_symbol m k) (in_window env opts)))))"
  shows "\<exists>r \<in> set (symbol_returns env collate opts). msr_market r = m \<and> msr_symbol r = k"
proof -
  let ?g = "filter (of_symbol m k) (window_snapshots env collate opts)"
  have big: "jle (option_minSnapshots opts) (num (int (length ?g)))"
    using assms(2) by (simp only: window_length)
  have "filter (of_symbol m k) (in_window env opts) \<noteq> []" using assms by auto
  then obtain s where s: "s \<in> set (in_window env opts)" "snap_market s = m" "snap_symbol s = k"
    by (auto simp: filter_empty_conv of_symbol_def)
  then have "toSymbolReturn ?g \<in> set (symbol_returns env collate opts)"
    using big by (auto simp: symbol_returns_set Let_def intro!: bexI [of _ s])
  then show ?thesis using big_group [OF assms(1) big refl] by blast
qed

text \<open>Valid options have a classification.\<close>

lemma classification_exists:
  assumes "validateClassifierOptions opts = Inr ()"
  shows "\<exists>c. classifyMarketRegime env collate opts = Inr c"
proof -
  obtain a b where "ro_windowStart opts = Fin a" "ro_windowEnd opts = Fin b"
    using assms by (cases "ro_windowStart opts"; cases "ro_windowEnd opts")
      (auto simp: validateClassifierOptions_def bind_result_Inr validateDate_def check_that_def split: if_splits)
  then show ?thesis using assms by (auto simp: classifyMarketRegime_def Let_def split: prod.split)
qed

end
