(* ===== verification/PaperAllocation.thy ===== *)
theory PaperAllocation
  imports PaperSizing
begin

text \<open>
  The allocation that a packet carries (\<open>src/paper/allocationPolicy.ts\<close>): the ratios of the
  portfolio, the ramp of the exposure and of the position slots, the budgets they leave and the
  share of every market.  The packet schema has the type of the snapshot.
\<close>

record PaperAllocationPolicy =
  ap_policyName :: string
  ap_targetExposureRatio :: jsnum
  ap_minCashReserveRatio :: jsnum
  ap_maxBudgetPerDecisionRatio :: jsnum
  ap_maxSymbolExposureRatio :: jsnum
  ap_deploymentRampDays :: "jsnum option"
  ap_rampDayIndex :: "jsnum option"
  ap_maxInitialDeploymentRatio :: "jsnum option"
  ap_maxDailyGrossBuyRatio :: "jsnum option"
  ap_maxInitialOpenPositions :: "jsnum option"
  ap_maxNewPositionsPerDay :: "jsnum option"
  ap_maxConcurrentPositions :: "jsnum option"
  ap_positionSlotRampDays :: "jsnum option"
  ap_marketTargetExposureRatios :: "(Market \<times> jsnum) list option"

section \<open>Ratios and positions\<close>

definition normalizePositiveInteger :: "jsnum option \<Rightarrow> jsnum option" where
  "normalizePositiveInteger value =
     (case value of None \<Rightarrow> None
      | Some v \<Rightarrow> if \<not> is_finite v then None else Some (jmax (Fin 1) (jfloor v)))"

definition normalizeMarketTargetExposureRatios :: "(Market \<times> jsnum) list \<Rightarrow> (Market \<times> jsnum) list" where
  "normalizeMarketTargetExposureRatios targets = map (\<lambda>(m, v). (m, roundRatio (boundedRatio v))) targets"

definition allocation_position_value :: "VirtualPosition \<Rightarrow> jsnum" where
  "allocation_position_value p =
     or_else (pos_marketValueKrw p) (jround (jmul (pos_quantity p) (pos_averagePriceKrw p)))"

definition positionMarketValueForMarket :: "VirtualPortfolio \<Rightarrow> Market option \<Rightarrow> jsnum" where
  "positionMarketValueForMarket pf market =
     foldl (\<lambda>sum p. if market \<noteq> None \<and> Some (pos_market p) \<noteq> market then sum
              else jadd sum (allocation_position_value p)) (Fin 0) (pf_positions pf)"

definition positionMarketValue :: "VirtualPortfolio \<Rightarrow> jsnum" where
  "positionMarketValue pf = positionMarketValueForMarket pf None"

definition portfolioExposureRatio :: "VirtualPortfolio \<Rightarrow> jsnum" where
  "portfolioExposureRatio pf =
     (let netWorthKrw = virtualNetWorthKrw pf
      in if jle netWorthKrw (Fin 0) then Fin 0
         else boundedRatio (jdiv (positionMarketValue pf) netWorthKrw))"

definition positionCountForMarket :: "VirtualPortfolio \<Rightarrow> Market \<Rightarrow> jsnum" where
  "positionCountForMarket pf market =
     num (int (length (filter (\<lambda>p. pos_market p = market \<and> jlt (Fin 0) (pos_quantity p)) (pf_positions pf))))"

section \<open>Ramps\<close>

definition scheduledExposureCeiling ::
  "jsnum \<Rightarrow> jsnum option \<Rightarrow> jsnum option \<Rightarrow> jsnum option \<Rightarrow> jsnum" where
  "scheduledExposureCeiling target maxInitial rampDays dayIndex =
     (case (maxInitial, rampDays, dayIndex) of
        (Some initial, Some days, Some index) \<Rightarrow>
          if jle days (Fin 1) then target
          else
            let rampIndex = jmin index days;
                progress = jdiv (jsub rampIndex (Fin 1)) (jsub days (Fin 1))
            in boundedRatio (jmin target (jadd initial (jmul (jsub target initial) progress)))
      | _ \<Rightarrow> target)"

definition scheduledPositionSlotCeiling ::
  "jsnum option \<Rightarrow> jsnum option \<Rightarrow> jsnum option \<Rightarrow> jsnum option \<Rightarrow> jsnum option \<Rightarrow> jsnum option" where
  "scheduledPositionSlotCeiling maxConcurrent maxInitial slotRampDays deploymentRampDays dayIndex =
     (case (maxConcurrent, maxInitial) of
        (Some concurrent, Some initial) \<Rightarrow>
          let maxConcurrentPositions = jmax (Fin 0) (jfloor concurrent);
              maxInitialOpenPositions = jmin maxConcurrentPositions (jmax (Fin 0) (jfloor initial))
          in (case (normalizePositiveInteger (case slotRampDays of Some d \<Rightarrow> Some d | None \<Rightarrow> deploymentRampDays),
                    normalizePositiveInteger dayIndex) of
                (Some days, Some index) \<Rightarrow>
                  if jle days (Fin 1) then Some maxConcurrentPositions
                  else
                    let rampIndex = jmin index days;
                        addedSlots = jfloor (jdiv
                          (jmul (jsub rampIndex (Fin 1)) (jsub maxConcurrentPositions maxInitialOpenPositions))
                          (jsub days (Fin 1)))
                    in Some (jmin maxConcurrentPositions (jadd maxInitialOpenPositions addedSlots))
              | _ \<Rightarrow> Some maxConcurrentPositions)
      | _ \<Rightarrow> None)"

definition marketScheduledPositionSlotCeiling ::
  "jsnum option \<Rightarrow> jsnum \<Rightarrow> jsnum \<Rightarrow> jsnum option" where
  "marketScheduledPositionSlotCeiling slots targetRatio totalRatio =
     (case slots of None \<Rightarrow> None
      | Some c \<Rightarrow>
          if jle c (Fin 0) \<or> jle targetRatio (Fin 0) \<or> jle totalRatio (Fin 0) then Some (Fin 0)
          else Some (jmax (Fin 1) (jceil (jdiv (jmul c targetRatio) totalRatio))))"

section \<open>Allocation of the markets\<close>

definition market_allocation ::
  "VirtualPortfolio \<Rightarrow> jsnum \<Rightarrow> jsnum \<Rightarrow> jsnum \<Rightarrow> jsnum option \<Rightarrow> jsnum \<Rightarrow> Market \<Rightarrow> jsnum \<Rightarrow> MarketAllocation" where
  "market_allocation pf netWorthKrw cashAvailable scheduledScale slotCeiling totalTarget market targetRatio =
     (let scheduledTarget = roundRatio (jmul targetRatio scheduledScale);
          currentValue = positionMarketValueForMarket pf (Some market);
          currentRatio = (if jle netWorthKrw (Fin 0) then Fin 0 else boundedRatio (jdiv currentValue netWorthKrw));
          targetValue = jround (jmul netWorthKrw scheduledTarget);
          openCount = positionCountForMarket pf market;
          slotLimit = marketScheduledPositionSlotCeiling slotCeiling targetRatio totalTarget;
          gap = jmax (Fin 0) (jsub targetValue currentValue)
      in \<lparr>ma_market = market, ma_targetExposureRatio = targetRatio,
          ma_scheduledTargetExposureRatio = Some scheduledTarget,
          ma_currentExposureRatio = roundRatio currentRatio,
          ma_targetExposureGapRatio = roundRatio (jmax (Fin 0) (jsub scheduledTarget currentRatio)),
          ma_targetExposureGapKrw = gap,
          ma_maxAdditionalBuyBudgetKrw = jmin cashAvailable gap,
          ma_currentOpenPositionCount = Some openCount,
          ma_scheduledOpenPositionCeiling = slotLimit,
          ma_remainingScheduledOpenPositionSlots =
            map_option (\<lambda>c. jmax (Fin 0) (jsub c openCount)) slotLimit\<rparr>)"

definition buildMarketAllocations ::
  "VirtualPortfolio \<Rightarrow> PaperAllocationPolicy \<Rightarrow> jsnum \<Rightarrow> jsnum \<Rightarrow> jsnum \<Rightarrow> jsnum \<Rightarrow> jsnum option \<Rightarrow>
   (Market \<times> MarketAllocation) list" where
  "buildMarketAllocations pf policy netWorthKrw cashAvailable scheduledCeilingRatio targetRatio slotCeiling =
     (let targets = normalizeMarketTargetExposureRatios (or_else (ap_marketTargetExposureRatios policy) []);
          total = foldl jadd (Fin 0) (map snd targets);
          scheduledScale = (if jle targetRatio (Fin 0) then Fin 0
            else boundedRatio (jdiv scheduledCeilingRatio targetRatio))
      in map (\<lambda>(m, t). (m, market_allocation pf netWorthKrw cashAvailable scheduledScale slotCeiling total m t))
           targets)"

section \<open>The snapshot\<close>

text \<open>The cash above the reserve, the ceiling of the ramp and the budget that both leave.\<close>

definition cash_after_reserve :: "VirtualPortfolio \<Rightarrow> PaperAllocationPolicy \<Rightarrow> jsnum" where
  "cash_after_reserve pf policy =
     jmax (Fin 0) (jsub (pf_cashKrw pf)
       (jround (jmul (virtualNetWorthKrw pf) (boundedRatio (ap_minCashReserveRatio policy)))))"

definition scheduled_ceiling_ratio :: "PaperAllocationPolicy \<Rightarrow> jsnum" where
  "scheduled_ceiling_ratio policy =
     scheduledExposureCeiling (boundedRatio (ap_targetExposureRatio policy))
       (map_option boundedRatio (ap_maxInitialDeploymentRatio policy))
       (normalizePositiveInteger (ap_deploymentRampDays policy))
       (normalizePositiveInteger (ap_rampDayIndex policy))"

definition scheduled_headroom :: "VirtualPortfolio \<Rightarrow> PaperAllocationPolicy \<Rightarrow> jsnum" where
  "scheduled_headroom pf policy =
     jmax (Fin 0) (jsub (jround (jmul (virtualNetWorthKrw pf) (scheduled_ceiling_ratio policy)))
       (positionMarketValue pf))"

definition decision_budget_caps :: "VirtualPortfolio \<Rightarrow> PaperAllocationPolicy \<Rightarrow> jsnum list" where
  "decision_budget_caps pf policy =
     [jround (jmul (virtualNetWorthKrw pf) (ap_maxBudgetPerDecisionRatio policy)),
      jmin (cash_after_reserve pf policy) (scheduled_headroom pf policy)] @
     (case map_option (\<lambda>r. jround (jmul (virtualNetWorthKrw pf) (boundedRatio r)))
         (ap_maxDailyGrossBuyRatio policy) of
        None \<Rightarrow> []
      | Some budget \<Rightarrow>
          push_if (jlt (Fin 1) (or_else (normalizePositiveInteger (ap_rampDayIndex policy)) (Fin 1))) budget)"

definition slot_ceiling :: "PaperAllocationPolicy \<Rightarrow> jsnum option" where
  "slot_ceiling policy =
     scheduledPositionSlotCeiling (ap_maxConcurrentPositions policy) (ap_maxInitialOpenPositions policy)
       (ap_positionSlotRampDays policy) (normalizePositiveInteger (ap_deploymentRampDays policy))
       (normalizePositiveInteger (ap_rampDayIndex policy))"

definition buildPaperAllocationSnapshot :: "VirtualPortfolio \<Rightarrow> PaperAllocationPolicy \<Rightarrow> PortfolioAllocation" where
  "buildPaperAllocationSnapshot pf policy =
     (let netWorthKrw = virtualNetWorthKrw pf;
          positionValue = positionMarketValue pf;
          currentExposure = (if jle netWorthKrw (Fin 0) then Fin 0 else boundedRatio (jdiv positionValue netWorthKrw));
          currentCash = (if jle netWorthKrw (Fin 0) then Fin 0 else boundedRatio (jdiv (pf_cashKrw pf) netWorthKrw));
          target = boundedRatio (ap_targetExposureRatio policy);
          ceilingRatio = scheduled_ceiling_ratio policy;
          slots = map_option (\<lambda>c. jmax (Fin 0) (jsub c (num (int (length (pf_positions pf)))))) (slot_ceiling policy);
          markets = buildMarketAllocations pf policy netWorthKrw (cash_after_reserve pf policy) ceilingRatio target
            (slot_ceiling policy)
      in \<lparr>alloc_policyName = ap_policyName policy,
          alloc_targetExposureRatio = target,
          alloc_minCashReserveRatio = boundedRatio (ap_minCashReserveRatio policy),
          alloc_maxBudgetPerDecisionRatio = boundedRatio (ap_maxBudgetPerDecisionRatio policy),
          alloc_maxSymbolExposureRatio = boundedRatio (ap_maxSymbolExposureRatio policy),
          alloc_deploymentRampDays = normalizePositiveInteger (ap_deploymentRampDays policy),
          alloc_rampDayIndex = normalizePositiveInteger (ap_rampDayIndex policy),
          alloc_maxInitialDeploymentRatio = map_option boundedRatio (ap_maxInitialDeploymentRatio policy),
          alloc_maxDailyGrossBuyRatio = map_option boundedRatio (ap_maxDailyGrossBuyRatio policy),
          alloc_maxInitialOpenPositions = ap_maxInitialOpenPositions policy,
          alloc_maxNewPositionsPerDay = ap_maxNewPositionsPerDay policy,
          alloc_maxConcurrentPositions = ap_maxConcurrentPositions policy,
          alloc_positionSlotRampDays = ap_positionSlotRampDays policy,
          alloc_marketTargetExposureRatios =
            map_option normalizeMarketTargetExposureRatios (ap_marketTargetExposureRatios policy),
          alloc_currentExposureRatio = roundRatio currentExposure,
          alloc_currentCashRatio = roundRatio currentCash,
          alloc_targetCashRatio = roundRatio (jsub (Fin 1) target),
          alloc_targetExposureGapRatio = roundRatio (jmax (Fin 0) (jsub target currentExposure)),
          alloc_targetExposureGapKrw = jmax (Fin 0) (jsub (jround (jmul netWorthKrw target)) positionValue),
          alloc_maxAdditionalBuyBudgetKrw = jmin (cash_after_reserve pf policy) (scheduled_headroom pf policy),
          alloc_maxBudgetPerDecisionKrw = jmax (Fin 0) (jmin_list (decision_budget_caps pf policy)),
          alloc_maxSymbolExposureKrw = jround (jmul netWorthKrw (ap_maxSymbolExposureRatio policy)),
          alloc_minCashReserveKrw = jround (jmul netWorthKrw (boundedRatio (ap_minCashReserveRatio policy))),
          alloc_scheduledExposureCeilingRatio = Some (roundRatio ceilingRatio),
          alloc_scheduledExposureHeadroomKrw = Some (scheduled_headroom pf policy),
          alloc_maxDailyGrossBuyBudgetKrw =
            map_option (\<lambda>r. jround (jmul netWorthKrw (boundedRatio r))) (ap_maxDailyGrossBuyRatio policy),
          alloc_opportunityReserveRatio = Some (roundRatio (jmax (Fin 0) (jsub target ceilingRatio))),
          alloc_scheduledOpenPositionCeiling = slot_ceiling policy,
          alloc_remainingScheduledOpenPositionSlots = slots,
          alloc_remainingNewPositionSlots =
            map_option (\<lambda>s. jmin s (or_else (ap_maxNewPositionsPerDay policy) s)) slots,
          alloc_marketAllocations = (if markets = [] then None else Some markets)\<rparr>)"

section \<open>Bounds of the budgets\<close>

lemma allocation_position_value_eq: "allocation_position_value p = position_value p"
  by (simp add: allocation_position_value_def position_value_def)

text \<open>The value of the positions is the exposure that the net worth counts.\<close>

lemma positionMarketValue_eq: "positionMarketValue pf = portfolioExposureKrw pf"
  by (simp add: positionMarketValue_def positionMarketValueForMarket_def portfolioExposureKrw_def
      allocation_position_value_eq)

lemma net_worth_finite:
  assumes "is_finite (virtualNetWorthKrw pf)"
  shows "is_finite (pf_cashKrw pf)" "is_finite (positionMarketValue pf)"
  using assms by (cases "pf_cashKrw pf"; cases "portfolioExposureKrw pf";
      simp add: virtualNetWorthKrw_def positionMarketValue_eq)+

lemma boundedRatio_cases: "boundedRatio (Fin a) = Fin (max 0 (min 1 a))"
    "boundedRatio NaN = Fin 0" "boundedRatio PInf = Fin 0" "boundedRatio NInf = Fin 0"
  by (simp_all add: boundedRatio_def jmax_def jmin_def max_def min_def)

lemma boundedRatio_finite [simp]: "is_finite (boundedRatio x)"
  by (cases x) (auto simp: boundedRatio_def jmax_def jmin_def)

lemma jround_NaN [simp]: "jround x = NaN \<longleftrightarrow> x = NaN" "NaN = jround x \<longleftrightarrow> x = NaN"
  by (cases x; simp)+

lemma jsub_not_NaN: "is_finite x \<Longrightarrow> y \<noteq> NaN \<Longrightarrow> jsub x y \<noteq> NaN" "x \<noteq> NaN \<Longrightarrow> is_finite y \<Longrightarrow> jsub x y \<noteq> NaN"
  by (cases x; cases y; simp add: jsub_def)+

lemma share_not_NaN: "is_finite x \<Longrightarrow> is_finite y \<Longrightarrow> jmul x y \<noteq> NaN"
  by (cases x; cases y) auto

lemma jmax0_not_NaN: "x \<noteq> NaN \<Longrightarrow> jmax (Fin 0) x \<noteq> NaN"
  by (simp add: jmax_def)

lemma mk_between: "0 \<le> a \<Longrightarrow> a \<le> of_int k \<Longrightarrow> 0 \<le> k \<Longrightarrow> k \<le> 1000000 \<Longrightarrow>
    \<exists>x. mk a = Fin x \<and> 0 \<le> x \<and> x \<le> of_int k"
proof -
  assume "0 \<le> a" "a \<le> of_int k" "0 \<le> k" "k \<le> 1000000"
  then have "jle (Fin 0) (mk a) \<and> jle (mk a) (Fin (of_int k))"
    using mk_mono [of 0 a] mk_mono [of a "of_int k"] mk_of_int [of k] mk_of_int [of 0] by simp
  then show ?thesis by (cases "mk a") auto
qed

lemma roundRatio_range:
  assumes "0 \<le> a" "a \<le> 1"
  shows "\<exists>c. roundRatio (Fin a) = Fin c \<and> 0 \<le> c \<and> c \<le> 1"
proof -
  obtain b where b: "mk (a * 1000000) = Fin b" "0 \<le> b" "b \<le> 1000000"
    using mk_between [of "a * 1000000" 1000000] assms by auto
  then have "0 \<le> \<lfloor>b + 1/2\<rfloor>" "\<lfloor>b + 1/2\<rfloor> \<le> 1000000" by (auto simp: floor_le_iff)
  then have "0 \<le> of_int \<lfloor>b + 1/2\<rfloor> / (1000000 :: rat)" "of_int \<lfloor>b + 1/2\<rfloor> / 1000000 \<le> (1 :: rat)" by simp_all
  then show ?thesis
    using mk_between [of "of_int \<lfloor>b + 1/2\<rfloor> / 1000000" 1] by (auto simp: roundRatio_def b)
qed

lemma boundedRatio_fin: "\<exists>c. boundedRatio x = Fin c \<and> 0 \<le> c \<and> c \<le> 1"
  by (cases x) (simp_all add: boundedRatio_cases)

lemma scheduled_ceiling_finite [simp]: "is_finite (scheduled_ceiling_ratio policy)"
  by (auto simp: scheduled_ceiling_ratio_def scheduledExposureCeiling_def Let_def split: option.split)

lemma scheduled_ceiling_le_target: "jle (scheduled_ceiling_ratio policy) (boundedRatio (ap_targetExposureRatio policy))"
proof -
  have fin: "boundedRatio x \<noteq> NaN" for x
    using boundedRatio_finite [of x] by (cases "boundedRatio x") simp_all
  have "jle (boundedRatio (jmin (boundedRatio y) z)) (boundedRatio y)" for y z
    using boundedRatio_finite [of y] boundedRatio_range [of y]
    by (cases "boundedRatio y"; cases z) (auto simp: boundedRatio_cases jmin_def)
  then show ?thesis
    by (auto simp: scheduled_ceiling_ratio_def scheduledExposureCeiling_def Let_def fin split: option.split)
qed

text \<open>The budgets that the allocation leaves are numbers.\<close>

lemma budgets_not_NaN:
  assumes "is_finite (virtualNetWorthKrw pf)"
  shows "cash_after_reserve pf policy \<noteq> NaN" "scheduled_headroom pf policy \<noteq> NaN"
    and "is_finite (ap_maxBudgetPerDecisionRatio policy) \<Longrightarrow> NaN \<notin> set (decision_budget_caps pf policy)"
proof -
  note fin = net_worth_finite [OF assms]
  show r: "cash_after_reserve pf policy \<noteq> NaN"
    unfolding cash_after_reserve_def
    by (intro jmax0_not_NaN jsub_not_NaN(1) fin) (simp add: share_not_NaN assms)
  show h: "scheduled_headroom pf policy \<noteq> NaN"
    unfolding scheduled_headroom_def
    by (intro jmax0_not_NaN jsub_not_NaN(2) fin) (simp add: share_not_NaN assms)
  assume "is_finite (ap_maxBudgetPerDecisionRatio policy)"
  then have "jmul (virtualNetWorthKrw pf) (ap_maxBudgetPerDecisionRatio policy) \<noteq> NaN"
    "jmul (virtualNetWorthKrw pf) (boundedRatio x) \<noteq> NaN" for x
    by (simp_all add: share_not_NaN assms)
  then show "NaN \<notin> set (decision_budget_caps pf policy)"
    using r h by (auto simp: decision_budget_caps_def push_if_def jmin_def
        split: option.split)
qed

text \<open>What a market may still buy: the schedule of its target less the value of its positions.\<close>

definition market_scheduled_target :: "PaperAllocationPolicy \<Rightarrow> jsnum \<Rightarrow> jsnum" where
  "market_scheduled_target policy targetRatio =
     (let target = boundedRatio (ap_targetExposureRatio policy)
      in roundRatio (jmul (roundRatio (boundedRatio targetRatio))
           (if jle target (Fin 0) then Fin 0 else boundedRatio (jdiv (scheduled_ceiling_ratio policy) target))))"

lemma market_scheduled_target_finite: "is_finite (market_scheduled_target policy r)"
proof -
  obtain a where a: "roundRatio (boundedRatio r) = Fin a" "0 \<le> a" "a \<le> 1"
    using boundedRatio_fin [of r] roundRatio_range by metis
  let ?t = "boundedRatio (ap_targetExposureRatio policy)"
  obtain b where b: "(if jle ?t (Fin 0) then Fin 0 else boundedRatio (jdiv (scheduled_ceiling_ratio policy) ?t)) = Fin b"
    "0 \<le> b" "b \<le> 1"
    using boundedRatio_fin [of "jdiv (scheduled_ceiling_ratio policy) ?t"] by (cases "jle ?t (Fin 0)") auto
  obtain c where "jmul (Fin a) (Fin b) = Fin c" "0 \<le> c" "c \<le> 1"
    using mk_between [of "a * b" 1] a b by (auto simp: mult_le_one)
  then show ?thesis
    using roundRatio_range [of c] unfolding market_scheduled_target_def Let_def a b by auto
qed

lemma map_of_map_entries:
  "map_of (map (\<lambda>(m, v). (m, f m v)) xs) m = map_option (f m) (map_of xs m)"
  by (induction xs) auto

lemma market_budget:
  assumes "map_of (or_else (ap_marketTargetExposureRatios policy) []) m = Some r"
  shows "alloc_marketAdditionalBuyBudgetKrw (buildPaperAllocationSnapshot pf policy) m =
    Some (jmin (cash_after_reserve pf policy)
      (jmax (Fin 0) (jsub (jround (jmul (virtualNetWorthKrw pf) (market_scheduled_target policy r)))
        (positionMarketValueForMarket pf (Some m)))))"
proof -
  let ?markets = "buildMarketAllocations pf policy (virtualNetWorthKrw pf) (cash_after_reserve pf policy)
    (scheduled_ceiling_ratio policy) (boundedRatio (ap_targetExposureRatio policy)) (slot_ceiling policy)"
  obtain ma where ma: "map_of ?markets m = Some ma"
    "ma_maxAdditionalBuyBudgetKrw ma = jmin (cash_after_reserve pf policy)
      (jmax (Fin 0) (jsub (jround (jmul (virtualNetWorthKrw pf) (market_scheduled_target policy r)))
        (positionMarketValueForMarket pf (Some m))))"
    unfolding buildMarketAllocations_def Let_def normalizeMarketTargetExposureRatios_def
      map_of_map_entries [of _ _ m] assms market_scheduled_target_def
    by (simp add: market_allocation_def Let_def)
  then have "alloc_marketAllocations (buildPaperAllocationSnapshot pf policy) = Some ?markets"
    by (auto simp: buildPaperAllocationSnapshot_def Let_def)
  then show ?thesis by (simp add: alloc_marketAdditionalBuyBudgetKrw_def ma)
qed

lemma snapshot_budgets:
  "alloc_maxBudgetPerDecisionKrw (buildPaperAllocationSnapshot pf policy) =
     jmax (Fin 0) (jmin_list (decision_budget_caps pf policy))"
  "alloc_maxAdditionalBuyBudgetKrw (buildPaperAllocationSnapshot pf policy) =
     jmin (cash_after_reserve pf policy) (scheduled_headroom pf policy)"
  by (simp_all add: buildPaperAllocationSnapshot_def Let_def)

lemma no_market_budget:
  assumes "map_of (or_else (ap_marketTargetExposureRatios policy) []) m = None"
  shows "alloc_marketAdditionalBuyBudgetKrw (buildPaperAllocationSnapshot pf policy) m = None"
proof -
  have "map_of (buildMarketAllocations pf policy n c s t l) m = None" for n c s t l
    unfolding buildMarketAllocations_def Let_def normalizeMarketTargetExposureRatios_def
      map_of_map_entries [of _ _ m] assms by simp
  then show ?thesis
    by (simp add: alloc_marketAdditionalBuyBudgetKrw_def buildPaperAllocationSnapshot_def Let_def)
qed

lemma allocation_budgets:
  assumes "is_finite (virtualNetWorthKrw pf)" and "is_finite (ap_maxBudgetPerDecisionRatio policy)"
  shows "alloc_maxBudgetPerDecisionKrw (buildPaperAllocationSnapshot pf policy) \<noteq> NaN"
    and "alloc_maxAdditionalBuyBudgetKrw (buildPaperAllocationSnapshot pf policy) \<noteq> NaN"
    and "is_finite (positionMarketValueForMarket pf (Some m)) \<Longrightarrow>
      alloc_marketAdditionalBuyBudgetKrw (buildPaperAllocationSnapshot pf policy) m \<noteq> Some NaN"
proof -
  note bs = budgets_not_NaN [OF assms(1)]
  have jmin: "jmin x y \<noteq> NaN" if "x \<noteq> NaN" "y \<noteq> NaN" for x y using that by (simp add: jmin_def)
  show "alloc_maxBudgetPerDecisionKrw (buildPaperAllocationSnapshot pf policy) \<noteq> NaN"
    unfolding snapshot_budgets using bs(3) [OF assms(2)] by (intro jmax0_not_NaN) (simp add: jmin_list_NaN)
  show "alloc_maxAdditionalBuyBudgetKrw (buildPaperAllocationSnapshot pf policy) \<noteq> NaN"
    unfolding snapshot_budgets by (intro jmin bs)
  assume market: "is_finite (positionMarketValueForMarket pf (Some m))"
  show "alloc_marketAdditionalBuyBudgetKrw (buildPaperAllocationSnapshot pf policy) m \<noteq> Some NaN"
  proof (cases "map_of (or_else (ap_marketTargetExposureRatios policy) []) m")
    case None
    then show ?thesis by (simp add: no_market_budget)
  next
    case (Some r)
    have "jmul (virtualNetWorthKrw pf) (market_scheduled_target policy r) \<noteq> NaN"
      by (intro share_not_NaN assms(1) market_scheduled_target_finite)
    then show ?thesis
      unfolding market_budget [OF Some] option.inject
      by (intro jmin bs jmax0_not_NaN jsub_not_NaN(2) market) simp
  qed
qed

end
