(* ===== verification/MarketClaims.thy ===== *)
theory MarketClaims
  imports RegimeClassifier PaperAllocation PaperSamples
begin

text \<open>
  The properties of the market regime classifier and of the allocation of a packet.  The classifier
  has its witness on a window of three snapshots that are not in the order of their times, the
  allocation on the second day of a ramp of ten.
\<close>

definition sample_snapshot :: "string \<Rightarrow> string \<Rightarrow> int \<Rightarrow> HistoricalMarketSnapshot" where
  "sample_snapshot symbol t price =
     \<lparr>snap_snapshotId = ''s'', snap_market = KR, snap_symbol = symbol, snap_name = None,
      snap_assetType = None, snap_assetClass = None, snap_region = None, snap_riskTags = None,
      snap_strategyBucket = None, snap_sector = None, snap_observedAt = t,
      snap_interval = Interval1d, snap_openPriceKrw = None, snap_highPriceKrw = None,
      snap_lowPriceKrw = None, snap_closePriceKrw = None, snap_lastPriceKrw = num price,
      snap_volume = None, snap_sourceRefs = [], snap_createdAt = t\<rparr>"

definition sample_regime :: MarketRegimeClassifierOptions where
  "sample_regime =
     \<lparr>ro_snapshots = [sample_snapshot ''A'' ''2026-01-02'' 200, sample_snapshot ''B'' ''2026-01-01T00:00:00.000Z'' 50,
        sample_snapshot ''A'' ''2026-01-01T00:00:00.000Z'' 100],
      ro_windowStart = num 1767225600000, ro_windowEnd = num 1767312000000, ro_minSymbols = None,
      ro_minSnapshotsPerSymbol = None, ro_bullReturnThreshold = None, ro_bearReturnThreshold = None,
      ro_sidewaysAbsReturnThreshold = None, ro_breadthThreshold = None\<rparr>"

text \<open>
  C40. What a classification reports of each symbol: the symbols with a return are distinct and are
  those with enough snapshots in the window, each once; its return compares the earliest of those
  snapshots with the latest, whatever the order of the input; and the label is
  that of insufficient data exactly when fewer symbols than asked have a return.
\<close>

theorem symbol_returns_of_window:
  assumes "classifyMarketRegime env collate opts = Inr c"
    and "\<forall>s \<in> set (in_window env opts). dated env s"
  shows "distinct (map (\<lambda>r. (msr_market r, msr_symbol r)) (mrc_symbolReturns c)) \<and>
    (\<forall>m k. (\<exists>r \<in> set (mrc_symbolReturns c). msr_market r = m \<and> msr_symbol r = k) \<longleftrightarrow>
      jle (option_minSnapshots opts) (num (int (length (filter (of_symbol m k) (in_window env opts)))))) \<and>
    (\<forall>r \<in> set (mrc_symbolReturns c).
      return_of env (filter (of_symbol (msr_market r) (msr_symbol r)) (in_window env opts)) r) \<and>
    (mrc_label c = RegimeInsufficientData \<longleftrightarrow>
      jlt (num (int (length (mrc_symbolReturns c)))) (option_minSymbols opts))"
proof -
  note inv = classify_inv [OF assms(1)]
  have "distinct (map (\<lambda>r. (msr_market r, msr_symbol r)) (mrc_symbolReturns c))"
    using symbol_returns_distinct [OF inv(3)] unfolding inv(1) distinct_map
    by (auto simp: return_key_def inj_on_def)
  moreover have "(\<exists>r \<in> set (mrc_symbolReturns c). msr_market r = m \<and> msr_symbol r = k) \<longleftrightarrow>
      jle (option_minSnapshots opts) (num (int (length (filter (of_symbol m k) (in_window env opts)))))" for m k
    unfolding inv(1) using symbol_return_exists [OF inv(3)]
    by (metis (no_types, lifting) symbol_return_cases [OF inv(3)] window_length)
  moreover have "return_of env (filter (of_symbol (msr_market r) (msr_symbol r)) (in_window env opts)) r"
    if r: "r \<in> set (mrc_symbolReturns c)" for r
    using r unfolding inv(1)
    by (rule symbol_return_cases [OF inv(3)])
      (metis symbol_group [OF assms(2)] big_group(1) [OF inv(3)])
  ultimately show ?thesis using inv(2) by blast
qed


theorem symbol_returns_of_window_witness:
  "\<exists>c. classifyMarketRegime sample_env (\<lambda>_ _. 0) sample_regime = Inr c \<and>
     (\<exists>r \<in> set (mrc_symbolReturns c). msr_market r = KR \<and> msr_symbol r = ''A'') \<and>
     \<not> (\<exists>r \<in> set (mrc_symbolReturns c). msr_market r = KR \<and> msr_symbol r = ''B'')"
proof -
  have "validateClassifierOptions sample_regime = Inr ()"
    by (simp add: validateClassifierOptions_def sample_regime_def validateDate_def check_that_def
        validatePositiveCount_def option_minSymbols_def option_minSnapshots_def or_else_def jle_def)
  then obtain c where c: "classifyMarketRegime sample_env (\<lambda>_ _. 0) sample_regime = Inr c"
    using classification_exists by blast
  have w: "in_window sample_env sample_regime = ro_snapshots sample_regime"
    by (simp add: in_window_def isInsideWindow_def sample_regime_def sample_snapshot_def sample_dates jle_def)
  have "\<forall>s \<in> set (in_window sample_env sample_regime). dated sample_env s"
    unfolding w by (simp add: dated_def sample_regime_def sample_snapshot_def sample_dates)
  note returns = symbol_returns_of_window [OF c this, unfolded w, THEN conjunct2, THEN conjunct1, rule_format]
  have "length (filter (of_symbol KR ''A'') (ro_snapshots sample_regime)) = 2"
    "length (filter (of_symbol KR ''B'') (ro_snapshots sample_regime)) = 1"
    by (simp_all add: sample_regime_def sample_snapshot_def of_symbol_def)
  moreover have "option_minSnapshots sample_regime = Fin 2"
    by (simp add: option_minSnapshots_def or_else_def sample_regime_def)
  ultimately show ?thesis
    using c returns [of KR "''A''"] returns [of KR "''B''"] by simp
qed

text \<open>
  C40. A buy stays within the allocation.  When the packet carries the allocation that was built
  for the portfolio, the notional of a normalized buy is at most the cash above the reserve, at most
  what the ceiling of the ramp leaves above the value of the positions, and, in a market with a
  target, at most what the scheduled target leaves above the positions of that market; and the
  ceiling of the ramp is never above the target exposure.
\<close>

theorem buy_within_allocation:
  assumes "is_finite (virtualNetWorthKrw pf)" and "is_finite (ap_maxBudgetPerDecisionRatio policy)"
    and "is_finite (positionMarketValueForMarket pf (Some (dec_market d)))"
    and "is_finite (dec_budgetKrw d)" and "is_finite (pkt_maxBudgetPerSymbolKrw pkt)"
    and "pkt_portfolioAllocation pkt = Some (buildPaperAllocationSnapshot pf policy)"
    and "dec_action d = VIRTUAL_BUY"
  shows "let notional = no_targetNotionalKrw (normalizeVirtualDecision pkt pf d)
    in jle notional (cash_after_reserve pf policy) \<and>
       jle notional (scheduled_headroom pf policy) \<and>
       jle (scheduled_ceiling_ratio policy) (boundedRatio (ap_targetExposureRatio policy)) \<and>
       (\<forall>r. map_of (or_else (ap_marketTargetExposureRatios policy) []) (dec_market d) = Some r \<longrightarrow>
          jle notional (jmax (Fin 0)
            (jsub (jround (jmul (virtualNetWorthKrw pf) (market_scheduled_target policy r)))
              (positionMarketValueForMarket pf (Some (dec_market d))))))"
proof -
  let ?N = "no_targetNotionalKrw (normalizeVirtualDecision pkt pf d)" and ?m = "dec_market d"
  note budgets = allocation_budgets [OF assms(1,2)]
  have N: "?N = jmin_list (buy_budgets pkt d)" by (rule buy_notional [OF assms(7)])
  have "x \<noteq> NaN" if "x \<in> set (buy_budgets pkt d)" for x
    using that budgets(1,2) budgets(3) [OF assms(3)] assms(4,5)
    by (cases "alloc_marketAdditionalBuyBudgetKrw (buildPaperAllocationSnapshot pf policy) ?m")
      (auto simp: buy_budgets_def assms(6) Let_def or_else_def MAX_SAFE_INTEGER_def)
  then have le: "jle ?N x" if "x \<in> set (buy_budgets pkt d)" for x
    using that jmin_list_le unfolding N by (auto simp: jmin_list_NaN)
  have both: "jle ?N x \<and> jle ?N y" if "jle ?N (jmin x y)" for x y
    using that jmin_le [of x y] by (cases "jmin x y = NaN") (auto simp: jmin_def intro: jle_trans split: if_splits)
  have "jle ?N (alloc_maxAdditionalBuyBudgetKrw (buildPaperAllocationSnapshot pf policy))"
    by (rule le) (simp add: buy_budgets_def assms(6) or_else_def Let_def)
  then have "jle ?N (cash_after_reserve pf policy)" "jle ?N (scheduled_headroom pf policy)"
    using both unfolding snapshot_budgets by blast+
  moreover have "jle ?N (jmax (Fin 0)
      (jsub (jround (jmul (virtualNetWorthKrw pf) (market_scheduled_target policy r)))
        (positionMarketValueForMarket pf (Some ?m))))"
    if r: "map_of (or_else (ap_marketTargetExposureRatios policy) []) ?m = Some r" for r
    by (rule conjunct2 [OF both [of "cash_after_reserve pf policy"]], rule le)
      (simp add: buy_budgets_def assms(6) or_else_def Let_def market_budget [OF r])
  ultimately show ?thesis using scheduled_ceiling_le_target unfolding Let_def by blast
qed

definition sample_allocation_policy :: PaperAllocationPolicy where
  "sample_allocation_policy =
     \<lparr>ap_policyName = ''p'', ap_targetExposureRatio = Fin 1, ap_minCashReserveRatio = Fin 0,
      ap_maxBudgetPerDecisionRatio = Fin 1, ap_maxSymbolExposureRatio = Fin 1,
      ap_deploymentRampDays = Some (num 10), ap_rampDayIndex = Some (num 2),
      ap_maxInitialDeploymentRatio = Some (Fin 0), ap_maxDailyGrossBuyRatio = None,
      ap_maxInitialOpenPositions = Some (num 1), ap_maxNewPositionsPerDay = None,
      ap_maxConcurrentPositions = Some (num 4), ap_positionSlotRampDays = None,
      ap_marketTargetExposureRatios = Some [(KR, Fin 1)]\<rparr>"

definition sample_allocated_packet :: MarketPacket where
  "sample_allocated_packet = sample_packet\<lparr>pkt_portfolioAllocation :=
     Some (buildPaperAllocationSnapshot sample_portfolio sample_allocation_policy)\<rparr>"

theorem buy_within_allocation_witness:
  "jle (no_targetNotionalKrw (normalizeVirtualDecision sample_allocated_packet sample_portfolio sample_buy))
     (cash_after_reserve sample_portfolio sample_allocation_policy)"
proof -
  have "is_finite (virtualNetWorthKrw sample_portfolio)"
    "is_finite (positionMarketValueForMarket sample_portfolio (Some (dec_market sample_buy)))"
    by (simp_all add: sample_defs virtualNetWorthKrw_def portfolioExposureKrw_def position_value_def
        positionMarketValueForMarket_def allocation_position_value_def or_else_def)
  then show ?thesis
    using buy_within_allocation [of sample_portfolio sample_allocation_policy sample_buy sample_allocated_packet]
    by (simp add: sample_allocated_packet_def sample_allocation_policy_def sample_packet_def sample_buy_def
        Let_def)
qed

end
