(* ===== verification/ExecutionClaims.thy ===== *)
theory ExecutionClaims
  imports PaperSamples
begin

text \<open>
  The properties of the execution simulator: the shape of a fill, the liquidity gate, the
  accounting of a purchase and whole-share execution.
\<close>

text \<open>
  A fill is a rejection of nothing or a priced fill.  When the simulator rejects, the
  quantity and every amount are zero; otherwise the quantity is not at most zero, the filled
  notional is the gross amount, and there is no reject reason.
\<close>

theorem fill_rejected_or_priced:
  "if fl_fillStatus (buildPaperFill inp) = Rejected
   then fl_quantity (buildPaperFill inp) = Fin 0 \<and> fl_grossAmountKrw (buildPaperFill inp) = Fin 0 \<and>
     fl_netAmountKrw (buildPaperFill inp) = Fin 0 \<and> fl_feeKrw (buildPaperFill inp) = Fin 0 \<and>
     fl_taxKrw (buildPaperFill inp) = Fin 0 \<and> fl_totalCostKrw (buildPaperFill inp) = Fin 0 \<and>
     fl_filledNotionalKrw (buildPaperFill inp) = Fin 0
   else \<not> jle (fl_quantity (buildPaperFill inp)) (Fin 0) \<and>
     fl_grossAmountKrw (buildPaperFill inp) =
       jround (jmul (fl_quantity (buildPaperFill inp)) (fl_fillPriceKrw (buildPaperFill inp))) \<and>
     fl_filledNotionalKrw (buildPaperFill inp) = fl_grossAmountKrw (buildPaperFill inp) \<and>
     fl_liquidityRejectReason (buildPaperFill inp) = None"
  by (cases rule: buildPaperFill_cases [of inp])
    (simp_all add: rejectedPaperFill_def filledPaperFill_def Let_def)

text \<open>
  Liquidity bounds what is filled.  When a volume is known and the gate does not reject, the
  fillable amount is positive, not above the rounded request and not above the participation cap
  on the volume, and stale data was not to be rejected.
\<close>

theorem fillable_within_participation:
  assumes "effectiveLiquidityVolume v a = Some vol"
    and "ld_fillStatus (buildPaperLiquidityDecision req price v a stale pol) \<noteq> Rejected"
  defines "fillable \<equiv> ld_fillableNotionalKrw (buildPaperLiquidityDecision req price v a stale pol)"
  shows "jlt (Fin 0) fillable \<and> jle fillable (jmax (Fin 0) (jround req)) \<and>
    jle fillable (participation_cap vol price pol) \<and> (stale \<longrightarrow> \<not> xp_rejectStaleLiquidity pol)"
  unfolding fillable_def using liquidity_gate [OF assms(1,2)] liquidity_passes(1) [OF assms(1,2)] by blast

abbreviation sample_xp :: PaperExecutionPolicy where
  "sample_xp \<equiv> createPaperExecutionPolicy (oi_executionPolicy (sample_order sample_buy))"

theorem fillable_within_participation_witness:
  "jlt (Fin 0) (ld_fillableNotionalKrw (buildPaperLiquidityDecision (num 9000000) (num 50000)
       (Some (num 1000)) None False sample_xp)) \<and>
   jle (ld_fillableNotionalKrw (buildPaperLiquidityDecision (num 9000000) (num 50000)
       (Some (num 1000)) None False sample_xp)) (participation_cap (num 1000) (num 50000) sample_xp)"
proof -
  have v: "effectiveLiquidityVolume (Some (Fin 1000)) None = Some (Fin 1000)"
    by (simp add: effectiveLiquidityVolume_def opt_list_def num_eval)
  have s: "ld_fillStatus (buildPaperLiquidityDecision (num 9000000) (num 50000)
      (Some (num 1000)) None False sample_xp) \<noteq> Rejected"
    by (simp add: buildPaperLiquidityDecision_def v sample_execution_policy Let_def normalizeRatio_def
      sample_literals num_eval)
  have v': "effectiveLiquidityVolume (Some (num 1000)) None = Some (num 1000)" using v by simp
  from fillable_within_participation [OF v' s] show ?thesis by blast
qed

text \<open>
  C23. A purchase costs its parts.  With a policy whose rates are in range, the gross amount, the
  fee, the tax, the spread and the impact of a buy that is filled for at most a safe integer are
  whole amounts that are not negative, and the net amount is exactly their sum.
\<close>

theorem purchase_costs_add_up:
  assumes "execution_policy_ok (input_policy inp)" and "fi_action inp = VIRTUAL_BUY"
    and "fl_fillStatus (buildPaperFill inp) \<noteq> Rejected"
    and "jle (fl_netAmountKrw (buildPaperFill inp)) MAX_SAFE_INTEGER"
  shows "\<exists>gross fee tax spread impact. 0 \<le> gross \<and> 0 \<le> fee \<and> 0 \<le> tax \<and> 0 \<le> spread \<and> 0 \<le> impact \<and>
    fl_grossAmountKrw (buildPaperFill inp) = num gross \<and> fl_feeKrw (buildPaperFill inp) = num fee \<and>
    fl_taxKrw (buildPaperFill inp) = num tax \<and> fl_spreadCostKrw (buildPaperFill inp) = num spread \<and>
    fl_impactCostKrw (buildPaperFill inp) = num impact \<and>
    fl_netAmountKrw (buildPaperFill inp) = num (gross + fee + tax + spread + impact)"
proof -
  obtain gross fee tax spread impact where
    "fl_grossAmountKrw (buildPaperFill inp) = num gross" "0 \<le> gross"
    "fl_feeKrw (buildPaperFill inp) = num fee" "0 \<le> fee"
    "fl_taxKrw (buildPaperFill inp) = num tax" "0 \<le> tax"
    "fl_spreadCostKrw (buildPaperFill inp) = num spread" "0 \<le> spread"
    "fl_impactCostKrw (buildPaperFill inp) = num impact" "0 \<le> impact"
    "fl_netAmountKrw (buildPaperFill inp) = num (gross + fee + tax + spread + impact)"
    by (rule buy_accounting [OF assms [unfolded MAX_SAFE_INTEGER_def]])
  then show ?thesis by blast
qed

lemma sample_input_ok: "execution_policy_ok (input_policy sample_buy_input)"
  using max_finite_ge
  by (simp add: sample_eval buy_fill_input_def input_policy_def execution_policy_ok_def rate_ok_def
    ratio_number_def nonneg_number_def MAX_SAFE_INTEGER_def representable_numeral_small)

theorem purchase_costs_add_up_witness:
  "\<exists>gross fee tax spread impact. fl_netAmountKrw (buildPaperFill sample_buy_input) =
     num (gross + fee + tax + spread + impact) \<and> gross + fee + tax + spread + impact = 100150"
proof -
  have "fi_action sample_buy_input = VIRTUAL_BUY" by (simp add: buy_fill_input_def)
  moreover have "fl_fillStatus (buildPaperFill sample_buy_input) \<noteq> Rejected"
    "jle (fl_netAmountKrw (buildPaperFill sample_buy_input)) MAX_SAFE_INTEGER"
    by (simp_all add: sample_buy_fill MAX_SAFE_INTEGER_def)
  ultimately obtain gross fee tax spread impact where n: "fl_netAmountKrw (buildPaperFill sample_buy_input) =
     num (gross + fee + tax + spread + impact)"
    using purchase_costs_add_up [OF sample_input_ok] by blast
  then have "gross + fee + tax + spread + impact = 100150"
    by (simp add: sample_buy_fill(3) del: of_int_add)
  with n show ?thesis by blast
qed

section \<open>Whole shares\<close>

text \<open>
  Whole-share execution trades whole shares.  Without fractional shares, the whole-share
  entry throws exactly when it is given a quantity that is not a positive safe integer; a fill
  it does not reject has, when it is a number, a whole quantity of at least one share.
\<close>

theorem whole_share_fills:
  assumes "\<not> xp_allowFractionalShares (input_policy inp)"
  shows "((\<exists>e. buildWholeSharePaperFill inp = Inl e) \<longleftrightarrow>
      (\<exists>q. fi_quantityOverride inp = Some q \<and> (\<not> is_safe_integer q \<or> jle q (Fin 0)))) \<and>
    (\<forall>f. buildWholeSharePaperFill inp = Inr f \<longrightarrow> fl_fillStatus f \<noteq> Rejected \<longrightarrow>
      is_finite (fl_quantity f) \<longrightarrow> (\<exists>n. fl_quantity f = num n \<and> 1 \<le> n))"
proof (intro conjI allI impI)
  show "(\<exists>e. buildWholeSharePaperFill inp = Inl e) \<longleftrightarrow>
      (\<exists>q. fi_quantityOverride inp = Some q \<and> (\<not> is_safe_integer q \<or> jle q (Fin 0)))"
    using assms by (auto simp: buildWholeSharePaperFill_def buildPaperFillModel_def Let_def input_policy_def
      split: option.splits)
next
  fix f assume f: "buildWholeSharePaperFill inp = Inr f" "fl_fillStatus f \<noteq> Rejected"
    and fin: "is_finite (fl_quantity f)"
  let ?q = "fill_quantity inp (input_policy inp) (input_fill_price inp) (input_liquidity inp) True"
  have q: "fl_quantity f = ?q" "\<not> jle ?q (Fin 0)"
    using f by (auto simp: buildWholeSharePaperFill_def buildPaperFillModel_def Let_def input_defs
      rejectedPaperFill_def filledPaperFill_def split: option.splits if_splits)
  obtain x where "?q = jfloor x" using assms by (simp add: fill_quantity_def Let_def)
  moreover from this fin q(1) have "\<exists>n. jfloor x = num n" by (cases x) auto
  ultimately obtain n where "?q = num n" by auto
  with q show "\<exists>n. fl_quantity f = num n \<and> 1 \<le> n" by (intro exI [of _ n]) simp
qed

theorem whole_share_fills_witness:
  "\<exists>e. buildWholeSharePaperFill (sample_buy_input\<lparr>fi_quantityOverride := Some (num 0)\<rparr>) = Inl e"
proof -
  let ?inp = "sample_buy_input\<lparr>fi_quantityOverride := Some (num 0)\<rparr>"
  have p: "\<not> xp_allowFractionalShares (input_policy ?inp)"
    by (simp add: input_policy_def buy_fill_input_def sample_execution_policy)
  from whole_share_fills [OF p] show ?thesis by auto
qed

end
