(* ===== verification/DecisionSchema.thy ===== *)
theory DecisionSchema
  imports PaperSchemas
begin

text \<open>
  The refinements of the decision schema (\<open>src/domain/schemas.ts\<close>): what \<open>zod\<close> accepts of a
  decision item beyond the types of its fields.  A hold carries no budget; a sell carries a
  sizing, is never marked as anything but reduce-only, and must say so when it is sized by
  quantity, ratio, weight or in full.
\<close>

definition isoDateTime_valid :: "js_env \<Rightarrow> string \<Rightarrow> bool" where
  "isoDateTime_valid env value \<longleftrightarrow> is_finite (date_parse env value)"

definition schema_ratio :: "jsnum \<Rightarrow> bool" where
  "schema_ratio x \<longleftrightarrow> jle (Fin 0) x \<and> jle x (Fin 1)"

definition schema_score :: "jsnum \<Rightarrow> bool" where
  "schema_score x \<longleftrightarrow> jle (Fin 0) x \<and> jle x (Fin 100)"

definition refs_valid :: "string list option \<Rightarrow> bool" where
  "refs_valid refs \<longleftrightarrow> opt_all (list_all non_empty) refs"

text \<open>\<open>virtualDecisionClaimSupportSchema\<close>.\<close>

definition claimSupport_valid :: "ClaimSupport \<Rightarrow> bool" where
  "claimSupport_valid s \<longleftrightarrow> non_empty (claim_text s) \<and> refs_valid (claim_dataRefs s) \<and>
     refs_valid (claim_featureRefs s) \<and>
     length (or_else (claim_dataRefs s) []) + length (or_else (claim_featureRefs s) []) \<noteq> 0"

text \<open>\<open>virtualDecisionConfidenceBreakdownSchema\<close>.\<close>

definition confidenceBreakdown_valid :: "ConfidenceBreakdown \<Rightarrow> bool" where
  "confidenceBreakdown_valid b \<longleftrightarrow> schema_ratio (cb_modelConfidence b) \<and>
     schema_score (cb_evidenceQualityScore b) \<and> schema_score (cb_dataCompletenessScore b) \<and>
     schema_score (cb_policyEligibilityScore b) \<and> schema_score (cb_executionRiskScore b) \<and>
     schema_score (cb_overallScore b) \<and>
     cb_reasonCodes b \<noteq> [] \<and> list_all non_empty (cb_reasonCodes b)"

definition hasVirtualSellSizing :: "VirtualDecisionItem \<Rightarrow> bool" where
  "hasVirtualSellSizing d \<longleftrightarrow> jlt (Fin 0) (dec_budgetKrw d) \<or> dec_sellQuantity d \<noteq> None \<or>
     dec_sellRatio d \<noteq> None \<or> dec_targetWeightPct d \<noteq> None \<or> dec_sellAll d = Some True"

definition hasVirtualSellSizingV2 :: "VirtualDecisionItem \<Rightarrow> bool" where
  "hasVirtualSellSizingV2 d \<longleftrightarrow> dec_sellQuantity d \<noteq> None \<or> dec_sellRatio d \<noteq> None \<or>
     dec_targetWeightPct d \<noteq> None \<or> dec_sellAll d = Some True"

text \<open>The fields of \<open>virtualDecisionItemSchema\<close>, and its five refinements.\<close>

definition decision_fields_valid :: "js_env \<Rightarrow> VirtualDecisionItem \<Rightarrow> bool" where
  "decision_fields_valid env d \<longleftrightarrow> non_empty (dec_symbol d) \<and> schema_ratio (dec_confidence d) \<and>
     money (dec_budgetKrw d) \<and> opt_all money (dec_maxBudgetKrw d) \<and>
     opt_all (\<lambda>q. is_finite q \<and> jlt (Fin 0) q) (dec_sellQuantity d) \<and>
     opt_all (\<lambda>q. jlt (Fin 0) q \<and> jle q (Fin 1)) (dec_sellRatio d) \<and>
     opt_all schema_ratio (dec_targetWeightPct d) \<and> non_empty (dec_thesis d) \<and>
     list_all non_empty (dec_riskFactors d) \<and> dec_dataRefs d \<noteq> [] \<and>
     list_all non_empty (dec_dataRefs d) \<and> refs_valid (dec_featureRefs d) \<and>
     opt_all (list_all claimSupport_valid) (dec_claimSupport d) \<and>
     opt_all confidenceBreakdown_valid (dec_confidenceBreakdown d) \<and>
     isoDateTime_valid env (dec_expiresAt d)"

definition decision_refinements :: "VirtualDecisionItem \<Rightarrow> bool" where
  "decision_refinements d \<longleftrightarrow>
     \<not> (dec_action d \<noteq> VIRTUAL_HOLD \<and> dec_riskFactors d = []) \<and>
     \<not> (dec_action d = VIRTUAL_HOLD \<and> \<not> jeq (dec_budgetKrw d) (Fin 0)) \<and>
     \<not> (dec_action d = VIRTUAL_SELL \<and> \<not> hasVirtualSellSizing d) \<and>
     \<not> (dec_action d = VIRTUAL_SELL \<and> dec_reduceOnly d = Some False) \<and>
     \<not> (dec_action d = VIRTUAL_SELL \<and> hasVirtualSellSizingV2 d \<and> dec_reduceOnly d \<noteq> Some True)"

definition virtualDecisionItem_valid :: "js_env \<Rightarrow> VirtualDecisionItem \<Rightarrow> bool" where
  "virtualDecisionItem_valid env d \<longleftrightarrow> decision_fields_valid env d \<and> decision_refinements d"

text \<open>\<open>virtualDecisionSchema\<close>.\<close>

definition virtualDecision_valid :: "js_env \<Rightarrow> VirtualDecision \<Rightarrow> bool" where
  "virtualDecision_valid env v \<longleftrightarrow> non_empty (vd_packetId v) \<and>
     opt_all non_empty (vd_packetHash v) \<and> opt_all non_empty (vd_decisionHash v) \<and>
     opt_all non_empty (vd_promptVersion v) \<and> opt_all non_empty (vd_modelId v) \<and>
     opt_all non_empty (vd_schemaVersion v) \<and> opt_all non_empty (vd_policyVersion v) \<and>
     non_empty (vd_summary v) \<and> list_all (virtualDecisionItem_valid env) (vd_decisions v) \<and>
     length (vd_decisions v) \<le> 20"

text \<open>
  What an order takes over from its candidate: the symbol and the references.  The check of
  the feature scores is the refinement of \<open>marketCandidateSchema\<close>.
\<close>

definition candidate_refs_valid :: "MarketCandidate \<Rightarrow> bool" where
  "candidate_refs_valid c \<longleftrightarrow> non_empty (cand_symbol c) \<and> refs_valid (cand_featureRefs c) \<and>
     opt_all (\<lambda>refs. refs \<noteq> [] \<and> list_all non_empty refs) (cand_dataRefs c) \<and>
     cand_sourceRefs c \<noteq> [] \<and> list_all non_empty (cand_sourceRefs c)"

definition feature_scores_covered :: "MarketCandidate \<Rightarrow> bool" where
  "feature_scores_covered c \<longleftrightarrow>
     list_all (\<lambda>s. fs_featureRef s \<in> set (or_else (cand_featureRefs c) []))
       (or_else (cand_featureScores c) [])"

lemma trim_Nil_iff: "trim s = [] \<longleftrightarrow> list_all is_space s"
proof -
  have "trim s = [] \<longleftrightarrow> dropWhile is_space (rev (dropWhile is_space s)) = []"
    by (simp only: trim_def rev_is_Nil_conv)
  also have "\<dots> \<longleftrightarrow> (\<forall>x \<in> set (dropWhile is_space s). is_space x)" by (simp add: dropWhile_eq_Nil_conv)
  also have "\<dots> \<longleftrightarrow> (\<forall>x \<in> set s. is_space x)"
  proof
    assume a: "\<forall>x \<in> set (dropWhile is_space s). is_space x"
    have "s = takeWhile is_space s @ dropWhile is_space s" by simp
    then show "\<forall>x \<in> set s. is_space x" using a set_takeWhileD by (metis Un_iff set_append)
  qed (use set_dropWhileD in fast)
  finally show ?thesis by (simp add: list_all_iff)
qed

lemma non_empty_iff: "non_empty s \<longleftrightarrow> (\<exists>c \<in> set s. \<not> is_space c)"
  by (simp add: non_empty_def trim_Nil_iff list_all_iff)

lemma non_empty_append: "non_empty s \<Longrightarrow> non_empty (s @ t)"
  by (auto simp: non_empty_iff)

end
