(* ===== verification/PaperExitPolicy.thy ===== *)
theory PaperExitPolicy
  imports PaperRiskPolicy DecisionSchema
begin

text \<open>
  The deterministic exit policy of the paper account (\<open>src/paper/exitPolicy.ts\<close>): stop-loss,
  take-profit, in full or in part with a trailing stop, and rebalancing of a position that
  outgrew its weight.  The state that is kept between packets, the peak price and the partial
  take-profit of each position, is a map that is threaded through the positions; without a state
  the option is \<open>None\<close>.  The lemmas say which orders the policy can issue and what it keeps of
  its state.
\<close>

section \<open>Policy\<close>

datatype TakeProfitMode = FullExit | PartialThenTrail

text \<open>The mode of a given policy is checked at run time, so it is a string there.\<close>

record PaperExitPolicy =
  xe_takeProfitRatio :: "jsnum option"
  xe_stopLossRatio :: "jsnum option"
  xe_rebalanceMaxPositionWeightRatio :: "jsnum option"
  xe_takeProfitMode :: "string option"
  xe_takeProfitSellRatio :: "jsnum option"
  xe_trailingStopFromPeakRatio :: "jsnum option"

record NormalizedPaperExitPolicy =
  xn_takeProfitRatio :: "jsnum option"
  xn_stopLossRatio :: "jsnum option"
  xn_rebalanceMaxPositionWeightRatio :: "jsnum option"
  xn_takeProfitMode :: TakeProfitMode
  xn_takeProfitSellRatio :: "jsnum option"
  xn_trailingStopFromPeakRatio :: "jsnum option"

definition exit_ratio_ok :: "jsnum \<Rightarrow> nat \<Rightarrow> bool" where
  "exit_ratio_ok value bound \<longleftrightarrow>
     is_finite value \<and> \<not> jle value (Fin 0) \<and> \<not> jlt (num (int bound)) value"

definition validateExitRatio :: "string \<Rightarrow> jsnum option \<Rightarrow> nat \<Rightarrow> jsnum option result" where
  "validateExitRatio name value bound =
     (case value of None \<Rightarrow> Inr None
      | Some v \<Rightarrow> if exit_ratio_ok v bound then Inr (Some v)
                  else Inl (Error (name @ '' must be > 0 and <= '' @ nat_str bound)))"

definition normalizeTakeProfitMode :: "string option \<Rightarrow> TakeProfitMode result" where
  "normalizeTakeProfitMode value =
     (case value of None \<Rightarrow> Inr FullExit
      | Some v \<Rightarrow>
          if v = ''full_exit'' then Inr FullExit
          else if v = ''partial_then_trail'' then Inr PartialThenTrail
          else Inl (Error ''takeProfitMode must be full_exit or partial_then_trail''))"

definition normalizePaperExitPolicy ::
  "PaperExitPolicy option \<Rightarrow> NormalizedPaperExitPolicy option result" where
  "normalizePaperExitPolicy policy =
     (case policy of None \<Rightarrow> Inr None
      | Some p \<Rightarrow>
          bind_result (normalizeTakeProfitMode (xe_takeProfitMode p)) (\<lambda>mode.
          bind_result (validateExitRatio ''takeProfitRatio'' (xe_takeProfitRatio p) 10) (\<lambda>tp.
          bind_result (validateExitRatio ''stopLossRatio'' (xe_stopLossRatio p) 1) (\<lambda>sl.
          bind_result (validateExitRatio ''rebalanceMaxPositionWeightRatio''
            (xe_rebalanceMaxPositionWeightRatio p) 1) (\<lambda>rb.
          bind_result (validateExitRatio ''takeProfitSellRatio'' (xe_takeProfitSellRatio p) 1) (\<lambda>sr.
          bind_result (validateExitRatio ''trailingStopFromPeakRatio''
            (xe_trailingStopFromPeakRatio p) 1) (\<lambda>ts.
            Inr (if tp \<noteq> None \<or> sl \<noteq> None \<or> rb \<noteq> None
                 then Some \<lparr>xn_takeProfitRatio = tp, xn_stopLossRatio = sl,
                        xn_rebalanceMaxPositionWeightRatio = rb, xn_takeProfitMode = mode,
                        xn_takeProfitSellRatio = sr, xn_trailingStopFromPeakRatio = ts\<rparr>
                 else None))))))))"

section \<open>State\<close>

record PaperExitPolicyPositionState =
  xs_partialTakeProfitExecuted :: bool
  xs_peakPriceKrw :: jsnum

type_synonym PaperExitPolicyState = "string \<rightharpoonup> PaperExitPolicyPositionState"

definition createPaperExitPolicyState :: PaperExitPolicyState where
  "createPaperExitPolicyState = Map.empty"

definition positionKey :: "VirtualPosition \<Rightarrow> string" where
  "positionKey p = market_str (pos_market p) @ '':'' @ pos_symbol p"

definition active_keys :: "VirtualPortfolio \<Rightarrow> string list" where
  "active_keys pf = map positionKey (filter (\<lambda>p. jlt (Fin 0) (pos_quantity p)) (pf_positions pf))"

definition prunePaperExitPolicyState ::
  "PaperExitPolicyState \<Rightarrow> VirtualPortfolio \<Rightarrow> PaperExitPolicyState" where
  "prunePaperExitPolicyState state pf =
     (\<lambda>key. if key \<in> set (active_keys pf) then state key else None)"

text \<open>
  The state of one position after the price was seen, and the map that holds it; without a map
  the state is a fresh object that nobody keeps.
\<close>

definition updateExitPositionState ::
  "PaperExitPolicyState option \<Rightarrow> string \<Rightarrow> jsnum
   \<Rightarrow> PaperExitPolicyState option \<times> PaperExitPolicyPositionState" where
  "updateExitPositionState state key currentPrice =
     (let created = \<lparr>xs_partialTakeProfitExecuted = False, xs_peakPriceKrw = currentPrice\<rparr>
      in case state of
           None \<Rightarrow> (None, created)
         | Some m \<Rightarrow>
             (case m key of
                None \<Rightarrow> (Some (m(key \<mapsto> created)), created)
              | Some existing \<Rightarrow>
                  (let updated = existing\<lparr>xs_peakPriceKrw :=
                         jmax (xs_peakPriceKrw existing) currentPrice\<rparr>
                   in (Some (m(key \<mapsto> updated)), updated))))"

definition mark_partial ::
  "PaperExitPolicyState option \<Rightarrow> string \<Rightarrow> PaperExitPolicyPositionState
   \<Rightarrow> PaperExitPolicyState option" where
  "mark_partial state key s =
     map_option (\<lambda>m. m(key \<mapsto> s\<lparr>xs_partialTakeProfitExecuted := True\<rparr>)) state"

section \<open>The decision for a position\<close>

datatype ExitReason = TakeProfit | StopLoss | Rebalance

fun reason_str :: "ExitReason \<Rightarrow> string" where
  "reason_str TakeProfit = ''take_profit''"
| "reason_str StopLoss = ''stop_loss''"
| "reason_str Rebalance = ''rebalance''"

datatype ExitSizing = SellAll | SellRatio jsnum | TargetWeight jsnum

definition formatRatio :: "js_env \<Rightarrow> jsnum \<Rightarrow> string" where
  "formatRatio env value = to_fixed env 2 (jmul value (Fin 100)) @ ''%''"

definition candidateDecisionDataRefs :: "MarketCandidate \<Rightarrow> string list" where
  "candidateDecisionDataRefs c =
     (case cand_dataRefs c of Some refs \<Rightarrow> if refs \<noteq> [] then refs else cand_sourceRefs c
      | None \<Rightarrow> cand_sourceRefs c)"

definition exitDecision ::
  "MarketPacket \<Rightarrow> MarketCandidate \<Rightarrow> ExitReason \<Rightarrow> ExitSizing \<Rightarrow> string \<Rightarrow> VirtualDecisionItem" where
  "exitDecision pkt c reason sizing thesis =
     (let dataRefs = take 5 (candidateDecisionDataRefs c);
          featureRefs = (case cand_featureRefs c of None \<Rightarrow> None
            | Some fs \<Rightarrow> if fs = [] then None else Some (take 8 fs))
      in \<lparr>dec_symbol = cand_symbol c, dec_market = cand_market c, dec_action = VIRTUAL_SELL,
          dec_holdReasonCode = None, dec_confidence = lit (68/100), dec_budgetKrw = Fin 0,
          dec_maxBudgetKrw = None, dec_sellQuantity = None,
          dec_sellRatio = (case sizing of SellRatio r \<Rightarrow> Some r | _ \<Rightarrow> None),
          dec_targetWeightPct = (case sizing of TargetWeight w \<Rightarrow> Some w | _ \<Rightarrow> None),
          dec_sellAll = (case sizing of SellAll \<Rightarrow> Some True | _ \<Rightarrow> None),
          dec_reduceOnly = Some True, dec_thesis = thesis,
          dec_riskFactors =
            [''Paper-only deterministic exit policy.'',
             ''Historical replay fill assumptions may differ from live liquidity.'',
             ''paper_exit_reason:'' @ reason_str reason],
          dec_dataRefs = dataRefs, dec_featureRefs = featureRefs,
          dec_claimSupport = Some [\<lparr>claim_text = thesis, claim_dataRefs = Some dataRefs,
            claim_featureRefs = featureRefs\<rparr>],
          dec_confidenceBreakdown = None,
          dec_expiresAt = pkt_expiresAt pkt\<rparr>)"

text \<open>The texts of the orders.\<close>

definition stop_loss_thesis :: "js_env \<Rightarrow> jsnum \<Rightarrow> string" where
  "stop_loss_thesis env ret =
     ''Paper-only stop-loss exit triggered at '' @ formatRatio env ret @ '' unrealized return.''"

definition trailing_thesis :: "js_env \<Rightarrow> jsnum \<Rightarrow> string" where
  "trailing_thesis env drawdown =
     ''Paper-only trailing stop exit triggered after '' @ formatRatio env drawdown @
     '' drawdown from peak.''"

definition partial_thesis :: "js_env \<Rightarrow> jsnum \<Rightarrow> string" where
  "partial_thesis env ret =
     ''Paper-only partial take-profit exit triggered at '' @ formatRatio env ret @
     '' unrealized return.''"

definition take_profit_thesis :: "js_env \<Rightarrow> jsnum \<Rightarrow> string" where
  "take_profit_thesis env ret =
     ''Paper-only take-profit exit triggered at '' @ formatRatio env ret @ '' unrealized return.''"

definition rebalance_thesis :: "js_env \<Rightarrow> jsnum \<Rightarrow> jsnum \<Rightarrow> string" where
  "rebalance_thesis env weight limit =
     ''Paper-only rebalance exit trims '' @ formatRatio env weight @
     '' position weight to '' @ formatRatio env limit @ ''.''"

lemma thesis_text [simp]:
  "non_empty (stop_loss_thesis env x)" "non_empty (trailing_thesis env x)"
  "non_empty (partial_thesis env x)" "non_empty (take_profit_thesis env x)"
  "non_empty (rebalance_thesis env x y)"
  by (simp_all add: stop_loss_thesis_def trailing_thesis_def partial_thesis_def take_profit_thesis_def
    rebalance_thesis_def non_empty_iff is_space_def)

definition exit_guard :: "VirtualPosition \<Rightarrow> MarketCandidate \<Rightarrow> jsnum option" where
  "exit_guard p c =
     (if jle (pos_quantity p) (Fin 0) \<or> jle (pos_averagePriceKrw p) (Fin 0) then None
      else case cand_lastPriceKrw c of None \<Rightarrow> None
        | Some price \<Rightarrow> if jle price (Fin 0) \<or> cand_sellEligible c = Some False then None
                         else Some price)"

definition unrealizedReturnRatio :: "VirtualPosition \<Rightarrow> jsnum \<Rightarrow> jsnum" where
  "unrealizedReturnRatio p price = jdiv (jsub price (pos_averagePriceKrw p)) (pos_averagePriceKrw p)"

definition stop_loss_hit :: "NormalizedPaperExitPolicy \<Rightarrow> jsnum \<Rightarrow> bool" where
  "stop_loss_hit policy ret =
     (case xn_stopLossRatio policy of None \<Rightarrow> False | Some r \<Rightarrow> jle ret (jneg r))"

definition take_profit_hit :: "NormalizedPaperExitPolicy \<Rightarrow> jsnum \<Rightarrow> bool" where
  "take_profit_hit policy ret =
     (case xn_takeProfitRatio policy of None \<Rightarrow> False | Some r \<Rightarrow> jle r ret)"

definition peakDrawdownRatio :: "PaperExitPolicyPositionState \<Rightarrow> jsnum \<Rightarrow> jsnum" where
  "peakDrawdownRatio s price =
     (if jlt (Fin 0) (xs_peakPriceKrw s)
      then jdiv (jsub (xs_peakPriceKrw s) price) (xs_peakPriceKrw s) else Fin 0)"

definition trailing_hit ::
  "NormalizedPaperExitPolicy \<Rightarrow> PaperExitPolicyPositionState \<Rightarrow> jsnum \<Rightarrow> bool" where
  "trailing_hit policy s price \<longleftrightarrow>
     xn_takeProfitMode policy = PartialThenTrail \<and> xs_partialTakeProfitExecuted s \<and>
     jle (or_else (xn_trailingStopFromPeakRatio policy) (lit (8/100))) (peakDrawdownRatio s price)"

definition positionWeightRatio :: "VirtualPortfolio \<Rightarrow> VirtualPosition \<Rightarrow> jsnum \<Rightarrow> jsnum" where
  "positionWeightRatio pf p price =
     (let netWorth = virtualNetWorthKrw pf
      in if jlt (Fin 0) netWorth then jdiv (jround (jmul (pos_quantity p) price)) netWorth else Fin 0)"

definition rebalance_decision ::
  "js_env \<Rightarrow> MarketPacket \<Rightarrow> VirtualPortfolio \<Rightarrow> VirtualPosition \<Rightarrow> MarketCandidate
   \<Rightarrow> NormalizedPaperExitPolicy \<Rightarrow> jsnum \<Rightarrow> VirtualDecisionItem option" where
  "rebalance_decision env pkt pf p c policy price =
     (case xn_rebalanceMaxPositionWeightRatio policy of None \<Rightarrow> None
      | Some limit \<Rightarrow>
          (let weight = positionWeightRatio pf p price
           in if jlt (jadd limit (lit (1 / 10 ^ 9))) weight
              then Some (exitDecision pkt c Rebalance (TargetWeight limit)
                (rebalance_thesis env weight limit))
              else None))"

definition buildPositionExitDecision ::
  "js_env \<Rightarrow> MarketPacket \<Rightarrow> VirtualPortfolio \<Rightarrow> VirtualPosition \<Rightarrow> MarketCandidate
   \<Rightarrow> NormalizedPaperExitPolicy \<Rightarrow> PaperExitPolicyState option
   \<Rightarrow> PaperExitPolicyState option \<times> VirtualDecisionItem option" where
  "buildPositionExitDecision env pkt pf p c policy state =
     (case exit_guard p c of None \<Rightarrow> (state, None)
      | Some price \<Rightarrow>
          (let key = positionKey p; ret = unrealizedReturnRatio p price
           in case updateExitPositionState state key price of (state1, s) \<Rightarrow>
             if stop_loss_hit policy ret then
               (state1, Some (exitDecision pkt c StopLoss SellAll
                 (stop_loss_thesis env ret)))
             else if trailing_hit policy s price then
               (state1, Some (exitDecision pkt c TakeProfit SellAll
                 (trailing_thesis env (peakDrawdownRatio s price))))
             else if take_profit_hit policy ret then
               (if xn_takeProfitMode policy = PartialThenTrail then
                  (if xs_partialTakeProfitExecuted s then (state1, None)
                   else (mark_partial state1 key s,
                     Some (exitDecision pkt c TakeProfit
                       (SellRatio (or_else (xn_takeProfitSellRatio policy) (lit (1/2))))
                       (partial_thesis env ret))))
                else
                  (state1, Some (exitDecision pkt c TakeProfit SellAll
                    (take_profit_thesis env ret))))
             else (state1, rebalance_decision env pkt pf p c policy price)))"

section \<open>The decisions of a packet\<close>

text \<open>The map of the candidates by key keeps the last of each key.\<close>

definition candidate_by_key :: "MarketPacket \<Rightarrow> string \<Rightarrow> MarketCandidate option" where
  "candidate_by_key pkt key =
     map_of (rev (map (\<lambda>c. (market_str (cand_market c) @ '':'' @ cand_symbol c, c))
       (pkt_candidates pkt))) key"

fun exit_decisions ::
  "js_env \<Rightarrow> MarketPacket \<Rightarrow> VirtualPortfolio \<Rightarrow> NormalizedPaperExitPolicy
   \<Rightarrow> PaperExitPolicyState option \<Rightarrow> VirtualPosition list
   \<Rightarrow> PaperExitPolicyState option \<times> VirtualDecisionItem list" where
  "exit_decisions env pkt pf policy state [] = (state, [])"
| "exit_decisions env pkt pf policy state (p # ps) =
     (case candidate_by_key pkt (positionKey p) of
        None \<Rightarrow> exit_decisions env pkt pf policy state ps
      | Some c \<Rightarrow>
          (case buildPositionExitDecision env pkt pf p c policy state of (state1, d) \<Rightarrow>
             (case exit_decisions env pkt pf policy state1 ps of (state2, ds) \<Rightarrow>
                (state2, (case d of None \<Rightarrow> ds | Some item \<Rightarrow> item # ds)))))"

definition buildPaperExitPolicyDecision ::
  "js_env \<Rightarrow> MarketPacket \<Rightarrow> VirtualPortfolio \<Rightarrow> PaperExitPolicy option
   \<Rightarrow> PaperExitPolicyState option
   \<Rightarrow> (PaperExitPolicyState option \<times> VirtualDecision option) result" where
  "buildPaperExitPolicyDecision env pkt pf given state =
     bind_result (normalizePaperExitPolicy given) (\<lambda>normalized.
       case normalized of None \<Rightarrow> Inr (state, None)
       | Some policy \<Rightarrow>
           if VIRTUAL_SELL \<notin> set (pkt_allowedActions pkt) then Inr (state, None)
           else
             (case exit_decisions env pkt pf policy state (pf_positions pf) of (state', ds) \<Rightarrow>
                Inr (state', if ds = [] then None
                  else Some \<lparr>vd_packetId = pkt_packetId pkt, vd_packetHash = None,
                         vd_decisionHash = None, vd_promptVersion = None, vd_modelId = None,
                         vd_schemaVersion = None,
                         vd_policyVersion = Some ''paper_exit_policy_v1'',
                         vd_summary = ''Paper-only deterministic exit policy decision.'',
                         vd_decisions = ds\<rparr>)))"

section \<open>The policy as it is given\<close>

lemma validate_exit_ratio:
  "validateExitRatio name value bound = Inr v \<longleftrightarrow>
     v = value \<and> opt_all (\<lambda>x. exit_ratio_ok x bound) value"
  by (auto simp: validateExitRatio_def opt_all_def split: option.split)

definition exit_policy_valid :: "PaperExitPolicy \<Rightarrow> bool" where
  "exit_policy_valid p \<longleftrightarrow>
     opt_all (\<lambda>m. m \<in> {''full_exit'', ''partial_then_trail''}) (xe_takeProfitMode p) \<and>
     opt_all (\<lambda>x. exit_ratio_ok x 10) (xe_takeProfitRatio p) \<and>
     opt_all (\<lambda>x. exit_ratio_ok x 1) (xe_stopLossRatio p) \<and>
     opt_all (\<lambda>x. exit_ratio_ok x 1) (xe_rebalanceMaxPositionWeightRatio p) \<and>
     opt_all (\<lambda>x. exit_ratio_ok x 1) (xe_takeProfitSellRatio p) \<and>
     opt_all (\<lambda>x. exit_ratio_ok x 1) (xe_trailingStopFromPeakRatio p)"

lemma take_profit_mode:
  "(\<exists>m. normalizeTakeProfitMode v = Inr m) \<longleftrightarrow>
     opt_all (\<lambda>m. m \<in> {''full_exit'', ''partial_then_trail''}) v"
  by (auto simp: normalizeTakeProfitMode_def opt_all_def split: option.split)

lemma normalized_policy:
  assumes "normalizePaperExitPolicy (Some p) = Inr (Some n)"
  shows "exit_policy_valid p" and "xn_takeProfitRatio n = xe_takeProfitRatio p"
    and "xn_stopLossRatio n = xe_stopLossRatio p"
    and "xn_rebalanceMaxPositionWeightRatio n = xe_rebalanceMaxPositionWeightRatio p"
    and "xn_takeProfitSellRatio n = xe_takeProfitSellRatio p"
    and "xn_trailingStopFromPeakRatio n = xe_trailingStopFromPeakRatio p"
    and "normalizeTakeProfitMode (xe_takeProfitMode p) = Inr (xn_takeProfitMode n)"
  using assms take_profit_mode [of "xe_takeProfitMode p"]
  by (auto simp: normalizePaperExitPolicy_def bind_result_Inr validate_exit_ratio exit_policy_valid_def
    split: if_splits)

lemma normalize_exit_policy_throws:
  "(\<exists>e. normalizePaperExitPolicy (Some p) = Inl e) \<longleftrightarrow> \<not> exit_policy_valid p"
proof -
  have "(\<exists>n. normalizePaperExitPolicy (Some p) = Inr n) \<longleftrightarrow> exit_policy_valid p"
    using take_profit_mode [of "xe_takeProfitMode p"]
    by (auto simp: normalizePaperExitPolicy_def bind_result_Inr validate_exit_ratio exit_policy_valid_def)
  then show ?thesis by (cases "normalizePaperExitPolicy (Some p)") auto
qed

text \<open>The ratios a sizing can carry are those the policy was validated for.\<close>

definition normalized_ok :: "NormalizedPaperExitPolicy \<Rightarrow> bool" where
  "normalized_ok n \<longleftrightarrow> opt_all (\<lambda>x. exit_ratio_ok x 1) (xn_rebalanceMaxPositionWeightRatio n) \<and>
     opt_all (\<lambda>x. exit_ratio_ok x 1) (xn_takeProfitSellRatio n)"

lemma normalized_policy_ok: "normalizePaperExitPolicy p = Inr (Some n) \<Longrightarrow> normalized_ok n"
  using normalized_policy [of "the p" n]
  by (cases p) (auto simp: normalized_ok_def exit_policy_valid_def normalizePaperExitPolicy_def)

section \<open>What an exit order is\<close>

fun sizing_ok :: "ExitSizing \<Rightarrow> bool" where
  "sizing_ok SellAll = True"
| "sizing_ok (SellRatio r) = exit_ratio_ok r 1"
| "sizing_ok (TargetWeight w) = exit_ratio_ok w 1"

lemma half_ok: "exit_ratio_ok (lit (1/2)) 1"
proof -
  have "(1/2 :: rat) = of_int 1 * pow2 (- 1)" by (simp add: pow2_def)
  then have "representable (1/2)" unfolding representable_def by (intro exI [of _ 1] exI [of _ "-1"]) simp
  then show ?thesis by (simp add: exit_ratio_ok_def mk_small rnd_representable)
qed

lemma exit_item:
  assumes "buildPositionExitDecision env pkt pf p c policy state = (state', Some d)"
  shows "\<exists>reason sizing th. d = exitDecision pkt c reason sizing th \<and> non_empty th \<and>
    (normalized_ok policy \<longrightarrow> sizing_ok sizing) \<and> (\<exists>price. exit_guard p c = Some price)"
proof -
  obtain price where g: "exit_guard p c = Some price"
    using assms by (auto simp: buildPositionExitDecision_def split: option.splits)
  obtain state1 s where u: "updateExitPositionState state (positionKey p) price = (state1, s)" by fastforce
  show ?thesis
  proof (cases "rebalance_decision env pkt pf p c policy price = Some d")
    case True
    then show ?thesis using g
      by (fastforce simp: rebalance_decision_def normalized_ok_def opt_all_def Let_def
        split: option.splits if_splits)
  next
    case False
    then show ?thesis using assms g u half_ok
      by (fastforce simp: buildPositionExitDecision_def normalized_ok_def opt_all_def or_else_def Let_def
        split: option.splits if_splits)
  qed
qed

section \<open>The state between packets\<close>

text \<open>
  The partial take-profit of a key as a number, so that a run adds up: what was executed before,
  plus the partial orders issued, is never more than what is executed after.
\<close>

definition executed :: "PaperExitPolicyState \<Rightarrow> string \<Rightarrow> nat" where
  "executed m key = (case m key of None \<Rightarrow> 0 | Some s \<Rightarrow> of_bool (xs_partialTakeProfitExecuted s))"

definition item_key :: "VirtualDecisionItem \<Rightarrow> string" where
  "item_key d = market_str (dec_market d) @ '':'' @ dec_symbol d"

definition partials :: "string \<Rightarrow> VirtualDecisionItem list \<Rightarrow> nat" where
  "partials key ds = length (filter (\<lambda>d. item_key d = key \<and> dec_sellRatio d \<noteq> None) ds)"

lemma partials_simps [simp]:
  "partials key [] = 0"
  "partials key (d # ds) = of_bool (item_key d = key \<and> dec_sellRatio d \<noteq> None) + partials key ds"
  "partials key (xs @ ys) = partials key xs + partials key ys"
  by (simp_all add: partials_def)

lemma executed_le: "executed m key \<le> 1"
  by (simp add: executed_def split: option.split)

lemma exit_decision_fields [simp]:
  "dec_sellRatio (exitDecision pkt c reason sizing th) = (case sizing of SellRatio r \<Rightarrow> Some r | _ \<Rightarrow> None)"
  "dec_market (exitDecision pkt c reason sizing th) = cand_market c"
  "dec_symbol (exitDecision pkt c reason sizing th) = cand_symbol c"
  by (simp_all add: exitDecision_def Let_def)

lemma candidate_key: "candidate_by_key pkt key = Some c \<Longrightarrow>
  c \<in> set (pkt_candidates pkt) \<and> market_str (cand_market c) @ '':'' @ cand_symbol c = key"
  unfolding candidate_by_key_def by (drule map_of_SomeD) auto

lemma rebalance_no_ratio:
  "rebalance_decision env pkt pf p c policy price = Some d \<Longrightarrow> dec_sellRatio d = None"
  by (auto simp: rebalance_decision_def Let_def split: option.splits if_splits)

lemma marked_executed: "s = s\<lparr>xs_partialTakeProfitExecuted := True\<rparr> \<Longrightarrow> xs_partialTakeProfitExecuted s"
  by (drule arg_cong [of _ _ xs_partialTakeProfitExecuted]) simp

lemma update_executed:
  assumes "updateExitPositionState (Some m) key price = (state1, s)"
  obtains m1 where "state1 = Some m1" "m1 key = Some s"
    "executed m1 k = executed m k" "of_bool (xs_partialTakeProfitExecuted s) = executed m key"
  using assms that
  by (auto simp: updateExitPositionState_def executed_def Let_def split: option.splits)

lemma position_partials:
  assumes "buildPositionExitDecision env pkt pf p c policy (Some m) = (state', d)"
    and "candidate_by_key pkt (positionKey p) = Some c"
  shows "\<exists>m'. state' = Some m' \<and>
    partials k (case d of None \<Rightarrow> [] | Some x \<Rightarrow> [x]) + executed m k \<le> executed m' k"
proof (cases "exit_guard p c")
  case None
  with assms show ?thesis by (auto simp: buildPositionExitDecision_def)
next
  case (Some price)
  have ck: "market_str (cand_market c) @ '':'' @ cand_symbol c = positionKey p"
    using candidate_key [OF assms(2)] by simp
  obtain state1 s where u: "updateExitPositionState (Some m) (positionKey p) price = (state1, s)" by fastforce
  obtain m1 where m1: "state1 = Some m1" "m1 (positionKey p) = Some s" "executed m1 k = executed m k"
    "of_bool (xs_partialTakeProfitExecuted s) = executed m (positionKey p)"
    using update_executed [OF u] by blast
  show ?thesis
  proof (cases "state' = state1")
    case True
    have "partials k (case d of None \<Rightarrow> [] | Some x \<Rightarrow> [x]) = 0"
    proof (cases d)
      case (Some x)
      have "dec_sellRatio x = None"
        using assms(1) \<open>exit_guard p c = Some price\<close> u Some True m1(1,2)
        by (auto simp: buildPositionExitDecision_def mark_partial_def Let_def fun_upd_idem_iff
          dest: rebalance_no_ratio marked_executed split: if_splits)
      then show ?thesis by (simp add: Some)
    qed simp
    with True m1 show ?thesis by simp
  next
    case False
    then obtain x where x: "d = Some x" "state' = mark_partial state1 (positionKey p) s"
      "\<not> xs_partialTakeProfitExecuted s"
      "\<exists>r th. x = exitDecision pkt c TakeProfit (SellRatio r) th"
      using assms(1) Some u by (auto simp: buildPositionExitDecision_def Let_def split: if_splits)
    have "item_key x = positionKey p" using x(4) ck by (auto simp: item_key_def)
    moreover have "executed m (positionKey p) = 0" using m1(4) x(3) by simp
    ultimately show ?thesis using x m1
      by (auto simp: mark_partial_def executed_def)
  qed
qed

lemma exit_decisions_partials:
  "exit_decisions env pkt pf policy (Some m) ps = (state', ds) \<Longrightarrow>
   \<exists>m'. state' = Some m' \<and> partials k ds + executed m k \<le> executed m' k"
proof (induction ps arbitrary: m state' ds)
  case (Cons p ps)
  show ?case
  proof (cases "candidate_by_key pkt (positionKey p)")
    case None
    with Cons show ?thesis by simp
  next
    case (Some c)
    obtain state1 d where b: "buildPositionExitDecision env pkt pf p c policy (Some m) = (state1, d)"
      by fastforce
    obtain m1 where m1: "state1 = Some m1"
      "partials k (case d of None \<Rightarrow> [] | Some x \<Rightarrow> [x]) + executed m k \<le> executed m1 k"
      using position_partials [OF b Some] by blast
    obtain ds1 where r: "exit_decisions env pkt pf policy (Some m1) ps = (state', ds1)"
      "ds = (case d of None \<Rightarrow> [] | Some x \<Rightarrow> [x]) @ ds1"
      using Cons.prems Some b m1(1) by (auto split: prod.splits option.splits)
    obtain m' where "state' = Some m'" "partials k ds1 + executed m1 k \<le> executed m' k"
      using Cons.IH [OF r(1)] by blast
    with m1 r(2) show ?thesis by auto
  qed
qed simp

subsection \<open>Runs\<close>

text \<open>
  A run of the policy over packets and portfolios, between which the state is pruned while the
  position of the key is still held, with the orders it issued.
\<close>

definition issued :: "VirtualDecision option \<Rightarrow> VirtualDecisionItem list" where
  "issued dec = (case dec of None \<Rightarrow> [] | Some v \<Rightarrow> vd_decisions v)"

inductive exit_run ::
  "js_env \<Rightarrow> PaperExitPolicy \<Rightarrow> string \<Rightarrow> PaperExitPolicyState \<Rightarrow> VirtualDecisionItem list
   \<Rightarrow> PaperExitPolicyState \<Rightarrow> bool"
  for env :: js_env and policy :: PaperExitPolicy and key :: string where
  run_start: "exit_run env policy key m [] m"
| run_packet: "exit_run env policy key m (ds @ issued dec) m2"
    if "exit_run env policy key m ds m1"
      and "buildPaperExitPolicyDecision env pkt pf (Some policy) (Some m1) = Inr (Some m2, dec)"
| run_prune: "exit_run env policy key m ds (prunePaperExitPolicyState m1 pf)"
    if "exit_run env policy key m ds m1" and "key \<in> set (active_keys pf)"

inductive_cases exit_runE: "exit_run env policy key m ds m'"

lemma build_partials:
  assumes "buildPaperExitPolicyDecision env pkt pf given (Some m) = Inr (state', dec)"
  shows "\<exists>m'. state' = Some m' \<and> partials key (issued dec) + executed m key \<le> executed m' key"
proof -
  obtain n where n: "normalizePaperExitPolicy given = Inr n"
    using assms by (auto simp: buildPaperExitPolicyDecision_def bind_result_Inr)
  show ?thesis
  proof (cases "n = None \<or> VIRTUAL_SELL \<notin> set (pkt_allowedActions pkt)")
    case True
    with assms n show ?thesis
      by (auto simp: buildPaperExitPolicyDecision_def issued_def split: option.splits)
  next
    case False
    then obtain policy ds where p: "n = Some policy"
      "exit_decisions env pkt pf policy (Some m) (pf_positions pf) = (state', ds)" "issued dec = ds"
      using assms n by (auto simp: buildPaperExitPolicyDecision_def issued_def
        split: option.splits prod.splits if_splits)
    from exit_decisions_partials [OF p(2)] p(3) show ?thesis by simp
  qed
qed

lemma prune_keeps: "key \<in> set (active_keys pf) \<Longrightarrow> prunePaperExitPolicyState m pf key = m key"
  by (simp add: prunePaperExitPolicyState_def)

lemma run_partials:
  "exit_run env policy key m ds m' \<Longrightarrow> partials key ds + executed m key \<le> executed m' key"
proof (induction rule: exit_run.induct)
  case (run_packet m ds m1 pkt pf m2 dec)
  with build_partials [OF run_packet.hyps(2), of key] show ?case by auto
next
  case (run_prune m ds m1 pf)
  then show ?case by (simp add: executed_def prune_keeps)
qed simp

subsection \<open>The peak\<close>

definition peak_at_least :: "jsnum \<Rightarrow> PaperExitPolicyState option \<Rightarrow> string \<Rightarrow> bool" where
  "peak_at_least x state key =
     (case state of None \<Rightarrow> False
      | Some m \<Rightarrow> (case m key of None \<Rightarrow> False | Some s \<Rightarrow> jle x (xs_peakPriceKrw s)))"

lemma peak_of_mark [simp]:
  "state = Some m \<Longrightarrow> m key = Some s \<Longrightarrow>
   peak_at_least x (mark_partial state key s) k = peak_at_least x state k"
  by (simp add: peak_at_least_def mark_partial_def)

lemma update_peak:
  assumes "updateExitPositionState (Some m) key price = (state1, s)" and "price \<noteq> NaN"
  shows "(\<forall>s0. m key = Some s0 \<longrightarrow> xs_peakPriceKrw s0 \<noteq> NaN) \<Longrightarrow> peak_at_least price state1 key"
    and "peak_at_least x (Some m) k \<Longrightarrow> peak_at_least x state1 k"
proof -
  have ge: "p \<noteq> NaN \<Longrightarrow> jle price (jmax p price)" and le: "jle x p \<Longrightarrow> jle x (jmax p price)" for p
  proof -
    show "p \<noteq> NaN \<Longrightarrow> jle price (jmax p price)" using jmax_ge [of p price] assms(2) by simp
    assume x: "jle x p"
    then have "p \<noteq> NaN" by auto
    with x show "jle x (jmax p price)" using jmax_ge [of p price] assms(2) jle_trans by blast
  qed
  from assms(1) assms(2) show "(\<forall>s0. m key = Some s0 \<longrightarrow> xs_peakPriceKrw s0 \<noteq> NaN) \<Longrightarrow>
      peak_at_least price state1 key"
    by (auto simp: updateExitPositionState_def peak_at_least_def Let_def ge split: option.splits)
  from assms(1) show "peak_at_least x (Some m) k \<Longrightarrow> peak_at_least x state1 k"
    by (auto simp: updateExitPositionState_def peak_at_least_def Let_def le
      split: option.splits if_splits)
qed

lemma position_peak:
  assumes "buildPositionExitDecision env pkt pf p c policy (Some m) = (state', d)"
    and "exit_guard p c = Some price" and "price \<noteq> NaN"
  shows "(\<forall>s0. m (positionKey p) = Some s0 \<longrightarrow> xs_peakPriceKrw s0 \<noteq> NaN) \<Longrightarrow>
      peak_at_least price state' (positionKey p)"
    and "peak_at_least x (Some m) k \<Longrightarrow> peak_at_least x state' k"
proof -
  obtain state1 s where u: "updateExitPositionState (Some m) (positionKey p) price = (state1, s)" by fastforce
  obtain m1 where m1: "state1 = Some m1" "m1 (positionKey p) = Some s"
    using update_executed [OF u] by blast
  have "state' = state1 \<or> state' = mark_partial state1 (positionKey p) s"
    using assms(1,2) u by (auto simp: buildPositionExitDecision_def Let_def split: if_splits)
  then have same: "peak_at_least y state' k' = peak_at_least y state1 k'" for y k'
    using m1 by auto
  from update_peak [OF u assms(3)]
  show "(\<forall>s0. m (positionKey p) = Some s0 \<longrightarrow> xs_peakPriceKrw s0 \<noteq> NaN) \<Longrightarrow>
      peak_at_least price state' (positionKey p)"
    and "peak_at_least x (Some m) k \<Longrightarrow> peak_at_least x state' k" unfolding same by blast+
qed

section \<open>Exit orders and the schema\<close>

lemma data_refs_valid:
  assumes "candidate_refs_valid c"
  shows "candidateDecisionDataRefs c \<noteq> []" and "list_all non_empty (candidateDecisionDataRefs c)"
  using assms by (auto simp: candidate_refs_valid_def candidateDecisionDataRefs_def split: option.splits)

lemma take_valid: "list_all P xs \<Longrightarrow> list_all P (take n xs)"
  by (auto simp: list_all_iff dest: in_set_takeD)

lemma exit_factors: "list_all non_empty (dec_riskFactors (exitDecision pkt c reason sizing th))"
  by (simp add: exitDecision_def Let_def non_empty_iff is_space_def)

lemma confidence_literal: "schema_ratio (lit (68/100))"
  using mk_mono [of 0 "68/100"] mk_mono [of "68/100" 1] by (simp add: schema_ratio_def)

lemma exit_ratio_bounds:
  assumes "exit_ratio_ok x 1"
  shows "is_finite x" and "jlt (Fin 0) x" and "jle (Fin 0) x" and "jle x (Fin 1)"
  using assms by (cases x; simp add: exit_ratio_ok_def)+

lemma exit_order_valid:
  assumes "candidate_refs_valid c" and "isoDateTime_valid env (pkt_expiresAt pkt)"
    and "sizing_ok sizing" and "non_empty th"
  shows "virtualDecisionItem_valid env (exitDecision pkt c reason sizing th)"
proof -
  let ?d = "exitDecision pkt c reason sizing th"
  note refs = data_refs_valid [OF assms(1)]
  have data: "dec_dataRefs ?d \<noteq> []" "list_all non_empty (dec_dataRefs ?d)"
    using refs take_valid by (auto simp: exitDecision_def Let_def)
  have feature: "refs_valid (dec_featureRefs ?d)"
    using assms(1) take_valid
    by (auto simp: exitDecision_def Let_def refs_valid_def candidate_refs_valid_def opt_all_def
      split: option.split)
  have claim: "opt_all (list_all claimSupport_valid) (dec_claimSupport ?d)"
    using data feature assms(4) by (simp add: exitDecision_def Let_def claimSupport_valid_def refs_valid_def)
  have "decision_fields_valid env ?d"
    using assms exit_factors confidence_literal data feature claim
    by (cases sizing)
      (simp_all add: decision_fields_valid_def exit_ratio_bounds candidate_refs_valid_def
        exitDecision_def Let_def money_def is_safe_integer_def MAX_SAFE_INTEGER_def schema_ratio_def)
  moreover have "decision_refinements ?d"
    by (cases sizing) (simp_all add: decision_refinements_def hasVirtualSellSizing_def
      hasVirtualSellSizingV2_def exitDecision_def Let_def)
  ultimately show ?thesis by (simp add: virtualDecisionItem_valid_def)
qed

end
