(* ===== verification/ExitClaims.thy ===== *)
theory ExitClaims
  imports PaperExitPolicy PaperSamples
begin

text \<open>
  The properties of the exit policy: which policies it refuses, which orders it issues, and what
  the state it keeps between packets says; each with a witness on the samples where it has
  hypotheses.
\<close>

section \<open>Keys\<close>

lemma key_eq_iff:
  "market_str m @ '':'' @ s = market_str m' @ '':'' @ s' \<longleftrightarrow> m = m' \<and> s = s'"
  by (cases m; cases m') simp_all

lemma item_key_position: "item_key d = positionKey p \<longleftrightarrow> same_key d p"
  unfolding item_key_def positionKey_def key_eq_iff by (auto simp: same_key_def)

section \<open>The orders of a packet\<close>

text \<open>Every order comes from a position of the list and from a candidate under its key.\<close>

lemma exit_decisions_items:
  "exit_decisions env pkt pf policy state ps = (state', ds) \<Longrightarrow> d \<in> set ds \<Longrightarrow>
   \<exists>p \<in> set ps. \<exists>c price reason sizing th. candidate_by_key pkt (positionKey p) = Some c \<and>
     exit_guard p c = Some price \<and> d = exitDecision pkt c reason sizing th \<and> non_empty th \<and>
     (normalized_ok policy \<longrightarrow> sizing_ok sizing)"
proof (induction ps arbitrary: state state' ds)
  case (Cons p ps)
  show ?case
  proof (cases "candidate_by_key pkt (positionKey p)")
    case None
    with Cons show ?thesis by fastforce
  next
    case (Some c)
    obtain state1 x where b: "buildPositionExitDecision env pkt pf p c policy state = (state1, x)"
      by fastforce
    obtain ds1 where r: "exit_decisions env pkt pf policy state1 ps = (state', ds1)"
      "ds = (case x of None \<Rightarrow> [] | Some y \<Rightarrow> [y]) @ ds1"
      using Cons.prems(1) Some b by (auto split: prod.splits option.splits)
    show ?thesis
    proof (cases "d \<in> set ds1")
      case True
      with Cons.IH [OF r(1)] show ?thesis by fastforce
    next
      case False
      then have "x = Some d" using Cons.prems(2) r(2) by (auto split: option.splits)
      with exit_item [of env pkt pf p c policy state state1 d] b Some show ?thesis by fastforce
    qed
  qed
qed simp

lemma exit_decisions_length:
  "exit_decisions env pkt pf policy state ps = (state', ds) \<Longrightarrow> length ds \<le> length ps"
  by (induction ps arbitrary: state state' ds)
    (fastforce split: prod.splits option.splits)+

lemma built_decision:
  assumes "buildPaperExitPolicyDecision env pkt pf given state = Inr (state', Some dec)"
  obtains policy ds where "normalizePaperExitPolicy given = Inr (Some policy)"
    "exit_decisions env pkt pf policy state (pf_positions pf) = (state', ds)" "ds \<noteq> []"
    "VIRTUAL_SELL \<in> set (pkt_allowedActions pkt)"
    "vd_decisions dec = ds" "vd_packetId dec = pkt_packetId pkt" "vd_packetHash dec = None"
    "vd_decisionHash dec = None" "vd_promptVersion dec = None" "vd_modelId dec = None"
    "vd_schemaVersion dec = None" "vd_policyVersion dec = Some ''paper_exit_policy_v1''"
    "vd_summary dec = ''Paper-only deterministic exit policy decision.''"
  using assms that unfolding buildPaperExitPolicyDecision_def bind_result_Inr
  by (fastforce split: option.splits prod.splits if_splits)

section \<open>Samples\<close>

definition sample_exit_policy :: PaperExitPolicy where
  "sample_exit_policy =
     \<lparr>xe_takeProfitRatio = Some (Fin 1), xe_stopLossRatio = None,
      xe_rebalanceMaxPositionWeightRatio = None, xe_takeProfitMode = Some ''partial_then_trail'',
      xe_takeProfitSellRatio = None, xe_trailingStopFromPeakRatio = None\<rparr>"

text \<open>The position has doubled.\<close>

definition sample_gain :: VirtualPortfolio where
  "sample_gain = sample_portfolio\<lparr>pf_positions := [sample_position\<lparr>pos_averagePriceKrw := Fin 20000\<rparr>]\<rparr>"

lemma sample_exit_normalized:
  "normalizePaperExitPolicy (Some sample_exit_policy) = Inr (Some
     \<lparr>xn_takeProfitRatio = Some (Fin 1), xn_stopLossRatio = None,
      xn_rebalanceMaxPositionWeightRatio = None, xn_takeProfitMode = PartialThenTrail,
      xn_takeProfitSellRatio = None, xn_trailingStopFromPeakRatio = None\<rparr>)"
  by (simp add: normalizePaperExitPolicy_def sample_exit_policy_def normalizeTakeProfitMode_def
    validateExitRatio_def exit_ratio_ok_def sample_eval)

abbreviation sample_held :: VirtualPosition where
  "sample_held \<equiv> sample_position\<lparr>pos_averagePriceKrw := Fin 20000\<rparr>"

lemma sample_gain_hit: "jle (Fin 1) (unrealizedReturnRatio sample_held (Fin 50000))"
  using mk_mono [of 1 "3/2"] by (simp add: unrealizedReturnRatio_def sample_eval num_eval)

definition sample_exit_order :: VirtualDecisionItem where
  "sample_exit_order = exitDecision sample_packet sample_candidate TakeProfit (SellRatio (lit (1/2)))
     (partial_thesis sample_env (unrealizedReturnRatio sample_held (Fin 50000)))"

definition sample_exit_state :: PaperExitPolicyState where
  "sample_exit_state = [''KR:A'' \<mapsto>
     \<lparr>xs_partialTakeProfitExecuted = True, xs_peakPriceKrw = Fin 50000\<rparr>]"

lemma sample_held_key: "positionKey sample_held = ''KR:A''"
  "candidate_by_key sample_packet ''KR:A'' = Some sample_candidate"
  "exit_guard sample_held sample_candidate = Some (Fin 50000)"
  by (simp_all add: positionKey_def sample_position_def candidate_by_key_def sample_packet_def
    sample_candidate_def exit_guard_def)

lemma sample_exit_position:
  assumes "xn_stopLossRatio n = None" and "xn_takeProfitRatio n = Some (Fin 1)"
    and "xn_takeProfitMode n = PartialThenTrail" and "xn_takeProfitSellRatio n = None"
  shows "buildPositionExitDecision sample_env sample_packet sample_gain sample_held sample_candidate n
     (Some createPaperExitPolicyState) = (Some sample_exit_state, Some sample_exit_order)"
  using sample_gain_hit assms
  by (simp add: buildPositionExitDecision_def sample_held_key updateExitPositionState_def
    createPaperExitPolicyState_def stop_loss_hit_def trailing_hit_def take_profit_hit_def
    mark_partial_def sample_exit_order_def sample_exit_state_def or_else_def Let_def)

lemma sample_exit:
  "\<exists>dec. buildPaperExitPolicyDecision sample_env sample_packet sample_gain (Some sample_exit_policy)
     (Some createPaperExitPolicyState) = Inr (Some sample_exit_state, Some dec) \<and>
     vd_decisions dec = [sample_exit_order]"
proof -
  have "pf_positions sample_gain = [sample_held]" by (simp add: sample_gain_def)
  moreover have "VIRTUAL_SELL \<in> set (pkt_allowedActions sample_packet)" by (simp add: sample_packet_def)
  ultimately show ?thesis
    by (simp add: buildPaperExitPolicyDecision_def sample_exit_normalized sample_held_key
      sample_exit_position)
qed

text \<open>
  C24. An exit order is valid for the schema.  From a packet whose candidates carry references
  and whose expiry is a date, every order of the exit policy satisfies the decision schema with
  its refinements, so the decision is valid as a whole exactly when it has at most twenty orders.
\<close>

theorem exit_orders_valid:
  assumes "buildPaperExitPolicyDecision env pkt pf given state = Inr (state', Some dec)"
    and "\<forall>c \<in> set (pkt_candidates pkt). candidate_refs_valid c"
    and "isoDateTime_valid env (pkt_expiresAt pkt)" and "non_empty (pkt_packetId pkt)"
  shows "list_all (virtualDecisionItem_valid env) (vd_decisions dec) \<and>
    (virtualDecision_valid env dec \<longleftrightarrow> length (vd_decisions dec) \<le> 20)"
proof -
  obtain policy ds where b: "normalizePaperExitPolicy given = Inr (Some policy)"
    "exit_decisions env pkt pf policy state (pf_positions pf) = (state', ds)"
    "vd_decisions dec = ds" and fields: "vd_packetId dec = pkt_packetId pkt"
    "vd_packetHash dec = None" "vd_decisionHash dec = None" "vd_promptVersion dec = None"
    "vd_modelId dec = None" "vd_schemaVersion dec = None"
    "vd_policyVersion dec = Some ''paper_exit_policy_v1''"
    "vd_summary dec = ''Paper-only deterministic exit policy decision.''"
    by (rule built_decision [OF assms(1)])
  have items: "list_all (virtualDecisionItem_valid env) (vd_decisions dec)"
    unfolding list_all_iff b(3)
  proof
    fix d assume "d \<in> set ds"
    from exit_decisions_items [OF b(2) this] obtain c reason sizing th key where d:
      "candidate_by_key pkt key = Some c" "d = exitDecision pkt c reason sizing th" "non_empty th"
      "sizing_ok sizing" using normalized_policy_ok [OF b(1)] by blast
    have "candidate_refs_valid c" using candidate_key [OF d(1)] assms(2) by blast
    from exit_order_valid [OF this assms(3) d(4,3)] d(2) show "virtualDecisionItem_valid env d" by simp
  qed
  moreover have "non_empty ''paper_exit_policy_v1''"
    "non_empty ''Paper-only deterministic exit policy decision.''"
    by (simp_all add: non_empty_iff is_space_def)
  ultimately show ?thesis using assms(4) by (simp add: virtualDecision_valid_def fields)
qed

theorem exit_orders_valid_witness:
  "virtualDecisionItem_valid sample_env sample_exit_order"
proof -
  obtain dec where d: "buildPaperExitPolicyDecision sample_env sample_packet sample_gain
      (Some sample_exit_policy) (Some createPaperExitPolicyState) = Inr (Some sample_exit_state, Some dec)"
    "vd_decisions dec = [sample_exit_order]" using sample_exit by blast
  have "\<forall>c \<in> set (pkt_candidates sample_packet). candidate_refs_valid c"
    "non_empty (pkt_packetId sample_packet)"
    by (simp_all add: sample_packet_def sample_candidate_def candidate_refs_valid_def refs_valid_def
      non_empty_iff is_space_def)
  moreover have "isoDateTime_valid sample_env (pkt_expiresAt sample_packet)"
    by (simp add: isoDateTime_valid_def sample_eval)
  ultimately show ?thesis using exit_orders_valid [OF d(1)] d(2) by simp
qed

text \<open>
  C25. Exit orders are for what is held.  Every order of the exit policy is a reduce-only sell
  without a budget, of a position of the portfolio that has a quantity, an average price and a
  sellable candidate with a price that are not at most zero; there are not more orders than
  positions, and none unless the packet allows sells.
\<close>

theorem exit_orders_of_positions:
  assumes "buildPaperExitPolicyDecision env pkt pf given state = Inr (state', Some dec)"
  shows "VIRTUAL_SELL \<in> set (pkt_allowedActions pkt) \<and> vd_decisions dec \<noteq> [] \<and>
    length (vd_decisions dec) \<le> length (pf_positions pf) \<and>
    (\<forall>d \<in> set (vd_decisions dec). dec_action d = VIRTUAL_SELL \<and> dec_reduceOnly d = Some True \<and>
       dec_budgetKrw d = Fin 0 \<and> hasVirtualSellSizingV2 d \<and>
       (\<exists>p \<in> set (pf_positions pf). same_key d p \<and> \<not> jle (pos_quantity p) (Fin 0) \<and>
          \<not> jle (pos_averagePriceKrw p) (Fin 0) \<and>
          (\<exists>c \<in> set (pkt_candidates pkt). \<exists>price. cand_lastPriceKrw c = Some price \<and>
             \<not> jle price (Fin 0) \<and> cand_sellEligible c \<noteq> Some False \<and>
             cand_market c = dec_market d \<and> cand_symbol c = dec_symbol d)))"
proof -
  obtain policy ds where b: "exit_decisions env pkt pf policy state (pf_positions pf) = (state', ds)"
    "ds \<noteq> []" "VIRTUAL_SELL \<in> set (pkt_allowedActions pkt)" "vd_decisions dec = ds"
    by (rule built_decision [OF assms])
  have "dec_action d = VIRTUAL_SELL \<and> dec_reduceOnly d = Some True \<and>
       dec_budgetKrw d = Fin 0 \<and> hasVirtualSellSizingV2 d \<and>
       (\<exists>p \<in> set (pf_positions pf). same_key d p \<and> \<not> jle (pos_quantity p) (Fin 0) \<and>
          \<not> jle (pos_averagePriceKrw p) (Fin 0) \<and>
          (\<exists>c \<in> set (pkt_candidates pkt). \<exists>price. cand_lastPriceKrw c = Some price \<and>
             \<not> jle price (Fin 0) \<and> cand_sellEligible c \<noteq> Some False \<and>
             cand_market c = dec_market d \<and> cand_symbol c = dec_symbol d))"
    if "d \<in> set ds" for d
  proof -
    from exit_decisions_items [OF b(1) that] obtain p c price reason sizing th where d:
      "p \<in> set (pf_positions pf)" "candidate_by_key pkt (positionKey p) = Some c"
      "exit_guard p c = Some price" "d = exitDecision pkt c reason sizing th" by blast
    have guard: "\<not> jle (pos_quantity p) (Fin 0)" "\<not> jle (pos_averagePriceKrw p) (Fin 0)"
      "cand_lastPriceKrw c = Some price" "\<not> jle price (Fin 0)" "cand_sellEligible c \<noteq> Some False"
      using d(3) by (auto simp: exit_guard_def split: if_splits option.splits)
    have "same_key d p" using candidate_key [OF d(2)]
      by (auto simp: item_key_position [symmetric] item_key_def d(4))
    moreover have "dec_action d = VIRTUAL_SELL" "dec_reduceOnly d = Some True" "dec_budgetKrw d = Fin 0"
      "hasVirtualSellSizingV2 d" "cand_market c = dec_market d" "cand_symbol c = dec_symbol d"
      by (simp_all add: d(4) exitDecision_def Let_def hasVirtualSellSizingV2_def split: ExitSizing.split)
    ultimately show ?thesis using guard d(1) candidate_key [OF d(2)] by blast
  qed
  with b exit_decisions_length [OF b(1)] show ?thesis by simp
qed

theorem exit_orders_of_positions_witness:
  "dec_action sample_exit_order = VIRTUAL_SELL \<and> (\<exists>p \<in> set (pf_positions sample_gain).
     same_key sample_exit_order p \<and> \<not> jle (pos_quantity p) (Fin 0))"
proof -
  obtain dec where d: "buildPaperExitPolicyDecision sample_env sample_packet sample_gain
      (Some sample_exit_policy) (Some createPaperExitPolicyState) = Inr (Some sample_exit_state, Some dec)"
    "vd_decisions dec = [sample_exit_order]" using sample_exit by blast
  from exit_orders_of_positions [OF d(1)] d(2) show ?thesis by auto
qed

section \<open>The policy that is given\<close>

text \<open>
  Only an invalid exit policy throws.  The decision of a packet throws exactly when a policy
  is given whose mode is unknown or one of whose ratios is not positive and within its limit; no
  packet, portfolio or state does.
\<close>

theorem only_invalid_exit_policy_throws:
  "(\<exists>e. buildPaperExitPolicyDecision env pkt pf given state = Inl e) \<longleftrightarrow>
   (\<exists>p. given = Some p \<and> \<not> exit_policy_valid p)"
proof (cases "normalizePaperExitPolicy given")
  case (Inl e)
  then obtain p where "given = Some p" by (cases given) (auto simp: normalizePaperExitPolicy_def)
  with Inl normalize_exit_policy_throws [of p] show ?thesis
    by (auto simp: buildPaperExitPolicyDecision_def)
next
  case (Inr n)
  have "\<not> (\<exists>e. buildPaperExitPolicyDecision env pkt pf given state = Inl e)"
    by (auto simp: buildPaperExitPolicyDecision_def Inr split: option.splits prod.splits if_splits)
  moreover have "\<not> (\<exists>p. given = Some p \<and> \<not> exit_policy_valid p)"
    using Inr by (auto simp: normalize_exit_policy_throws [symmetric])
  ultimately show ?thesis by blast
qed

section \<open>The state\<close>

text \<open>
  C26. One partial take-profit.  However many packets a run goes through from the empty state,
  with the state pruned between them while the position is held, at most one order that sells a
  part of the position is issued under its key.
\<close>

theorem one_partial_take_profit:
  assumes "exit_run env policy key createPaperExitPolicyState ds m"
  shows "partials key ds \<le> 1"
  using run_partials [OF assms] executed_le [of m key] by simp

theorem one_partial_take_profit_witness:
  "\<exists>ds. exit_run sample_env sample_exit_policy ''KR:A'' createPaperExitPolicyState ds sample_exit_state \<and>
     ds = [sample_exit_order] \<and> partials ''KR:A'' ds \<le> 1"
proof -
  obtain dec where d: "buildPaperExitPolicyDecision sample_env sample_packet sample_gain
      (Some sample_exit_policy) (Some createPaperExitPolicyState) = Inr (Some sample_exit_state, Some dec)"
    "vd_decisions dec = [sample_exit_order]" using sample_exit by blast
  have "exit_run sample_env sample_exit_policy ''KR:A'' createPaperExitPolicyState
      ([] @ issued (Some dec)) sample_exit_state"
    by (rule run_packet [OF run_start d(1)])
  moreover have "issued (Some dec) = [sample_exit_order]" using d(2) by (simp add: issued_def)
  ultimately show ?thesis using one_partial_take_profit by fastforce
qed

subsection \<open>Peaks over a packet\<close>

definition peaks_defined :: "PaperExitPolicyState \<Rightarrow> bool" where
  "peaks_defined m \<longleftrightarrow> (\<forall>k s. m k = Some s \<longrightarrow> xs_peakPriceKrw s \<noteq> NaN)"

lemma position_state:
  assumes "buildPositionExitDecision env pkt pf p c policy (Some m) = (state', d)"
    and "peaks_defined m" and "cand_lastPriceKrw c \<noteq> Some NaN"
  obtains m1 where "state' = Some m1" "peaks_defined m1"
    "\<And>x k. peak_at_least x (Some m) k \<Longrightarrow> peak_at_least x (Some m1) k"
    "\<And>price. exit_guard p c = Some price \<Longrightarrow> peak_at_least price (Some m1) (positionKey p)"
proof (cases "exit_guard p c")
  case None
  then have "state' = Some m" using assms(1) by (simp add: buildPositionExitDecision_def)
  with None assms(2) that show ?thesis by simp
next
  case (Some price)
  then have price: "price \<noteq> NaN" using assms(3) by (auto simp: exit_guard_def split: if_splits option.splits)
  obtain state1 s where u: "updateExitPositionState (Some m) (positionKey p) price = (state1, s)" by fastforce
  obtain m0 where m0: "state1 = Some m0" "m0 (positionKey p) = Some s" using update_executed [OF u] by blast
  have "jmax x price = NaN \<longleftrightarrow> x = NaN" for x
    using jmax_ge [of x price] price by (auto simp: jmax_def)
  then have d0: "peaks_defined m0" using u m0(1) assms(2) price
    by (auto simp: updateExitPositionState_def peaks_defined_def Let_def split: option.splits if_splits)
  have s: "state' = state1 \<or> state' = mark_partial state1 (positionKey p) s"
    using assms(1) Some u by (auto simp: buildPositionExitDecision_def Let_def split: if_splits)
  then obtain m1 where m1: "state' = Some m1" "peaks_defined m1"
    using m0 d0 by (auto simp: mark_partial_def peaks_defined_def)
  show ?thesis
  proof (rule that [OF m1])
    show "peak_at_least x (Some m) k \<Longrightarrow> peak_at_least x (Some m1) k" for x k
      using position_peak(2) [OF assms(1) Some price] m1(1) by simp
    show "exit_guard p c = Some y \<Longrightarrow> peak_at_least y (Some m1) (positionKey p)" for y
      using position_peak(1) [OF assms(1) Some price] m1(1) assms(2) Some by (simp add: peaks_defined_def)
  qed
qed

lemma exit_decisions_peaks:
  assumes "\<forall>c \<in> set (pkt_candidates pkt). cand_lastPriceKrw c \<noteq> Some NaN"
  shows "exit_decisions env pkt pf policy (Some m) ps = (state', ds) \<Longrightarrow> peaks_defined m \<Longrightarrow>
   \<exists>m'. state' = Some m' \<and> peaks_defined m' \<and>
     (\<forall>x k. peak_at_least x (Some m) k \<longrightarrow> peak_at_least x (Some m') k) \<and>
     (\<forall>p \<in> set ps. \<forall>c price. candidate_by_key pkt (positionKey p) = Some c \<longrightarrow>
        exit_guard p c = Some price \<longrightarrow> peak_at_least price (Some m') (positionKey p))"
proof (induction ps arbitrary: m state' ds)
  case (Cons p ps)
  show ?case
  proof (cases "candidate_by_key pkt (positionKey p)")
    case None
    with Cons show ?thesis by simp
  next
    case (Some c)
    obtain state1 x where b: "buildPositionExitDecision env pkt pf p c policy (Some m) = (state1, x)"
      by fastforce
    have "cand_lastPriceKrw c \<noteq> Some NaN" using candidate_key [OF Some] assms by blast
    from position_state [OF b Cons.prems(2) this] obtain m1 where m1: "state1 = Some m1" "peaks_defined m1"
      "\<And>x k. peak_at_least x (Some m) k \<Longrightarrow> peak_at_least x (Some m1) k"
      "\<And>price. exit_guard p c = Some price \<Longrightarrow> peak_at_least price (Some m1) (positionKey p)"
      by metis
    obtain ds1 where r: "exit_decisions env pkt pf policy (Some m1) ps = (state', ds1)"
      using Cons.prems(1) Some b m1(1) by (auto split: prod.splits option.splits)
    from Cons.IH [OF r m1(2)] m1(3,4) Some show ?thesis by auto
  qed
qed simp

text \<open>
  C27. The peak is the highest price seen.  After the exit decision of a packet whose prices are
  numbers, the peak kept for a position that was looked at is at least its price, and no peak that
  was kept before has fallen; the trailing stop therefore never measures from below a price that
  was seen.
\<close>

theorem exit_peaks_rise:
  assumes "buildPaperExitPolicyDecision env pkt pf given (Some m) = Inr (state', dec)"
    and "normalizePaperExitPolicy given = Inr (Some policy)"
    and "VIRTUAL_SELL \<in> set (pkt_allowedActions pkt)"
    and "\<forall>c \<in> set (pkt_candidates pkt). cand_lastPriceKrw c \<noteq> Some NaN" and "peaks_defined m"
  shows "\<exists>m'. state' = Some m' \<and> peaks_defined m' \<and>
    (\<forall>key s. m key = Some s \<longrightarrow>
       (\<exists>s'. m' key = Some s' \<and> jle (xs_peakPriceKrw s) (xs_peakPriceKrw s'))) \<and>
    (\<forall>p \<in> set (pf_positions pf). \<forall>c price. candidate_by_key pkt (positionKey p) = Some c \<longrightarrow>
       exit_guard p c = Some price \<longrightarrow>
       (\<exists>s'. m' (positionKey p) = Some s' \<and> jle price (xs_peakPriceKrw s')))"
proof -
  obtain ds where e: "exit_decisions env pkt pf policy (Some m) (pf_positions pf) = (state', ds)"
    using assms(1,2,3) by (auto simp: buildPaperExitPolicyDecision_def split: prod.splits)
  have at: "peak_at_least x (Some n) key \<longleftrightarrow> (\<exists>s. n key = Some s \<and> jle x (xs_peakPriceKrw s))" for x n key
    by (simp add: peak_at_least_def split: option.split)
  have own: "m key = Some s \<Longrightarrow> peak_at_least (xs_peakPriceKrw s) (Some m) key" for key s
    using assms(5) by (auto simp: at peaks_defined_def intro: jle_refl)
  from exit_decisions_peaks [OF assms(4) e assms(5)] obtain m' where m': "state' = Some m'"
    "peaks_defined m'" "\<forall>x k. peak_at_least x (Some m) k \<longrightarrow> peak_at_least x (Some m') k"
    "\<forall>p \<in> set (pf_positions pf). \<forall>c price. candidate_by_key pkt (positionKey p) = Some c \<longrightarrow>
        exit_guard p c = Some price \<longrightarrow> peak_at_least price (Some m') (positionKey p)" by blast
  have "\<forall>key s. m key = Some s \<longrightarrow> peak_at_least (xs_peakPriceKrw s) (Some m') key"
    using own m'(3) by blast
  with m'(1,2,4) show ?thesis unfolding at by simp
qed

theorem exit_peaks_rise_witness:
  "\<exists>s. sample_exit_state ''KR:A'' = Some s \<and> jle (Fin 50000) (xs_peakPriceKrw s)"
proof -
  obtain dec where d: "buildPaperExitPolicyDecision sample_env sample_packet sample_gain
      (Some sample_exit_policy) (Some createPaperExitPolicyState) = Inr (Some sample_exit_state, Some dec)"
    using sample_exit by blast
  have "VIRTUAL_SELL \<in> set (pkt_allowedActions sample_packet)"
    "\<forall>c \<in> set (pkt_candidates sample_packet). cand_lastPriceKrw c \<noteq> Some NaN"
    "peaks_defined createPaperExitPolicyState"
    by (simp_all add: sample_packet_def sample_candidate_def peaks_defined_def createPaperExitPolicyState_def)
  from exit_peaks_rise [OF d sample_exit_normalized this]
  show ?thesis using sample_held_key by (simp add: sample_gain_def)
qed

end
