(* ===== verification/CrossValidation.thy ===== *)
theory CrossValidation
  imports DecisionSchema "HOL-Library.Word"
begin

unbundle bit_operations_syntax

text \<open>
  Combinatorial purged cross-validation (\<open>src/replay/combinatorialPurgedCv.ts\<close>, with the sample
  schema of \<open>src/replay/purgedSplit.ts\<close>): samples with a label interval are put in time order and
  cut into contiguous folds, every choice of test folds gives a combination, and the remaining
  samples are kept for training unless their label overlaps the purge window of a test sample or
  starts in the embargo after a test fold.  Counts that the code keeps in \<open>BigInt\<close> are natural
  numbers, the pseudo-random generator works on 32-bit words, and its rejection loop takes fuel.
\<close>

section \<open>Samples\<close>

record PurgedKFoldSample =
  ps_sampleId :: string
  ps_labelStart :: string
  ps_labelEnd :: string

record NormalizedCpcvSample = PurgedKFoldSample +
  ns_labelStartMs :: jsnum
  ns_labelEndMs :: jsnum

text \<open>\<open>purgedKFoldSampleSchema.parse\<close>; the identifier comes back trimmed.\<close>

definition sample_valid :: "js_env \<Rightarrow> PurgedKFoldSample \<Rightarrow> bool" where
  "sample_valid env s \<longleftrightarrow> non_empty (ps_sampleId s) \<and> isoDateTime_valid env (ps_labelStart s) \<and>
     isoDateTime_valid env (ps_labelEnd s) \<and>
     \<not> jlt (date_parse env (ps_labelEnd s)) (date_parse env (ps_labelStart s))"

definition parse_sample :: "js_env \<Rightarrow> PurgedKFoldSample \<Rightarrow> PurgedKFoldSample result" where
  "parse_sample env s =
     (if sample_valid env s then Inr (s\<lparr>ps_sampleId := trim (ps_sampleId s)\<rparr>)
      else Inl (Error ''ZodError''))"

definition normalized_sample :: "js_env \<Rightarrow> PurgedKFoldSample \<Rightarrow> NormalizedCpcvSample" where
  "normalized_sample env p =
     \<lparr>ps_sampleId = ps_sampleId p, ps_labelStart = ps_labelStart p, ps_labelEnd = ps_labelEnd p,
      ns_labelStartMs = date_parse env (ps_labelStart p),
      ns_labelEndMs = date_parse env (ps_labelEnd p)\<rparr>"

fun normalize_each ::
  "js_env \<Rightarrow> string list \<Rightarrow> PurgedKFoldSample list \<Rightarrow> NormalizedCpcvSample list result" where
  "normalize_each env seen [] = Inr []"
| "normalize_each env seen (s # ss) =
     bind_result (parse_sample env s) (\<lambda>p.
       if ps_sampleId p \<in> set seen then Inl (Error (''duplicate sampleId: '' @ ps_sampleId p))
       else bind_result (normalize_each env (ps_sampleId p # seen) ss)
              (\<lambda>r. Inr (normalized_sample env p # r)))"

text \<open>\<open>compare(left, right) <= 0\<close>: by start, by end, then by the collation of the identifiers.\<close>

definition sample_before ::
  "(string \<Rightarrow> string \<Rightarrow> int) \<Rightarrow> NormalizedCpcvSample \<Rightarrow> NormalizedCpcvSample \<Rightarrow> bool" where
  "sample_before collate l r =
     (let startDelta = jsub (ns_labelStartMs l) (ns_labelStartMs r);
          endDelta = jsub (ns_labelEndMs l) (ns_labelEndMs r)
      in if \<not> jeq startDelta (Fin 0) then \<not> jlt (Fin 0) startDelta
         else if \<not> jeq endDelta (Fin 0) then \<not> jlt (Fin 0) endDelta
         else collate (ps_sampleId l) (ps_sampleId r) \<le> 0)"

definition normalizeSamples ::
  "js_env \<Rightarrow> (string \<Rightarrow> string \<Rightarrow> int) \<Rightarrow> PurgedKFoldSample list
   \<Rightarrow> NormalizedCpcvSample list result" where
  "normalizeSamples env collate samples =
     bind_result (normalize_each env [] samples) (\<lambda>r. Inr (sort_by (sample_before collate) r))"

section \<open>Folds\<close>

record CpcvFold =
  cf_foldId :: string
  cf_foldIndex :: nat
  cf_samples :: "NormalizedCpcvSample list"

text \<open>The loop over the folds, with the next start index; as many rounds as folds are left.\<close>

fun fold_ranges :: "nat \<Rightarrow> nat \<Rightarrow> nat \<Rightarrow> nat \<Rightarrow> nat \<Rightarrow> (nat \<times> nat) list" where
  "fold_ranges base remainder foldIndex 0 startIndex = []"
| "fold_ranges base remainder foldIndex (Suc left) startIndex =
     (let foldSize = base + (if foldIndex < remainder then 1 else 0);
          endIndexExclusive = startIndex + foldSize
      in (startIndex, endIndexExclusive) #
         fold_ranges base remainder (Suc foldIndex) left endIndexExclusive)"

definition contiguousFoldRanges :: "nat \<Rightarrow> nat \<Rightarrow> (nat \<times> nat) list" where
  "contiguousFoldRanges sampleCount foldCount =
     fold_ranges (sampleCount div foldCount) (sampleCount mod foldCount) 0 foldCount 0"

definition fold_id :: "nat \<Rightarrow> string" where
  "fold_id i = ''fold_'' @ pad0 3 (i + 1)"

definition buildFolds :: "NormalizedCpcvSample list \<Rightarrow> nat \<Rightarrow> CpcvFold list" where
  "buildFolds samples foldCount =
     map (\<lambda>(i, (s, e)). \<lparr>cf_foldId = fold_id i, cf_foldIndex = i,
                         cf_samples = take (e - s) (drop s samples)\<rparr>)
       (enumerate 0 (contiguousFoldRanges (length samples) foldCount))"

section \<open>Combinations of folds\<close>

text \<open>
  The number of ways to choose, as a running quotient of exact integers that must stay within
  the safe range.
\<close>

definition MAX_SAFE_COMBINATION_COUNT :: nat where
  "MAX_SAFE_COMBINATION_COUNT = 9007199254740991"

fun count_loop :: "nat \<Rightarrow> nat \<Rightarrow> nat \<Rightarrow> nat \<Rightarrow> nat result" where
  "count_loop base result index 0 = Inr result"
| "count_loop base result index (Suc left) =
     (let r = (result * (base + index)) div index
      in if MAX_SAFE_COMBINATION_COUNT < r
         then Inl (Error ''requestedCombinationCount exceeds safe integer range'')
         else count_loop base r (Suc index) left)"

definition combinationCount :: "nat \<Rightarrow> nat \<Rightarrow> nat result" where
  "combinationCount itemCount selectionCount =
     (if itemCount < selectionCount then Inr 0
      else let k = min selectionCount (itemCount - selectionCount)
           in count_loop (itemCount - k) 1 1 k)"

text \<open>
  The combination of a rank: the candidates from \<open>candidate\<close> on are skipped while the rank is
  beyond the combinations that start with them.
\<close>

function unrank_from :: "nat \<Rightarrow> nat \<Rightarrow> nat \<Rightarrow> nat \<Rightarrow> nat list result" where
  "unrank_from itemCount candidate remainingSelections remainingRank =
     (if remainingSelections = 0 then Inr []
      else if itemCount < candidate + remainingSelections
      then Inl (Error ''combination rank is out of range'')
      else bind_result (combinationCount (itemCount - candidate - 1) (remainingSelections - 1))
        (\<lambda>countWithCandidate.
           if remainingRank < countWithCandidate
           then bind_result (unrank_from itemCount (candidate + 1) (remainingSelections - 1) remainingRank)
                  (\<lambda>rest. Inr (candidate # rest))
           else unrank_from itemCount (candidate + 1) remainingSelections
                  (remainingRank - countWithCandidate)))"
  by pat_completeness auto

termination by (relation "measure (\<lambda>(n, c, k, r). n - c)") auto

declare unrank_from.simps [simp del]

definition unrankCombination :: "nat \<Rightarrow> nat \<Rightarrow> nat \<Rightarrow> nat list result" where
  "unrankCombination itemCount selectionCount rank = unrank_from itemCount 0 selectionCount rank"

section \<open>The generator\<close>

definition imul :: "32 word \<Rightarrow> 32 word \<Rightarrow> 32 word" where
  "imul a b = a * b"

definition seed_state :: "string \<Rightarrow> 32 word" where
  "seed_state seed = foldl (\<lambda>state c. imul (state XOR of_nat (of_char c)) 16777619) 2166136261 seed"

definition next_state :: "32 word \<Rightarrow> 32 word" where
  "next_state state = imul (state + 0x6d2b79f5) 1"

definition output_of :: "32 word \<Rightarrow> 32 word" where
  "output_of state =
     (let value = imul (state XOR drop_bit 15 state) (state OR 1);
          value2 = value XOR (value + imul (value XOR drop_bit 7 value) (value OR 61))
      in value2 XOR drop_bit 14 value2)"

definition nextUint32 :: "32 word \<Rightarrow> 32 word \<times> nat" where
  "nextUint32 state = (let s = next_state state in (s, unat (output_of s)))"

text \<open>Fifty-three bits of two outputs, rejected from the last incomplete block of the bound.\<close>

definition draw_candidate :: "32 word \<Rightarrow> 32 word \<times> nat" where
  "draw_candidate state =
     (let (s1, high) = nextUint32 state; (s2, low) = nextUint32 s1
      in (s2, (high mod 2 ^ 21) * 2 ^ 32 + low))"

definition rejectionLimit :: "nat \<Rightarrow> nat" where
  "rejectionLimit upperBound = 2 ^ 53 - 2 ^ 53 mod upperBound"

fun sampleCombinationRank :: "nat \<Rightarrow> 32 word \<Rightarrow> nat \<Rightarrow> (32 word \<times> nat) option" where
  "sampleCombinationRank 0 state exclusiveUpperBound = None"
| "sampleCombinationRank (Suc fuel) state exclusiveUpperBound =
     (case draw_candidate state of (s, candidate) \<Rightarrow>
        if candidate < rejectionLimit exclusiveUpperBound
        then Some (s, candidate mod exclusiveUpperBound)
        else sampleCombinationRank fuel s exclusiveUpperBound)"

text \<open>The loop that collects distinct ranks; each round has the fuel of one draw.\<close>

fun collect_ranks :: "nat \<Rightarrow> nat \<Rightarrow> 32 word \<Rightarrow> nat \<Rightarrow> nat \<Rightarrow> nat list \<Rightarrow> nat list option" where
  "collect_ranks drawFuel rounds state requested maximum selected =
     (if maximum \<le> length selected then Some selected
      else case rounds of 0 \<Rightarrow> None
        | Suc rounds' \<Rightarrow>
            (case sampleCombinationRank drawFuel state requested of None \<Rightarrow> None
             | Some (s, rank) \<Rightarrow>
                 collect_ranks drawFuel rounds' s requested maximum (append_unique selected rank)))"

datatype CpcvCombinationMode = Exhaustive | Sampled

text \<open>The length from which the array constructor throws.\<close>

definition ARRAY_LENGTH_LIMIT :: nat where
  "ARRAY_LENGTH_LIMIT = 2 ^ 32"

text \<open>
  The indexes to emit; the result is \<open>None\<close> while the fuel, the number of draws allowed,
  does not suffice.
\<close>

definition selectCombinationIndexes ::
  "nat \<Rightarrow> nat \<Rightarrow> nat \<Rightarrow> CpcvCombinationMode \<Rightarrow> string option \<Rightarrow> nat list result option" where
  "selectCombinationIndexes fuel requested maximum mode randomSeed =
     (if mode = Exhaustive \<or> requested \<le> maximum then Some (if requested < ARRAY_LENGTH_LIMIT then Inr [0..<requested]
                 else Inl (RangeError ''Invalid array length''))
      else map_option (\<lambda>selected. Inr (sort selected))
        (collect_ranks fuel fuel (seed_state (or_else randomSeed [])) requested maximum []))"

section \<open>Windows\<close>

definition DAY_MS :: jsnum where
  "DAY_MS = Fin 86400000"

definition buildPurgeWindow :: "NormalizedCpcvSample \<Rightarrow> jsnum \<Rightarrow> jsnum \<times> jsnum" where
  "buildPurgeWindow s purgeDurationDays =
     (let purgeDurationMs = jmul purgeDurationDays DAY_MS
      in (jsub (ns_labelStartMs s) purgeDurationMs, jadd (ns_labelEndMs s) purgeDurationMs))"

definition buildEmbargoWindow :: "jsnum \<Rightarrow> jsnum \<Rightarrow> (jsnum \<times> jsnum) option" where
  "buildEmbargoWindow testEndMs embargoDurationDays =
     (if jeq embargoDurationDays (Fin 0) then None
      else Some (jadd testEndMs (Fin 1), jadd testEndMs (jmul embargoDurationDays DAY_MS)))"

definition labelsOverlapWindow :: "NormalizedCpcvSample \<Rightarrow> jsnum \<times> jsnum \<Rightarrow> bool" where
  "labelsOverlapWindow s w \<longleftrightarrow> jle (ns_labelStartMs s) (snd w) \<and> jle (fst w) (ns_labelEndMs s)"

definition isInsideEmbargoWindow :: "NormalizedCpcvSample \<Rightarrow> jsnum \<times> jsnum \<Rightarrow> bool" where
  "isInsideEmbargoWindow s w \<longleftrightarrow> jle (fst w) (ns_labelStartMs s) \<and> jle (ns_labelStartMs s) (snd w)"

definition embargo_windows :: "CpcvFold list \<Rightarrow> jsnum \<Rightarrow> (jsnum \<times> jsnum) list" where
  "embargo_windows testFolds days =
     List.map_filter
       (\<lambda>f. buildEmbargoWindow (jmax_list (map ns_labelEndMs (cf_samples f))) days) testFolds"

section \<open>Combinations\<close>

record CpcvSplitCombination =
  cc_combinationId :: string
  cc_combinationIndex :: nat
  cc_trainFoldIds :: "string list"
  cc_testFoldIds :: "string list"
  cc_trainSampleIds :: "string list"
  cc_testSampleIds :: "string list"
  cc_purgedSampleIds :: "string list"
  cc_embargoedSampleIds :: "string list"

text \<open>What \<open>cpcvSplitCombinationSchema\<close> accepts.\<close>

definition combination_sample_ids :: "CpcvSplitCombination \<Rightarrow> string list" where
  "combination_sample_ids c = cc_trainSampleIds c @ cc_testSampleIds c @ cc_purgedSampleIds c @
     cc_embargoedSampleIds c"

definition combination_valid :: "CpcvSplitCombination \<Rightarrow> bool" where
  "combination_valid c \<longleftrightarrow> non_empty (cc_combinationId c) \<and>
     list_all non_empty (cc_trainFoldIds c) \<and> list_all non_empty (cc_testFoldIds c) \<and>
     list_all non_empty (combination_sample_ids c) \<and>
     cc_testFoldIds c \<noteq> [] \<and> cc_trainFoldIds c \<noteq> [] \<and>
     distinct (cc_trainFoldIds c @ cc_testFoldIds c) \<and> distinct (combination_sample_ids c)"

text \<open>The loop that sorts the training candidates into kept, purged and embargoed.\<close>

definition split_step ::
  "(jsnum \<times> jsnum) list \<Rightarrow> (jsnum \<times> jsnum) list \<Rightarrow> string list \<times> string list \<times> string list
   \<Rightarrow> NormalizedCpcvSample \<Rightarrow> string list \<times> string list \<times> string list" where
  "split_step purgeWindows embargoWindows acc s =
     (case acc of (train, purged, embargoed) \<Rightarrow>
        if list_ex (labelsOverlapWindow s) purgeWindows
        then (train, purged @ [ps_sampleId s], embargoed)
        else if list_ex (isInsideEmbargoWindow s) embargoWindows
        then (train, purged, embargoed @ [ps_sampleId s])
        else (train @ [ps_sampleId s], purged, embargoed))"

definition combination_of ::
  "string \<Rightarrow> nat \<Rightarrow> CpcvFold list \<Rightarrow> nat list \<Rightarrow> jsnum \<Rightarrow> jsnum \<Rightarrow> CpcvSplitCombination" where
  "combination_of planId combinationIndex folds testFoldIndexes purgeDays embargoDays =
     (let testFolds = filter (\<lambda>f. cf_foldIndex f \<in> set testFoldIndexes) folds;
          trainFolds = filter (\<lambda>f. cf_foldIndex f \<notin> set testFoldIndexes) folds;
          testSamples = concat (map cf_samples testFolds);
          (train, purged, embargoed) =
            foldl (split_step (map (\<lambda>s. buildPurgeWindow s purgeDays) testSamples)
                     (embargo_windows testFolds embargoDays))
              ([], [], []) (concat (map cf_samples trainFolds))
      in \<lparr>cc_combinationId = planId @ ''_combo_'' @ pad0 6 (combinationIndex + 1),
          cc_combinationIndex = combinationIndex,
          cc_trainFoldIds = map cf_foldId trainFolds, cc_testFoldIds = map cf_foldId testFolds,
          cc_trainSampleIds = train, cc_testSampleIds = map ps_sampleId testSamples,
          cc_purgedSampleIds = purged, cc_embargoedSampleIds = embargoed\<rparr>)"

definition buildCombination ::
  "string \<Rightarrow> nat \<Rightarrow> CpcvFold list \<Rightarrow> nat list \<Rightarrow> jsnum \<Rightarrow> jsnum \<Rightarrow> CpcvSplitCombination result" where
  "buildCombination planId combinationIndex folds testFoldIndexes purgeDays embargoDays =
     (let c = combination_of planId combinationIndex folds testFoldIndexes purgeDays embargoDays
      in if combination_valid c then Inr c else Inl (Error ''ZodError''))"

section \<open>Options\<close>

record BuildCombinatorialPurgedCvPlanOptions =
  co_samples :: "PurgedKFoldSample list"
  co_foldCount :: jsnum
  co_testFoldCount :: jsnum
  co_maxCombinationCount :: jsnum
  co_combinationMode :: "string option"
  co_randomSeed :: "string option"
  co_purgeDurationDays :: "jsnum option"
  co_embargoDurationDays :: "jsnum option"
  co_planId :: "string option"

definition require :: "bool \<Rightarrow> string \<Rightarrow> unit result" where
  "require b message = (if b then Inr () else Inl (Error message))"

definition validatePositiveInteger :: "jsnum \<Rightarrow> string \<Rightarrow> unit result" where
  "validatePositiveInteger value label =
     require (is_integer value \<and> \<not> jlt value (Fin 1)) (label @ '' must be a positive integer'')"

definition validateNonNegativeInteger :: "jsnum \<Rightarrow> string \<Rightarrow> unit result" where
  "validateNonNegativeInteger value label =
     require (is_integer value \<and> \<not> jlt value (Fin 0))
       (label @ '' must be a non-negative integer'')"

definition validateOptions :: "BuildCombinatorialPurgedCvPlanOptions \<Rightarrow> unit result" where
  "validateOptions opts =
     bind_result (validatePositiveInteger (co_foldCount opts) ''foldCount'') (\<lambda>_.
     bind_result (require (\<not> jlt (co_foldCount opts) (Fin 2))
       ''foldCount must be greater than or equal to 2'') (\<lambda>_.
     bind_result (validatePositiveInteger (co_testFoldCount opts) ''testFoldCount'') (\<lambda>_.
     bind_result (require (\<not> jle (co_foldCount opts) (co_testFoldCount opts))
       ''testFoldCount must be less than foldCount'') (\<lambda>_.
     bind_result (validatePositiveInteger (co_maxCombinationCount opts) ''maxCombinationCount'') (\<lambda>_.
     bind_result (validateNonNegativeInteger (or_else (co_purgeDurationDays opts) (Fin 0))
       ''purgeDurationDays'') (\<lambda>_.
     bind_result (validateNonNegativeInteger (or_else (co_embargoDurationDays opts) (Fin 0))
       ''embargoDurationDays'') (\<lambda>_.
     bind_result (require (\<not> jlt (num (int (length (co_samples opts)))) (co_foldCount opts))
       ''sample count must be greater than or equal to foldCount'') (\<lambda>_.
     require (opt_all (\<lambda>m. m = ''exhaustive'' \<or> m = ''sampled'') (co_combinationMode opts))
       ''combinationMode must be exhaustive or sampled''))))))))"

definition normalizePlanId :: "string option \<Rightarrow> string result" where
  "normalizePlanId planId =
     (let normalized = trim (or_else planId ''cpcv'')
      in if normalized = [] then Inl (Error ''planId must not be empty'') else Inr normalized)"

definition normalizeRandomSeed ::
  "string option \<Rightarrow> CpcvCombinationMode \<Rightarrow> string option result" where
  "normalizeRandomSeed randomSeed mode =
     (if mode = Exhaustive then
        (if randomSeed \<noteq> None then Inl (Error ''randomSeed must be null for exhaustive mode'')
         else Inr None)
      else (let normalized = trim (or_else randomSeed [])
            in if normalized = [] then Inl (Error ''randomSeed is required for sampled mode'')
               else Inr (Some normalized)))"

section \<open>The plan\<close>

record CpcvSplitPlan =
  cp_planId :: string
  cp_foldCount :: nat
  cp_testFoldCount :: nat
  cp_sampleCount :: nat
  cp_purgeDurationDays :: jsnum
  cp_embargoDurationDays :: jsnum
  cp_combinationMode :: CpcvCombinationMode
  cp_randomSeed :: "string option"
  cp_maxCombinationCount :: nat
  cp_requestedCombinationCount :: nat
  cp_emittedCombinationCount :: nat
  cp_skippedCombinationCount :: int
  cp_combinations :: "CpcvSplitCombination list"

text \<open>What \<open>cpcvSplitPlanSchema\<close> accepts.\<close>

definition validatePlanCombinationCoverage :: "CpcvSplitPlan \<Rightarrow> bool" where
  "validatePlanCombinationCoverage p \<longleftrightarrow>
     list_all (\<lambda>c. length (cc_testFoldIds c) = cp_testFoldCount p \<and>
       length (cc_trainFoldIds c) + length (cc_testFoldIds c) = cp_foldCount p \<and>
       length (combination_sample_ids c) = cp_sampleCount p) (cp_combinations p) \<and>
     distinct (map cc_combinationIndex (cp_combinations p))"

definition is_duration :: "jsnum \<Rightarrow> bool" where
  "is_duration x \<longleftrightarrow> is_safe_integer x \<and> jle (Fin 0) x"

definition plan_valid :: "CpcvSplitPlan \<Rightarrow> bool" where
  "plan_valid p \<longleftrightarrow> non_empty (cp_planId p) \<and> 2 \<le> cp_foldCount p \<and> 1 \<le> cp_testFoldCount p \<and>
     is_duration (cp_purgeDurationDays p) \<and> is_duration (cp_embargoDurationDays p) \<and>
     opt_all non_empty (cp_randomSeed p) \<and>
     1 \<le> cp_maxCombinationCount p \<and> cp_maxCombinationCount p \<le> MAX_SAFE_COMBINATION_COUNT \<and>
     0 \<le> cp_skippedCombinationCount p \<and>
     list_all combination_valid (cp_combinations p) \<and>
     cp_testFoldCount p < cp_foldCount p \<and> cp_foldCount p \<le> cp_sampleCount p \<and>
     cp_emittedCombinationCount p = length (cp_combinations p) \<and>
     int (cp_emittedCombinationCount p) + cp_skippedCombinationCount p =
       int (cp_requestedCombinationCount p) \<and>
     cp_emittedCombinationCount p \<le> cp_maxCombinationCount p \<and>
     (cp_combinationMode p = Exhaustive \<longrightarrow> cp_randomSeed p = None) \<and>
     (cp_combinationMode p = Sampled \<longrightarrow> cp_randomSeed p \<noteq> None) \<and>
     validatePlanCombinationCoverage p"

definition whole :: "jsnum \<Rightarrow> nat" where
  "whole x = (case x of Fin a \<Rightarrow> nat \<lfloor>a\<rfloor> | _ \<Rightarrow> 0)"

definition mode_of :: "string option \<Rightarrow> CpcvCombinationMode" where
  "mode_of m = (if or_else m ''exhaustive'' = ''exhaustive'' then Exhaustive else Sampled)"

definition combinations_of ::
  "string \<Rightarrow> CpcvFold list \<Rightarrow> nat \<Rightarrow> nat \<Rightarrow> jsnum \<Rightarrow> jsnum \<Rightarrow> nat list
   \<Rightarrow> CpcvSplitCombination list result" where
  "combinations_of planId folds foldCount testFoldCount purgeDays embargoDays indexes =
     map_result (\<lambda>i. bind_result (unrankCombination foldCount testFoldCount i)
       (\<lambda>testFoldIndexes. buildCombination planId i folds testFoldIndexes purgeDays embargoDays)) indexes"

text \<open>The plan from the validated inputs; \<open>None\<close> while the fuel of the generator is not enough.\<close>

definition plan_from ::
  "nat \<Rightarrow> BuildCombinatorialPurgedCvPlanOptions \<Rightarrow> string \<Rightarrow> string option
   \<Rightarrow> NormalizedCpcvSample list \<Rightarrow> nat \<Rightarrow> CpcvSplitPlan result option" where
  "plan_from fuel opts planId seed samples requested =
     (let foldCount = whole (co_foldCount opts); testFoldCount = whole (co_testFoldCount opts);
          maximum = whole (co_maxCombinationCount opts); mode = mode_of (co_combinationMode opts);
          purgeDays = or_else (co_purgeDurationDays opts) (Fin 0);
          embargoDays = or_else (co_embargoDurationDays opts) (Fin 0)
      in if mode = Exhaustive \<and> maximum < requested
         then Some (Inl (Error ''requestedCombinationCount exceeds maxCombinationCount in exhaustive mode''))
         else
           map_option (\<lambda>selected. bind_result selected (\<lambda>indexes.
             bind_result (combinations_of planId (buildFolds samples foldCount) foldCount testFoldCount
               purgeDays embargoDays indexes) (\<lambda>combinations.
               let plan = \<lparr>cp_planId = planId, cp_foldCount = foldCount,
                     cp_testFoldCount = testFoldCount, cp_sampleCount = length samples,
                     cp_purgeDurationDays = purgeDays, cp_embargoDurationDays = embargoDays,
                     cp_combinationMode = mode, cp_randomSeed = seed,
                     cp_maxCombinationCount = maximum, cp_requestedCombinationCount = requested,
                     cp_emittedCombinationCount = length combinations,
                     cp_skippedCombinationCount = int requested - int (length combinations),
                     cp_combinations = combinations\<rparr>
               in if plan_valid plan then Inr plan else Inl (Error ''ZodError''))))
             (selectCombinationIndexes fuel requested maximum mode seed))"

definition validated_inputs ::
  "js_env \<Rightarrow> (string \<Rightarrow> string \<Rightarrow> int) \<Rightarrow> BuildCombinatorialPurgedCvPlanOptions
   \<Rightarrow> (string \<times> string option \<times> NormalizedCpcvSample list \<times> nat) result" where
  "validated_inputs env collate opts =
     bind_result (validateOptions opts) (\<lambda>_.
     bind_result (normalizePlanId (co_planId opts)) (\<lambda>planId.
     bind_result (normalizeRandomSeed (co_randomSeed opts) (mode_of (co_combinationMode opts))) (\<lambda>seed.
     bind_result (normalizeSamples env collate (co_samples opts)) (\<lambda>samples.
     bind_result (combinationCount (whole (co_foldCount opts)) (whole (co_testFoldCount opts)))
       (\<lambda>requested. Inr (planId, seed, samples, requested))))))"

definition buildCombinatorialPurgedCvPlan ::
  "nat \<Rightarrow> js_env \<Rightarrow> (string \<Rightarrow> string \<Rightarrow> int) \<Rightarrow> BuildCombinatorialPurgedCvPlanOptions
   \<Rightarrow> CpcvSplitPlan result option" where
  "buildCombinatorialPurgedCvPlan fuel env collate opts =
     (case validated_inputs env collate opts of
        Inl e \<Rightarrow> Some (Inl e)
      | Inr (planId, seed, samples, requested) \<Rightarrow> plan_from fuel opts planId seed samples requested)"

section \<open>Counting and ranking\<close>

lemma binomial_step: "((b + i choose i) * (b + Suc i)) div Suc i = b + Suc i choose Suc i"
proof -
  have "(b + i choose i) * (b + Suc i) = Suc i * (b + Suc i choose Suc i)"
    using Suc_times_binomial_eq [of "b + i" i] by (simp only: mult.commute add_Suc_right)
  then show ?thesis by (simp only: nonzero_mult_div_cancel_left)
qed

lemma binomial_grows: "(b + i choose i) \<le> (b + (i + m) choose (i + m))"
proof (induction m)
  case (Suc m)
  have "(b + (i + m) choose (i + m)) \<le> (Suc (b + (i + m)) choose Suc (i + m))" by simp
  with Suc show ?case by simp
qed simp

lemma count_loop_step:
  "count_loop b (b + i choose i) (Suc i) (Suc m) =
     (if MAX_SAFE_COMBINATION_COUNT < (b + Suc i choose Suc i)
      then Inl (Error ''requestedCombinationCount exceeds safe integer range'')
      else count_loop b (b + Suc i choose Suc i) (Suc (Suc i)) m)"
  by (simp only: count_loop.simps Let_def binomial_step)

lemma count_loop_binomial:
  assumes "(b + i choose i) \<le> MAX_SAFE_COMBINATION_COUNT"
  shows "count_loop b (b + i choose i) (Suc i) m =
    (if (b + (i + m) choose (i + m)) \<le> MAX_SAFE_COMBINATION_COUNT
     then Inr (b + (i + m) choose (i + m))
     else Inl (Error ''requestedCombinationCount exceeds safe integer range''))"
  using assms
proof (induction m arbitrary: i)
  case (Suc m)
  show ?case
  proof (cases "(b + Suc i choose Suc i) \<le> MAX_SAFE_COMBINATION_COUNT")
    case True
    with Suc.IH [OF True] show ?thesis
      by (simp only: count_loop_step add_Suc_right add_Suc not_less [symmetric] if_False simp_thms)
  next
    case False
    then have "\<not> (b + (Suc i + m) choose (Suc i + m)) \<le> MAX_SAFE_COMBINATION_COUNT"
      using binomial_grows [of b "Suc i" m] by (simp del: binomial_Suc_Suc)
    with False show ?thesis
      by (simp only: count_loop_step add_Suc_right add_Suc not_le if_True) (simp only: not_le [symmetric] if_False)
  qed
qed simp

lemma combination_count:
  "combinationCount n k =
     (if (n choose k) \<le> MAX_SAFE_COMBINATION_COUNT then Inr (n choose k)
      else Inl (Error ''requestedCombinationCount exceeds safe integer range''))"
proof (cases "n < k")
  case True
  then show ?thesis
    by (simp add: combinationCount_def MAX_SAFE_COMBINATION_COUNT_def binomial_eq_0)
next
  case False
  let ?j = "min k (n - k)"
  have sym: "n choose ?j = n choose k"
    using False binomial_symmetric [of k n] by (auto simp: min_def)
  have "count_loop (n - ?j) ((n - ?j) + 0 choose 0) (Suc 0) ?j =
    (if (n - ?j) + (0 + ?j) choose (0 + ?j) \<le> MAX_SAFE_COMBINATION_COUNT
     then Inr ((n - ?j) + (0 + ?j) choose (0 + ?j))
     else Inl (Error ''requestedCombinationCount exceeds safe integer range''))"
    by (rule count_loop_binomial) (simp add: MAX_SAFE_COMBINATION_COUNT_def)
  moreover have "(n - ?j) + (0 + ?j) = n" using False by simp
  ultimately show ?thesis using False sym by (simp add: combinationCount_def Let_def)
qed

text \<open>The reference: the selections of a list in lexicographic order.\<close>

definition selections :: "'a list \<Rightarrow> nat \<Rightarrow> 'a list list" where
  "selections xs k = filter (\<lambda>s. length s = k) (subseqs xs)"

lemma selections_simps:
  "selections xs 0 = [[]]"
  "selections [] (Suc k) = []"
  "selections (x # xs) (Suc k) = map ((#) x) (selections xs k) @ selections xs (Suc k)"
proof -
  show "selections xs 0 = [[]]"
    by (induction xs) (simp_all add: selections_def Let_def filter_map o_def)
  show "selections [] (Suc k) = []" by (simp add: selections_def)
  show "selections (x # xs) (Suc k) = map ((#) x) (selections xs k) @ selections xs (Suc k)"
    by (simp add: selections_def Let_def filter_map o_def)
qed

lemma length_selections: "length (selections xs k) = length xs choose k"
proof (induction xs arbitrary: k)
  case Nil
  then show ?case by (cases k) (simp_all add: selections_simps)
next
  case (Cons x xs)
  then show ?case by (cases k) (simp_all add: selections_simps)
qed

lemma selections_item:
  "s \<in> set (selections xs k) \<Longrightarrow> length s = k \<and> s \<in> set (subseqs xs)"
  by (simp add: selections_def)

lemma distinct_selections: "distinct xs \<Longrightarrow> distinct (map set (selections xs k))"
  using distinct_set_subseqs [of xs] unfolding selections_def
  by (simp add: distinct_map inj_on_def)

lemma unrank_selections:
  "(n - c choose k) \<le> MAX_SAFE_COMBINATION_COUNT \<Longrightarrow> r < (n - c choose k) \<Longrightarrow> c \<le> n \<Longrightarrow>
   unrank_from n c k r = Inr (selections [c..<n] k ! r)"
proof (induction n c k r rule: unrank_from.induct)
  case (1 n c k r)
  show ?case
  proof (cases "k = 0")
    case True
    with "1.prems" show ?thesis by (subst unrank_from.simps) (simp add: selections_simps)
  next
    case False
    then obtain j where j: "k = Suc j" by (cases k) auto
    have "k \<le> n - c" using "1.prems"(2) by (metis binomial_eq_0 not_less_zero not_less)
    with j "1.prems"(3) have lt: "c < n" "\<not> n < c + k" by auto
    then have nc: "n - c = Suc (n - c - 1)" and "[c..<n] = c # [Suc c..<n]" by (simp_all add: upt_conv_Cons)
    then have sel: "selections [c..<n] k =
        map ((#) c) (selections [Suc c..<n] j) @ selections [Suc c..<n] k"
      by (simp add: j selections_simps)
    have pascal: "(n - c choose k) = (n - c - 1 choose j) + (n - c - 1 choose k)"
      by (subst nc) (simp add: j)
    then have safe: "(n - c - 1 choose j) \<le> MAX_SAFE_COMBINATION_COUNT"
      "(n - c - 1 choose k) \<le> MAX_SAFE_COMBINATION_COUNT" using "1.prems"(1) by simp_all
    have count: "combinationCount (n - c - 1) (k - 1) = Inr (n - c - 1 choose j)"
      using safe(1) by (simp add: combination_count j)
    have len: "length (selections [Suc c..<n] j) = (n - c - 1 choose j)"
      by (simp add: length_selections)
    show ?thesis
    proof (cases "r < (n - c - 1 choose j)")
      case True
      have "unrank_from n (c + 1) (k - 1) r = Inr (selections [c + 1..<n] (k - 1) ! r)"
        using "1.IH"(1) [OF False lt(2), of "n - c - 1 choose j"] lt safe True j by simp
      then show ?thesis using False lt count True len
        by (subst unrank_from.simps) (simp add: sel [unfolded j] nth_append j)
    next
      case False': False
      then have "r - (n - c - 1 choose j) < (n - c - 1 choose k)"
        using pascal "1.prems"(2) by linarith
      have "unrank_from n (c + 1) k (r - (n - c - 1 choose j)) =
          Inr (selections [c + 1..<n] k ! (r - (n - c - 1 choose j)))"
        using "1.IH"(2) [OF False lt(2), of "n - c - 1 choose j"] lt safe False' \<open>r - (n - c - 1 choose j) < (n - c - 1 choose k)\<close> by simp
      then show ?thesis using False lt count False' len
        by (subst unrank_from.simps) (simp add: sel nth_append)
    qed
  qed
qed

section \<open>The generator reaches every even offset\<close>

text \<open>The increment is odd, so the draws, two steps each, visit all states of one parity.\<close>

lemma next_state_add: "next_state s = s + 0x6d2b79f5"
  by (simp add: next_state_def imul_def)

lemma draw_candidate_state:
  "draw_candidate s = (s + 2 * 0x6d2b79f5,
     (unat (output_of (s + 0x6d2b79f5)) mod 2 ^ 21) * 2 ^ 32 + unat (output_of (s + 2 * 0x6d2b79f5)))"
  by (simp add: draw_candidate_def nextUint32_def next_state_add Let_def add.assoc)

definition accepted :: "nat \<Rightarrow> 32 word \<Rightarrow> bool" where
  "accepted u s \<longleftrightarrow> snd (draw_candidate s) < rejectionLimit u"

lemma sample_accepted:
  "accepted u (s + of_nat n * (2 * 0x6d2b79f5)) \<Longrightarrow> \<exists>x. sampleCombinationRank (Suc n) s u = Some x"
proof (induction n arbitrary: s)
  case 0
  then show ?case by (auto simp: accepted_def split: prod.split)
next
  case (Suc n)
  have s: "fst (draw_candidate s) = s + 2 * 0x6d2b79f5" by (simp add: draw_candidate_state)
  have "s + of_nat (Suc n) * (2 * 0x6d2b79f5) = (s + 2 * 0x6d2b79f5) + of_nat n * (2 * 0x6d2b79f5)"
    by (simp add: algebra_simps)
  with Suc.prems have "accepted u ((s + 2 * 0x6d2b79f5) + of_nat n * (2 * 0x6d2b79f5))" by (simp only:)
  from Suc.IH [OF this] obtain x where "sampleCombinationRank (Suc n) (fst (draw_candidate s)) u = Some x"
    unfolding s by blast
  then show ?case
    by (subst sampleCombinationRank.simps) (simp split: prod.split if_split add: prod_eq_iff)
qed

lemma sample_fuel:
  "sampleCombinationRank n s u = Some x \<Longrightarrow> n \<le> m \<Longrightarrow> sampleCombinationRank m s u = Some x"
proof (induction n arbitrary: s m)
  case (Suc n)
  then obtain m' where "m = Suc m'" by (cases m) auto
  with Suc show ?case by (auto split: prod.splits if_splits)
qed simp

lemma rejection_limit: "0 < u \<Longrightarrow> u < 2 ^ 53 \<Longrightarrow> 2 ^ 52 \<le> rejectionLimit u"
proof (cases "u \<le> 2 ^ 52")
  case True
  assume "0 < u"
  then have "(2 :: nat) ^ 53 mod u < u" by simp
  with True show ?thesis by (simp add: rejectionLimit_def)
next
  case False
  assume "u < 2 ^ 53"
  with False have "(2 :: nat) ^ 53 mod u = 2 ^ 53 - u" using le_mod_geq [of u "2 ^ 53"] by simp
  with False show ?thesis by (simp add: rejectionLimit_def)
qed

lemma small_output: "output_of 0 = 0" "unat (output_of 1) mod 2 ^ 21 < 2 ^ 20"
  by (simp_all add: output_of_def imul_def Let_def)

lemma odd_increment: "(2 * 0x6d2b79f5) * (3696798301 :: 32 word) = 2"
  by simp

lemma unat32: "unat (w :: 32 word) < 2 ^ 32"
proof -
  have "unat w < 2 ^ LENGTH(32)" by (rule unsigned_less)
  then show ?thesis by simp
qed

lemma reaches_even:
  assumes "even (t - s)"
  obtains n where "n < 2 ^ 32" "s + of_nat n * (2 * 0x6d2b79f5) = (t :: 32 word)"
proof -
  obtain h where h: "t - s = 2 * h" using assms by (rule dvdE)
  let ?k = "3696798301 * h :: 32 word"
  have "?k * (2 * 0x6d2b79f5) = ((2 * 0x6d2b79f5) * 3696798301) * h"
    by (simp only: mult.commute mult.left_commute)
  also have "\<dots> = t - s" by (simp only: odd_increment h)
  finally have "s + of_nat (unat ?k) * (2 * 0x6d2b79f5) = t" by simp
  moreover have "unat ?k < 2 ^ 32" by (rule unat32)
  ultimately show thesis using that by blast
qed

lemma small_accepted:
  assumes "0 < u" and "u < 2 ^ 53" and "s + 0x6d2b79f5 \<in> {0, 1}"
  shows "accepted u s"
proof -
  obtain a where a: "s + 0x6d2b79f5 = a" "a \<in> {0, 1}" using assms(3) by blast
  from a(2) have "unat (output_of a) mod 2 ^ 21 < 2 ^ 20" using small_output by auto
  then have "unat (output_of (s + 0x6d2b79f5)) mod 2 ^ 21 < 2 ^ 20" by (simp only: a(1))
  then have "(unat (output_of (s + 0x6d2b79f5)) mod 2 ^ 21) * 2 ^ 32 +
      unat (output_of (s + 2 * 0x6d2b79f5)) < 2 ^ 52"
    using unat32 [of "output_of (s + 2 * 0x6d2b79f5)"] by simp
  with rejection_limit [OF assms(1,2)] show ?thesis
    by (simp add: accepted_def draw_candidate_state)
qed

lemma sample_terminates:
  assumes "0 < u" and "u < 2 ^ 53"
  shows "\<exists>s' r. sampleCombinationRank (2 ^ 32) s u = Some (s', r)"
proof -
  let ?t = "(if even s then 1 else 0) - 0x6d2b79f5 :: 32 word"
  have "even (?t - s)" by simp
  then obtain n where n: "n < 2 ^ 32" "s + of_nat n * (2 * 0x6d2b79f5) = ?t" by (rule reaches_even)
  have "?t + 0x6d2b79f5 \<in> {0, 1}" by simp
  from small_accepted [OF assms this] n(2) have "accepted u (s + of_nat n * (2 * 0x6d2b79f5))" by (simp only:)
  from sample_accepted [OF this] obtain x where "sampleCombinationRank (Suc n) s u = Some x" by blast
  from sample_fuel [OF this, of "2 ^ 32"] n(1) show ?thesis by (cases x) auto
qed

lemma sample_below:
  "sampleCombinationRank n s u = Some (s', r) \<Longrightarrow> 0 < u \<Longrightarrow> r < u"
  by (induction n arbitrary: s) (auto split: prod.splits if_splits)

end
