(* ===== verification/CpcvPlan.thy ===== *)
theory CpcvPlan
  imports CrossValidation
begin

text \<open>
  The laws of the cross-validation plan: the folds cut the samples without loss, the split of a
  combination partitions them, and what the validated inputs of a plan guarantee.
\<close>

section \<open>Identifiers\<close>

lemma trim_idem [simp]: "trim (trim s) = trim s"
proof -
  have last: "dropWhile is_space (rev (trim s)) = rev (trim s)"
    using hd_dropWhile [of is_space "rev (dropWhile is_space s)"]
    by (cases "rev (trim s)") (auto simp: trim_def dropWhile_eq_Cons_conv)
  have head: "dropWhile is_space (trim s) = trim s"
  proof (cases "trim s")
    case (Cons c r)
    let ?d = "dropWhile is_space s"
    obtain ps where "rev ?d = ps @ rev (trim s)"
      by (metis rev_rev_ident takeWhile_dropWhile_id trim_def)
    then have "?d = trim s @ rev ps" by (metis rev_append rev_rev_ident)
    then have "hd ?d = c" "?d \<noteq> []" using Cons by auto
    then have "\<not> is_space c" using hd_dropWhile [of is_space s] by auto
    with Cons show ?thesis by simp
  qed simp
  show ?thesis unfolding trim_def [of "trim s"] head last by simp
qed

lemma non_empty_trim [simp]: "non_empty (trim s) \<longleftrightarrow> non_empty s"
  by (simp add: non_empty_def)

section \<open>Folds\<close>

definition extra :: "nat \<Rightarrow> nat \<Rightarrow> nat \<Rightarrow> nat" where
  "extra r i m = min (i + m) r - min i r"

lemma fold_ranges_slices:
  "concat (map (\<lambda>(s, e). take (e - s) (drop s xs)) (fold_ranges b r i m s)) =
   take (m * b + extra r i m) (drop s xs)"
proof (induction m arbitrary: i s)
  case (Suc m)
  let ?n = "b + (if i < r then 1 else 0)"
  have "Suc m * b + extra r i (Suc m) = ?n + (m * b + extra r (Suc i) m)"
    by (auto simp: extra_def min_def)
  then have "take (Suc m * b + extra r i (Suc m)) (drop s xs) =
      take ?n (drop s xs) @ take (m * b + extra r (Suc i) m) (drop ?n (drop s xs))"
    by (simp only: take_add)
  then show ?case using Suc.IH [of "Suc i" "s + ?n"] by (simp add: Let_def add.commute)
qed (simp add: extra_def)

lemma fold_ranges_sizes:
  "(s', e') \<in> set (fold_ranges b r i m s) \<Longrightarrow> s' \<le> e' \<and> e' - s' \<in> {b, Suc b} \<and>
   e' \<le> s + (m * b + extra r i m)"
proof (induction m arbitrary: i s)
  case (Suc m)
  have "s + (b + (if i < r then 1 else 0)) + (m * b + extra r (Suc i) m) = s + (Suc m * b + extra r i (Suc m))"
    by (auto simp: extra_def min_def)
  note sum = this
  let ?n = "b + (if i < r then 1 else 0)"
  from Suc.prems consider "s' = s \<and> e' = s + ?n" | "(s', e') \<in> set (fold_ranges b r (Suc i) m (s + ?n))"
    by (auto simp: Let_def add.assoc)
  then show ?case
  proof cases
    case 1
    then show ?thesis using sum by auto
  next
    case 2
    from Suc.IH [OF this] sum show ?thesis by simp
  qed
qed simp

lemma length_fold_ranges [simp]: "length (fold_ranges b r i m s) = m"
  by (induction m arbitrary: i s) (simp_all add: Let_def)

lemma ranges_total:
  assumes "0 < k" shows "k * (n div k) + extra (n mod k) 0 k = n"
proof -
  have "extra (n mod k) 0 k = n mod k" using mod_less_divisor [OF assms, of n] by (simp add: extra_def)
  then show ?thesis by simp
qed

lemma folds_samples:
  assumes "0 < k"
  shows "concat (map cf_samples (buildFolds xs k)) = xs"
proof -
  have "map cf_samples (buildFolds xs k) =
      map (\<lambda>(s, e). take (e - s) (drop s xs)) (contiguousFoldRanges (length xs) k)"
    by (intro nth_equalityI)
      (auto simp: buildFolds_def contiguousFoldRanges_def nth_enumerate_eq split: prod.splits)
  then show ?thesis
    using fold_ranges_slices [of xs "length xs div k" "length xs mod k" 0 k 0]
    by (simp add: contiguousFoldRanges_def ranges_total [OF assms] del: mult_Suc)
qed

lemma folds_indexes [simp]:
  "map cf_foldIndex (buildFolds xs k) = [0..<k]" "map cf_foldId (buildFolds xs k) = map fold_id [0..<k]"
  "length (buildFolds xs k) = k"
  by (auto intro!: nth_equalityI simp: buildFolds_def contiguousFoldRanges_def nth_enumerate_eq
      split: prod.splits)

lemma folds_balanced:
  assumes "f \<in> set (buildFolds xs k)" and "0 < k"
  shows "length (cf_samples f) \<in> {length xs div k, Suc (length xs div k)}"
proof -
  obtain i s e where f: "(i, s, e) \<in> set (enumerate 0 (contiguousFoldRanges (length xs) k))"
    "cf_samples f = take (e - s) (drop s xs)" using assms(1) by (auto simp: buildFolds_def)
  then have "(s, e) \<in> set (contiguousFoldRanges (length xs) k)" by (auto simp: in_set_enumerate_eq) (metis nth_mem)
  from fold_ranges_sizes [OF this [unfolded contiguousFoldRanges_def]] ranges_total [OF assms(2), of "length xs"]
  have "s \<le> e" "e - s \<in> {length xs div k, Suc (length xs div k)}" "e \<le> length xs" by auto
  then show ?thesis using f(2) by auto
qed

lemma fold_id_inj: "fold_id i = fold_id j \<longleftrightarrow> i = j"
proof -
  have pad: "str_nat (pad0 w n) = n" for w n
  proof -
    have "foldl (\<lambda>a c. 10 * a + digit_val c) 0 (replicate m CHR ''0'' @ s) =
        foldl (\<lambda>a c. 10 * a + digit_val c) 0 s" for m s
      by (induction m) (simp_all add: digit_val_def)
    then show ?thesis using str_nat_nat_str [of n] by (simp add: pad0_def)
  qed
  have "fold_id i = fold_id j \<Longrightarrow> i = j"
    using pad [of 3 "i + 1"] pad [of 3 "j + 1"] by (simp add: fold_id_def)
  then show ?thesis by blast
qed

lemma non_empty_fold_id [simp]: "non_empty (fold_id i)"
  by (simp add: fold_id_def non_empty_iff is_space_def)

section \<open>The split of a combination\<close>

lemma split_loop:
  "foldl (split_step P E) (t, p, e) ss =
     (t @ map ps_sampleId (filter (\<lambda>s. \<not> list_ex (labelsOverlapWindow s) P \<and>
                                     \<not> list_ex (isInsideEmbargoWindow s) E) ss),
      p @ map ps_sampleId (filter (\<lambda>s. list_ex (labelsOverlapWindow s) P) ss),
      e @ map ps_sampleId (filter (\<lambda>s. \<not> list_ex (labelsOverlapWindow s) P \<and>
                                     list_ex (isInsideEmbargoWindow s) E) ss))"
  by (induction ss arbitrary: t p e) (auto simp: split_step_def)

lemma filter_three: "mset (filter (\<lambda>x. \<not> P x \<and> \<not> Q x) xs) + mset (filter P xs) +
   mset (filter (\<lambda>x. \<not> P x \<and> Q x) xs) = mset xs"
  by (induction xs) auto

definition test_folds :: "CpcvFold list \<Rightarrow> nat list \<Rightarrow> CpcvFold list" where
  "test_folds folds idx = filter (\<lambda>f. cf_foldIndex f \<in> set idx) folds"

definition train_folds :: "CpcvFold list \<Rightarrow> nat list \<Rightarrow> CpcvFold list" where
  "train_folds folds idx = filter (\<lambda>f. cf_foldIndex f \<notin> set idx) folds"

abbreviation samples_of :: "CpcvFold list \<Rightarrow> NormalizedCpcvSample list" where
  "samples_of folds \<equiv> concat (map cf_samples folds)"

abbreviation purge_windows :: "CpcvFold list \<Rightarrow> jsnum \<Rightarrow> (jsnum \<times> jsnum) list" where
  "purge_windows folds days \<equiv> map (\<lambda>s. buildPurgeWindow s days) (samples_of folds)"

lemma combination_parts:
  fixes folds :: "CpcvFold list" and planId :: string and i :: nat and idx :: "nat list"
    and purge embargo :: jsnum
  defines "P \<equiv> purge_windows (test_folds folds idx) purge"
    and "E \<equiv> embargo_windows (test_folds folds idx) embargo"
    and "c \<equiv> combination_of planId i folds idx purge embargo"
  shows "cc_trainSampleIds c = map ps_sampleId (filter (\<lambda>s. \<not> list_ex (labelsOverlapWindow s) P \<and>
           \<not> list_ex (isInsideEmbargoWindow s) E) (samples_of (train_folds folds idx)))"
    and "cc_purgedSampleIds c = map ps_sampleId (filter (\<lambda>s. list_ex (labelsOverlapWindow s) P)
           (samples_of (train_folds folds idx)))"
    and "cc_embargoedSampleIds c = map ps_sampleId (filter (\<lambda>s. \<not> list_ex (labelsOverlapWindow s) P \<and>
           list_ex (isInsideEmbargoWindow s) E) (samples_of (train_folds folds idx)))"
    and "cc_testSampleIds c = map ps_sampleId (samples_of (test_folds folds idx))"
    and "cc_trainFoldIds c = map cf_foldId (train_folds folds idx)"
    and "cc_testFoldIds c = map cf_foldId (test_folds folds idx)"
    and "cc_combinationIndex c = i"
    and "cc_combinationId c = planId @ ''_combo_'' @ pad0 6 (i + 1)"
  by (simp_all add: c_def combination_of_def split_loop P_def E_def test_folds_def train_folds_def Let_def)

lemma partition_mset:
  "mset (concat (map g (filter P xs))) + mset (concat (map g (filter (\<lambda>x. \<not> P x) xs))) =
   mset (concat (map g xs))"
  by (induction xs) auto

lemma combination_ids:
  assumes "0 < k"
  shows "mset (combination_sample_ids (combination_of planId i (buildFolds samples k) idx purge embargo)) =
    mset (map ps_sampleId samples)"
proof -
  let ?c = "combination_of planId i (buildFolds samples k) idx purge embargo"
  let ?train = "samples_of (train_folds (buildFolds samples k) idx)"
  let ?test = "samples_of (test_folds (buildFolds samples k) idx)"
  have train: "mset (cc_trainSampleIds ?c) + mset (cc_purgedSampleIds ?c) + mset (cc_embargoedSampleIds ?c) =
      image_mset ps_sampleId (mset ?train)"
    by (simp only: combination_parts mset_map image_mset_union [symmetric] filter_three)
  have test: "mset (cc_testSampleIds ?c) = image_mset ps_sampleId (mset ?test)"
    by (simp only: combination_parts mset_map)
  have "mset ?test + mset ?train = mset samples"
    unfolding test_folds_def train_folds_def by (simp only: partition_mset folds_samples [OF assms])
  then have all: "image_mset ps_sampleId (mset ?test) + image_mset ps_sampleId (mset ?train) =
      image_mset ps_sampleId (mset samples)"
    by (simp only: image_mset_union [symmetric])
  have "mset (combination_sample_ids ?c) = mset (cc_testSampleIds ?c) +
      (mset (cc_trainSampleIds ?c) + mset (cc_purgedSampleIds ?c) + mset (cc_embargoedSampleIds ?c))"
    by (simp only: combination_sample_ids_def mset_append ac_simps)
  then show ?thesis by (simp only: train test all mset_map)
qed

section \<open>Test folds of a selection\<close>

lemma subseq_filter: "distinct xs \<Longrightarrow> ys \<in> set (subseqs xs) \<Longrightarrow> filter (\<lambda>x. x \<in> set ys) xs = ys"
proof (induction xs arbitrary: ys)
  case (Cons x xs)
  have sub: "set zs \<subseteq> set xs" if "zs \<in> set (subseqs xs)" for zs
    using that subseqs_powset [of xs] by blast
  from Cons.prems(2) consider zs where "ys = x # zs" "zs \<in> set (subseqs xs)" | "ys \<in> set (subseqs xs)"
    by (auto simp: Let_def)
  then show ?case
  proof cases
    case 1
    have "filter (\<lambda>y. y \<in> set (x # zs)) xs = filter (\<lambda>y. y \<in> set zs) xs"
      using Cons.prems(1) by (intro filter_cong) auto
    with 1 Cons show ?thesis by simp
  next
    case 2
    with Cons sub [OF 2] show ?thesis by auto
  qed
qed simp

lemma fold_of_index: "f \<in> set (buildFolds xs k) \<Longrightarrow> cf_foldId f = fold_id (cf_foldIndex f)"
  by (auto simp: buildFolds_def)

lemma filter_map_index:
  "map cf_foldIndex (filter (\<lambda>f. Q (cf_foldIndex f)) folds) = filter Q (map cf_foldIndex folds)"
  by (simp add: filter_map o_def)

lemma test_fold_ids:
  assumes "idx \<in> set (selections [0..<k] t)"
  shows "map cf_foldId (test_folds (buildFolds xs k) idx) = map fold_id idx"
    and "map cf_foldId (train_folds (buildFolds xs k) idx) = map fold_id (filter (\<lambda>i. i \<notin> set idx) [0..<k])"
proof -
  have ids: "map cf_foldId (filter Q (buildFolds xs k)) = map fold_id (map cf_foldIndex (filter Q (buildFolds xs k)))" for Q
    by (auto simp: fold_of_index)
  have "filter (\<lambda>i. i \<in> set idx) [0..<k] = idx"
    using assms by (intro subseq_filter) (auto dest: selections_item)
  then show "map cf_foldId (test_folds (buildFolds xs k) idx) = map fold_id idx"
    unfolding test_folds_def ids filter_map_index [of "\<lambda>i. i \<in> set idx"] folds_indexes by simp
  show "map cf_foldId (train_folds (buildFolds xs k) idx) = map fold_id (filter (\<lambda>i. i \<notin> set idx) [0..<k])"
    unfolding train_folds_def ids filter_map_index [of "\<lambda>i. i \<notin> set idx"] folds_indexes by simp
qed

lemma selection_index:
  assumes "idx \<in> set (selections [0..<k] t)"
  shows "length idx = t" and "distinct idx" and "set idx \<subseteq> {0..<k}"
    and "length (filter (\<lambda>i. i \<notin> set idx) [0..<k]) = k - t"
proof -
  note item = selections_item [OF assms]
  show l: "length idx = t" using item by simp
  have f: "filter (\<lambda>i. i \<in> set idx) [0..<k] = idx" using item by (intro subseq_filter) auto
  then show "distinct idx" by (metis distinct_filter distinct_upt)
  show "set idx \<subseteq> {0..<k}" using f by (metis atLeastLessThan_upt filter_is_subset)
  show "length (filter (\<lambda>i. i \<notin> set idx) [0..<k]) = k - t"
    using sum_length_filter_compl [of "\<lambda>i. i \<in> set idx" "[0..<k]"] f l by simp
qed

lemma combination_is_valid:
  assumes "idx \<in> set (selections [0..<k] t)" and "0 < t" and "t < k" and "non_empty planId"
    and "distinct (map ps_sampleId samples)" and "\<forall>s \<in> set samples. non_empty (ps_sampleId s)"
  shows "combination_valid (combination_of planId i (buildFolds samples k) idx purge embargo)"
proof -
  let ?c = "combination_of planId i (buildFolds samples k) idx purge embargo"
  have k: "0 < k" using assms(3) by simp
  note ids = combination_ids [OF k, of planId i samples idx purge embargo]
  have d: "distinct (combination_sample_ids ?c)"
    using ids assms(5) by (metis mset_eq_imp_distinct_iff)
  have n: "list_all non_empty (combination_sample_ids ?c)"
    using mset_eq_setD [OF ids] assms(6) by (auto simp: list_all_iff)
  have test: "cc_testFoldIds ?c = map fold_id idx"
    and train: "cc_trainFoldIds ?c = map fold_id (filter (\<lambda>i. i \<notin> set idx) [0..<k])"
    using test_fold_ids [OF assms(1)] by (simp_all only: combination_parts)
  note idx = selection_index [OF assms(1)]
  have "filter (\<lambda>i. i \<notin> set idx) [0..<k] \<noteq> []" using idx(4) assms(3) by (metis list.size(3) zero_less_diff less_irrefl)
  moreover have "distinct (cc_trainFoldIds ?c @ cc_testFoldIds ?c)"
    using idx(2,3) by (auto simp: test train distinct_map inj_on_def fold_id_inj)
  moreover have "idx \<noteq> []" using idx(1) assms(2) by auto
  ultimately show ?thesis using d n assms(4)
    by (auto simp: combination_valid_def test train list_all_iff combination_parts(8) non_empty_append)
qed

section \<open>Inputs\<close>

lemma whole_num [simp]: "whole (num (int n)) = n"
  by (simp add: whole_def)

lemma counting_number_iff: "is_integer x \<and> \<not> jlt x (Fin 1) \<longleftrightarrow> x = num (int (whole x)) \<and> 1 \<le> whole x"
proof (cases x)
  case (Fin a)
  show ?thesis
  proof (cases "of_int \<lfloor>a\<rfloor> = a")
    case True
    then obtain z where "a = of_int z" by metis
    then show ?thesis using Fin by (auto simp: whole_def)
  next
    case False
    then show ?thesis using Fin by (auto simp: whole_def)
  qed
qed (simp_all add: whole_def)

definition options_valid :: "BuildCombinatorialPurgedCvPlanOptions \<Rightarrow> bool" where
  "options_valid opts \<longleftrightarrow>
     (let k = whole (co_foldCount opts); t = whole (co_testFoldCount opts);
          m = whole (co_maxCombinationCount opts)
      in co_foldCount opts = num (int k) \<and> co_testFoldCount opts = num (int t) \<and>
         co_maxCombinationCount opts = num (int m) \<and> 1 \<le> t \<and> t < k \<and> 1 \<le> m \<and>
         k \<le> length (co_samples opts)) \<and>
     opt_all (\<lambda>x. is_integer x \<and> \<not> jlt x (Fin 0)) (co_purgeDurationDays opts) \<and>
     opt_all (\<lambda>x. is_integer x \<and> \<not> jlt x (Fin 0)) (co_embargoDurationDays opts) \<and>
     opt_all (\<lambda>m. m = ''exhaustive'' \<or> m = ''sampled'') (co_combinationMode opts)"

lemma require_Inr [simp]: "require b m = Inr u \<longleftrightarrow> b"
  by (simp add: require_def)

lemma or_else_all: "P d \<Longrightarrow> P (or_else x d) \<longleftrightarrow> opt_all P x"
  by (cases x) (simp_all add: opt_all_def)

lemma validate_options: "validateOptions opts = Inr () \<longleftrightarrow> options_valid opts"
proof -
  let ?k = "whole (co_foldCount opts)" and ?t = "whole (co_testFoldCount opts)"
  have d: "is_integer (or_else x (Fin 0)) \<and> \<not> jlt (or_else x (Fin 0)) (Fin 0) \<longleftrightarrow>
      opt_all (\<lambda>x. is_integer x \<and> \<not> jlt x (Fin 0)) x" for x
    by (rule or_else_all) simp
  have "validateOptions opts = Inr () \<longleftrightarrow>
      (is_integer (co_foldCount opts) \<and> \<not> jlt (co_foldCount opts) (Fin 1)) \<and>
      \<not> jlt (co_foldCount opts) (Fin 2) \<and>
      (is_integer (co_testFoldCount opts) \<and> \<not> jlt (co_testFoldCount opts) (Fin 1)) \<and>
      \<not> jle (co_foldCount opts) (co_testFoldCount opts) \<and>
      (is_integer (co_maxCombinationCount opts) \<and> \<not> jlt (co_maxCombinationCount opts) (Fin 1)) \<and>
      opt_all (\<lambda>x. is_integer x \<and> \<not> jlt x (Fin 0)) (co_purgeDurationDays opts) \<and>
      opt_all (\<lambda>x. is_integer x \<and> \<not> jlt x (Fin 0)) (co_embargoDurationDays opts) \<and>
      \<not> jlt (num (int (length (co_samples opts)))) (co_foldCount opts) \<and>
      opt_all (\<lambda>m. m = ''exhaustive'' \<or> m = ''sampled'') (co_combinationMode opts)"
    unfolding validateOptions_def validatePositiveInteger_def validateNonNegativeInteger_def
      bind_result_Inr require_Inr d by blast
  also have "\<dots> \<longleftrightarrow> options_valid opts"
  proof (cases "co_foldCount opts = num (int ?k) \<and> co_testFoldCount opts = num (int ?t)")
    case True
    then obtain k t where "co_foldCount opts = num (int k)" "co_testFoldCount opts = num (int t)" by blast
    then show ?thesis unfolding counting_number_iff options_valid_def Let_def
      by (auto simp: not_less not_le)
  next
    case False
    then show ?thesis unfolding counting_number_iff options_valid_def Let_def by blast
  qed
  finally show ?thesis .
qed

definition samples_accepted :: "js_env \<Rightarrow> PurgedKFoldSample list \<Rightarrow> bool" where
  "samples_accepted env ss \<longleftrightarrow> list_all (sample_valid env) ss \<and> distinct (map (\<lambda>s. trim (ps_sampleId s)) ss)"

definition parsed_sample :: "js_env \<Rightarrow> PurgedKFoldSample \<Rightarrow> NormalizedCpcvSample" where
  "parsed_sample env s = normalized_sample env (s\<lparr>ps_sampleId := trim (ps_sampleId s)\<rparr>)"

lemma normalize_each:
  "normalize_each env seen ss = Inr r \<longleftrightarrow> samples_accepted env ss \<and>
     (\<forall>s \<in> set ss. trim (ps_sampleId s) \<notin> set seen) \<and> r = map (parsed_sample env) ss"
proof (induction ss arbitrary: seen r)
  case (Cons s ss)
  show ?case
    by (auto simp: bind_result_Inr Cons.IH parse_sample_def samples_accepted_def parsed_sample_def
      split: if_splits) (metis image_eqI)
qed (auto simp: samples_accepted_def)

lemma normalized_samples:
  "normalizeSamples env collate ss = Inr r \<longleftrightarrow> samples_accepted env ss \<and>
     r = sort_by (sample_before collate) (map (parsed_sample env) ss)"
  by (auto simp: normalizeSamples_def bind_result_Inr normalize_each)

lemma parsed_fields [simp]:
  "ps_sampleId (parsed_sample env s) = trim (ps_sampleId s)"
  "ns_labelStartMs (parsed_sample env s) = date_parse env (ps_labelStart s)"
  "ns_labelEndMs (parsed_sample env s) = date_parse env (ps_labelEnd s)"
  by (simp_all add: parsed_sample_def normalized_sample_def)

lemma normalized_facts:
  assumes "normalizeSamples env collate ss = Inr r"
  shows "length r = length ss" and "distinct (map ps_sampleId r)"
    and "\<forall>s \<in> set r. non_empty (ps_sampleId s)"
    and "\<forall>s \<in> set r. is_finite (ns_labelStartMs s) \<and> is_finite (ns_labelEndMs s) \<and>
           jle (ns_labelStartMs s) (ns_labelEndMs s)"
    and "mset (map ps_sampleId r) = mset (map (\<lambda>s. trim (ps_sampleId s)) ss)"
proof -
  from assms have ok: "samples_accepted env ss"
    and r: "r = sort_by (sample_before collate) (map (parsed_sample env) ss)"
    by (auto simp: normalized_samples)
  show "length r = length ss" by (simp add: r)
  have m: "mset r = mset (map (parsed_sample env) ss)" by (simp add: r)
  then have "mset (map ps_sampleId r) = mset (map ps_sampleId (map (parsed_sample env) ss))"
    by (metis mset_map)
  then show ids: "mset (map ps_sampleId r) = mset (map (\<lambda>s. trim (ps_sampleId s)) ss)"
    by (simp add: o_def)
  show "distinct (map ps_sampleId r)"
    using ok mset_eq_imp_distinct_iff [OF ids] by (simp add: samples_accepted_def)
  have s: "set r = parsed_sample env ` set ss" by (simp add: r)
  show "\<forall>s \<in> set r. non_empty (ps_sampleId s)"
    using ok by (auto simp: s samples_accepted_def list_all_iff sample_valid_def)
  show "\<forall>s \<in> set r. is_finite (ns_labelStartMs s) \<and> is_finite (ns_labelEndMs s) \<and>
      jle (ns_labelStartMs s) (ns_labelEndMs s)"
  proof
    fix s assume "s \<in> set r"
    then obtain q where q: "q \<in> set ss" "s = parsed_sample env q" by (auto simp: s)
    then have "sample_valid env q" using ok by (auto simp: samples_accepted_def list_all_iff)
    then show "is_finite (ns_labelStartMs s) \<and> is_finite (ns_labelEndMs s) \<and>
        jle (ns_labelStartMs s) (ns_labelEndMs s)"
      using q(2) by (cases "date_parse env (ps_labelEnd q)"; cases "date_parse env (ps_labelStart q)")
        (auto simp: sample_valid_def isoDateTime_valid_def)
  qed
qed

section \<open>The plan\<close>

text \<open>What a plan can be built from.\<close>

definition requested_of :: "BuildCombinatorialPurgedCvPlanOptions \<Rightarrow> nat" where
  "requested_of opts = (whole (co_foldCount opts) choose whole (co_testFoldCount opts))"

definition plan_id_of :: "BuildCombinatorialPurgedCvPlanOptions \<Rightarrow> string" where
  "plan_id_of opts = trim (or_else (co_planId opts) ''cpcv'')"

definition seed_valid :: "BuildCombinatorialPurgedCvPlanOptions \<Rightarrow> bool" where
  "seed_valid opts \<longleftrightarrow>
     (if mode_of (co_combinationMode opts) = Exhaustive then co_randomSeed opts = None
      else non_empty (or_else (co_randomSeed opts) []))"

definition seed_of :: "BuildCombinatorialPurgedCvPlanOptions \<Rightarrow> string option" where
  "seed_of opts = (if mode_of (co_combinationMode opts) = Exhaustive then None
     else Some (trim (or_else (co_randomSeed opts) [])))"

definition inputs_valid :: "js_env \<Rightarrow> BuildCombinatorialPurgedCvPlanOptions \<Rightarrow> bool" where
  "inputs_valid env opts \<longleftrightarrow> options_valid opts \<and> non_empty (or_else (co_planId opts) ''cpcv'') \<and>
     seed_valid opts \<and> samples_accepted env (co_samples opts) \<and>
     requested_of opts \<le> MAX_SAFE_COMBINATION_COUNT"

lemma validated_inputs:
  "validated_inputs env collate opts = Inr (planId, seed, samples, requested) \<longleftrightarrow>
     inputs_valid env opts \<and> planId = plan_id_of opts \<and> seed = seed_of opts \<and>
     normalizeSamples env collate (co_samples opts) = Inr samples \<and> requested = requested_of opts"
proof -
  have "normalizePlanId p = Inr x \<longleftrightarrow> non_empty (or_else p ''cpcv'') \<and> x = trim (or_else p ''cpcv'')" for p x
    by (auto simp: normalizePlanId_def non_empty_def Let_def)
  moreover have "normalizeRandomSeed (co_randomSeed opts) (mode_of (co_combinationMode opts)) = Inr x \<longleftrightarrow>
      seed_valid opts \<and> x = seed_of opts" for x
    by (auto simp: normalizeRandomSeed_def seed_valid_def seed_of_def non_empty_def Let_def)
  moreover have "combinationCount (whole (co_foldCount opts)) (whole (co_testFoldCount opts)) = Inr x \<longleftrightarrow>
      requested_of opts \<le> MAX_SAFE_COMBINATION_COUNT \<and> x = requested_of opts" for x
    by (auto simp: combination_count requested_of_def)
  moreover have "normalizeSamples env collate (co_samples opts) = Inr x \<Longrightarrow> samples_accepted env (co_samples opts)" for x
    by (simp add: normalized_samples)
  ultimately show ?thesis
    using validate_options [of opts]
    by (auto simp: validated_inputs_def bind_result_Inr inputs_valid_def plan_id_of_def)
qed

lemma validated_inputs_fail: "(\<exists>e. validated_inputs env collate opts = Inl e) \<longleftrightarrow> \<not> inputs_valid env opts"
proof -
  have "(\<exists>r. validated_inputs env collate opts = Inr r) \<longleftrightarrow> inputs_valid env opts"
    using validated_inputs [of env collate opts]
    by (auto simp: inputs_valid_def normalized_samples)
  then show ?thesis by (cases "validated_inputs env collate opts") auto
qed

subsection \<open>The indexes that are emitted\<close>

lemma collected_ranks:
  "collect_ranks d n s requested maximum selected = Some r \<Longrightarrow> 0 < requested \<Longrightarrow>
   distinct selected \<Longrightarrow> \<forall>i \<in> set selected. i < requested \<Longrightarrow> length selected \<le> maximum \<Longrightarrow>
   distinct r \<and> (\<forall>i \<in> set r. i < requested) \<and> length r = maximum"
proof (induction d n s requested maximum selected rule: collect_ranks.induct)
  case (1 d n s requested maximum selected)
  show ?case
  proof (cases "maximum \<le> length selected")
    case True
    with "1.prems" show ?thesis by (auto simp: collect_ranks.simps)
  next
    case False
    then obtain n' s' rank where r: "n = Suc n'" "sampleCombinationRank d s requested = Some (s', rank)"
      "collect_ranks d n' s' requested maximum (append_unique selected rank) = Some r"
      using "1.prems"(1) by (subst (asm) collect_ranks.simps) (auto split: nat.splits option.splits)
    have "length (append_unique selected rank) \<le> maximum" using False by (simp add: append_unique_def)
    with "1.IH" [OF False r(1) r(2)] r(3) "1.prems" sample_below [OF r(2)] show ?thesis by simp
  qed
qed

lemma selected_indexes:
  assumes "selectCombinationIndexes fuel requested maximum mode seed = Some (Inr r)" and "0 < requested"
  shows "distinct r" and "\<forall>i \<in> set r. i < requested" and "sorted r"
    and "mode = Exhaustive \<or> requested \<le> maximum \<Longrightarrow> r = [0..<requested]"
    and "\<not> (mode = Exhaustive \<or> requested \<le> maximum) \<Longrightarrow> length r = maximum"
proof -
  have "distinct r \<and> (\<forall>i \<in> set r. i < requested) \<and> sorted r \<and>
      (mode = Exhaustive \<or> requested \<le> maximum \<longrightarrow> r = [0..<requested]) \<and>
      (\<not> (mode = Exhaustive \<or> requested \<le> maximum) \<longrightarrow> length r = maximum)"
  proof (cases "mode = Exhaustive \<or> requested \<le> maximum")
    case True
    with assms show ?thesis by (auto simp: selectCombinationIndexes_def split: if_splits)
  next
    case False
    then obtain x where x: "collect_ranks fuel fuel (seed_state (or_else seed [])) requested maximum [] = Some x"
      "r = sort x" using assms(1) by (auto simp: selectCombinationIndexes_def)
    from collected_ranks [OF x(1) assms(2)] x(2) False show ?thesis by auto
  qed
  then show "distinct r" "\<forall>i \<in> set r. i < requested" "sorted r"
    "mode = Exhaustive \<or> requested \<le> maximum \<Longrightarrow> r = [0..<requested]"
    "\<not> (mode = Exhaustive \<or> requested \<le> maximum) \<Longrightarrow> length r = maximum" by blast+
qed

subsection \<open>The combinations\<close>

definition plan_combination ::
  "BuildCombinatorialPurgedCvPlanOptions \<Rightarrow> NormalizedCpcvSample list \<Rightarrow> nat \<Rightarrow> CpcvSplitCombination" where
  "plan_combination opts samples i =
     combination_of (plan_id_of opts) i (buildFolds samples (whole (co_foldCount opts)))
       (selections [0..<whole (co_foldCount opts)] (whole (co_testFoldCount opts)) ! i)
       (or_else (co_purgeDurationDays opts) (Fin 0)) (or_else (co_embargoDurationDays opts) (Fin 0))"

definition plan_of ::
  "BuildCombinatorialPurgedCvPlanOptions \<Rightarrow> NormalizedCpcvSample list \<Rightarrow> nat list \<Rightarrow> CpcvSplitPlan" where
  "plan_of opts samples indexes =
     \<lparr>cp_planId = plan_id_of opts, cp_foldCount = whole (co_foldCount opts),
      cp_testFoldCount = whole (co_testFoldCount opts), cp_sampleCount = length samples,
      cp_purgeDurationDays = or_else (co_purgeDurationDays opts) (Fin 0),
      cp_embargoDurationDays = or_else (co_embargoDurationDays opts) (Fin 0),
      cp_combinationMode = mode_of (co_combinationMode opts), cp_randomSeed = seed_of opts,
      cp_maxCombinationCount = whole (co_maxCombinationCount opts),
      cp_requestedCombinationCount = requested_of opts,
      cp_emittedCombinationCount = length indexes,
      cp_skippedCombinationCount = int (requested_of opts) - int (length indexes),
      cp_combinations = map (plan_combination opts samples) indexes\<rparr>"

lemma options_fold_counts:
  assumes "options_valid opts"
  shows "0 < whole (co_testFoldCount opts)"
    and "whole (co_testFoldCount opts) < whole (co_foldCount opts)"
    and "0 < whole (co_maxCombinationCount opts)"
    and "whole (co_foldCount opts) \<le> length (co_samples opts)"
    and "0 < requested_of opts"
  using assms by (auto simp: options_valid_def requested_of_def Let_def)

lemma plan_combination_valid:
  assumes "inputs_valid env opts" and "normalizeSamples env collate (co_samples opts) = Inr samples"
    and "i < requested_of opts"
  shows "combination_valid (plan_combination opts samples i)"
    and "length (cc_testFoldIds (plan_combination opts samples i)) = whole (co_testFoldCount opts)"
    and "length (cc_trainFoldIds (plan_combination opts samples i)) =
           whole (co_foldCount opts) - whole (co_testFoldCount opts)"
    and "length (combination_sample_ids (plan_combination opts samples i)) = length samples"
    and "cc_combinationIndex (plan_combination opts samples i) = i"
proof -
  let ?k = "whole (co_foldCount opts)" and ?t = "whole (co_testFoldCount opts)"
  let ?idx = "selections [0..<?k] ?t ! i"
  have "options_valid opts" and id: "non_empty (plan_id_of opts)"
    using assms(1) by (simp_all add: inputs_valid_def plan_id_of_def)
  note opts = options_fold_counts [OF this(1)]
  have "i < length (selections [0..<?k] ?t)" using assms(3) by (simp add: length_selections requested_of_def)
  then have idx: "?idx \<in> set (selections [0..<?k] ?t)" by (rule nth_mem)
  note facts = normalized_facts [OF assms(2)]
  show "combination_valid (plan_combination opts samples i)"
    unfolding plan_combination_def
    by (rule combination_is_valid [OF idx opts(1,2) id facts(2,3)])
  show "length (cc_testFoldIds (plan_combination opts samples i)) = ?t"
    using test_fold_ids(1) [OF idx, of samples] selection_index(1) [OF idx]
    by (simp add: plan_combination_def combination_parts)
  show "length (cc_trainFoldIds (plan_combination opts samples i)) = ?k - ?t"
    using test_fold_ids(2) [OF idx, of samples] selection_index(4) [OF idx]
    by (simp add: plan_combination_def combination_parts)
  have "0 < ?k" using opts(2) by simp
  from mset_eq_length [OF combination_ids [OF this]]
  show "length (combination_sample_ids (plan_combination opts samples i)) = length samples"
    by (simp add: plan_combination_def)
  show "cc_combinationIndex (plan_combination opts samples i) = i"
    by (simp add: plan_combination_def combination_parts)
qed

lemma plan_combinations:
  assumes "inputs_valid env opts" and "normalizeSamples env collate (co_samples opts) = Inr samples"
    and "\<forall>i \<in> set r. i < requested_of opts"
  shows "combinations_of (plan_id_of opts) (buildFolds samples (whole (co_foldCount opts)))
    (whole (co_foldCount opts)) (whole (co_testFoldCount opts))
    (or_else (co_purgeDurationDays opts) (Fin 0)) (or_else (co_embargoDurationDays opts) (Fin 0)) r =
    Inr (map (plan_combination opts samples) r)"
  unfolding combinations_of_def
proof (rule map_result_all)
  fix i assume "i \<in> set r"
  with assms(3) have i: "i < requested_of opts" by blast
  have "unrankCombination (whole (co_foldCount opts)) (whole (co_testFoldCount opts)) i =
      Inr (selections [0..<whole (co_foldCount opts)] (whole (co_testFoldCount opts)) ! i)"
    unfolding unrankCombination_def
    by (rule unrank_selections) (use assms(1) i in \<open>simp_all add: inputs_valid_def requested_of_def\<close>)
  with plan_combination_valid(1) [OF assms(1,2) i]
  show "bind_result (unrankCombination (whole (co_foldCount opts)) (whole (co_testFoldCount opts)) i)
      (\<lambda>testFoldIndexes. buildCombination (plan_id_of opts) i
        (buildFolds samples (whole (co_foldCount opts))) testFoldIndexes
        (or_else (co_purgeDurationDays opts) (Fin 0)) (or_else (co_embargoDurationDays opts) (Fin 0))) =
      Inr (plan_combination opts samples i)"
    by (simp add: buildCombination_def plan_combination_def)
qed

definition limits_accepted :: "BuildCombinatorialPurgedCvPlanOptions \<Rightarrow> bool" where
  "limits_accepted opts \<longleftrightarrow> whole (co_maxCombinationCount opts) \<le> MAX_SAFE_COMBINATION_COUNT \<and>
     is_duration (or_else (co_purgeDurationDays opts) (Fin 0)) \<and>
     is_duration (or_else (co_embargoDurationDays opts) (Fin 0))"

lemma plan_of_valid:
  assumes "inputs_valid env opts" and "normalizeSamples env collate (co_samples opts) = Inr samples"
    and "selectCombinationIndexes fuel (requested_of opts) (whole (co_maxCombinationCount opts))
      (mode_of (co_combinationMode opts)) (seed_of opts) = Some (Inr r)"
    and "\<not> (mode_of (co_combinationMode opts) = Exhaustive \<and>
      whole (co_maxCombinationCount opts) < requested_of opts)"
  shows "plan_valid (plan_of opts samples r) \<longleftrightarrow> limits_accepted opts"
proof -
  have "options_valid opts" using assms(1) by (simp add: inputs_valid_def)
  note counts = options_fold_counts [OF this]
  note r = selected_indexes [OF assms(3) counts(5)]
  have len: "length r \<le> whole (co_maxCombinationCount opts)" "length r \<le> requested_of opts"
    using r(4,5) assms(4) by (cases "mode_of (co_combinationMode opts) = Exhaustive \<or>
      requested_of opts \<le> whole (co_maxCombinationCount opts)"; force)+
  have item: "combination_valid (plan_combination opts samples i)"
    "length (cc_testFoldIds (plan_combination opts samples i)) = whole (co_testFoldCount opts)"
    "length (cc_trainFoldIds (plan_combination opts samples i)) =
       whole (co_foldCount opts) - whole (co_testFoldCount opts)"
    "length (combination_sample_ids (plan_combination opts samples i)) = length samples"
    if "i \<in> set r" for i
    using plan_combination_valid [OF assms(1,2)] r(2) that by blast+
  have "map (cc_combinationIndex \<circ> plan_combination opts samples) r = r"
    using plan_combination_valid(5) [OF assms(1,2)] r(2) by (intro map_idI) simp
  then have cover: "validatePlanCombinationCoverage (plan_of opts samples r)"
    using item counts(2) r(1) by (simp add: validatePlanCombinationCoverage_def plan_of_def list_all_iff)
  have seeds: "opt_all non_empty (seed_of opts)"
    "(mode_of (co_combinationMode opts) = Exhaustive) = (seed_of opts = None)"
    using assms(1) by (auto simp: inputs_valid_def seed_of_def seed_valid_def opt_all_def)
  have "list_all combination_valid (map (plan_combination opts samples) r)"
    using item by (simp add: list_all_iff)
  moreover have "non_empty (plan_id_of opts)" using assms(1) by (simp add: inputs_valid_def plan_id_of_def)
  ultimately show ?thesis
    using cover seeds counts len normalized_facts(1) [OF assms(2)]
    by (cases "mode_of (co_combinationMode opts)")
      (auto simp: plan_valid_def plan_of_def limits_accepted_def)
qed

lemma plan_result:
  assumes "inputs_valid env opts" and "normalizeSamples env collate (co_samples opts) = Inr samples"
  shows "plan_from fuel opts (plan_id_of opts) (seed_of opts) samples (requested_of opts) =
    (if mode_of (co_combinationMode opts) = Exhaustive \<and>
        whole (co_maxCombinationCount opts) < requested_of opts
     then Some (Inl (Error ''requestedCombinationCount exceeds maxCombinationCount in exhaustive mode''))
     else map_option (\<lambda>selected. bind_result selected (\<lambda>r.
         if limits_accepted opts then Inr (plan_of opts samples r) else Inl (Error ''ZodError'')))
       (selectCombinationIndexes fuel (requested_of opts) (whole (co_maxCombinationCount opts))
         (mode_of (co_combinationMode opts)) (seed_of opts)))"
proof (cases "selectCombinationIndexes fuel (requested_of opts) (whole (co_maxCombinationCount opts))
         (mode_of (co_combinationMode opts)) (seed_of opts)")
  case None
  then show ?thesis by (simp add: plan_from_def Let_def)
next
  case (Some selected)
  show ?thesis
  proof (cases selected)
    case (Inr r)
    with Some have "selectCombinationIndexes fuel (requested_of opts) (whole (co_maxCombinationCount opts))
        (mode_of (co_combinationMode opts)) (seed_of opts) = Some (Inr r)" by simp
    note selected_r = this
    have "options_valid opts" using assms(1) by (simp add: inputs_valid_def)
    then have "\<forall>i \<in> set r. i < requested_of opts"
      by (intro selected_indexes(2) [OF selected_r] options_fold_counts(5))
    from plan_combinations [OF assms this] plan_of_valid [OF assms selected_r] Some Inr show ?thesis
      by (auto simp: plan_from_def Let_def plan_of_def)
  qed (use Some in \<open>simp add: plan_from_def Let_def\<close>)
qed

text \<open>The array of indexes can be made.\<close>

definition indexes_accepted :: "BuildCombinatorialPurgedCvPlanOptions \<Rightarrow> bool" where
  "indexes_accepted opts \<longleftrightarrow> mode_of (co_combinationMode opts) = Exhaustive \<or>
       requested_of opts \<le> whole (co_maxCombinationCount opts) \<longrightarrow> requested_of opts < ARRAY_LENGTH_LIMIT"

lemma selection_throws:
  assumes "selectCombinationIndexes fuel (requested_of opts) (whole (co_maxCombinationCount opts))
    (mode_of (co_combinationMode opts)) seed = Some selected"
  shows "(\<exists>r. selected = Inr r) \<longleftrightarrow> indexes_accepted opts"
  using assms by (auto simp: selectCombinationIndexes_def indexes_accepted_def split: if_splits)

section \<open>How many ranks the generator can give\<close>

definition orbit_ranks :: "32 word \<Rightarrow> nat \<Rightarrow> nat set" where
  "orbit_ranks s u = (\<lambda>w. snd (draw_candidate (s + w)) mod u) ` range ((*) 2)"

lemma orbit_shift: "orbit_ranks (s + 2 * h) u \<subseteq> orbit_ranks s u"
proof
  fix x assume "x \<in> orbit_ranks (s + 2 * h) u"
  then obtain g where "x = snd (draw_candidate (s + 2 * (h + g))) mod u"
    by (auto simp: orbit_ranks_def distrib_left add.assoc)
  then show "x \<in> orbit_ranks s u" unfolding orbit_ranks_def by blast
qed

lemma draw_shift: "fst (draw_candidate s) = s + 2 * 0x6d2b79f5"
  by (simp add: draw_candidate_state)

lemma sample_in_orbit:
  "sampleCombinationRank n s u = Some (s', r) \<Longrightarrow> r \<in> orbit_ranks s u \<and> (\<exists>h. s' = s + 2 * h)"
proof (induction n arbitrary: s)
  case (Suc n)
  obtain s1 c where d: "draw_candidate s = (s1, c)" by fastforce
  then have s1: "s1 = s + 2 * 0x6d2b79f5" using draw_shift [of s] by simp
  show ?case
  proof (cases "c < rejectionLimit u")
    case True
    with Suc.prems d have r: "r = c mod u" "s' = s1" by simp_all
    have "r = snd (draw_candidate (s + 2 * 0)) mod u" using d r(1) by simp
    then have "r \<in> orbit_ranks s u" unfolding orbit_ranks_def by blast
    with r(2) s1 show ?thesis by blast
  next
    case False
    with Suc.prems d have "sampleCombinationRank n s1 u = Some (s', r)" by simp
    from Suc.IH [OF this] orbit_shift [of s "0x6d2b79f5" u] s1 obtain h where
      "r \<in> orbit_ranks s u" "s' = s + 2 * 0x6d2b79f5 + 2 * h" by blast
    then have "s' = s + 2 * (0x6d2b79f5 + h)" by (simp only: distrib_left add.assoc)
    with \<open>r \<in> orbit_ranks s u\<close> show ?thesis by blast
  qed
qed simp

lemma collected_in_orbit:
  "collect_ranks d n s u maximum selected = Some r \<Longrightarrow> set r \<subseteq> set selected \<union> orbit_ranks s u"
proof (induction d n s u maximum selected rule: collect_ranks.induct)
  case (1 d n s u maximum selected)
  show ?case
  proof (cases "maximum \<le> length selected")
    case True
    with "1.prems" show ?thesis by (auto simp: collect_ranks.simps)
  next
    case False
    then obtain n' s' rank where r: "n = Suc n'" "sampleCombinationRank d s u = Some (s', rank)"
      "collect_ranks d n' s' u maximum (append_unique selected rank) = Some r"
      using "1.prems"(1) by (subst (asm) collect_ranks.simps) (auto split: nat.splits option.splits)
    from sample_in_orbit [OF r(2)] obtain h where "rank \<in> orbit_ranks s u" "s' = s + 2 * h" by blast
    with "1.IH" [OF False r(1) r(2) _ r(3)] orbit_shift [of s h u] show ?thesis by auto
  qed
qed

lemma orbit_card: "finite (orbit_ranks s u)" "card (orbit_ranks s u) \<le> 2 ^ 31"
proof -
  have half: "2 * w = 2 * of_nat (unat w mod 2 ^ 31)" for w :: "32 word"
  proof -
    have "2 * unat w = 2 * (2 ^ 31 * (unat w div 2 ^ 31) + unat w mod 2 ^ 31)"
      by (simp only: mult_div_mod_eq)
    also have "\<dots> = 2 * (unat w mod 2 ^ 31) + (2 * 2 ^ 31) * (unat w div 2 ^ 31)"
      by (simp only: distrib_left mult.assoc add.commute)
    finally have "2 * unat w = 2 * (unat w mod 2 ^ 31) + (2 * 2 ^ 31) * (unat w div 2 ^ 31)" .
    then have "(of_nat (2 * unat w) :: 32 word) =
        of_nat (2 * (unat w mod 2 ^ 31) + (2 * 2 ^ 31) * (unat w div 2 ^ 31))" by (simp only:)
    moreover have "(4294967296 :: 32 word) = 0" by simp
    ultimately show ?thesis by (simp del: mult_eq_0_iff)
  qed
  have "range ((*) 2 :: 32 word \<Rightarrow> 32 word) \<subseteq> (\<lambda>n. 2 * of_nat n) ` {..<2 ^ 31 :: nat}"
  proof
    fix x :: "32 word" assume "x \<in> range ((*) 2)"
    then obtain w where "x = 2 * w" by blast
    then show "x \<in> (\<lambda>n. 2 * of_nat n) ` {..<2 ^ 31 :: nat}" using half [of w] by auto
  qed
  then have "card (range ((*) 2 :: 32 word \<Rightarrow> 32 word)) \<le> 2 ^ 31"
    using card_mono [of "(\<lambda>n. 2 * of_nat n) ` {..<2 ^ 31 :: nat}" "range ((*) (2 :: 32 word))"]
      card_image_le [of "{..<2 ^ 31 :: nat}" "\<lambda>n. 2 * of_nat n :: 32 word"] by simp
  then show "finite (orbit_ranks s u)" "card (orbit_ranks s u) \<le> 2 ^ 31"
    unfolding orbit_ranks_def
    using card_image_le [of "range ((*) (2 :: 32 word))" "\<lambda>w. snd (draw_candidate (s + w)) mod u"] by auto
qed

end
