(* ===== verification/CpcvClaims.thy ===== *)
theory CpcvClaims
  imports CpcvPlan PaperSamples
begin

text \<open>
  The properties of combinatorial purged cross-validation: which folds are chosen, that the
  training samples of a combination never touch what it is tested on, when a plan is refused, and
  when the sampling of combinations returns; each with a witness where it has hypotheses.
\<close>

section \<open>A sample plan\<close>

definition sample_label :: "string \<Rightarrow> string \<Rightarrow> PurgedKFoldSample" where
  "sample_label name day = \<lparr>ps_sampleId = name, ps_labelStart = day, ps_labelEnd = day\<rparr>"

definition sample_cv :: BuildCombinatorialPurgedCvPlanOptions where
  "sample_cv =
     \<lparr>co_samples = [sample_label ''a'' ''2026-01-02'', sample_label ''b'' ''2026-01-01T00:00:00.000Z''],
      co_foldCount = num (int 2), co_testFoldCount = num (int 1), co_maxCombinationCount = num (int 5),
      co_combinationMode = None, co_randomSeed = None, co_purgeDurationDays = None,
      co_embargoDurationDays = None, co_planId = None\<rparr>"

lemma sample_cv_fields [simp]:
  "whole (co_foldCount sample_cv) = 2" "whole (co_testFoldCount sample_cv) = 1"
  "whole (co_maxCombinationCount sample_cv) = 5" "mode_of (co_combinationMode sample_cv) = Exhaustive"
  "requested_of sample_cv = 2" "co_purgeDurationDays sample_cv = None"
  "co_embargoDurationDays sample_cv = None"
  by (simp_all add: sample_cv_def requested_of_def mode_of_def whole_def)

lemma sample_cv_inputs: "inputs_valid sample_env sample_cv" "limits_accepted sample_cv"
proof -
  have "options_valid sample_cv" by (simp add: options_valid_def sample_cv_def opt_all_def whole_def)
  moreover have "samples_accepted sample_env (co_samples sample_cv)"
    by (simp add: samples_accepted_def sample_cv_def sample_label_def sample_valid_def sample_eval
      isoDateTime_valid_def non_empty_iff is_space_def trim_def)
  ultimately show "inputs_valid sample_env sample_cv"
    by (simp add: inputs_valid_def seed_valid_def MAX_SAFE_COMBINATION_COUNT_def)
      (simp add: sample_cv_def non_empty_iff is_space_def)
  show "limits_accepted sample_cv"
    by (simp add: limits_accepted_def MAX_SAFE_COMBINATION_COUNT_def is_duration_def is_safe_integer_def
      MAX_SAFE_INTEGER_def)
qed

lemma sample_cv_plan:
  assumes "normalizeSamples sample_env collate (co_samples sample_cv) = Inr samples"
  shows "buildCombinatorialPurgedCvPlan fuel sample_env collate sample_cv =
    Some (Inr (plan_of sample_cv samples [0..<2]))"
proof -
  have "validated_inputs sample_env collate sample_cv =
      Inr (plan_id_of sample_cv, seed_of sample_cv, samples, requested_of sample_cv)"
    using assms sample_cv_inputs(1) by (simp only: validated_inputs simp_thms)
  then show ?thesis
    using plan_result [OF sample_cv_inputs(1) assms] sample_cv_inputs(2)
    by (simp add: buildCombinatorialPurgedCvPlan_def selectCombinationIndexes_def ARRAY_LENGTH_LIMIT_def)
qed

lemma sample_cv_normalized:
  "\<exists>samples. normalizeSamples sample_env collate (co_samples sample_cv) = Inr samples"
  using sample_cv_inputs(1) by (simp add: normalized_samples inputs_valid_def)

section \<open>What a built plan is\<close>

lemma built_plan:
  assumes "buildCombinatorialPurgedCvPlan fuel env collate opts = Some (Inr plan)"
  obtains samples r where "inputs_valid env opts"
    "normalizeSamples env collate (co_samples opts) = Inr samples" "plan = plan_of opts samples r"
    "selectCombinationIndexes fuel (requested_of opts) (whole (co_maxCombinationCount opts))
      (mode_of (co_combinationMode opts)) (seed_of opts) = Some (Inr r)"
    "\<forall>i \<in> set r. i < requested_of opts" "options_valid opts"
proof -
  obtain planId seed samples requested where
    "validated_inputs env collate opts = Inr (planId, seed, samples, requested)"
    using assms by (auto simp: buildCombinatorialPurgedCvPlan_def split: sum.splits)
  note v = this [unfolded validated_inputs]
  then have p: "plan_from fuel opts (plan_id_of opts) (seed_of opts) samples (requested_of opts) =
      Some (Inr plan)"
    using assms by (auto simp: buildCombinatorialPurgedCvPlan_def validated_inputs [THEN iffD2])
  obtain r where r: "selectCombinationIndexes fuel (requested_of opts) (whole (co_maxCombinationCount opts))
      (mode_of (co_combinationMode opts)) (seed_of opts) = Some (Inr r)" "plan = plan_of opts samples r"
    using p plan_result [of env opts collate samples fuel] v by (auto simp: bind_result_Inr split: if_splits)
  have o: "options_valid opts" using v by (simp add: inputs_valid_def)
  have "\<forall>i \<in> set r. i < requested_of opts"
    by (rule selected_indexes(2) [OF r(1) options_fold_counts(5) [OF o]])
  with that v r o show thesis by blast
qed

text \<open>The selection of a combination of the plan.\<close>

lemma planned_combination:
  assumes "buildCombinatorialPurgedCvPlan fuel env collate opts = Some (Inr plan)"
    and "normalizeSamples env collate (co_samples opts) = Inr samples"
    and "c \<in> set (cp_combinations plan)"
  obtains i where "i < requested_of opts" "c = plan_combination opts samples i"
    "selections [0..<whole (co_foldCount opts)] (whole (co_testFoldCount opts)) ! i
      \<in> set (selections [0..<whole (co_foldCount opts)] (whole (co_testFoldCount opts)))"
    "0 < whole (co_foldCount opts)" "options_valid opts"
proof -
  obtain samples' r where b: "normalizeSamples env collate (co_samples opts) = Inr samples'"
    "plan = plan_of opts samples' r" "\<forall>i \<in> set r. i < requested_of opts" "options_valid opts"
    by (rule built_plan [OF assms(1)])
  then obtain i where i: "i \<in> set r" "c = plan_combination opts samples i"
    using assms(2,3) by (auto simp: plan_of_def)
  then have "i < requested_of opts" using b(3) by blast
  with that [OF this i(2)] options_fold_counts [OF b(4)] b(4) show thesis
    by (simp add: requested_of_def length_selections)
qed

section \<open>Folds\<close>

text \<open>
  C30. Unranking enumerates the selections.  While their number is a safe integer, the ranks below
  it give exactly the selections of so many folds in lexicographic order, and every set of folds of
  that size has one rank.
\<close>

theorem unranking_enumerates_selections:
  assumes "(n choose k) \<le> MAX_SAFE_COMBINATION_COUNT"
  shows "map_result (unrankCombination n k) [0..<n choose k] = Inr (selections [0..<n] k) \<and>
    (\<forall>S. S \<subseteq> {0..<n} \<and> card S = k \<longrightarrow>
      (\<exists>!i. i < (n choose k) \<and> (\<exists>xs. unrankCombination n k i = Inr xs \<and> set xs = S)))"
proof -
  let ?s = "selections [0..<n] k"
  have unrank: "unrankCombination n k i = Inr (?s ! i)" if "i < (n choose k)" for i
    unfolding unrankCombination_def by (rule unrank_selections) (use assms that in simp_all)
  have len: "length ?s = (n choose k)" by (simp add: length_selections)
  have "map_result (unrankCombination n k) [0..<n choose k] = Inr (map ((!) ?s) [0..<n choose k])"
    by (rule map_result_all) (use unrank in auto)
  moreover have "map ((!) ?s) [0..<n choose k] = ?s" using len by (metis map_nth)
  moreover have "\<exists>!i. i < (n choose k) \<and> (\<exists>xs. unrankCombination n k i = Inr xs \<and> set xs = S)"
    if S: "S \<subseteq> {0..<n}" "card S = k" for S
  proof -
    have "S \<in> set ` set (subseqs [0..<n])" using S(1) subseqs_powset [of "[0..<n]"] by auto
    then obtain xs where xs: "xs \<in> set (subseqs [0..<n])" "set xs = S" by blast
    have "distinct xs" using subseq_filter [OF _ xs(1)] by (metis distinct_filter distinct_upt)
    then have "length xs = k" using xs(2) S(2) distinct_card [of xs] by simp
    then have "xs \<in> set ?s" using xs(1) by (simp add: selections_def)
    then obtain i where i: "i < (n choose k)" "?s ! i = xs" by (auto simp: in_set_conv_nth len)
    have one: "j = i" if "j < (n choose k)" "set (?s ! j) = S" for j
    proof -
      have "map set ?s ! j = map set ?s ! i" using that i xs(2) by (simp only: nth_map len)
      moreover have "distinct (map set ?s)" by (rule distinct_selections) simp
      from nth_eq_iff_index_eq [OF this, of j i] that(1) i(1)
      have "(map set ?s ! j = map set ?s ! i) = (j = i)" by (simp only: length_map len)
      ultimately show ?thesis by (simp only:)
    qed
    show ?thesis
    proof (rule ex1I [of _ i])
      show "i < (n choose k) \<and> (\<exists>xs. unrankCombination n k i = Inr xs \<and> set xs = S)"
        using i xs(2) unrank [OF i(1)] by blast
    next
      fix j assume j: "j < (n choose k) \<and> (\<exists>xs. unrankCombination n k j = Inr xs \<and> set xs = S)"
      then have "set (?s ! j) = S" using unrank [of j] by (metis sum.inject(2))
      with j one show "j = i" by blast
    qed
  qed
  ultimately show ?thesis by simp
qed

theorem unranking_enumerates_selections_witness:
  "map_result (unrankCombination 4 2) [0..<6] =
     Inr [[0, 1], [0, 2], [0, 3], [1, 2], [1, 3], [2, 3]]"
proof -
  have c: "(4 choose 2) = (6 :: nat)" by code_simp
  have "selections [0..<4] 2 = [[0, 1], [0, 2], [0, 3], [1, 2], [1, 3], [2, 3]]" by code_simp
  moreover have "(4 choose 2) \<le> MAX_SAFE_COMBINATION_COUNT" by (simp add: c MAX_SAFE_COMBINATION_COUNT_def)
  from unranking_enumerates_selections [OF this]
  have "map_result (unrankCombination 4 2) [0..<6] = Inr (selections [0..<4] 2)" by (simp only: c simp_thms)
  ultimately show ?thesis by simp
qed

text \<open>
  C29. Every combination uses every sample once.  In a plan that is built, the identifiers kept for
  training, tested, purged and put under embargo are together exactly the identifiers of the
  samples, each once, and the test folds are as many as asked for.
\<close>

theorem combinations_partition_samples:
  assumes "buildCombinatorialPurgedCvPlan fuel env collate opts = Some (Inr plan)"
    and "c \<in> set (cp_combinations plan)"
  shows "mset (combination_sample_ids c) = mset (map (\<lambda>s. trim (ps_sampleId s)) (co_samples opts)) \<and>
    distinct (combination_sample_ids c) \<and>
    num (int (length (cc_testFoldIds c))) = co_testFoldCount opts \<and>
    num (int (length (cc_testFoldIds c) + length (cc_trainFoldIds c))) = co_foldCount opts"
proof -
  obtain samples where s: "inputs_valid env opts" "normalizeSamples env collate (co_samples opts) = Inr samples"
    by (rule built_plan [OF assms(1)])
  obtain i where i: "i < requested_of opts" "c = plan_combination opts samples i"
    "0 < whole (co_foldCount opts)" "options_valid opts"
    by (rule planned_combination [OF assms(1) s(2) assms(2)])
  have "mset (combination_sample_ids c) = mset (map ps_sampleId samples)"
    unfolding i(2) plan_combination_def by (rule combination_ids [OF i(3)])
  with normalized_facts(5) [OF s(2)]
  have "mset (combination_sample_ids c) = mset (map (\<lambda>s. trim (ps_sampleId s)) (co_samples opts))" by simp
  moreover have "distinct (combination_sample_ids c)"
    using plan_combination_valid(1) [OF s i(1)] i(2) by (simp add: combination_valid_def)
  moreover have "num (int (length (cc_testFoldIds c))) = co_testFoldCount opts"
    "num (int (length (cc_testFoldIds c) + length (cc_trainFoldIds c))) = co_foldCount opts"
    using plan_combination_valid(2,3) [OF s i(1)] i(2,4) options_fold_counts(2) [OF i(4)]
    by (simp_all add: options_valid_def Let_def)
  ultimately show ?thesis by blast
qed

theorem combinations_partition_samples_witness:
  "\<exists>plan. buildCombinatorialPurgedCvPlan 0 sample_env (\<lambda>_ _. 0) sample_cv = Some (Inr plan) \<and>
     (\<exists>c \<in> set (cp_combinations plan). mset (combination_sample_ids c) = {#''a'', ''b''#})"
proof -
  obtain samples where "normalizeSamples sample_env (\<lambda>_ _. 0) (co_samples sample_cv) = Inr samples"
    using sample_cv_normalized by blast
  note plan = sample_cv_plan [OF this, of 0]
  have "plan_combination sample_cv samples 0 \<in> set (cp_combinations (plan_of sample_cv samples [0..<2]))"
    by (simp add: plan_of_def)
  with combinations_partition_samples [OF plan this] plan show ?thesis
    by (fastforce simp: sample_cv_def sample_label_def trim_def is_space_def)
qed

section \<open>No leakage\<close>

lemma window_around:
  assumes "x = Fin a" and "binary64 x" and "not_neg p" and "p \<noteq> NaN"
  shows "jle (jsub x p) x" and "jle x (jadd x p)"
proof -
  have x: "mk a = x" using mk_exact assms(1,2) by simp
  show "jle (jsub x p) x"
  proof (cases p)
    case (Fin b)
    with assms have "mk (a - b) = jsub x p" "a - b \<le> a" by (simp_all add: jsub_def)
    with mk_mono [of "a - b" a] x show ?thesis by simp
  qed (use assms in \<open>simp_all add: jsub_def\<close>)
  show "jle x (jadd x p)"
  proof (cases p)
    case (Fin b)
    with assms have "mk (a + b) = jadd x p" "a \<le> a + b" by simp_all
    with mk_mono [of a "a + b"] x show ?thesis by simp
  qed (use assms in simp_all)
qed

lemma date_binary64:
  assumes "\<forall>s. binary64 (legacy_parse env s)" and "\<forall>s t. parse_iso s = Some t \<longrightarrow> \<bar>t\<bar> \<le> 2 ^ 53"
  shows "binary64 (date_parse env s)"
  using assms binary64_int by (auto simp: date_parse_def split: option.split)

text \<open>
  C28. Training never overlaps the test.  In a combination of a built plan, a sample that is kept
  for training does not overlap the purge window of any test sample, so its label interval ends
  before that of the test sample starts or starts after it has ended, and it does not start in the
  embargo after the last label of a test fold.  Dates are taken to be numbers of the language.
\<close>

theorem training_never_overlaps_test:
  assumes "buildCombinatorialPurgedCvPlan fuel env collate opts = Some (Inr plan)"
    and "normalizeSamples env collate (co_samples opts) = Inr samples"
    and "c \<in> set (cp_combinations plan)" and "s \<in> set samples" and "t \<in> set samples"
    and "ps_sampleId s \<in> set (cc_trainSampleIds c)" and "ps_sampleId t \<in> set (cc_testSampleIds c)"
    and "binary64 (ns_labelStartMs t)" and "binary64 (ns_labelEndMs t)"
  shows "\<not> labelsOverlapWindow s (buildPurgeWindow t (or_else (co_purgeDurationDays opts) (Fin 0))) \<and>
    (jlt (ns_labelEndMs s) (ns_labelStartMs t) \<or> jlt (ns_labelEndMs t) (ns_labelStartMs s)) \<and>
    (\<forall>f \<in> set (buildFolds samples (whole (co_foldCount opts))). \<forall>w.
       cf_foldId f \<in> set (cc_testFoldIds c) \<longrightarrow>
       buildEmbargoWindow (jmax_list (map ns_labelEndMs (cf_samples f)))
         (or_else (co_embargoDurationDays opts) (Fin 0)) = Some w \<longrightarrow> \<not> isInsideEmbargoWindow s w)"
proof -
  let ?folds = "buildFolds samples (whole (co_foldCount opts))"
  let ?purge = "or_else (co_purgeDurationDays opts) (Fin 0)"
  let ?embargo = "or_else (co_embargoDurationDays opts) (Fin 0)"
  obtain i where i: "c = plan_combination opts samples i"
    "selections [0..<whole (co_foldCount opts)] (whole (co_testFoldCount opts)) ! i
      \<in> set (selections [0..<whole (co_foldCount opts)] (whole (co_testFoldCount opts)))"
    "0 < whole (co_foldCount opts)" "options_valid opts"
    by (rule planned_combination [OF assms(1,2,3)])
  define idx where "idx = selections [0..<whole (co_foldCount opts)] (whole (co_testFoldCount opts)) ! i"
  note c = i(1) [unfolded plan_combination_def, folded idx_def]
  have same: "x = y" if "x \<in> set samples" "y \<in> set samples" "ps_sampleId x = ps_sampleId y" for x y
    using normalized_facts(2) [OF assms(2)] that by (auto simp: distinct_map inj_on_def)
  have folds: "set (samples_of (test_folds ?folds idx)) \<subseteq> set samples"
    "set (samples_of (train_folds ?folds idx)) \<subseteq> set samples"
    using arg_cong [OF folds_samples [OF i(3), of samples], of set]
    by (auto simp: test_folds_def train_folds_def)
  obtain s' where s': "s' \<in> set (samples_of (train_folds ?folds idx))" "ps_sampleId s = ps_sampleId s'"
    "\<not> list_ex (labelsOverlapWindow s') (purge_windows (test_folds ?folds idx) ?purge)"
    "\<not> list_ex (isInsideEmbargoWindow s') (embargo_windows (test_folds ?folds idx) ?embargo)"
    using assms(6) unfolding c combination_parts(1) set_map set_filter by blast
  have [simp]: "s' = s" by (rule same [OF _ assms(4)]) (use folds(2) s'(1,2) in \<open>auto simp: subset_iff\<close>)
  obtain t' where t': "t' \<in> set (samples_of (test_folds ?folds idx))" "ps_sampleId t = ps_sampleId t'"
    using assms(7) unfolding c combination_parts(4) set_map by blast
  have [simp]: "t' = t" by (rule same [OF _ assms(5)]) (use folds(1) t' in \<open>auto simp: subset_iff\<close>)
  have no: "\<not> labelsOverlapWindow s (buildPurgeWindow t ?purge)"
    using s'(3) t'(1) by (force simp: list_ex_iff)
  have facts: "is_finite (ns_labelStartMs x)" "is_finite (ns_labelEndMs x)" if "x \<in> set samples" for x
    using normalized_facts(4) [OF assms(2)] that by blast+
  have d: "not_neg ?purge" "?purge \<noteq> NaN"
    using i(4) by (cases "co_purgeDurationDays opts"; force simp: options_valid_def opt_all_def not_neg_iff jle_def)+
  have p: "not_neg (jmul ?purge DAY_MS)" "jmul ?purge DAY_MS \<noteq> NaN"
    using d by (auto intro: not_neg_intros simp: DAY_MS_def)
      (cases ?purge; auto simp: inf_of_sign_def)
  obtain a b where ab: "ns_labelStartMs t = Fin a" "ns_labelEndMs t = Fin b"
    using facts [OF assms(5)] by (meson is_finite.elims(2))
  have "jle (jsub (ns_labelStartMs t) (jmul ?purge DAY_MS)) (ns_labelStartMs t)"
    "jle (ns_labelEndMs t) (jadd (ns_labelEndMs t) (jmul ?purge DAY_MS))"
    using window_around [OF ab(1) assms(8) p] window_around [OF ab(2) assms(9) p] by blast+
  then have "\<not> (jle (ns_labelStartMs s) (ns_labelEndMs t) \<and> jle (ns_labelStartMs t) (ns_labelEndMs s))"
    using no by (auto simp: labelsOverlapWindow_def buildPurgeWindow_def Let_def intro: jle_trans)
  then have "jlt (ns_labelEndMs s) (ns_labelStartMs t) \<or> jlt (ns_labelEndMs t) (ns_labelStartMs s)"
    using facts [OF assms(4)] facts [OF assms(5)] by (auto simp: jle_def)
  moreover have "\<not> isInsideEmbargoWindow s w"
    if f: "f \<in> set ?folds" "cf_foldId f \<in> set (cc_testFoldIds c)"
      "buildEmbargoWindow (jmax_list (map ns_labelEndMs (cf_samples f))) ?embargo = Some w" for f w
  proof -
    obtain g where g: "g \<in> set ?folds" "cf_foldIndex g \<in> set idx" "cf_foldId g = cf_foldId f"
      using f(2) by (auto simp: c combination_parts(6) test_folds_def)
    then have "cf_foldIndex f = cf_foldIndex g"
      using fold_of_index [OF f(1)] fold_of_index [OF g(1)] by (simp add: fold_id_inj)
    then have "f \<in> set (test_folds ?folds idx)" using f(1) g(2) by (simp add: test_folds_def)
    with f(3) have "w \<in> set (embargo_windows (test_folds ?folds idx) ?embargo)"
      by (force simp: embargo_windows_def List.map_filter_def)
    with s'(4) show ?thesis by (auto simp: list_ex_iff)
  qed
  ultimately show ?thesis using no by blast
qed

definition sample_a :: NormalizedCpcvSample where
  "sample_a = parsed_sample sample_env (sample_label ''a'' ''2026-01-02'')"

definition sample_b :: NormalizedCpcvSample where
  "sample_b = parsed_sample sample_env (sample_label ''b'' ''2026-01-01T00:00:00.000Z'')"

lemma sample_ab_fields:
  "ps_sampleId sample_a = ''a''" "ns_labelStartMs sample_a = num 1767312000000"
  "ns_labelEndMs sample_a = num 1767312000000"
  "ps_sampleId sample_b = ''b''" "ns_labelStartMs sample_b = num 1767225600000"
  "ns_labelEndMs sample_b = num 1767225600000"
  by (simp_all add: sample_a_def sample_b_def sample_label_def sample_eval trim_def is_space_def)

lemma sample_cv_sorted:
  "normalizeSamples sample_env collate (co_samples sample_cv) = Inr [sample_b, sample_a]"
proof -
  have "sort_by (sample_before collate) [sample_a, sample_b] = [sample_b, sample_a]"
    by (simp add: sort_by_def sample_before_def sample_ab_fields jsub_def num_eval Let_def)
  moreover have "map (parsed_sample sample_env) (co_samples sample_cv) = [sample_a, sample_b]"
    by (simp add: sample_cv_def sample_a_def sample_b_def)
  ultimately show ?thesis using sample_cv_inputs(1) by (simp add: normalized_samples inputs_valid_def)
qed

lemma sample_combination:
  "cc_trainSampleIds (plan_combination sample_cv [sample_b, sample_a] 0) = [''a'']"
  "cc_testSampleIds (plan_combination sample_cv [sample_b, sample_a] 0) = [''b'']"
proof -
  have sel: "selections [0..<2] (Suc 0) = [[0], [Suc 0]]" by code_simp
  have folds: "buildFolds [sample_b, sample_a] 2 =
      [\<lparr>cf_foldId = fold_id 0, cf_foldIndex = 0, cf_samples = [sample_b]\<rparr>,
       \<lparr>cf_foldId = fold_id 1, cf_foldIndex = 1, cf_samples = [sample_a]\<rparr>]"
    by (simp add: buildFolds_def contiguousFoldRanges_def numeral_2_eq_2)
  show "cc_trainSampleIds (plan_combination sample_cv [sample_b, sample_a] 0) = [''a'']"
    "cc_testSampleIds (plan_combination sample_cv [sample_b, sample_a] 0) = [''b'']"
    by (simp_all add: plan_combination_def combination_of_def sel folds split_step_def embargo_windows_def
      buildEmbargoWindow_def buildPurgeWindow_def labelsOverlapWindow_def sample_ab_fields jsub_def
      num_eval DAY_MS_def Let_def map_filter_simps)
qed

theorem training_never_overlaps_test_witness:
  "jlt (ns_labelEndMs sample_a) (ns_labelStartMs sample_b) \<or>
   jlt (ns_labelEndMs sample_b) (ns_labelStartMs sample_a)"
proof -
  let ?c = "plan_combination sample_cv [sample_b, sample_a] 0"
  have c: "?c \<in> set (cp_combinations (plan_of sample_cv [sample_b, sample_a] [0..<2]))"
    by (simp add: plan_of_def)
  have "binary64 (ns_labelStartMs sample_b)" "binary64 (ns_labelEndMs sample_b)"
    using binary64_int [of 1767225600000] by (simp_all add: sample_ab_fields)
  then show ?thesis
    using training_never_overlaps_test [OF sample_cv_plan [OF sample_cv_sorted, of 0] sample_cv_sorted c,
      of sample_a sample_b] by (simp add: sample_combination sample_ab_fields)
qed

section \<open>Which plans are refused\<close>

text \<open>
  C31. A plan is refused exactly for its inputs.  When the construction returns, it returns a plan
  if and only if the options are in range, the identifiers of the plan and the seed are as the mode
  wants them, the samples are valid with distinct identifiers, the number of combinations is a safe
  integer, within the maximum in exhaustive mode, and the maximum and the durations are safe
  integers, and an array of all combinations, when one is made, is shorter than 2^32; the checks on the
  finished plan never fail otherwise.
\<close>

theorem plan_refused_for_inputs:
  assumes "buildCombinatorialPurgedCvPlan fuel env collate opts = Some outcome"
  shows "(\<exists>plan. outcome = Inr plan) \<longleftrightarrow> inputs_valid env opts \<and> limits_accepted opts \<and>
    (mode_of (co_combinationMode opts) = Exhaustive \<longrightarrow>
      requested_of opts \<le> whole (co_maxCombinationCount opts)) \<and>
    (mode_of (co_combinationMode opts) = Exhaustive \<or> requested_of opts \<le> whole (co_maxCombinationCount opts) \<longrightarrow>
      requested_of opts < 2 ^ 32)"
proof (cases "inputs_valid env opts")
  case False
  then obtain e where "validated_inputs env collate opts = Inl e"
    using validated_inputs_fail by blast
  then show ?thesis using assms False by (auto simp: buildCombinatorialPurgedCvPlan_def)
next
  case True
  then obtain samples where s: "normalizeSamples env collate (co_samples opts) = Inr samples"
    by (auto simp: inputs_valid_def normalized_samples)
  have "validated_inputs env collate opts = Inr (plan_id_of opts, seed_of opts, samples, requested_of opts)"
    using True s by (simp only: validated_inputs simp_thms)
  then have "plan_from fuel opts (plan_id_of opts) (seed_of opts) samples (requested_of opts) = Some outcome"
    using assms by (simp add: buildCombinatorialPurgedCvPlan_def)
  note outcome = this [unfolded plan_result [OF True s]]
  show ?thesis
  proof (cases "mode_of (co_combinationMode opts) = Exhaustive \<and> whole (co_maxCombinationCount opts) < requested_of opts")
    case False
    with outcome obtain selected where "selectCombinationIndexes fuel (requested_of opts)
        (whole (co_maxCombinationCount opts)) (mode_of (co_combinationMode opts)) (seed_of opts) = Some selected"
      "outcome = bind_result selected (\<lambda>r.
         if limits_accepted opts then Inr (plan_of opts samples r) else Inl (Error ''ZodError''))"
      by auto
    with selection_throws [OF this(1)] True False show ?thesis
      by (cases selected) (auto simp: indexes_accepted_def ARRAY_LENGTH_LIMIT_def)
  qed (use outcome True in auto)
qed

theorem plan_refused_for_inputs_witness:
  "inputs_valid sample_env sample_cv \<and> limits_accepted sample_cv"
  using plan_refused_for_inputs [OF sample_cv_plan [OF sample_cv_sorted, of 0 "\<lambda>_ _. 0"]] by blast

section \<open>Sampling\<close>

text \<open>
  C32. Drawing a rank returns.  For every state of the generator and every bound below 2^53,
  the rejection loop accepts a draw after at most 2^32 rounds, and the rank it returns is below
  the bound: the increment of the state is odd, so the draws come past every state of one parity,
  and each parity has a state whose draw is accepted.
\<close>

theorem drawing_a_rank_returns:
  assumes "0 < bound" and "bound < 2 ^ 53"
  shows "\<exists>state' rank. sampleCombinationRank (2 ^ 32) state bound = Some (state', rank) \<and> rank < bound"
  using sample_terminates [OF assms] sample_below [OF _ assms(1)] by blast

theorem drawing_a_rank_returns_witness:
  "\<exists>state' rank. sampleCombinationRank (2 ^ 32) (seed_state ''seed'') 10 = Some (state', rank) \<and> rank < 10"
  by (rule drawing_a_rank_returns) simp_all

text \<open>
  C33. Sampling cannot return more than 2^31 combinations.  The generator takes two steps of a
  cycle of 2^32 states per draw, so when more than 2^31 distinct combinations are asked
  for, and there are more than that, the loop that collects them never ends, whatever the seed.
\<close>

theorem oversized_sampling_never_returns:
  assumes "2 ^ 31 < maximum" and "maximum < requested"
  shows "selectCombinationIndexes fuel requested maximum Sampled seed = None"
proof (rule ccontr)
  assume "selectCombinationIndexes fuel requested maximum Sampled seed \<noteq> None"
  then obtain r where r: "collect_ranks fuel fuel (seed_state (or_else seed [])) requested maximum [] = Some r"
    using assms(2) by (auto simp: selectCombinationIndexes_def)
  then have "distinct r" "length r = maximum" using collected_ranks [OF r] assms(2) by auto
  moreover have "set r \<subseteq> orbit_ranks (seed_state (or_else seed [])) requested"
    using collected_in_orbit [OF r] by simp
  then have "card (set r) \<le> 2 ^ 31"
    using orbit_card card_mono order_trans by metis
  ultimately show False using assms(1) distinct_card [of r] by simp
qed

theorem oversized_sampling_never_returns_witness:
  "selectCombinationIndexes 1000 5000000000 3000000000 Sampled (Some ''seed'') = None"
  by (rule oversized_sampling_never_returns) simp_all

end
