(* ===== verification/OleCompound.thy ===== *)
theory OleCompound
  imports Prelude "HOL-Library.Word"
begin

text \<open>
  The reader of OLE compound files (\<open>src/replay/officialMarketCalendarOleCompoundFile*.ts\<close>), from
  the header to the chains of the system streams.  The input is the list of the bytes of an
  unshared \<open>Uint8Array\<close>; a read of the \<open>DataView\<close> outside of it throws.  Sector numbers and
  entries are the natural numbers of 32-bit fields, sets of sectors are lists.  An error is the
  code the code attaches to it.
\<close>

type_synonym bytes = "8 word list"

section \<open>Reading\<close>

definition u16 :: "bytes \<Rightarrow> nat \<Rightarrow> nat" where
  "u16 bs i = unat (bs ! i) + 256 * unat (bs ! (i + 1))"

definition u32 :: "bytes \<Rightarrow> nat \<Rightarrow> nat" where
  "u32 bs i = u16 bs i + 65536 * u16 bs (i + 2)"

definition out_of_range :: "'a result" where
  "out_of_range = Inl (RangeError ''Offset is outside the bounds of the DataView'')"

definition getUint8 :: "bytes \<Rightarrow> nat \<Rightarrow> nat result" where
  "getUint8 bs i = (if i < length bs then Inr (unat (bs ! i)) else out_of_range)"

definition getUint16 :: "bytes \<Rightarrow> nat \<Rightarrow> nat result" where
  "getUint16 bs i = (if i + 2 \<le> length bs then Inr (u16 bs i) else out_of_range)"

definition getUint32 :: "bytes \<Rightarrow> nat \<Rightarrow> nat result" where
  "getUint32 bs i = (if i + 4 \<le> length bs then Inr (u32 bs i) else out_of_range)"

lemma get_in_range [simp]:
  "i < length bs \<Longrightarrow> getUint8 bs i = Inr (unat (bs ! i))"
  "i + 2 \<le> length bs \<Longrightarrow> getUint16 bs i = Inr (u16 bs i)"
  "i + 4 \<le> length bs \<Longrightarrow> getUint32 bs i = Inr (u32 bs i)"
  by (simp_all add: getUint8_def getUint16_def getUint32_def)

definition code_error :: "string \<Rightarrow> 'a result" where
  "code_error code = Inl (Error code)"

section \<open>Header\<close>

definition ENDOFCHAIN :: nat where "ENDOFCHAIN = 0xfffffffe"
definition FREESECT :: nat where "FREESECT = 0xffffffff"
definition MAXREGSECT :: nat where "MAXREGSECT = 0xfffffffa"
definition DIFSECT :: nat where "DIFSECT = 0xfffffffc"
definition FATSECT :: nat where "FATSECT = 0xfffffffd"

definition HEADER_SIGNATURE :: bytes where
  "HEADER_SIGNATURE = [0xd0, 0xcf, 0x11, 0xe0, 0xa1, 0xb1, 0x1a, 0xe1]"

definition HEADER_DIFAT_ENTRY_COUNT :: nat where
  "HEADER_DIFAT_ENTRY_COUNT = 109"

definition hasBytes :: "bytes \<Rightarrow> nat \<Rightarrow> bytes \<Rightarrow> bool" where
  "hasBytes value offset expected \<longleftrightarrow>
     list_all (\<lambda>i. offset + i < length value \<and> value ! (offset + i) = expected ! i)
       [0..<length expected]"

definition hasZeroBytes :: "bytes \<Rightarrow> nat \<Rightarrow> nat \<Rightarrow> bool" where
  "hasZeroBytes value offset len \<longleftrightarrow>
     list_all (\<lambda>i. offset + i < length value \<and> value ! (offset + i) = 0) [0..<len]"

definition isFileSector :: "nat \<Rightarrow> nat \<Rightarrow> bool" where
  "isFileSector value fileSectorCount \<longleftrightarrow> value \<le> MAXREGSECT \<and> value < fileSectorCount"

definition hasConsistentChainStart :: "nat \<Rightarrow> nat \<Rightarrow> nat \<Rightarrow> bool" where
  "hasConsistentChainStart firstSector sectorCount fileSectorCount \<longleftrightarrow>
     (if sectorCount = 0 then firstSector = ENDOFCHAIN else isFileSector firstSector fileSectorCount)"

record OleHeaderFields =
  hf_majorVersion :: nat
  hf_minorVersion :: nat
  hf_byteOrder :: nat
  hf_sectorShift :: nat
  hf_miniSectorShift :: nat
  hf_miniStreamCutoffSize :: nat
  hf_directorySectorCount :: nat
  hf_fatSectorCount :: nat
  hf_firstDirectorySector :: nat
  hf_firstMiniFatSector :: nat
  hf_miniFatSectorCount :: nat
  hf_firstDifatSector :: nat
  hf_difatSectorCount :: nat

definition header_fields :: "bytes \<Rightarrow> OleHeaderFields result" where
  "header_fields bs =
     bind_result (getUint16 bs 26) (\<lambda>major. bind_result (getUint16 bs 24) (\<lambda>minor.
     bind_result (getUint16 bs 30) (\<lambda>shift. bind_result (getUint16 bs 32) (\<lambda>miniShift.
     bind_result (getUint32 bs 56) (\<lambda>cutoff. bind_result (getUint32 bs 40) (\<lambda>dirCount.
     bind_result (getUint32 bs 44) (\<lambda>fatCount. bind_result (getUint32 bs 48) (\<lambda>firstDir.
     bind_result (getUint32 bs 60) (\<lambda>firstMini. bind_result (getUint32 bs 64) (\<lambda>miniCount.
     bind_result (getUint32 bs 68) (\<lambda>firstDifat. bind_result (getUint32 bs 72) (\<lambda>difatCount.
     bind_result (getUint16 bs 28) (\<lambda>order.
       Inr \<lparr>hf_majorVersion = major, hf_minorVersion = minor, hf_byteOrder = order,
         hf_sectorShift = shift, hf_miniSectorShift = miniShift, hf_miniStreamCutoffSize = cutoff,
         hf_directorySectorCount = dirCount, hf_fatSectorCount = fatCount,
         hf_firstDirectorySector = firstDir, hf_firstMiniFatSector = firstMini,
         hf_miniFatSectorCount = miniCount, hf_firstDifatSector = firstDifat,
         hf_difatSectorCount = difatCount\<rparr>)))))))))))))"

definition fields_invalid :: "bytes \<Rightarrow> OleHeaderFields \<Rightarrow> bool" where
  "fields_invalid bs f \<longleftrightarrow>
     \<not> hasZeroBytes bs 8 16 \<or> hf_minorVersion f \<noteq> 62 \<or>
     (hf_majorVersion f \<noteq> 3 \<and> hf_majorVersion f \<noteq> 4) \<or>
     hf_byteOrder f \<noteq> 0xfffe \<or>
     (if hf_majorVersion f = 3 then hf_sectorShift f \<noteq> 9 else hf_sectorShift f \<noteq> 12) \<or>
     hf_miniSectorShift f \<noteq> 6 \<or> \<not> hasZeroBytes bs 34 6 \<or>
     (hf_majorVersion f = 3 \<and> hf_directorySectorCount f \<noteq> 0) \<or>
     (hf_majorVersion f = 4 \<and> \<not> hasZeroBytes bs 512 (4096 - 512)) \<or>
     hf_miniStreamCutoffSize f \<noteq> 4096 \<or> hf_fatSectorCount f < 1"

text \<open>The layout checks, and the ceiling of the sectors the DIFAT needs beyond the header.\<close>

definition expected_difat_sectors :: "nat \<Rightarrow> nat \<Rightarrow> nat" where
  "expected_difat_sectors fatSectorCount sectorSize =
     (let entries = sectorSize div 4 - 1
      in (fatSectorCount - HEADER_DIFAT_ENTRY_COUNT + (entries - 1)) div entries)"

definition layout_invalid :: "OleHeaderFields \<Rightarrow> nat \<Rightarrow> nat \<Rightarrow> bool" where
  "layout_invalid f sectorSize fileSectorCount \<longleftrightarrow>
     (let declaredDirectory = (if hf_majorVersion f = 3 then 1 else hf_directorySectorCount f)
      in fileSectorCount < hf_fatSectorCount f \<or>
         hf_fatSectorCount f * (sectorSize div 4) < fileSectorCount \<or>
         declaredDirectory < 1 \<or> fileSectorCount < declaredDirectory \<or>
         fileSectorCount < hf_miniFatSectorCount f \<or> fileSectorCount < hf_difatSectorCount f \<or>
         fileSectorCount < hf_fatSectorCount f + declaredDirectory + hf_miniFatSectorCount f +
           hf_difatSectorCount f \<or>
         hf_difatSectorCount f \<noteq> expected_difat_sectors (hf_fatSectorCount f) sectorSize \<or>
         \<not> isFileSector (hf_firstDirectorySector f) fileSectorCount \<or>
         \<not> hasConsistentChainStart (hf_firstMiniFatSector f) (hf_miniFatSectorCount f)
             fileSectorCount \<or>
         \<not> hasConsistentChainStart (hf_firstDifatSector f) (hf_difatSectorCount f)
             fileSectorCount \<or>
         (HEADER_DIFAT_ENTRY_COUNT < hf_fatSectorCount f \<and> hf_difatSectorCount f = 0))"

definition layout_error :: "'a result" where
  "layout_error = code_error ''OFFICIAL_CALENDAR_OLE_HEADER_INVALID_SECTOR_LAYOUT''"

fun header_difat_loop ::
  "bytes \<Rightarrow> nat \<Rightarrow> nat \<Rightarrow> nat list \<Rightarrow> nat list \<Rightarrow> nat list result" where
  "header_difat_loop bs headerFatCount fileSectorCount seen [] = Inr seen"
| "header_difat_loop bs headerFatCount fileSectorCount seen (index # rest) =
     bind_result (getUint32 bs (76 + index * 4)) (\<lambda>sector.
       if index < headerFatCount then
         (if \<not> isFileSector sector fileSectorCount \<or> sector \<in> set seen then layout_error
          else header_difat_loop bs headerFatCount fileSectorCount (seen @ [sector]) rest)
       else if sector \<noteq> FREESECT then layout_error
       else header_difat_loop bs headerFatCount fileSectorCount seen rest)"

definition verifyHeaderDifat :: "bytes \<Rightarrow> nat \<Rightarrow> nat \<Rightarrow> nat list result" where
  "verifyHeaderDifat bs fatSectorCount fileSectorCount =
     header_difat_loop bs (min fatSectorCount HEADER_DIFAT_ENTRY_COUNT) fileSectorCount []
       [0..<HEADER_DIFAT_ENTRY_COUNT]"

definition declared_chain_starts :: "OleHeaderFields \<Rightarrow> nat list" where
  "declared_chain_starts f =
     [hf_firstDirectorySector f] @
     push_if (0 < hf_miniFatSectorCount f) (hf_firstMiniFatSector f) @
     push_if (0 < hf_difatSectorCount f) (hf_firstDifatSector f)"

record OleHeader =
  oh_majorVersion :: nat
  oh_sectorSize :: nat
  oh_fileSectorCount :: nat
  oh_fields :: OleHeaderFields

definition verifyOleHeader :: "bytes \<Rightarrow> OleHeader result" where
  "verifyOleHeader bs =
     (if length bs < 512 then code_error ''OFFICIAL_CALENDAR_OLE_HEADER_INVALID_INPUT''
      else if \<not> hasBytes bs 0 HEADER_SIGNATURE
      then code_error ''OFFICIAL_CALENDAR_OLE_HEADER_INVALID_SIGNATURE''
      else bind_result (header_fields bs) (\<lambda>f.
        if fields_invalid bs f then code_error ''OFFICIAL_CALENDAR_OLE_HEADER_INVALID_FIELDS''
        else
          let sectorSize = 2 ^ hf_sectorShift f in
          if length bs mod sectorSize \<noteq> 0 \<or> length bs < sectorSize * 2 then layout_error
          else
            let fileSectorCount = length bs div sectorSize - 1 in
            if layout_invalid f sectorSize fileSectorCount then layout_error
            else
              bind_result (verifyHeaderDifat bs (hf_fatSectorCount f) fileSectorCount)
                (\<lambda>headerFatSectors.
                  if \<not> distinct (declared_chain_starts f) \<or>
                     list_ex (\<lambda>s. s \<in> set headerFatSectors) (declared_chain_starts f)
                  then layout_error
                  else Inr \<lparr>oh_majorVersion = hf_majorVersion f, oh_sectorSize = sectorSize,
                             oh_fileSectorCount = fileSectorCount, oh_fields = f\<rparr>)))"

section \<open>DIFAT\<close>

record DifatState =
  ds_fatSectorLocations :: "nat list"
  ds_difatSectorLocations :: "nat list"
  ds_remainingFatLocations :: nat
  ds_currentDifatSector :: nat

definition addFatLocation :: "nat \<Rightarrow> nat \<Rightarrow> nat list \<Rightarrow> nat list result" where
  "addFatLocation sector fileSectorCount locations =
     (if \<not> isFileSector sector fileSectorCount \<or> sector \<in> set locations
      then code_error ''OFFICIAL_CALENDAR_OLE_DIFAT_INVALID_FAT_LOCATION''
      else Inr (locations @ [sector]))"

definition sectorByteOffset :: "nat \<Rightarrow> nat \<Rightarrow> nat" where
  "sectorByteOffset sector sectorSize = (sector + 1) * sectorSize"

definition header_location_step ::
  "bytes \<Rightarrow> nat \<Rightarrow> nat list \<Rightarrow> nat \<Rightarrow> nat list result" where
  "header_location_step bs fileSectorCount locations index =
     bind_result (getUint32 bs (76 + index * 4))
       (\<lambda>sector. addFatLocation sector fileSectorCount locations)"

definition difat_entry_step ::
  "bytes \<Rightarrow> nat \<Rightarrow> nat \<Rightarrow> nat \<Rightarrow> nat list \<Rightarrow> nat \<Rightarrow> nat list result" where
  "difat_entry_step bs fileSectorCount sectorOffset usedEntryCount locations entryIndex =
     bind_result (getUint32 bs (sectorOffset + entryIndex * 4)) (\<lambda>sector.
       if entryIndex < usedEntryCount then addFatLocation sector fileSectorCount locations
       else if sector \<noteq> FREESECT
       then code_error ''OFFICIAL_CALENDAR_OLE_DIFAT_INVALID_FAT_LOCATION''
       else Inr locations)"

definition difat_chain_error :: "'a result" where
  "difat_chain_error = code_error ''OFFICIAL_CALENDAR_OLE_DIFAT_INVALID_CHAIN''"

definition difat_sector_step ::
  "bytes \<Rightarrow> OleHeader \<Rightarrow> DifatState \<Rightarrow> nat \<Rightarrow> DifatState result" where
  "difat_sector_step bs h st chainIndex =
     (let current = ds_currentDifatSector st; n = oh_fileSectorCount h;
          capacity = oh_sectorSize h div 4 - 1;
          sectorOffset = sectorByteOffset current (oh_sectorSize h);
          used = min (ds_remainingFatLocations st) capacity
      in if \<not> isFileSector current n \<or> current \<in> set (ds_difatSectorLocations st) \<or>
            current \<in> set (ds_fatSectorLocations st)
         then difat_chain_error
         else
           bind_result (fold_result (difat_entry_step bs n sectorOffset used)
               (ds_fatSectorLocations st) [0..<capacity]) (\<lambda>locations.
           bind_result (getUint32 bs (sectorOffset + capacity * 4)) (\<lambda>next.
             let isLast = chainIndex + 1 = hf_difatSectorCount (oh_fields h) in
             if (isLast \<and> next \<noteq> ENDOFCHAIN) \<or> (\<not> isLast \<and> \<not> isFileSector next n)
             then difat_chain_error
             else Inr \<lparr>ds_fatSectorLocations = locations,
                        ds_difatSectorLocations = ds_difatSectorLocations st @ [current],
                        ds_remainingFatLocations = ds_remainingFatLocations st - used,
                        ds_currentDifatSector = next\<rparr>)))"

record OleDifat =
  od_header :: OleHeader
  od_fatSectorLocations :: "nat list"
  od_difatSectorLocations :: "nat list"

definition fixed_role_locations :: "OleHeaderFields \<Rightarrow> nat list" where
  "fixed_role_locations f =
     [hf_firstDirectorySector f] @
     push_if (0 < hf_miniFatSectorCount f) (hf_firstMiniFatSector f)"

definition verifyOleDifat :: "bytes \<Rightarrow> OleDifat result" where
  "verifyOleDifat bs =
     bind_result (verifyOleHeader bs) (\<lambda>h.
       let f = oh_fields h; fatCount = hf_fatSectorCount f;
           headerCount = min fatCount HEADER_DIFAT_ENTRY_COUNT
       in
       bind_result (fold_result (header_location_step bs (oh_fileSectorCount h)) [] [0..<headerCount])
         (\<lambda>headerLocations.
       bind_result (fold_result (difat_sector_step bs h)
           \<lparr>ds_fatSectorLocations = headerLocations, ds_difatSectorLocations = [],
            ds_remainingFatLocations = fatCount - headerCount,
            ds_currentDifatSector = hf_firstDifatSector f\<rparr> [0..<hf_difatSectorCount f]) (\<lambda>st.
         if ds_remainingFatLocations st \<noteq> 0 \<or>
            length (ds_fatSectorLocations st) \<noteq> fatCount \<or>
            length (ds_difatSectorLocations st) \<noteq> hf_difatSectorCount f
         then difat_chain_error
         else if list_ex (\<lambda>s. s \<in> set (ds_fatSectorLocations st) \<or>
                            s \<in> set (ds_difatSectorLocations st)) (fixed_role_locations f) \<or>
                 list_ex (\<lambda>s. s \<in> set (ds_fatSectorLocations st)) (ds_difatSectorLocations st)
         then code_error ''OFFICIAL_CALENDAR_OLE_DIFAT_SECTOR_ROLE_COLLISION''
         else Inr \<lparr>od_header = h, od_fatSectorLocations = ds_fatSectorLocations st,
                    od_difatSectorLocations = ds_difatSectorLocations st\<rparr>)))"

section \<open>FAT\<close>

definition isValidFatEntry :: "nat \<Rightarrow> nat \<Rightarrow> bool" where
  "isValidFatEntry value fileSectorCount \<longleftrightarrow>
     (value \<le> MAXREGSECT \<and> value < fileSectorCount) \<or> value = DIFSECT \<or> value = FATSECT \<or>
     value = ENDOFCHAIN \<or> value = FREESECT"

definition fat_entry_step ::
  "bytes \<Rightarrow> nat \<Rightarrow> nat \<Rightarrow> nat \<Rightarrow> nat list \<Rightarrow> nat \<Rightarrow> nat list result" where
  "fat_entry_step bs fileSectorCount sectorOffset firstIndex entries entryIndex =
     bind_result (getUint32 bs (sectorOffset + entryIndex * 4)) (\<lambda>value.
       if firstIndex + entryIndex < fileSectorCount then
         (if isValidFatEntry value fileSectorCount then Inr (entries @ [value])
          else code_error ''OFFICIAL_CALENDAR_OLE_FAT_INVALID_ENTRY'')
       else if value \<noteq> FREESECT
       then code_error ''OFFICIAL_CALENDAR_OLE_FAT_INVALID_TRAILING_ENTRY''
       else Inr entries)"

definition fat_sector_step ::
  "bytes \<Rightarrow> OleHeader \<Rightarrow> nat list \<Rightarrow> nat \<times> nat \<Rightarrow> nat list result" where
  "fat_sector_step bs h entries = (\<lambda>(fatSectorIndex, location).
     fold_result (fat_entry_step bs (oh_fileSectorCount h) (sectorByteOffset location (oh_sectorSize h))
         (fatSectorIndex * (oh_sectorSize h div 4)))
       entries [0..<oh_sectorSize h div 4])"

definition marker_wrong :: "OleDifat \<Rightarrow> nat list \<Rightarrow> nat \<Rightarrow> bool" where
  "marker_wrong d fatEntries sector =
     (let entry = fatEntries ! sector in
      if sector \<in> set (od_fatSectorLocations d) then entry \<noteq> FATSECT
      else if sector \<in> set (od_difatSectorLocations d) then entry \<noteq> DIFSECT
      else entry = FATSECT \<or> entry = DIFSECT)"

record OleFat =
  of_difat :: OleDifat
  of_fatEntries :: "nat list"

definition verifyOleFat :: "bytes \<Rightarrow> OleFat result" where
  "verifyOleFat bs =
     bind_result (verifyOleDifat bs) (\<lambda>d.
     bind_result (fold_result (fat_sector_step bs (od_header d)) []
         (enumerate 0 (od_fatSectorLocations d))) (\<lambda>entries.
       if length entries \<noteq> oh_fileSectorCount (od_header d)
       then code_error ''OFFICIAL_CALENDAR_OLE_FAT_INVALID_ENTRY''
       else if list_ex (marker_wrong d entries) [0..<length entries]
       then code_error ''OFFICIAL_CALENDAR_OLE_FAT_INVALID_SECTOR_MARKER''
       else Inr \<lparr>of_difat = d, of_fatEntries = entries\<rparr>))"

section \<open>Chains\<close>

text \<open>
  The walk along the entries of an allocation table, as the readers of the system chains, of the
  root mini stream and of the user streams write it, with the codes of their two errors.  A
  sector that is seen again or that another chain occupies ends the walk with an error, so it
  returns.
\<close>

definition isSector :: "nat \<Rightarrow> nat \<Rightarrow> bool" where
  "isSector value limit \<longleftrightarrow> value \<le> MAXREGSECT \<and> value < limit"

function walk_chain ::
  "string \<Rightarrow> string \<Rightarrow> nat list \<Rightarrow> nat \<Rightarrow> nat list \<Rightarrow> nat list \<Rightarrow> nat \<Rightarrow> nat list result" where
  "walk_chain invalid reuse entries limit occupied locations current =
     (if current = ENDOFCHAIN then Inr locations
      else if \<not> isSector current limit \<or> current \<in> set locations then code_error invalid
      else if current \<in> set occupied then code_error reuse
      else if length entries \<le> current then code_error invalid
      else
        let next = entries ! current in
        if next \<noteq> ENDOFCHAIN \<and> \<not> isSector next limit then code_error invalid
        else walk_chain invalid reuse entries limit occupied (locations @ [current]) next)"
  by pat_completeness auto

termination
proof (relation "measure (\<lambda>(invalid, reuse, entries, limit, occupied, locations, current).
    card ({..<limit} - set locations))")
  fix invalid reuse :: string and entries occupied locations :: "nat list" and limit current x :: nat
  assume "\<not> (\<not> isSector current limit \<or> current \<in> set locations)"
  then have "{..<limit} - set (locations @ [current]) \<subset> {..<limit} - set locations"
    by (auto simp: isSector_def)
  then show "((invalid, reuse, entries, limit, occupied, locations @ [current], x),
      invalid, reuse, entries, limit, occupied, locations, current) \<in>
      measure (\<lambda>(invalid, reuse, entries, limit, occupied, locations, current).
        card ({..<limit} - set locations))"
    by (simp add: psubset_card_mono)
qed simp

declare walk_chain.simps [simp del]

section \<open>Chains of the system streams\<close>

definition readChain :: "nat \<Rightarrow> nat option \<Rightarrow> nat list \<Rightarrow> nat list \<Rightarrow> nat list result" where
  "readChain firstSector expectedSectorCount entries occupied =
     bind_result (walk_chain ''OFFICIAL_CALENDAR_OLE_SYSTEM_CHAINS_INVALID_CHAIN''
         ''OFFICIAL_CALENDAR_OLE_SYSTEM_CHAINS_SECTOR_REUSE'' entries (length entries) occupied []
         firstSector) (\<lambda>locations.
       if (expectedSectorCount = None \<and> locations = []) \<or>
          (case expectedSectorCount of None \<Rightarrow> False | Some c \<Rightarrow> length locations \<noteq> c)
       then code_error ''OFFICIAL_CALENDAR_OLE_SYSTEM_CHAINS_LENGTH_MISMATCH''
       else Inr locations)"

record OleSystemChains =
  oc_fat :: OleFat
  oc_directorySectorLocations :: "nat list"
  oc_miniFatSectorLocations :: "nat list"

definition verifyOleSystemChains :: "bytes \<Rightarrow> OleSystemChains result" where
  "verifyOleSystemChains bs =
     bind_result (verifyOleFat bs) (\<lambda>fat.
       let h = od_header (of_difat fat); f = oh_fields h in
       bind_result (readChain (hf_firstDirectorySector f)
           (if oh_majorVersion h = 4 then Some (hf_directorySectorCount f) else None)
           (of_fatEntries fat) []) (\<lambda>directory.
       bind_result (readChain (hf_firstMiniFatSector f) (Some (hf_miniFatSectorCount f))
           (of_fatEntries fat) directory) (\<lambda>miniFat.
         Inr \<lparr>oc_fat = fat, oc_directorySectorLocations = directory,
               oc_miniFatSectorLocations = miniFat\<rparr>)))"

section \<open>Mini FAT entries\<close>

definition isValidMiniFatEntry :: "nat \<Rightarrow> nat \<Rightarrow> bool" where
  "isValidMiniFatEntry value entryCapacity \<longleftrightarrow>
     (value \<le> MAXREGSECT \<and> value < entryCapacity) \<or> value = ENDOFCHAIN \<or> value = FREESECT"

definition mini_entry_step ::
  "bytes \<Rightarrow> nat \<Rightarrow> nat \<Rightarrow> nat list \<Rightarrow> nat \<Rightarrow> nat list result" where
  "mini_entry_step bs entryCapacity sectorOffset entries index =
     bind_result (getUint32 bs (sectorOffset + index * 4)) (\<lambda>value.
       if isValidMiniFatEntry value entryCapacity then Inr (entries @ [value])
       else code_error ''OFFICIAL_CALENDAR_OLE_MINI_FAT_ENTRIES_INVALID_ENTRY'')"

definition mini_sector_step ::
  "bytes \<Rightarrow> nat \<Rightarrow> nat \<Rightarrow> nat list \<Rightarrow> nat \<Rightarrow> nat list result" where
  "mini_sector_step bs sectorSize entryCapacity entries sector =
     fold_result (mini_entry_step bs entryCapacity (sectorByteOffset sector sectorSize)) entries
       [0..<sectorSize div 4]"

record OleMiniFat =
  om_chains :: OleSystemChains
  om_miniFatEntries :: "nat list"

definition verifyOleMiniFatEntries :: "bytes \<Rightarrow> OleMiniFat result" where
  "verifyOleMiniFatEntries bs =
     bind_result (verifyOleSystemChains bs) (\<lambda>c.
       let size = oh_sectorSize (od_header (of_difat (oc_fat c)));
           capacity = length (oc_miniFatSectorLocations c) * (size div 4)
       in bind_result (fold_result (mini_sector_step bs size capacity) [] (oc_miniFatSectorLocations c))
            (\<lambda>entries. Inr \<lparr>om_chains = c, om_miniFatEntries = entries\<rparr>))"

section \<open>Only coded errors\<close>

text \<open>A result whose error, if it is one, carries a code: no read was out of range.\<close>

definition coded :: "'a result \<Rightarrow> bool" where
  "coded r \<longleftrightarrow> (\<forall>m. r \<noteq> Inl (RangeError m))"

named_theorems coded_intros \<open>results whose errors carry a code\<close>

lemma coded_basic [simp, coded_intros]: "coded (Inr a)" "coded (code_error c)"
  by (simp_all add: coded_def code_error_def)

lemma coded_bind [coded_intros]:
  "coded r \<Longrightarrow> (\<And>a. r = Inr a \<Longrightarrow> coded (f a)) \<Longrightarrow> coded (bind_result r f)"
  by (cases r) (auto simp: coded_def)

lemma coded_fold:
  assumes "P s" and "\<And>s i. P s \<Longrightarrow> i \<in> set is \<Longrightarrow> coded (step s i)"
    and "\<And>s i s'. P s \<Longrightarrow> i \<in> set is \<Longrightarrow> step s i = Inr s' \<Longrightarrow> P s'"
  shows "coded (fold_result step s is)"
  using assms
proof (induction "is" arbitrary: s)
  case (Cons i "is")
  have "coded (step s i)" using Cons.prems(1,2) by simp
  moreover have "coded (fold_result step s1 is)" if "step s i = Inr s1" for s1
  proof (rule Cons.IH)
    show "P s1" using Cons.prems(3) [OF Cons.prems(1) _ that] by simp
    show "coded (step s i)" if "P s" "i \<in> set is" for s i
      using Cons.prems(2) [of s i] that by simp
    show "P s'" if "P s" "i \<in> set is" "step s i = Inr s'" for s i s'
      using Cons.prems(3) [of s i s'] that by simp
  qed
  ultimately show ?case by (simp add: coded_bind)
qed simp

lemma fold_result_inv:
  assumes "fold_result step s is = Inr s'" and "P s"
    and "\<And>s i s'. P s \<Longrightarrow> i \<in> set is \<Longrightarrow> step s i = Inr s' \<Longrightarrow> P s'"
  shows "P s'"
  using assms
proof (induction "is" arbitrary: s)
  case (Cons i "is")
  from Cons.prems(1) obtain s1 where s1: "step s i = Inr s1" "fold_result step s1 is = Inr s'"
    by (auto simp: bind_result_Inr)
  show ?case
  proof (rule Cons.IH [OF s1(2)])
    show "P s1" using Cons.prems(3) [OF Cons.prems(2) _ s1(1)] by simp
    show "P s'" if "P s" "i \<in> set is" "step s i = Inr s'" for s i s'
      using Cons.prems(3) [of s i s'] that by simp
  qed
qed simp

lemma code_error_Inr [simp]: "code_error c \<noteq> Inr a" "layout_error \<noteq> Inr a" "difat_chain_error \<noteq> Inr a"
  by (simp_all add: code_error_def layout_error_def difat_chain_error_def)

lemma coded_errors [simp, coded_intros]: "coded layout_error" "coded difat_chain_error"
  by (simp_all add: layout_error_def difat_chain_error_def)

section \<open>The verified header\<close>

lemma header_fields_in_range: "512 \<le> length bs \<Longrightarrow> \<exists>f. header_fields bs = Inr f"
  by (simp add: header_fields_def)

text \<open>What the layout of a file is: so many sectors of one of two sizes after the header sector.\<close>

definition sector_layout :: "bytes \<Rightarrow> OleHeader \<Rightarrow> bool" where
  "sector_layout bs h \<longleftrightarrow> oh_sectorSize h \<in> {512, 4096} \<and>
     length bs = (oh_fileSectorCount h + 1) * oh_sectorSize h"

lemma verified_header:
  assumes "verifyOleHeader bs = Inr h"
  shows "sector_layout bs h" and "512 \<le> length bs"
    and "oh_majorVersion h \<in> {3, 4}" and "oh_majorVersion h = hf_majorVersion (oh_fields h)"
    and "\<not> layout_invalid (oh_fields h) (oh_sectorSize h) (oh_fileSectorCount h)"
    and "1 \<le> hf_fatSectorCount (oh_fields h)"
proof -
  obtain f where f: "\<not> length bs < 512" "\<not> fields_invalid bs f"
    "\<not> (length bs mod 2 ^ hf_sectorShift f \<noteq> 0 \<or> length bs < 2 ^ hf_sectorShift f * 2)"
    "\<not> layout_invalid f (2 ^ hf_sectorShift f) (length bs div 2 ^ hf_sectorShift f - 1)"
    "h = \<lparr>oh_majorVersion = hf_majorVersion f, oh_sectorSize = 2 ^ hf_sectorShift f,
          oh_fileSectorCount = length bs div 2 ^ hf_sectorShift f - 1, oh_fields = f\<rparr>"
    using assms by (auto simp: verifyOleHeader_def bind_result_Inr Let_def split: if_splits)
  have shift: "hf_sectorShift f \<in> {9, 12}" using f(2) by (auto simp: fields_invalid_def split: if_splits)
  have dvd: "length bs div 2 ^ hf_sectorShift f * 2 ^ hf_sectorShift f = length bs"
    using f(3) by (auto simp: mod_eq_0_iff_dvd)
  have "0 < length bs div 2 ^ hf_sectorShift f" using f(3) by (simp add: div_greater_zero_iff)
  with shift dvd show "sector_layout bs h" by (auto simp: sector_layout_def f(5))
  show "512 \<le> length bs" using f(1) by simp
  show "oh_majorVersion h \<in> {3, 4}" "1 \<le> hf_fatSectorCount (oh_fields h)"
    using f(2) by (auto simp: f(5) fields_invalid_def)
  show "oh_majorVersion h = hf_majorVersion (oh_fields h)"
    "\<not> layout_invalid (oh_fields h) (oh_sectorSize h) (oh_fileSectorCount h)"
    using f(4) by (simp_all add: f(5))
qed

lemma sector_read:
  assumes "sector_layout bs h" and "s < oh_fileSectorCount h" and "k < oh_sectorSize h div 4"
  shows "sectorByteOffset s (oh_sectorSize h) + k * 4 + 4 \<le> length bs"
proof -
  have "k * 4 + 4 \<le> oh_sectorSize h" using assms(3) by linarith
  moreover have "(s + 2) * oh_sectorSize h \<le> (oh_fileSectorCount h + 1) * oh_sectorSize h"
    using assms(2) by (intro mult_le_mono1) simp
  ultimately show ?thesis
    using assms(1) by (simp add: sectorByteOffset_def sector_layout_def algebra_simps)
qed

lemma coded_header: "coded (verifyOleHeader bs)"
proof -
  have "coded (header_difat_loop bs n m seen is)" if "512 \<le> length bs" "\<forall>i \<in> set is. i < 109" for n m seen "is"
    using that(2)
  proof (induction "is" arbitrary: seen)
    case (Cons i "is")
    with that(1) show ?case by simp
  qed simp
  then have "coded (verifyHeaderDifat bs n m)" if "512 \<le> length bs" for n m
    using that by (simp add: verifyHeaderDifat_def HEADER_DIFAT_ENTRY_COUNT_def)
  moreover have "coded (header_fields bs)" if "512 \<le> length bs"
    using header_fields_in_range [OF that] by auto
  ultimately show ?thesis
    by (auto simp: verifyOleHeader_def Let_def intro!: coded_bind)
qed

end
