(* ===== verification/OleDirectory.thy ===== *)
theory OleDirectory
  imports OleCompound
begin

text \<open>
  The directory of an OLE compound file
  (\<open>src/replay/officialMarketCalendarOleCompoundFileDirectoryEntries.ts\<close> and
  \<open>\<dots>DirectoryTree.ts\<close>): the entries of the directory sectors, and the check that they form a
  hierarchy of search trees.  A name is the list of its UTF-16 code units.  The set of owned
  stream ids is a list, the stacks of the two loops have their top first.
\<close>

unbundle bit_operations_syntax

section \<open>Entries\<close>

definition NOSTREAM :: nat where "NOSTREAM = 0xffffffff"
definition MAXREGSID :: nat where "MAXREGSID = 0xfffffffa"
definition DIRECTORY_ENTRY_SIZE :: nat where "DIRECTORY_ENTRY_SIZE = 128"

type_synonym units = "nat list"

definition code_units :: "string \<Rightarrow> units" where
  "code_units s = map of_char s"

definition ROOT_ENTRY_NAME :: units where
  "ROOT_ENTRY_NAME = code_units ''Root Entry''"

datatype OleObjectType = Unallocated | Storage | Stream | Root
datatype OleColor = Red | Black

record OleEntry =
  de_streamId :: nat
  de_name :: "units option"
  de_objectType :: OleObjectType
  de_color :: "OleColor option"
  de_leftSiblingId :: "nat option"
  de_rightSiblingId :: "nat option"
  de_childId :: "nat option"
  de_startingSector :: nat
  de_streamSize :: string

definition invalidEntry :: "'a result" where
  "invalidEntry = code_error ''OFFICIAL_CALENDAR_OLE_DIRECTORY_ENTRIES_INVALID_ENTRY''"

definition invalidName :: "'a result" where
  "invalidName = code_error ''OFFICIAL_CALENDAR_OLE_DIRECTORY_ENTRIES_INVALID_NAME''"

definition invalidRoot :: "'a result" where
  "invalidRoot = code_error ''OFFICIAL_CALENDAR_OLE_DIRECTORY_ENTRIES_INVALID_ROOT''"

text \<open>\<open>b || r\<close> and \<open>b && r\<close>, where \<open>r\<close> may throw.\<close>

definition or_result :: "bool \<Rightarrow> bool result \<Rightarrow> bool result" where
  "or_result b r = (if b then Inr True else r)"

definition and_result :: "bool \<Rightarrow> bool result \<Rightarrow> bool result" where
  "and_result b r = (if b then r else Inr False)"

definition nonzero_bytes_step :: "bytes \<Rightarrow> nat \<Rightarrow> bool \<Rightarrow> nat \<Rightarrow> bool result" where
  "nonzero_bytes_step bs offset found index =
     (if found then Inr True
      else bind_result (getUint8 bs (offset + index)) (\<lambda>b. Inr (b \<noteq> 0)))"

definition nonzero_bytes :: "bytes \<Rightarrow> nat \<Rightarrow> nat \<Rightarrow> bool result" where
  "nonzero_bytes bs offset len = fold_result (nonzero_bytes_step bs offset) False [0..<len]"

definition unallocated_step :: "bytes \<Rightarrow> nat \<Rightarrow> unit \<Rightarrow> nat \<Rightarrow> unit result" where
  "unallocated_step bs offset u index =
     bind_result (getUint8 bs (offset + index)) (\<lambda>b.
       if b \<noteq> (if 68 \<le> index \<and> index < 80 then 0xff else 0) then invalidEntry else Inr ())"

definition verifyUnallocatedEntry :: "bytes \<Rightarrow> nat \<Rightarrow> unit result" where
  "verifyUnallocatedEntry bs offset =
     fold_result (unallocated_step bs offset) () [0..<DIRECTORY_ENTRY_SIZE]"

definition readObjectType :: "nat \<Rightarrow> nat \<Rightarrow> OleObjectType result" where
  "readObjectType v streamId =
     (if v = 1 then Inr Storage else if v = 2 then Inr Stream
      else if v = 5 \<and> streamId = 0 then Inr Root else invalidEntry)"

text \<open>\<open>String.fromCodePoint\<close>: the code units of a code point.\<close>

definition fromCodePoint :: "nat \<Rightarrow> units" where
  "fromCodePoint cp =
     (if cp < 0x10000 then [cp]
      else [0xd800 + (cp - 0x10000) div 1024, 0xdc00 + (cp - 0x10000) mod 1024])"

fun decode_name :: "units \<Rightarrow> units result" where
  "decode_name [] = Inr []"
| "decode_name (first # rest) =
     (if 0xd800 \<le> first \<and> first \<le> 0xdbff then
        (case rest of [] \<Rightarrow> invalidName
         | second # rest' \<Rightarrow>
             if second < 0xdc00 \<or> 0xdfff < second then invalidName
             else bind_result (decode_name rest') (\<lambda>name.
               Inr (fromCodePoint (0x10000 + push_bit 10 (first - 0xd800) + (second - 0xdc00)) @ name)))
      else if 0xdc00 \<le> first \<and> first \<le> 0xdfff then invalidName
      else bind_result (decode_name rest) (\<lambda>name. Inr (fromCodePoint first @ name)))"

definition code_unit_step :: "bytes \<Rightarrow> nat \<Rightarrow> units \<Rightarrow> nat \<Rightarrow> units result" where
  "code_unit_step bs offset units index =
     bind_result (getUint16 bs (offset + 2 * index)) (\<lambda>u. Inr (units @ [u]))"

definition readName :: "bytes \<Rightarrow> nat \<Rightarrow> units result" where
  "readName bs offset =
     bind_result (getUint16 bs (offset + 64)) (\<lambda>byteLength.
       if byteLength < 2 \<or> 64 < byteLength \<or> byteLength mod 2 \<noteq> 0 then invalidName
       else bind_result (fold_result (code_unit_step bs offset) [] [0..<byteLength div 2]) (\<lambda>units.
         if last units \<noteq> 0 \<or> 0 \<in> set (butlast units) then invalidName
         else bind_result (decode_name (butlast units)) (\<lambda>name.
           if name = [] \<or> list_ex (\<lambda>u. u \<in> set (code_units [CHR 0x5C, CHR ''/'', CHR '':'', CHR ''!'']))
                name
           then invalidName else Inr name)))"

definition readPointer :: "bytes \<Rightarrow> nat \<Rightarrow> nat \<Rightarrow> nat option result" where
  "readPointer bs offset entryCount =
     bind_result (getUint32 bs offset) (\<lambda>value.
       if value = NOSTREAM then Inr None
       else if MAXREGSID < value \<or> entryCount \<le> value
       then code_error ''OFFICIAL_CALENDAR_OLE_DIRECTORY_ENTRIES_INVALID_POINTER''
       else Inr (Some value))"

definition unallocated_entry :: "nat \<Rightarrow> OleEntry" where
  "unallocated_entry streamId =
     \<lparr>de_streamId = streamId, de_name = None, de_objectType = Unallocated, de_color = None,
      de_leftSiblingId = None, de_rightSiblingId = None, de_childId = None, de_startingSector = 0,
      de_streamSize = ''0''\<rparr>"

text \<open>The checks of the fields of an allocated entry that do not read its name or its pointers.\<close>

definition root_checks ::
  "bytes \<Rightarrow> nat \<Rightarrow> nat \<Rightarrow> OleObjectType \<Rightarrow> units \<Rightarrow> nat option \<Rightarrow> nat option \<Rightarrow> unit result" where
  "root_checks bs offset streamId objectType name left right =
     (if objectType = Root then
        bind_result (or_result (streamId \<noteq> 0 \<or> name \<noteq> ROOT_ENTRY_NAME \<or> left \<noteq> None \<or> right \<noteq> None)
            (nonzero_bytes bs (offset + 100) 8))
          (\<lambda>bad. if bad then invalidRoot else Inr ())
      else if streamId = 0 then invalidRoot else Inr ())"

definition stream_checks :: "bytes \<Rightarrow> nat \<Rightarrow> OleObjectType \<Rightarrow> nat option \<Rightarrow> bool result" where
  "stream_checks bs offset objectType child =
     and_result (objectType = Stream)
       (or_result (child \<noteq> None)
         (bind_result (nonzero_bytes bs (offset + 80) 16) (\<lambda>clsid.
           or_result clsid (nonzero_bytes bs (offset + 100) 16))))"

definition entry_stream_size :: "OleObjectType \<Rightarrow> nat \<Rightarrow> nat \<Rightarrow> nat \<Rightarrow> string" where
  "entry_stream_size objectType majorVersion low high =
     (if objectType = Storage then ''0''
      else if majorVersion = 3 then nat_str low
      else nat_str (push_bit 32 high OR low))"

definition readEntry :: "bytes \<Rightarrow> nat \<Rightarrow> nat \<Rightarrow> nat \<Rightarrow> nat \<Rightarrow> OleEntry result" where
  "readEntry bs offset streamId entryCount majorVersion =
     bind_result (getUint8 bs (offset + 66)) (\<lambda>objectTypeValue.
       if objectTypeValue = 0 then
         bind_result (verifyUnallocatedEntry bs offset) (\<lambda>_. Inr (unallocated_entry streamId))
       else
         bind_result (readObjectType objectTypeValue streamId) (\<lambda>objectType.
         bind_result (readName bs offset) (\<lambda>name.
         bind_result (getUint8 bs (offset + 67)) (\<lambda>colorValue.
           if colorValue \<noteq> 0 \<and> colorValue \<noteq> 1 then invalidEntry
           else
             bind_result (readPointer bs (offset + 68) entryCount) (\<lambda>left.
             bind_result (readPointer bs (offset + 72) entryCount) (\<lambda>right.
             bind_result (readPointer bs (offset + 76) entryCount) (\<lambda>child.
             bind_result (getUint32 bs (offset + 116)) (\<lambda>start.
             bind_result (getUint32 bs (offset + 120)) (\<lambda>low.
             bind_result (getUint32 bs (offset + 124)) (\<lambda>high.
             bind_result (root_checks bs offset streamId objectType name left right) (\<lambda>_.
             bind_result (stream_checks bs offset objectType child) (\<lambda>bad.
               if bad \<or> (objectType = Storage \<and> (start \<noteq> 0 \<or> low \<noteq> 0 \<or> high \<noteq> 0)) \<or>
                  (objectType \<noteq> Storage \<and> majorVersion = 3 \<and> 0x80000000 < low)
               then invalidEntry
               else Inr \<lparr>de_streamId = streamId, de_name = Some name, de_objectType = objectType,
                          de_color = Some (if colorValue = 0 then Red else Black),
                          de_leftSiblingId = left, de_rightSiblingId = right, de_childId = child,
                          de_startingSector = start,
                          de_streamSize = entry_stream_size objectType majorVersion low high\<rparr>))))))))))))"

definition entry_step ::
  "bytes \<Rightarrow> nat \<Rightarrow> nat \<Rightarrow> nat \<Rightarrow> nat \<Rightarrow> nat \<Rightarrow> OleEntry list \<Rightarrow> nat \<Rightarrow> OleEntry list result" where
  "entry_step bs entriesPerSector entryCount majorVersion chainIndex sectorOffset entries index =
     bind_result (readEntry bs (sectorOffset + index * DIRECTORY_ENTRY_SIZE)
         (chainIndex * entriesPerSector + index) entryCount majorVersion)
       (\<lambda>e. Inr (entries @ [e]))"

definition directory_sector_step ::
  "bytes \<Rightarrow> nat \<Rightarrow> nat \<Rightarrow> nat \<Rightarrow> OleEntry list \<Rightarrow> nat \<times> nat \<Rightarrow> OleEntry list result" where
  "directory_sector_step bs sectorSize entryCount majorVersion entries = (\<lambda>(chainIndex, sector).
     fold_result (entry_step bs (sectorSize div DIRECTORY_ENTRY_SIZE) entryCount majorVersion
         chainIndex (sectorByteOffset sector sectorSize))
       entries [0..<sectorSize div DIRECTORY_ENTRY_SIZE])"

record OleDirectory =
  oe_chains :: OleSystemChains
  oe_entries :: "OleEntry list"

definition verifyOleDirectoryEntries :: "bytes \<Rightarrow> OleDirectory result" where
  "verifyOleDirectoryEntries bs =
     bind_result (verifyOleSystemChains bs) (\<lambda>c.
       let h = od_header (of_difat (oc_fat c)); size = oh_sectorSize h;
           count = length (oc_directorySectorLocations c) * (size div DIRECTORY_ENTRY_SIZE)
       in
       bind_result (fold_result (directory_sector_step bs size count (oh_majorVersion h)) []
           (enumerate 0 (oc_directorySectorLocations c))) (\<lambda>entries.
         case entries of [] \<Rightarrow> invalidRoot
         | first # _ \<Rightarrow>
             if de_objectType first \<noteq> Root \<or> de_name first \<noteq> Some ROOT_ENTRY_NAME then invalidRoot
             else Inr \<lparr>oe_chains = c, oe_entries = entries\<rparr>))"

section \<open>The hierarchy\<close>

text \<open>The table of simple uppercase mappings is an argument: pairs of code units, by the first.\<close>

type_synonym case_table = "(nat \<times> nat) list"

function upper_search :: "case_table \<Rightarrow> nat \<Rightarrow> int \<Rightarrow> int \<Rightarrow> nat" where
  "upper_search table codeUnit lower upper =
     (if lower \<le> upper then
        let middle = lower + (upper - lower) div 2;
            source = fst (table ! nat middle)
        in if source = codeUnit then snd (table ! nat middle)
           else if source < codeUnit then upper_search table codeUnit (middle + 1) upper
           else upper_search table codeUnit lower (middle - 1)
      else codeUnit)"
  by pat_completeness auto

termination
  by (relation "measure (\<lambda>(table, codeUnit, lower, upper). nat (upper - lower + 1))") auto

declare upper_search.simps [simp del]

definition simpleUppercase :: "case_table \<Rightarrow> nat \<Rightarrow> nat result" where
  "simpleUppercase table codeUnit =
     (if 0xffff < codeUnit
      then Inl (RangeError ''Official calendar OLE UTF-16 code unit is invalid.'')
      else if 0xd800 \<le> codeUnit \<and> codeUnit \<le> 0xdfff then Inr codeUnit
      else Inr (upper_search table codeUnit 0 (int (length table) - 1)))"

fun compare_units :: "case_table \<Rightarrow> units \<Rightarrow> units \<Rightarrow> int result" where
  "compare_units table (l # ls) (r # rs) =
     bind_result (simpleUppercase table l) (\<lambda>left. bind_result (simpleUppercase table r) (\<lambda>right.
       if left \<noteq> right then Inr (if left < right then -1 else 1)
       else compare_units table ls rs))"
| "compare_units table _ _ = Inr 0"

definition compareDirectoryNames :: "case_table \<Rightarrow> units \<Rightarrow> units \<Rightarrow> int result" where
  "compareDirectoryNames table left right =
     (if length left \<noteq> length right then Inr (if length left < length right then -1 else 1)
      else compare_units table left right)"

definition invalidNode :: "'a result" where
  "invalidNode = code_error ''OFFICIAL_CALENDAR_OLE_DIRECTORY_TREE_INVALID_NODE''"

definition readTreeNode :: "OleEntry list \<Rightarrow> nat \<Rightarrow> OleEntry result" where
  "readTreeNode entries streamId =
     (if length entries \<le> streamId then invalidNode
      else
        let e = entries ! streamId in
        if de_streamId e \<noteq> streamId \<or> de_objectType e = Unallocated \<or> de_objectType e = Root \<or>
           de_name e = None \<or> de_color e = None
        then invalidNode else Inr e)"

record PendingNode =
  pn_streamId :: nat
  pn_lowerName :: "units option"
  pn_upperName :: "units option"
  pn_parentColor :: "OleColor option"

text \<open>Whether the name is outside of the bounds its ancestors set.\<close>

definition beyond :: "(int \<Rightarrow> bool) \<Rightarrow> case_table \<Rightarrow> units \<Rightarrow> units option \<Rightarrow> bool result" where
  "beyond bad table name bound =
     (case bound of None \<Rightarrow> Inr False
      | Some b \<Rightarrow> bind_result (compareDirectoryNames table name b) (\<lambda>c. Inr (bad c)))"

definition out_of_order :: "case_table \<Rightarrow> units \<Rightarrow> PendingNode \<Rightarrow> bool result" where
  "out_of_order table name n =
     bind_result (beyond (\<lambda>c. c \<le> 0) table name (pn_lowerName n)) (\<lambda>low.
       or_result low (beyond (\<lambda>c. 0 \<le> c) table name (pn_upperName n)))"

definition sibling_nodes :: "OleEntry \<Rightarrow> units \<Rightarrow> PendingNode \<Rightarrow> PendingNode list" where
  "sibling_nodes e name n =
     (case de_leftSiblingId e of None \<Rightarrow> []
      | Some i \<Rightarrow> [\<lparr>pn_streamId = i, pn_lowerName = pn_lowerName n, pn_upperName = Some name,
                   pn_parentColor = de_color e\<rparr>]) @
     (case de_rightSiblingId e of None \<Rightarrow> []
      | Some i \<Rightarrow> [\<lparr>pn_streamId = i, pn_lowerName = Some name, pn_upperName = pn_upperName n,
                   pn_parentColor = de_color e\<rparr>])"

definition tree_color_error :: "'a result" where
  "tree_color_error = code_error ''OFFICIAL_CALENDAR_OLE_DIRECTORY_TREE_INVALID_COLOR''"

text \<open>The body of the loop over the siblings, up to the pushes.\<close>

definition visit_node ::
  "case_table \<Rightarrow> OleEntry list \<Rightarrow> nat list \<Rightarrow> PendingNode \<Rightarrow> (OleEntry \<times> units) result" where
  "visit_node table entries owned n =
     bind_result (readTreeNode entries (pn_streamId n)) (\<lambda>e.
       if de_streamId e \<in> set owned
       then code_error ''OFFICIAL_CALENDAR_OLE_DIRECTORY_TREE_INVALID_OWNERSHIP''
       else case de_name e of None \<Rightarrow> invalidNode
       | Some name \<Rightarrow>
           bind_result (out_of_order table name n) (\<lambda>bad.
             if bad then code_error ''OFFICIAL_CALENDAR_OLE_DIRECTORY_TREE_INVALID_ORDER''
             else if pn_parentColor n = Some Red \<and> de_color e = Some Red then tree_color_error
             else Inr (e, name)))"

definition storage_children :: "OleEntry \<Rightarrow> nat list" where
  "storage_children e =
     (if de_objectType e = Storage then (case de_childId e of None \<Rightarrow> [] | Some c \<Rightarrow> [c]) else [])"

lemma visit_node_owned:
  assumes "visit_node table entries owned n = Inr (e, name)"
  shows "de_streamId e = pn_streamId n" and "pn_streamId n < length entries"
    and "entries ! pn_streamId n = e" and "pn_streamId n \<notin> set owned"
    and "de_name e = Some name" and "de_objectType e \<in> {Storage, Stream}"
  using assms
  by (cases "de_objectType e"; auto simp: visit_node_def readTreeNode_def bind_result_Inr Let_def invalidNode_def
      tree_color_error_def code_error_def split: if_splits option.splits)+

function sibling_loop ::
  "case_table \<Rightarrow> OleEntry list \<Rightarrow> nat list \<Rightarrow> nat list \<Rightarrow> PendingNode list \<Rightarrow> (nat list \<times> nat list) result"
where
  "sibling_loop table entries owned trees [] = Inr (owned, trees)"
| "sibling_loop table entries owned trees (n # pending) =
     (case visit_node table entries owned n of
        Inl x \<Rightarrow> Inl x
      | Inr (e, name) \<Rightarrow>
          sibling_loop table entries (owned @ [pn_streamId n]) (storage_children e @ trees)
            (sibling_nodes e name n @ pending))"
  by pat_completeness auto

termination
proof (relation "measure (\<lambda>(table, entries, owned, trees, pending).
    card ({..<length entries} - set owned))")
  fix table entries owned trees n pending x e name
  assume "visit_node table entries owned n = Inr x" "(e, name) = x"
  then have "pn_streamId n < length entries" "pn_streamId n \<notin> set owned"
    using visit_node_owned by auto
  then have "{..<length entries} - set (owned @ [pn_streamId n]) \<subset> {..<length entries} - set owned"
    by auto
  then show "((table, entries, owned @ [pn_streamId n], storage_children e @ trees,
      sibling_nodes e name n @ pending), table, entries, owned, trees, n # pending) \<in>
      measure (\<lambda>(table, entries, owned, trees, pending). card ({..<length entries} - set owned))"
    by (simp add: psubset_card_mono)
qed simp

definition verifyChildTree ::
  "case_table \<Rightarrow> OleEntry list \<Rightarrow> nat list \<Rightarrow> nat list \<Rightarrow> nat \<Rightarrow> (nat list \<times> nat list) result" where
  "verifyChildTree table entries owned trees rootStreamId =
     bind_result (readTreeNode entries rootStreamId) (\<lambda>treeRoot.
       if de_color treeRoot \<noteq> Some Black then tree_color_error
       else sibling_loop table entries owned trees
              [\<lparr>pn_streamId = de_streamId treeRoot, pn_lowerName = None, pn_upperName = None,
                pn_parentColor = None\<rparr>])"

lemma sibling_loop_owned:
  assumes "sibling_loop table entries owned trees pending = Inr (owned', trees')"
  shows "set owned \<subseteq> set owned'" and "set owned' \<subseteq> set owned \<union> {..<length entries}"
    and "pn_streamId ` set pending \<subseteq> set owned' - set owned"
    and "distinct owned \<Longrightarrow> distinct owned'"
proof -
  have "set owned \<subseteq> set owned' \<and> set owned' \<subseteq> set owned \<union> {..<length entries} \<and>
      pn_streamId ` set pending \<subseteq> set owned' - set owned \<and> (distinct owned \<longrightarrow> distinct owned')"
    using assms
  proof (induction table entries owned trees pending rule: sibling_loop.induct)
    case (2 table entries owned trees n pending)
    then obtain e name where v: "visit_node table entries owned n = Inr (e, name)"
      and l: "sibling_loop table entries (owned @ [pn_streamId n]) (storage_children e @ trees)
        (sibling_nodes e name n @ pending) = Inr (owned', trees')"
      by (auto split: sum.splits prod.splits)
    from "2.IH" [OF v refl l] visit_node_owned(2,4) [OF v] show ?case by auto
  qed simp
  then show "set owned \<subseteq> set owned'" "set owned' \<subseteq> set owned \<union> {..<length entries}"
    "pn_streamId ` set pending \<subseteq> set owned' - set owned" "distinct owned \<Longrightarrow> distinct owned'"
    by auto
qed

lemma verifyChildTree_owned:
  assumes "verifyChildTree table entries owned trees r = Inr (owned', trees')"
  shows "set owned \<subset> set owned'" and "set owned' \<subseteq> set owned \<union> {..<length entries}"
proof -
  obtain e where e: "readTreeNode entries r = Inr e"
    and l: "sibling_loop table entries owned trees
      [\<lparr>pn_streamId = de_streamId e, pn_lowerName = None, pn_upperName = None, pn_parentColor = None\<rparr>] =
      Inr (owned', trees')"
    using assms by (auto simp: verifyChildTree_def bind_result_Inr tree_color_error_def split: if_splits)
  from sibling_loop_owned [OF l] show "set owned \<subset> set owned'"
    "set owned' \<subseteq> set owned \<union> {..<length entries}" by auto
qed

function tree_loop ::
  "case_table \<Rightarrow> OleEntry list \<Rightarrow> nat list \<Rightarrow> nat list \<Rightarrow> nat list result" where
  "tree_loop table entries owned [] = Inr owned"
| "tree_loop table entries owned (r # trees) =
     (case verifyChildTree table entries owned trees r of
        Inl x \<Rightarrow> Inl x
      | Inr (owned', trees') \<Rightarrow> tree_loop table entries owned' trees')"
  by pat_completeness auto

termination
proof (relation "measure (\<lambda>(table, entries, owned, trees). card ({..<length entries} - set owned))")
  fix table entries owned r trees x owned' trees'
  assume "verifyChildTree table entries owned trees r = Inr x" "(owned', trees') = x"
  then have v: "verifyChildTree table entries owned trees r = Inr (owned', trees')" by simp
  from verifyChildTree_owned [OF v]
  have "{..<length entries} - set owned' \<subset> {..<length entries} - set owned" by auto
  then show "((table, entries, owned', trees'), table, entries, owned, r # trees) \<in>
      measure (\<lambda>(table, entries, owned, trees). card ({..<length entries} - set owned))"
    by (simp add: psubset_card_mono)
qed simp

definition verifyOleDirectoryTree :: "case_table \<Rightarrow> bytes \<Rightarrow> OleDirectory result" where
  "verifyOleDirectoryTree table bs =
     bind_result (verifyOleDirectoryEntries bs) (\<lambda>d.
       case oe_entries d of [] \<Rightarrow> invalidNode
       | root_entry # _ \<Rightarrow>
           if de_objectType root_entry \<noteq> Root then invalidNode
           else
             bind_result (tree_loop table (oe_entries d) [de_streamId root_entry]
                 (case de_childId root_entry of None \<Rightarrow> [] | Some c \<Rightarrow> [c])) (\<lambda>owned.
               if list_ex (\<lambda>e. de_objectType e \<noteq> Unallocated \<and> de_streamId e \<notin> set owned)
                    (oe_entries d)
               then code_error ''OFFICIAL_CALENDAR_OLE_DIRECTORY_TREE_UNREACHABLE_ENTRY''
               else Inr d))"

end
