(* ===== verification/OleStreams.thy ===== *)
theory OleStreams
  imports OleDirectory
begin

text \<open>
  The streams of an OLE compound file
  (\<open>src/replay/officialMarketCalendarOleCompoundFile{RootMiniStream,UserStreamAllocation,UserStreamBytes}.ts\<close>):
  the sectors of the root mini stream and of every user stream, and the bytes of a stream.
  \<open>BigInt(text)\<close> of the decimal size of an entry is the number it denotes.
\<close>

section \<open>Root mini stream\<close>

definition MINI_SECTOR_SIZE :: nat where "MINI_SECTOR_SIZE = 64"
definition MAX_MINI_STREAM_SIZE :: nat where "MAX_MINI_STREAM_SIZE = MAXREGSECT * MINI_SECTOR_SIZE"

definition divideRoundUp :: "nat \<Rightarrow> nat \<Rightarrow> nat" where
  "divideRoundUp value divisor = (value + divisor - 1) div divisor"

definition miniFatCapacityError :: "'a result" where
  "miniFatCapacityError = code_error ''OFFICIAL_CALENDAR_OLE_ROOT_MINI_STREAM_MINI_FAT_CAPACITY''"

definition capacity_violated :: "nat \<Rightarrow> nat list \<Rightarrow> nat \<Rightarrow> bool" where
  "capacity_violated rootMiniSectorCount entries index \<longleftrightarrow>
     (rootMiniSectorCount \<le> index \<and> entries ! index \<noteq> FREESECT) \<or>
     (entries ! index \<le> MAXREGSECT \<and> rootMiniSectorCount \<le> entries ! index)"

definition verifyMiniFatCapacity :: "nat list \<Rightarrow> nat \<Rightarrow> unit result" where
  "verifyMiniFatCapacity entries rootMiniSectorCount =
     (if length entries < rootMiniSectorCount then miniFatCapacityError
      else if list_ex (capacity_violated rootMiniSectorCount entries) [0..<length entries]
      then miniFatCapacityError else Inr ())"

definition root_length_mismatch :: "'a result" where
  "root_length_mismatch = code_error ''OFFICIAL_CALENDAR_OLE_ROOT_MINI_STREAM_LENGTH_MISMATCH''"

definition readRootChain :: "nat \<Rightarrow> nat \<Rightarrow> nat list \<Rightarrow> nat list \<Rightarrow> nat list result" where
  "readRootChain firstSector expectedSectorCount fatEntries occupied =
     (if expectedSectorCount = 0 then
        (if firstSector \<noteq> ENDOFCHAIN then root_length_mismatch else Inr [])
      else
        bind_result (walk_chain ''OFFICIAL_CALENDAR_OLE_ROOT_MINI_STREAM_INVALID_CHAIN''
            ''OFFICIAL_CALENDAR_OLE_ROOT_MINI_STREAM_SECTOR_REUSE'' fatEntries (length fatEntries)
            occupied [] firstSector) (\<lambda>locations.
          if length locations \<noteq> expectedSectorCount then root_length_mismatch else Inr locations))"

record OleRootMiniStream =
  or_rootMiniStreamSize :: string
  or_rootMiniSectorCount :: nat
  or_rootMiniStreamSectorLocations :: "nat list"

definition system_sectors :: "OleFat \<Rightarrow> OleDirectory \<Rightarrow> OleMiniFat \<Rightarrow> nat list" where
  "system_sectors fat tree miniFat =
     od_fatSectorLocations (of_difat fat) @ od_difatSectorLocations (of_difat fat) @
     oc_directorySectorLocations (oe_chains tree) @ oc_miniFatSectorLocations (om_chains miniFat)"

definition verifyOleRootMiniStream :: "case_table \<Rightarrow> bytes \<Rightarrow> OleRootMiniStream result" where
  "verifyOleRootMiniStream table bs =
     bind_result (verifyOleDirectoryTree table bs) (\<lambda>tree.
     bind_result (verifyOleMiniFatEntries bs) (\<lambda>miniFat.
     bind_result (verifyOleFat bs) (\<lambda>fat.
       case oe_entries tree of
         [] \<Rightarrow> code_error ''OFFICIAL_CALENDAR_OLE_ROOT_MINI_STREAM_INVALID_CHAIN''
       | root_entry # _ \<Rightarrow>
           if de_objectType root_entry \<noteq> Root
           then code_error ''OFFICIAL_CALENDAR_OLE_ROOT_MINI_STREAM_INVALID_CHAIN''
           else
             let rootSize = str_nat (de_streamSize root_entry);
                 miniCount = divideRoundUp rootSize MINI_SECTOR_SIZE
             in if MAX_MINI_STREAM_SIZE < rootSize
             then code_error ''OFFICIAL_CALENDAR_OLE_ROOT_MINI_STREAM_INVALID_SIZE''
             else
               bind_result (verifyMiniFatCapacity (om_miniFatEntries miniFat) miniCount) (\<lambda>_.
               bind_result (readRootChain (de_startingSector root_entry)
                   (divideRoundUp rootSize (oh_sectorSize (od_header (of_difat fat))))
                   (of_fatEntries fat) (system_sectors fat tree miniFat)) (\<lambda>locations.
                 Inr \<lparr>or_rootMiniStreamSize = de_streamSize root_entry,
                      or_rootMiniSectorCount = miniCount,
                      or_rootMiniStreamSectorLocations = locations\<rparr>)))))"

section \<open>Allocation of the user streams\<close>

definition MINI_STREAM_CUTOFF :: nat where "MINI_STREAM_CUTOFF = 4096"

datatype OleAllocation = EmptyAllocation | MiniFatAllocation | FatAllocation

record OleUserStream =
  us_streamId :: nat
  us_name :: units
  us_streamSize :: string
  us_allocation :: OleAllocation
  us_sectorLocations :: "nat list"

definition invalidStart :: "'a result" where
  "invalidStart = code_error ''OFFICIAL_CALENDAR_OLE_USER_STREAM_INVALID_START''"

definition readUserChain :: "nat \<Rightarrow> nat \<Rightarrow> nat list \<Rightarrow> nat \<Rightarrow> nat list \<Rightarrow> nat list result" where
  "readUserChain firstSector minimumCount entries sectorLimit occupied =
     (if \<not> isSector firstSector sectorLimit then invalidStart
      else
        bind_result (walk_chain ''OFFICIAL_CALENDAR_OLE_USER_STREAM_INVALID_CHAIN''
            ''OFFICIAL_CALENDAR_OLE_USER_STREAM_SECTOR_REUSE'' entries sectorLimit occupied []
            firstSector) (\<lambda>locations.
          if length locations < minimumCount
          then code_error ''OFFICIAL_CALENDAR_OLE_USER_STREAM_INSUFFICIENT_CAPACITY''
          else Inr locations))"

definition freezeStream :: "OleEntry \<Rightarrow> units \<Rightarrow> OleAllocation \<Rightarrow> nat list \<Rightarrow> OleUserStream" where
  "freezeStream e name allocation locations =
     \<lparr>us_streamId = de_streamId e, us_name = name, us_streamSize = de_streamSize e,
      us_allocation = allocation, us_sectorLocations = locations\<rparr>"

text \<open>What the loop over the entries mutates: the two sets of occupied sectors, and the streams.\<close>

record AllocationState =
  as_fileSectors :: "nat list"
  as_miniSectors :: "nat list"
  as_streams :: "OleUserStream list"

definition verifyStream ::
  "nat \<Rightarrow> nat list \<Rightarrow> nat list \<Rightarrow> nat \<Rightarrow> AllocationState \<Rightarrow> OleEntry \<Rightarrow> AllocationState result" where
  "verifyStream sectorSize fatEntries miniFatEntries rootMiniSectorCount st e =
     (case de_name e of None \<Rightarrow> invalidStart
      | Some name \<Rightarrow>
          let size = str_nat (de_streamSize e) in
          if size = 0 then
            Inr (st\<lparr>as_streams := as_streams st @ [freezeStream e name EmptyAllocation []]\<rparr>)
          else if size < MINI_STREAM_CUTOFF then
            bind_result (readUserChain (de_startingSector e) (divideRoundUp size MINI_SECTOR_SIZE)
                miniFatEntries rootMiniSectorCount (as_miniSectors st)) (\<lambda>locations.
              Inr (st\<lparr>as_miniSectors := as_miniSectors st @ locations,
                      as_streams := as_streams st @ [freezeStream e name MiniFatAllocation locations]\<rparr>))
          else
            bind_result (readUserChain (de_startingSector e) (divideRoundUp size sectorSize)
                fatEntries (length fatEntries) (as_fileSectors st)) (\<lambda>locations.
              Inr (st\<lparr>as_fileSectors := as_fileSectors st @ locations,
                      as_streams := as_streams st @ [freezeStream e name FatAllocation locations]\<rparr>)))"

definition stream_step ::
  "nat \<Rightarrow> nat list \<Rightarrow> nat list \<Rightarrow> nat \<Rightarrow> AllocationState \<Rightarrow> OleEntry \<Rightarrow> AllocationState result" where
  "stream_step sectorSize fatEntries miniFatEntries rootMiniSectorCount st e =
     (if de_objectType e \<noteq> Stream then Inr st
      else verifyStream sectorSize fatEntries miniFatEntries rootMiniSectorCount st e)"

record OleAllocatedStreams =
  oa_sectorSize :: nat
  oa_streams :: "OleUserStream list"

definition verifyOleUserStreamAllocation ::
  "case_table \<Rightarrow> bytes \<Rightarrow> OleAllocatedStreams result" where
  "verifyOleUserStreamAllocation table bs =
     bind_result (verifyOleDirectoryTree table bs) (\<lambda>tree.
     bind_result (verifyOleRootMiniStream table bs) (\<lambda>rms.
     bind_result (verifyOleMiniFatEntries bs) (\<lambda>miniFat.
     bind_result (verifyOleFat bs) (\<lambda>fat.
       let size = oh_sectorSize (od_header (of_difat fat)) in
       bind_result (fold_result
           (stream_step size (of_fatEntries fat) (om_miniFatEntries miniFat)
             (or_rootMiniSectorCount rms))
           \<lparr>as_fileSectors = system_sectors fat tree miniFat @ or_rootMiniStreamSectorLocations rms,
            as_miniSectors = [], as_streams = []\<rparr> (oe_entries tree)) (\<lambda>st.
         if list_ex (\<lambda>i. om_miniFatEntries miniFat ! i \<noteq> FREESECT \<and> i \<notin> set (as_miniSectors st))
              [0..<or_rootMiniSectorCount rms]
         then code_error ''OFFICIAL_CALENDAR_OLE_USER_STREAM_UNOWNED_MINI_FAT_ENTRY''
         else Inr \<lparr>oa_sectorSize = size, oa_streams = as_streams st\<rparr>)))))"

section \<open>Bytes of the user streams\<close>

definition projectionError :: "'a result" where
  "projectionError = code_error ''OFFICIAL_CALENDAR_OLE_USER_STREAM_BYTES_INVALID_PROJECTION''"

definition MAX_SAFE_LENGTH :: nat where "MAX_SAFE_LENGTH = 2 ^ 53 - 1"

definition safeStreamSize :: "string \<Rightarrow> nat result" where
  "safeStreamSize value =
     (if MAX_SAFE_LENGTH < str_nat value then projectionError else Inr (str_nat value))"

definition miniSectorFileOffset :: "nat \<Rightarrow> nat \<Rightarrow> nat list \<Rightarrow> nat result" where
  "miniSectorFileOffset miniSectorLocation sectorSize rootLocations =
     (let logicalOffset = miniSectorLocation * 64; rootSectorIndex = logicalOffset div sectorSize
      in if length rootLocations \<le> rootSectorIndex then projectionError
         else Inr (sectorByteOffset (rootLocations ! rootSectorIndex) sectorSize +
                   logicalOffset mod sectorSize))"

text \<open>\<open>target.set(sourceRange, targetOffset)\<close>: throws when the range does not fit.\<close>

definition copyRange :: "bytes \<Rightarrow> nat \<Rightarrow> bytes \<Rightarrow> nat \<Rightarrow> nat \<Rightarrow> bytes result" where
  "copyRange source sourceOffset target targetOffset byteLength =
     (if MAX_SAFE_LENGTH < sourceOffset + byteLength \<or> length source < sourceOffset + byteLength \<or>
         length target < targetOffset + byteLength
      then projectionError
      else Inr (take targetOffset target @ take byteLength (drop sourceOffset source) @
                drop (targetOffset + byteLength) target))"

definition sourceOffsetOf :: "OleUserStream \<Rightarrow> nat \<Rightarrow> nat list \<Rightarrow> nat \<Rightarrow> nat result" where
  "sourceOffsetOf stream sectorSize rootLocations sector =
     (if us_allocation stream = MiniFatAllocation
      then miniSectorFileOffset sector sectorSize rootLocations
      else Inr (sectorByteOffset sector sectorSize))"

definition project_step ::
  "bytes \<Rightarrow> OleUserStream \<Rightarrow> nat \<Rightarrow> nat list \<Rightarrow> nat \<Rightarrow> bytes \<times> nat \<Rightarrow> nat \<Rightarrow> (bytes \<times> nat) result" where
  "project_step input stream sectorSize rootLocations streamSize = (\<lambda>(target, targetOffset) sector.
     if targetOffset = streamSize then Inr (target, targetOffset)
     else
       bind_result (sourceOffsetOf stream sectorSize rootLocations sector) (\<lambda>sourceOffset.
         let allocationByteLength =
               (if us_allocation stream = MiniFatAllocation then 64 else sectorSize);
             copyByteLength = min allocationByteLength (streamSize - targetOffset)
         in bind_result (copyRange input sourceOffset target targetOffset copyByteLength)
              (\<lambda>target'. Inr (target', targetOffset + copyByteLength))))"

text \<open>
  \<open>alloc n\<close> tells whether the allocation \<open>new Uint8Array(n)\<close> succeeds: the limit is the engine's.
  The stream is returned with its bytes.
\<close>

definition projectStream ::
  "(nat \<Rightarrow> bool) \<Rightarrow> bytes \<Rightarrow> nat \<Rightarrow> nat list \<Rightarrow> OleUserStream \<Rightarrow> (OleUserStream \<times> bytes) result" where
  "projectStream alloc input sectorSize rootLocations stream =
     bind_result (safeStreamSize (us_streamSize stream)) (\<lambda>streamSize.
       if \<not> alloc streamSize then projectionError
       else
         bind_result (fold_result (project_step input stream sectorSize rootLocations streamSize)
             (replicate streamSize 0, 0) (us_sectorLocations stream)) (\<lambda>(bytes, targetOffset).
           if targetOffset \<noteq> streamSize then projectionError else Inr (stream, bytes)))"

definition project_all_step ::
  "(nat \<Rightarrow> bool) \<Rightarrow> bytes \<Rightarrow> nat \<Rightarrow> nat list \<Rightarrow> (OleUserStream \<times> bytes) list \<Rightarrow> OleUserStream \<Rightarrow>
   (OleUserStream \<times> bytes) list result" where
  "project_all_step alloc input sectorSize rootLocations streams stream =
     bind_result (projectStream alloc input sectorSize rootLocations stream)
       (\<lambda>r. Inr (streams @ [r]))"

definition projectOleUserStreamBytes ::
  "(nat \<Rightarrow> bool) \<Rightarrow> case_table \<Rightarrow> bytes \<Rightarrow> (OleUserStream \<times> bytes) list result" where
  "projectOleUserStreamBytes alloc table input =
     bind_result (verifyOleUserStreamAllocation table input) (\<lambda>allocation.
     bind_result (verifyOleRootMiniStream table input) (\<lambda>rms.
       fold_result (project_all_step alloc input (oa_sectorSize allocation)
           (or_rootMiniStreamSectorLocations rms)) [] (oa_streams allocation)))"

definition projectOleUserStreamBytesByStreamId ::
  "(nat \<Rightarrow> bool) \<Rightarrow> case_table \<Rightarrow> bytes \<Rightarrow> jsnum \<Rightarrow> (OleUserStream \<times> bytes) result" where
  "projectOleUserStreamBytesByStreamId alloc table input streamId =
     (if \<not> is_integer streamId \<or> jlt (num (int MAX_SAFE_LENGTH)) (jabs streamId) \<or>
         jlt streamId (Fin 1)
      then projectionError
      else
        bind_result (verifyOleUserStreamAllocation table input) (\<lambda>allocation.
          case find (\<lambda>s. num (int (us_streamId s)) = streamId) (oa_streams allocation) of
            None \<Rightarrow> projectionError
          | Some stream \<Rightarrow>
              bind_result (verifyOleRootMiniStream table input) (\<lambda>rms.
                projectStream alloc input (oa_sectorSize allocation)
                  (or_rootMiniStreamSectorLocations rms) stream)))"

end
