(* ===== verification/OleChains.thy ===== *)
theory OleChains
  imports OleStreams
begin

text \<open>
  The lemmas of the OLE reader on its sectors: what a walk along a table reads, which sectors the
  phases of the reader accept, that they are pairwise different, and that no read is out of range.
\<close>

declare str_nat.simps [simp del]

lemma list_case_eq:
  "(case xs of [] \<Rightarrow> e | y # ys \<Rightarrow> f y ys) = r \<longleftrightarrow>
   (xs = [] \<and> e = r) \<or> (\<exists>y ys. xs = y # ys \<and> f y ys = r)"
  by (cases xs) auto

section \<open>Walks\<close>

text \<open>The list of the sectors that the entries of a table link, up to the end marker.\<close>

fun chain_path :: "nat list \<Rightarrow> nat \<Rightarrow> nat list \<Rightarrow> bool" where
  "chain_path entries current [] \<longleftrightarrow> current = ENDOFCHAIN"
| "chain_path entries current (l # ls) \<longleftrightarrow>
     current = l \<and> l < length entries \<and> chain_path entries (entries ! l) ls"

lemma not_isSector_end [simp]: "\<not> isSector ENDOFCHAIN limit"
  by (simp add: isSector_def ENDOFCHAIN_def MAXREGSECT_def)

lemma isFileSector_isSector: "isFileSector s n = isSector s n"
  by (simp add: isFileSector_def isSector_def)

lemma walk_chain_step:
  "walk_chain invalid reuse entries limit occupied locations current = Inr r \<longleftrightarrow>
   (if current = ENDOFCHAIN then r = locations
    else isSector current limit \<and> current \<notin> set locations \<and> current \<notin> set occupied \<and>
      current < length entries \<and>
      (entries ! current = ENDOFCHAIN \<or> isSector (entries ! current) limit) \<and>
      walk_chain invalid reuse entries limit occupied (locations @ [current]) (entries ! current) =
        Inr r)"
  by (subst walk_chain.simps) (auto simp: Let_def)

lemma walk_chain_extends:
  "walk_chain invalid reuse entries limit occupied locations current = Inr r \<Longrightarrow> \<exists>ls. r = locations @ ls"
proof (induction invalid reuse entries limit occupied locations current rule: walk_chain.induct)
  case (1 invalid reuse entries limit occupied locations current)
  show ?case
  proof (cases "current = ENDOFCHAIN")
    case True
    with "1.prems" show ?thesis by (simp add: walk_chain_step)
  next
    case False
    with "1.prems" have "isSector current limit" "current \<notin> set locations" "current \<notin> set occupied"
      "current < length entries" "entries ! current = ENDOFCHAIN \<or> isSector (entries ! current) limit"
      "walk_chain invalid reuse entries limit occupied (locations @ [current]) (entries ! current) =
        Inr r"
      by (subst (asm) walk_chain_step; simp)+
    with "1.IH" [OF False _ _ _ refl] have "\<exists>ls. r = (locations @ [current]) @ ls" by simp
    then show ?thesis by auto
  qed
qed

lemma walk_chain_iff:
  "walk_chain invalid reuse entries limit occupied locations current = Inr (locations @ ls) \<longleftrightarrow>
   chain_path entries current ls \<and> distinct ls \<and> set ls \<inter> (set locations \<union> set occupied) = {} \<and>
   (\<forall>l \<in> set ls. isSector l limit)"
proof (induction ls arbitrary: locations current)
  case Nil
  show ?case
    using walk_chain_extends [of invalid reuse entries limit occupied "locations @ [current]"
        "entries ! current" locations]
    by (subst walk_chain_step) auto
next
  case (Cons l ls)
  have next_sector: "isSector (entries ! l) limit"
    if "chain_path entries (entries ! l) ls" "\<forall>l \<in> set ls. isSector l limit" "entries ! l \<noteq> ENDOFCHAIN"
    using that by (cases ls) auto
  show ?case
  proof (cases "current = l")
    case True
    show ?thesis
      using Cons.IH [of "locations @ [l]" "entries ! l"] next_sector
      by (subst walk_chain_step) (auto simp: True)
  next
    case False
    then show ?thesis
      using walk_chain_extends [of invalid reuse entries limit occupied "locations @ [current]"
        "entries ! current" "locations @ l # ls"]
      by (subst walk_chain_step) auto
  qed
qed

lemma walk_chain_exact:
  "walk_chain invalid reuse entries limit occupied [] first = Inr ls \<longleftrightarrow>
   chain_path entries first ls \<and> distinct ls \<and> set ls \<inter> set occupied = {} \<and>
   (\<forall>l \<in> set ls. isSector l limit)"
  using walk_chain_iff [of invalid reuse entries limit occupied "[]" first ls] by simp

lemma chain_path_linked:
  "chain_path entries first ls \<Longrightarrow> l \<in> set ls \<Longrightarrow>
   l < length entries \<and> (entries ! l = ENDOFCHAIN \<or> entries ! l \<in> set ls)"
proof (induction entries first ls rule: chain_path.induct)
  case (2 entries current l' ls)
  then show ?case by (cases ls) auto
qed simp

lemma coded_walk [coded_intros]:
  "coded (walk_chain invalid reuse entries limit occupied locations current)"
proof (induction invalid reuse entries limit occupied locations current rule: walk_chain.induct)
  case (1 invalid reuse entries limit occupied locations current)
  then show ?case by (subst walk_chain.simps) (simp add: Let_def)
qed

section \<open>The allocation tables\<close>

lemma header_file_count:
  "verifyOleHeader bs = Inr h \<Longrightarrow> sector_layout bs h"
  by (rule verified_header)

lemma difat_state_locations:
  assumes "verifyOleDifat bs = Inr d"
  shows "verifyOleHeader bs = Inr (od_header d)"
    and "distinct (od_fatSectorLocations d @ od_difatSectorLocations d)"
    and "\<forall>s \<in> set (od_fatSectorLocations d @ od_difatSectorLocations d).
           s < oh_fileSectorCount (od_header d)"
proof -
  define ok where "ok n st \<longleftrightarrow> distinct (ds_fatSectorLocations st) \<and> distinct (ds_difatSectorLocations st) \<and>
    (\<forall>s \<in> set (ds_fatSectorLocations st @ ds_difatSectorLocations st). s < n)" for n and st :: DifatState
  have add: "distinct locs' \<and> (\<forall>s \<in> set locs'. s < n)"
    if "addFatLocation s n locs = Inr locs'" "distinct locs \<and> (\<forall>s \<in> set locs. s < n)" for s n locs locs'
    using that by (auto simp: addFatLocation_def isFileSector_def split: if_splits)
  obtain h headerLocations st where
    h: "verifyOleHeader bs = Inr h" and
    hl: "fold_result (header_location_step bs (oh_fileSectorCount h)) []
      [0..<min (hf_fatSectorCount (oh_fields h)) HEADER_DIFAT_ENTRY_COUNT] = Inr headerLocations" and
    st: "fold_result (difat_sector_step bs h)
      \<lparr>ds_fatSectorLocations = headerLocations, ds_difatSectorLocations = [],
       ds_remainingFatLocations = hf_fatSectorCount (oh_fields h) -
         min (hf_fatSectorCount (oh_fields h)) HEADER_DIFAT_ENTRY_COUNT,
       ds_currentDifatSector = hf_firstDifatSector (oh_fields h)\<rparr>
      [0..<hf_difatSectorCount (oh_fields h)] = Inr st" and
    apart: "set (ds_difatSectorLocations st) \<inter> set (ds_fatSectorLocations st) = {}" and
    d: "d = \<lparr>od_header = h, od_fatSectorLocations = ds_fatSectorLocations st,
             od_difatSectorLocations = ds_difatSectorLocations st\<rparr>"
    using assms
    by (fastforce simp: verifyOleDifat_def bind_result_Inr Let_def list_ex_iff split: if_splits)
  have "distinct headerLocations \<and> (\<forall>s \<in> set headerLocations. s < oh_fileSectorCount h)"
    by (rule fold_result_inv [OF hl]) (auto simp: header_location_step_def bind_result_Inr dest: add)
  then have "ok (oh_fileSectorCount h) \<lparr>ds_fatSectorLocations = headerLocations,
      ds_difatSectorLocations = [], ds_remainingFatLocations = hf_fatSectorCount (oh_fields h) -
         min (hf_fatSectorCount (oh_fields h)) HEADER_DIFAT_ENTRY_COUNT,
       ds_currentDifatSector = hf_firstDifatSector (oh_fields h)\<rparr>" by (simp add: ok_def)
  moreover have "ok (oh_fileSectorCount h) s'"
    if s: "ok (oh_fileSectorCount h) s" and step: "difat_sector_step bs h s i = Inr s'" for s i s'
  proof -
    obtain locs where locs: "fold_result (difat_entry_step bs (oh_fileSectorCount h)
        (sectorByteOffset (ds_currentDifatSector s) (oh_sectorSize h))
        (min (ds_remainingFatLocations s) (oh_sectorSize h div 4 - 1)))
        (ds_fatSectorLocations s) [0..<oh_sectorSize h div 4 - 1] = Inr locs"
      and s': "ds_fatSectorLocations s' = locs"
      "ds_difatSectorLocations s' = ds_difatSectorLocations s @ [ds_currentDifatSector s]"
      and cur: "isFileSector (ds_currentDifatSector s) (oh_fileSectorCount h)"
      "ds_currentDifatSector s \<notin> set (ds_difatSectorLocations s)"
      using step
      by (fastforce simp: difat_sector_step_def bind_result_Inr Let_def split: if_splits)
    have "distinct locs \<and> (\<forall>s \<in> set locs. s < oh_fileSectorCount h)"
      by (rule fold_result_inv [OF locs])
        (use s in \<open>auto simp: ok_def difat_entry_step_def bind_result_Inr split: if_splits dest: add\<close>)
    with s cur show ?thesis by (auto simp: ok_def s' isFileSector_def)
  qed
  ultimately have "ok (oh_fileSectorCount h) st" by (rule fold_result_inv [OF st])
  with h apart show "verifyOleHeader bs = Inr (od_header d)"
    "distinct (od_fatSectorLocations d @ od_difatSectorLocations d)"
    "\<forall>s \<in> set (od_fatSectorLocations d @ od_difatSectorLocations d).
       s < oh_fileSectorCount (od_header d)"
    by (auto simp: d ok_def)
qed

lemma verified_fat:
  assumes "verifyOleFat bs = Inr f"
  shows "verifyOleDifat bs = Inr (of_difat f)"
    and "length (of_fatEntries f) = oh_fileSectorCount (od_header (of_difat f))"
    and "\<forall>s < length (of_fatEntries f). \<not> marker_wrong (of_difat f) (of_fatEntries f) s"
  using assms by (auto simp: verifyOleFat_def bind_result_Inr list_ex_iff split: if_splits)

text \<open>A chain has no sector of the tables: their entries are markers, which no chain links.\<close>

lemma linked_sectors_apart:
  assumes "verifyOleFat bs = Inr f" and "chain_path (of_fatEntries f) first ls"
    and "\<forall>l \<in> set ls. isSector l (length (of_fatEntries f))"
  shows "set ls \<inter> set (od_fatSectorLocations (of_difat f) @ od_difatSectorLocations (of_difat f)) = {}"
proof -
  have False if l: "l \<in> set ls"
    and s: "l \<in> set (od_fatSectorLocations (of_difat f) @ od_difatSectorLocations (of_difat f))" for l
  proof -
    have linked: "l < length (of_fatEntries f)"
      "of_fatEntries f ! l = ENDOFCHAIN \<or> isSector (of_fatEntries f ! l) (length (of_fatEntries f))"
      using chain_path_linked [OF assms(2) l] assms(3) by auto
    then have "of_fatEntries f ! l \<noteq> FATSECT" "of_fatEntries f ! l \<noteq> DIFSECT"
      by (auto simp: isSector_def FATSECT_def DIFSECT_def ENDOFCHAIN_def MAXREGSECT_def)
    with verified_fat(3) [OF assms(1)] linked(1) s show False
      by (auto simp: marker_wrong_def Let_def split: if_splits)
  qed
  then show ?thesis by blast
qed

lemma read_chain:
  assumes "readChain first expected entries occupied = Inr ls"
  shows "chain_path entries first ls" and "distinct ls" and "set ls \<inter> set occupied = {}"
    and "\<forall>l \<in> set ls. isSector l (length entries)"
    and "\<forall>c. expected = Some c \<longrightarrow> length ls = c" and "expected = None \<Longrightarrow> ls \<noteq> []"
  using assms
  by (auto simp: readChain_def bind_result_Inr walk_chain_exact split: if_splits option.splits)

lemma verified_chains:
  assumes "verifyOleSystemChains bs = Inr c"
  shows "verifyOleFat bs = Inr (oc_fat c)"
    and "distinct (oc_directorySectorLocations c @ oc_miniFatSectorLocations c)"
    and "\<forall>l \<in> set (oc_directorySectorLocations c @ oc_miniFatSectorLocations c).
           isSector l (length (of_fatEntries (oc_fat c)))"
    and "set (oc_directorySectorLocations c @ oc_miniFatSectorLocations c) \<inter>
         set (od_fatSectorLocations (of_difat (oc_fat c)) @
              od_difatSectorLocations (of_difat (oc_fat c))) = {}"
proof -
  obtain fat dir mini first1 first2 e1 e2 where fat: "verifyOleFat bs = Inr fat"
    and dir: "readChain first1 e1 (of_fatEntries fat) [] = Inr dir"
    and mini: "readChain first2 e2 (of_fatEntries fat) dir = Inr mini"
    and c: "c = \<lparr>oc_fat = fat, oc_directorySectorLocations = dir, oc_miniFatSectorLocations = mini\<rparr>"
    using assms by (auto simp: verifyOleSystemChains_def bind_result_Inr Let_def)
  note d = read_chain [OF dir] and m = read_chain [OF mini]
  show "verifyOleFat bs = Inr (oc_fat c)" using fat by (simp add: c)
  show "distinct (oc_directorySectorLocations c @ oc_miniFatSectorLocations c)"
    using d(2) m(2,3) by (auto simp: c)
  show "\<forall>l \<in> set (oc_directorySectorLocations c @ oc_miniFatSectorLocations c).
      isSector l (length (of_fatEntries (oc_fat c)))" using d(4) m(4) by (auto simp: c)
  show "set (oc_directorySectorLocations c @ oc_miniFatSectorLocations c) \<inter>
      set (od_fatSectorLocations (of_difat (oc_fat c)) @
           od_difatSectorLocations (of_difat (oc_fat c))) = {}"
    using linked_sectors_apart [OF fat d(1,4)] linked_sectors_apart [OF fat m(1,4)] by (auto simp: c)
qed

lemma verified_directory:
  "verifyOleDirectoryEntries bs = Inr d \<Longrightarrow> verifyOleSystemChains bs = Inr (oe_chains d)"
  by (auto simp: verifyOleDirectoryEntries_def bind_result_Inr Let_def invalidRoot_def list_case_eq
      split: if_splits)

lemma verified_tree:
  assumes "verifyOleDirectoryTree table bs = Inr d"
  shows "verifyOleDirectoryEntries bs = Inr d"
    and "\<exists>e es owned. oe_entries d = e # es \<and> de_objectType e = Root \<and>
      tree_loop table (oe_entries d) [de_streamId e]
        (case de_childId e of None \<Rightarrow> [] | Some c \<Rightarrow> [c]) = Inr owned \<and>
      (\<forall>e \<in> set (oe_entries d). de_objectType e \<noteq> Unallocated \<longrightarrow> de_streamId e \<in> set owned)"
  using assms
  by (fastforce simp: verifyOleDirectoryTree_def bind_result_Inr invalidNode_def list_ex_iff
      list_case_eq split: if_splits)+

lemma verified_mini_fat:
  "verifyOleMiniFatEntries bs = Inr m \<Longrightarrow> verifyOleSystemChains bs = Inr (om_chains m)"
  by (auto simp: verifyOleMiniFatEntries_def bind_result_Inr Let_def)

lemma system_sectors_apart:
  assumes "verifyOleFat bs = Inr fat" and "verifyOleDirectoryEntries bs = Inr tree"
    and "verifyOleMiniFatEntries bs = Inr miniFat"
  shows "distinct (system_sectors fat tree miniFat)"
    and "\<forall>s \<in> set (system_sectors fat tree miniFat). s < length (of_fatEntries fat)"
proof -
  note c = verified_directory [OF assms(2)]
  have same: "om_chains miniFat = oe_chains tree" "oc_fat (oe_chains tree) = fat"
    using verified_mini_fat [OF assms(3)] verified_chains(1) [OF c] assms(1) c by auto
  note difat = difat_state_locations [OF verified_fat(1) [OF assms(1)]]
  show "distinct (system_sectors fat tree miniFat)"
    using difat(2) verified_chains(2,4) [OF c] by (auto simp: system_sectors_def same)
  show "\<forall>s \<in> set (system_sectors fat tree miniFat). s < length (of_fatEntries fat)"
    using difat(3) verified_chains(3) [OF c] verified_fat(2) [OF assms(1)]
    by (auto simp: system_sectors_def same isSector_def)
qed

section \<open>The streams\<close>

lemma read_root_chain:
  assumes "readRootChain first expected entries occupied = Inr ls"
  shows "chain_path entries first ls" and "distinct ls" and "set ls \<inter> set occupied = {}"
    and "\<forall>l \<in> set ls. isSector l (length entries)" and "length ls = expected"
  using assms
  by (auto simp: readRootChain_def bind_result_Inr walk_chain_exact root_length_mismatch_def
      split: if_splits)

lemma verified_root:
  assumes "verifyOleRootMiniStream table bs = Inr r"
  obtains tree miniFat fat e es where
    "verifyOleDirectoryTree table bs = Inr tree" "verifyOleMiniFatEntries bs = Inr miniFat"
    "verifyOleFat bs = Inr fat" "oe_entries tree = e # es"
    "or_rootMiniStreamSize r = de_streamSize e"
    "or_rootMiniSectorCount r = divideRoundUp (str_nat (de_streamSize e)) MINI_SECTOR_SIZE"
    "verifyMiniFatCapacity (om_miniFatEntries miniFat) (or_rootMiniSectorCount r) = Inr ()"
    "readRootChain (de_startingSector e)
       (divideRoundUp (str_nat (de_streamSize e)) (oh_sectorSize (od_header (of_difat fat))))
       (of_fatEntries fat) (system_sectors fat tree miniFat) =
     Inr (or_rootMiniStreamSectorLocations r)"
  using assms
  by (auto simp: verifyOleRootMiniStream_def bind_result_Inr Let_def list_case_eq
      split: if_splits)

lemma read_user_chain:
  assumes "readUserChain first minimum entries limit occupied = Inr ls"
  shows "chain_path entries first ls" and "distinct ls" and "set ls \<inter> set occupied = {}"
    and "\<forall>l \<in> set ls. isSector l limit" and "minimum \<le> length ls"
  using assms
  by (auto simp: readUserChain_def bind_result_Inr walk_chain_exact invalidStart_def
      split: if_splits)

definition stream_sectors :: "OleAllocation \<Rightarrow> OleUserStream list \<Rightarrow> nat list" where
  "stream_sectors a streams =
     concat (map us_sectorLocations (filter (\<lambda>s. us_allocation s = a) streams))"

lemma stream_sectors_append [simp]:
  "stream_sectors a (xs @ ys) = stream_sectors a xs @ stream_sectors a ys"
  "stream_sectors a [] = []"
  "stream_sectors a (s # xs) = (if us_allocation s = a then us_sectorLocations s else []) @ stream_sectors a xs"
  by (simp_all add: stream_sectors_def)

text \<open>A stream that was allocated: it has the sectors its size needs, in the table of its size.\<close>

definition stream_ok :: "nat \<Rightarrow> nat list \<Rightarrow> nat list \<Rightarrow> nat \<Rightarrow> OleUserStream \<Rightarrow> bool" where
  "stream_ok sectorSize fatEntries miniFatEntries miniCount s \<longleftrightarrow>
     (let size = str_nat (us_streamSize s); ls = us_sectorLocations s in
      case us_allocation s of
        EmptyAllocation \<Rightarrow> size = 0 \<and> ls = []
      | MiniFatAllocation \<Rightarrow>
          0 < size \<and> size < MINI_STREAM_CUTOFF \<and> divideRoundUp size MINI_SECTOR_SIZE \<le> length ls \<and>
          (\<forall>l \<in> set ls. l < miniCount) \<and> distinct ls \<and> chain_path miniFatEntries (hd ls) ls
      | FatAllocation \<Rightarrow>
          MINI_STREAM_CUTOFF \<le> size \<and> divideRoundUp size sectorSize \<le> length ls \<and>
          (\<forall>l \<in> set ls. l < length fatEntries) \<and> distinct ls \<and> chain_path fatEntries (hd ls) ls)"

definition allocation_ok ::
  "nat \<Rightarrow> nat list \<Rightarrow> nat list \<Rightarrow> nat \<Rightarrow> nat list \<Rightarrow> AllocationState \<Rightarrow> bool" where
  "allocation_ok sectorSize fatEntries miniFatEntries miniCount fixed_sectors st \<longleftrightarrow>
     as_fileSectors st = fixed_sectors @ stream_sectors FatAllocation (as_streams st) \<and>
     as_miniSectors st = stream_sectors MiniFatAllocation (as_streams st) \<and>
     distinct (as_fileSectors st) \<and> distinct (as_miniSectors st) \<and>
     (\<forall>s \<in> set (as_streams st). stream_ok sectorSize fatEntries miniFatEntries miniCount s)"

lemma user_chain_hd:
  assumes "readUserChain first minimum entries limit occupied = Inr ls"
  shows "ls \<noteq> []" and "hd ls = first"
proof -
  have "isSector first limit" using assms by (auto simp: readUserChain_def invalidStart_def split: if_splits)
  with read_user_chain(1) [OF assms] show "ls \<noteq> []" "hd ls = first" by (cases ls; auto)+
qed

lemma stream_step_ok:
  assumes ok: "allocation_ok ss fe me mc fx st" and step: "stream_step ss fe me mc st e = Inr st'"
  shows "allocation_ok ss fe me mc fx st'"
proof (cases "de_objectType e = Stream")
  case False
  with ok step show ?thesis by (simp add: stream_step_def)
next
  case True
  with step obtain name where name: "de_name e = Some name"
    and v: "verifyStream ss fe me mc st e = Inr st'"
    by (auto simp: stream_step_def verifyStream_def invalidStart_def split: option.splits)
  define size where "size = str_nat (de_streamSize e)"
  consider (empty) "size = 0" | (mini) "0 < size" "size < MINI_STREAM_CUTOFF"
    | (fat) "0 < size" "\<not> size < MINI_STREAM_CUTOFF" by linarith
  then show ?thesis
  proof cases
    case empty
    with ok v show ?thesis
      by (auto simp: verifyStream_def name size_def [symmetric] Let_def allocation_ok_def
          freezeStream_def stream_ok_def)
  next
    case mini
    with v obtain ls where ls: "readUserChain (de_startingSector e) (divideRoundUp size MINI_SECTOR_SIZE)
        me mc (as_miniSectors st) = Inr ls"
      and st': "st' = st\<lparr>as_miniSectors := as_miniSectors st @ ls,
        as_streams := as_streams st @ [freezeStream e name MiniFatAllocation ls]\<rparr>"
      by (auto simp: verifyStream_def name size_def [symmetric] Let_def bind_result_Inr)
    from read_user_chain [OF ls] user_chain_hd [OF ls] ok mini show ?thesis
      by (auto simp: st' allocation_ok_def freezeStream_def stream_ok_def Let_def size_def [symmetric]
          isSector_def)
  next
    case fat
    with v obtain ls where ls: "readUserChain (de_startingSector e) (divideRoundUp size ss)
        fe (length fe) (as_fileSectors st) = Inr ls"
      and st': "st' = st\<lparr>as_fileSectors := as_fileSectors st @ ls,
        as_streams := as_streams st @ [freezeStream e name FatAllocation ls]\<rparr>"
      by (auto simp: verifyStream_def name size_def [symmetric] Let_def bind_result_Inr)
    from read_user_chain [OF ls] user_chain_hd [OF ls] ok fat show ?thesis
      by (auto simp: st' allocation_ok_def freezeStream_def stream_ok_def Let_def size_def [symmetric]
          isSector_def)
  qed
qed

text \<open>What the whole allocation gives: the phases it rests on, and the state at its end.\<close>

lemma verified_allocation:
  assumes "verifyOleUserStreamAllocation table bs = Inr a"
  obtains tree miniFat fat r st where
    "verifyOleDirectoryTree table bs = Inr tree" "verifyOleMiniFatEntries bs = Inr miniFat"
    "verifyOleFat bs = Inr fat" "verifyOleRootMiniStream table bs = Inr r"
    "oa_sectorSize a = oh_sectorSize (od_header (of_difat fat))" "oa_streams a = as_streams st"
    "allocation_ok (oa_sectorSize a) (of_fatEntries fat) (om_miniFatEntries miniFat)
       (or_rootMiniSectorCount r)
       (system_sectors fat tree miniFat @ or_rootMiniStreamSectorLocations r) st"
    "\<forall>i < or_rootMiniSectorCount r. om_miniFatEntries miniFat ! i \<noteq> FREESECT \<longrightarrow>
       i \<in> set (as_miniSectors st)"
proof -
  obtain tree r miniFat fat st where
    tree: "verifyOleDirectoryTree table bs = Inr tree" and r: "verifyOleRootMiniStream table bs = Inr r"
    and m: "verifyOleMiniFatEntries bs = Inr miniFat" and f: "verifyOleFat bs = Inr fat"
    and st: "fold_result (stream_step (oh_sectorSize (od_header (of_difat fat))) (of_fatEntries fat)
        (om_miniFatEntries miniFat) (or_rootMiniSectorCount r))
      \<lparr>as_fileSectors = system_sectors fat tree miniFat @ or_rootMiniStreamSectorLocations r,
       as_miniSectors = [], as_streams = []\<rparr> (oe_entries tree) = Inr st"
    and owned: "\<forall>i < or_rootMiniSectorCount r. om_miniFatEntries miniFat ! i \<noteq> FREESECT \<longrightarrow>
       i \<in> set (as_miniSectors st)"
    and a: "a = \<lparr>oa_sectorSize = oh_sectorSize (od_header (of_difat fat)), oa_streams = as_streams st\<rparr>"
    using assms
    by (fastforce simp: verifyOleUserStreamAllocation_def bind_result_Inr Let_def list_ex_iff
        split: if_splits)
  from r obtain first expected where "readRootChain first expected (of_fatEntries fat)
      (system_sectors fat tree miniFat) = Inr (or_rootMiniStreamSectorLocations r)"
    using tree m f by (elim verified_root) auto
  note root = read_root_chain [OF this]
  have "distinct (system_sectors fat tree miniFat @ or_rootMiniStreamSectorLocations r)"
    using system_sectors_apart(1) [OF f verified_tree(1) [OF tree] m] root(2,3) by auto
  then have "allocation_ok (oh_sectorSize (od_header (of_difat fat))) (of_fatEntries fat)
      (om_miniFatEntries miniFat) (or_rootMiniSectorCount r)
      (system_sectors fat tree miniFat @ or_rootMiniStreamSectorLocations r)
      \<lparr>as_fileSectors = system_sectors fat tree miniFat @ or_rootMiniStreamSectorLocations r,
       as_miniSectors = [], as_streams = []\<rparr>"
    by (simp add: allocation_ok_def)
  then have "allocation_ok (oh_sectorSize (od_header (of_difat fat))) (of_fatEntries fat)
      (om_miniFatEntries miniFat) (or_rootMiniSectorCount r)
      (system_sectors fat tree miniFat @ or_rootMiniStreamSectorLocations r) st"
    by (rule fold_result_inv [OF st]) (rule stream_step_ok)
  with tree r m f owned that show thesis by (simp add: a)
qed

end
