(* ===== verification/OleReads.thy ===== *)
theory OleReads
  imports OleChains
begin

text \<open>
  No phase of the OLE reader reads outside of its input: every error it ends with carries a code.
\<close>

section \<open>The tables\<close>

lemma in_enumerate: "p \<in> set (enumerate n xs) \<Longrightarrow> snd p \<in> set xs"
  using nth_mem [of "fst p - n" xs] by (auto simp: in_set_enumerate_eq)

lemma coded_location: "coded (addFatLocation s n locs)"
  by (simp add: addFatLocation_def)

lemma coded_difat: "coded (verifyOleDifat bs)"
proof (unfold verifyOleDifat_def Let_def, intro coded_bind coded_header)
  fix h assume h: "verifyOleHeader bs = Inr h"
  note layout = verified_header(1) [OF h] and size = verified_header(2) [OF h]
  show "coded (fold_result (header_location_step bs (oh_fileSectorCount h)) []
      [0..<min (hf_fatSectorCount (oh_fields h)) HEADER_DIFAT_ENTRY_COUNT])"
    by (rule coded_fold [where P = "\<lambda>_. True"])
      (use size in \<open>auto simp: header_location_step_def coded_location HEADER_DIFAT_ENTRY_COUNT_def\<close>)
  fix locs
  show "coded (fold_result (difat_sector_step bs h)
      \<lparr>ds_fatSectorLocations = locs, ds_difatSectorLocations = [],
       ds_remainingFatLocations = hf_fatSectorCount (oh_fields h) -
         min (hf_fatSectorCount (oh_fields h)) HEADER_DIFAT_ENTRY_COUNT,
       ds_currentDifatSector = hf_firstDifatSector (oh_fields h)\<rparr>
      [0..<hf_difatSectorCount (oh_fields h)])"
  proof (rule coded_fold [where P = "\<lambda>_. True"])
    fix st i
    show "coded (difat_sector_step bs h st i)"
    proof (cases "isFileSector (ds_currentDifatSector st) (oh_fileSectorCount h)")
      case True
      then have "ds_currentDifatSector st < oh_fileSectorCount h" by (simp add: isFileSector_def)
      note read = sector_read [OF layout this]
      have cap: "oh_sectorSize h div 4 - 1 < oh_sectorSize h div 4"
        using layout by (auto simp: sector_layout_def)
      have "coded (fold_result (difat_entry_step bs n (sectorByteOffset (ds_currentDifatSector st)
          (oh_sectorSize h)) used) locs [0..<oh_sectorSize h div 4 - 1])" for n used locs
        by (rule coded_fold [where P = "\<lambda>_. True"])
          (auto simp: difat_entry_step_def coded_location read)
      moreover have "coded (getUint32 bs (sectorByteOffset (ds_currentDifatSector st) (oh_sectorSize h) +
          (oh_sectorSize h div 4 - 1) * 4))"
        using read [OF cap] by simp
      ultimately show ?thesis
        by (auto simp: difat_sector_step_def Let_def intro!: coded_bind)
    qed (simp add: difat_sector_step_def Let_def)
  qed simp_all
qed simp

lemma coded_fat: "coded (verifyOleFat bs)"
proof (unfold verifyOleFat_def, intro coded_bind coded_difat)
  fix d assume d: "verifyOleDifat bs = Inr d"
  note layout = verified_header(1) [OF difat_state_locations(1) [OF d]]
  have "coded (fat_sector_step bs (od_header d) entries p)" if p_in: "p \<in> set (enumerate 0 (od_fatSectorLocations d))"
    for entries p
  proof -
    obtain i s where p: "p = (i, s)" "s \<in> set (od_fatSectorLocations d)"
      using in_enumerate [OF p_in] by (metis prod.collapse)
    then have "s < oh_fileSectorCount (od_header d)" using difat_state_locations(3) [OF d] by auto
    note read = sector_read [OF layout this]
    show ?thesis unfolding p fat_sector_step_def prod.case
      by (rule coded_fold [where P = "\<lambda>_. True"]) (auto simp: fat_entry_step_def read)
  qed
  then show "coded (fold_result (fat_sector_step bs (od_header d)) []
      (enumerate 0 (od_fatSectorLocations d)))"
    by (intro coded_fold [where P = "\<lambda>_. True"]) auto
qed simp

lemma coded_read_chain: "coded (readChain first expected entries occupied)"
  by (auto simp: readChain_def intro!: coded_bind coded_walk)

lemma coded_chains: "coded (verifyOleSystemChains bs)"
  by (auto simp: verifyOleSystemChains_def Let_def intro!: coded_bind coded_fat coded_read_chain)

lemma chain_layout:
  assumes "verifyOleSystemChains bs = Inr c"
  shows "sector_layout bs (od_header (of_difat (oc_fat c)))"
    and "\<forall>s \<in> set (oc_directorySectorLocations c @ oc_miniFatSectorLocations c).
      s < oh_fileSectorCount (od_header (of_difat (oc_fat c)))"
    and "oh_majorVersion (od_header (of_difat (oc_fat c))) \<in> {3, 4}"
proof -
  note f = verified_chains(1) [OF assms]
  note h = difat_state_locations(1) [OF verified_fat(1) [OF f]]
  from verified_header(1,3) [OF h]
  show "sector_layout bs (od_header (of_difat (oc_fat c)))"
    "oh_majorVersion (od_header (of_difat (oc_fat c))) \<in> {3, 4}" by auto
  show "\<forall>s \<in> set (oc_directorySectorLocations c @ oc_miniFatSectorLocations c).
      s < oh_fileSectorCount (od_header (of_difat (oc_fat c)))"
    using verified_chains(3) [OF assms] verified_fat(2) [OF f] by (auto simp: isSector_def)
qed

lemma coded_mini_fat: "coded (verifyOleMiniFatEntries bs)"
proof (unfold verifyOleMiniFatEntries_def Let_def, intro coded_bind coded_chains)
  fix c assume c: "verifyOleSystemChains bs = Inr c"
  show "coded (fold_result (mini_sector_step bs (oh_sectorSize (od_header (of_difat (oc_fat c))))
      (length (oc_miniFatSectorLocations c) * (oh_sectorSize (od_header (of_difat (oc_fat c))) div 4)))
      [] (oc_miniFatSectorLocations c))"
  proof (rule coded_fold [where P = "\<lambda>_. True"])
    fix entries s assume "s \<in> set (oc_miniFatSectorLocations c)"
    then have "s < oh_fileSectorCount (od_header (of_difat (oc_fat c)))"
      using chain_layout(2) [OF c] by auto
    note read = sector_read [OF chain_layout(1) [OF c] this]
    show "coded (mini_sector_step bs (oh_sectorSize (od_header (of_difat (oc_fat c))))
      (length (oc_miniFatSectorLocations c) * (oh_sectorSize (od_header (of_difat (oc_fat c))) div 4))
      entries s)"
      unfolding mini_sector_step_def
      by (rule coded_fold [where P = "\<lambda>_. True"]) (auto simp: mini_entry_step_def read)
  qed simp_all
qed simp

section \<open>The directory\<close>

lemma coded_directory_errors [simp, coded_intros]:
  "coded invalidEntry" "coded invalidName" "coded invalidRoot" "coded invalidNode" "coded tree_color_error"
  by (simp_all add: invalidEntry_def invalidName_def invalidRoot_def invalidNode_def tree_color_error_def)

lemma coded_or_and [coded_intros]:
  "coded r \<Longrightarrow> coded (or_result b r)" "coded r \<Longrightarrow> coded (and_result b r)"
  by (simp_all add: or_result_def and_result_def)

lemma coded_nonzero:
  assumes "offset + len \<le> length bs"
  shows "coded (nonzero_bytes bs offset len)"
  unfolding nonzero_bytes_def
  by (rule coded_fold [where P = "\<lambda>_. True"]) (use assms in \<open>auto simp: nonzero_bytes_step_def\<close>)

lemma coded_decode: "coded (decode_name u)"
proof (induction u rule: decode_name.induct)
  case (2 first rest)
  have pair: "coded (case rest of [] \<Rightarrow> invalidName
      | second # rest' \<Rightarrow> if second < 0xdc00 \<or> 0xdfff < second then invalidName
          else bind_result (decode_name rest') (\<lambda>name. Inr (f second @ name)))"
    if "0xd800 \<le> first \<and> first \<le> 0xdbff" for f
    using "2.IH"(1) [OF that] by (cases rest) (simp_all add: coded_bind)
  show ?case
    using "2.IH"(2) by (subst decode_name.simps) (simp add: pair coded_bind)
qed simp

lemma coded_name:
  assumes "offset + 66 \<le> length bs"
  shows "coded (readName bs offset)"
proof -
  have "coded (fold_result (code_unit_step bs offset) [] [0..<n div 2])" if "n \<le> 64" for n
    by (rule coded_fold [where P = "\<lambda>_. True"]) (use assms that in \<open>auto simp: code_unit_step_def\<close>)
  with assms show ?thesis by (auto simp: readName_def intro!: coded_bind coded_decode)
qed

lemma coded_pointer: "offset + 4 \<le> length bs \<Longrightarrow> coded (readPointer bs offset n)"
  by (simp add: readPointer_def)

lemma coded_entry:
  assumes "offset + 128 \<le> length bs"
  shows "coded (readEntry bs offset streamId entryCount major)"
proof -
  have "coded (verifyUnallocatedEntry bs offset)"
    unfolding verifyUnallocatedEntry_def
    by (rule coded_fold [where P = "\<lambda>_. True"])
      (use assms in \<open>auto simp: unallocated_step_def DIRECTORY_ENTRY_SIZE_def\<close>)
  moreover have "coded (root_checks bs offset streamId ty name l r)" for ty name l r
    using assms by (auto simp: root_checks_def intro!: coded_bind coded_or_and coded_nonzero)
  moreover have "coded (stream_checks bs offset ty child)" for ty child
    using assms by (auto simp: stream_checks_def intro!: coded_bind coded_or_and coded_nonzero)
  moreover have "coded (readObjectType v streamId)" for v by (simp add: readObjectType_def)
  ultimately show ?thesis
    using assms by (auto simp: readEntry_def intro!: coded_bind coded_name coded_pointer)
qed

lemma entry_read:
  assumes "sector_layout bs h" and "s < oh_fileSectorCount h"
    and "i < oh_sectorSize h div DIRECTORY_ENTRY_SIZE"
  shows "sectorByteOffset s (oh_sectorSize h) + i * DIRECTORY_ENTRY_SIZE + 128 \<le> length bs"
proof -
  have "i * 32 + 31 < oh_sectorSize h div 4"
    using assms(1,3) by (auto simp: sector_layout_def DIRECTORY_ENTRY_SIZE_def)
  from sector_read [OF assms(1,2) this] show ?thesis by (simp add: DIRECTORY_ENTRY_SIZE_def)
qed

lemma coded_entries: "coded (verifyOleDirectoryEntries bs)"
proof (unfold verifyOleDirectoryEntries_def Let_def, intro coded_bind coded_chains)
  fix c assume c: "verifyOleSystemChains bs = Inr c"
  let ?h = "od_header (of_difat (oc_fat c))"
  have "coded (directory_sector_step bs (oh_sectorSize ?h) count major entries p)"
    if p_in: "p \<in> set (enumerate 0 (oc_directorySectorLocations c))" for entries p count major
  proof -
    obtain i s where p: "p = (i, s)" "s \<in> set (oc_directorySectorLocations c)"
      using in_enumerate [OF p_in] by (metis prod.collapse)
    then have "s < oh_fileSectorCount ?h" using chain_layout(2) [OF c] by auto
    note read = entry_read [OF chain_layout(1) [OF c] this]
    show ?thesis unfolding p directory_sector_step_def prod.case
      by (rule coded_fold [where P = "\<lambda>_. True"])
        (auto simp: entry_step_def intro!: coded_bind coded_entry read)
  qed
  then show "coded (fold_result (directory_sector_step bs (oh_sectorSize ?h)
      (length (oc_directorySectorLocations c) * (oh_sectorSize ?h div DIRECTORY_ENTRY_SIZE))
      (oh_majorVersion ?h)) [] (enumerate 0 (oc_directorySectorLocations c)))"
    by (intro coded_fold [where P = "\<lambda>_. True"]) auto
qed (auto split: list.split)

end
