(* ===== verification/OleNames.thy ===== *)
theory OleNames
  imports OleReads "HOL-Library.List_Lexorder"
begin

text \<open>
  The lemmas of the OLE reader on names and entries: names decode to what is stored, entries carry
  their index, and the comparison of names is the order of a key, so it is a linear preorder.
\<close>

section \<open>Names\<close>

text \<open>The text of a list of code points, and the code points a text may have.\<close>

definition encode_name :: "nat list \<Rightarrow> units" where
  "encode_name cps = concat (map fromCodePoint cps)"

definition scalar_value :: "nat \<Rightarrow> bool" where
  "scalar_value cp \<longleftrightarrow> cp < 0xd800 \<or> (0xdfff < cp \<and> cp \<le> 0x10ffff)"

lemma decode_pair:
  assumes "0xd800 \<le> first" "first \<le> 0xdbff" "0xdc00 \<le> second" "second \<le> 0xdfff"
  shows "fromCodePoint (0x10000 + push_bit 10 (first - 0xd800) + (second - 0xdc00)) = [first, second]"
proof -
  define a where "a = first - 0xd800"
  define b where "b = second - 0xdc00"
  have ab: "first = 0xd800 + a" "second = 0xdc00 + b" "b < 1024"
    using assms by (simp_all add: a_def b_def)
  have "(1024 * a + b) div 1024 = a" "(1024 * a + b) mod 1024 = b" using ab(3) by simp_all
  then show ?thesis
    by (simp add: a_def [symmetric] b_def [symmetric] fromCodePoint_def push_bit_eq_mult ab(1,2)
        mult.commute)
qed

definition units_ok :: "units \<Rightarrow> bool" where
  "units_ok u \<longleftrightarrow> (\<forall>x \<in> set u. x \<le> 0xffff)"

lemma units_ok_simps [simp]:
  "units_ok []" "units_ok (x # u) \<longleftrightarrow> x \<le> 0xffff \<and> units_ok u"
  "units_ok (u @ v) \<longleftrightarrow> units_ok u \<and> units_ok v"
  by (auto simp: units_ok_def)

lemma decode_name_sound:
  "decode_name u = Inr name \<Longrightarrow> units_ok u \<Longrightarrow>
   name = u \<and> (\<exists>cps. list_all scalar_value cps \<and> u = encode_name cps)"
proof (induction u arbitrary: name rule: decode_name.induct)
  case 1
  then show ?case by (auto simp: encode_name_def intro: exI [of _ "[]"])
next
  case (2 first rest)
  show ?case
  proof (cases "0xd800 \<le> first \<and> first \<le> 0xdbff")
    case True
    with "2.prems" obtain second rest' tail where r: "rest = second # rest'"
      "\<not> (second < 0xdc00 \<or> 0xdfff < second)" "decode_name rest' = Inr tail"
      "name = fromCodePoint (0x10000 + push_bit 10 (first - 0xd800) + (second - 0xdc00)) @ tail"
      by (auto simp: bind_result_Inr invalidName_def list_case_eq split: if_splits)
    obtain cps where cps: "list_all scalar_value cps" "tail = rest'" "rest' = encode_name cps"
      using "2.IH"(1) [OF True r(1,2,3)] "2.prems"(2) r(1) by auto
    define cp where "cp = 0x10000 + push_bit 10 (first - 0xd800) + (second - 0xdc00)"
    have "first - 0xd800 \<le> 1023" "second - 0xdc00 \<le> 1023" using True r(2) by linarith+
    then have "scalar_value cp" by (simp add: cp_def scalar_value_def push_bit_eq_mult)
    moreover have "fromCodePoint cp = [first, second]"
      using decode_pair [of first second] True r(2) by (simp add: cp_def)
    ultimately have "list_all scalar_value (cp # cps)" "first # rest = encode_name (cp # cps)"
      "name = first # rest"
      using cps r(1,4) by (simp_all add: encode_name_def cp_def)
    then show ?thesis by blast
  next
    case False
    with "2.prems" obtain tail where r: "decode_name rest = Inr tail"
      "name = fromCodePoint first @ tail" and single: "\<not> (0xdc00 \<le> first \<and> first \<le> 0xdfff)"
      by (auto simp: bind_result_Inr invalidName_def split: if_splits)
    obtain cps where cps: "list_all scalar_value cps" "tail = rest" "rest = encode_name cps"
      using "2.IH"(2) [OF False single r(1)] "2.prems"(2) by auto
    have "scalar_value first" "fromCodePoint first = [first]"
      using False single "2.prems"(2) by (auto simp: scalar_value_def fromCodePoint_def)
    with cps r(2) have "list_all scalar_value (first # cps)" "first # rest = encode_name (first # cps)"
      "name = first # rest"
      by (simp_all add: encode_name_def)
    then show ?thesis by blast
  qed
qed

lemma decode_encode:
  "list_all scalar_value cps \<Longrightarrow> decode_name (encode_name cps) = Inr (encode_name cps)"
proof (induction cps)
  case (Cons cp cps)
  have tail: "decode_name (encode_name cps) = Inr (encode_name cps)" using Cons by simp
  show ?case
  proof (cases "cp < 0x10000")
    case True
    then have "encode_name (cp # cps) = cp # encode_name cps"
      by (simp add: encode_name_def fromCodePoint_def)
    with True Cons.prems tail show ?thesis
      by (simp add: scalar_value_def) (auto simp: fromCodePoint_def)
  next
    case False
    define k where "k = cp - 0x10000"
    have k: "k div 1024 \<le> 1023" "k mod 1024 \<le> 1023" "cp = 0x10000 + k"
      using False Cons.prems by (auto simp: k_def scalar_value_def)
    define first second where "first = 0xd800 + k div 1024" and "second = 0xdc00 + k mod 1024"
    have e: "encode_name (cp # cps) = first # second # encode_name cps"
      by (simp add: encode_name_def fromCodePoint_def k(3) first_def second_def)
    have f: "0xd800 \<le> first" "first \<le> 0xdbff" "\<not> second < 0xdc00" "\<not> 0xdfff < second"
      using k(1,2) by (simp_all add: first_def second_def)
    have "fromCodePoint (0x10000 + push_bit 10 (first - 0xd800) + (second - 0xdc00)) = [first, second]"
      using f by (intro decode_pair) simp_all
    with f tail show ?thesis unfolding e by simp
  qed
qed (simp add: encode_name_def)

lemma u16_bound: "u16 bs i \<le> 0xffff"
proof -
  have "unat w < 256" for w :: "8 word" using unsigned_less [of w, where ?'a = nat] by simp
  from this [of "bs ! i"] this [of "bs ! (i + 1)"] show ?thesis by (simp add: u16_def)
qed

lemma code_units_read:
  assumes "fold_result (code_unit_step bs offset) [] [0..<n] = Inr units"
  shows "units = map (\<lambda>i. u16 bs (offset + 2 * i)) [0..<n]"
proof -
  have "r = acc @ map (\<lambda>i. u16 bs (offset + 2 * i)) is"
    if "fold_result (code_unit_step bs offset) acc is = Inr r" for acc "is" r
    using that
  proof (induction "is" arbitrary: acc)
    case (Cons i "is")
    have step: "code_unit_step bs offset acc i = Inr a \<Longrightarrow> a = acc @ [u16 bs (offset + 2 * i)]" for a
      by (auto simp: code_unit_step_def getUint16_def out_of_range_def bind_result_Inr split: if_splits)
    from Cons.prems step have
      "fold_result (code_unit_step bs offset) (acc @ [u16 bs (offset + 2 * i)]) is = Inr r"
      by (auto simp: bind_result_Inr)
    from Cons.IH [OF this] show ?case by simp
  qed simp
  from this [OF assms] show ?thesis by simp
qed

text \<open>The name of an entry: the code units before the terminator, a well-formed text.\<close>

definition name_length :: "bytes \<Rightarrow> nat \<Rightarrow> nat" where
  "name_length bs offset = u16 bs (offset + 64) div 2 - 1"

lemma read_name:
  assumes "readName bs offset = Inr name"
  shows "name = map (\<lambda>i. u16 bs (offset + 2 * i)) [0..<name_length bs offset]"
    and "\<exists>cps. list_all scalar_value cps \<and> name = encode_name cps"
    and "units_ok name" and "name \<noteq> []" and "0 \<notin> set name" and "length name \<le> 31"
proof -
  define n where "n = u16 bs (offset + 64)"
  obtain units where n: "\<not> (n < 2 \<or> 64 < n \<or> n mod 2 \<noteq> 0)"
    and units: "fold_result (code_unit_step bs offset) [] [0..<n div 2] = Inr units"
    and zero: "0 \<notin> set (butlast units)" and dec: "decode_name (butlast units) = Inr name"
    and ne: "name \<noteq> []"
    using assms
    by (auto simp: readName_def bind_result_Inr getUint16_def out_of_range_def invalidName_def n_def
        split: if_splits)
  have pos: "1 \<le> n div 2" using n div_le_mono [of 2 n 2] by simp
  have "[0..<n div 2] = [0..<n div 2 - 1] @ [n div 2 - 1]"
    using pos by (simp flip: upt_Suc_append)
  then have b: "butlast units = map (\<lambda>i. u16 bs (offset + 2 * i)) [0..<n div 2 - 1]"
    by (simp add: code_units_read [OF units] flip: map_butlast)
  have ok: "units_ok (butlast units)" by (auto simp: b units_ok_def u16_bound)
  note d = decode_name_sound [OF dec ok]
  from d b show "name = map (\<lambda>i. u16 bs (offset + 2 * i)) [0..<name_length bs offset]"
    by (simp add: n_def name_length_def)
  from d show "\<exists>cps. list_all scalar_value cps \<and> name = encode_name cps" by blast
  from d ok zero ne show "units_ok name" "0 \<notin> set name" "name \<noteq> []" by simp_all
  from n have "n div 2 \<le> 32" using div_le_mono [of n 64 2] by simp
  with d b show "length name \<le> 31" by simp
qed

section \<open>Entries\<close>

lemma fold_result_counted:
  assumes "fold_result step s is = Inr s'" and "P k s"
    and "\<And>i s s'. i < length is \<Longrightarrow> P (k + i) s \<Longrightarrow> step s (is ! i) = Inr s' \<Longrightarrow> P (Suc (k + i)) s'"
  shows "P (k + length is) s'"
  using assms
proof (induction "is" arbitrary: s k)
  case (Cons j "is")
  from Cons.prems(1) obtain s1 where s1: "step s j = Inr s1" "fold_result step s1 is = Inr s'"
    by (auto simp: bind_result_Inr)
  have "P (Suc k) s1" using Cons.prems(3) [of 0 s s1] Cons.prems(2) s1(1) by simp
  moreover have "P (Suc (Suc k + i)) b"
    if "i < length is" "P (Suc k + i) a" "step a (is ! i) = Inr b" for i a b
    using Cons.prems(3) [of "Suc i" a b] that by simp
  ultimately have "P (Suc k + length is) s'" by (rule Cons.IH [OF s1(2)])
  then show ?case by simp
qed simp

definition entry_ok :: "OleEntry \<Rightarrow> bool" where
  "entry_ok e \<longleftrightarrow>
     (case de_name e of None \<Rightarrow> de_objectType e = Unallocated | Some name \<Rightarrow> units_ok name) \<and>
     (de_objectType e = Root \<longleftrightarrow> de_streamId e = 0 \<and> de_objectType e \<noteq> Unallocated)"

lemma read_entry_ok:
  assumes "readEntry bs offset streamId entryCount major = Inr e"
  shows "de_streamId e = streamId" and "entry_ok e"
proof -
  have "de_streamId e = streamId \<and> entry_ok e"
  proof (cases "getUint8 bs (offset + 66) = Inr 0")
    case True
    with assms show ?thesis
      by (auto simp: readEntry_def bind_result_Inr unallocated_entry_def entry_ok_def)
  next
    case False
    then obtain v objectType name color left right child start low high bad where
      ty: "readObjectType v streamId = Inr objectType" and name: "readName bs offset = Inr name"
      and root: "root_checks bs offset streamId objectType name left right = Inr ()"
      and e: "e = \<lparr>de_streamId = streamId, de_name = Some name, de_objectType = objectType,
                de_color = color, de_leftSiblingId = left, de_rightSiblingId = right,
                de_childId = child, de_startingSector = start,
                de_streamSize = entry_stream_size objectType major low high\<rparr>"
      using assms
      by (auto simp: readEntry_def bind_result_Inr invalidEntry_def split: if_splits)
    have "objectType \<noteq> Unallocated" "objectType = Root \<longrightarrow> streamId = 0"
      using ty by (auto simp: readObjectType_def invalidEntry_def split: if_splits)
    moreover have "streamId = 0 \<longrightarrow> objectType = Root"
      using root by (auto simp: root_checks_def invalidRoot_def split: if_splits)
    ultimately show ?thesis using read_name(3) [OF name] by (auto simp: e entry_ok_def)
  qed
  then show "de_streamId e = streamId" "entry_ok e" by auto
qed

lemma sector_entries:
  assumes "fold_result (entry_step bs eps n_ids major ci off) entries [0..<eps] = Inr entries'"
    and "map de_streamId entries = [0..<ci * eps]" and "list_all entry_ok entries"
  shows "map de_streamId entries' = [0..<Suc ci * eps]" and "list_all entry_ok entries'"
proof -
  have "map de_streamId entries' = [0..<ci * eps + (0 + length [0..<eps])] \<and> list_all entry_ok entries'"
  proof (rule fold_result_counted [OF assms(1), where k = 0 and
        P = "\<lambda>i es. map de_streamId es = [0..<ci * eps + i] \<and> list_all entry_ok es"])
    show "map de_streamId entries = [0..<ci * eps + 0] \<and> list_all entry_ok entries"
      using assms(2,3) by simp
    fix i es es'
    assume "i < length [0..<eps]"
      and es: "map de_streamId es = [0..<ci * eps + (0 + i)] \<and> list_all entry_ok es"
      and "entry_step bs eps n_ids major ci off es ([0..<eps] ! i) = Inr es'"
    then obtain e where "readEntry bs (off + i * DIRECTORY_ENTRY_SIZE) (ci * eps + i) n_ids major = Inr e"
      "es' = es @ [e]"
      by (auto simp: entry_step_def bind_result_Inr)
    with es read_entry_ok [OF this(1)]
    show "map de_streamId es' = [0..<ci * eps + Suc (0 + i)] \<and> list_all entry_ok es'" by simp
  qed
  then show "map de_streamId entries' = [0..<Suc ci * eps]" "list_all entry_ok entries'"
    by (simp_all add: add.commute)
qed

lemma directory_entries:
  assumes "verifyOleDirectoryEntries bs = Inr d"
  shows "map de_streamId (oe_entries d) = [0..<length (oe_entries d)]"
    and "list_all entry_ok (oe_entries d)"
proof -
  obtain size n_ids major locs where f:
    "fold_result (directory_sector_step bs size n_ids major) [] (enumerate 0 locs) = Inr (oe_entries d)"
    using assms
    by (auto simp: verifyOleDirectoryEntries_def bind_result_Inr Let_def invalidRoot_def list_case_eq
        split: if_splits)
  let ?eps = "size div DIRECTORY_ENTRY_SIZE"
  have "map de_streamId (oe_entries d) = [0..<(0 + length (enumerate 0 locs)) * ?eps] \<and>
      list_all entry_ok (oe_entries d)"
  proof (rule fold_result_counted [OF f, where k = 0 and
        P = "\<lambda>i es. map de_streamId es = [0..<i * ?eps] \<and> list_all entry_ok es"])
    fix i es es'
    assume i: "i < length (enumerate 0 locs)"
      and es: "map de_streamId es = [0..<(0 + i) * ?eps] \<and> list_all entry_ok es"
      and step: "directory_sector_step bs size n_ids major es (enumerate 0 locs ! i) = Inr es'"
    from i step have "fold_result (entry_step bs ?eps n_ids major i (sectorByteOffset (locs ! i) size))
        es [0..<?eps] = Inr es'"
      by (simp add: directory_sector_step_def nth_enumerate_eq)
    from sector_entries [OF this] es
    show "map de_streamId es' = [0..<Suc (0 + i) * ?eps] \<and> list_all entry_ok es'" by simp
  qed simp
  moreover from this have "length (oe_entries d) = (0 + length (enumerate 0 locs)) * ?eps"
    by (metis length_map length_upt minus_nat.diff_0)
  ultimately show "map de_streamId (oe_entries d) = [0..<length (oe_entries d)]"
    "list_all entry_ok (oe_entries d)" by simp_all
qed

lemma entry_at:
  assumes "verifyOleDirectoryEntries bs = Inr d" and "i < length (oe_entries d)"
  shows "de_streamId (oe_entries d ! i) = i" and "entry_ok (oe_entries d ! i)"
proof -
  have "map de_streamId (oe_entries d) ! i = [0..<length (oe_entries d)] ! i"
    using directory_entries(1) [OF assms(1)] by simp
  with assms(2) show "de_streamId (oe_entries d ! i) = i" by simp
  show "entry_ok (oe_entries d ! i)"
    using directory_entries(2) [OF assms(1)] assms(2) by (simp add: list_all_length)
qed

end
