(* ===== verification/OleTree.thy ===== *)
theory OleTree
  imports OleNames "HOL-Library.Tree"
begin

text \<open>
  The lemmas of the OLE reader on the directory tree: the comparison of names is the order of a
  key, and a verified directory is a forest of search trees that owns every entry once.
\<close>

section \<open>The order of names\<close>

definition upper_unit :: "case_table \<Rightarrow> nat \<Rightarrow> nat" where
  "upper_unit table u =
     (if 0xd800 \<le> u \<and> u \<le> 0xdfff then u else upper_search table u 0 (int (length table) - 1))"

definition name_key :: "case_table \<Rightarrow> units \<Rightarrow> nat list" where
  "name_key table name = length name # map (upper_unit table) name"

definition sign_of :: "nat list \<Rightarrow> nat list \<Rightarrow> int" where
  "sign_of l r = (if l < r then -1 else if l = r then 0 else 1)"

lemma simple_uppercase: "u \<le> 0xffff \<Longrightarrow> simpleUppercase table u = Inr (upper_unit table u)"
  by (simp add: simpleUppercase_def upper_unit_def)

lemma compare_units_order:
  assumes "length l = length r" "units_ok l" "units_ok r"
  shows "compare_units table l r = Inr (sign_of (map (upper_unit table) l) (map (upper_unit table) r))"
  using assms
proof (induction l r rule: list_induct2)
  case (Cons x xs y ys)
  then show ?case by (auto simp: simple_uppercase sign_of_def)
qed (simp add: sign_of_def)

lemma compare_names_order:
  assumes "units_ok l" "units_ok r"
  shows "compareDirectoryNames table l r = Inr (sign_of (name_key table l) (name_key table r))"
  using assms compare_units_order [of l r table]
  by (auto simp: compareDirectoryNames_def name_key_def sign_of_def)

definition name_before :: "case_table \<Rightarrow> units \<Rightarrow> units \<Rightarrow> bool" where
  "name_before table l r =
     (case compareDirectoryNames table l r of Inl _ \<Rightarrow> False | Inr c \<Rightarrow> c \<le> 0)"

lemma name_before_key:
  "units_ok l \<Longrightarrow> units_ok r \<Longrightarrow> name_before table l r \<longleftrightarrow> name_key table l \<le> name_key table r"
  by (auto simp: name_before_def compare_names_order sign_of_def)

interpretation name_order: comparison units_ok "name_before table" for table
  by unfold_locales (auto simp: name_before_key)

section \<open>Trees of siblings\<close>

fun represents :: "OleEntry list \<Rightarrow> nat option \<Rightarrow> nat tree \<Rightarrow> bool" where
  "represents es i \<langle>\<rangle> \<longleftrightarrow> i = None"
| "represents es i \<langle>l, j, r\<rangle> \<longleftrightarrow> i = Some j \<and> j < length es \<and>
     represents es (de_leftSiblingId (es ! j)) l \<and> represents es (de_rightSiblingId (es ! j)) r"

definition node_name :: "OleEntry list \<Rightarrow> nat \<Rightarrow> units" where
  "node_name es i = or_else (de_name (es ! i)) []"

definition name_between :: "case_table \<Rightarrow> units option \<Rightarrow> units option \<Rightarrow> units \<Rightarrow> bool" where
  "name_between table lo hi name \<longleftrightarrow>
     pred_option (\<lambda>b. name_key table b < name_key table name) lo \<and>
     pred_option (\<lambda>b. name_key table name < name_key table b) hi"

fun search_tree :: "case_table \<Rightarrow> OleEntry list \<Rightarrow> units option \<Rightarrow> units option \<Rightarrow> nat tree \<Rightarrow> bool" where
  "search_tree table es lo hi \<langle>\<rangle> \<longleftrightarrow> True"
| "search_tree table es lo hi \<langle>l, i, r\<rangle> \<longleftrightarrow>
     name_between table lo hi (node_name es i) \<and>
     search_tree table es lo (Some (node_name es i)) l \<and>
     search_tree table es (Some (node_name es i)) hi r"

fun no_red_red :: "OleEntry list \<Rightarrow> OleColor option \<Rightarrow> nat tree \<Rightarrow> bool" where
  "no_red_red es parent \<langle>\<rangle> \<longleftrightarrow> True"
| "no_red_red es parent \<langle>l, i, r\<rangle> \<longleftrightarrow>
     \<not> (parent = Some Red \<and> de_color (es ! i) = Some Red) \<and>
     no_red_red es (de_color (es ! i)) l \<and> no_red_red es (de_color (es ! i)) r"

definition node_ok :: "OleEntry list \<Rightarrow> nat \<Rightarrow> bool" where
  "node_ok es i \<longleftrightarrow> i < length es \<and> de_objectType (es ! i) \<in> {Storage, Stream}"

definition tree_of :: "case_table \<Rightarrow> OleEntry list \<Rightarrow> PendingNode \<Rightarrow> nat tree \<Rightarrow> bool" where
  "tree_of table es n t \<longleftrightarrow>
     represents es (Some (pn_streamId n)) t \<and>
     search_tree table es (pn_lowerName n) (pn_upperName n) t \<and>
     no_red_red es (pn_parentColor n) t \<and> (\<forall>i \<in> set_tree t. node_ok es i)"

definition bounds_ok :: "PendingNode \<Rightarrow> bool" where
  "bounds_ok n \<longleftrightarrow> pred_option units_ok (pn_lowerName n) \<and> pred_option units_ok (pn_upperName n)"

lemma entry_name_ok: "entry_ok e \<Longrightarrow> de_name e = Some name \<Longrightarrow> units_ok name"
  by (simp add: entry_ok_def)

lemma out_of_order_between:
  assumes "units_ok name" "bounds_ok n"
  shows "out_of_order table name n =
    Inr (\<not> name_between table (pn_lowerName n) (pn_upperName n) name)"
proof -
  have "c = sign_of l r \<Longrightarrow> (c \<le> 0 \<longleftrightarrow> l \<le> r) \<and> (0 \<le> c \<longleftrightarrow> r \<le> l)" for c l r
    by (auto simp: sign_of_def)
  then show ?thesis
    using assms
    by (cases "pn_lowerName n"; cases "pn_upperName n")
      (auto simp: out_of_order_def beyond_def name_between_def bounds_ok_def or_result_def
        compare_names_order not_le not_less)
qed

lemma visited_node:
  assumes "visit_node table es owned n = Inr (e, name)" and "list_all entry_ok es" and "bounds_ok n"
  shows "e = es ! pn_streamId n" and "node_ok es (pn_streamId n)" and "name = node_name es (pn_streamId n)"
    and "units_ok name" and "name_between table (pn_lowerName n) (pn_upperName n) name"
    and "\<not> (pn_parentColor n = Some Red \<and> de_color e = Some Red)"
    and "de_streamId e = pn_streamId n"
proof -
  note v = visit_node_owned [OF assms(1)]
  show "e = es ! pn_streamId n" "node_ok es (pn_streamId n)" "de_streamId e = pn_streamId n"
    using v by (auto simp: node_ok_def)
  show "name = node_name es (pn_streamId n)" using v by (simp add: node_name_def)
  show ok: "units_ok name"
    using v assms(2) entry_name_ok [of e name] by (auto simp: list_all_length)
  have o: "out_of_order table name n = Inr False"
    and "\<not> (pn_parentColor n = Some Red \<and> de_color e = Some Red)"
    using assms(1)
    by (auto simp: visit_node_def bind_result_Inr invalidNode_def tree_color_error_def
        split: if_splits option.splits)
  then show "\<not> (pn_parentColor n = Some Red \<and> de_color e = Some Red)" by simp
  show "name_between table (pn_lowerName n) (pn_upperName n) name"
    using o out_of_order_between [OF ok assms(3)] by simp
qed

lemma sibling_bounds:
  assumes "bounds_ok n" and "units_ok name"
  shows "\<forall>m \<in> set (sibling_nodes e name n). bounds_ok m"
  using assms by (auto simp: sibling_nodes_def bounds_ok_def split: option.splits)

lemma sibling_trees:
  assumes "list_all2 (tree_of table es) (sibling_nodes e name n) ts"
  obtains l r where "concat (map preorder ts) = preorder l @ preorder r"
    and "represents es (de_leftSiblingId e) l" and "represents es (de_rightSiblingId e) r"
    and "search_tree table es (pn_lowerName n) (Some name) l"
    and "search_tree table es (Some name) (pn_upperName n) r"
    and "no_red_red es (de_color e) l" and "no_red_red es (de_color e) r"
    and "\<forall>i \<in> set_tree l \<union> set_tree r. node_ok es i"
proof -
  have leaf: "represents es None \<langle>\<rangle>" by simp
  show thesis
  proof (cases "de_leftSiblingId e")
    case None
    show thesis
    proof (cases "de_rightSiblingId e")
      case None
      with \<open>de_leftSiblingId e = None\<close> assms show thesis
        by (intro that [of "\<langle>\<rangle>" "\<langle>\<rangle>"]) (auto simp: sibling_nodes_def)
    next
      case (Some j)
      with None assms show thesis
        by (auto simp: sibling_nodes_def list_all2_Cons1 tree_of_def intro!: that [of "\<langle>\<rangle>"])
    qed
  next
    case (Some i)
    show thesis
    proof (cases "de_rightSiblingId e")
      case None
      with Some assms show thesis
        by (auto simp: sibling_nodes_def list_all2_Cons1 tree_of_def intro!: that [of _ "\<langle>\<rangle>"])
    next
      case (Some j)
      with \<open>de_leftSiblingId e = Some i\<close> assms show thesis
        by (auto simp: sibling_nodes_def list_all2_Cons1 tree_of_def intro!: that)
    qed
  qed
qed

definition children :: "OleEntry list \<Rightarrow> nat list \<Rightarrow> nat list" where
  "children es is = concat (map (\<lambda>i. storage_children (es ! i)) is)"

lemma children_simps [simp]:
  "children es [] = []" "children es (i # is) = storage_children (es ! i) @ children es is"
  "children es (is @ js) = children es is @ children es js"
  by (simp_all add: children_def)

lemma sibling_forest:
  assumes "list_all entry_ok es"
  shows "sibling_loop table es owned trees pending = Inr (owned', trees') \<Longrightarrow>
    \<forall>n \<in> set pending. bounds_ok n \<Longrightarrow>
    \<exists>ts. list_all2 (tree_of table es) pending ts \<and> owned' = owned @ concat (map preorder ts) \<and>
      mset trees' = mset trees + mset (children es (concat (map preorder ts)))"
  using assms
proof (induction table es owned trees pending rule: sibling_loop.induct)
  case (1 table es owned trees)
  then show ?case by (auto intro: exI [of _ "[]"])
next
  case (2 table es owned trees n pending)
  then obtain e name where v: "visit_node table es owned n = Inr (e, name)"
    and l: "sibling_loop table es (owned @ [pn_streamId n]) (storage_children e @ trees)
      (sibling_nodes e name n @ pending) = Inr (owned', trees')"
    by (auto split: sum.splits prod.splits)
  have bn: "bounds_ok n" using "2.prems"(2) by simp
  note vis = visited_node [OF v "2.prems"(3) bn]
  have "\<forall>m \<in> set (sibling_nodes e name n @ pending). bounds_ok m"
    using sibling_bounds [OF bn vis(4)] "2.prems"(2) by auto
  from "2.IH" [OF v refl l this "2.prems"(3)] obtain ts where
    ts: "list_all2 (tree_of table es) (sibling_nodes e name n @ pending) ts"
    "owned' = (owned @ [pn_streamId n]) @ concat (map preorder ts)"
    "mset trees' = mset (storage_children e @ trees) + mset (children es (concat (map preorder ts)))"
    by blast
  from ts(1) obtain sub rest where sub: "ts = sub @ rest"
    "list_all2 (tree_of table es) (sibling_nodes e name n) sub" "list_all2 (tree_of table es) pending rest"
    by (auto simp: list_all2_append1)
  from sibling_trees [OF sub(2)] obtain lt rt where lr:
    "concat (map preorder sub) = preorder lt @ preorder rt"
    "represents es (de_leftSiblingId e) lt" "represents es (de_rightSiblingId e) rt"
    "search_tree table es (pn_lowerName n) (Some name) lt"
    "search_tree table es (Some name) (pn_upperName n) rt"
    "no_red_red es (de_color e) lt" "no_red_red es (de_color e) rt"
    "\<forall>i \<in> set_tree lt \<union> set_tree rt. node_ok es i" by blast
  have "tree_of table es n \<langle>lt, pn_streamId n, rt\<rangle>"
    using lr(2-8) vis by (auto simp: tree_of_def node_ok_def)
  then have "list_all2 (tree_of table es) (n # pending) (\<langle>lt, pn_streamId n, rt\<rangle> # rest)"
    using sub(3) by simp
  moreover have "owned' = owned @ concat (map preorder (\<langle>lt, pn_streamId n, rt\<rangle> # rest))"
    using ts(2) sub(1) lr(1) by simp
  moreover have "mset trees' = mset trees +
      mset (children es (concat (map preorder (\<langle>lt, pn_streamId n, rt\<rangle> # rest))))"
    using ts(3) sub(1) lr(1) vis(1) by simp
  ultimately show ?case by blast
qed

section \<open>The forest\<close>

definition sibling_tree :: "case_table \<Rightarrow> OleEntry list \<Rightarrow> nat tree \<Rightarrow> bool" where
  "sibling_tree table es t \<longleftrightarrow>
     t \<noteq> \<langle>\<rangle> \<and> represents es (Some (value t)) t \<and> search_tree table es None None t \<and>
     de_color (es ! value t) = Some Black \<and> no_red_red es None t \<and> (\<forall>i \<in> set_tree t. node_ok es i)"

lemma represents_value: "represents es (Some i) t \<Longrightarrow> t \<noteq> \<langle>\<rangle> \<and> value t = i"
  by (cases t) auto

lemma child_tree:
  assumes "verifyChildTree table es owned trees r = Inr (owned', trees')" and "list_all entry_ok es"
  obtains t where "sibling_tree table es t" and "value t = r" and "owned' = owned @ preorder t"
    and "mset trees' = mset trees + mset (children es (preorder t))" and "distinct owned \<Longrightarrow> distinct owned'"
proof -
  obtain e where e: "readTreeNode es r = Inr e" "de_color e = Some Black"
    and l: "sibling_loop table es owned trees
      [\<lparr>pn_streamId = de_streamId e, pn_lowerName = None, pn_upperName = None, pn_parentColor = None\<rparr>] =
      Inr (owned', trees')"
    using assms by (auto simp: verifyChildTree_def bind_result_Inr tree_color_error_def split: if_splits)
  have er: "e = es ! r" "de_streamId e = r"
    using e(1) by (auto simp: readTreeNode_def invalidNode_def Let_def split: if_splits)
  from sibling_forest [OF assms(2) l] obtain t where t: "tree_of table es
      \<lparr>pn_streamId = r, pn_lowerName = None, pn_upperName = None, pn_parentColor = None\<rparr> t"
    "owned' = owned @ preorder t" "mset trees' = mset trees + mset (children es (preorder t))"
    by (auto simp: bounds_ok_def list_all2_Cons1 er(2))
  have "represents es (Some r) t" using t(1) by (simp add: tree_of_def)
  note v = represents_value [OF this]
  have "sibling_tree table es t"
    using t(1) v e(2) er(1) by (auto simp: sibling_tree_def tree_of_def)
  with v t(2,3) sibling_loop_owned(4) [OF l] show thesis by (intro that [of t]) auto
qed

lemma tree_loop_forest:
  assumes "list_all entry_ok es"
  shows "tree_loop table es owned roots = Inr owned' \<Longrightarrow>
    \<exists>ts. owned' = owned @ concat (map preorder ts) \<and> (\<forall>t \<in> set ts. sibling_tree table es t) \<and>
      mset (map value ts) = mset roots + mset (children es (concat (map preorder ts))) \<and>
      (distinct owned \<longrightarrow> distinct owned')"
  using assms
proof (induction table es owned roots rule: tree_loop.induct)
  case (1 table es owned)
  then show ?case by (auto intro: exI [of _ "[]"])
next
  case (2 table es owned r trees)
  then obtain owned1 trees1 where c: "verifyChildTree table es owned trees r = Inr (owned1, trees1)"
    and l: "tree_loop table es owned1 trees1 = Inr owned'"
    by (auto split: sum.splits prod.splits)
  from child_tree [OF c "2.prems"(2)] obtain t where t: "sibling_tree table es t" "value t = r"
    "owned1 = owned @ preorder t" "mset trees1 = mset trees + mset (children es (preorder t))"
    "distinct owned \<Longrightarrow> distinct owned1" by blast
  from "2.IH" [OF c refl l "2.prems"(2)] obtain ts where ts:
    "owned' = owned1 @ concat (map preorder ts)" "\<forall>t \<in> set ts. sibling_tree table es t"
    "mset (map value ts) = mset trees1 + mset (children es (concat (map preorder ts)))"
    "distinct owned1 \<longrightarrow> distinct owned'" by blast
  show ?case
    by (rule exI [of _ "t # ts"]) (use t ts in \<open>simp\<close>)
qed

lemma search_tree_between:
  "search_tree table es lo hi t \<Longrightarrow> i \<in> set_tree t \<Longrightarrow> name_between table lo hi (node_name es i)"
proof (induction t arbitrary: lo hi)
  case (Node l j r)
  from Node.prems consider "i = j" | "i \<in> set_tree l" | "i \<in> set_tree r" by auto
  then show ?case
  proof cases
    case 2
    with Node.IH(1) Node.prems(1) have "name_between table lo (Some (node_name es j)) (node_name es i)"
      by simp
    with Node.prems(1) show ?thesis
      by (cases hi) (auto simp: name_between_def intro: less_trans)
  next
    case 3
    with Node.IH(2) Node.prems(1) have "name_between table (Some (node_name es j)) hi (node_name es i)"
      by simp
    with Node.prems(1) show ?thesis
      by (cases lo) (auto simp: name_between_def intro: less_trans)
  qed (use Node.prems in simp)
qed simp

lemma search_tree_sorted:
  "search_tree table es lo hi t \<Longrightarrow>
   sorted_wrt (<) (map (\<lambda>i. name_key table (node_name es i)) (inorder t))"
proof (induction t arbitrary: lo hi)
  case (Node l j r)
  have "name_key table (node_name es i) < name_key table (node_name es j)" if "i \<in> set_tree l" for i
    using search_tree_between [of table es lo "Some (node_name es j)" l i] Node.prems that
    by (simp add: name_between_def)
  moreover have "name_key table (node_name es j) < name_key table (node_name es i)" if "i \<in> set_tree r" for i
    using search_tree_between [of table es "Some (node_name es j)" hi r i] Node.prems that
    by (simp add: name_between_def)
  ultimately show ?case
    using Node by (auto simp: sorted_wrt_append intro: less_trans)
qed simp

lemma preorder_nodes:
  "\<forall>t \<in> set ts. sibling_tree table es t \<Longrightarrow> i \<in> set (concat (map preorder ts)) \<Longrightarrow> node_ok es i"
  by (auto simp: sibling_tree_def)

section \<open>The reads of the tree\<close>

lemma coded_visit:
  assumes "list_all entry_ok es" "bounds_ok n"
  shows "coded (visit_node table es owned n)"
proof -
  have "coded (readTreeNode es i)" for i by (simp add: readTreeNode_def Let_def)
  moreover have "coded (out_of_order table name n)"
    if "readTreeNode es (pn_streamId n) = Inr e" "de_name e = Some name" for e name
  proof -
    have "e \<in> set es" using that(1) by (auto simp: readTreeNode_def invalidNode_def Let_def split: if_splits)
    with assms(1) that(2) have "units_ok name" by (auto simp: list_all_iff entry_name_ok)
    then show ?thesis using assms(2) by (simp add: out_of_order_between)
  qed
  ultimately show ?thesis
    by (auto simp: visit_node_def intro!: coded_bind split: option.split)
qed

lemma coded_siblings:
  assumes "list_all entry_ok es"
  shows "\<forall>n \<in> set pending. bounds_ok n \<Longrightarrow> coded (sibling_loop table es owned trees pending)"
  using assms
proof (induction table es owned trees pending rule: sibling_loop.induct)
  case (2 table es owned trees n pending)
  have bn: "bounds_ok n" using "2.prems"(1) by simp
  note vc = coded_visit [OF "2.prems"(2) bn, of table owned]
  show ?case
  proof (cases "visit_node table es owned n")
    case (Inl x)
    with vc show ?thesis by (simp add: coded_def)
  next
    case (Inr p)
    obtain e name where p: "p = (e, name)" by (cases p)
    note vis = visited_node [OF Inr [unfolded p] "2.prems"(2) bn]
    have "\<forall>m \<in> set (sibling_nodes e name n @ pending). bounds_ok m"
      using sibling_bounds [OF bn vis(4)] "2.prems"(1) by auto
    from "2.IH" [OF Inr p [symmetric] this "2.prems"(2)] show ?thesis by (simp add: Inr p)
  qed
qed simp

lemma coded_tree_loop:
  assumes "list_all entry_ok es"
  shows "coded (tree_loop table es owned roots)"
  using assms
proof (induction table es owned roots rule: tree_loop.induct)
  case (2 table es owned r trees)
  have c: "coded (verifyChildTree table es owned trees r)"
    unfolding verifyChildTree_def
  proof (rule coded_bind)
    show "coded (readTreeNode es r)" by (simp add: readTreeNode_def Let_def)
    show "coded (if de_color e \<noteq> Some Black then tree_color_error
      else sibling_loop table es owned trees
        [\<lparr>pn_streamId = de_streamId e, pn_lowerName = None, pn_upperName = None,
          pn_parentColor = None\<rparr>])" for e
      using coded_siblings [OF "2.prems", of "[\<lparr>pn_streamId = de_streamId e, pn_lowerName = None,
        pn_upperName = None, pn_parentColor = None\<rparr>]" table owned trees]
      by (simp add: bounds_ok_def del: sibling_loop.simps)
  qed
  show ?case
  proof (cases "verifyChildTree table es owned trees r")
    case (Inl x)
    with c show ?thesis by (simp add: coded_def)
  next
    case (Inr p)
    with "2.IH" "2.prems" show ?thesis by (cases p) auto
  qed
qed simp

lemma coded_tree: "coded (verifyOleDirectoryTree table bs)"
  unfolding verifyOleDirectoryTree_def
  by (auto intro!: coded_bind coded_entries coded_tree_loop directory_entries(2) split: list.split)

end
