(* ===== verification/OleContents.thy ===== *)
theory OleContents
  imports OleTree
begin

text \<open>
  The lemmas of the OLE reader on the contents of streams: the projection copies, sector by
  sector, the bytes that the chain of the stream names, and it never fails on a verified stream.
\<close>

section \<open>Sizes\<close>

lemma divideRoundUp_covers: "0 < d \<Longrightarrow> n \<le> d * divideRoundUp n d"
proof -
  assume d: "0 < d"
  have "(n + d - 1) div d * d + (n + d - 1) mod d = n + d - 1" by (rule div_mult_mod_eq)
  moreover have "(n + d - 1) mod d < d" using d by simp
  ultimately have "n \<le> (n + d - 1) div d * d" by linarith
  then show ?thesis by (simp add: divideRoundUp_def mult.commute)
qed

lemma below_divideRoundUp:
  assumes "0 < d" shows "m < divideRoundUp n d \<longleftrightarrow> d * m < n"
proof -
  have "m < (n + d - 1) div d \<longleftrightarrow> Suc m * d \<le> n + d - 1"
    using less_eq_div_iff_mult_less_eq [OF assms, of "Suc m" "n + d - 1"] by (simp add: Suc_le_eq)
  also have "\<dots> \<longleftrightarrow> d * m < n" using assms by (auto simp: mult.commute)
  finally show ?thesis by (simp add: divideRoundUp_def)
qed

section \<open>Blocks\<close>

lemma length_blocks: "\<forall>b \<in> set bs. length b = n \<Longrightarrow> length (concat bs) = n * length bs"
  by (induction bs) auto

lemma drop_blocks:
  assumes "\<forall>b \<in> set bs. length b = n" and "q < length bs"
  shows "drop (q * n) (concat bs) = bs ! q @ concat (drop (Suc q) bs)"
proof -
  have "concat bs = concat (take q bs) @ concat (drop q bs)"
    by (metis append_take_drop_id concat_append)
  moreover have "length (concat (take q bs)) = q * n"
    using length_blocks [of "take q bs" n] assms in_set_takeD [of _ q bs] by (auto simp: mult.commute)
  moreover have "drop q bs = bs ! q # drop (Suc q) bs" using assms(2) by (simp add: Cons_nth_drop_Suc)
  ultimately show ?thesis by simp
qed

lemma slice_of_block:
  assumes "\<forall>b \<in> set bs. length b = n" and "p div n < length bs" and "p mod n + k \<le> n"
  shows "take k (drop p (concat bs)) = take k (drop (p mod n) (bs ! (p div n)))"
proof -
  have "drop p (concat bs) = drop (p mod n) (drop (p div n * n) (concat bs))"
    by (simp add: add.commute div_mult_mod_eq)
  also have "\<dots> = drop (p mod n) (bs ! (p div n)) @ concat (drop (Suc (p div n)) bs)"
    using drop_blocks [OF assms(1,2)] assms by simp
  finally show ?thesis using assms by simp
qed

section \<open>Contents\<close>

definition file_sector :: "nat \<Rightarrow> bytes \<Rightarrow> nat \<Rightarrow> bytes" where
  "file_sector sectorSize input s = take sectorSize (drop (sectorByteOffset s sectorSize) input)"

text \<open>
  What a stream holds, without offsets: a large stream the sectors of its chain, the mini stream
  the sectors of the root, a small stream the 64-byte parts of the mini stream that its chain names.
\<close>

definition mini_stream :: "nat \<Rightarrow> bytes \<Rightarrow> nat list \<Rightarrow> bytes" where
  "mini_stream sectorSize input rootLocations =
     concat (map (file_sector sectorSize input) rootLocations)"

definition mini_sector :: "nat \<Rightarrow> bytes \<Rightarrow> nat list \<Rightarrow> nat \<Rightarrow> bytes" where
  "mini_sector sectorSize input rootLocations m =
     take 64 (drop (64 * m) (mini_stream sectorSize input rootLocations))"

definition stream_content :: "nat \<Rightarrow> bytes \<Rightarrow> nat list \<Rightarrow> OleUserStream \<Rightarrow> bytes" where
  "stream_content sectorSize input rootLocations s =
     take (str_nat (us_streamSize s))
       (concat (map (if us_allocation s = MiniFatAllocation
                     then mini_sector sectorSize input rootLocations
                     else file_sector sectorSize input) (us_sectorLocations s)))"

lemma project_fold:
  fixes input :: bytes and rl :: "nat list" and ss size :: nat and stream :: OleUserStream
  defines "c \<equiv> (if us_allocation stream = MiniFatAllocation then 64 else ss)"
  assumes "\<forall>s \<in> set ls. \<exists>off. sourceOffsetOf stream ss rl s = Inr off \<and> off + c \<le> length input \<and>
      chunk s = take c (drop off input)"
    and "length input \<le> MAX_SAFE_LENGTH" and "length target = size" and "k \<le> size"
  shows "\<exists>target'. fold_result (project_step input stream ss rl size) (target, k) ls =
      Inr (target', min size (k + c * length ls)) \<and> length target' = size \<and>
      take (min size (k + c * length ls)) target' =
        take k target @ take (size - k) (concat (map chunk ls))"
  using assms(2-)
proof (induction ls arbitrary: target k)
  case (Cons s ls)
  obtain off where off: "sourceOffsetOf stream ss rl s = Inr off" "off + c \<le> length input"
    "chunk s = take c (drop off input)"
    using Cons.prems(1) by auto
  define n where "n = min c (size - k)"
  define target1 where "target1 = take k target @ take n (drop off input) @ drop (k + n) target"
  have len1: "length target1 = size" "k + n \<le> size"
    using off(2) Cons.prems(3,4) by (auto simp: target1_def n_def)
  have step: "project_step input stream ss rl size (target, k) s = Inr (target1, k + n)"
  proof (cases "k = size")
    case True
    then show ?thesis using Cons.prems(3) by (simp add: project_step_def target1_def n_def)
  next
    case False
    then have "copyRange input off target k n = Inr target1"
      using off(2) Cons.prems(2,3) len1(2)
      by (auto simp: copyRange_def target1_def n_def)
    with False off(1) show ?thesis
      by (simp add: project_step_def c_def [symmetric] n_def [symmetric])
  qed
  have "\<forall>s \<in> set ls. \<exists>off. sourceOffsetOf stream ss rl s = Inr off \<and> off + c \<le> length input \<and>
      chunk s = take c (drop off input)"
    using Cons.prems(1) by auto
  from Cons.IH [OF this Cons.prems(2) len1] obtain target' where t:
    "fold_result (project_step input stream ss rl size) (target1, k + n) ls =
      Inr (target', min size (k + n + c * length ls))" "length target' = size"
    "take (min size (k + n + c * length ls)) target' =
      take (k + n) target1 @ take (size - (k + n)) (concat (map chunk ls))" by blast
  have e: "min size (k + n + c * length ls) = min size (k + c * length (s # ls))"
    by (auto simp: n_def)
  have lc: "length (chunk s) = c" using off(2,3) by simp
  have "take (k + n) target1 = take k target @ take n (chunk s)"
    using off(2,3) Cons.prems(3,4) by (simp add: target1_def n_def)
  moreover have "take n (chunk s) @ take (size - (k + n)) (concat (map chunk ls)) =
      take (size - k) (concat (map chunk (s # ls)))"
    using lc by (simp add: n_def min_def)
  ultimately show ?case using t step by (simp add: e)
qed simp

section \<open>Projection\<close>

lemma sector_in_file:
  assumes "sector_layout bs h" and "s < oh_fileSectorCount h"
  shows "sectorByteOffset s (oh_sectorSize h) + oh_sectorSize h \<le> length bs"
proof -
  have "(s + 2) * oh_sectorSize h \<le> (oh_fileSectorCount h + 1) * oh_sectorSize h"
    using assms(2) by (intro mult_le_mono1) simp
  then show ?thesis using assms(1) by (simp add: sectorByteOffset_def sector_layout_def algebra_simps)
qed

lemma length_file_sector:
  "sector_layout bs h \<Longrightarrow> s < oh_fileSectorCount h \<Longrightarrow>
   length (file_sector (oh_sectorSize h) bs s) = oh_sectorSize h"
  using sector_in_file [of bs h s] by (simp add: file_sector_def)

text \<open>The layout the projection rests on, from the phases that verified it.\<close>

lemma stream_layout:
  assumes "verifyOleUserStreamAllocation table bs = Inr a" and "verifyOleRootMiniStream table bs = Inr r"
    and "s \<in> set (oa_streams a)"
  obtains h fe me where "sector_layout bs h" "oa_sectorSize a = oh_sectorSize h"
    "length fe = oh_fileSectorCount h"
    "stream_ok (oh_sectorSize h) fe me (or_rootMiniSectorCount r) s"
    "\<forall>l \<in> set (or_rootMiniStreamSectorLocations r). l < oh_fileSectorCount h"
    "\<forall>m < or_rootMiniSectorCount r.
       64 * m div oh_sectorSize h < length (or_rootMiniStreamSectorLocations r)"
proof -
  from assms(1) obtain tree miniFat fat r' st where a:
    "verifyOleDirectoryTree table bs = Inr tree" "verifyOleMiniFatEntries bs = Inr miniFat"
    "verifyOleFat bs = Inr fat" "verifyOleRootMiniStream table bs = Inr r'"
    "oa_sectorSize a = oh_sectorSize (od_header (of_difat fat))" "oa_streams a = as_streams st"
    "allocation_ok (oa_sectorSize a) (of_fatEntries fat) (om_miniFatEntries miniFat)
       (or_rootMiniSectorCount r')
       (system_sectors fat tree miniFat @ or_rootMiniStreamSectorLocations r') st"
    by (elim verified_allocation)
  have r: "r' = r" using a(4) assms(2) by simp
  define h where "h = od_header (of_difat fat)"
  have layout: "sector_layout bs h"
    using verified_header(1) difat_state_locations(1) verified_fat(1) a(3) by (metis h_def)
  have ln: "length (of_fatEntries fat) = oh_fileSectorCount h"
    using verified_fat(2) [OF a(3)] by (simp add: h_def)
  have size: "0 < oh_sectorSize h" using layout by (auto simp: sector_layout_def)
  from assms(2) obtain first n where count: "or_rootMiniSectorCount r = divideRoundUp n MINI_SECTOR_SIZE"
    and chain: "readRootChain first (divideRoundUp n (oh_sectorSize h)) (of_fatEntries fat)
      (system_sectors fat tree miniFat) = Inr (or_rootMiniStreamSectorLocations r)"
    using a(1,2,3) by (elim verified_root) (auto simp: h_def)
  note rc = read_root_chain [OF chain]
  have "64 * m div oh_sectorSize h < length (or_rootMiniStreamSectorLocations r)"
    if "m < or_rootMiniSectorCount r" for m
  proof -
    have "64 * m < n"
      using that below_divideRoundUp [of 64 m n] by (simp add: count MINI_SECTOR_SIZE_def)
    with times_div_less_eq_dividend have "oh_sectorSize h * (64 * m div oh_sectorSize h) < n"
      by (rule le_less_trans)
    then show ?thesis
      using below_divideRoundUp [OF size, of "64 * m div oh_sectorSize h" n] rc(5) by simp
  qed
  moreover have "\<forall>l \<in> set (or_rootMiniStreamSectorLocations r). l < oh_fileSectorCount h"
    using rc(4) by (simp add: isSector_def ln)
  moreover have "stream_ok (oh_sectorSize h) (of_fatEntries fat) (om_miniFatEntries miniFat)
      (or_rootMiniSectorCount r) s"
    using a(5-7) assms(3) by (simp add: allocation_ok_def r h_def)
  ultimately show thesis using that [OF layout _ ln] a(5) by (simp add: h_def)
qed

lemma mini_sector_slice:
  assumes layout: "sector_layout bs h" and "\<forall>l \<in> set rl. l < oh_fileSectorCount h"
    and i: "64 * m div oh_sectorSize h < length rl"
  shows "\<exists>off. miniSectorFileOffset m (oh_sectorSize h) rl = Inr off \<and> off + 64 \<le> length bs \<and>
    mini_sector (oh_sectorSize h) bs rl m = take 64 (drop off bs)"
proof -
  let ?ss = "oh_sectorSize h" and ?q = "64 * m div oh_sectorSize h" and ?p = "64 * m mod oh_sectorSize h"
  have s: "rl ! ?q < oh_fileSectorCount h" using assms(2) i by simp
  have fit: "?p + 64 \<le> ?ss"
  proof -
    from layout consider "?ss = 512" | "?ss = 4096" by (auto simp: sector_layout_def)
    then show ?thesis
      using mult_mod_right [of 64 m 8] mult_mod_right [of 64 m 64] mod_less_divisor [of 8 m]
        mod_less_divisor [of 64 m] by cases auto
  qed
  have "mini_sector ?ss bs rl m = take 64 (drop ?p (file_sector ?ss bs (rl ! ?q)))"
    unfolding mini_sector_def mini_stream_def
    using slice_of_block [of "map (file_sector ?ss bs) rl" ?ss "64 * m" 64]
      length_file_sector [OF layout] assms(2) i fit by simp
  also have "\<dots> = take 64 (drop (sectorByteOffset (rl ! ?q) ?ss + ?p) bs)"
    using fit by (simp add: file_sector_def drop_take min_def add.commute)
  finally show ?thesis
    using i sector_in_file [OF layout s] fit
    by (intro exI [of _ "sectorByteOffset (rl ! ?q) ?ss + ?p"])
      (simp add: miniSectorFileOffset_def Let_def mult.commute [of m])
qed

lemma verified_stream_projects:
  assumes "verifyOleUserStreamAllocation table bs = Inr a" and "verifyOleRootMiniStream table bs = Inr r"
    and s: "s \<in> set (oa_streams a)" and "length bs \<le> MAX_SAFE_LENGTH"
    and "alloc (str_nat (us_streamSize s))"
  shows "projectStream alloc bs (oa_sectorSize a) (or_rootMiniStreamSectorLocations r) s =
      Inr (s, stream_content (oa_sectorSize a) bs (or_rootMiniStreamSectorLocations r) s)"
    and "length (stream_content (oa_sectorSize a) bs (or_rootMiniStreamSectorLocations r) s) =
      str_nat (us_streamSize s)"
proof -
  let ?rl = "or_rootMiniStreamSectorLocations r" and ?size = "str_nat (us_streamSize s)"
    and ?ls = "us_sectorLocations s"
  obtain h fe me where layout: "sector_layout bs h" "oa_sectorSize a = oh_sectorSize h"
    and fe: "length fe = oh_fileSectorCount h"
    and ok: "stream_ok (oh_sectorSize h) fe me (or_rootMiniSectorCount r) s"
    and rl: "\<forall>l \<in> set ?rl. l < oh_fileSectorCount h"
    and mini: "\<forall>m < or_rootMiniSectorCount r. 64 * m div oh_sectorSize h < length ?rl"
    using stream_layout [OF assms(1,2) s] by blast
  let ?ss = "oh_sectorSize h"
  define chunk where "chunk = (if us_allocation s = MiniFatAllocation
    then mini_sector ?ss bs ?rl else file_sector ?ss bs)"
  define c where "c = (if us_allocation s = MiniFatAllocation then 64 else ?ss)"
  have ss: "0 < ?ss" using layout(1) by (auto simp: sector_layout_def)
  have chunks: "\<forall>l \<in> set ?ls. \<exists>off. sourceOffsetOf s ?ss ?rl l = Inr off \<and> off + c \<le> length bs \<and>
      chunk l = take c (drop off bs)"
  proof
    fix l assume l: "l \<in> set ?ls"
    show "\<exists>off. sourceOffsetOf s ?ss ?rl l = Inr off \<and> off + c \<le> length bs \<and>
      chunk l = take c (drop off bs)"
    proof (cases "us_allocation s = MiniFatAllocation")
      case True
      with ok l mini have "64 * l div ?ss < length ?rl" by (simp add: stream_ok_def Let_def)
      from mini_sector_slice [OF layout(1) rl this] True show ?thesis
        by (simp add: sourceOffsetOf_def c_def chunk_def)
    next
      case False
      with ok l fe have "l < oh_fileSectorCount h"
        by (cases "us_allocation s") (auto simp: stream_ok_def Let_def)
      with sector_in_file [OF layout(1)] False show ?thesis
        by (simp add: sourceOffsetOf_def c_def chunk_def file_sector_def)
    qed
  qed
  have enough: "?size \<le> c * length ?ls"
  proof (cases "us_allocation s")
    case EmptyAllocation
    with ok show ?thesis by (simp add: stream_ok_def Let_def)
  next
    case MiniFatAllocation
    with ok have "64 * divideRoundUp ?size 64 \<le> 64 * length ?ls"
      by (simp add: stream_ok_def Let_def MINI_SECTOR_SIZE_def)
    with divideRoundUp_covers [of 64 ?size] have "?size \<le> 64 * length ?ls" by linarith
    then show ?thesis using MiniFatAllocation by (simp add: c_def)
  next
    case FatAllocation
    with ok have "?ss * divideRoundUp ?size ?ss \<le> ?ss * length ?ls"
      by (simp add: stream_ok_def Let_def)
    then have "?size \<le> ?ss * length ?ls" by (rule order_trans [OF divideRoundUp_covers [OF ss]])
    then show ?thesis using FatAllocation by (simp add: c_def)
  qed
  have content: "stream_content (oa_sectorSize a) bs ?rl s = take ?size (concat (map chunk ?ls))"
    by (simp add: stream_content_def chunk_def layout(2))
  have "\<forall>b \<in> set (map chunk ?ls). length b = c" using chunks by auto
  from length_blocks [OF this] enough
  show "length (stream_content (oa_sectorSize a) bs ?rl s) = ?size" by (simp add: content)
  have safe: "?size \<le> MAX_SAFE_LENGTH"
  proof (cases "us_allocation s = FatAllocation")
    case True
    with ok fe have ls: "distinct ?ls" "set ?ls \<subseteq> {..<oh_fileSectorCount h}"
      by (auto simp: stream_ok_def Let_def)
    then have "length ?ls \<le> oh_fileSectorCount h"
      using card_mono [OF _ ls(2)] distinct_card [OF ls(1)] by simp
    then have "?ss * length ?ls \<le> ?ss * oh_fileSectorCount h" by simp
    also have "\<dots> \<le> length bs" using layout(1) by (simp add: sector_layout_def)
    finally show ?thesis using enough True assms(4) by (simp add: c_def)
  next
    case False
    with ok have "?size < MINI_STREAM_CUTOFF"
      by (cases "us_allocation s") (auto simp: stream_ok_def Let_def MINI_STREAM_CUTOFF_def)
    then show ?thesis by (simp add: MINI_STREAM_CUTOFF_def MAX_SAFE_LENGTH_def)
  qed
  have "\<exists>target'. fold_result (project_step bs s ?ss ?rl ?size) (replicate ?size 0, 0) ?ls =
      Inr (target', ?size) \<and> length target' = ?size \<and> take ?size target' = take ?size (concat (map chunk ?ls))"
    using project_fold [of ?ls s ?ss ?rl bs chunk "replicate ?size 0" ?size 0] chunks assms(4) enough
    by (simp add: c_def [symmetric] min_absorb1)
  then show "projectStream alloc bs (oa_sectorSize a) ?rl s =
      Inr (s, stream_content (oa_sectorSize a) bs ?rl s)"
    using safe assms(5) by (auto simp: projectStream_def safeStreamSize_def
        content [unfolded layout(2)] layout(2))
qed

section \<open>Only coded errors\<close>

lemma coded_stream_errors [simp, coded_intros]:
  "coded miniFatCapacityError" "coded root_length_mismatch" "coded invalidStart" "coded projectionError"
  by (simp_all add: miniFatCapacityError_def root_length_mismatch_def invalidStart_def projectionError_def)

lemma coded_root: "coded (verifyOleRootMiniStream table bs)"
proof -
  have "coded (verifyMiniFatCapacity es n)" for es n by (simp add: verifyMiniFatCapacity_def)
  moreover have "coded (readRootChain first n es occ)" for first n es occ
    by (auto simp: readRootChain_def intro!: coded_bind coded_walk)
  ultimately show ?thesis
    by (auto simp: verifyOleRootMiniStream_def Let_def split: list.split
        intro!: coded_bind coded_tree coded_mini_fat coded_fat)
qed

lemma coded_allocation: "coded (verifyOleUserStreamAllocation table bs)"
proof -
  have chain: "coded (readUserChain first n es limit occ)" for first n es limit occ
    by (auto simp: readUserChain_def intro!: coded_bind coded_walk)
  have step: "coded (stream_step ss fe me mc st e)" for ss fe me mc st e
    by (auto simp: stream_step_def verifyStream_def Let_def intro!: coded_bind chain split: option.split)
  have "coded (fold_result (stream_step ss fe me mc) st es)" for ss fe me mc st es
    by (rule coded_fold [where P = "\<lambda>_. True"]) (simp_all add: step)
  then show ?thesis
    by (auto simp: verifyOleUserStreamAllocation_def Let_def
        intro!: coded_bind coded_tree coded_root coded_mini_fat coded_fat)
qed

lemma coded_project: "coded (projectStream alloc bs ss rl s)"
proof -
  have "coded (copyRange src i tgt j n)" for src i tgt j n by (simp add: copyRange_def)
  moreover have "coded (sourceOffsetOf s ss rl l)" for l
    by (simp add: sourceOffsetOf_def miniSectorFileOffset_def Let_def)
  ultimately have "coded (project_step bs s ss rl size p l)" for size p l
    by (cases p) (auto simp: project_step_def Let_def intro!: coded_bind)
  then have "coded (fold_result (project_step bs s ss rl size) p ls)" for size p ls
    by (intro coded_fold [where P = "\<lambda>_. True"]) simp_all
  then show ?thesis
    by (auto simp: projectStream_def safeStreamSize_def intro!: coded_bind split: prod.split)
qed

lemma coded_projection: "coded (projectOleUserStreamBytes alloc table bs)"
proof -
  have "coded (fold_result (project_all_step alloc bs ss rl) acc ss')" for ss rl acc ss'
    by (rule coded_fold [where P = "\<lambda>_. True"])
      (auto simp: project_all_step_def intro!: coded_bind coded_project)
  then show ?thesis
    by (auto simp: projectOleUserStreamBytes_def intro!: coded_bind coded_allocation coded_root)
qed

end
