(* ===== verification/OleSample.thy ===== *)
theory OleSample
  imports OleContents
begin

text \<open>
  A small compound file for the witnesses: a header and the sectors of the FAT, the directory, the
  mini FAT and the root mini stream, with one stream \<open>A\<close> of five bytes.  The file is given by its
  640 little-endian words.
\<close>

section \<open>Words\<close>

definition le32 :: "nat \<Rightarrow> bytes" where
  "le32 n = [of_nat n, of_nat (n div 256), of_nat (n div 65536), of_nat (n div 16777216)]"

definition words_file :: "(nat \<Rightarrow> nat) \<Rightarrow> nat \<Rightarrow> bytes" where
  "words_file w n = concat (map (\<lambda>i. le32 (w i)) [0..<n])"

lemma length_words_file [simp]: "length (words_file w n) = 4 * n"
  by (induction n) (simp_all add: words_file_def le32_def)

lemma nth_words_file: "i < n \<Longrightarrow> k < 4 \<Longrightarrow> words_file w n ! (4 * i + k) = le32 (w i) ! k"
proof (induction n)
  case (Suc n)
  have s: "words_file w (Suc n) = words_file w n @ le32 (w n)" by (simp add: words_file_def)
  show ?case
  proof (cases "i = n")
    case True
    then show ?thesis by (simp add: s nth_append)
  next
    case False
    with Suc have "4 * i + k < 4 * n" "words_file w n ! (4 * i + k) = le32 (w i) ! k" by simp_all
    then show ?thesis by (simp add: s nth_append)
  qed
qed simp

lemma byte_of_nat: "unat (of_nat n :: 8 word) = n mod 256"
  by (simp add: unsigned_of_nat take_bit_eq_mod)

lemma words_byte:
  assumes "i < n"
  shows "unat (words_file w n ! (4 * i)) = w i mod 256"
    and "unat (words_file w n ! (4 * i + 1)) = w i div 256 mod 256"
    and "unat (words_file w n ! (4 * i + 2)) = w i div 65536 mod 256"
    and "unat (words_file w n ! (4 * i + 3)) = w i div 16777216 mod 256"
  using nth_words_file [OF assms, of 0 w] nth_words_file [OF assms, of 1 w]
    nth_words_file [OF assms, of 2 w] nth_words_file [OF assms, of 3 w]
  by (simp_all add: le32_def byte_of_nat numeral_2_eq_2 numeral_3_eq_3)

lemma words_u16:
  assumes "i < n"
  shows "u16 (words_file w n) (4 * i) = w i mod 65536"
    and "u16 (words_file w n) (4 * i + 2) = w i div 65536 mod 65536"
proof -
  have split: "a mod 256 + 256 * (a div 256 mod 256) = a mod 65536" for a :: nat
    using mod_mult2_eq [of a 256 256] by simp
  show "u16 (words_file w n) (4 * i) = w i mod 65536"
    using words_byte [OF assms, of w] split [of "w i"] by (simp add: u16_def)
  show "u16 (words_file w n) (4 * i + 2) = w i div 65536 mod 65536"
    using words_byte(3,4) [OF assms, of w] split [of "w i div 65536"]
    by (simp add: u16_def div_mult2_eq [of _ 65536 256, simplified] numeral_3_eq_3 numeral_2_eq_2)
qed

lemma words_u32:
  assumes "i < n" and "w i < 2 ^ 32"
  shows "u32 (words_file w n) (4 * i) = w i"
proof -
  have "w i div 65536 mod 65536 = w i div 65536" using assms(2) by simp
  then show ?thesis
    using words_u16 [OF assms(1), of w] by (simp add: u32_def)
qed

section \<open>The file\<close>

definition header_word :: "nat \<Rightarrow> nat" where
  "header_word i = (if i < 20 then
     [0xe011cfd0, 0xe11ab1a1, 0, 0, 0, 0, 0x0003003e, 0x0009fffe, 6, 0, 0, 1, 1, 0, 4096, 2, 1,
      ENDOFCHAIN, 0, 0] ! i else FREESECT)"

definition fat_word :: "nat \<Rightarrow> nat" where
  "fat_word i = (if i = 0 then FATSECT else if i < 4 then ENDOFCHAIN else FREESECT)"

definition root_word :: "nat \<Rightarrow> nat" where
  "root_word i =
     (if i < 5 then [0x006f0052, 0x0074006f, 0x00450020, 0x0074006e, 0x00790072] ! i
      else if i = 16 then 0x01050016 else if i = 17 \<or> i = 18 then NOSTREAM else if i = 19 then 1
      else if i = 29 then 3 else if i = 30 then 64 else 0)"

definition stream_word :: "nat \<Rightarrow> nat" where
  "stream_word i =
     (if i = 0 then 0x41 else if i = 16 then 0x01020004
      else if i = 17 \<or> i = 18 \<or> i = 19 then NOSTREAM else if i = 30 then 5 else 0)"

definition free_word :: "nat \<Rightarrow> nat" where
  "free_word i = (if 17 \<le> i \<and> i < 20 then 0xffffffff else 0)"

definition directory_word :: "nat \<Rightarrow> nat" where
  "directory_word i =
     (if i < 32 then root_word i else if i < 64 then stream_word (i - 32)
      else if i < 96 then free_word (i - 64) else free_word (i - 96))"

definition mini_fat_word :: "nat \<Rightarrow> nat" where
  "mini_fat_word i = (if i = 0 then ENDOFCHAIN else FREESECT)"

definition data_word :: "nat \<Rightarrow> nat" where
  "data_word i = (if i = 0 then 0x44434241 else if i = 1 then 0x45 else 0)"

definition sample_word :: "nat \<Rightarrow> nat" where
  "sample_word i =
     (if i < 128 then header_word i else if i < 256 then fat_word (i - 128)
      else if i < 384 then directory_word (i - 256) else if i < 512 then mini_fat_word (i - 384)
      else data_word (i - 512))"

definition sample_file :: bytes where
  "sample_file = words_file sample_word 640"

lemmas sample_words = sample_word_def header_word_def fat_word_def root_word_def stream_word_def
  free_word_def directory_word_def mini_fat_word_def data_word_def

lemmas ole_constants = ENDOFCHAIN_def FREESECT_def MAXREGSECT_def DIFSECT_def FATSECT_def
  NOSTREAM_def MAXREGSID_def DIRECTORY_ENTRY_SIZE_def HEADER_DIFAT_ENTRY_COUNT_def
  MINI_SECTOR_SIZE_def MINI_STREAM_CUTOFF_def

lemma length_sample [simp]: "length sample_file = 2560"
  by (simp add: sample_file_def)

lemma header_word_small: "header_word i < 2 ^ 32"
proof (cases "i < 20")
  case True
  then have "i \<in> set [0..<20]" by simp
  then show ?thesis
    by (simp add: upt_rec header_word_def ole_constants) (elim disjE; simp)
qed (simp add: header_word_def ole_constants)

lemma root_word_small: "root_word i < 2 ^ 32"
proof (cases "i < 5")
  case True
  then have "i \<in> set [0..<5]" by simp
  then show ?thesis
    by (simp add: upt_rec root_word_def) (elim disjE; simp)
qed (simp add: root_word_def ole_constants)

lemma sample_word_small: "sample_word i < 2 ^ 32"
  using header_word_small root_word_small
  by (simp add: sample_word_def fat_word_def directory_word_def stream_word_def free_word_def
      mini_fat_word_def data_word_def ole_constants)

lemma sample_u32:
  "i < 640 \<Longrightarrow> getUint32 sample_file (4 * i) = Inr (sample_word i)"
  using words_u32 [of i 640 sample_word] sample_word_small [of i] by (simp add: sample_file_def)

lemma sample_u16:
  "i < 640 \<Longrightarrow> getUint16 sample_file (4 * i) = Inr (sample_word i mod 65536)"
  "i < 640 \<Longrightarrow> getUint16 sample_file (4 * i + 2) = Inr (sample_word i div 65536)"
proof -
  assume i: "i < 640"
  have "sample_word i div 65536 mod 65536 = sample_word i div 65536"
    using sample_word_small [of i] by simp
  with i words_u16 [OF i, of sample_word]
  show "getUint16 sample_file (4 * i) = Inr (sample_word i mod 65536)"
    "getUint16 sample_file (4 * i + 2) = Inr (sample_word i div 65536)"
    by (simp_all add: sample_file_def)
qed

lemma sample_byte:
  assumes "i < 640"
  shows "getUint8 sample_file (4 * i) = Inr (sample_word i mod 256)"
    and "getUint8 sample_file (4 * i + 1) = Inr (sample_word i div 256 mod 256)"
    and "getUint8 sample_file (4 * i + 2) = Inr (sample_word i div 65536 mod 256)"
    and "getUint8 sample_file (4 * i + 3) = Inr (sample_word i div 16777216 mod 256)"
  using assms words_byte [OF assms, of sample_word]
  by (simp_all add: sample_file_def numeral_2_eq_2 numeral_3_eq_3)

lemma zero_bytes_read:
  assumes "i < 640" and "sample_word i = 0" and "k < 4"
  shows "getUint8 sample_file (4 * i + k) = Inr 0"
proof -
  have "k \<in> {0, 1, 2, 3}" using assms(3) by auto
  then show ?thesis using sample_byte [OF assms(1)] assms(2) by auto
qed

section \<open>Loops over a range\<close>

lemma fold_result_same:
  "(\<And>i. i \<in> set is \<Longrightarrow> step s i = Inr s) \<Longrightarrow> fold_result step s is = Inr s"
  by (induction "is") auto

lemma fold_result_map:
  "(\<And>s i. i \<in> set is \<Longrightarrow> step s i = Inr (s @ [f i])) \<Longrightarrow> fold_result step s is = Inr (s @ map f is)"
  by (induction "is" arbitrary: s) auto

section \<open>Header, DIFAT and FAT\<close>

declare get_in_range [simp del]

definition sample_fields :: OleHeaderFields where
  "sample_fields =
     \<lparr>hf_majorVersion = 3, hf_minorVersion = 62, hf_byteOrder = 0xfffe, hf_sectorShift = 9,
      hf_miniSectorShift = 6, hf_miniStreamCutoffSize = 4096, hf_directorySectorCount = 0,
      hf_fatSectorCount = 1, hf_firstDirectorySector = 1, hf_firstMiniFatSector = 2,
      hf_miniFatSectorCount = 1, hf_firstDifatSector = ENDOFCHAIN, hf_difatSectorCount = 0\<rparr>"

definition sample_header :: OleHeader where
  "sample_header = \<lparr>oh_majorVersion = 3, oh_sectorSize = 512, oh_fileSectorCount = 4,
     oh_fields = sample_fields\<rparr>"

lemma sample_header_fields: "header_fields sample_file = Inr sample_fields"
  using sample_u16 [of 6] sample_u16 [of 7] sample_u16 [of 8] sample_u32 [of 10] sample_u32 [of 11]
    sample_u32 [of 12] sample_u32 [of 14] sample_u32 [of 15] sample_u32 [of 16] sample_u32 [of 17]
    sample_u32 [of 18]
  by (simp add: header_fields_def sample_fields_def sample_words)

lemma sample_zero_range:
  assumes "\<And>i. a \<le> i \<Longrightarrow> i < a + n \<Longrightarrow> sample_word i = 0" and "a + n \<le> 640" and "m = 4 * n"
  shows "hasZeroBytes sample_file (4 * a) m"
proof -
  have "sample_file ! (4 * a + i) = 0" if "i < 4 * n" for i
  proof -
    have i: "4 * a + i = 4 * (a + i div 4) + i mod 4" by simp
    have "i div 4 < n" using that by linarith
    with assms(1,2) have "sample_word (a + i div 4) = 0" "a + i div 4 < 640" by simp_all
    from zero_bytes_read [OF this(2,1), of "i mod 4"] have
      "getUint8 sample_file (4 * a + i) = Inr 0" by (simp add: i)
    then show ?thesis by (simp add: getUint8_def out_of_range_def unat_eq_0 split: if_splits)
  qed
  with assms(2,3) show ?thesis by (auto simp: hasZeroBytes_def list_all_iff)
qed

lemma upt_8: "[0..<8] = [0, 1, 2, 3, 4, 5, 6, 7::nat]"
  by code_simp

lemma upt_6: "[0..<6] = [0, 1, 2, 3, 4, 5::nat]"
  by code_simp

lemma sample_signature: "hasBytes sample_file 0 HEADER_SIGNATURE"
proof -
  have l: "length HEADER_SIGNATURE = 8" by (simp add: HEADER_SIGNATURE_def)
  have two: "words_file sample_word 640 ! 2 = le32 (sample_word 0) ! 2"
    using nth_words_file [of 0 640 2 sample_word] unfolding mult_0_right add_0_left by simp
  show ?thesis
    using nth_words_file [of 0 640 0 sample_word] nth_words_file [of 0 640 1 sample_word] two
      nth_words_file [of 0 640 3 sample_word]
      nth_words_file [of 1 640 0 sample_word] nth_words_file [of 1 640 1 sample_word]
      nth_words_file [of 1 640 2 sample_word] nth_words_file [of 1 640 3 sample_word]
    unfolding hasBytes_def l upt_8
    by (simp add: HEADER_SIGNATURE_def sample_file_def sample_words le32_def)
qed

lemma sample_fields_valid: "\<not> fields_invalid sample_file sample_fields"
proof -
  have "hasZeroBytes sample_file (4 * 2) 16"
  proof (rule sample_zero_range [where n = 4])
    fix i :: nat assume "2 \<le> i" "i < 2 + 4"
    then have "i = 2 \<or> i = 3 \<or> i = 4 \<or> i = 5" by arith
    then show "sample_word i = 0" by (elim disjE) (simp_all add: sample_words)
  qed simp_all
  moreover have "hasZeroBytes sample_file 34 6"
  proof -
    have "getUint8 sample_file (4 * 8 + 2) = Inr 0" "getUint8 sample_file (4 * 8 + 3) = Inr 0"
      "getUint8 sample_file (4 * 9) = Inr 0" "getUint8 sample_file (4 * 9 + 1) = Inr 0"
      "getUint8 sample_file (4 * 9 + 2) = Inr 0" "getUint8 sample_file (4 * 9 + 3) = Inr 0"
      by (simp_all only: sample_byte) (simp_all add: sample_words)
    then show ?thesis by (simp add: hasZeroBytes_def upt_6 getUint8_def unat_eq_0)
  qed
  ultimately show ?thesis by (simp add: fields_invalid_def sample_fields_def)
qed

lemma sample_difat_entry: "i < 109 \<Longrightarrow> getUint32 sample_file (76 + i * 4) = Inr (if i = 0 then 0 else FREESECT)"
  using sample_u32 [of "19 + i"] by (simp add: sample_words algebra_simps)

lemma sample_header_difat: "verifyHeaderDifat sample_file 1 4 = Inr [0]"
proof -
  have free: "header_difat_loop sample_file 1 4 seen is = Inr seen" if "\<forall>i \<in> set is. 0 < i \<and> i < 109" for seen "is"
    using that by (induction "is") (auto simp: sample_difat_entry)
  have r: "[0..<109] = 0 # [1..<109]" by (simp add: upt_rec [of 0])
  have "header_difat_loop sample_file 1 4 [0] [1..<109] = Inr [0]" by (rule free) auto
  then show ?thesis
    using sample_difat_entry [of 0]
    unfolding verifyHeaderDifat_def HEADER_DIFAT_ENTRY_COUNT_def r
    by (simp add: isFileSector_def MAXREGSECT_def del: upt_rec_numeral)
qed

lemma sample_verified_header: "verifyOleHeader sample_file = Inr sample_header"
  by (simp add: verifyOleHeader_def sample_signature sample_header_fields sample_fields_valid)
    (simp add: sample_fields_def sample_header_def Let_def layout_invalid_def sample_header_difat [unfolded One_nat_def]
      isFileSector_def hasConsistentChainStart_def expected_difat_sectors_def
      HEADER_DIFAT_ENTRY_COUNT_def MAXREGSECT_def declared_chain_starts_def push_if_def)

definition sample_difat :: OleDifat where
  "sample_difat = \<lparr>od_header = sample_header, od_fatSectorLocations = [0], od_difatSectorLocations = []\<rparr>"

lemma sample_verified_difat: "verifyOleDifat sample_file = Inr sample_difat"
  using sample_difat_entry [of 0]
  by (simp add: verifyOleDifat_def sample_verified_header)
    (simp add: sample_header_def sample_fields_def Let_def HEADER_DIFAT_ENTRY_COUNT_def upt_rec
      header_location_step_def addFatLocation_def isFileSector_def MAXREGSECT_def sample_difat_def
      fixed_role_locations_def push_if_def)

lemma upt_4: "[0..<4] = [0, 1, 2, 3::nat]"
  by code_simp

lemma upt_append: "i \<le> j \<Longrightarrow> j \<le> k \<Longrightarrow> [i..<k] = [i..<j] @ [j..<k]"
  by (metis le_add_diff_inverse upt_add_eq_append)

definition sample_fat_entries :: "nat list" where
  "sample_fat_entries = [FATSECT, ENDOFCHAIN, ENDOFCHAIN, ENDOFCHAIN]"

definition sample_fat :: OleFat where
  "sample_fat = \<lparr>of_difat = sample_difat, of_fatEntries = sample_fat_entries\<rparr>"

lemma sample_fat_word: "i < 128 \<Longrightarrow> getUint32 sample_file (512 + i * 4) = Inr (fat_word i)"
  using sample_u32 [of "128 + i"] by (simp add: sample_word_def algebra_simps)

lemma sample_verified_fat: "verifyOleFat sample_file = Inr sample_fat"
proof -
  let ?step = "fat_entry_step sample_file 4 512 0"
  have rest: "fold_result ?step s is = Inr s" if "\<forall>i \<in> set is. 4 \<le> i \<and> i < 128" for s "is"
    by (rule fold_result_same) (use that in \<open>auto simp: fat_entry_step_def sample_fat_word fat_word_def\<close>)
  have r: "[0..<128] = [0, 1, 2, 3] @ [4..<128]"
    using upt_append [of 0 4 128] upt_4 by simp
  have first: "fold_result ?step [] [0, 1, 2, 3] = Inr sample_fat_entries"
    using sample_fat_word [of 0] sample_fat_word [of 1] sample_fat_word [of 2] sample_fat_word [of 3]
    by (simp add: fat_entry_step_def fat_word_def isValidFatEntry_def sample_fat_entries_def)
  have "fold_result ?step [] [0..<128] = Inr sample_fat_entries"
    unfolding r fold_result_append first by (simp add: rest del: upt_rec_numeral)
  then have "fat_sector_step sample_file sample_header [] (0, 0) = Inr sample_fat_entries"
    by (simp add: fat_sector_step_def sample_header_def sectorByteOffset_def del: upt_rec_numeral)
  then show ?thesis
    by (simp add: verifyOleFat_def sample_verified_difat)
      (simp add: sample_difat_def sample_fat_entries_def sample_fat_def sample_header_def marker_wrong_def
        upt_rec ole_constants)
qed

lemma sample_fat_fields [simp]:
  "of_fatEntries sample_fat = sample_fat_entries" "of_difat sample_fat = sample_difat"
  "od_header sample_difat = sample_header" "oh_sectorSize sample_header = 512"
  "oh_majorVersion sample_header = 3" "oh_fields sample_header = sample_fields"
  "od_fatSectorLocations sample_difat = [0]" "od_difatSectorLocations sample_difat = []"
  "length sample_fat_entries = 4"
  by (simp_all add: sample_fat_def sample_difat_def sample_header_def sample_fat_entries_def)

section \<open>Chains and mini FAT\<close>

lemma one_sector_chain:
  assumes "isSector s limit" "s < length es" "es ! s = ENDOFCHAIN" "s \<notin> set occupied"
  shows "walk_chain invalid reuse es limit occupied [] s = Inr [s]"
  using assms by (auto simp: walk_chain_exact)

definition sample_chains :: OleSystemChains where
  "sample_chains = \<lparr>oc_fat = sample_fat, oc_directorySectorLocations = [1],
     oc_miniFatSectorLocations = [2]\<rparr>"

lemma sample_verified_chains: "verifyOleSystemChains sample_file = Inr sample_chains"
  by (simp add: verifyOleSystemChains_def sample_verified_fat sample_fields_def readChain_def
      one_sector_chain isSector_def MAXREGSECT_def sample_fat_entries_def sample_chains_def)

lemma sample_chain_fields [simp]:
  "oc_fat sample_chains = sample_fat" "oc_directorySectorLocations sample_chains = [1]"
  "oc_miniFatSectorLocations sample_chains = [2]"
  by (simp_all add: sample_chains_def)

definition sample_mini_fat :: OleMiniFat where
  "sample_mini_fat = \<lparr>om_chains = sample_chains, om_miniFatEntries = map mini_fat_word [0..<128]\<rparr>"

lemma sample_verified_mini_fat: "verifyOleMiniFatEntries sample_file = Inr sample_mini_fat"
proof -
  have w: "getUint32 sample_file (1536 + i * 4) = Inr (mini_fat_word i)" if "i < 128" for i
    using sample_u32 [of "384 + i"] that by (simp add: sample_word_def algebra_simps)
  have "fold_result (mini_entry_step sample_file 128 1536) [] [0..<128] =
      Inr ([] @ map mini_fat_word [0..<128])"
    by (rule fold_result_map)
      (auto simp: mini_entry_step_def w isValidMiniFatEntry_def mini_fat_word_def)
  then show ?thesis
    by (simp add: verifyOleMiniFatEntries_def sample_verified_chains mini_sector_step_def
        sectorByteOffset_def sample_mini_fat_def del: upt_rec_numeral)
qed

section \<open>Directory\<close>

lemma root_entry_name: "ROOT_ENTRY_NAME = [82, 111, 111, 116, 32, 69, 110, 116, 114, 121]"
  by (simp add: ROOT_ENTRY_NAME_def code_units_def)

lemma forbidden_units: "code_units [CHR 0x5C, CHR ''/'', CHR '':'', CHR ''!''] = [92, 47, 58, 33]"
  by (simp add: code_units_def)

definition sample_root :: OleEntry where
  "sample_root =
     \<lparr>de_streamId = 0, de_name = Some ROOT_ENTRY_NAME, de_objectType = Root, de_color = Some Black,
      de_leftSiblingId = None, de_rightSiblingId = None, de_childId = Some 1,
      de_startingSector = 3, de_streamSize = nat_str 64\<rparr>"

definition sample_stream :: OleEntry where
  "sample_stream =
     \<lparr>de_streamId = 1, de_name = Some [0x41], de_objectType = Stream, de_color = Some Black,
      de_leftSiblingId = None, de_rightSiblingId = None, de_childId = None,
      de_startingSector = 0, de_streamSize = nat_str 5\<rparr>"

lemma upt_11: "[0..<11] = [0, 1, 2, 3, 4, 5, 6, 7, 8, 9, 10::nat]"
  by code_simp

lemma sample_root_name: "readName sample_file 1024 = Inr ROOT_ENTRY_NAME"
proof -
  have "getUint16 sample_file 1088 = Inr 22" using sample_u16(1) [of 272] by (simp add: sample_words)
  moreover have "fold_result (code_unit_step sample_file 1024) [] [0..<11] =
      Inr [82, 111, 111, 116, 32, 69, 110, 116, 114, 121, 0]"
    using sample_u16 [of 256] sample_u16 [of 257] sample_u16 [of 258] sample_u16 [of 259]
      sample_u16 [of 260] sample_u16 [of 261]
    unfolding upt_11 by (simp add: code_unit_step_def sample_words)
  ultimately show ?thesis
    unfolding readName_def forbidden_units
    by (simp add: root_entry_name fromCodePoint_def del: upt_rec_numeral)
qed

lemma sample_stream_name: "readName sample_file 1152 = Inr [0x41]"
proof -
  have "getUint16 sample_file 1216 = Inr 4" using sample_u16(1) [of 304] by (simp add: sample_words)
  moreover have "fold_result (code_unit_step sample_file 1152) [] [0, 1] = Inr [65, 0]"
    using sample_u16 [of 288] by (simp add: code_unit_step_def sample_words)
  ultimately show ?thesis
    unfolding readName_def forbidden_units by (simp add: fromCodePoint_def upt_rec)
qed

lemma sample_nonzero:
  assumes "\<And>i. a \<le> i \<Longrightarrow> i < a + n \<Longrightarrow> sample_word i = 0" and "a + n \<le> 640"
  shows "nonzero_bytes sample_file (4 * a) (4 * n) = Inr False"
  unfolding nonzero_bytes_def
proof (rule fold_result_same)
  fix i assume "i \<in> set [0..<4 * n]"
  then have "i div 4 < n" by auto
  then have "sample_word (a + i div 4) = 0" "a + i div 4 < 640" using assms by simp_all
  from zero_bytes_read [OF this(2,1), of "i mod 4"]
  have "getUint8 sample_file (4 * (a + i div 4) + i mod 4) = Inr 0" by simp
  moreover have e: "4 * (a + i div 4) + i mod 4 = 4 * a + i" by simp
  ultimately have "getUint8 sample_file (4 * a + i) = Inr 0" by (simp only: e)
  then show "nonzero_bytes_step sample_file (4 * a) False i = Inr False"
    by (simp add: nonzero_bytes_step_def)
qed

lemma sample_root_entry: "readEntry sample_file 1024 0 4 3 = Inr sample_root"
proof -
  have "nonzero_bytes sample_file (4 * 281) (4 * 2) = Inr False"
    by (rule sample_nonzero) (auto simp: sample_words)
  then show ?thesis
    using sample_byte [of 272] sample_u32 [of 273] sample_u32 [of 274] sample_u32 [of 275]
      sample_u32 [of 285] sample_u32 [of 286] sample_u32 [of 287]
    by (simp add: readEntry_def readObjectType_def sample_root_name readPointer_def root_checks_def
        or_result_def and_result_def stream_checks_def entry_stream_size_def sample_root_def
        sample_words ole_constants)
qed

lemma sample_stream_entry: "readEntry sample_file 1152 1 4 3 = Inr sample_stream"
proof -
  have "nonzero_bytes sample_file (4 * 308) (4 * 4) = Inr False"
    "nonzero_bytes sample_file (4 * 313) (4 * 4) = Inr False"
    by (rule sample_nonzero; auto simp: sample_words)+
  then show ?thesis
    using sample_byte [of 304] sample_u32 [of 305] sample_u32 [of 306] sample_u32 [of 307]
      sample_u32 [of 317] sample_u32 [of 318] sample_u32 [of 319]
    by (simp add: readEntry_def readObjectType_def sample_stream_name readPointer_def root_checks_def
        or_result_def and_result_def stream_checks_def entry_stream_size_def sample_stream_def
        sample_words ole_constants)
qed

lemma sample_free_entry:
  assumes "\<forall>j < 32. sample_word (a + j) = free_word j" and "a + 32 \<le> 640"
  shows "readEntry sample_file (4 * a) k n 3 = Inr (unallocated_entry k)"
proof -
  have byte: "getUint8 sample_file (4 * a + i) = Inr (if 68 \<le> i \<and> i < 80 then 255 else 0)" if "i < 128" for i
  proof -
    define q where "q = i div 4"
    have q: "q < 32" "4 * a + i = 4 * (a + q) + i mod 4" using that by (simp_all add: q_def)
    have "i mod 4 \<in> {0, 1, 2, 3}" by auto
    moreover have "17 \<le> q \<and> q < 20 \<longleftrightarrow> 68 \<le> i \<and> i < 80" by (auto simp: q_def)
    ultimately show ?thesis
      using sample_byte [of "a + q"] assms q by (auto simp: free_word_def add.assoc)
  qed
  have "verifyUnallocatedEntry sample_file (4 * a) = Inr ()"
    unfolding verifyUnallocatedEntry_def DIRECTORY_ENTRY_SIZE_def
    by (rule fold_result_same) (auto simp: unallocated_step_def byte)
  with byte [of 66] show ?thesis by (simp add: readEntry_def)
qed

lemma sample_entry_fields [simp]:
  "de_streamId sample_root = 0" "de_objectType sample_root = Root" "de_childId sample_root = Some 1"
  "de_startingSector sample_root = 3" "de_streamSize sample_root = nat_str 64"
  "de_name sample_root = Some ROOT_ENTRY_NAME"
  "de_streamId sample_stream = 1" "de_objectType sample_stream = Stream"
  "de_name sample_stream = Some [65]" "de_color sample_stream = Some Black"
  "de_leftSiblingId sample_stream = None" "de_rightSiblingId sample_stream = None"
  "de_startingSector sample_stream = 0" "de_streamSize sample_stream = nat_str 5"
  "de_streamId (unallocated_entry n) = n" "de_objectType (unallocated_entry n) = Unallocated"
  by (simp_all add: sample_root_def sample_stream_def unallocated_entry_def)

definition sample_entries :: "OleEntry list" where
  "sample_entries = [sample_root, sample_stream, unallocated_entry 2, unallocated_entry 3]"

definition sample_directory :: OleDirectory where
  "sample_directory = \<lparr>oe_chains = sample_chains, oe_entries = sample_entries\<rparr>"

lemma sample_verified_directory: "verifyOleDirectoryEntries sample_file = Inr sample_directory"
proof -
  have "readEntry sample_file 1280 2 4 3 = Inr (unallocated_entry 2)"
    using sample_free_entry [of 320 2 4] by (simp add: sample_word_def directory_word_def)
  moreover have "readEntry sample_file 1408 3 4 3 = Inr (unallocated_entry 3)"
    using sample_free_entry [of 352 3 4] by (simp add: sample_word_def directory_word_def)
  ultimately have "directory_sector_step sample_file 512 4 3 [] (0, 1) = Inr sample_entries"
    using sample_root_entry sample_stream_entry
    by (simp add: directory_sector_step_def sectorByteOffset_def DIRECTORY_ENTRY_SIZE_def upt_4
        entry_step_def sample_entries_def numeral_2_eq_2 [symmetric])
  then show ?thesis
    by (simp add: verifyOleDirectoryEntries_def sample_verified_chains DIRECTORY_ENTRY_SIZE_def)
      (simp add: sample_entries_def sample_directory_def)
qed

text \<open>The table of case mappings may be empty: one name has no sibling to be compared with.\<close>

lemma sample_verified_tree: "verifyOleDirectoryTree table sample_file = Inr sample_directory"
proof -
  have "tree_loop table [sample_root, sample_stream, unallocated_entry 2, unallocated_entry 3] [0] [1] =
      Inr [0, 1]"
    by (simp add: verifyChildTree_def readTreeNode_def visit_node_def out_of_order_def beyond_def
        or_result_def sibling_nodes_def storage_children_def)
  then show ?thesis
    by (simp add: verifyOleDirectoryTree_def sample_verified_directory sample_directory_def
        sample_entries_def del: tree_loop.simps)
qed

section \<open>Streams\<close>

definition sample_mini_stream :: OleRootMiniStream where
  "sample_mini_stream = \<lparr>or_rootMiniStreamSize = nat_str 64, or_rootMiniSectorCount = 1,
     or_rootMiniStreamSectorLocations = [3]\<rparr>"

lemma sample_verified_mini_stream: "verifyOleRootMiniStream table sample_file = Inr sample_mini_stream"
proof -
  have "verifyMiniFatCapacity (map mini_fat_word [0..<128]) 1 = Inr ()"
    by (auto simp: verifyMiniFatCapacity_def list_ex_iff capacity_violated_def mini_fat_word_def
        ole_constants)
  then show ?thesis
    by (simp add: verifyOleRootMiniStream_def sample_verified_tree sample_verified_mini_fat
        sample_verified_fat sample_directory_def sample_entries_def
        sample_mini_fat_def MAX_MINI_STREAM_SIZE_def ole_constants divideRoundUp_def
        readRootChain_def system_sectors_def del: upt_rec_numeral)
      (simp add: one_sector_chain isSector_def ole_constants sample_fat_entries_def
        sample_mini_stream_def)
qed

definition sample_user_stream :: OleUserStream where
  "sample_user_stream = \<lparr>us_streamId = 1, us_name = [0x41], us_streamSize = nat_str 5,
     us_allocation = MiniFatAllocation, us_sectorLocations = [0]\<rparr>"

definition sample_allocation :: OleAllocatedStreams where
  "sample_allocation = \<lparr>oa_sectorSize = 512, oa_streams = [sample_user_stream]\<rparr>"

lemma sample_verified_allocation:
  "verifyOleUserStreamAllocation table sample_file = Inr sample_allocation"
proof -
  have "readUserChain 0 1 (map mini_fat_word [0..<128]) 1 [] = Inr [0]"
    by (simp add: readUserChain_def one_sector_chain isSector_def MAXREGSECT_def mini_fat_word_def
        del: upt_rec_numeral)
  then show ?thesis
    by (simp add: verifyOleUserStreamAllocation_def sample_verified_tree sample_verified_mini_stream
        sample_verified_mini_fat sample_verified_fat)
      (simp add: sample_directory_def sample_entries_def stream_step_def verifyStream_def sample_mini_fat_def
        sample_mini_stream_def MINI_STREAM_CUTOFF_def MINI_SECTOR_SIZE_def divideRoundUp_def
        freezeStream_def sample_allocation_def sample_user_stream_def upt_rec [of 0 1]
        del: upt_rec_numeral)
qed

end
