(* ===== verification/OleClaims.thy ===== *)
theory OleClaims
  imports OleSample
begin

text \<open>The properties of the OLE reader, with a file that every phase accepts.\<close>

section \<open>Reads\<close>

text \<open>
  C36. Reading the streams of an arbitrary byte sequence never reads outside of it: no phase, from
  the header to the copied bytes, ends with the exception of a read out of range.
\<close>

theorem reader_stays_in_bounds:
  "projectOleUserStreamBytes alloc table bs \<noteq> Inl (RangeError m)"
  using coded_projection [of alloc table bs] by (simp add: coded_def)

text \<open>
  C39. The chain reader of the system streams accepts exactly the chains that the table links from
  the first sector to the end marker, without a repeated sector, an occupied one or one outside
  of the file, and of the declared length.
\<close>

theorem chain_read_exactly:
  "readChain first expected entries occupied = Inr ls \<longleftrightarrow>
   chain_path entries first ls \<and> distinct ls \<and> set ls \<inter> set occupied = {} \<and>
   set ls \<subseteq> {s. isFileSector s (length entries)} \<and>
   (case expected of None \<Rightarrow> ls \<noteq> [] | Some c \<Rightarrow> length ls = c)"
  by (cases expected)
    (auto simp: readChain_def bind_result_Inr walk_chain_exact isFileSector_isSector)

section \<open>Ownership\<close>

text \<open>
  C35. In a file whose streams were allocated no sector has two owners: the sectors of the FAT, the
  DIFAT, the directory, the mini FAT, the root mini stream and the large streams are pairwise
  different and inside of the file, the mini sectors of the small streams are pairwise different,
  and every mini sector of the root that is not free belongs to a small stream.
\<close>

theorem every_sector_has_one_owner:
  assumes "verifyOleUserStreamAllocation table bs = Inr a"
  shows "\<exists>fat tree miniFat r.
    verifyOleFat bs = Inr fat \<and> verifyOleDirectoryTree table bs = Inr tree \<and>
    verifyOleMiniFatEntries bs = Inr miniFat \<and> verifyOleRootMiniStream table bs = Inr r \<and>
    distinct (system_sectors fat tree miniFat @ or_rootMiniStreamSectorLocations r @
      stream_sectors FatAllocation (oa_streams a)) \<and>
    set (system_sectors fat tree miniFat @ or_rootMiniStreamSectorLocations r @
      stream_sectors FatAllocation (oa_streams a)) \<subseteq> {..<oh_fileSectorCount (od_header (of_difat fat))} \<and>
    distinct (stream_sectors MiniFatAllocation (oa_streams a)) \<and>
    {m. m < or_rootMiniSectorCount r \<and> om_miniFatEntries miniFat ! m \<noteq> FREESECT} \<subseteq>
      set (stream_sectors MiniFatAllocation (oa_streams a))"
proof -
  from assms obtain tree miniFat fat r st where a:
    "verifyOleDirectoryTree table bs = Inr tree" "verifyOleMiniFatEntries bs = Inr miniFat"
    "verifyOleFat bs = Inr fat" "verifyOleRootMiniStream table bs = Inr r"
    "oa_streams a = as_streams st"
    "allocation_ok (oa_sectorSize a) (of_fatEntries fat) (om_miniFatEntries miniFat)
       (or_rootMiniSectorCount r)
       (system_sectors fat tree miniFat @ or_rootMiniStreamSectorLocations r) st"
    "\<forall>i < or_rootMiniSectorCount r. om_miniFatEntries miniFat ! i \<noteq> FREESECT \<longrightarrow>
       i \<in> set (as_miniSectors st)"
    by (elim verified_allocation)
  from a(4) obtain first n where "readRootChain first n (of_fatEntries fat)
      (system_sectors fat tree miniFat) = Inr (or_rootMiniStreamSectorLocations r)"
    using a(1,2,3) by (elim verified_root) auto
  note root = read_root_chain(4) [OF this]
  have "stream_ok (oa_sectorSize a) (of_fatEntries fat) (om_miniFatEntries miniFat)
      (or_rootMiniSectorCount r) s" if "s \<in> set (as_streams st)" for s
    using a(6) that by (simp add: allocation_ok_def)
  then have "set (stream_sectors FatAllocation (oa_streams a)) \<subseteq> {..<length (of_fatEntries fat)}"
    by (fastforce simp: stream_sectors_def stream_ok_def Let_def a(5))
  then have "set (system_sectors fat tree miniFat @ or_rootMiniStreamSectorLocations r @
      stream_sectors FatAllocation (oa_streams a)) \<subseteq> {..<oh_fileSectorCount (od_header (of_difat fat))}"
    using system_sectors_apart(2) [OF a(3) verified_tree(1) [OF a(1)] a(2)] root verified_fat(2) [OF a(3)]
    by (auto simp: isSector_def)
  moreover have "{m. m < or_rootMiniSectorCount r \<and> om_miniFatEntries miniFat ! m \<noteq> FREESECT} \<subseteq>
      set (stream_sectors MiniFatAllocation (oa_streams a))"
    using a(5-7) by (auto simp: allocation_ok_def)
  ultimately show ?thesis using a(1-6) by (auto simp: allocation_ok_def)
qed

theorem every_sector_has_one_owner_witness:
  "\<exists>r. verifyOleRootMiniStream [] sample_file = Inr r \<and>
     or_rootMiniSectorCount r = 1 \<and> stream_sectors MiniFatAllocation [sample_user_stream] = [0] \<and>
     distinct (system_sectors sample_fat sample_directory sample_mini_fat @
       or_rootMiniStreamSectorLocations r @ stream_sectors FatAllocation [sample_user_stream])"
  using every_sector_has_one_owner [OF sample_verified_allocation [of "[]"]]
  by (auto simp: sample_verified_fat sample_verified_tree sample_verified_mini_fat
      sample_verified_mini_stream sample_allocation_def sample_mini_stream_def stream_sectors_def
      sample_user_stream_def)

section \<open>Contents\<close>

text \<open>
  C34. The bytes of every stream of a verified file are what its chain stands for, up to the
  declared size: a large stream is made of the file sectors of its chain, a small stream of the
  64-byte parts of the mini stream, itself the concatenation of the sectors of the root.  The
  projection of a verified stream does not fail, whatever the file.
\<close>

theorem stream_bytes_refine_chain:
  assumes "verifyOleUserStreamAllocation table bs = Inr a" and "verifyOleRootMiniStream table bs = Inr r"
    and "s \<in> set (oa_streams a)" and "length bs \<le> MAX_SAFE_LENGTH"
    and "alloc (str_nat (us_streamSize s))"
  shows "projectStream alloc bs (oa_sectorSize a) (or_rootMiniStreamSectorLocations r) s =
      Inr (s, stream_content (oa_sectorSize a) bs (or_rootMiniStreamSectorLocations r) s) \<and>
    length (stream_content (oa_sectorSize a) bs (or_rootMiniStreamSectorLocations r) s) =
      str_nat (us_streamSize s)"
  using verified_stream_projects [OF assms(1-4), of alloc] assms(5) by simp

lemma sample_content: "stream_content 512 sample_file [3] sample_user_stream = [0x41, 0x42, 0x43, 0x44, 0x45]"
proof -
  have b: "sample_file ! (2048 + k) = [0x41, 0x42, 0x43, 0x44, 0x45] ! k" if "k < 5" for k
  proof -
    have "k \<in> set [0, 1, 2, 3, 4]" using that by auto
    then show ?thesis
      using nth_words_file [of 512 640 0 sample_word] nth_words_file [of 512 640 1 sample_word]
        nth_words_file [of 512 640 2 sample_word] nth_words_file [of 512 640 3 sample_word]
        nth_words_file [of 513 640 0 sample_word]
      by (auto simp: sample_file_def sample_words le32_def)
  qed
  have "stream_content 512 sample_file [3] sample_user_stream = take 5 (drop 2048 sample_file)"
    by (simp add: stream_content_def sample_user_stream_def mini_sector_def mini_stream_def
        file_sector_def sectorByteOffset_def)
  also have "\<dots> = [0x41, 0x42, 0x43, 0x44, 0x45]"
    by (rule nth_equalityI) (use b in \<open>simp_all\<close>)
  finally show ?thesis .
qed

theorem stream_bytes_refine_chain_witness:
  "projectStream (\<lambda>_. True) sample_file 512 [3] sample_user_stream =
     Inr (sample_user_stream, [0x41, 0x42, 0x43, 0x44, 0x45])"
  using stream_bytes_refine_chain [OF sample_verified_allocation [of "[]"] sample_verified_mini_stream,
      of sample_user_stream "\<lambda>_. True"]
  by (simp add: sample_allocation_def sample_mini_stream_def MAX_SAFE_LENGTH_def sample_content)

section \<open>Directory\<close>

text \<open>
  C37. The entries of a verified directory are a forest: the trees of siblings are search trees in
  the order of the names (the shorter first, then by upper-case code units), with a black root and
  no two red nodes in a row, their roots are the children of the root entry and of the storages,
  and root entry and trees hold every allocated entry exactly once.
\<close>

theorem directory_is_a_forest:
  assumes "verifyOleDirectoryTree table bs = Inr d"
  shows "\<exists>ts. list_all (sibling_tree table (oe_entries d)) ts \<and>
    list_all (\<lambda>t. sorted_wrt (<) (map (\<lambda>i. name_key table (node_name (oe_entries d) i)) (inorder t))) ts \<and>
    mset (map value ts) =
      mset (case de_childId (hd (oe_entries d)) of None \<Rightarrow> [] | Some c \<Rightarrow> [c]) +
      mset (children (oe_entries d) (concat (map preorder ts))) \<and>
    distinct (0 # concat (map preorder ts)) \<and>
    set (0 # concat (map preorder ts)) =
      {i. i < length (oe_entries d) \<and> de_objectType (oe_entries d ! i) \<noteq> Unallocated}"
proof -
  note dir = verified_tree(1) [OF assms]
  note at = entry_at [OF dir]
  obtain e es owned where e: "oe_entries d = e # es" "de_objectType e = Root"
    and loop: "tree_loop table (oe_entries d) [de_streamId e]
      (case de_childId e of None \<Rightarrow> [] | Some c \<Rightarrow> [c]) = Inr owned"
    and all: "\<forall>e \<in> set (oe_entries d). de_objectType e \<noteq> Unallocated \<longrightarrow> de_streamId e \<in> set owned"
    using verified_tree(2) [OF assms] by blast
  have e0: "de_streamId e = 0" using at(1) [of 0] e(1) by simp
  obtain ts where ts: "owned = [0] @ concat (map preorder ts)"
    "\<forall>t \<in> set ts. sibling_tree table (oe_entries d) t"
    "mset (map value ts) = mset (case de_childId e of None \<Rightarrow> [] | Some c \<Rightarrow> [c]) +
      mset (children (oe_entries d) (concat (map preorder ts)))" "distinct owned"
    using tree_loop_forest [OF directory_entries(2) [OF dir] loop [unfolded e0]] by auto
  have "set owned = {i. i < length (oe_entries d) \<and> de_objectType (oe_entries d ! i) \<noteq> Unallocated}"
  proof (intro equalityI subsetI CollectI)
    fix i assume "i \<in> set owned"
    then consider "i = 0" | "i \<in> set (concat (map preorder ts))" using ts(1) by auto
    then show "i < length (oe_entries d) \<and> de_objectType (oe_entries d ! i) \<noteq> Unallocated"
    proof cases
      case 2
      from preorder_nodes [OF ts(2) this] show ?thesis by (auto simp: node_ok_def)
    qed (simp add: e)
  next
    fix i assume i: "i \<in> {i. i < length (oe_entries d) \<and> de_objectType (oe_entries d ! i) \<noteq> Unallocated}"
    then have "oe_entries d ! i \<in> set (oe_entries d)" "de_objectType (oe_entries d ! i) \<noteq> Unallocated"
      by simp_all
    then have "de_streamId (oe_entries d ! i) \<in> set owned" using all by blast
    then show "i \<in> set owned" using at(1) [of i] i by simp
  qed
  moreover have "list_all (\<lambda>t. sorted_wrt (<) (map (\<lambda>i. name_key table (node_name (oe_entries d) i))
      (inorder t))) ts"
    using ts(2) search_tree_sorted by (auto simp: list_all_iff sibling_tree_def)
  ultimately show ?thesis
    using ts e(1) by (intro exI [of _ ts]) (simp add: list_all_iff)
qed

theorem directory_is_a_forest_witness:
  "{i. i < length sample_entries \<and> de_objectType (sample_entries ! i) \<noteq> Unallocated} = {0, 1} \<and>
   (\<exists>ts. list_all (sibling_tree [] sample_entries) ts \<and> set (concat (map preorder ts)) = {1})"
proof -
  have allocated: "{i. i < length sample_entries \<and> de_objectType (sample_entries ! i) \<noteq> Unallocated} = {0, 1}"
    by (auto simp: sample_entries_def less_Suc_eq nth_Cons' split: if_splits)
  have es: "oe_entries sample_directory = sample_entries" by (simp add: sample_directory_def)
  from directory_is_a_forest [OF sample_verified_tree [of "[]"], unfolded es allocated] obtain ts where
    ts: "list_all (sibling_tree [] sample_entries) ts" "distinct (0 # concat (map preorder ts))"
    "set (0 # concat (map preorder ts)) = {0, 1}"
    by (elim exE conjE) (rule that)
  let ?c = "concat (map preorder ts)"
  have "set ?c = set (0 # ?c) - {0}" using ts(2) by (simp only: distinct.simps list.set) simp
  also have "\<dots> = {1}" unfolding ts(3) by auto
  finally have "set ?c = {1}" .
  with ts(1) allocated show ?thesis by blast
qed

section \<open>Names\<close>

text \<open>What the name field of an entry holds when a name is stored in it.\<close>

definition name_stored :: "bytes \<Rightarrow> nat \<Rightarrow> units \<Rightarrow> bool" where
  "name_stored bs offset name \<longleftrightarrow>
     u16 bs (offset + 64) = 2 * (length name + 1) \<and> name \<noteq> [] \<and> length name \<le> 31 \<and>
     map (\<lambda>i. u16 bs (offset + 2 * i)) [0..<length name + 1] = name @ [0] \<and>
     set name \<inter> ({0} \<union> set (code_units [CHR 0x5C, CHR ''/'', CHR '':'', CHR ''!''])) = {}"

text \<open>
  C38. Reading back a stored name gives it: the reader of an entry's name returns a name exactly
  when the name is the UTF-16 text of a list of code points and the field holds its code units, a
  terminator and its length in bytes.
\<close>

theorem stored_name_read_back:
  assumes "offset + 66 \<le> length bs"
  shows "readName bs offset = Inr name \<longleftrightarrow>
    name \<in> {encode_name cps |cps. list_all scalar_value cps} \<and> name_stored bs offset name"
proof
  assume r: "readName bs offset = Inr name"
  note n = read_name [OF r]
  obtain units where u: "2 \<le> u16 bs (offset + 64)" "u16 bs (offset + 64) mod 2 = 0"
    "fold_result (code_unit_step bs offset) [] [0..<u16 bs (offset + 64) div 2] = Inr units"
    "last units = 0" "list_all (\<lambda>u. u \<notin> set (code_units [CHR 0x5C, CHR ''/'', CHR '':'', CHR ''!''])) name"
    using r assms
    by (auto simp: readName_def bind_result_Inr invalidName_def list_all_iff list_ex_iff
        getUint16_def out_of_range_def even_iff_mod_2_eq_zero split: if_splits)
  define k where "k = length name"
  have k: "u16 bs (offset + 64) = 2 * (k + 1)"
    using n(1) u(1,2) by (simp add: name_length_def k_def) presburger
  have units: "units = map (\<lambda>i. u16 bs (offset + 2 * i)) [0..<k + 1]"
    using code_units_read [OF u(3)] by (simp add: k)
  have "name = map (\<lambda>i. u16 bs (offset + 2 * i)) [0..<k]"
    using n(1) by (simp add: name_length_def k)
  with units u(4) have "map (\<lambda>i. u16 bs (offset + 2 * i)) [0..<k + 1] = name @ [0]" by simp
  with n k u(5) show "name \<in> {encode_name cps |cps. list_all scalar_value cps} \<and>
      name_stored bs offset name"
    by (auto simp: name_stored_def k_def list_all_iff)
next
  assume s: "name \<in> {encode_name cps |cps. list_all scalar_value cps} \<and> name_stored bs offset name"
  then have dec: "decode_name name = Inr name" using decode_encode by auto
  have "fold_result (code_unit_step bs offset) [] [0..<length name + 1] =
      Inr ([] @ map (\<lambda>i. u16 bs (offset + 2 * i)) [0..<length name + 1])"
    by (rule fold_result_map)
      (use s assms in \<open>auto simp: code_unit_step_def getUint16_def name_stored_def\<close>)
  with s dec assms show "readName bs offset = Inr name"
    by (auto simp: readName_def getUint16_def name_stored_def list_ex_iff)
qed

theorem stored_name_read_back_witness:
  "name_stored sample_file 1152 [0x41] \<and> readName sample_file 1152 = Inr [0x41]"
  using stored_name_read_back [of 1152 sample_file "[0x41]"] sample_stream_name by simp

end
