(* ===== verification/JsValue.thy ===== *)
theory JsValue
  imports Prelude PaperSchemas
begin

text \<open>
  Values of unknown type and the guards that narrow them, as the live risk modules write them
  (\<open>src/risk/liveRiskEngine.ts\<close>, \<open>src/risk/liveRiskPolicy.ts\<close>, \<open>src/risk/liveRiskAuthority.ts\<close>).
  An object is the list of its own properties, all of them enumerable data with text keys, and
  its prototype: that of plain objects, null, or another one; an array is dense.  The number
  negative zero is a value of its own, since the code tells it from zero with \<open>Object.is\<close>.  Accessors, symbol
  keys and proxies are outside the model.
\<close>

datatype prototype = ObjectPrototype | NullPrototype | OtherPrototype

datatype jsval =
    JUndefined | JNull | JBoolean bool | JNumber jsnum | JNegativeZero | JString string
  | JDate jsnum | JArray "jsval list" | JObject prototype "(string \<times> jsval) list" | JFunction

text \<open>\<open>value.key\<close> and \<open>value?.key\<close> of a key that no prototype defines.\<close>

fun get_property :: "jsval \<Rightarrow> string \<Rightarrow> jsval" where
  "get_property (JObject proto props) key = or_else (map_of props key) JUndefined"
| "get_property _ key = JUndefined"

fun object_entries :: "jsval \<Rightarrow> (string \<times> jsval) list" where
  "object_entries (JObject proto props) = props"
| "object_entries _ = []"

fun isRecord :: "jsval \<Rightarrow> bool" where
  "isRecord (JObject proto props) = True"
| "isRecord (JDate t) = True"
| "isRecord _ = False"

fun isNonEmptyString :: "jsval \<Rightarrow> bool" where
  "isNonEmptyString (JString s) = non_empty s"
| "isNonEmptyString _ = False"

fun isParseableTimestamp :: "js_env \<Rightarrow> jsval \<Rightarrow> bool" where
  "isParseableTimestamp env (JString s) \<longleftrightarrow> non_empty s \<and> is_finite (date_parse env s)"
| "isParseableTimestamp env _ \<longleftrightarrow> False"

fun isPositiveFiniteNumber :: "jsval \<Rightarrow> bool" where
  "isPositiveFiniteNumber (JNumber x) \<longleftrightarrow> is_finite x \<and> jlt (Fin 0) x"
| "isPositiveFiniteNumber _ \<longleftrightarrow> False"

fun isNonNegativeFiniteNumber :: "jsval \<Rightarrow> bool" where
  "isNonNegativeFiniteNumber (JNumber x) \<longleftrightarrow> is_finite x \<and> jle (Fin 0) x"
| "isNonNegativeFiniteNumber JNegativeZero \<longleftrightarrow> True"
| "isNonNegativeFiniteNumber _ \<longleftrightarrow> False"

fun isNonNegativeInteger :: "jsval \<Rightarrow> bool" where
  "isNonNegativeInteger (JNumber x) \<longleftrightarrow> is_integer x \<and> isNonNegativeFiniteNumber (JNumber x)"
| "isNonNegativeInteger JNegativeZero \<longleftrightarrow> True"
| "isNonNegativeInteger _ \<longleftrightarrow> False"

fun isBoolean :: "jsval \<Rightarrow> bool" where
  "isBoolean (JBoolean b) = True"
| "isBoolean _ = False"

fun isString :: "jsval \<Rightarrow> bool" where
  "isString (JString s) = True"
| "isString _ = False"

fun isArray :: "jsval \<Rightarrow> bool" where
  "isArray (JArray xs) = True"
| "isArray _ = False"

fun isValidDate :: "jsval \<Rightarrow> bool" where
  "isValidDate (JDate t) = is_finite t"
| "isValidDate _ = False"

text \<open>\<open>/^sha256:[a-f0-9]{64}$/\<close>.\<close>

definition is_sha256_text :: "string \<Rightarrow> bool" where
  "is_sha256_text s \<longleftrightarrow> take 7 s = ''sha256:'' \<and> length (drop 7 s) = 64 \<and>
     list_all (\<lambda>x. is_digit x \<or> x \<in> set ''abcdef'') (drop 7 s)"

definition isLiveMarket :: "jsval \<Rightarrow> bool" where
  "isLiveMarket v \<longleftrightarrow> v = JString ''KR'' \<or> v = JString ''US''"

section \<open>Reading a narrowed value\<close>

fun string_of :: "jsval \<Rightarrow> string" where
  "string_of (JString s) = s"
| "string_of _ = []"

fun string_option :: "jsval \<Rightarrow> string option" where
  "string_option (JString s) = Some s"
| "string_option _ = None"

fun number_of :: "jsval \<Rightarrow> jsnum" where
  "number_of (JNumber x) = x"
| "number_of JNegativeZero = Fin 0"
| "number_of _ = NaN"

fun number_option :: "jsval \<Rightarrow> jsnum option" where
  "number_option (JNumber x) = Some x"
| "number_option JNegativeZero = Some (Fin 0)"
| "number_option _ = None"

fun boolean_option :: "jsval \<Rightarrow> bool option" where
  "boolean_option (JBoolean b) = Some b"
| "boolean_option _ = None"

fun elements :: "jsval \<Rightarrow> jsval list" where
  "elements (JArray xs) = xs"
| "elements _ = []"

definition market_of :: "jsval \<Rightarrow> Market" where
  "market_of v = (if v = JString ''US'' then US else KR)"

definition market_option :: "jsval \<Rightarrow> Market option" where
  "market_option v = (if isLiveMarket v then Some (market_of v) else None)"

end
