(* ===== verification/LiveRiskPolicy.thy ===== *)
theory LiveRiskPolicy
  imports JsValue
begin

text \<open>
  The policy of the live risk engine (\<open>src/risk/liveRiskPolicy.ts\<close>): the reject codes, the
  defaults that a missing or ill-typed field falls back to, and the test that reports a policy
  with an ill-typed field.
\<close>

datatype LiveRiskRejectCode =
    KILL_SWITCH_ACTIVE | MAX_ORDER_AMOUNT_EXCEEDED | MAX_DAILY_LOSS_EXCEEDED
  | LIVE_SYMBOL_EXPOSURE_EXCEEDED | LIVE_MARKET_EXPOSURE_EXCEEDED | MAX_TOTAL_EXPOSURE_EXCEEDED
  | SYMBOL_NOT_ALLOWED | MARKET_NOT_ALLOWED | MARKET_CLOSED | MARKET_HOURS_UNKNOWN
  | DUPLICATE_ORDER_INTENT | IDEMPOTENCY_KEY_REUSED | LIVE_COOLDOWN_ACTIVE
  | OPEN_ORDER_LIMIT_EXCEEDED | MARKET_ORDER_DISABLED | MARKET_ORDER_REQUIRES_APPROVAL
  | SIGNAL_STALE | RISK_SNAPSHOT_STALE | LIVE_POSITION_NOT_FOUND | SELL_QUANTITY_EXCEEDED
  | PREVIEW_REQUIRED | PREVIEW_EXPIRED | PREVIEW_MISMATCH
  | INVALID_ORDER_INTENT | INVALID_RISK_SNAPSHOT | INVALID_RISK_POLICY

definition LIVE_RISK_RULE_IDS :: "string list" where
  "LIVE_RISK_RULE_IDS =
     [''kill_switch'', ''max_order_amount'', ''max_daily_loss'', ''max_position_exposure'',
      ''symbol_allowlist'', ''market_allowlist'', ''market_hours'', ''duplicate_order_prevention'',
      ''cooldown'', ''open_order_count'', ''market_order_policy'', ''stale_signal'',
      ''risk_snapshot_freshness'', ''sell_position'', ''preview_requirement'',
      ''order_intent_validation'', ''risk_snapshot_validation'', ''risk_policy_validation'']"

datatype LiveOrderSide = BUY | SELL
datatype LiveOrderType = LIMIT | MARKET
datatype LiveMarketSessionStatus = SessionOpen | SessionClosed
datatype LiveMarketOrderPolicy = OrdersDisabled | OrdersRequireApproval | OrdersAllowed

record LiveRiskCooldownEntry =
  lce_market :: "Market option"
  lce_symbol :: string
  lce_side :: "LiveOrderSide option"
  lce_activeUntil :: string
  lce_reason :: "string option"

record LiveRiskPolicy =
  lrp_killSwitch :: bool
  lrp_maxOrderAmountKrw :: jsnum
  lrp_maxDailyLossKrw :: jsnum
  lrp_maxSymbolExposureKrw :: jsnum
  lrp_maxMarketExposureKrw :: jsnum
  lrp_maxTotalExposureKrw :: jsnum
  lrp_maxSnapshotAgeMs :: jsnum
  lrp_allowedSymbols :: "string list"
  lrp_allowedMarkets :: "Market list"
  lrp_requireMarketOpen :: bool
  lrp_maxOpenOrders :: jsnum
  lrp_marketOrderPolicy :: LiveMarketOrderPolicy
  lrp_requirePreview :: bool
  lrp_cooldownEntries :: "LiveRiskCooldownEntry list"
  lrp_now :: jsnum

definition isLiveOrderSide :: "jsval \<Rightarrow> bool" where
  "isLiveOrderSide v \<longleftrightarrow> v = JString ''BUY'' \<or> v = JString ''SELL''"

definition side_of :: "jsval \<Rightarrow> LiveOrderSide" where
  "side_of v = (if v = JString ''SELL'' then SELL else BUY)"

definition side_option :: "jsval \<Rightarrow> LiveOrderSide option" where
  "side_option v = (if isLiveOrderSide v then Some (side_of v) else None)"

definition isLiveMarketOrderPolicy :: "jsval \<Rightarrow> bool" where
  "isLiveMarketOrderPolicy v \<longleftrightarrow>
     v = JString ''disabled'' \<or> v = JString ''requires_approval'' \<or> v = JString ''allowed''"

definition isLiveRiskCooldownEntry :: "js_env \<Rightarrow> jsval \<Rightarrow> bool" where
  "isLiveRiskCooldownEntry env v \<longleftrightarrow> isRecord v \<and>
     isNonEmptyString (get_property v ''symbol'') \<and>
     (get_property v ''market'' = JUndefined \<or> isLiveMarket (get_property v ''market'')) \<and>
     (get_property v ''side'' = JUndefined \<or> isLiveOrderSide (get_property v ''side'')) \<and>
     isParseableTimestamp env (get_property v ''activeUntil'') \<and>
     (get_property v ''reason'' = JUndefined \<or> isString (get_property v ''reason''))"

definition cooldown_entry :: "jsval \<Rightarrow> LiveRiskCooldownEntry" where
  "cooldown_entry v =
     \<lparr>lce_market = market_option (get_property v ''market''),
      lce_symbol = string_of (get_property v ''symbol''),
      lce_side = side_option (get_property v ''side''),
      lce_activeUntil = string_of (get_property v ''activeUntil''),
      lce_reason = string_option (get_property v ''reason'')\<rparr>"

section \<open>Codes and symbols\<close>

definition appendLiveRiskRejectCode ::
  "LiveRiskRejectCode list \<Rightarrow> LiveRiskRejectCode \<Rightarrow> LiveRiskRejectCode list" where
  "appendLiveRiskRejectCode target code = append_unique target code"

definition normalizeLiveRiskRejectCodes :: "LiveRiskRejectCode list \<Rightarrow> LiveRiskRejectCode list" where
  "normalizeLiveRiskRejectCodes codes = dedup codes"

definition normalizeLiveRiskSymbol :: "string \<Rightarrow> string" where
  "normalizeLiveRiskSymbol symbol = to_upper (trim symbol)"

section \<open>Defaults\<close>

definition normalizeNonNegativeFinitePolicyNumber :: "jsval \<Rightarrow> jsnum \<Rightarrow> jsnum" where
  "normalizeNonNegativeFinitePolicyNumber v fallback =
     (if isNonNegativeFiniteNumber v then number_of v else fallback)"

definition normalizeNonNegativeIntegerPolicyNumber :: "jsval \<Rightarrow> jsnum \<Rightarrow> jsnum" where
  "normalizeNonNegativeIntegerPolicyNumber v fallback =
     (if isNonNegativeInteger v then number_of v else fallback)"

definition normalizeBooleanPolicyValue :: "jsval \<Rightarrow> bool \<Rightarrow> bool" where
  "normalizeBooleanPolicyValue v fallback = or_else (boolean_option v) fallback"

definition normalizeAllowedSymbols :: "jsval \<Rightarrow> string list" where
  "normalizeAllowedSymbols v =
     dedup (map (normalizeLiveRiskSymbol \<circ> string_of) (filter isNonEmptyString (elements v)))"

definition normalizeAllowedMarkets :: "jsval \<Rightarrow> Market list" where
  "normalizeAllowedMarkets v = dedup (map market_of (filter isLiveMarket (elements v)))"

definition normalizeCooldownEntries :: "js_env \<Rightarrow> jsval \<Rightarrow> LiveRiskCooldownEntry list" where
  "normalizeCooldownEntries env v = map cooldown_entry (filter (isLiveRiskCooldownEntry env) (elements v))"

definition normalizeMarketOrderPolicy :: "jsval \<Rightarrow> LiveMarketOrderPolicy" where
  "normalizeMarketOrderPolicy v =
     (if v = JString ''requires_approval'' then OrdersRequireApproval
      else if v = JString ''allowed'' then OrdersAllowed else OrdersDisabled)"

definition normalizePolicyNow :: "js_env \<Rightarrow> jsval \<Rightarrow> jsnum" where
  "normalizePolicyNow env v = (case v of JDate t \<Rightarrow> if is_finite t then t else clock env | _ \<Rightarrow> clock env)"

definition createLiveRiskPolicy :: "js_env \<Rightarrow> jsval \<Rightarrow> LiveRiskPolicy" where
  "createLiveRiskPolicy env input =
     (let policy = (if isRecord input then input else JUndefined);
          amount = (\<lambda>key. normalizeNonNegativeFinitePolicyNumber (get_property policy key) (Fin 0));
          flag = (\<lambda>key. normalizeBooleanPolicyValue (get_property policy key) True)
      in \<lparr>lrp_killSwitch = flag ''killSwitch'',
          lrp_maxOrderAmountKrw = amount ''maxOrderAmountKrw'',
          lrp_maxDailyLossKrw = amount ''maxDailyLossKrw'',
          lrp_maxSymbolExposureKrw = amount ''maxSymbolExposureKrw'',
          lrp_maxMarketExposureKrw = amount ''maxMarketExposureKrw'',
          lrp_maxTotalExposureKrw = amount ''maxTotalExposureKrw'',
          lrp_maxSnapshotAgeMs =
            normalizeNonNegativeFinitePolicyNumber (get_property policy ''maxSnapshotAgeMs'') (Fin 60000),
          lrp_allowedSymbols = normalizeAllowedSymbols (get_property policy ''allowedSymbols''),
          lrp_allowedMarkets = normalizeAllowedMarkets (get_property policy ''allowedMarkets''),
          lrp_requireMarketOpen = flag ''requireMarketOpen'',
          lrp_maxOpenOrders =
            normalizeNonNegativeIntegerPolicyNumber (get_property policy ''maxOpenOrders'') (Fin 0),
          lrp_marketOrderPolicy = normalizeMarketOrderPolicy (get_property policy ''marketOrderPolicy''),
          lrp_requirePreview = flag ''requirePreview'',
          lrp_cooldownEntries = normalizeCooldownEntries env (get_property policy ''cooldownEntries''),
          lrp_now = normalizePolicyNow env (get_property policy ''now'')\<rparr>)"

section \<open>Validity of a policy\<close>

definition policy_number_keys :: "string list" where
  "policy_number_keys = [''maxOrderAmountKrw'', ''maxDailyLossKrw'', ''maxSymbolExposureKrw'',
     ''maxMarketExposureKrw'', ''maxTotalExposureKrw'', ''maxSnapshotAgeMs'']"

definition policy_boolean_keys :: "string list" where
  "policy_boolean_keys = [''killSwitch'', ''requireMarketOpen'', ''requirePreview'']"

text \<open>A field that is present and fails its test.\<close>

definition has_invalid_field :: "(jsval \<Rightarrow> bool) \<Rightarrow> jsval \<Rightarrow> string \<Rightarrow> bool" where
  "has_invalid_field guard policy key \<longleftrightarrow>
     get_property policy key \<noteq> JUndefined \<and> \<not> guard (get_property policy key)"

definition array_of :: "(jsval \<Rightarrow> bool) \<Rightarrow> jsval \<Rightarrow> bool" where
  "array_of guard v \<longleftrightarrow> isArray v \<and> \<not> list_ex (\<lambda>x. \<not> guard x) (elements v)"

definition hasInvalidLiveRiskPolicyInput :: "js_env \<Rightarrow> jsval \<Rightarrow> bool" where
  "hasInvalidLiveRiskPolicyInput env policy \<longleftrightarrow>
     policy \<noteq> JUndefined \<and>
     (\<not> isRecord policy \<or>
      list_ex (has_invalid_field isNonNegativeFiniteNumber policy) policy_number_keys \<or>
      list_ex (has_invalid_field isBoolean policy) policy_boolean_keys \<or>
      has_invalid_field isNonNegativeInteger policy ''maxOpenOrders'' \<or>
      has_invalid_field (array_of isNonEmptyString) policy ''allowedSymbols'' \<or>
      has_invalid_field (array_of isLiveMarket) policy ''allowedMarkets'' \<or>
      has_invalid_field (array_of (isLiveRiskCooldownEntry env)) policy ''cooldownEntries'' \<or>
      has_invalid_field isLiveMarketOrderPolicy policy ''marketOrderPolicy'' \<or>
      has_invalid_field isValidDate policy ''now'')"

end
