(* ===== verification/LiveRiskEngine.thy ===== *)
theory LiveRiskEngine
  imports LiveRiskPolicy
begin

text \<open>
  The live risk engine (\<open>src/risk/liveRiskEngine.ts\<close>): the guards that accept an order intent and
  a risk snapshot of unknown type, the safe copies of both, the rules and the decision.  A valid
  intent is its own safe copy, field by field, so the model does not tell a deeply frozen intent,
  which the code uses as it is, from one that it copies.
\<close>

record LiveOrderPreviewRef =
  lpr_previewId :: string
  lpr_orderIntentId :: string
  lpr_estimatedGrossAmountKrw :: jsnum
  lpr_expiresAt :: string

record LiveOrderIntent =
  loi_orderIntentId :: string
  loi_signalId :: string
  loi_idempotencyKey :: string
  loi_market :: Market
  loi_symbol :: string
  loi_side :: LiveOrderSide
  loi_orderType :: LiveOrderType
  loi_quantity :: jsnum
  loi_estimatedGrossAmountKrw :: jsnum
  loi_createdAt :: string
  loi_expiresAt :: string
  loi_preview :: "LiveOrderPreviewRef option"
  loi_approvals :: "bool option option"

record LiveRiskPosition =
  lpos_market :: Market
  lpos_symbol :: string
  lpos_quantity :: jsnum
  lpos_averagePriceKrw :: jsnum
  lpos_marketValueKrw :: "jsnum option"

record LiveOpenOrder =
  loo_orderIntentId :: string
  loo_signalId :: "string option"
  loo_idempotencyKey :: string
  loo_market :: Market
  loo_symbol :: string
  loo_side :: LiveOrderSide
  loo_estimatedGrossAmountKrw :: "jsnum option"
  loo_quantity :: "jsnum option"

record LiveRiskSnapshot =
  lrs_riskSnapshotRef :: string
  lrs_capturedAt :: string
  lrs_dailyLossKrw :: jsnum
  lrs_positions :: "LiveRiskPosition list"
  lrs_openOrders :: "LiveOpenOrder list"
  lrs_marketSessions :: "(Market \<times> LiveMarketSessionStatus) list"

record LiveRiskDecision =
  lrd_riskDecisionId :: string
  lrd_orderIntentId :: string
  lrd_signalId :: string
  lrd_approved :: bool
  lrd_rejectCodes :: "LiveRiskRejectCode list"
  lrd_checkedRules :: "string list"
  lrd_riskSnapshotRef :: string
  lrd_createdAt :: string

section \<open>Guards\<close>

definition isLiveOrderType :: "jsval \<Rightarrow> bool" where
  "isLiveOrderType v \<longleftrightarrow> v = JString ''LIMIT'' \<or> v = JString ''MARKET''"

definition isLiveMarketSessionStatus :: "jsval \<Rightarrow> bool" where
  "isLiveMarketSessionStatus v \<longleftrightarrow> v = JString ''open'' \<or> v = JString ''closed''"

definition isLiveOrderPreviewRef :: "js_env \<Rightarrow> jsval \<Rightarrow> bool" where
  "isLiveOrderPreviewRef env v \<longleftrightarrow> isRecord v \<and>
     isNonEmptyString (get_property v ''previewId'') \<and>
     isNonEmptyString (get_property v ''orderIntentId'') \<and>
     isPositiveFiniteNumber (get_property v ''estimatedGrossAmountKrw'') \<and>
     isParseableTimestamp env (get_property v ''expiresAt'')"

definition isLiveOrderApprovals :: "jsval \<Rightarrow> bool" where
  "isLiveOrderApprovals v \<longleftrightarrow> isRecord v \<and>
     (get_property v ''marketOrderApproved'' = JUndefined \<or> isBoolean (get_property v ''marketOrderApproved''))"

definition isLiveMarketSessions :: "jsval \<Rightarrow> bool" where
  "isLiveMarketSessions v \<longleftrightarrow> isRecord v \<and>
     list_all (\<lambda>(market, status). isLiveMarket (JString market) \<and> isLiveMarketSessionStatus status)
       (object_entries v)"

definition isLiveRiskPosition :: "jsval \<Rightarrow> bool" where
  "isLiveRiskPosition v \<longleftrightarrow> isRecord v \<and>
     isLiveMarket (get_property v ''market'') \<and> isNonEmptyString (get_property v ''symbol'') \<and>
     isNonNegativeFiniteNumber (get_property v ''quantity'') \<and>
     isNonNegativeFiniteNumber (get_property v ''averagePriceKrw'') \<and>
     (get_property v ''marketValueKrw'' = JUndefined \<or>
      isNonNegativeFiniteNumber (get_property v ''marketValueKrw''))"

definition isLiveOpenOrder :: "jsval \<Rightarrow> bool" where
  "isLiveOpenOrder v \<longleftrightarrow> isRecord v \<and>
     \<not> (\<not> isNonEmptyString (get_property v ''orderIntentId'') \<or>
        get_property v ''signalId'' \<noteq> JUndefined \<and> \<not> isNonEmptyString (get_property v ''signalId'') \<or>
        \<not> isNonEmptyString (get_property v ''idempotencyKey'') \<or>
        \<not> isLiveMarket (get_property v ''market'') \<or> \<not> isNonEmptyString (get_property v ''symbol'') \<or>
        \<not> isLiveOrderSide (get_property v ''side'')) \<and>
     \<not> (get_property v ''side'' = JString ''BUY'' \<and>
        \<not> isPositiveFiniteNumber (get_property v ''estimatedGrossAmountKrw'')) \<and>
     (get_property v ''side'' \<noteq> JString ''SELL'' \<or> isPositiveFiniteNumber (get_property v ''quantity''))"

definition isLiveOrderIntentInput :: "js_env \<Rightarrow> jsval \<Rightarrow> bool" where
  "isLiveOrderIntentInput env v \<longleftrightarrow> isRecord v \<and>
     isNonEmptyString (get_property v ''orderIntentId'') \<and> isNonEmptyString (get_property v ''signalId'') \<and>
     isNonEmptyString (get_property v ''idempotencyKey'') \<and> isLiveMarket (get_property v ''market'') \<and>
     isNonEmptyString (get_property v ''symbol'') \<and> isLiveOrderSide (get_property v ''side'') \<and>
     isLiveOrderType (get_property v ''orderType'') \<and> isPositiveFiniteNumber (get_property v ''quantity'') \<and>
     isPositiveFiniteNumber (get_property v ''estimatedGrossAmountKrw'') \<and>
     isParseableTimestamp env (get_property v ''createdAt'') \<and>
     isParseableTimestamp env (get_property v ''expiresAt'') \<and>
     (get_property v ''preview'' = JUndefined \<or> isLiveOrderPreviewRef env (get_property v ''preview'')) \<and>
     (get_property v ''approvals'' = JUndefined \<or> isLiveOrderApprovals (get_property v ''approvals''))"

definition isLiveRiskSnapshotInput :: "js_env \<Rightarrow> jsval \<Rightarrow> bool" where
  "isLiveRiskSnapshotInput env v \<longleftrightarrow> isRecord v \<and>
     isNonEmptyString (get_property v ''riskSnapshotRef'') \<and>
     isParseableTimestamp env (get_property v ''capturedAt'') \<and>
     isNonNegativeFiniteNumber (get_property v ''dailyLossKrw'') \<and>
     isArray (get_property v ''positions'') \<and>
     list_all isLiveRiskPosition (elements (get_property v ''positions'')) \<and>
     isArray (get_property v ''openOrders'') \<and>
     list_all isLiveOpenOrder (elements (get_property v ''openOrders'')) \<and>
     isLiveMarketSessions (get_property v ''marketSessions'')"

section \<open>Safe copies\<close>

definition safeNonEmptyString :: "jsval \<Rightarrow> string \<Rightarrow> string" where
  "safeNonEmptyString v fallback = (if isNonEmptyString v then string_of v else fallback)"

definition safeTimestamp :: "js_env \<Rightarrow> jsval \<Rightarrow> string" where
  "safeTimestamp env v = (if isParseableTimestamp env v then string_of v else ''1970-01-01T00:00:00.000Z'')"

definition preview_of :: "jsval \<Rightarrow> LiveOrderPreviewRef" where
  "preview_of v =
     \<lparr>lpr_previewId = string_of (get_property v ''previewId''),
      lpr_orderIntentId = string_of (get_property v ''orderIntentId''),
      lpr_estimatedGrossAmountKrw = number_of (get_property v ''estimatedGrossAmountKrw''),
      lpr_expiresAt = string_of (get_property v ''expiresAt'')\<rparr>"

definition safeOrderPreview :: "js_env \<Rightarrow> jsval \<Rightarrow> LiveOrderPreviewRef option" where
  "safeOrderPreview env v = (if isLiveOrderPreviewRef env v then Some (preview_of v) else None)"

definition createSafeOrderApprovals :: "jsval \<Rightarrow> bool option option" where
  "createSafeOrderApprovals v =
     (if \<not> isRecord v then None else Some (boolean_option (get_property v ''marketOrderApproved'')))"

definition createSafeOrderIntent :: "js_env \<Rightarrow> jsval \<Rightarrow> LiveOrderIntent" where
  "createSafeOrderIntent env v =
     (let read = get_property (if isRecord v then v else JObject ObjectPrototype []);
          positive = (\<lambda>key. if isPositiveFiniteNumber (read key) then number_of (read key) else Fin 0)
      in \<lparr>loi_orderIntentId = safeNonEmptyString (read ''orderIntentId'') ''invalid_order_intent'',
          loi_signalId = safeNonEmptyString (read ''signalId'') ''invalid_signal'',
          loi_idempotencyKey = safeNonEmptyString (read ''idempotencyKey'') ''invalid_idempotency_key'',
          loi_market = (if isLiveMarket (read ''market'') then market_of (read ''market'') else KR),
          loi_symbol = safeNonEmptyString (read ''symbol'') [],
          loi_side = (if isLiveOrderSide (read ''side'') then side_of (read ''side'') else BUY),
          loi_orderType = (if read ''orderType'' = JString ''MARKET'' then MARKET else LIMIT),
          loi_quantity = positive ''quantity'',
          loi_estimatedGrossAmountKrw = positive ''estimatedGrossAmountKrw'',
          loi_createdAt = safeTimestamp env (read ''createdAt''),
          loi_expiresAt = safeTimestamp env (read ''expiresAt''),
          loi_preview = safeOrderPreview env (read ''preview''),
          loi_approvals = createSafeOrderApprovals (read ''approvals'')\<rparr>)"

definition position_of :: "jsval \<Rightarrow> LiveRiskPosition" where
  "position_of v =
     \<lparr>lpos_market = market_of (get_property v ''market''), lpos_symbol = string_of (get_property v ''symbol''),
      lpos_quantity = number_of (get_property v ''quantity''),
      lpos_averagePriceKrw = number_of (get_property v ''averagePriceKrw''),
      lpos_marketValueKrw = number_option (get_property v ''marketValueKrw'')\<rparr>"

text \<open>The amount of a sell and the quantity of a buy are not validated; no rule reads them.\<close>

definition open_order_of :: "jsval \<Rightarrow> LiveOpenOrder" where
  "open_order_of v =
     \<lparr>loo_orderIntentId = string_of (get_property v ''orderIntentId''),
      loo_signalId = string_option (get_property v ''signalId''),
      loo_idempotencyKey = string_of (get_property v ''idempotencyKey''),
      loo_market = market_of (get_property v ''market''), loo_symbol = string_of (get_property v ''symbol''),
      loo_side = side_of (get_property v ''side''),
      loo_estimatedGrossAmountKrw = number_option (get_property v ''estimatedGrossAmountKrw''),
      loo_quantity = number_option (get_property v ''quantity'')\<rparr>"

definition createSafeMarketSessions :: "jsval \<Rightarrow> (Market \<times> LiveMarketSessionStatus) list" where
  "createSafeMarketSessions v =
     map (\<lambda>(market, status). (market_of (JString market),
            if status = JString ''open'' then SessionOpen else SessionClosed))
       (filter (\<lambda>(market, status). isLiveMarket (JString market) \<and> isLiveMarketSessionStatus status)
         (if isRecord v then object_entries v else []))"

definition createSafeRiskSnapshot :: "js_env \<Rightarrow> jsval \<Rightarrow> LiveRiskSnapshot" where
  "createSafeRiskSnapshot env v =
     (let read = get_property (if isRecord v then v else JObject ObjectPrototype [])
      in \<lparr>lrs_riskSnapshotRef = safeNonEmptyString (read ''riskSnapshotRef'') ''invalid_risk_snapshot'',
          lrs_capturedAt = safeTimestamp env (read ''capturedAt''),
          lrs_dailyLossKrw =
            (if isNonNegativeFiniteNumber (read ''dailyLossKrw'') then number_of (read ''dailyLossKrw'') else Fin 0),
          lrs_positions = map position_of (filter isLiveRiskPosition (elements (read ''positions''))),
          lrs_openOrders = map open_order_of (filter isLiveOpenOrder (elements (read ''openOrders''))),
          lrs_marketSessions = createSafeMarketSessions (read ''marketSessions'')\<rparr>)"

section \<open>Exposure\<close>

definition safeNormalizeLiveRiskSymbol :: "string \<Rightarrow> string" where
  "safeNormalizeLiveRiskSymbol s = (if non_empty s then normalizeLiveRiskSymbol s else [])"

definition live_position_exposure :: "LiveRiskPosition \<Rightarrow> jsnum" where
  "live_position_exposure p =
     or_else (lpos_marketValueKrw p) (jround (jmul (lpos_quantity p) (lpos_averagePriceKrw p)))"

definition openOrderExposureKrw :: "LiveOpenOrder \<Rightarrow> jsnum" where
  "openOrderExposureKrw o1 = or_else (loo_estimatedGrossAmountKrw o1) (Fin 0)"

definition openOrderQuantity :: "LiveOpenOrder \<Rightarrow> jsnum" where
  "openOrderQuantity o1 = or_else (loo_quantity o1) (Fin 0)"

definition sum_of :: "('a \<Rightarrow> jsnum) \<Rightarrow> 'a list \<Rightarrow> jsnum" where
  "sum_of f xs = foldl (\<lambda>sum x. jadd sum (f x)) (Fin 0) xs"

definition matchingPositions :: "LiveRiskSnapshot \<Rightarrow> Market \<Rightarrow> string \<Rightarrow> LiveRiskPosition list" where
  "matchingPositions s market symbol =
     filter (\<lambda>p. lpos_market p = market \<and> safeNormalizeLiveRiskSymbol (lpos_symbol p) = symbol)
       (lrs_positions s)"

definition currentOpenBuySymbolExposureKrw :: "LiveRiskSnapshot \<Rightarrow> Market \<Rightarrow> string \<Rightarrow> jsnum" where
  "currentOpenBuySymbolExposureKrw s market symbol =
     sum_of openOrderExposureKrw
       (filter (\<lambda>x. loo_side x = BUY \<and> loo_market x = market \<and>
                    safeNormalizeLiveRiskSymbol (loo_symbol x) = symbol) (lrs_openOrders s))"

definition currentOpenBuyMarketExposureKrw :: "LiveRiskSnapshot \<Rightarrow> Market \<Rightarrow> jsnum" where
  "currentOpenBuyMarketExposureKrw s market =
     sum_of openOrderExposureKrw (filter (\<lambda>x. loo_side x = BUY \<and> loo_market x = market) (lrs_openOrders s))"

definition currentOpenBuyTotalExposureKrw :: "LiveRiskSnapshot \<Rightarrow> jsnum" where
  "currentOpenBuyTotalExposureKrw s =
     sum_of openOrderExposureKrw (filter (\<lambda>x. loo_side x = BUY) (lrs_openOrders s))"

definition currentOpenSellQuantity :: "LiveRiskSnapshot \<Rightarrow> Market \<Rightarrow> string \<Rightarrow> jsnum" where
  "currentOpenSellQuantity s market symbol =
     sum_of openOrderQuantity
       (filter (\<lambda>x. loo_side x = SELL \<and> loo_market x = market \<and>
                    safeNormalizeLiveRiskSymbol (loo_symbol x) = symbol) (lrs_openOrders s))"

definition live_symbol_exposure :: "LiveRiskSnapshot \<Rightarrow> Market \<Rightarrow> string \<Rightarrow> jsnum" where
  "live_symbol_exposure s market symbol =
     jadd (sum_of live_position_exposure (matchingPositions s market symbol))
       (currentOpenBuySymbolExposureKrw s market symbol)"

definition currentMarketExposureKrw :: "LiveRiskSnapshot \<Rightarrow> Market \<Rightarrow> jsnum" where
  "currentMarketExposureKrw s market =
     jadd (sum_of live_position_exposure (filter (\<lambda>p. lpos_market p = market) (lrs_positions s)))
       (currentOpenBuyMarketExposureKrw s market)"

definition currentTotalExposureKrw :: "LiveRiskSnapshot \<Rightarrow> jsnum" where
  "currentTotalExposureKrw s =
     jadd (sum_of live_position_exposure (lrs_positions s)) (currentOpenBuyTotalExposureKrw s)"

section \<open>Rules\<close>

text \<open>Every rule takes the codes so far and returns them with its own.\<close>

type_synonym codes = "LiveRiskRejectCode list"

definition evaluateRiskPolicyShape :: "js_env \<Rightarrow> jsval \<Rightarrow> codes \<Rightarrow> codes" where
  "evaluateRiskPolicyShape env policy codes =
     append_if (hasInvalidLiveRiskPolicyInput env policy) INVALID_RISK_POLICY codes"

definition preview_invalid :: "js_env \<Rightarrow> LiveOrderPreviewRef \<Rightarrow> bool" where
  "preview_invalid env p \<longleftrightarrow>
     \<not> (isNonEmptyString (JString (lpr_previewId p)) \<and> isNonEmptyString (JString (lpr_orderIntentId p)) \<and>
        isPositiveFiniteNumber (JNumber (lpr_estimatedGrossAmountKrw p)) \<and>
        isParseableTimestamp env (JString (lpr_expiresAt p)))"

definition evaluateOrderIntentShape :: "js_env \<Rightarrow> LiveOrderIntent \<Rightarrow> codes \<Rightarrow> codes" where
  "evaluateOrderIntentShape env i codes =
     append_if
       (\<not> isNonEmptyString (JString (loi_orderIntentId i)) \<or> \<not> isNonEmptyString (JString (loi_signalId i)) \<or>
        \<not> isNonEmptyString (JString (loi_idempotencyKey i)) \<or> \<not> isNonEmptyString (JString (loi_symbol i)) \<or>
        \<not> isPositiveFiniteNumber (JNumber (loi_quantity i)) \<or>
        \<not> isPositiveFiniteNumber (JNumber (loi_estimatedGrossAmountKrw i)) \<or>
        \<not> isParseableTimestamp env (JString (loi_createdAt i)) \<or>
        \<not> isParseableTimestamp env (JString (loi_expiresAt i)) \<or>
        (case loi_preview i of None \<Rightarrow> False | Some p \<Rightarrow> preview_invalid env p))
       INVALID_ORDER_INTENT codes"

definition position_invalid :: "LiveRiskPosition \<Rightarrow> bool" where
  "position_invalid p \<longleftrightarrow>
     \<not> isNonEmptyString (JString (lpos_symbol p)) \<or> \<not> isNonNegativeFiniteNumber (JNumber (lpos_quantity p)) \<or>
     \<not> isNonNegativeFiniteNumber (JNumber (lpos_averagePriceKrw p)) \<or>
     (case lpos_marketValueKrw p of None \<Rightarrow> False | Some v \<Rightarrow> \<not> isNonNegativeFiniteNumber (JNumber v))"

definition open_order_invalid :: "LiveOpenOrder \<Rightarrow> bool" where
  "open_order_invalid x \<longleftrightarrow>
     \<not> isNonEmptyString (JString (loo_orderIntentId x)) \<or>
     (case loo_signalId x of None \<Rightarrow> False | Some s \<Rightarrow> \<not> isNonEmptyString (JString s)) \<or>
     \<not> isNonEmptyString (JString (loo_idempotencyKey x)) \<or> \<not> isNonEmptyString (JString (loo_symbol x)) \<or>
     loo_side x = BUY \<and> \<not> isPositiveFiniteNumber (JNumber (or_else (loo_estimatedGrossAmountKrw x) NaN)) \<or>
     loo_side x = SELL \<and> \<not> isPositiveFiniteNumber (JNumber (or_else (loo_quantity x) NaN))"

text \<open>The tests that the copied positions and open orders are arrays of objects hold by their types.\<close>

definition evaluateRiskSnapshotShape :: "js_env \<Rightarrow> LiveRiskSnapshot \<Rightarrow> codes \<Rightarrow> codes" where
  "evaluateRiskSnapshotShape env s codes =
     append_if (list_ex open_order_invalid (lrs_openOrders s)) INVALID_RISK_SNAPSHOT
       (append_if (list_ex position_invalid (lrs_positions s)) INVALID_RISK_SNAPSHOT
         (append_if
           (\<not> isNonEmptyString (JString (lrs_riskSnapshotRef s)) \<or>
            \<not> isParseableTimestamp env (JString (lrs_capturedAt s)) \<or>
            \<not> isNonNegativeFiniteNumber (JNumber (lrs_dailyLossKrw s)))
           INVALID_RISK_SNAPSHOT codes))"

definition evaluateKillSwitch :: "LiveRiskPolicy \<Rightarrow> codes \<Rightarrow> codes" where
  "evaluateKillSwitch p codes = append_if (lrp_killSwitch p) KILL_SWITCH_ACTIVE codes"

definition evaluateStaleSignal :: "js_env \<Rightarrow> LiveOrderIntent \<Rightarrow> LiveRiskPolicy \<Rightarrow> codes \<Rightarrow> codes" where
  "evaluateStaleSignal env i p codes =
     append_if (\<not> isFresh env (loi_expiresAt i) (lrp_now p)) SIGNAL_STALE codes"

definition evaluateOrderAmount :: "LiveOrderIntent \<Rightarrow> LiveRiskPolicy \<Rightarrow> codes \<Rightarrow> codes" where
  "evaluateOrderAmount i p codes =
     append_if (jlt (lrp_maxOrderAmountKrw p) (loi_estimatedGrossAmountKrw i)) MAX_ORDER_AMOUNT_EXCEEDED codes"

definition snapshot_stale :: "js_env \<Rightarrow> LiveRiskSnapshot \<Rightarrow> LiveRiskPolicy \<Rightarrow> bool" where
  "snapshot_stale env s p \<longleftrightarrow>
     (let capturedAtMs = date_parse env (lrs_capturedAt s); nowMs = lrp_now p
      in jlt nowMs capturedAtMs \<or> jlt (lrp_maxSnapshotAgeMs p) (jsub nowMs capturedAtMs))"

definition evaluateRiskSnapshotFreshness :: "js_env \<Rightarrow> LiveRiskSnapshot \<Rightarrow> LiveRiskPolicy \<Rightarrow> codes \<Rightarrow> codes" where
  "evaluateRiskSnapshotFreshness env s p codes =
     (if \<not> is_finite (date_parse env (lrs_capturedAt s)) then codes
      else append_if (snapshot_stale env s p) RISK_SNAPSHOT_STALE codes)"

definition evaluateDailyLoss :: "LiveRiskSnapshot \<Rightarrow> LiveRiskPolicy \<Rightarrow> codes \<Rightarrow> codes" where
  "evaluateDailyLoss s p codes =
     append_if (jlt (lrp_maxDailyLossKrw p) (lrs_dailyLossKrw s)) MAX_DAILY_LOSS_EXCEEDED codes"

definition evaluateAllowlists :: "Market \<Rightarrow> string \<Rightarrow> LiveRiskPolicy \<Rightarrow> codes \<Rightarrow> codes" where
  "evaluateAllowlists market symbol p codes =
     append_if (market \<notin> set (lrp_allowedMarkets p)) MARKET_NOT_ALLOWED
       (append_if (symbol \<notin> set (lrp_allowedSymbols p)) SYMBOL_NOT_ALLOWED codes)"

definition evaluateMarketHours :: "Market \<Rightarrow> LiveRiskSnapshot \<Rightarrow> LiveRiskPolicy \<Rightarrow> codes \<Rightarrow> codes" where
  "evaluateMarketHours market s p codes =
     (if \<not> lrp_requireMarketOpen p then codes
      else case map_of (lrs_marketSessions s) market of
             None \<Rightarrow> appendLiveRiskRejectCode codes MARKET_HOURS_UNKNOWN
           | Some session \<Rightarrow> append_if (session \<noteq> SessionOpen) MARKET_CLOSED codes)"

definition duplicate_order_step :: "LiveOrderIntent \<Rightarrow> string \<Rightarrow> codes \<Rightarrow> LiveOpenOrder \<Rightarrow> codes" where
  "duplicate_order_step i symbol codes x =
     append_if (loo_signalId x = Some (loi_signalId i) \<and> loo_market x = loi_market i \<and>
                safeNormalizeLiveRiskSymbol (loo_symbol x) = symbol \<and> loo_side x = loi_side i)
       DUPLICATE_ORDER_INTENT
       (append_if (loo_idempotencyKey x = loi_idempotencyKey i) IDEMPOTENCY_KEY_REUSED
         (append_if (loo_orderIntentId x = loi_orderIntentId i) DUPLICATE_ORDER_INTENT codes))"

definition evaluateDuplicateOrder :: "LiveOrderIntent \<Rightarrow> string \<Rightarrow> LiveRiskSnapshot \<Rightarrow> codes \<Rightarrow> codes" where
  "evaluateDuplicateOrder i symbol s codes = foldl (duplicate_order_step i symbol) codes (lrs_openOrders s)"

definition cooldown_active :: "js_env \<Rightarrow> LiveOrderIntent \<Rightarrow> string \<Rightarrow> LiveRiskPolicy \<Rightarrow> LiveRiskCooldownEntry \<Rightarrow> bool" where
  "cooldown_active env i symbol p entry =
     (if \<not> isFresh env (lce_activeUntil entry) (lrp_now p) then False
      else if lce_market entry \<noteq> None \<and> lce_market entry \<noteq> Some (loi_market i) then False
      else if normalizeLiveRiskSymbol (lce_symbol entry) \<noteq> symbol then False
      else lce_side entry = None \<or> lce_side entry = Some (loi_side i))"

definition evaluateCooldown :: "js_env \<Rightarrow> LiveOrderIntent \<Rightarrow> string \<Rightarrow> LiveRiskPolicy \<Rightarrow> codes \<Rightarrow> codes" where
  "evaluateCooldown env i symbol p codes =
     append_if (list_ex (cooldown_active env i symbol p) (lrp_cooldownEntries p)) LIVE_COOLDOWN_ACTIVE codes"

definition evaluateOpenOrderCount :: "LiveRiskSnapshot \<Rightarrow> LiveRiskPolicy \<Rightarrow> codes \<Rightarrow> codes" where
  "evaluateOpenOrderCount s p codes =
     append_if (jle (lrp_maxOpenOrders p) (num (int (length (lrs_openOrders s))))) OPEN_ORDER_LIMIT_EXCEEDED codes"

definition evaluateMarketOrderPolicy :: "LiveOrderIntent \<Rightarrow> LiveRiskPolicy \<Rightarrow> codes \<Rightarrow> codes" where
  "evaluateMarketOrderPolicy i p codes =
     (if loi_orderType i \<noteq> MARKET then codes
      else if lrp_marketOrderPolicy p = OrdersDisabled then appendLiveRiskRejectCode codes MARKET_ORDER_DISABLED
      else append_if (lrp_marketOrderPolicy p = OrdersRequireApproval \<and> loi_approvals i \<noteq> Some (Some True))
             MARKET_ORDER_REQUIRES_APPROVAL codes)"

definition evaluateSellPosition :: "LiveOrderIntent \<Rightarrow> string \<Rightarrow> LiveRiskSnapshot \<Rightarrow> codes \<Rightarrow> codes" where
  "evaluateSellPosition i symbol s codes =
     (if loi_side i \<noteq> SELL then codes
      else let positions = matchingPositions s (loi_market i) symbol
           in if positions = [] then appendLiveRiskRejectCode codes LIVE_POSITION_NOT_FOUND
              else append_if
                (jlt (sum_of lpos_quantity positions)
                   (jadd (loi_quantity i) (currentOpenSellQuantity s (loi_market i) symbol)))
                SELL_QUANTITY_EXCEEDED codes)"

text \<open>The preview of a copied intent is absent or well formed, so its own test never fires here.\<close>

definition evaluatePreviewRequirement :: "js_env \<Rightarrow> LiveOrderIntent \<Rightarrow> LiveRiskPolicy \<Rightarrow> codes \<Rightarrow> codes" where
  "evaluatePreviewRequirement env i p codes =
     (if \<not> lrp_requirePreview p then codes
      else case loi_preview i of
             None \<Rightarrow> appendLiveRiskRejectCode codes PREVIEW_REQUIRED
           | Some preview \<Rightarrow>
               if preview_invalid env preview then appendLiveRiskRejectCode codes INVALID_ORDER_INTENT
               else append_if (lpr_orderIntentId preview \<noteq> loi_orderIntentId i \<or>
                      \<not> jeq (lpr_estimatedGrossAmountKrw preview) (loi_estimatedGrossAmountKrw i))
                    PREVIEW_MISMATCH
                    (append_if (\<not> isFresh env (lpr_expiresAt preview) (lrp_now p)) PREVIEW_EXPIRED codes))"

definition evaluateExposure :: "LiveOrderIntent \<Rightarrow> string \<Rightarrow> LiveRiskSnapshot \<Rightarrow> LiveRiskPolicy \<Rightarrow> codes \<Rightarrow> codes" where
  "evaluateExposure i symbol s p codes =
     (if loi_side i \<noteq> BUY then codes
      else let additional = loi_estimatedGrossAmountKrw i;
               symbolExposure = jadd (live_symbol_exposure s (loi_market i) symbol) additional;
               marketExposure = jadd (currentMarketExposureKrw s (loi_market i)) additional;
               totalExposure = jadd (currentTotalExposureKrw s) additional
           in append_if (jlt (lrp_maxTotalExposureKrw p) totalExposure) MAX_TOTAL_EXPOSURE_EXCEEDED
                (append_if (jlt (lrp_maxMarketExposureKrw p) marketExposure) LIVE_MARKET_EXPOSURE_EXCEEDED
                  (append_if (jlt (lrp_maxSymbolExposureKrw p) symbolExposure) LIVE_SYMBOL_EXPOSURE_EXCEEDED codes)))"

section \<open>The decision\<close>

definition initial_reject_codes :: "js_env \<Rightarrow> jsval \<Rightarrow> jsval \<Rightarrow> codes" where
  "initial_reject_codes env rawIntent rawSnapshot =
     append_if (\<not> isLiveRiskSnapshotInput env rawSnapshot) INVALID_RISK_SNAPSHOT
       (append_if (\<not> isLiveOrderIntentInput env rawIntent) INVALID_ORDER_INTENT [])"

definition live_reject_codes :: "js_env \<Rightarrow> jsval \<Rightarrow> codes" where
  "live_reject_codes env input =
     (let record = (if isRecord input then input else JUndefined);
          rawIntent = get_property record ''intent''; rawSnapshot = get_property record ''snapshot'';
          rawPolicy = get_property record ''policy'';
          i = createSafeOrderIntent env rawIntent; s = createSafeRiskSnapshot env rawSnapshot;
          p = createLiveRiskPolicy env rawPolicy;
          symbol = safeNormalizeLiveRiskSymbol (loi_symbol i);
          codes = initial_reject_codes env rawIntent rawSnapshot;
          codes = evaluateRiskPolicyShape env rawPolicy codes;
          codes = evaluateOrderIntentShape env i codes;
          codes = evaluateRiskSnapshotShape env s codes;
          codes = evaluateKillSwitch p codes;
          codes = evaluateStaleSignal env i p codes;
          codes = evaluateOrderAmount i p codes;
          codes = evaluateRiskSnapshotFreshness env s p codes;
          codes = evaluateDailyLoss s p codes;
          codes = evaluateAllowlists (loi_market i) symbol p codes;
          codes = evaluateMarketHours (loi_market i) s p codes;
          codes = evaluateDuplicateOrder i symbol s codes;
          codes = evaluateCooldown env i symbol p codes;
          codes = evaluateOpenOrderCount s p codes;
          codes = evaluateMarketOrderPolicy i p codes;
          codes = evaluateSellPosition i symbol s codes;
          codes = evaluatePreviewRequirement env i p codes
      in evaluateExposure i symbol s p codes)"

definition live_evaluate :: "js_env \<Rightarrow> jsval \<Rightarrow> LiveRiskDecision result" where
  "live_evaluate env input =
     (let record = (if isRecord input then input else JUndefined);
          i = createSafeOrderIntent env (get_property record ''intent'');
          s = createSafeRiskSnapshot env (get_property record ''snapshot'');
          p = createLiveRiskPolicy env (get_property record ''policy'');
          codes = live_reject_codes env input
      in bind_result (to_iso (lrp_now p)) (\<lambda>createdAt.
           Inr \<lparr>lrd_riskDecisionId = ''risk_'' @ loi_orderIntentId i @ ''_'' @ lrs_riskSnapshotRef s,
                lrd_orderIntentId = loi_orderIntentId i, lrd_signalId = loi_signalId i,
                lrd_approved = (length codes = 0),
                lrd_rejectCodes = normalizeLiveRiskRejectCodes codes,
                lrd_checkedRules = LIVE_RISK_RULE_IDS,
                lrd_riskSnapshotRef = lrs_riskSnapshotRef s, lrd_createdAt = createdAt\<rparr>))"

end
