(* ===== verification/LiveRiskFacts.thy ===== *)
theory LiveRiskFacts
  imports LiveRiskEngine
begin

text \<open>
  What the rules of the live risk engine report: each leaves no code exactly when its condition
  holds, a valid input passes the checks of its own copy, and no amount that the rules compare is
  NaN.
\<close>

section \<open>Amounts\<close>

lemma sum_of_nonneg:
  assumes "\<forall>x \<in> set xs. jle (Fin 0) (f x)"
  shows "jle (Fin 0) (sum_of f xs)"
proof -
  have "jle (Fin 0) a \<Longrightarrow> jle (Fin 0) (foldl (\<lambda>s x. jadd s (f x)) a xs)" for a
    using assms by (induction xs arbitrary: a) (auto intro: jadd_nonneg)
  then show ?thesis by (simp add: sum_of_def)
qed

lemma nonneg_not_NaN: "jle (Fin 0) x \<Longrightarrow> x \<noteq> NaN"
  by auto

lemma not_above: "jle (Fin 0) x \<Longrightarrow> jle (Fin 0) y \<Longrightarrow> \<not> jlt x y \<longleftrightarrow> jle y x"
  using not_jlt nonneg_not_NaN by blast

section \<open>Guards\<close>

named_theorems guarded \<open>what a value is when a guard accepts it\<close>

lemma string_guard [guarded]: "isNonEmptyString v \<longleftrightarrow> (\<exists>s. v = JString s \<and> non_empty s)"
  by (cases v) auto

lemma timestamp_guard [guarded]:
  "isParseableTimestamp env v \<longleftrightarrow> (\<exists>s. v = JString s \<and> non_empty s \<and> is_finite (date_parse env s))"
  by (cases v) auto

lemma positive_guard [guarded]:
  "isPositiveFiniteNumber v \<longleftrightarrow> (\<exists>x. v = JNumber x \<and> is_finite x \<and> jlt (Fin 0) x)"
  by (cases v) auto

lemma nonneg_guard [guarded]:
  "isNonNegativeFiniteNumber v \<longleftrightarrow> v = JNegativeZero \<or> (\<exists>x. v = JNumber x \<and> is_finite x \<and> jle (Fin 0) x)"
  by (cases v) auto

lemma integer_guard [guarded]:
  "isNonNegativeInteger v \<longleftrightarrow> v = JNegativeZero \<or> (\<exists>x. v = JNumber x \<and> is_integer x \<and> is_finite x \<and> jle (Fin 0) x)"
  by (cases v) auto

lemma boolean_guard [guarded]: "isBoolean v \<longleftrightarrow> (\<exists>b. v = JBoolean b)"
  by (cases v) auto

section \<open>The safe copies\<close>

lemma copied_position:
  assumes "p \<in> set (lrs_positions (createSafeRiskSnapshot env v))"
  shows "\<not> position_invalid p" "jle (Fin 0) (lpos_quantity p)" "jle (Fin 0) (live_position_exposure p)"
proof -
  obtain w where w: "isLiveRiskPosition w" "p = position_of w"
    using assms by (auto simp: createSafeRiskSnapshot_def Let_def)
  then show "\<not> position_invalid p" "jle (Fin 0) (lpos_quantity p)"
    by (auto simp: isLiveRiskPosition_def position_of_def position_invalid_def guarded)
  from w obtain q a where qa: "lpos_quantity p = Fin q" "lpos_averagePriceKrw p = Fin a" "0 \<le> q" "0 \<le> a"
    by (auto simp: isLiveRiskPosition_def position_of_def guarded elim!: is_finite.elims)
  from w have "lpos_marketValueKrw p = None \<or> (\<exists>x. lpos_marketValueKrw p = Some x \<and> jle (Fin 0) x)"
    by (auto simp: isLiveRiskPosition_def position_of_def guarded)
  then show "jle (Fin 0) (live_position_exposure p)"
    using jround_nonneg [OF jmul_nonneg [OF qa(3,4)]] by (auto simp: live_position_exposure_def qa)
qed

lemma copied_order:
  assumes "x \<in> set (lrs_openOrders (createSafeRiskSnapshot env v))"
  shows "\<not> open_order_invalid x"
    and "loo_side x = BUY \<Longrightarrow> jle (Fin 0) (openOrderExposureKrw x)"
    and "loo_side x = SELL \<Longrightarrow> jle (Fin 0) (openOrderQuantity x)"
proof -
  obtain w where w: "isLiveOpenOrder w" "x = open_order_of w"
    using assms by (auto simp: createSafeRiskSnapshot_def Let_def)
  then show valid: "\<not> open_order_invalid x"
    by (auto simp: isLiveOpenOrder_def isLiveOrderSide_def open_order_of_def open_order_invalid_def
        side_of_def guarded)
  show "loo_side x = BUY \<Longrightarrow> jle (Fin 0) (openOrderExposureKrw x)"
    "loo_side x = SELL \<Longrightarrow> jle (Fin 0) (openOrderQuantity x)"
    using valid by (auto simp: open_order_invalid_def openOrderExposureKrw_def openOrderQuantity_def
        or_else_def split: option.splits dest: jlt_imp_jle)
qed

lemma copied_snapshot:
  "jle (Fin 0) (lrs_dailyLossKrw (createSafeRiskSnapshot env v))"
  "is_finite (date_parse env (lrs_capturedAt (createSafeRiskSnapshot env v)))"
  "evaluateRiskSnapshotShape env (createSafeRiskSnapshot env v) codes = codes"
proof -
  have epoch: "date_parse env ''1970-01-01T00:00:00.000Z'' = num 0" "non_empty ''1970-01-01T00:00:00.000Z''"
    by (simp_all add: date_parse_def parse_iso_def parse_date_def two_def is_digit_def digit_val_def
        parse_time_def parse_fraction_def parse_offset_def days_in_month_def days_from_civil_def
        non_empty_def trim_def is_space_def)
  show "jle (Fin 0) (lrs_dailyLossKrw (createSafeRiskSnapshot env v))"
    "is_finite (date_parse env (lrs_capturedAt (createSafeRiskSnapshot env v)))"
    using epoch by (auto simp: createSafeRiskSnapshot_def Let_def safeTimestamp_def guarded)
  have "\<not> list_ex position_invalid (lrs_positions (createSafeRiskSnapshot env v))"
    "\<not> list_ex open_order_invalid (lrs_openOrders (createSafeRiskSnapshot env v))"
    using copied_position(1) copied_order(1) by (auto simp: list_ex_iff)
  moreover have "isNonEmptyString (JString (lrs_riskSnapshotRef (createSafeRiskSnapshot env v)))"
    "isParseableTimestamp env (JString (lrs_capturedAt (createSafeRiskSnapshot env v)))"
    "isNonNegativeFiniteNumber (JNumber (lrs_dailyLossKrw (createSafeRiskSnapshot env v)))"
    using epoch
    by (auto simp: createSafeRiskSnapshot_def Let_def safeTimestamp_def safeNonEmptyString_def guarded
        non_empty_def trim_def is_space_def)
  ultimately show "evaluateRiskSnapshotShape env (createSafeRiskSnapshot env v) codes = codes"
    by (simp add: evaluateRiskSnapshotShape_def append_if_def)
qed

lemma copied_preview:
  "loi_preview (createSafeOrderIntent env v) = Some preview \<Longrightarrow> \<not> preview_invalid env preview"
  by (auto simp: createSafeOrderIntent_def Let_def safeOrderPreview_def isLiveOrderPreviewRef_def
      preview_of_def preview_invalid_def guarded split: if_splits)

lemma copied_intent:
  assumes "isLiveOrderIntentInput env v"
  shows "evaluateOrderIntentShape env (createSafeOrderIntent env v) codes = codes"
    and "non_empty (loi_symbol (createSafeOrderIntent env v))"
    and "jle (Fin 0) (loi_quantity (createSafeOrderIntent env v))"
    and "jle (Fin 0) (loi_estimatedGrossAmountKrw (createSafeOrderIntent env v))"
    and "is_finite (loi_estimatedGrossAmountKrw (createSafeOrderIntent env v))"
proof -
  let ?i = "createSafeOrderIntent env v" and ?read = "get_property v"
  have copied: "non_empty (safeNonEmptyString (?read key) f)" if "isNonEmptyString (?read key)" for key f
    using that by (auto simp: safeNonEmptyString_def guarded)
  have time: "isParseableTimestamp env (JString (safeTimestamp env (?read key)))"
    if "isParseableTimestamp env (?read key)" for key
    using that by (auto simp: safeTimestamp_def guarded)
  have v: "isRecord v" using assms by (simp add: isLiveOrderIntentInput_def)
  note read = createSafeOrderIntent_def [of env v, unfolded Let_def if_P [OF v]]
  have texts: "non_empty (loi_orderIntentId ?i)" "non_empty (loi_signalId ?i)"
    "non_empty (loi_idempotencyKey ?i)" "non_empty (loi_symbol ?i)"
    "isParseableTimestamp env (JString (loi_createdAt ?i))"
    "isParseableTimestamp env (JString (loi_expiresAt ?i))"
    using assms copied time unfolding isLiveOrderIntentInput_def read by simp_all
  then show "non_empty (loi_symbol ?i)" by simp
  obtain q a where qa: "?read ''quantity'' = JNumber q" "is_finite q" "jlt (Fin 0) q"
    "?read ''estimatedGrossAmountKrw'' = JNumber a" "is_finite a" "jlt (Fin 0) a"
    using assms unfolding isLiveOrderIntentInput_def guarded by blast
  then have amounts: "loi_quantity ?i = q" "loi_estimatedGrossAmountKrw ?i = a"
    unfolding read by (simp_all add: qa)
  then show "jle (Fin 0) (loi_quantity ?i)" "jle (Fin 0) (loi_estimatedGrossAmountKrw ?i)"
    "is_finite (loi_estimatedGrossAmountKrw ?i)"
    using qa by (simp_all add: jlt_imp_jle)
  have "\<not> (case loi_preview ?i of None \<Rightarrow> False | Some p \<Rightarrow> preview_invalid env p)"
    using copied_preview [of env v] by (simp split: option.split)
  then show "evaluateOrderIntentShape env ?i codes = codes"
    using texts qa unfolding evaluateOrderIntentShape_def amounts append_if_def by simp
qed

text \<open>The fields of a valid intent are those of the value itself.\<close>

lemma intent_fields:
  assumes "isLiveOrderIntentInput env v"
  shows "loi_market (createSafeOrderIntent env v) = market_of (get_property v ''market'')"
    and "isLiveMarket (get_property v ''market'')"
    and "safeNormalizeLiveRiskSymbol (loi_symbol (createSafeOrderIntent env v)) =
      normalizeLiveRiskSymbol (string_of (get_property v ''symbol''))"
    and "jlt (Fin 0) (loi_estimatedGrossAmountKrw (createSafeOrderIntent env v))"
proof -
  have v: "isRecord v" using assms by (simp add: isLiveOrderIntentInput_def)
  note read = createSafeOrderIntent_def [of env v, unfolded Let_def if_P [OF v]]
  have fields: "isLiveMarket (get_property v ''market'')" "isNonEmptyString (get_property v ''symbol'')"
    "isPositiveFiniteNumber (get_property v ''estimatedGrossAmountKrw'')"
    using assms by (simp_all add: isLiveOrderIntentInput_def)
  then show "loi_market (createSafeOrderIntent env v) = market_of (get_property v ''market'')"
    "isLiveMarket (get_property v ''market'')"
    "jlt (Fin 0) (loi_estimatedGrossAmountKrw (createSafeOrderIntent env v))"
    unfolding read by (auto simp: guarded)
  show "safeNormalizeLiveRiskSymbol (loi_symbol (createSafeOrderIntent env v)) =
      normalizeLiveRiskSymbol (string_of (get_property v ''symbol''))"
    using fields(2) unfolding read safeNormalizeLiveRiskSymbol_def safeNonEmptyString_def
    by (auto simp: guarded)
qed

lemma policy_amounts:
  "jle (Fin 0) (lrp_maxOrderAmountKrw (createLiveRiskPolicy env v))"
  "jle (Fin 0) (lrp_maxDailyLossKrw (createLiveRiskPolicy env v))"
  "jle (Fin 0) (lrp_maxSymbolExposureKrw (createLiveRiskPolicy env v))"
  "jle (Fin 0) (lrp_maxMarketExposureKrw (createLiveRiskPolicy env v))"
  "jle (Fin 0) (lrp_maxTotalExposureKrw (createLiveRiskPolicy env v))"
  "jle (Fin 0) (lrp_maxSnapshotAgeMs (createLiveRiskPolicy env v))"
  "jle (Fin 0) (lrp_maxOpenOrders (createLiveRiskPolicy env v))"
  by (auto simp: createLiveRiskPolicy_def Let_def normalizeNonNegativeFinitePolicyNumber_def
      normalizeNonNegativeIntegerPolicyNumber_def guarded)

section \<open>The rules\<close>

named_theorems passes \<open>when a rule leaves no code\<close>

lemma append_unique_Nil: "append_unique xs c = [] \<longleftrightarrow> False"
  by simp

lemma simple_rules_pass [passes]:
  "evaluateRiskPolicyShape env v codes = [] \<longleftrightarrow> codes = [] \<and> \<not> hasInvalidLiveRiskPolicyInput env v"
  "evaluateKillSwitch p codes = [] \<longleftrightarrow> codes = [] \<and> \<not> lrp_killSwitch p"
  "evaluateStaleSignal env i p codes = [] \<longleftrightarrow> codes = [] \<and> isFresh env (loi_expiresAt i) (lrp_now p)"
  "evaluateOrderAmount i p codes = [] \<longleftrightarrow>
     codes = [] \<and> \<not> jlt (lrp_maxOrderAmountKrw p) (loi_estimatedGrossAmountKrw i)"
  "evaluateDailyLoss s p codes = [] \<longleftrightarrow> codes = [] \<and> \<not> jlt (lrp_maxDailyLossKrw p) (lrs_dailyLossKrw s)"
  "evaluateAllowlists m symbol p codes = [] \<longleftrightarrow>
     codes = [] \<and> symbol \<in> set (lrp_allowedSymbols p) \<and> m \<in> set (lrp_allowedMarkets p)"
  "evaluateCooldown env i symbol p codes = [] \<longleftrightarrow>
     codes = [] \<and> \<not> list_ex (cooldown_active env i symbol p) (lrp_cooldownEntries p)"
  "evaluateOpenOrderCount s p codes = [] \<longleftrightarrow>
     codes = [] \<and> \<not> jle (lrp_maxOpenOrders p) (num (int (length (lrs_openOrders s))))"
  by (auto simp: evaluateRiskPolicyShape_def evaluateKillSwitch_def evaluateStaleSignal_def
      evaluateOrderAmount_def evaluateDailyLoss_def evaluateAllowlists_def evaluateCooldown_def
      evaluateOpenOrderCount_def)

lemma market_hours_pass [passes]:
  "evaluateMarketHours m s p codes = [] \<longleftrightarrow>
     codes = [] \<and> (lrp_requireMarketOpen p \<longrightarrow> map_of (lrs_marketSessions s) m = Some SessionOpen)"
  by (auto simp: evaluateMarketHours_def appendLiveRiskRejectCode_def split: option.split)

lemma freshness_pass [passes]:
  "is_finite (date_parse env (lrs_capturedAt s)) \<Longrightarrow>
   evaluateRiskSnapshotFreshness env s p codes = [] \<longleftrightarrow> codes = [] \<and> \<not> snapshot_stale env s p"
  by (auto simp: evaluateRiskSnapshotFreshness_def)

lemma duplicates_pass [passes]:
  "evaluateDuplicateOrder i symbol s codes = [] \<longleftrightarrow> codes = [] \<and>
     (\<forall>x \<in> set (lrs_openOrders s).
        loo_orderIntentId x \<noteq> loi_orderIntentId i \<and> loo_idempotencyKey x \<noteq> loi_idempotencyKey i \<and>
        \<not> (loo_signalId x = Some (loi_signalId i) \<and> loo_market x = loi_market i \<and>
           safeNormalizeLiveRiskSymbol (loo_symbol x) = symbol \<and> loo_side x = loi_side i))"
proof -
  have "foldl (duplicate_order_step i symbol) codes xs = [] \<longleftrightarrow> codes = [] \<and>
     (\<forall>x \<in> set xs.
        loo_orderIntentId x \<noteq> loi_orderIntentId i \<and> loo_idempotencyKey x \<noteq> loi_idempotencyKey i \<and>
        \<not> (loo_signalId x = Some (loi_signalId i) \<and> loo_market x = loi_market i \<and>
           safeNormalizeLiveRiskSymbol (loo_symbol x) = symbol \<and> loo_side x = loi_side i))" for xs
    by (induction xs arbitrary: codes) (auto simp: duplicate_order_step_def)
  then show ?thesis by (simp add: evaluateDuplicateOrder_def)
qed

lemma market_order_pass [passes]:
  "evaluateMarketOrderPolicy i p codes = [] \<longleftrightarrow> codes = [] \<and>
     (loi_orderType i = MARKET \<longrightarrow> lrp_marketOrderPolicy p = OrdersAllowed \<or>
        lrp_marketOrderPolicy p = OrdersRequireApproval \<and> loi_approvals i = Some (Some True))"
  by (cases "lrp_marketOrderPolicy p")
    (auto simp: evaluateMarketOrderPolicy_def appendLiveRiskRejectCode_def)

lemma sell_position_pass [passes]:
  "evaluateSellPosition i symbol s codes = [] \<longleftrightarrow> codes = [] \<and>
     (loi_side i = SELL \<longrightarrow> matchingPositions s (loi_market i) symbol \<noteq> [] \<and>
        \<not> jlt (sum_of lpos_quantity (matchingPositions s (loi_market i) symbol))
            (jadd (loi_quantity i) (currentOpenSellQuantity s (loi_market i) symbol)))"
  by (auto simp: evaluateSellPosition_def appendLiveRiskRejectCode_def Let_def)

lemma preview_pass [passes]:
  fixes env v
  defines "i \<equiv> createSafeOrderIntent env v"
  shows "evaluatePreviewRequirement env i p codes = [] \<longleftrightarrow> codes = [] \<and>
     (lrp_requirePreview p \<longrightarrow> (\<exists>preview. loi_preview i = Some preview \<and>
        isFresh env (lpr_expiresAt preview) (lrp_now p) \<and> lpr_orderIntentId preview = loi_orderIntentId i \<and>
        jeq (lpr_estimatedGrossAmountKrw preview) (loi_estimatedGrossAmountKrw i)))"
  using copied_preview [of env v]
  by (auto simp: i_def evaluatePreviewRequirement_def appendLiveRiskRejectCode_def split: option.split)

lemma exposure_pass [passes]:
  "evaluateExposure i symbol s p codes = [] \<longleftrightarrow> codes = [] \<and>
     (loi_side i = BUY \<longrightarrow>
        \<not> jlt (lrp_maxSymbolExposureKrw p)
            (jadd (live_symbol_exposure s (loi_market i) symbol) (loi_estimatedGrossAmountKrw i)) \<and>
        \<not> jlt (lrp_maxMarketExposureKrw p)
            (jadd (currentMarketExposureKrw s (loi_market i)) (loi_estimatedGrossAmountKrw i)) \<and>
        \<not> jlt (lrp_maxTotalExposureKrw p)
            (jadd (currentTotalExposureKrw s) (loi_estimatedGrossAmountKrw i)))"
  by (auto simp: evaluateExposure_def Let_def)

section \<open>No comparison with NaN\<close>

text \<open>Amounts of a copied snapshot: positions, open buys and open sells add up to numbers.\<close>

lemma copied_amounts:
  fixes env v
  defines "s \<equiv> createSafeRiskSnapshot env v"
  shows "jle (Fin 0) (sum_of lpos_quantity (matchingPositions s m symbol))"
    and "jle (Fin 0) (currentOpenSellQuantity s m symbol)"
    and "jle (Fin 0) (live_symbol_exposure s m symbol)"
    and "jle (Fin 0) (currentMarketExposureKrw s m)"
    and "jle (Fin 0) (currentTotalExposureKrw s)"
  unfolding s_def live_symbol_exposure_def currentMarketExposureKrw_def currentTotalExposureKrw_def
    currentOpenBuySymbolExposureKrw_def currentOpenBuyMarketExposureKrw_def
    currentOpenBuyTotalExposureKrw_def currentOpenSellQuantity_def matchingPositions_def
  by (intro sum_of_nonneg jadd_nonneg; auto simp: copied_position copied_order)+

lemma sell_within_holdings:
  assumes "s = createSafeRiskSnapshot env v" and "jle (Fin 0) (loi_quantity i)"
  shows "\<not> jlt (sum_of lpos_quantity (matchingPositions s m symbol))
      (jadd (loi_quantity i) (currentOpenSellQuantity s m symbol)) \<longleftrightarrow>
    jle (jadd (loi_quantity i) (currentOpenSellQuantity s m symbol))
      (sum_of lpos_quantity (matchingPositions s m symbol))"
  unfolding assms(1) by (intro not_above jadd_nonneg copied_amounts assms(2))

lemma buy_within_exposure:
  assumes "s = createSafeRiskSnapshot env v" and "jle (Fin 0) a" and "p = createLiveRiskPolicy env w"
  shows "\<not> jlt (lrp_maxSymbolExposureKrw p) (jadd (live_symbol_exposure s m symbol) a) \<longleftrightarrow>
      jle (jadd (live_symbol_exposure s m symbol) a) (lrp_maxSymbolExposureKrw p)"
    and "\<not> jlt (lrp_maxMarketExposureKrw p) (jadd (currentMarketExposureKrw s m) a) \<longleftrightarrow>
      jle (jadd (currentMarketExposureKrw s m) a) (lrp_maxMarketExposureKrw p)"
    and "\<not> jlt (lrp_maxTotalExposureKrw p) (jadd (currentTotalExposureKrw s) a) \<longleftrightarrow>
      jle (jadd (currentTotalExposureKrw s) a) (lrp_maxTotalExposureKrw p)"
  unfolding assms(1,3) by (intro not_above jadd_nonneg copied_amounts assms(2) policy_amounts)+

section \<open>The decision\<close>

lemma read_record: "get_property (if isRecord input then input else JUndefined) key = get_property input key"
  by (cases input) auto

text \<open>The engine decides on every input: nothing it reads can make it throw.\<close>

lemma live_decision_exists:
  assumes "is_finite (clock env)"
  obtains d where "live_evaluate env input = Inr d" and "lrd_approved d \<longleftrightarrow> live_reject_codes env input = []"
    and "set (lrd_rejectCodes d) = set (live_reject_codes env input)"
proof -
  have "is_finite (normalizePolicyNow env v)" for v
    using assms by (auto simp: normalizePolicyNow_def split: jsval.split)
  then obtain t where "lrp_now (createLiveRiskPolicy env (get_property input ''policy'')) = Fin t"
    by (auto simp: createLiveRiskPolicy_def Let_def elim!: is_finite.elims)
  then show thesis
    by (intro that) (auto simp: live_evaluate_def read_record Let_def normalizeLiveRiskRejectCodes_def)
qed

lemma shapes_pass:
  "evaluateOrderIntentShape env (createSafeOrderIntent env rawIntent)
     (evaluateRiskPolicyShape env rawPolicy (initial_reject_codes env rawIntent rawSnapshot)) = [] \<longleftrightarrow>
   isLiveOrderIntentInput env rawIntent \<and> isLiveRiskSnapshotInput env rawSnapshot \<and>
   \<not> hasInvalidLiveRiskPolicyInput env rawPolicy"
proof (cases "isLiveOrderIntentInput env rawIntent")
  case True
  then show ?thesis by (auto simp: copied_intent passes initial_reject_codes_def)
next
  case False
  then show ?thesis by (simp add: evaluateOrderIntentShape_def passes initial_reject_codes_def)
qed

lemmas no_codes = live_reject_codes_def [unfolded read_record Let_def]
  exposure_pass preview_pass sell_position_pass market_order_pass simple_rules_pass(2-8)
  duplicates_pass market_hours_pass freshness_pass [OF copied_snapshot(2)] copied_snapshot(3) shapes_pass
  conj_assoc

end
