(* ===== verification/LiveClaims.thy ===== *)
theory LiveClaims
  imports LiveRiskFacts PaperSamples
begin

text \<open>
  The properties of the live risk engine, with witnesses on an intent, a snapshot and a policy
  given as values of unknown type.
\<close>

section \<open>Approval\<close>

text \<open>
  C4. When a live order is approved.  On every input, whatever its type, the engine decides, and it
  approves exactly when the intent, the snapshot and the policy are well formed, the kill switch is
  off, the signal and the snapshot are fresh, the amount and the daily loss are within their limits,
  the symbol, the market and its session are admitted, no open order repeats the intent, its key or
  its signal, no cooldown applies, fewer orders than the limit are open, a market order is allowed or
  approved, a sell with the open sells stays within the position, the preview required is the
  intent's, and a buy with the positions and the open buys stays within the symbol, market and total
  exposure.  The bounds hold of the numbers themselves: no comparison is passed by NaN.
\<close>

theorem live_order_approved_exactly:
  assumes "is_finite (clock env)"
  shows "\<exists>d. live_evaluate env input = Inr d \<and>
    (let rawIntent = get_property input ''intent''; rawSnapshot = get_property input ''snapshot'';
         rawPolicy = get_property input ''policy'';
         i = createSafeOrderIntent env rawIntent; s = createSafeRiskSnapshot env rawSnapshot;
         p = createLiveRiskPolicy env rawPolicy;
         symbol = normalizeLiveRiskSymbol (loi_symbol i); market = loi_market i;
         amount = loi_estimatedGrossAmountKrw i
     in lrd_approved d \<longleftrightarrow>
       isLiveOrderIntentInput env rawIntent \<and> isLiveRiskSnapshotInput env rawSnapshot \<and>
       \<not> hasInvalidLiveRiskPolicyInput env rawPolicy \<and>
       \<not> lrp_killSwitch p \<and> isFresh env (loi_expiresAt i) (lrp_now p) \<and>
       jle amount (lrp_maxOrderAmountKrw p) \<and> \<not> snapshot_stale env s p \<and>
       jle (lrs_dailyLossKrw s) (lrp_maxDailyLossKrw p) \<and>
       symbol \<in> set (lrp_allowedSymbols p) \<and> market \<in> set (lrp_allowedMarkets p) \<and>
       (lrp_requireMarketOpen p \<longrightarrow> map_of (lrs_marketSessions s) market = Some SessionOpen) \<and>
       (\<forall>x \<in> set (lrs_openOrders s).
          loo_orderIntentId x \<noteq> loi_orderIntentId i \<and> loo_idempotencyKey x \<noteq> loi_idempotencyKey i \<and>
          \<not> (loo_signalId x = Some (loi_signalId i) \<and> loo_market x = market \<and>
             safeNormalizeLiveRiskSymbol (loo_symbol x) = symbol \<and> loo_side x = loi_side i)) \<and>
       \<not> list_ex (cooldown_active env i symbol p) (lrp_cooldownEntries p) \<and>
       jlt (num (int (length (lrs_openOrders s)))) (lrp_maxOpenOrders p) \<and>
       (loi_orderType i = MARKET \<longrightarrow> lrp_marketOrderPolicy p = OrdersAllowed \<or>
          lrp_marketOrderPolicy p = OrdersRequireApproval \<and> loi_approvals i = Some (Some True)) \<and>
       (loi_side i = SELL \<longrightarrow> matchingPositions s market symbol \<noteq> [] \<and>
          jle (jadd (loi_quantity i) (currentOpenSellQuantity s market symbol))
            (sum_of lpos_quantity (matchingPositions s market symbol))) \<and>
       (lrp_requirePreview p \<longrightarrow> (\<exists>preview. loi_preview i = Some preview \<and>
          isFresh env (lpr_expiresAt preview) (lrp_now p) \<and> lpr_orderIntentId preview = loi_orderIntentId i \<and>
          jeq (lpr_estimatedGrossAmountKrw preview) amount)) \<and>
       (loi_side i = BUY \<longrightarrow>
          jle (jadd (live_symbol_exposure s market symbol) amount) (lrp_maxSymbolExposureKrw p) \<and>
          jle (jadd (currentMarketExposureKrw s market) amount) (lrp_maxMarketExposureKrw p) \<and>
          jle (jadd (currentTotalExposureKrw s) amount) (lrp_maxTotalExposureKrw p)))"
proof -
  obtain d where d: "live_evaluate env input = Inr d" "lrd_approved d \<longleftrightarrow> live_reject_codes env input = []"
    by (rule live_decision_exists [OF assms])
  let ?raw = "get_property input ''intent''" and ?snap = "get_property input ''snapshot''"
  let ?i = "createSafeOrderIntent env ?raw" and ?s = "createSafeRiskSnapshot env ?snap"
  let ?p = "createLiveRiskPolicy env (get_property input ''policy'')"
  have symbol: "safeNormalizeLiveRiskSymbol (loi_symbol ?i) = normalizeLiveRiskSymbol (loi_symbol ?i)"
    if "isLiveOrderIntentInput env ?raw"
    using copied_intent(2) [OF that] by (simp add: safeNormalizeLiveRiskSymbol_def)
  have daily: "\<not> jlt (lrp_maxDailyLossKrw ?p) (lrs_dailyLossKrw ?s) \<longleftrightarrow>
      jle (lrs_dailyLossKrw ?s) (lrp_maxDailyLossKrw ?p)"
    by (intro not_above policy_amounts copied_snapshot)
  have count: "\<not> jle (lrp_maxOpenOrders ?p) (num n) \<longleftrightarrow> jlt (num n) (lrp_maxOpenOrders ?p)" for n
    using policy_amounts(7) [of env "get_property input ''policy''"]
    by (cases "lrp_maxOpenOrders ?p") (auto simp: not_le)
  show ?thesis
  proof (cases "isLiveOrderIntentInput env ?raw")
    case True
    note amounts = not_above [OF policy_amounts(1) copied_intent(4) [OF True]]
      sell_within_holdings [OF refl copied_intent(3) [OF True]]
      buy_within_exposure [OF refl copied_intent(4) [OF True] refl]
    show ?thesis
      unfolding d(2) no_codes Let_def symbol [OF True] daily count amounts
      by (intro exI [of _ d] conjI d(1)) (simp only: d(2) no_codes symbol [OF True] daily count amounts)
  next
    case False
    then show ?thesis
      using d by (auto simp: no_codes Let_def)
  qed
qed

definition sample_live_intent :: jsval where
  "sample_live_intent = JObject ObjectPrototype
     [(''orderIntentId'', JString ''o1''), (''signalId'', JString ''s1''), (''idempotencyKey'', JString ''k1''),
      (''market'', JString ''KR''), (''symbol'', JString ''abc''), (''side'', JString ''BUY''),
      (''orderType'', JString ''LIMIT''), (''quantity'', JNumber (num 10)),
      (''estimatedGrossAmountKrw'', JNumber (num 700)),
      (''createdAt'', JString ''2026-01-01T00:00:00.000Z''), (''expiresAt'', JString ''2026-01-02'')]"

definition sample_live_snapshot :: jsval where
  "sample_live_snapshot = JObject ObjectPrototype
     [(''riskSnapshotRef'', JString ''r1''), (''capturedAt'', JString ''2026-01-01T00:00:00.000Z''),
      (''dailyLossKrw'', JNumber (num 0)), (''positions'', JArray []), (''openOrders'', JArray []),
      (''marketSessions'', JObject ObjectPrototype [(''KR'', JString ''open'')])]"

definition sample_live_policy :: jsval where
  "sample_live_policy = JObject ObjectPrototype
     [(''killSwitch'', JBoolean False), (''requirePreview'', JBoolean False),
      (''maxOrderAmountKrw'', JNumber (num 1000)),
      (''maxSymbolExposureKrw'', JNumber (num 1000)), (''maxMarketExposureKrw'', JNumber (num 1000)),
      (''maxTotalExposureKrw'', JNumber (num 1000)), (''maxOpenOrders'', JNumber (num 1)),
      (''allowedSymbols'', JArray [JString ''ABC'']), (''allowedMarkets'', JArray [JString ''KR'']),
      (''now'', JDate (num 1767225600000))]"

definition sample_live_input :: "jsval \<Rightarrow> jsval" where
  "sample_live_input policy = JObject ObjectPrototype
     [(''intent'', sample_live_intent), (''snapshot'', sample_live_snapshot), (''policy'', policy)]"

named_theorems live_eval \<open>the copies of the sample input\<close>

lemma sample_texts [live_eval]:
  "non_empty ''o1''" "non_empty ''s1''" "non_empty ''k1''" "non_empty ''abc''" "non_empty ''ABC''"
  "non_empty ''r1''" "non_empty ''2026-01-01T00:00:00.000Z''" "non_empty ''2026-01-02''"
  by (simp_all add: non_empty_def trim_def is_space_def)

lemma sample_symbols [live_eval]:
  "normalizeLiveRiskSymbol ''abc'' = ''ABC''" "normalizeLiveRiskSymbol ''ABC'' = ''ABC''"
  by code_simp+

lemma sample_parts [live_eval]:
  "get_property (sample_live_input policy) ''intent'' = sample_live_intent"
  "get_property (sample_live_input policy) ''snapshot'' = sample_live_snapshot"
  "get_property (sample_live_input policy) ''policy'' = policy"
  by (simp_all add: sample_live_input_def)

lemma sample_live_valid [live_eval]:
  "isLiveOrderIntentInput env sample_live_intent"
  "isLiveRiskSnapshotInput env sample_live_snapshot"
  "\<not> hasInvalidLiveRiskPolicyInput env sample_live_policy"
  by (simp_all add: isLiveOrderIntentInput_def sample_live_intent_def isLiveRiskSnapshotInput_def
      sample_live_snapshot_def hasInvalidLiveRiskPolicyInput_def sample_live_policy_def live_eval sample_dates
      isLiveMarket_def isLiveOrderSide_def isLiveOrderType_def isLiveMarketSessions_def
      isLiveMarketSessionStatus_def has_invalid_field_def policy_number_keys_def policy_boolean_keys_def
      array_of_def)

lemma sample_live_copies [live_eval]:
  "createSafeOrderIntent env sample_live_intent =
     \<lparr>loi_orderIntentId = ''o1'', loi_signalId = ''s1'', loi_idempotencyKey = ''k1'', loi_market = KR,
      loi_symbol = ''abc'', loi_side = BUY, loi_orderType = LIMIT, loi_quantity = num 10,
      loi_estimatedGrossAmountKrw = num 700, loi_createdAt = ''2026-01-01T00:00:00.000Z'',
      loi_expiresAt = ''2026-01-02'', loi_preview = None, loi_approvals = None\<rparr>"
  "createSafeRiskSnapshot env sample_live_snapshot =
     \<lparr>lrs_riskSnapshotRef = ''r1'', lrs_capturedAt = ''2026-01-01T00:00:00.000Z'', lrs_dailyLossKrw = num 0,
      lrs_positions = [], lrs_openOrders = [], lrs_marketSessions = [(KR, SessionOpen)]\<rparr>"
  "createLiveRiskPolicy env sample_live_policy =
     \<lparr>lrp_killSwitch = False, lrp_maxOrderAmountKrw = num 1000, lrp_maxDailyLossKrw = Fin 0,
      lrp_maxSymbolExposureKrw = num 1000, lrp_maxMarketExposureKrw = num 1000,
      lrp_maxTotalExposureKrw = num 1000, lrp_maxSnapshotAgeMs = Fin 60000, lrp_allowedSymbols = [''ABC''],
      lrp_allowedMarkets = [KR], lrp_requireMarketOpen = True, lrp_maxOpenOrders = num 1,
      lrp_marketOrderPolicy = OrdersDisabled, lrp_requirePreview = False, lrp_cooldownEntries = [],
      lrp_now = num 1767225600000\<rparr>"
  by (simp_all add: createSafeOrderIntent_def sample_live_intent_def createSafeRiskSnapshot_def
      sample_live_snapshot_def createLiveRiskPolicy_def sample_live_policy_def safeNonEmptyString_def
      safeTimestamp_def safeOrderPreview_def isLiveOrderPreviewRef_def createSafeOrderApprovals_def
      createSafeMarketSessions_def normalizeNonNegativeFinitePolicyNumber_def
      normalizeNonNegativeIntegerPolicyNumber_def normalizeBooleanPolicyValue_def normalizeAllowedSymbols_def
      normalizeAllowedMarkets_def normalizeCooldownEntries_def normalizeMarketOrderPolicy_def
      normalizePolicyNow_def isLiveMarket_def market_of_def isLiveOrderSide_def side_of_def
      isLiveMarketSessionStatus_def live_eval sample_dates dedup_def)

lemma sample_live_rules [live_eval]:
  "is_finite (clock sample_env)" "isFresh env ''2026-01-02'' (Fin 1767225600000)"
  "jadd (Fin 0) (Fin 0) = Fin 0" "jadd (Fin 0) (Fin 700) = Fin 700" "jsub (Fin t) (Fin t) = Fin 0"
  by (simp_all add: isFresh_def sample_dates jsub_def num_eval) (simp add: sample_env_def)

theorem live_order_approved_exactly_witness:
  "\<exists>d. live_evaluate sample_env (sample_live_input sample_live_policy) = Inr d \<and> lrd_approved d"
  using live_order_approved_exactly [of sample_env "sample_live_input sample_live_policy"]
  by (simp add: live_eval Let_def snapshot_stale_def sample_dates live_symbol_exposure_def
      currentMarketExposureKrw_def currentTotalExposureKrw_def currentOpenBuySymbolExposureKrw_def
      currentOpenBuyMarketExposureKrw_def currentOpenBuyTotalExposureKrw_def matchingPositions_def sum_of_def)

text \<open>
  C6. Nothing is approved by default.  An approved order has a policy that says so in every
  respect: the kill switch switched off, a positive amount allowed for an order and at least one
  open order, lists that name the symbol and the market of the order and, for a buy, positive
  exposure limits.  A field that is missing or has another type approves nothing.
\<close>

theorem nothing_approved_by_default:
  assumes "live_evaluate env input = Inr d" and "lrd_approved d" and "is_finite (clock env)"
  shows "let policy = get_property input ''policy''; intent = get_property input ''intent'';
      positive = (\<lambda>key. \<exists>x. get_property policy key = JNumber x \<and> is_finite x \<and> jlt (Fin 0) x)
    in get_property policy ''killSwitch'' = JBoolean False \<and>
       positive ''maxOrderAmountKrw'' \<and> positive ''maxOpenOrders'' \<and>
       (\<exists>v \<in> set (elements (get_property policy ''allowedSymbols'')).
          isNonEmptyString v \<and> normalizeLiveRiskSymbol (string_of v) =
            normalizeLiveRiskSymbol (string_of (get_property intent ''symbol''))) \<and>
       get_property intent ''market'' \<in> set (elements (get_property policy ''allowedMarkets''))"
proof -
  let ?raw = "get_property input ''intent''" and ?pol = "get_property input ''policy''"
  let ?i = "createSafeOrderIntent env ?raw" and ?p = "createLiveRiskPolicy env ?pol"
  obtain d' where d': "live_evaluate env input = Inr d'" "lrd_approved d' \<longleftrightarrow> live_reject_codes env input = []"
    by (rule live_decision_exists [OF assms(3)])
  then have ok: "live_reject_codes env input = []" using assms(1,2) by simp
  have valid: "isLiveOrderIntentInput env ?raw" using ok unfolding no_codes by blast
  have switch: "\<not> lrp_killSwitch ?p"
    and amount: "\<not> jlt (lrp_maxOrderAmountKrw ?p) (loi_estimatedGrossAmountKrw ?i)"
    and count: "\<not> jle (lrp_maxOpenOrders ?p) (num (int n))"
    and symbol: "safeNormalizeLiveRiskSymbol (loi_symbol ?i) \<in> set (lrp_allowedSymbols ?p)"
    and market: "loi_market ?i \<in> set (lrp_allowedMarkets ?p)"
    if "n = length (lrs_openOrders (createSafeRiskSnapshot env (get_property input ''snapshot'')))" for n
    using ok unfolding no_codes that by blast+
  note intent = intent_fields [OF valid]
  show ?thesis
    unfolding Let_def
  proof (intro conjI)
    show "get_property ?pol ''killSwitch'' = JBoolean False"
      using switch by (cases "get_property ?pol ''killSwitch''")
        (auto simp: createLiveRiskPolicy_def read_record Let_def normalizeBooleanPolicyValue_def)
    have "jlt (Fin 0) (lrp_maxOrderAmountKrw ?p)"
      using amount [OF refl] intent(4) unfolding not_above [OF policy_amounts(1) copied_intent(4) [OF valid]]
      by (rule jlt_le_trans [rotated])
    then show "\<exists>x. get_property ?pol ''maxOrderAmountKrw'' = JNumber x \<and> is_finite x \<and> jlt (Fin 0) x"
      by (auto simp: createLiveRiskPolicy_def read_record Let_def guarded
          normalizeNonNegativeFinitePolicyNumber_def split: if_splits)
    have "jlt (Fin 0) (lrp_maxOpenOrders ?p)"
      using count [OF refl] policy_amounts(7) [of env ?pol] by (cases "lrp_maxOpenOrders ?p") auto
    then show "\<exists>x. get_property ?pol ''maxOpenOrders'' = JNumber x \<and> is_finite x \<and> jlt (Fin 0) x"
      by (auto simp: createLiveRiskPolicy_def read_record Let_def guarded
          normalizeNonNegativeIntegerPolicyNumber_def split: if_splits)
    show "\<exists>v \<in> set (elements (get_property ?pol ''allowedSymbols'')). isNonEmptyString v \<and>
        normalizeLiveRiskSymbol (string_of v) = normalizeLiveRiskSymbol (string_of (get_property ?raw ''symbol''))"
      using symbol intent
      by (auto simp: createLiveRiskPolicy_def read_record Let_def normalizeAllowedSymbols_def)
    show "get_property ?raw ''market'' \<in> set (elements (get_property ?pol ''allowedMarkets''))"
      using market intent
      by (auto simp: createLiveRiskPolicy_def read_record Let_def normalizeAllowedMarkets_def
          market_of_def isLiveMarket_def split: if_splits)
  qed
qed

lemma sample_live_approved:
  assumes "is_finite (clock env)"
  shows "\<exists>d. live_evaluate env (sample_live_input sample_live_policy) = Inr d \<and> lrd_approved d"
proof -
  have "live_reject_codes env (sample_live_input sample_live_policy) = []"
    unfolding no_codes
    by (simp add: live_eval snapshot_stale_def sample_dates live_symbol_exposure_def safeNormalizeLiveRiskSymbol_def
        currentMarketExposureKrw_def currentTotalExposureKrw_def currentOpenBuySymbolExposureKrw_def
        currentOpenBuyMarketExposureKrw_def currentOpenBuyTotalExposureKrw_def matchingPositions_def sum_of_def)
  then show ?thesis using live_decision_exists [OF assms] live_eval by metis
qed

theorem nothing_approved_by_default_witness:
  "get_property sample_live_policy ''killSwitch'' = JBoolean False \<and>
   \<not> (\<exists>d. live_evaluate sample_env (sample_live_input JUndefined) = Inr d \<and> lrd_approved d)"
proof -
  obtain d where d: "live_evaluate sample_env (sample_live_input sample_live_policy) = Inr d" "lrd_approved d"
    using sample_live_approved [OF sample_live_rules(1)] by blast
  show ?thesis
    using nothing_approved_by_default [OF d sample_live_rules(1)]
      nothing_approved_by_default [of sample_env "sample_live_input JUndefined", OF _ _ sample_live_rules(1)]
    by (auto simp: live_eval Let_def)
qed

end
