(* ===== verification/JsUnicode.thy ===== *)
theory JsUnicode
  imports JsText "HOL-Library.Word"
begin

text \<open>
  Texts of the language at their width: sequences of UTF-16 code units, of any value, and the bytes that
  their UTF-8 encoding has.  The encoding reads pairs of surrogates as one code point and every
  surrogate without its pair as U+FFFD, so it is injective up to that replacement only.  A byte is
  a character of HOL.  Strings of code units below 256 are embedded by \<open>text_of\<close>.
\<close>

type_synonym js_text = "16 word list"

section \<open>Code points\<close>

definition high_surrogate :: "16 word \<Rightarrow> bool" where
  "high_surrogate u \<longleftrightarrow> 0xD800 \<le> unat u \<and> unat u < 0xDC00"

definition low_surrogate :: "16 word \<Rightarrow> bool" where
  "low_surrogate u \<longleftrightarrow> 0xDC00 \<le> unat u \<and> unat u < 0xE000"

definition pair_point :: "16 word \<Rightarrow> 16 word \<Rightarrow> nat" where
  "pair_point u v = 0x10000 + (unat u - 0xD800) * 0x400 + (unat v - 0xDC00)"

definition single_point :: "16 word \<Rightarrow> nat" where
  "single_point u = (if high_surrogate u \<or> low_surrogate u then 0xFFFD else unat u)"

fun code_points :: "js_text \<Rightarrow> nat list" where
  "code_points (u # v # us) =
     (if high_surrogate u \<and> low_surrogate v then pair_point u v # code_points us
      else single_point u # code_points (v # us))"
| "code_points [u] = [single_point u]"
| "code_points [] = []"

text \<open>Every surrogate has its pair.\<close>

fun isWellFormed :: "js_text \<Rightarrow> bool" where
  "isWellFormed (u # v # us) \<longleftrightarrow>
     (if high_surrogate u \<and> low_surrogate v then isWellFormed us
      else \<not> high_surrogate u \<and> \<not> low_surrogate u \<and> isWellFormed (v # us))"
| "isWellFormed [u] \<longleftrightarrow> \<not> high_surrogate u \<and> \<not> low_surrogate u"
| "isWellFormed [] \<longleftrightarrow> True"

text \<open>The text with U+FFFD for every surrogate without its pair.\<close>

fun toWellFormed :: "js_text \<Rightarrow> js_text" where
  "toWellFormed (u # v # us) =
     (if high_surrogate u \<and> low_surrogate v then u # v # toWellFormed us
      else (if high_surrogate u \<or> low_surrogate u then 0xFFFD else u) # toWellFormed (v # us))"
| "toWellFormed [u] = [if high_surrogate u \<or> low_surrogate u then 0xFFFD else u]"
| "toWellFormed [] = []"

text \<open>The code units of a code point.\<close>

definition point_units :: "nat \<Rightarrow> js_text" where
  "point_units p = (if p < 0x10000 then [of_nat p]
     else [of_nat (0xD800 + (p - 0x10000) div 0x400), of_nat (0xDC00 + (p - 0x10000) mod 0x400)])"

lemma unat_less: "unat (u :: 16 word) < 0x10000"
  using unsigned_less [of u] by simp

lemma pair_units:
  assumes "high_surrogate u" "low_surrogate v"
  shows "point_units (pair_point u v) = [u, v]"
proof -
  let ?a = "unat u - 0xD800" and ?b = "unat v - 0xDC00"
  have ab: "?a < 0x400" "?b < 0x400" "unat u = 0xD800 + ?a" "unat v = 0xDC00 + ?b"
    using assms by (auto simp: high_surrogate_def low_surrogate_def)
  have "(pair_point u v - 0x10000) div 0x400 = ?a" "(pair_point u v - 0x10000) mod 0x400 = ?b"
    using ab(2) by (simp_all add: pair_point_def)
  moreover have "of_nat (0xD800 + ?a) = u" "of_nat (0xDC00 + ?b) = v"
    unfolding ab(3,4) [symmetric] by simp_all
  ultimately show ?thesis by (simp add: point_units_def pair_point_def)
qed

lemma single_units:
  "point_units (single_point u) = [if high_surrogate u \<or> low_surrogate u then 0xFFFD else u]"
  using unat_less [of u] by (simp add: point_units_def single_point_def)

lemma toWellFormed_points: "toWellFormed s = concat (map point_units (code_points s))"
  by (induction s rule: code_points.induct) (simp_all add: pair_units single_units)

lemma toWellFormed_id: "isWellFormed s \<Longrightarrow> toWellFormed s = s"
  by (induction s rule: code_points.induct) (auto split: if_splits)

lemma points_bound: "p \<in> set (code_points s) \<Longrightarrow> p < 0x110000"
proof (induction s rule: code_points.induct)
  case (1 u v us)
  have "pair_point u v < 0x110000" if "high_surrogate u" "low_surrogate v"
    using that by (auto simp: pair_point_def high_surrogate_def low_surrogate_def)
  moreover have "single_point u < 0x110000" using unat_less [of u] by (simp add: single_point_def)
  ultimately show ?case using 1 by (auto split: if_splits)
next
  case (2 u)
  then show ?case using unat_less [of u] by (simp add: single_point_def split: if_splits)
qed simp

section \<open>UTF-8\<close>

definition point_bytes :: "nat \<Rightarrow> nat list" where
  "point_bytes p =
     (if p < 0x80 then [p]
      else if p < 0x800 then [0xC0 + p div 0x40, 0x80 + p mod 0x40]
      else if p < 0x10000 then [0xE0 + p div 0x1000, 0x80 + p div 0x40 mod 0x40, 0x80 + p mod 0x40]
      else [0xF0 + p div 0x40000, 0x80 + p div 0x1000 mod 0x40, 0x80 + p div 0x40 mod 0x40, 0x80 + p mod 0x40])"

definition utf8 :: "js_text \<Rightarrow> string" where
  "utf8 s = map char_of (concat (map point_bytes (code_points s)))"

definition byteLength :: "js_text \<Rightarrow> nat" where
  "byteLength s = length (utf8 s)"

lemma point_bytes_small: "p < 0x110000 \<Longrightarrow> b \<in> set (point_bytes p) \<Longrightarrow> b < 256"
  by (auto simp: point_bytes_def split: if_splits)

text \<open>The first byte says how many follow.\<close>

lemma point_bytes_inj:
  assumes eq: "point_bytes p @ x = point_bytes q @ y" and bound: "p < 0x110000" "q < 0x110000"
  shows "p = q \<and> x = y"
proof -
  have join: "a = b" if "a div n = b div n" "a mod n = b mod n" for a b n :: nat
    using that by (metis div_mult_mod_eq)
  have lead: "a < 0x800 \<Longrightarrow> a div 0x40 < 0x20" "a < 0x10000 \<Longrightarrow> a div 0x1000 < 0x10" for a :: nat
    by simp_all
  have three: "a div 0x40 div 0x40 = a div 0x1000" "a div 0x1000 div 0x40 = a div 0x40000" for a :: nat
    by (simp_all add: div_mult2_eq [symmetric])
  consider "p < 0x80" "q < 0x80" | "0x80 \<le> p" "p < 0x800" "0x80 \<le> q" "q < 0x800"
    | "0x800 \<le> p" "p < 0x10000" "0x800 \<le> q" "q < 0x10000" | "0x10000 \<le> p" "0x10000 \<le> q"
    using eq lead [of p] lead [of q] unfolding point_bytes_def by (force split: if_splits)
  then show ?thesis
  proof cases
    case 3
    then have "p div 0x1000 = q div 0x1000" "p div 0x40 mod 0x40 = q div 0x40 mod 0x40" "p mod 0x40 = q mod 0x40" "x = y"
      using eq by (simp_all add: point_bytes_def)
    then show ?thesis using join [where a = p and n = "0x40" and b = q] join [where a = "p div 0x40" and n = "0x40" and b = "q div 0x40"] by (simp add: three)
  next
    case 4
    then have "p div 0x40000 = q div 0x40000" "p div 0x1000 mod 0x40 = q div 0x1000 mod 0x40"
      "p div 0x40 mod 0x40 = q div 0x40 mod 0x40" "p mod 0x40 = q mod 0x40" "x = y"
      using eq by (simp_all add: point_bytes_def)
    then show ?thesis
      using join [where a = p and n = "0x40" and b = q] join [where a = "p div 0x40" and n = "0x40" and b = "q div 0x40"] join [where a = "p div 0x1000" and n = "0x40" and b = "q div 0x1000"]
      by (simp add: three)
  qed (use eq join [where a = p and n = "0x40" and b = q] in \<open>simp_all add: point_bytes_def\<close>)
qed

lemma points_inj:
  assumes "concat (map point_bytes ps) = concat (map point_bytes qs)"
    and "\<forall>p \<in> set ps. p < 0x110000" "\<forall>q \<in> set qs. q < 0x110000"
  shows "ps = qs"
  using assms
proof (induction ps arbitrary: qs)
  case (Cons p ps)
  have "point_bytes p \<noteq> []" by (simp add: point_bytes_def)
  with Cons.prems(1) obtain q qs' where qs: "qs = q # qs'" by (cases qs) auto
  have "p = q \<and> concat (map point_bytes ps) = concat (map point_bytes qs')"
    by (rule point_bytes_inj) (use Cons.prems qs in simp_all)
  then show ?case using Cons.IH [of qs'] Cons.prems(2,3) qs by simp
next
  case Nil
  have "point_bytes q \<noteq> []" for q by (simp add: point_bytes_def)
  with Nil.prems(1) show ?case by (cases qs) auto
qed

lemma char_of_inj: "map char_of as = map char_of bs \<Longrightarrow> \<forall>a \<in> set as. a < 256 \<Longrightarrow> \<forall>b \<in> set bs. b < 256 \<Longrightarrow>
    as = (bs :: nat list)"
proof (induction as arbitrary: bs)
  case (Cons a as)
  then obtain b bs' where bs: "bs = b # bs'" "char_of a = (char_of b :: char)" by (cases bs) auto
  then have "a = b" using Cons.prems(2,3) by (metis list.set_intros(1) mod_less of_char_of)
  then show ?case using Cons bs by simp
qed simp

text \<open>Texts with the same bytes are the same but for the surrogates without a pair, and conversely.\<close>

lemma utf8_points: "utf8 s = utf8 t \<longleftrightarrow> code_points s = code_points t"
proof
  assume "utf8 s = utf8 t"
  then have "concat (map point_bytes (code_points s)) = concat (map point_bytes (code_points t))"
    unfolding utf8_def by (rule char_of_inj) (use points_bound point_bytes_small in fastforce)+
  then show "code_points s = code_points t" by (rule points_inj) (use points_bound in blast)+
qed (simp add: utf8_def)

lemma utf8_fixes_text: "utf8 s = utf8 t \<Longrightarrow> toWellFormed s = toWellFormed t"
  by (simp add: utf8_points toWellFormed_points)

lemma utf8_well_formed: "utf8 s = utf8 t \<Longrightarrow> isWellFormed s \<Longrightarrow> isWellFormed t \<Longrightarrow> s = t"
  by (metis utf8_fixes_text toWellFormed_id)

section \<open>Strings of small code units\<close>

definition text_of :: "string \<Rightarrow> js_text" where
  "text_of s = map (\<lambda>c. of_nat (of_char c)) s"

definition string_of_text :: "js_text \<Rightarrow> string" where
  "string_of_text s = map (\<lambda>u. char_of (unat u)) s"

definition utf8_string :: "string \<Rightarrow> string" where
  "utf8_string s = utf8 (text_of s)"

lemma char_below: "256 \<le> n \<Longrightarrow> of_char c < (n :: nat)" "256 \<le> n \<Longrightarrow> \<not> n \<le> (of_char c :: nat)"
  using nat_of_char_less_256 [of c] by linarith+

lemma small_unit [simp]: "unat (of_nat (of_char c) :: 16 word) = of_char c"
  by (simp add: unat_of_nat take_bit_eq_mod char_below)

lemma small_unit_plain:
  "\<not> high_surrogate (of_nat (of_char c))" "\<not> low_surrogate (of_nat (of_char c))"
  "single_point (of_nat (of_char c)) = of_char c"
  by (simp_all add: high_surrogate_def low_surrogate_def single_point_def char_below)

lemma points_Cons: "\<not> high_surrogate u \<Longrightarrow> code_points (u # us) = single_point u # code_points us"
  by (cases us) simp_all

lemma points_text_of: "code_points (text_of s @ r) = map of_char s @ code_points r"
  by (induction s) (simp_all add: text_of_def points_Cons small_unit_plain)

lemma text_of_append [simp]: "text_of (s @ t) = text_of s @ text_of t"
  by (simp add: text_of_def)

lemma string_of_text_of [simp]: "string_of_text (text_of s) = s"
  by (simp add: string_of_text_def text_of_def comp_def)

lemma text_of_inj: "text_of s = text_of t \<Longrightarrow> s = t"
  using points_text_of [of s "[]"] points_text_of [of t "[]"] by (simp add: inj_map_eq_map inj_def)

lemma well_formed_text_of: "isWellFormed (text_of s)"
proof (induction s)
  case (Cons c s)
  then show ?case by (cases "text_of s") (simp_all add: text_of_def small_unit_plain)
qed (simp add: text_of_def)

text \<open>The bytes of a text that does not begin with a second surrogate follow those before it.\<close>

definition starts_apart :: "js_text \<Rightarrow> bool" where
  "starts_apart r \<longleftrightarrow> r = [] \<or> \<not> low_surrogate (hd r)"

lemma points_append: "starts_apart r \<Longrightarrow> code_points (s @ r) = code_points s @ code_points r"
proof (induction s rule: code_points.induct)
  case (2 u)
  then show ?case by (cases r) (simp_all add: starts_apart_def)
qed simp_all

lemma utf8_append: "starts_apart r \<Longrightarrow> utf8 (s @ r) = utf8 s @ utf8 r"
  by (simp add: utf8_def points_append)

lemma utf8_Nil [simp]: "utf8 [] = []"
  by (simp add: utf8_def)

lemma utf8_text_of: "utf8 (text_of s @ r) = utf8_string s @ utf8 r"
  using points_text_of [of s "[]"] by (simp add: utf8_string_def utf8_def points_text_of)

lemma utf8_string_inj: "utf8_string s = utf8_string t \<longleftrightarrow> s = t"
  using utf8_well_formed well_formed_text_of text_of_inj unfolding utf8_string_def by blast

lemma utf8_string_bytes: "utf8_string s = map char_of (concat (map (\<lambda>c. point_bytes (of_char c)) s))"
  using points_text_of [of s "[]"] by (simp add: utf8_string_def utf8_def comp_def)

lemma utf8_string_length: "length (utf8_string s) = utf8_length s"
  by (induction s) (simp_all add: utf8_string_bytes utf8_length_def point_bytes_def char_below)

lemma utf8_string_ascii: "\<forall>c \<in> set s. of_char c < (128 :: nat) \<Longrightarrow> utf8_string s = s"
  by (induction s) (simp_all add: utf8_string_bytes point_bytes_def)

lemma starts_text_of: "s \<noteq> [] \<Longrightarrow> starts_apart (text_of s @ r)"
  by (cases s) (simp_all add: starts_apart_def text_of_def small_unit_plain)

section \<open>Length prefixes\<close>

definition lengthPrefix :: "js_text \<Rightarrow> js_text" where
  "lengthPrefix s = text_of (nat_str (byteLength s) @ '':'') @ s"

definition prefixed_bytes :: "string \<Rightarrow> string" where
  "prefixed_bytes b = nat_str (length b) @ '':'' @ b"

lemma prefixed_bytes_inj:
  assumes "prefixed_bytes a @ x = prefixed_bytes b @ y"
  shows "a = b \<and> x = y"
proof -
  have "nat_str (length a) = nat_str (length b) \<and> a @ x = b @ y"
    by (rule digits_colon) (use assms nat_str_digits in \<open>auto simp: prefixed_bytes_def\<close>)
  then show ?thesis by (auto dest: nat_str_inj)
qed

lemma utf8_prefix:
  assumes "starts_apart r"
  shows "utf8 (lengthPrefix s @ r) = prefixed_bytes (utf8 s) @ utf8 r"
proof -
  have "utf8_string (nat_str n @ '':'') = nat_str n @ '':''" for n
    by (rule utf8_string_ascii) (auto simp: is_digit_def dest!: nat_str_digits)
  then show ?thesis
    by (simp only: lengthPrefix_def append_assoc utf8_text_of utf8_append [OF assms]) (simp add: prefixed_bytes_def byteLength_def)
qed

lemma starts_prefix: "starts_apart (lengthPrefix s @ r)"
  unfolding lengthPrefix_def append_assoc by (rule starts_text_of) simp

text \<open>The prefix of a string of small code units.\<close>

lemma lengthPrefix_text_of: "lengthPrefix (text_of s) = text_of (length_prefix s)"
  unfolding lengthPrefix_def length_prefix_def byteLength_def utf8_string_def [symmetric] utf8_string_length
    text_of_append [symmetric] append_assoc ..

end
