(* ===== verification/LiveIntentHash.thy ===== *)
theory LiveIntentHash
  imports JsUnicode LiveRiskEngine
begin

text \<open>
  The canonical hash of a frozen live order intent (\<open>createLiveOrderIntentHash\<close> of
  \<open>src/risk/liveRiskAuthority.ts\<close>), on texts of arbitrary UTF-16 code units: its fields, their encoding
  with the length in bytes, the domain in front, and the bytes that are digested.  The normalisation
  of a symbol, trimming and capitals over all of Unicode, is an argument.  The lemmas show that the
  hash fixes every field up to the surrogates without a pair, which UTF-8 has no bytes for.
\<close>

section \<open>The frozen intent\<close>

text \<open>An optional property: not there, or an own property, possibly of the value undefined.\<close>

datatype 'a optional_property = NoProperty | Own "'a option"

primrec has_property :: "'a optional_property \<Rightarrow> bool" where
  "has_property NoProperty = False"
| "has_property (Own x) = True"

primrec property_value :: "'a optional_property \<Rightarrow> 'a option" where
  "property_value NoProperty = None"
| "property_value (Own x) = x"

record FrozenLiveOrderPreview =
  fp_previewId :: js_text
  fp_orderIntentId :: js_text
  fp_estimatedGrossAmountKrw :: jsnum
  fp_expiresAt :: js_text

record FrozenLiveOrderIntent =
  fi_orderIntentId :: js_text
  fi_signalId :: js_text
  fi_idempotencyKey :: js_text
  fi_market :: Market
  fi_symbol :: js_text
  fi_side :: LiveOrderSide
  fi_orderType :: LiveOrderType
  fi_quantity :: jsnum
  fi_estimatedGrossAmountKrw :: jsnum
  fi_createdAt :: js_text
  fi_expiresAt :: js_text
  fi_preview :: "FrozenLiveOrderPreview optional_property"
  fi_approvals :: "bool optional_property optional_property"

section \<open>The hash\<close>

datatype CanonicalScalar = ScalarUndefined | ScalarString js_text | ScalarBoolean bool | ScalarNumber jsnum

text \<open>A number of an intent is positive, so never the negative zero that the code writes apart.\<close>

primrec encodeScalar :: "js_env \<Rightarrow> CanonicalScalar \<Rightarrow> string \<times> js_text" where
  "encodeScalar env ScalarUndefined = (''undefined'', [])"
| "encodeScalar env (ScalarString s) = (''string'', s)"
| "encodeScalar env (ScalarBoolean b) = (''boolean'', text_of (if b then ''true'' else ''false''))"
| "encodeScalar env (ScalarNumber x) = (''number'', text_of (number_text env x))"

definition encodeField :: "js_env \<Rightarrow> string \<times> CanonicalScalar \<Rightarrow> js_text" where
  "encodeField env f =
     (case encodeScalar env (snd f) of (type, encodedValue) \<Rightarrow>
        lengthPrefix (text_of (fst f)) @ lengthPrefix (text_of type) @ lengthPrefix encodedValue)"

primrec optional_scalar :: "('a \<Rightarrow> CanonicalScalar) \<Rightarrow> 'a option \<Rightarrow> CanonicalScalar" where
  "optional_scalar f None = ScalarUndefined"
| "optional_scalar f (Some x) = f x"

definition market_text :: "Market \<Rightarrow> string" where
  "market_text m = (case m of KR \<Rightarrow> ''KR'' | US \<Rightarrow> ''US'')"

definition side_text :: "LiveOrderSide \<Rightarrow> string" where
  "side_text s = (case s of BUY \<Rightarrow> ''BUY'' | SELL \<Rightarrow> ''SELL'')"

definition order_type_text :: "LiveOrderType \<Rightarrow> string" where
  "order_type_text t = (case t of LIMIT \<Rightarrow> ''LIMIT'' | MARKET \<Rightarrow> ''MARKET'')"

definition intent_hash_fields ::
  "(js_text \<Rightarrow> js_text) \<Rightarrow> FrozenLiveOrderIntent \<Rightarrow> (string \<times> CanonicalScalar) list" where
  "intent_hash_fields normalizeSymbol i =
     (let preview = property_value (fi_preview i); approvals = property_value (fi_approvals i)
      in [(''schemaVersion'', ScalarNumber (num 1)),
          (''orderIntentId'', ScalarString (fi_orderIntentId i)), (''signalId'', ScalarString (fi_signalId i)),
          (''idempotencyKey'', ScalarString (fi_idempotencyKey i)),
          (''market'', ScalarString (text_of (market_text (fi_market i)))),
          (''symbol.raw'', ScalarString (fi_symbol i)),
          (''symbol.normalized'', ScalarString (normalizeSymbol (fi_symbol i))),
          (''side'', ScalarString (text_of (side_text (fi_side i)))),
          (''orderType'', ScalarString (text_of (order_type_text (fi_orderType i)))),
          (''quantity'', ScalarNumber (fi_quantity i)),
          (''estimatedGrossAmountKrw'', ScalarNumber (fi_estimatedGrossAmountKrw i)),
          (''createdAt'', ScalarString (fi_createdAt i)), (''expiresAt'', ScalarString (fi_expiresAt i)),
          (''preview.present'', ScalarBoolean (has_property (fi_preview i))),
          (''preview.valuePresent'', ScalarBoolean (preview \<noteq> None)),
          (''preview.previewId'', optional_scalar (ScalarString \<circ> fp_previewId) preview),
          (''preview.orderIntentId'', optional_scalar (ScalarString \<circ> fp_orderIntentId) preview),
          (''preview.estimatedGrossAmountKrw'',
            optional_scalar (ScalarNumber \<circ> fp_estimatedGrossAmountKrw) preview),
          (''preview.expiresAt'', optional_scalar (ScalarString \<circ> fp_expiresAt) preview),
          (''approvals.present'', ScalarBoolean (has_property (fi_approvals i))),
          (''approvals.valuePresent'', ScalarBoolean (approvals \<noteq> None)),
          (''approvals.marketOrderApproved.present'',
            ScalarBoolean (case approvals of None \<Rightarrow> False | Some approved \<Rightarrow> has_property approved)),
          (''approvals.marketOrderApproved'',
            optional_scalar ScalarBoolean (Option.bind approvals property_value))])"

text \<open>The domain and the payload are given to the digest one after the other, each as UTF-8.\<close>

definition frozen_intent_hash :: "js_env \<Rightarrow> (js_text \<Rightarrow> js_text) \<Rightarrow> FrozenLiveOrderIntent \<Rightarrow> string" where
  "frozen_intent_hash env normalizeSymbol i =
     ''sha256:'' @ sha256 env
       (utf8 (lengthPrefix (text_of ''toss-trading/live-order-intent-authority/v1'')) @
        utf8 (concat (map (encodeField env) (intent_hash_fields normalizeSymbol i))))"

section \<open>What the bytes of the fields fix\<close>

text \<open>Texts that tell the positive numbers apart, as those of the language do.\<close>

definition exact_number_text :: "js_env \<Rightarrow> bool" where
  "exact_number_text env \<longleftrightarrow>
     (\<forall>x y. isPositiveFiniteNumber (JNumber x) \<and> isPositiveFiniteNumber (JNumber y) \<and>
        number_text env x = number_text env y \<longrightarrow> x = y)"

text \<open>Two different sequences of bytes with the same digest.\<close>

definition sha256_collision :: "js_env \<Rightarrow> bool" where
  "sha256_collision env \<longleftrightarrow> (\<exists>s t. s \<noteq> t \<and> sha256 env s = sha256 env t)"

primrec positive_scalar :: "CanonicalScalar \<Rightarrow> bool" where
  "positive_scalar ScalarUndefined = True"
| "positive_scalar (ScalarString s) = True"
| "positive_scalar (ScalarBoolean b) = True"
| "positive_scalar (ScalarNumber x) = isPositiveFiniteNumber (JNumber x)"

primrec well_formed_scalar :: "CanonicalScalar \<Rightarrow> CanonicalScalar" where
  "well_formed_scalar ScalarUndefined = ScalarUndefined"
| "well_formed_scalar (ScalarString s) = ScalarString (toWellFormed s)"
| "well_formed_scalar (ScalarBoolean b) = ScalarBoolean b"
| "well_formed_scalar (ScalarNumber x) = ScalarNumber x"

definition field_bytes :: "js_env \<Rightarrow> string \<times> CanonicalScalar \<Rightarrow> string" where
  "field_bytes env f = prefixed_bytes (utf8_string (fst f)) @
     prefixed_bytes (utf8_string (fst (encodeScalar env (snd f)))) @
     prefixed_bytes (utf8 (snd (encodeScalar env (snd f))))"

lemma starts_fields: "starts_apart (concat (map (encodeField env) fs))"
proof (cases fs)
  case (Cons f fs)
  then show ?thesis by (simp add: encodeField_def case_prod_unfold starts_prefix)
qed (simp add: starts_apart_def)

lemma utf8_field:
  assumes "starts_apart r"
  shows "utf8 (encodeField env f @ r) = field_bytes env f @ utf8 r"
  using assms by (simp add: encodeField_def case_prod_unfold utf8_prefix starts_prefix field_bytes_def utf8_string_def)

lemma utf8_fields: "utf8 (concat (map (encodeField env) fs)) = concat (map (field_bytes env) fs)"
  by (induction fs) (simp_all add: utf8_field starts_fields)

lemma scalar_bytes_inj:
  assumes "exact_number_text env" "positive_scalar v" "positive_scalar w"
    and "fst (encodeScalar env v) = fst (encodeScalar env w)"
    and "utf8 (snd (encodeScalar env v)) = utf8 (snd (encodeScalar env w))"
  shows "well_formed_scalar v = well_formed_scalar w"
  using assms
  by (cases v; cases w)
    (auto simp: exact_number_text_def utf8_string_inj [unfolded utf8_string_def] dest: utf8_fixes_text split: if_splits)

lemma fields_bytes_inj:
  assumes "exact_number_text env" and "length fs = length gs"
    and "list_all (positive_scalar \<circ> snd) fs" "list_all (positive_scalar \<circ> snd) gs"
    and "concat (map (field_bytes env) fs) = concat (map (field_bytes env) gs)"
  shows "map (map_prod id well_formed_scalar) fs = map (map_prod id well_formed_scalar) gs"
  using assms(2-)
proof (induction fs gs rule: list_induct2)
  case (Cons f fs g gs)
  have "utf8_string (fst f) = utf8_string (fst g)"
    "utf8_string (fst (encodeScalar env (snd f))) = utf8_string (fst (encodeScalar env (snd g)))"
    "utf8 (snd (encodeScalar env (snd f))) = utf8 (snd (encodeScalar env (snd g)))"
    "concat (map (field_bytes env) fs) = concat (map (field_bytes env) gs)"
    using Cons.prems(3) by (auto simp: field_bytes_def [of env f] field_bytes_def [of env g] dest!: prefixed_bytes_inj)
  moreover from this Cons.prems have "well_formed_scalar (snd f) = well_formed_scalar (snd g)"
    by (intro scalar_bytes_inj [OF assms(1)]) (simp_all add: utf8_string_inj)
  ultimately show ?case
    using Cons by (simp add: utf8_string_inj map_prod_def case_prod_unfold)
qed simp

section \<open>What the hash fixes\<close>

text \<open>The numbers that the authority has asserted to be positive.\<close>

definition positive_amounts :: "FrozenLiveOrderIntent \<Rightarrow> bool" where
  "positive_amounts i \<longleftrightarrow> isPositiveFiniteNumber (JNumber (fi_quantity i)) \<and>
     isPositiveFiniteNumber (JNumber (fi_estimatedGrossAmountKrw i)) \<and>
     (case property_value (fi_preview i) of None \<Rightarrow> True
      | Some p \<Rightarrow> isPositiveFiniteNumber (JNumber (fp_estimatedGrossAmountKrw p)))"

text \<open>A change of every text of an intent that is not one of the fixed words.\<close>

definition map_preview_texts :: "(js_text \<Rightarrow> js_text) \<Rightarrow> FrozenLiveOrderPreview \<Rightarrow> FrozenLiveOrderPreview" where
  "map_preview_texts f p = p\<lparr>fp_previewId := f (fp_previewId p), fp_orderIntentId := f (fp_orderIntentId p),
     fp_expiresAt := f (fp_expiresAt p)\<rparr>"

definition map_intent_texts :: "(js_text \<Rightarrow> js_text) \<Rightarrow> FrozenLiveOrderIntent \<Rightarrow> FrozenLiveOrderIntent" where
  "map_intent_texts f i = i\<lparr>fi_orderIntentId := f (fi_orderIntentId i), fi_signalId := f (fi_signalId i),
     fi_idempotencyKey := f (fi_idempotencyKey i), fi_symbol := f (fi_symbol i),
     fi_createdAt := f (fi_createdAt i), fi_expiresAt := f (fi_expiresAt i),
     fi_preview := map_optional_property (map_preview_texts f) (fi_preview i)\<rparr>"

text \<open>The texts of an intent.\<close>

definition intent_texts :: "FrozenLiveOrderIntent \<Rightarrow> js_text list" where
  "intent_texts i = [fi_orderIntentId i, fi_signalId i, fi_idempotencyKey i, fi_symbol i, fi_createdAt i, fi_expiresAt i] @
     (case property_value (fi_preview i) of None \<Rightarrow> []
      | Some p \<Rightarrow> [fp_previewId p, fp_orderIntentId p, fp_expiresAt p])"

lemma well_formed_intent:
  assumes "list_all isWellFormed (intent_texts i)"
  shows "map_intent_texts toWellFormed i = i"
proof (cases "fi_preview i")
  case (Own p)
  then show ?thesis
    using assms by (cases p) (simp_all add: intent_texts_def map_intent_texts_def map_preview_texts_def toWellFormed_id)
qed (use assms in \<open>simp add: intent_texts_def map_intent_texts_def toWellFormed_id\<close>)

lemma words_inj:
  "text_of (market_text a) = text_of (market_text b) \<longleftrightarrow> a = b"
  "text_of (side_text c) = text_of (side_text d) \<longleftrightarrow> c = d"
  "text_of (order_type_text e) = text_of (order_type_text f) \<longleftrightarrow> e = f"
  by (auto simp: market_text_def side_text_def order_type_text_def dest!: text_of_inj
      split: Market.splits LiveOrderSide.splits LiveOrderType.splits)

lemma positive_fields:
  assumes "positive_amounts i"
  shows "list_all (positive_scalar \<circ> snd) (intent_hash_fields normalizeSymbol i)"
  using assms
  by (cases "property_value (fi_preview i)"; cases "Option.bind (property_value (fi_approvals i)) property_value")
    (simp_all add: positive_amounts_def intent_hash_fields_def Let_def)

lemma same_preview:
  assumes "has_property p = has_property q" and "(property_value p \<noteq> None) = (property_value q \<noteq> None)"
    and "\<And>v w. property_value p = Some v \<Longrightarrow> property_value q = Some w \<Longrightarrow> f v = f w"
  shows "map_optional_property f p = map_optional_property f q"
proof (cases "property_value p = None \<or> property_value q = None")
  case True
  with assms(1,2) show ?thesis by (cases p; cases q) auto
next
  case False
  then obtain v w where "p = Own (Some v)" "q = Own (Some w)" by (cases p; cases q) auto
  with assms(3) show ?thesis by simp
qed

lemma same_flag:
  assumes "has_property a = has_property b"
    and "well_formed_scalar (optional_scalar ScalarBoolean (property_value a)) =
      well_formed_scalar (optional_scalar ScalarBoolean (property_value b))"
  shows "a = b"
proof -
  have "x = y" if "well_formed_scalar (optional_scalar ScalarBoolean x) = well_formed_scalar (optional_scalar ScalarBoolean y)" for x y
    using that by (cases x; cases y) simp_all
  with assms show ?thesis by (cases a; cases b) auto
qed

lemma same_approvals:
  assumes "has_property p = has_property q" and "(property_value p \<noteq> None) = (property_value q \<noteq> None)"
    and "(case property_value p of None \<Rightarrow> False | Some a \<Rightarrow> has_property a) =
      (case property_value q of None \<Rightarrow> False | Some a \<Rightarrow> has_property a)"
    and "well_formed_scalar (optional_scalar ScalarBoolean (Option.bind (property_value p) property_value)) =
      well_formed_scalar (optional_scalar ScalarBoolean (Option.bind (property_value q) property_value))"
  shows "p = q"
proof (cases "property_value p = None \<or> property_value q = None")
  case True
  with assms(1,2) show ?thesis by (cases p; cases q) auto
next
  case False
  then obtain a b where "p = Own (Some a)" "q = Own (Some b)" by (cases p; cases q) auto
  with assms(3,4) same_flag [of a b] show ?thesis by simp
qed

lemma same_fields:
  assumes "map (map_prod id well_formed_scalar) (intent_hash_fields normalizeSymbol i) =
    map (map_prod id well_formed_scalar) (intent_hash_fields normalizeSymbol j)"
  shows "map_intent_texts toWellFormed i = map_intent_texts toWellFormed j"
proof -
  let ?same = "\<lambda>f. well_formed_scalar (f i) = well_formed_scalar (f j)"
  note fields = assms [unfolded intent_hash_fields_def Let_def list.map map_prod_simp list.inject prod.inject]
  have words: "fi_market i = fi_market j" "fi_side i = fi_side j" "fi_orderType i = fi_orderType j"
    using fields by (simp_all add: toWellFormed_id well_formed_text_of words_inj)
  have preview: "map_optional_property (map_preview_texts toWellFormed) (fi_preview i) =
      map_optional_property (map_preview_texts toWellFormed) (fi_preview j)"
    using fields by (intro same_preview) (auto simp: map_preview_texts_def)
  have approvals: "fi_approvals i = fi_approvals j"
    using fields by (intro same_approvals) simp_all
  show ?thesis
    using fields words preview approvals by (simp add: map_intent_texts_def)
qed

lemma hash_fixes_fields:
  assumes "exact_number_text env" "positive_amounts i" "positive_amounts j"
    and "frozen_intent_hash env normalizeSymbol i = frozen_intent_hash env normalizeSymbol j"
  shows "map_intent_texts toWellFormed i = map_intent_texts toWellFormed j \<or> sha256_collision env"
proof (cases "sha256_collision env")
  case False
  then have "concat (map (field_bytes env) (intent_hash_fields normalizeSymbol i)) =
      concat (map (field_bytes env) (intent_hash_fields normalizeSymbol j))"
    using assms(4) unfolding frozen_intent_hash_def sha256_collision_def utf8_fields by (meson same_append_eq)
  moreover have "length (intent_hash_fields normalizeSymbol i) = length (intent_hash_fields normalizeSymbol j)"
    by (simp add: intent_hash_fields_def Let_def)
  ultimately show ?thesis
    using fields_bytes_inj [OF assms(1) _ positive_fields [OF assms(2)] positive_fields [OF assms(3)]] same_fields
    by blast
qed simp

text \<open>
  Identifiers with the same bytes give the same hash, whatever the digest: the surrogates of
  different values without a pair are not told apart.
\<close>

lemma lone_surrogates_share_hash:
  assumes "utf8 s = utf8 t"
  shows "frozen_intent_hash env normalizeSymbol (i\<lparr>fi_orderIntentId := s\<rparr>) =
    frozen_intent_hash env normalizeSymbol (i\<lparr>fi_orderIntentId := t\<rparr>)"
  unfolding frozen_intent_hash_def utf8_fields using assms
  by (simp add: intent_hash_fields_def Let_def field_bytes_def)

lemma lone_surrogate_example: "utf8 [0x61, 0xD800] = utf8 [0x61, 0xD801]"
  by (simp add: utf8_points single_point_def high_surrogate_def low_surrogate_def)

end
