(* ===== verification/LiveRiskAuthority.thy ===== *)
theory LiveRiskAuthority
  imports LiveRiskFacts LiveIntentHash
begin

text \<open>
  The authority of a live risk decision (\<open>src/risk/liveRiskAuthority.ts\<close>): the strict copies of an
  intent, a snapshot and a policy, the canonical hash of the intent, and the store of the
  authorities, which are objects without content that only the store can recognise.  The copies
  are values of plain objects; an object of the store is known by its identity.
\<close>

section \<open>Plain data\<close>

definition plain_error :: "string \<Rightarrow> 'a result" where
  "plain_error message = Inl (Error (''live risk authority '' @ message))"

definition has_own :: "jsval \<Rightarrow> string \<Rightarrow> bool" where
  "has_own v key \<longleftrightarrow> key \<in> set (map fst (object_entries v))"

definition materializeDataRecord :: "jsval \<Rightarrow> string list \<Rightarrow> string list \<Rightarrow> jsval result" where
  "materializeDataRecord v allowedKeys requiredKeys =
     (case v of
        JObject proto props \<Rightarrow>
          if proto = OtherPrototype then plain_error ''input must use plain data objects''
          else if list_ex (\<lambda>key. key \<notin> set allowedKeys) (map fst props)
          then plain_error ''input contains unknown fields''
          else if list_ex (\<lambda>key. \<not> has_own v key) requiredKeys
          then plain_error ''input is missing required fields''
          else Inr (JObject ObjectPrototype props)
      | _ \<Rightarrow> plain_error ''input must use plain data objects'')"

definition materializeDataArray :: "jsval \<Rightarrow> string \<Rightarrow> jsval list result" where
  "materializeDataArray v field =
     (case v of JArray xs \<Rightarrow> Inr xs | _ \<Rightarrow> plain_error (field @ '' must be a plain array''))"

definition require_that :: "bool \<Rightarrow> string \<Rightarrow> unit result" where
  "require_that b message = (if b then Inr () else Inl (Error message))"

definition assertNonEmptyString :: "jsval \<Rightarrow> string \<Rightarrow> unit result" where
  "assertNonEmptyString v field =
     require_that (isNonEmptyString v) (''live order intent '' @ field @ '' must be a non-empty string'')"

definition assertPositiveFiniteNumber :: "jsval \<Rightarrow> string \<Rightarrow> unit result" where
  "assertPositiveFiniteNumber v field =
     require_that (isPositiveFiniteNumber v) (''live order intent '' @ field @ '' must be positive and finite'')"

definition assertNonNegativeFiniteNumber :: "jsval \<Rightarrow> string \<Rightarrow> unit result" where
  "assertNonNegativeFiniteNumber v field =
     require_that (isNonNegativeFiniteNumber v)
       (''live risk authority '' @ field @ '' must be non-negative and finite'')"

definition assertMarket :: "jsval \<Rightarrow> string \<Rightarrow> unit result" where
  "assertMarket v field =
     require_that (isLiveMarket v) (''live risk authority '' @ field @ '' must be KR or US'')"

definition assertOrderSide :: "jsval \<Rightarrow> string \<Rightarrow> unit result" where
  "assertOrderSide v field =
     require_that (isLiveOrderSide v) (''live risk authority '' @ field @ '' must be BUY or SELL'')"

definition assertTimestamp :: "js_env \<Rightarrow> jsval \<Rightarrow> string \<Rightarrow> unit result" where
  "assertTimestamp env v field =
     bind_result (assertNonEmptyString v field) (\<lambda>_.
       require_that (is_finite (date_parse env (string_of v)))
         (''live order intent '' @ field @ '' must be a parseable timestamp''))"

text \<open>The assertions of a list, in order.\<close>

definition assert_all :: "unit result list \<Rightarrow> unit result" where
  "assert_all checks = fold_result (\<lambda>_ check. check) () checks"

text \<open>The fields of a new object that copy those of a record.\<close>

definition copy_fields :: "jsval \<Rightarrow> string list \<Rightarrow> (string \<times> jsval) list" where
  "copy_fields v keys = map (\<lambda>key. (key, get_property v key)) keys"

definition copy_own :: "jsval \<Rightarrow> string list \<Rightarrow> (string \<times> jsval) list" where
  "copy_own v keys = copy_fields v (filter (has_own v) keys)"

section \<open>The intent\<close>

definition PREVIEW_REQUIRED_KEYS :: "string list" where
  "PREVIEW_REQUIRED_KEYS = [''previewId'', ''orderIntentId'', ''estimatedGrossAmountKrw'', ''expiresAt'']"

definition INTENT_REQUIRED_KEYS :: "string list" where
  "INTENT_REQUIRED_KEYS = [''orderIntentId'', ''signalId'', ''idempotencyKey'', ''market'', ''symbol'',
     ''side'', ''orderType'', ''quantity'', ''estimatedGrossAmountKrw'', ''createdAt'', ''expiresAt'']"

definition clonePreview :: "js_env \<Rightarrow> jsval \<Rightarrow> jsval result" where
  "clonePreview env v =
     (if v = JUndefined then Inr JUndefined
      else bind_result (materializeDataRecord v PREVIEW_REQUIRED_KEYS PREVIEW_REQUIRED_KEYS) (\<lambda>record.
        bind_result (assert_all
          [assertNonEmptyString (get_property record ''previewId'') ''preview.previewId'',
           assertNonEmptyString (get_property record ''orderIntentId'') ''preview.orderIntentId'',
           assertPositiveFiniteNumber (get_property record ''estimatedGrossAmountKrw'')
             ''preview.estimatedGrossAmountKrw'',
           assertTimestamp env (get_property record ''expiresAt'') ''preview.expiresAt''])
        (\<lambda>_. Inr (JObject ObjectPrototype (copy_fields record PREVIEW_REQUIRED_KEYS)))))"

definition cloneApprovals :: "jsval \<Rightarrow> jsval result" where
  "cloneApprovals v =
     (if v = JUndefined then Inr JUndefined
      else bind_result (materializeDataRecord v [''marketOrderApproved''] []) (\<lambda>record.
        bind_result (require_that
            (get_property record ''marketOrderApproved'' = JUndefined \<or>
             isBoolean (get_property record ''marketOrderApproved''))
            ''live order intent approvals.marketOrderApproved must be boolean or undefined'')
        (\<lambda>_. Inr (JObject ObjectPrototype (copy_own record [''marketOrderApproved''])))))"

definition optional_field :: "jsval \<Rightarrow> string \<Rightarrow> (jsval \<Rightarrow> jsval result) \<Rightarrow> (string \<times> jsval) list result" where
  "optional_field v key clone =
     (if has_own v key then bind_result (clone (get_property v key)) (\<lambda>w. Inr [(key, w)]) else Inr [])"

definition createFrozenLiveOrderIntent :: "js_env \<Rightarrow> jsval \<Rightarrow> jsval result" where
  "createFrozenLiveOrderIntent env v =
     bind_result (materializeDataRecord v (INTENT_REQUIRED_KEYS @ [''preview'', ''approvals''])
         INTENT_REQUIRED_KEYS) (\<lambda>record.
     bind_result (assert_all
         [assertNonEmptyString (get_property record ''orderIntentId'') ''orderIntentId'',
          assertNonEmptyString (get_property record ''signalId'') ''signalId'',
          assertNonEmptyString (get_property record ''idempotencyKey'') ''idempotencyKey'',
          require_that (isLiveMarket (get_property record ''market''))
            ''live order intent market must be KR or US'',
          assertNonEmptyString (get_property record ''symbol'') ''symbol'',
          require_that (isLiveOrderSide (get_property record ''side''))
            ''live order intent side must be BUY or SELL'',
          require_that (isLiveOrderType (get_property record ''orderType''))
            ''live order intent orderType must be LIMIT or MARKET'',
          assertPositiveFiniteNumber (get_property record ''quantity'') ''quantity'',
          assertPositiveFiniteNumber (get_property record ''estimatedGrossAmountKrw'')
            ''estimatedGrossAmountKrw'',
          assertTimestamp env (get_property record ''createdAt'') ''createdAt'',
          assertTimestamp env (get_property record ''expiresAt'') ''expiresAt'']) (\<lambda>_.
     bind_result (optional_field record ''preview'' (clonePreview env)) (\<lambda>preview.
     bind_result (optional_field record ''approvals'' cloneApprovals) (\<lambda>approvals.
       Inr (JObject ObjectPrototype (copy_fields record INTENT_REQUIRED_KEYS @ preview @ approvals))))))"

section \<open>The snapshot\<close>

definition cloneRiskPosition :: "jsval \<Rightarrow> jsval result" where
  "cloneRiskPosition v =
     (let keys = [''market'', ''symbol'', ''quantity'', ''averagePriceKrw'']
      in bind_result (materializeDataRecord v (keys @ [''marketValueKrw'']) keys) (\<lambda>record.
         bind_result (assert_all
             [assertMarket (get_property record ''market'') ''snapshot.positions.market'',
              assertNonEmptyString (get_property record ''symbol'') ''snapshot.positions.symbol'',
              assertNonNegativeFiniteNumber (get_property record ''quantity'') ''snapshot.positions.quantity'',
              assertNonNegativeFiniteNumber (get_property record ''averagePriceKrw'')
                ''snapshot.positions.averagePriceKrw'',
              (if get_property record ''marketValueKrw'' = JUndefined then Inr ()
               else assertNonNegativeFiniteNumber (get_property record ''marketValueKrw'')
                 ''snapshot.positions.marketValueKrw'')])
         (\<lambda>_. Inr (JObject ObjectPrototype (copy_fields record keys @ copy_own record [''marketValueKrw''])))))"

definition cloneOpenOrder :: "jsval \<Rightarrow> jsval result" where
  "cloneOpenOrder v =
     (let keys = [''orderIntentId'', ''idempotencyKey'', ''market'', ''symbol'', ''side''];
          optional = [''signalId'', ''estimatedGrossAmountKrw'', ''quantity''];
          given = (\<lambda>record key check. if get_property record key = JUndefined then Inr ()
            else check (get_property record key) (''snapshot.openOrders.'' @ key))
      in bind_result (materializeDataRecord v (keys @ optional) keys) (\<lambda>record.
         bind_result (assert_all
             [assertNonEmptyString (get_property record ''orderIntentId'') ''snapshot.openOrders.orderIntentId'',
              assertNonEmptyString (get_property record ''idempotencyKey'') ''snapshot.openOrders.idempotencyKey'',
              assertMarket (get_property record ''market'') ''snapshot.openOrders.market'',
              assertNonEmptyString (get_property record ''symbol'') ''snapshot.openOrders.symbol'',
              assertOrderSide (get_property record ''side'') ''snapshot.openOrders.side'',
              given record ''signalId'' assertNonEmptyString,
              given record ''estimatedGrossAmountKrw'' assertPositiveFiniteNumber,
              given record ''quantity'' assertPositiveFiniteNumber,
              require_that
                (\<not> (get_property record ''side'' = JString ''BUY'' \<and>
                     get_property record ''estimatedGrossAmountKrw'' = JUndefined \<or>
                   get_property record ''side'' = JString ''SELL'' \<and>
                     get_property record ''quantity'' = JUndefined))
                ''live risk snapshot open order requires side-specific amount or quantity''])
         (\<lambda>_. Inr (JObject ObjectPrototype (copy_fields record keys @ copy_own record optional)))))"

text \<open>The loop over the two markets, with the sessions so far.\<close>

definition clone_session_step :: "jsval \<Rightarrow> (string \<times> jsval) list \<Rightarrow> string \<Rightarrow> (string \<times> jsval) list result" where
  "clone_session_step record sessions market =
     (if \<not> has_own record market then Inr sessions
      else if \<not> isLiveMarketSessionStatus (get_property record market)
      then Inl (Error ''live risk snapshot market session must be open or closed'')
      else Inr (sessions @ [(market, get_property record market)]))"

definition cloneMarketSessions :: "jsval \<Rightarrow> jsval result" where
  "cloneMarketSessions v =
     bind_result (materializeDataRecord v [''KR'', ''US''] []) (\<lambda>record.
     bind_result (fold_result (clone_session_step record) [] [''KR'', ''US'']) (\<lambda>sessions.
       Inr (JObject ObjectPrototype sessions)))"

definition createFrozenLiveRiskSnapshot :: "js_env \<Rightarrow> jsval \<Rightarrow> jsval result" where
  "createFrozenLiveRiskSnapshot env v =
     (let keys = [''riskSnapshotRef'', ''capturedAt'', ''dailyLossKrw'', ''positions'', ''openOrders'', ''marketSessions'']
      in bind_result (materializeDataRecord v keys keys) (\<lambda>record.
         bind_result (assert_all
             [assertNonEmptyString (get_property record ''riskSnapshotRef'') ''snapshot.riskSnapshotRef'',
              assertTimestamp env (get_property record ''capturedAt'') ''snapshot.capturedAt'',
              assertNonNegativeFiniteNumber (get_property record ''dailyLossKrw'') ''snapshot.dailyLossKrw''])
         (\<lambda>_. bind_result (materializeDataArray (get_property record ''positions'') ''snapshot.positions'') (\<lambda>ps.
              bind_result (map_result cloneRiskPosition ps) (\<lambda>positions.
              bind_result (materializeDataArray (get_property record ''openOrders'') ''snapshot.openOrders'') (\<lambda>os.
              bind_result (map_result cloneOpenOrder os) (\<lambda>openOrders.
              bind_result (cloneMarketSessions (get_property record ''marketSessions'')) (\<lambda>sessions.
                Inr (JObject ObjectPrototype
                  (copy_fields record [''riskSnapshotRef'', ''capturedAt'', ''dailyLossKrw''] @
                   [(''positions'', JArray positions), (''openOrders'', JArray openOrders),
                    (''marketSessions'', sessions)]))))))))))"

section \<open>The policy\<close>

definition POLICY_OPTIONAL_KEYS :: "string list" where
  "POLICY_OPTIONAL_KEYS = policy_boolean_keys @ policy_number_keys @
     [''allowedSymbols'', ''allowedMarkets'', ''maxOpenOrders'', ''marketOrderPolicy'', ''cooldownEntries'', ''now'']"

definition cloneCooldownEntry :: "js_env \<Rightarrow> jsval \<Rightarrow> jsval result" where
  "cloneCooldownEntry env v =
     (let keys = [''symbol'', ''activeUntil'']; optional = [''market'', ''side'', ''reason'']
      in bind_result (materializeDataRecord v (keys @ optional) keys) (\<lambda>record.
         bind_result (assert_all
             [assertNonEmptyString (get_property record ''symbol'') ''policy.cooldownEntries.symbol'',
              assertTimestamp env (get_property record ''activeUntil'') ''policy.cooldownEntries.activeUntil'',
              (if get_property record ''market'' = JUndefined then Inr ()
               else assertMarket (get_property record ''market'') ''policy.cooldownEntries.market''),
              (if get_property record ''side'' = JUndefined then Inr ()
               else assertOrderSide (get_property record ''side'') ''policy.cooldownEntries.side''),
              require_that (get_property record ''reason'' = JUndefined \<or> isString (get_property record ''reason''))
                ''live risk policy cooldownEntries.reason must be string or undefined''])
         (\<lambda>_. Inr (JObject ObjectPrototype (copy_fields record keys @ copy_own record optional)))))"

text \<open>A field of the policy that is present and defined is checked and copied; any other is left out.\<close>

definition policy_field ::
  "jsval \<Rightarrow> string \<Rightarrow> (jsval \<Rightarrow> jsval result) \<Rightarrow> (string \<times> jsval) list result" where
  "policy_field record key copy =
     (if get_property record key = JUndefined then Inr []
      else bind_result (copy (get_property record key)) (\<lambda>w. Inr [(key, w)]))"

definition checked :: "(jsval \<Rightarrow> bool) \<Rightarrow> string \<Rightarrow> jsval \<Rightarrow> jsval result" where
  "checked guard message v = bind_result (require_that (guard v) message) (\<lambda>_. Inr v)"

definition checked_array :: "string \<Rightarrow> (jsval \<Rightarrow> jsval result) \<Rightarrow> jsval \<Rightarrow> jsval result" where
  "checked_array field copy v =
     bind_result (materializeDataArray v field) (\<lambda>xs.
     bind_result (map_result copy xs) (\<lambda>ys. Inr (JArray ys)))"

definition readNativeDateTime :: "jsval \<Rightarrow> jsnum result" where
  "readNativeDateTime v =
     (case v of
        JDate t \<Rightarrow> if is_finite t then Inr t else Inl (Error ''live risk policy now must be a valid Date'')
      | _ \<Rightarrow> Inl (Error ''live risk policy now must be a native Date''))"

definition policy_copies :: "js_env \<Rightarrow> (string \<times> (jsval \<Rightarrow> jsval result)) list" where
  "policy_copies env =
     map (\<lambda>key. (key, checked isBoolean (''live risk policy '' @ key @ '' must be boolean or undefined'')))
       policy_boolean_keys @
     map (\<lambda>key. (key, checked isNonNegativeFiniteNumber
         (''live risk authority policy.'' @ key @ '' must be non-negative and finite''))) policy_number_keys @
     [(''maxOpenOrders'', checked isNonNegativeInteger
         ''live risk policy maxOpenOrders must be a non-negative integer''),
      (''marketOrderPolicy'', checked isLiveMarketOrderPolicy ''live risk policy marketOrderPolicy is invalid''),
      (''allowedSymbols'', checked_array ''policy.allowedSymbols''
         (checked isNonEmptyString ''live order intent policy.allowedSymbols entry must be a non-empty string'')),
      (''allowedMarkets'', checked_array ''policy.allowedMarkets''
         (checked isLiveMarket ''live risk authority policy.allowedMarkets entry must be KR or US'')),
      (''cooldownEntries'', checked_array ''policy.cooldownEntries'' (cloneCooldownEntry env)),
      (''now'', \<lambda>v. bind_result (readNativeDateTime v) (\<lambda>t. Inr (JDate t)))]"

definition createFrozenLiveRiskPolicyInput :: "js_env \<Rightarrow> jsval \<Rightarrow> jsval result" where
  "createFrozenLiveRiskPolicyInput env v =
     (if v = JUndefined then Inr JUndefined
      else bind_result (materializeDataRecord v POLICY_OPTIONAL_KEYS []) (\<lambda>record.
        bind_result (map_result (\<lambda>(key, copy). policy_field record key copy) (policy_copies env))
          (\<lambda>parts. Inr (JObject ObjectPrototype (concat parts)))))"

section \<open>The hash of an intent\<close>

text \<open>
  The intent that a frozen copy is, as the hash reads it.  The copies of this theory hold strings of small
  code units; \<open>LiveIntentHash\<close> has the hash for texts of any code units.
\<close>

definition text_at_key :: "jsval \<Rightarrow> string \<Rightarrow> js_text" where
  "text_at_key v key = text_of (string_of (get_property v key))"

definition optional_property_of :: "jsval \<Rightarrow> string \<Rightarrow> (jsval \<Rightarrow> 'a option) \<Rightarrow> 'a optional_property" where
  "optional_property_of v key read =
     (if has_own v key then Own (read (get_property v key)) else NoProperty)"

definition frozen_preview_of :: "jsval \<Rightarrow> FrozenLiveOrderPreview option" where
  "frozen_preview_of p =
     (if p = JUndefined then None
      else Some \<lparr>fp_previewId = text_at_key p ''previewId'', fp_orderIntentId = text_at_key p ''orderIntentId'',
        fp_estimatedGrossAmountKrw = number_of (get_property p ''estimatedGrossAmountKrw''),
        fp_expiresAt = text_at_key p ''expiresAt''\<rparr>)"

definition frozen_approvals_of :: "jsval \<Rightarrow> bool optional_property option" where
  "frozen_approvals_of a =
     (if a = JUndefined then None else Some (optional_property_of a ''marketOrderApproved'' boolean_option))"

definition frozen_intent_of :: "jsval \<Rightarrow> FrozenLiveOrderIntent" where
  "frozen_intent_of v =
     \<lparr>fi_orderIntentId = text_at_key v ''orderIntentId'', fi_signalId = text_at_key v ''signalId'',
      fi_idempotencyKey = text_at_key v ''idempotencyKey'', fi_market = market_of (get_property v ''market''),
      fi_symbol = text_at_key v ''symbol'', fi_side = side_of (get_property v ''side''),
      fi_orderType = (if get_property v ''orderType'' = JString ''MARKET'' then MARKET else LIMIT),
      fi_quantity = number_of (get_property v ''quantity''),
      fi_estimatedGrossAmountKrw = number_of (get_property v ''estimatedGrossAmountKrw''),
      fi_createdAt = text_at_key v ''createdAt'', fi_expiresAt = text_at_key v ''expiresAt'',
      fi_preview = optional_property_of v ''preview'' frozen_preview_of,
      fi_approvals = optional_property_of v ''approvals'' frozen_approvals_of\<rparr>"

definition createLiveOrderIntentHash :: "js_env \<Rightarrow> jsval \<Rightarrow> string" where
  "createLiveOrderIntentHash env i =
     frozen_intent_hash env (\<lambda>s. text_of (normalizeLiveRiskSymbol (string_of_text s))) (frozen_intent_of i)"

section \<open>Authorities\<close>

record LiveRiskAuthorityDecision = LiveRiskDecision +
  lrd_evaluatedIntentHash :: string

text \<open>
  The objects of the program are numbered as they are created.  A state of an authority names the
  intent object it was minted for; the frozen objects and the intent that each object is are part
  of the heap.
\<close>

record AuthorityState =
  as_intentObject :: nat
  as_decision :: LiveRiskAuthorityDecision

record AuthorityStore =
  st_nextObject :: nat
  st_frozen :: "nat list"
  st_intents :: "(nat \<times> jsval) list"
  st_brands :: "nat list"
  st_states :: "(nat \<times> AuthorityState) list"

definition freezeAuthorityDecision :: "LiveRiskDecision \<Rightarrow> string \<Rightarrow> LiveRiskAuthorityDecision" where
  "freezeAuthorityDecision d hash =
     \<lparr>lrd_riskDecisionId = lrd_riskDecisionId d, lrd_orderIntentId = lrd_orderIntentId d,
      lrd_signalId = lrd_signalId d, lrd_approved = lrd_approved d, lrd_rejectCodes = lrd_rejectCodes d,
      lrd_checkedRules = lrd_checkedRules d, lrd_riskSnapshotRef = lrd_riskSnapshotRef d,
      lrd_createdAt = lrd_createdAt d, lrd_evaluatedIntentHash = hash\<rparr>"

text \<open>The input of the engine: the copies, with a policy only when the caller gave one.\<close>

definition authority_engine_input :: "js_env \<Rightarrow> jsval \<Rightarrow> jsval result" where
  "authority_engine_input env input =
     bind_result (materializeDataRecord input [''intent'', ''snapshot'', ''policy''] [''intent'', ''snapshot'']) (\<lambda>root.
     bind_result (createFrozenLiveOrderIntent env (get_property root ''intent'')) (\<lambda>intent.
     bind_result (createFrozenLiveRiskSnapshot env (get_property root ''snapshot'')) (\<lambda>snapshot.
     bind_result (optional_field root ''policy'' (createFrozenLiveRiskPolicyInput env)) (\<lambda>policy.
       Inr (JObject ObjectPrototype ([(''intent'', intent), (''snapshot'', snapshot)] @ policy))))))"

text \<open>
  \<open>evaluateLiveRiskAuthority\<close> creates the frozen intent and the frozen authority, and returns both
  with the decision.
\<close>

definition evaluateLiveRiskAuthority ::
  "js_env \<Rightarrow> jsval \<Rightarrow> AuthorityStore \<Rightarrow> ((nat \<times> nat \<times> LiveRiskAuthorityDecision) \<times> AuthorityStore) result" where
  "evaluateLiveRiskAuthority env input st =
     bind_result (authority_engine_input env input) (\<lambda>engineInput.
       let intent = get_property engineInput ''intent''; hash = createLiveOrderIntentHash env intent
       in bind_result (live_evaluate env engineInput) (\<lambda>d.
            let decision = freezeAuthorityDecision d hash;
                intentObject = st_nextObject st; authority = Suc (st_nextObject st)
            in Inr ((intentObject, authority, decision),
                 st\<lparr>st_nextObject := Suc (Suc (st_nextObject st)),
                    st_frozen := authority # intentObject # st_frozen st,
                    st_intents := (intentObject, intent) # st_intents st,
                    st_brands := authority # st_brands st,
                    st_states := (authority, \<lparr>as_intentObject = intentObject, as_decision = decision\<rparr>)
                      # st_states st\<rparr>)))"

text \<open>An argument that may be an object of the heap, or no object.\<close>

type_synonym reference = "nat option"

definition requireOwnedAuthority :: "AuthorityStore \<Rightarrow> reference \<Rightarrow> AuthorityState result" where
  "requireOwnedAuthority st value =
     (case value of
        None \<Rightarrow> plain_error ''must be an owned frozen authority''
      | Some object \<Rightarrow>
          if object \<notin> set (st_frozen st) then plain_error ''must be an owned frozen authority''
          else if object \<notin> set (st_brands st) then plain_error ''must be minted by the risk engine''
          else case map_of (st_states st) object of
                 None \<Rightarrow> plain_error ''must be minted by the risk engine''
               | Some s \<Rightarrow> Inr s)"

definition inspectLiveRiskAuthority :: "AuthorityStore \<Rightarrow> reference \<Rightarrow> LiveRiskAuthorityDecision result" where
  "inspectLiveRiskAuthority st authority =
     bind_result (requireOwnedAuthority st authority) (\<lambda>s. Inr (as_decision s))"

definition verifyLiveRiskAuthority ::
  "js_env \<Rightarrow> AuthorityStore \<Rightarrow> reference \<Rightarrow> reference \<Rightarrow> LiveRiskAuthorityDecision result" where
  "verifyLiveRiskAuthority env st authority intent =
     bind_result (requireOwnedAuthority st authority) (\<lambda>s.
     bind_result (require_that (intent = Some (as_intentObject s))
       ''live risk authority requires the exact evaluated intent snapshot'') (\<lambda>_.
     bind_result (require_that (as_intentObject s \<in> set (st_frozen st))
       ''live risk authority intent snapshot must remain deep-frozen'') (\<lambda>_.
     bind_result (require_that
         (createLiveOrderIntentHash env (or_else (map_of (st_intents st) (as_intentObject s)) JUndefined) =
          lrd_evaluatedIntentHash (as_decision s))
       ''live risk authority intent hash mismatch'') (\<lambda>_.
     bind_result (require_that (lrd_approved (as_decision s))
       ''live risk authority decision is not approved'') (\<lambda>_.
       Inr (as_decision s))))))"

end
