(* ===== verification/LiveAuthorityFacts.thy ===== *)
theory LiveAuthorityFacts
  imports LiveRiskAuthority
begin

text \<open>
  The lifetime of the authorities as a step relation, with what is always true of the store; what
  the strict copies keep of a value, and why the engine never finds them malformed; and the
  fields of an intent that its hash fixes.
\<close>

section \<open>Reachable stores\<close>

type_synonym evaluation = "jsval \<times> nat \<times> nat \<times> LiveRiskAuthorityDecision"

definition empty_store :: AuthorityStore where
  "empty_store = \<lparr>st_nextObject = 0, st_frozen = [], st_intents = [], st_brands = [], st_states = []\<rparr>"

text \<open>
  The program evaluates inputs at any time by the clock and creates other objects, frozen or not,
  that it may pass off as authorities or intents.  The trace lists the evaluations that returned.
\<close>

inductive authority_run :: "js_env \<Rightarrow> AuthorityStore \<Rightarrow> evaluation list \<Rightarrow> bool" for env where
  start: "authority_run env empty_store []"
| evaluated: "authority_run env st trace \<Longrightarrow>
    evaluateLiveRiskAuthority (env\<lparr>clock := t\<rparr>) input st = Inr ((i, a, d), st') \<Longrightarrow>
    authority_run env st' ((input, i, a, d) # trace)"
| other_object: "authority_run env st trace \<Longrightarrow>
    authority_run env (st\<lparr>st_nextObject := Suc (st_nextObject st),
      st_frozen := (if frozen then [st_nextObject st] else []) @ st_frozen st\<rparr>) trace"

inductive_cases evaluated_cases: "authority_run env st (e # trace)"

lemma hash_clock [simp]: "createLiveOrderIntentHash (env\<lparr>clock := t\<rparr>) i = createLiveOrderIntentHash env i"
proof -
  have "encodeField (env\<lparr>clock := t\<rparr>) f = encodeField env f" for f
    by (cases "snd f") (simp_all add: encodeField_def)
  then have "encodeField (env\<lparr>clock := t\<rparr>) = encodeField env" by (rule ext)
  then show ?thesis by (simp add: createLiveOrderIntentHash_def frozen_intent_hash_def)
qed

text \<open>What an evaluation that returned has computed.\<close>

definition evaluation_of :: "js_env \<Rightarrow> jsval \<Rightarrow> LiveRiskAuthorityDecision \<Rightarrow> jsval \<Rightarrow> bool" where
  "evaluation_of env input d intent \<longleftrightarrow>
     (\<exists>t engineInput d0. authority_engine_input (env\<lparr>clock := t\<rparr>) input = Inr engineInput \<and>
        intent = get_property engineInput ''intent'' \<and>
        live_evaluate (env\<lparr>clock := t\<rparr>) engineInput = Inr d0 \<and>
        d = freezeAuthorityDecision d0 (createLiveOrderIntentHash env intent))"

lemma evaluated_authority:
  assumes "evaluateLiveRiskAuthority (env\<lparr>clock := t\<rparr>) input st = Inr ((i, a, d), st')"
  obtains intent where "evaluation_of env input d intent" "i = st_nextObject st" "a = Suc i"
    "st' = st\<lparr>st_nextObject := Suc a, st_frozen := a # i # st_frozen st,
       st_intents := (i, intent) # st_intents st, st_brands := a # st_brands st,
       st_states := (a, \<lparr>as_intentObject = i, as_decision = d\<rparr>) # st_states st\<rparr>"
  using assms
  by (auto simp: evaluateLiveRiskAuthority_def bind_result_Inr Let_def evaluation_of_def)

definition store_ok :: "js_env \<Rightarrow> AuthorityStore \<Rightarrow> evaluation list \<Rightarrow> bool" where
  "store_ok env st trace \<longleftrightarrow>
     set (st_frozen st) \<subseteq> {..< st_nextObject st} \<and>
     st_brands st = map fst (st_states st) \<and>
     st_states st = map (\<lambda>(input, i, a, d). (a, \<lparr>as_intentObject = i, as_decision = d\<rparr>)) trace \<and>
     distinct (map (\<lambda>(input, i, a, d). a) trace) \<and> distinct (map fst (st_intents st)) \<and>
     fst ` set (st_intents st) \<subseteq> {..< st_nextObject st} \<and>
     (\<forall>(input, i, a, d) \<in> set trace. i \<in> set (st_frozen st) \<and> a \<in> set (st_frozen st) \<and>
        (\<exists>intent. map_of (st_intents st) i = Some intent \<and> evaluation_of env input d intent))"

lemma run_store_ok: "authority_run env st trace \<Longrightarrow> store_ok env st trace"
proof (induction rule: authority_run.induct)
  case start
  then show ?case by (simp add: store_ok_def empty_store_def)
next
  case (evaluated st trace t input i a d st')
  obtain intent where new: "evaluation_of env input d intent" "i = st_nextObject st" "a = Suc i"
    "st' = st\<lparr>st_nextObject := Suc a, st_frozen := a # i # st_frozen st,
       st_intents := (i, intent) # st_intents st, st_brands := a # st_brands st,
       st_states := (a, \<lparr>as_intentObject = i, as_decision = d\<rparr>) # st_states st\<rparr>"
    by (rule evaluated_authority [OF evaluated(2)])
  have old: "i' < st_nextObject st \<and> a' < st_nextObject st" if "(input', i', a', d') \<in> set trace" for input' i' a' d'
    using evaluated.IH that by (fastforce simp: store_ok_def)
  show ?case
    using evaluated.IH new old unfolding store_ok_def by (fastforce simp: less_Suc_eq)
next
  case (other_object st trace frozen)
  then show ?case unfolding store_ok_def by (fastforce simp: less_Suc_eq)
qed

lemma require_that_Inr: "require_that b m = Inr u \<longleftrightarrow> b"
  by (simp add: require_that_def)

lemma store_trace:
  assumes "store_ok env st trace" and "(input, i, a, d) \<in> set trace"
  shows "i \<in> set (st_frozen st)" "a \<in> set (st_frozen st)" "a \<in> set (st_brands st)"
    and "\<exists>intent. map_of (st_intents st) i = Some intent \<and> evaluation_of env input d intent"
proof -
  have all: "\<forall>(input, i, a, d) \<in> set trace. i \<in> set (st_frozen st) \<and> a \<in> set (st_frozen st) \<and>
      (\<exists>intent. map_of (st_intents st) i = Some intent \<and> evaluation_of env input d intent)"
    using assms(1) unfolding store_ok_def by (elim conjE)
  have brands: "st_brands st = map fst (st_states st)"
    using assms(1) unfolding store_ok_def by (elim conjE)
  have states: "st_states st = map (\<lambda>(input, i, a, d). (a, \<lparr>as_intentObject = i, as_decision = d\<rparr>)) trace"
    using assms(1) unfolding store_ok_def by (elim conjE)
  from bspec [OF all assms(2)]
  show "i \<in> set (st_frozen st)" "a \<in> set (st_frozen st)"
    "\<exists>intent. map_of (st_intents st) i = Some intent \<and> evaluation_of env input d intent"
    by simp_all
  show "a \<in> set (st_brands st)" unfolding brands states using assms(2) by force
qed

lemma owned_authority:
  assumes "store_ok env st trace"
  shows "requireOwnedAuthority st (Some n) = Inr s \<longleftrightarrow>
    (\<exists>input. (input, as_intentObject s, n, as_decision s) \<in> set trace)"
proof -
  have mapped: "st_states st = map (\<lambda>(input, i, a, d). (a, \<lparr>as_intentObject = i, as_decision = d\<rparr>)) trace"
    using assms unfolding store_ok_def by (elim conjE)
  have states: "map_of (st_states st) n = Some s \<longleftrightarrow>
      (\<exists>input. (input, as_intentObject s, n, as_decision s) \<in> set trace)"
  proof -
    have "map fst (st_states st) = map (\<lambda>(input, i, a, d). a) trace"
      by (auto simp: mapped)
    then have "distinct (map fst (st_states st))"
      using assms unfolding store_ok_def by (elim conjE) (simp only:)
    then have "map_of (st_states st) n = Some s \<longleftrightarrow> (n, s) \<in> set (st_states st)"
      by (rule map_of_eq_Some_iff)
    also have "\<dots> \<longleftrightarrow> (\<exists>input. (input, as_intentObject s, n, as_decision s) \<in> set trace)"
      unfolding mapped by (cases s) force
    finally show ?thesis .
  qed
  then show ?thesis
    using store_trace(2,3) [OF assms] by (auto simp: requireOwnedAuthority_def plain_error_def split: option.split)
qed

lemma verify_iff:
  assumes "store_ok env st trace"
  shows "verifyLiveRiskAuthority env st authority intent = Inr d \<longleftrightarrow>
    (\<exists>input m n. authority = Some n \<and> intent = Some m \<and> (input, m, n, d) \<in> set trace \<and> lrd_approved d)"
proof (cases authority)
  case None
  then show ?thesis by (simp add: verifyLiveRiskAuthority_def requireOwnedAuthority_def plain_error_def)
next
  case (Some n)
  have trace: "m \<in> set (st_frozen st)"
      "createLiveOrderIntentHash env (or_else (map_of (st_intents st) m) JUndefined) = lrd_evaluatedIntentHash d'"
    if "(input, m, n, d') \<in> set trace" for input m d'
    using store_trace(1,4) [OF assms that] by (auto simp: evaluation_of_def freezeAuthorityDecision_def)
  show ?thesis
  proof
    assume "verifyLiveRiskAuthority env st authority intent = Inr d"
    then obtain s where s: "requireOwnedAuthority st (Some n) = Inr s" "intent = Some (as_intentObject s)"
      "lrd_approved (as_decision s)" "d = as_decision s"
      unfolding Some verifyLiveRiskAuthority_def bind_result_Inr require_that_Inr
      by auto
    then show "\<exists>input m n. authority = Some n \<and> intent = Some m \<and> (input, m, n, d) \<in> set trace \<and> lrd_approved d"
      using Some unfolding owned_authority [OF assms] by blast
  next
    assume "\<exists>input m n. authority = Some n \<and> intent = Some m \<and> (input, m, n, d) \<in> set trace \<and> lrd_approved d"
    then obtain input m where m: "intent = Some m" "(input, m, n, d) \<in> set trace" "lrd_approved d"
      using Some by auto
    then have "requireOwnedAuthority st (Some n) = Inr \<lparr>as_intentObject = m, as_decision = d\<rparr>"
      unfolding owned_authority [OF assms] by auto
    then show "verifyLiveRiskAuthority env st authority intent = Inr d"
      by (simp only: Some m(1,3) verifyLiveRiskAuthority_def require_that_def bind_result_simps
          trace [OF m(2)] AuthorityState.select_convs if_True simp_thms)
  qed
qed

section \<open>What a strict copy keeps\<close>

lemma assert_all_Inr: "assert_all checks = Inr u \<longleftrightarrow> (\<forall>check \<in> set checks. check = Inr ())"
  by (induction checks) (auto simp: assert_all_def bind_result_Inr)

lemmas assertions = assert_all_Inr require_that_Inr assertNonEmptyString_def assertPositiveFiniteNumber_def
  assertNonNegativeFiniteNumber_def assertMarket_def assertOrderSide_def assertTimestamp_def bind_result_Inr

text \<open>The record that a materialisation returns has the properties of its argument.\<close>

definition plain_copy :: "jsval \<Rightarrow> jsval" where
  "plain_copy v = JObject ObjectPrototype (object_entries v)"

definition data_record :: "jsval \<Rightarrow> string list \<Rightarrow> string list \<Rightarrow> bool" where
  "data_record v allowed required \<longleftrightarrow>
     (\<exists>proto props. v = JObject proto props \<and> proto \<noteq> OtherPrototype \<and> set (map fst props) \<subseteq> set allowed \<and>
       set required \<subseteq> set (map fst props))"

lemma materialized: "materializeDataRecord v allowed required = Inr r \<longleftrightarrow>
    r = plain_copy v \<and> data_record v allowed required"
  by (cases v) (auto simp: materializeDataRecord_def plain_error_def has_own_def list_ex_iff plain_copy_def data_record_def)

lemma plain_copy_reads [simp]:
  "get_property (plain_copy v) key = get_property v key" "has_own (plain_copy v) key = has_own v key"
  "copy_fields (plain_copy v) keys = copy_fields v keys" "copy_own (plain_copy v) keys = copy_own v keys"
  "optional_field (plain_copy v) key copy = optional_field v key copy"
  "policy_field (plain_copy v) = policy_field v"
proof -
  show reads: "get_property (plain_copy v) key = get_property v key" "has_own (plain_copy v) key = has_own v key" for key
    by (cases v; simp add: plain_copy_def or_else_def has_own_def)+
  show "copy_fields (plain_copy v) keys = copy_fields v keys" for keys by (simp add: copy_fields_def reads)
  moreover have "has_own (plain_copy v) = has_own v" using reads(2) by blast
  ultimately show "copy_own (plain_copy v) keys = copy_own v keys" by (simp add: copy_own_def)
  show "optional_field (plain_copy v) key copy = optional_field v key copy" by (simp add: optional_field_def reads)
  show "policy_field (plain_copy v) = policy_field v" by (intro ext) (simp add: policy_field_def reads)
qed

lemma property_of_append:
  "get_property (JObject ObjectPrototype (xs @ ys)) key =
     (if key \<in> fst ` set xs then get_property (JObject ObjectPrototype xs) key else get_property (JObject ObjectPrototype ys) key)"
  by (cases "map_of xs key") (force simp: map_add_def or_else_def map_of_eq_None_iff split: option.splits
      dest: map_of_SomeD intro: rev_image_eqI)+

lemma property_of_absent: "key \<notin> fst ` set xs \<Longrightarrow> get_property (JObject ObjectPrototype xs) key = JUndefined"
  by (simp add: or_else_def map_of_eq_None_iff [THEN iffD2])

lemma property_of_copy:
  "get_property (JObject ObjectPrototype (copy_fields v keys)) key = (if key \<in> set keys then get_property v key else JUndefined)"
  by (induction keys) (auto simp: copy_fields_def or_else_def)

lemma copied_keys [simp]: "map fst (copy_fields v keys) = keys"
  by (simp add: copy_fields_def comp_def)

lemma property_not_own: "\<not> has_own v key \<Longrightarrow> get_property v key = JUndefined"
  by (cases v) (auto simp: has_own_def or_else_def map_of_eq_None_iff [THEN iffD2])

lemma property_of_own:
  "get_property (JObject ObjectPrototype (copy_own v keys)) key = (if key \<in> set keys then get_property v key else JUndefined)"
  by (auto simp: copy_own_def property_of_copy property_not_own simp del: get_property.simps)

lemma own_of_copy: "has_own (JObject ObjectPrototype (copy_fields v keys)) key \<longleftrightarrow> key \<in> set keys"
  by (simp add: has_own_def)

lemma optional_Inr: "optional_field v key copy = Inr fs \<longleftrightarrow>
    (if has_own v key then \<exists>w. copy (get_property v key) = Inr w \<and> fs = [(key, w)] else fs = [])"
  by (auto simp: optional_field_def bind_result_Inr)

section \<open>The canonical intent\<close>

text \<open>A copied intent holds its required fields in order and the optional ones that were given.\<close>

definition canonical_preview :: "jsval \<Rightarrow> bool" where
  "canonical_preview p \<longleftrightarrow> p = JUndefined \<or> p = JObject ObjectPrototype (copy_fields p PREVIEW_REQUIRED_KEYS)"

definition canonical_approvals :: "jsval \<Rightarrow> bool" where
  "canonical_approvals a \<longleftrightarrow> a = JUndefined \<or> a = JObject ObjectPrototype (copy_own a [''marketOrderApproved''])"

definition canonical_intent :: "jsval \<Rightarrow> bool" where
  "canonical_intent i \<longleftrightarrow>
     i = JObject ObjectPrototype (copy_fields i INTENT_REQUIRED_KEYS @ copy_own i [''preview'', ''approvals'']) \<and>
     canonical_preview (get_property i ''preview'') \<and> canonical_approvals (get_property i ''approvals'')"

lemma copy_of_copy: "set ks \<subseteq> set keys \<Longrightarrow> copy_fields (JObject ObjectPrototype (copy_fields v keys)) ks = copy_fields v ks"
  unfolding copy_fields_def [of "JObject ObjectPrototype _"] by (auto simp: property_of_copy copy_fields_def [of v ks]
      simp del: get_property.simps)

lemma cloned_preview:
  assumes "clonePreview env v = Inr w"
  shows "canonical_preview w \<and> (w = JUndefined \<or> isLiveOrderPreviewRef env w)"
proof (cases "v = JUndefined")
  case False
  then have w: "w = JObject ObjectPrototype (copy_fields v PREVIEW_REQUIRED_KEYS)"
    using assms by (auto simp: clonePreview_def bind_result_Inr materialized)
  have "isNonEmptyString (get_property v ''previewId'') \<and> isNonEmptyString (get_property v ''orderIntentId'') \<and>
      isPositiveFiniteNumber (get_property v ''estimatedGrossAmountKrw'') \<and>
      isParseableTimestamp env (get_property v ''expiresAt'')"
    using assms False
    by (auto simp: clonePreview_def materialized assertions guarded)
  then show ?thesis
    by (simp add: canonical_preview_def w copy_of_copy isLiveOrderPreviewRef_def property_of_copy PREVIEW_REQUIRED_KEYS_def del: get_property.simps)
qed (use assms in \<open>simp add: clonePreview_def canonical_preview_def\<close>)

lemma cloned_approvals:
  assumes "cloneApprovals v = Inr w"
  shows "canonical_approvals w \<and> (w = JUndefined \<or> isLiveOrderApprovals w)"
proof (cases "v = JUndefined")
  case False
  then have w: "w = JObject ObjectPrototype (copy_own v [''marketOrderApproved''])"
    and ok: "get_property v ''marketOrderApproved'' = JUndefined \<or> isBoolean (get_property v ''marketOrderApproved'')"
    using assms by (auto simp: cloneApprovals_def materialized assertions)
  then show ?thesis
    by (simp add: canonical_approvals_def isLiveOrderApprovals_def property_of_own w copy_own_def has_own_def copy_fields_def
       del: get_property.simps) (simp add: or_else_def)
qed (use assms in \<open>simp add: cloneApprovals_def canonical_approvals_def\<close>)

lemma frozen_intent:
  assumes "createFrozenLiveOrderIntent env v = Inr i"
  shows "canonical_intent i" "isLiveOrderIntentInput env i"
proof -
  obtain p a where i: "i = JObject ObjectPrototype (copy_fields v INTENT_REQUIRED_KEYS @ p @ a)"
    and p: "optional_field v ''preview'' (clonePreview env) = Inr p"
    and a: "optional_field v ''approvals'' cloneApprovals = Inr a"
    using assms by (auto simp: createFrozenLiveOrderIntent_def bind_result_Inr materialized)
  have parts: "p = [] \<or> (\<exists>w. clonePreview env (get_property v ''preview'') = Inr w \<and> p = [(''preview'', w)])"
    "a = [] \<or> (\<exists>w. cloneApprovals (get_property v ''approvals'') = Inr w \<and> a = [(''approvals'', w)])"
    using p a by (auto simp: optional_Inr split: if_splits)
  show "canonical_intent i"
    using parts
    by (elim disjE exE conjE) (auto simp: i canonical_intent_def copy_fields_def copy_own_def has_own_def
      or_else_def INTENT_REQUIRED_KEYS_def canonical_preview_def [of JUndefined]
      canonical_approvals_def [of JUndefined] dest!: cloned_preview cloned_approvals)
  have "isNonEmptyString (get_property v ''orderIntentId'')" "isNonEmptyString (get_property v ''signalId'')"
     "isNonEmptyString (get_property v ''idempotencyKey'')" "isLiveMarket (get_property v ''market'')"
     "isNonEmptyString (get_property v ''symbol'')" "isLiveOrderSide (get_property v ''side'')"
     "isLiveOrderType (get_property v ''orderType'')" "isPositiveFiniteNumber (get_property v ''quantity'')"
     "isPositiveFiniteNumber (get_property v ''estimatedGrossAmountKrw'')"
     "isParseableTimestamp env (get_property v ''createdAt'')"
     "isParseableTimestamp env (get_property v ''expiresAt'')"
    using assms by (auto simp: createFrozenLiveOrderIntent_def materialized assertions guarded)
  then show "isLiveOrderIntentInput env i"
    using parts
    by (elim disjE exE conjE) (auto simp: i isLiveOrderIntentInput_def copy_fields_def
      or_else_def INTENT_REQUIRED_KEYS_def dest!: cloned_preview cloned_approvals)
qed

section \<open>What the hash of an intent fixes\<close>

text \<open>The copies are read exactly: what the hash sees of a value that a guard accepts gives it back.\<close>

lemma read_scalars:
  "isNonEmptyString v \<Longrightarrow> isNonEmptyString w \<Longrightarrow> text_of (string_of v) = text_of (string_of w) \<Longrightarrow> v = w"
  "isParseableTimestamp env v \<Longrightarrow> isParseableTimestamp env w \<Longrightarrow> text_of (string_of v) = text_of (string_of w) \<Longrightarrow> v = w"
  "isPositiveFiniteNumber v \<Longrightarrow> isPositiveFiniteNumber w \<Longrightarrow> number_of v = number_of w \<Longrightarrow> v = w"
  "isLiveMarket v \<Longrightarrow> isLiveMarket w \<Longrightarrow> market_of v = market_of w \<Longrightarrow> v = w"
  "isLiveOrderSide v \<Longrightarrow> isLiveOrderSide w \<Longrightarrow> side_of v = side_of w \<Longrightarrow> v = w"
  by (auto simp: guarded isLiveMarket_def isLiveOrderSide_def market_of_def side_of_def dest: text_of_inj split: if_splits)

lemma read_order_type:
  "isLiveOrderType v \<Longrightarrow> isLiveOrderType w \<Longrightarrow> v = JString ''MARKET'' \<longleftrightarrow> w = JString ''MARKET'' \<Longrightarrow> v = w"
  by (auto simp: isLiveOrderType_def)

lemma frozen_positive: "isLiveOrderIntentInput env i \<Longrightarrow> positive_amounts (frozen_intent_of i)"
  by (auto simp: positive_amounts_def frozen_intent_of_def optional_property_of_def frozen_preview_of_def
      isLiveOrderIntentInput_def isLiveOrderPreviewRef_def guarded)

lemma frozen_texts: "list_all isWellFormed (intent_texts (frozen_intent_of i))"
  by (simp add: intent_texts_def frozen_intent_of_def optional_property_of_def frozen_preview_of_def text_at_key_def
      well_formed_text_of split: option.split)

lemma same_optional:
  assumes "optional_property_of v key read = optional_property_of w key read"
    and "\<And>a b. a = get_property v key \<Longrightarrow> b = get_property w key \<Longrightarrow> read a = read b \<Longrightarrow> a = b"
  shows "has_own v key = has_own w key \<and> get_property v key = get_property w key"
  using assms property_not_own by (auto simp: optional_property_of_def split: if_splits)

text \<open>A valid copy is fixed by the intent that the hash reads.\<close>

lemma frozen_preview_exact:
  assumes "frozen_preview_of p = frozen_preview_of q"
    and "canonical_preview p" "p = JUndefined \<or> isLiveOrderPreviewRef env p"
    and "canonical_preview q" "q = JUndefined \<or> isLiveOrderPreviewRef env q"
  shows "p = q"
proof (cases "p = JUndefined \<or> q = JUndefined")
  case False
  then have "get_property p key = get_property q key" if "key \<in> set PREVIEW_REQUIRED_KEYS" for key
    using that assms(1,3,5)
    by (auto simp: PREVIEW_REQUIRED_KEYS_def frozen_preview_of_def text_at_key_def isLiveOrderPreviewRef_def
        intro: read_scalars)
  then have "copy_fields p PREVIEW_REQUIRED_KEYS = copy_fields q PREVIEW_REQUIRED_KEYS"
    by (simp add: copy_fields_def)
  with False assms(2,4) show ?thesis unfolding canonical_preview_def by metis
qed (use assms(1) in \<open>auto simp: frozen_preview_of_def split: if_splits\<close>)

lemma frozen_approvals_exact:
  assumes "frozen_approvals_of a = frozen_approvals_of b"
    and "canonical_approvals a" "a = JUndefined \<or> isLiveOrderApprovals a"
    and "canonical_approvals b" "b = JUndefined \<or> isLiveOrderApprovals b"
  shows "a = b"
proof (cases "a = JUndefined \<or> b = JUndefined")
  case False
  then have eq: "optional_property_of a ''marketOrderApproved'' boolean_option =
      optional_property_of b ''marketOrderApproved'' boolean_option"
    using assms(1) by (simp add: frozen_approvals_of_def)
  have "u = v" if "boolean_option u = boolean_option v" "u = JUndefined \<or> isBoolean u" "v = JUndefined \<or> isBoolean v" for u v
    using that by (auto simp: guarded)
  with same_optional [OF eq] have "copy_own a [''marketOrderApproved''] = copy_own b [''marketOrderApproved'']"
    using False assms(3,5) by (simp add: isLiveOrderApprovals_def copy_own_def copy_fields_def)
  with False assms(2,4) show ?thesis unfolding canonical_approvals_def by metis
qed (use assms(1) in \<open>auto simp: frozen_approvals_of_def split: if_splits\<close>)

lemma frozen_intent_exact:
  assumes same: "frozen_intent_of i = frozen_intent_of j"
    and i: "canonical_intent i" "isLiveOrderIntentInput env i"
    and j: "canonical_intent j" "isLiveOrderIntentInput env j"
  shows "i = j"
proof -
  let ?same = "\<lambda>key. get_property i key = get_property j key"
  have reads: "text_at_key i key = text_at_key j key"
    if "key \<in> {''orderIntentId'', ''signalId'', ''idempotencyKey'', ''symbol'', ''createdAt'', ''expiresAt''}" for key
    using that same by (auto simp: frozen_intent_of_def)
  have "?same ''orderIntentId''" "?same ''signalId''" "?same ''idempotencyKey''" "?same ''symbol''"
    using i(2) j(2) reads by (intro read_scalars(1); simp add: isLiveOrderIntentInput_def text_at_key_def)+
  moreover have "?same ''createdAt''" "?same ''expiresAt''"
    using i(2) j(2) reads by (intro read_scalars(2) [of env]; simp add: isLiveOrderIntentInput_def text_at_key_def)+
  moreover have "?same ''quantity''" "?same ''estimatedGrossAmountKrw''"
    using i(2) j(2) same by (intro read_scalars(3); simp add: isLiveOrderIntentInput_def frozen_intent_of_def)+
  moreover have "?same ''market''"
    using i(2) j(2) same by (intro read_scalars(4)) (simp_all add: isLiveOrderIntentInput_def frozen_intent_of_def)
  moreover have "?same ''side''"
    using i(2) j(2) same by (intro read_scalars(5)) (simp_all add: isLiveOrderIntentInput_def frozen_intent_of_def)
  moreover have "?same ''orderType''"
    using i(2) j(2) same
    by (intro read_order_type) (simp_all add: isLiveOrderIntentInput_def frozen_intent_of_def split: if_splits)
  ultimately have required: "?same key" if "key \<in> set INTENT_REQUIRED_KEYS" for key
    using that by (auto simp: INTENT_REQUIRED_KEYS_def)
  have preview: "has_own i ''preview'' = has_own j ''preview'' \<and> get_property i ''preview'' = get_property j ''preview''"
    by (rule same_optional [where read = frozen_preview_of])
      (use same i j in \<open>auto simp: frozen_intent_of_def isLiveOrderIntentInput_def canonical_intent_def
        intro: frozen_preview_exact\<close>)
  have approvals: "has_own i ''approvals'' = has_own j ''approvals'' \<and> get_property i ''approvals'' = get_property j ''approvals''"
    by (rule same_optional [where read = frozen_approvals_of])
      (use same i j in \<open>auto simp: frozen_intent_of_def isLiveOrderIntentInput_def canonical_intent_def
        intro: frozen_approvals_exact\<close>)
  have "copy_fields i INTENT_REQUIRED_KEYS @ copy_own i [''preview'', ''approvals''] =
      copy_fields j INTENT_REQUIRED_KEYS @ copy_own j [''preview'', ''approvals'']"
    using required preview approvals by (simp add: copy_own_def copy_fields_def)
  then show ?thesis using i(1) j(1) unfolding canonical_intent_def by metis
qed

text \<open>Copies with the same hash are the same, or the digest collides.\<close>

lemma copied_intents_hash:
  assumes "createFrozenLiveOrderIntent env v = Inr i" "createFrozenLiveOrderIntent env w = Inr j"
    and "exact_number_text env" "createLiveOrderIntentHash env i = createLiveOrderIntentHash env j"
  shows "i = j \<or> sha256_collision env"
proof -
  note copies = frozen_intent [OF assms(1)] frozen_intent [OF assms(2)]
  have "map_intent_texts toWellFormed (frozen_intent_of i) = map_intent_texts toWellFormed (frozen_intent_of j) \<or>
      sha256_collision env"
    using assms(4) copies unfolding createLiveOrderIntentHash_def
    by (intro hash_fixes_fields [OF assms(3) frozen_positive frozen_positive])
  then show ?thesis
    using copies frozen_intent_exact by (auto simp: well_formed_intent [OF frozen_texts])
qed

section \<open>The strict copies pass the guards of the engine\<close>

lemma property_lists:
  "get_property (JObject ObjectPrototype []) key = JUndefined"
  "get_property (JObject ObjectPrototype ((k, v) # fs)) key = (if k = key then v else get_property (JObject ObjectPrototype fs) key)"
  by (simp_all add: or_else_def)

lemma copied_list:
  assumes "map_result copy xs = Inr ys" "\<And>x y. copy x = Inr y \<Longrightarrow> good y"
  shows "list_all good ys"
  using assms by (induction xs arbitrary: ys) (auto simp: bind_result_Inr)

lemma property_of_clone:
  "key \<in> set keys \<or> key \<in> set optional \<Longrightarrow>
     get_property (JObject ObjectPrototype (copy_fields v keys @ copy_own v optional)) key = get_property v key"
  unfolding property_of_append property_of_copy property_of_own by (auto simp: copy_fields_def image_image)

lemma cloned_position:
  assumes "cloneRiskPosition v = Inr w"
  shows "isLiveRiskPosition w"
proof -
  let ?keys = "[''market'', ''symbol'', ''quantity'', ''averagePriceKrw'']"
  have w: "w = JObject ObjectPrototype (copy_fields v ?keys @ copy_own v [''marketValueKrw''])"
    and ok: "isLiveMarket (get_property v ''market'')" "isNonEmptyString (get_property v ''symbol'')"
      "isNonNegativeFiniteNumber (get_property v ''quantity'')"
      "isNonNegativeFiniteNumber (get_property v ''averagePriceKrw'')"
      "get_property v ''marketValueKrw'' = JUndefined \<or> isNonNegativeFiniteNumber (get_property v ''marketValueKrw'')"
    using assms by (simp_all add: cloneRiskPosition_def Let_def materialized assertions split: if_splits)
  have "get_property w key = get_property v key" if "key \<in> set ?keys \<or> key \<in> {''marketValueKrw''}" for key
    unfolding w using that by (intro property_of_clone) auto
  then show ?thesis using ok by (simp add: isLiveRiskPosition_def) (simp add: w)
qed

lemma cloned_order:
  assumes "cloneOpenOrder v = Inr w"
  shows "isLiveOpenOrder w"
proof -
  let ?keys = "[''orderIntentId'', ''idempotencyKey'', ''market'', ''symbol'', ''side'']"
  let ?optional = "[''signalId'', ''estimatedGrossAmountKrw'', ''quantity'']"
  have w: "w = JObject ObjectPrototype (copy_fields v ?keys @ copy_own v ?optional)"
    and ok: "isNonEmptyString (get_property v ''orderIntentId'')" "isNonEmptyString (get_property v ''idempotencyKey'')"
      "isLiveMarket (get_property v ''market'')" "isNonEmptyString (get_property v ''symbol'')"
      "isLiveOrderSide (get_property v ''side'')"
      "get_property v ''signalId'' = JUndefined \<or> isNonEmptyString (get_property v ''signalId'')"
      "get_property v ''estimatedGrossAmountKrw'' = JUndefined \<or>
       isPositiveFiniteNumber (get_property v ''estimatedGrossAmountKrw'')"
      "get_property v ''quantity'' = JUndefined \<or> isPositiveFiniteNumber (get_property v ''quantity'')"
      "get_property v ''side'' = JString ''BUY'' \<Longrightarrow> get_property v ''estimatedGrossAmountKrw'' \<noteq> JUndefined"
      "get_property v ''side'' = JString ''SELL'' \<Longrightarrow> get_property v ''quantity'' \<noteq> JUndefined"
    using assms by (simp_all add: cloneOpenOrder_def Let_def materialized assertions split: if_splits)
  have "get_property w key = get_property v key" if "key \<in> set ?keys \<or> key \<in> set ?optional" for key
    unfolding w using that by (intro property_of_clone) auto
  then show ?thesis using ok by (simp add: isLiveOpenOrder_def) (auto simp: w)
qed

lemma cloned_cooldown:
  assumes "cloneCooldownEntry env v = Inr w"
  shows "isLiveRiskCooldownEntry env w"
proof -
  let ?keys = "[''symbol'', ''activeUntil'']" and ?optional = "[''market'', ''side'', ''reason'']"
  have w: "w = JObject ObjectPrototype (copy_fields v ?keys @ copy_own v ?optional)"
    and ok: "isNonEmptyString (get_property v ''symbol'')"
      "isNonEmptyString (get_property v ''activeUntil'')"
      "is_finite (date_parse env (string_of (get_property v ''activeUntil'')))"
      "get_property v ''market'' = JUndefined \<or> isLiveMarket (get_property v ''market'')"
      "get_property v ''side'' = JUndefined \<or> isLiveOrderSide (get_property v ''side'')"
      "get_property v ''reason'' = JUndefined \<or> isString (get_property v ''reason'')"
    using assms by (simp_all add: cloneCooldownEntry_def Let_def materialized assertions split: if_splits)
  have "get_property w key = get_property v key" if "key \<in> set ?keys \<or> key \<in> set ?optional" for key
    unfolding w using that by (intro property_of_clone) auto
  moreover have "isParseableTimestamp env (get_property v ''activeUntil'')" "isRecord w"
    using ok(2,3) by (auto simp: guarded w)
  ultimately show ?thesis using ok by (simp add: isLiveRiskCooldownEntry_def)
qed

lemma cloned_sessions:
  assumes "cloneMarketSessions v = Inr w"
  shows "isLiveMarketSessions w"
  using assms by (auto simp: cloneMarketSessions_def materialized bind_result_Inr isLiveMarketSessions_def
      clone_session_step_def isLiveMarket_def split: if_splits)

lemma frozen_snapshot:
  assumes "createFrozenLiveRiskSnapshot env v = Inr w"
  shows "isLiveRiskSnapshotInput env w"
proof -
  let ?keys = "[''riskSnapshotRef'', ''capturedAt'', ''dailyLossKrw'']"
  obtain xs ys ps os ss where w: "w = JObject ObjectPrototype (copy_fields v ?keys @
      [(''positions'', JArray ps), (''openOrders'', JArray os), (''marketSessions'', ss)])"
    and ok: "isNonEmptyString (get_property v ''riskSnapshotRef'')"
      "isNonEmptyString (get_property v ''capturedAt'')"
      "is_finite (date_parse env (string_of (get_property v ''capturedAt'')))"
      "isNonNegativeFiniteNumber (get_property v ''dailyLossKrw'')"
    and parts: "map_result cloneRiskPosition xs = Inr ps" "map_result cloneOpenOrder ys = Inr os"
      "cloneMarketSessions (get_property v ''marketSessions'') = Inr ss"
    using assms unfolding createFrozenLiveRiskSnapshot_def Let_def bind_result_Inr materialized
    by (elim exE conjE) (rule that; simp add: assertions)
  have "list_all isLiveRiskPosition ps" "list_all isLiveOpenOrder os" "isLiveMarketSessions ss"
    using copied_list [OF parts(1) cloned_position] copied_list [OF parts(2) cloned_order] cloned_sessions [OF parts(3)]
    by simp_all
  moreover have "isParseableTimestamp env (get_property v ''capturedAt'')"
    using ok(2,3) by (auto simp: guarded)
  ultimately show ?thesis
    using ok by (simp add: w isLiveRiskSnapshotInput_def copy_fields_def or_else_def)
qed

lemma policy_part_keys:
  "map_result (\<lambda>(key, copy). policy_field record key copy) fs = Inr parts \<Longrightarrow>
     fst ` set (concat parts) \<subseteq> fst ` set fs"
proof (induction fs arbitrary: parts)
  case (Cons f fs)
  obtain key copy where f: "f = (key, copy)" by fastforce
  obtain part rest where parts: "parts = part # rest" "policy_field record key copy = Inr part"
    "map_result (\<lambda>(key, copy). policy_field record key copy) fs = Inr rest"
    using Cons.prems by (auto simp: f bind_result_Inr)
  then have "fst ` set part \<subseteq> {fst f}" by (auto simp: f policy_field_def bind_result_Inr split: if_splits)
  with Cons.IH [OF parts(3)] show ?case by (auto simp: parts(1))
qed simp

lemma policy_parts:
  assumes "map_result (\<lambda>(key, copy). policy_field record key copy) fs = Inr parts"
    and "distinct (map fst fs)" "(key, copy) \<in> set fs"
    and "\<And>x y. copy x = Inr y \<Longrightarrow> guard y"
  shows "\<not> has_invalid_field guard (JObject ObjectPrototype (concat parts)) key"
  using assms(1-3)
proof (induction fs arbitrary: parts)
  case (Cons f fs)
  obtain k c where f: "f = (k, c)" by fastforce
  obtain part rest where parts: "parts = part # rest" "policy_field record k c = Inr part"
    "map_result (\<lambda>(key, copy). policy_field record key copy) fs = Inr rest"
    using Cons.prems(1) by (auto simp: f bind_result_Inr)
  have part: "part = [] \<or> (\<exists>w. part = [(k, w)] \<and> c (get_property record k) = Inr w)"
    using parts(2) by (auto simp: policy_field_def bind_result_Inr split: if_splits)
  show ?case
  proof (cases "key = k")
    case True
    then have "key \<notin> fst ` set (concat rest)" "copy = c"
      using policy_part_keys [OF parts(3)] Cons.prems(2,3) f by (auto simp: rev_image_eqI)
    moreover from this(1) have "get_property (JObject ObjectPrototype (concat rest)) key = JUndefined"
      by (rule property_of_absent)
    ultimately show ?thesis
      using part assms(4) True unfolding parts(1) concat.simps has_invalid_field_def property_of_append
      by (auto simp: or_else_def)
  next
    case False
    then have "key \<notin> fst ` set part" "(key, copy) \<in> set fs" using part Cons.prems(3) f by auto
    then show ?thesis
      using Cons.IH [OF parts(3)] Cons.prems(2)
      unfolding parts(1) concat.simps has_invalid_field_def property_of_append by simp
  qed
qed simp

lemma checked_Inr: "checked guard message x = Inr y \<longleftrightarrow> guard x \<and> y = x"
  by (auto simp: checked_def bind_result_Inr require_that_Inr)

lemma checked_array_Inr:
  assumes "checked_array name copy x = Inr y" "\<And>x y. copy x = Inr y \<Longrightarrow> guard y"
  shows "array_of guard y"
  using assms(1) copied_list [of copy _ _ guard, OF _ assms(2)]
  by (auto simp: checked_array_def bind_result_Inr array_of_def list_ex_iff list_all_iff)

lemma native_date: "bind_result (readNativeDateTime v) (\<lambda>t. Inr (JDate t)) = Inr w \<Longrightarrow> isValidDate w"
  by (auto simp: bind_result_Inr readNativeDateTime_def split: jsval.splits if_splits)

lemma policy_fields: "distinct (map fst (policy_copies env))"
  by (simp add: policy_copies_def policy_boolean_keys_def policy_number_keys_def)

lemma frozen_policy:
  assumes "createFrozenLiveRiskPolicyInput env v = Inr w"
  shows "\<not> hasInvalidLiveRiskPolicyInput env w"
proof (cases "v = JUndefined")
  case False
  then obtain parts where w: "w = JObject ObjectPrototype (concat parts)"
    and parts: "map_result (\<lambda>(key, copy). policy_field v key copy) (policy_copies env) = Inr parts"
    using assms by (auto simp: createFrozenLiveRiskPolicyInput_def bind_result_Inr materialized)
  note valid = policy_parts [OF parts policy_fields, folded w]
  note fields = policy_copies_def set_append set_map
  have flags: "\<not> has_invalid_field isBoolean w key" if "key \<in> set policy_boolean_keys" for key
    by (rule valid [of _ "checked isBoolean (''live risk policy '' @ key @ '' must be boolean or undefined'')"])
      (use that in \<open>simp_all add: fields checked_Inr\<close>)
  have amounts: "\<not> has_invalid_field isNonNegativeFiniteNumber w key" if "key \<in> set policy_number_keys" for key
    by (rule valid [of _ "checked isNonNegativeFiniteNumber
         (''live risk authority policy.'' @ key @ '' must be non-negative and finite'')"])
      (use that in \<open>simp_all add: fields checked_Inr\<close>)
  have count: "\<not> has_invalid_field isNonNegativeInteger w ''maxOpenOrders''"
    by (rule valid [of _ "checked isNonNegativeInteger
        ''live risk policy maxOpenOrders must be a non-negative integer''"]) (simp add: fields, simp add: checked_Inr)
  have orders: "\<not> has_invalid_field isLiveMarketOrderPolicy w ''marketOrderPolicy''"
    by (rule valid [of _ "checked isLiveMarketOrderPolicy
        ''live risk policy marketOrderPolicy is invalid''"]) (simp add: fields, simp add: checked_Inr)
  have now: "\<not> has_invalid_field isValidDate w ''now''"
    by (rule valid [of _ "\<lambda>v. bind_result (readNativeDateTime v) (\<lambda>t. Inr (JDate t))"])
      (simp add: fields, erule native_date)
  have symbols: "\<not> has_invalid_field (array_of isNonEmptyString) w ''allowedSymbols''"
    by (rule valid [of _ "checked_array ''policy.allowedSymbols'' (checked isNonEmptyString
        ''live order intent policy.allowedSymbols entry must be a non-empty string'')"])
      (simp add: fields, erule checked_array_Inr, simp add: checked_Inr)
  have markets: "\<not> has_invalid_field (array_of isLiveMarket) w ''allowedMarkets''"
    by (rule valid [of _ "checked_array ''policy.allowedMarkets'' (checked isLiveMarket
        ''live risk authority policy.allowedMarkets entry must be KR or US'')"])
      (simp add: fields, erule checked_array_Inr, simp add: checked_Inr)
  have cooldowns: "\<not> has_invalid_field (array_of (isLiveRiskCooldownEntry env)) w ''cooldownEntries''"
    by (rule valid [of _ "checked_array ''policy.cooldownEntries'' (cloneCooldownEntry env)"])
      (simp add: fields, erule checked_array_Inr, erule cloned_cooldown)
  show ?thesis
    using flags amounts count orders now symbols markets cooldowns by (auto simp: hasInvalidLiveRiskPolicyInput_def list_ex_iff w)
qed (use assms in \<open>simp add: createFrozenLiveRiskPolicyInput_def hasInvalidLiveRiskPolicyInput_def\<close>)

lemma strict_input:
  assumes "authority_engine_input env input = Inr e"
  shows "isLiveOrderIntentInput env (get_property e ''intent'')" "canonical_intent (get_property e ''intent'')"
    and "isLiveRiskSnapshotInput env (get_property e ''snapshot'')"
    and "\<not> hasInvalidLiveRiskPolicyInput env (get_property e ''policy'')"
proof -
  obtain i s p where e: "e = JObject ObjectPrototype ([(''intent'', i), (''snapshot'', s)] @ p)"
    and "createFrozenLiveOrderIntent env (get_property input ''intent'') = Inr i"
    and "createFrozenLiveRiskSnapshot env (get_property input ''snapshot'') = Inr s"
    and p: "optional_field input ''policy'' (createFrozenLiveRiskPolicyInput env) = Inr p"
    using assms by (auto simp: authority_engine_input_def bind_result_Inr materialized)
  then show "isLiveOrderIntentInput env (get_property e ''intent'')" "canonical_intent (get_property e ''intent'')"
    "isLiveRiskSnapshotInput env (get_property e ''snapshot'')"
    using frozen_intent frozen_snapshot by (simp_all add: or_else_def)
  have "get_property e ''policy'' = get_property (JObject ObjectPrototype p) ''policy''"
    by (simp add: e or_else_def)
  then show "\<not> hasInvalidLiveRiskPolicyInput env (get_property e ''policy'')"
    using p frozen_policy
    by (auto simp: optional_Inr or_else_def hasInvalidLiveRiskPolicyInput_def [of _ JUndefined] split: if_splits)
qed

end
