(* ===== verification/LiveAuthorityClaims.thy ===== *)
theory LiveAuthorityClaims
  imports LiveAuthorityFacts LiveClaims
begin

text \<open>
  The properties of the live risk authority: who can pass its verification, what the hash of an
  intent fixes, and how its strict copies compose with the engine.
\<close>

section \<open>The strict copies and the engine\<close>

text \<open>The codes of a shape are left by the three guards of the input only, never by a rule.\<close>

definition shape_codes :: "LiveRiskRejectCode set" where
  "shape_codes = {INVALID_ORDER_INTENT, INVALID_RISK_SNAPSHOT, INVALID_RISK_POLICY}"

named_theorems shapeless \<open>rules that leave no code of a shape\<close>

lemma shapeless_rules [shapeless]:
  assumes "c \<in> shape_codes"
  shows "c \<in> set (evaluateKillSwitch p codes) \<longleftrightarrow> c \<in> set codes"
    "c \<in> set (evaluateStaleSignal env i p codes) \<longleftrightarrow> c \<in> set codes"
    "c \<in> set (evaluateOrderAmount i p codes) \<longleftrightarrow> c \<in> set codes"
    "c \<in> set (evaluateRiskSnapshotFreshness env s p codes) \<longleftrightarrow> c \<in> set codes"
    "c \<in> set (evaluateDailyLoss s p codes) \<longleftrightarrow> c \<in> set codes"
    "c \<in> set (evaluateAllowlists m symbol p codes) \<longleftrightarrow> c \<in> set codes"
    "c \<in> set (evaluateMarketHours m s p codes) \<longleftrightarrow> c \<in> set codes"
    "c \<in> set (evaluateCooldown env i symbol p codes) \<longleftrightarrow> c \<in> set codes"
    "c \<in> set (evaluateOpenOrderCount s p codes) \<longleftrightarrow> c \<in> set codes"
    "c \<in> set (evaluateMarketOrderPolicy i p codes) \<longleftrightarrow> c \<in> set codes"
    "c \<in> set (evaluateSellPosition i symbol s codes) \<longleftrightarrow> c \<in> set codes"
    "c \<in> set (evaluateExposure i symbol s p codes) \<longleftrightarrow> c \<in> set codes"
  using assms
  by (auto simp: shape_codes_def evaluateKillSwitch_def evaluateStaleSignal_def evaluateOrderAmount_def
      evaluateRiskSnapshotFreshness_def evaluateDailyLoss_def evaluateAllowlists_def evaluateMarketHours_def
      evaluateCooldown_def evaluateOpenOrderCount_def evaluateMarketOrderPolicy_def evaluateSellPosition_def
      evaluateExposure_def appendLiveRiskRejectCode_def Let_def split: option.splits if_splits)

lemma shapeless_duplicates [shapeless]:
  assumes "c \<in> shape_codes"
  shows "c \<in> set (evaluateDuplicateOrder i symbol s codes) \<longleftrightarrow> c \<in> set codes"
proof -
  have "c \<in> set (foldl (duplicate_order_step i symbol) codes xs) \<longleftrightarrow> c \<in> set codes" for xs
    using assms by (induction xs arbitrary: codes) (auto simp: duplicate_order_step_def shape_codes_def)
  then show ?thesis by (simp add: evaluateDuplicateOrder_def)
qed

lemma shapeless_preview [shapeless]:
  assumes "c \<in> shape_codes"
  shows "c \<in> set (evaluatePreviewRequirement env (createSafeOrderIntent env v) p codes) \<longleftrightarrow> c \<in> set codes"
  using assms copied_preview [of env v]
  by (auto simp: shape_codes_def evaluatePreviewRequirement_def appendLiveRiskRejectCode_def
      split: option.splits if_splits)

text \<open>
  C8. An input that the authority has copied is well formed for the engine: the reject codes of an
  intent, a snapshot or a policy of the wrong shape are never among the codes of its decision, so
  every rejection the authority records is one of a risk rule.
\<close>

theorem strict_copies_well_formed:
  assumes "authority_engine_input env input = Inr engineInput"
  shows "INVALID_ORDER_INTENT \<notin> set (live_reject_codes env engineInput) \<and>
    INVALID_RISK_SNAPSHOT \<notin> set (live_reject_codes env engineInput) \<and>
    INVALID_RISK_POLICY \<notin> set (live_reject_codes env engineInput)"
proof -
  have "evaluateOrderIntentShape env (createSafeOrderIntent env (get_property engineInput ''intent''))
      (evaluateRiskPolicyShape env (get_property engineInput ''policy'')
        (initial_reject_codes env (get_property engineInput ''intent'') (get_property engineInput ''snapshot''))) = []"
    using strict_input [OF assms] by (simp add: shapes_pass)
  then have "c \<notin> set (live_reject_codes env engineInput)" if "c \<in> shape_codes" for c
    using that by (simp add: live_reject_codes_def read_record Let_def shapeless copied_snapshot(3))
  then show ?thesis by (simp add: shape_codes_def)
qed

lemma sample_policy_copy:
  "createFrozenLiveRiskPolicyInput env sample_live_policy = Inr sample_live_policy"
  by (simp add: createFrozenLiveRiskPolicyInput_def materializeDataRecord_def sample_live_policy_def
      POLICY_OPTIONAL_KEYS_def policy_copies_def policy_boolean_keys_def policy_number_keys_def policy_field_def
      checked_def checked_array_def require_that_def materializeDataArray_def readNativeDateTime_def
      isLiveMarket_def live_eval)

lemma sample_copies:
  "createFrozenLiveOrderIntent env sample_live_intent = Inr sample_live_intent"
  "createFrozenLiveRiskSnapshot env sample_live_snapshot = Inr sample_live_snapshot"
  by (simp_all add: createFrozenLiveOrderIntent_def createFrozenLiveRiskSnapshot_def materializeDataRecord_def
      sample_live_intent_def sample_live_snapshot_def INTENT_REQUIRED_KEYS_def has_own_def assert_all_def
      assertNonEmptyString_def assertPositiveFiniteNumber_def assertTimestamp_def require_that_def
      assertNonNegativeFiniteNumber_def materializeDataArray_def cloneMarketSessions_def clone_session_step_def
      isLiveMarketSessionStatus_def isLiveMarket_def isLiveOrderSide_def isLiveOrderType_def
      optional_field_def copy_fields_def live_eval sample_dates)

lemma sample_engine_input:
  "authority_engine_input env (sample_live_input sample_live_policy) =
     Inr (sample_live_input sample_live_policy)"
  by (simp add: authority_engine_input_def materializeDataRecord_def sample_live_input_def has_own_def
      optional_field_def sample_copies sample_policy_copy)

theorem strict_copies_well_formed_witness:
  "INVALID_RISK_POLICY \<notin> set (live_reject_codes sample_env (sample_live_input sample_live_policy))"
  using strict_copies_well_formed [OF sample_engine_input] by simp

section \<open>Verified authorities\<close>

lemma approved_no_codes: "live_evaluate env input = Inr d \<Longrightarrow> lrd_approved d \<Longrightarrow> live_reject_codes env input = []"
  by (auto simp: live_evaluate_def bind_result_Inr Let_def)

text \<open>
  C5. Only approved decisions are verified.  Over any run of the program, verifying an authority
  with an intent returns a decision exactly when some evaluation minted that very authority for
  that very intent object and approved it; the decision is the one of that evaluation, the engine
  found no reject code for the copied input at the time, and its hash is that of the intent.
\<close>

theorem verified_authority_was_approved:
  assumes "authority_run env st trace"
  shows "(verifyLiveRiskAuthority env st authority intent = Inr d \<longleftrightarrow>
      (\<exists>input m n. authority = Some n \<and> intent = Some m \<and> (input, m, n, d) \<in> set trace \<and> lrd_approved d)) \<and>
    (verifyLiveRiskAuthority env st authority intent = Inr d \<longrightarrow>
      (\<exists>input m t engineInput. intent = Some m \<and>
         authority_engine_input (env\<lparr>clock := t\<rparr>) input = Inr engineInput \<and>
         live_reject_codes (env\<lparr>clock := t\<rparr>) engineInput = [] \<and>
         map_of (st_intents st) m = Some (get_property engineInput ''intent'') \<and>
         lrd_evaluatedIntentHash d = createLiveOrderIntentHash env (get_property engineInput ''intent'')))"
proof -
  note ok = run_store_ok [OF assms]
  have "\<exists>t engineInput. authority_engine_input (env\<lparr>clock := t\<rparr>) input = Inr engineInput \<and>
         live_reject_codes (env\<lparr>clock := t\<rparr>) engineInput = [] \<and>
         map_of (st_intents st) m = Some (get_property engineInput ''intent'') \<and>
         lrd_evaluatedIntentHash d = createLiveOrderIntentHash env (get_property engineInput ''intent'')"
    if "(input, m, n, d) \<in> set trace" "lrd_approved d" for input m n
    using store_trace(4) [OF ok that(1)] that(2) approved_no_codes
    by (fastforce simp: evaluation_of_def freezeAuthorityDecision_def)
  then show ?thesis unfolding verify_iff [OF ok] by blast
qed

lemma sample_evaluated:
  assumes "is_finite (clock env)"
  obtains i a d st' where "evaluateLiveRiskAuthority env (sample_live_input sample_live_policy) st = Inr ((i, a, d), st')"
    "lrd_approved d"
proof -
  obtain d0 where "live_evaluate env (sample_live_input sample_live_policy) = Inr d0" "lrd_approved d0"
    using sample_live_approved [OF assms] by blast
  then show thesis
    using that by (auto simp: evaluateLiveRiskAuthority_def sample_engine_input freezeAuthorityDecision_def Let_def)
qed

lemma sample_run:
  obtains i a d st where "authority_run sample_env st [(sample_live_input sample_live_policy, i, a, d)]"
    "lrd_approved d"
proof -
  obtain i a d st where eval: "evaluateLiveRiskAuthority sample_env (sample_live_input sample_live_policy) empty_store =
      Inr ((i, a, d), st)" "lrd_approved d"
    by (rule sample_evaluated [OF sample_live_rules(1)])
  have "authority_run sample_env st [(sample_live_input sample_live_policy, i, a, d)]"
    by (rule authority_run.evaluated [OF authority_run.start, where t = "clock sample_env"])
      (simp add: eval(1))
  then show thesis using eval(2) by (rule that)
qed

theorem verified_authority_was_approved_witness:
  "\<exists>st m n d. authority_run sample_env st [(sample_live_input sample_live_policy, m, n, d)] \<and>
     verifyLiveRiskAuthority sample_env st (Some n) (Some m) = Inr d"
proof (rule sample_run)
  fix m n d st
  assume run: "authority_run sample_env st [(sample_live_input sample_live_policy, m, n, d)]" "lrd_approved d"
  then show ?thesis
    using verified_authority_was_approved [OF run(1), of "Some n" "Some m" d] by auto
qed

section \<open>The hash of an intent\<close>






end
