(* ===== verification/JsEffects.thy ===== *)
theory JsEffects
  imports Prelude
begin

text \<open>
  Operations that read and change a state and may throw.  What an operation changed before it threw
  stays changed, so the state is returned beside the error.
\<close>

type_synonym ('s, 'a) op = "'s \<Rightarrow> 'a result \<times> 's"

definition return_op :: "'a \<Rightarrow> ('s, 'a) op" where
  "return_op x s = (Inr x, s)"

definition lift_op :: "'a result \<Rightarrow> ('s, 'a) op" where
  "lift_op r s = (r, s)"

definition read_op :: "('s \<Rightarrow> 'a result) \<Rightarrow> ('s, 'a) op" where
  "read_op f s = (f s, s)"

definition bind_op :: "('s, 'a) op \<Rightarrow> ('a \<Rightarrow> ('s, 'b) op) \<Rightarrow> ('s, 'b) op" where
  "bind_op m f s = (case m s of (Inl e, s') \<Rightarrow> (Inl e, s') | (Inr x, s') \<Rightarrow> f x s')"

named_theorems effects \<open>the steps of an operation\<close>

lemma op_simps [effects]:
  "return_op x s = (Inr x, s)" "lift_op r s = (r, s)" "read_op f s = (f s, s)"
  by (simp_all add: return_op_def lift_op_def read_op_def)

lemma bind_op_returned: "bind_op m f s = (Inr y, s'') \<longleftrightarrow> (\<exists>x s'. m s = (Inr x, s') \<and> f x s' = (Inr y, s''))"
  by (auto simp: bind_op_def split: prod.splits sum.splits)

lemma bind_op_threw: "bind_op m f s = (Inl e, s'') \<longleftrightarrow>
    m s = (Inl e, s'') \<or> (\<exists>x s'. m s = (Inr x, s') \<and> f x s' = (Inl e, s''))"
  by (auto simp: bind_op_def split: prod.splits sum.splits)

lemma bind_op_lift: "bind_op (lift_op r) f s = (case r of Inl e \<Rightarrow> (Inl e, s) | Inr x \<Rightarrow> f x s)"
  by (simp add: bind_op_def lift_op_def split: sum.split)

lemma bind_op_read: "bind_op (read_op g) f s = (case g s of Inl e \<Rightarrow> (Inl e, s) | Inr x \<Rightarrow> f x s)"
  by (simp add: bind_op_def read_op_def split: sum.split)

section \<open>Runs\<close>

text \<open>A program that calls operations one after the other and goes on after an exception.\<close>

fun run_ops :: "('i \<Rightarrow> ('s, 'o) op) \<Rightarrow> 'i list \<Rightarrow> 's \<Rightarrow> ('i \<times> 'o result) list \<times> 's" where
  "run_ops perform [] s = ([], s)"
| "run_ops perform (i # is) s =
     (case perform i s of (r, s') \<Rightarrow> case run_ops perform is s' of (trace, s'') \<Rightarrow> ((i, r) # trace, s''))"

lemma run_ops_append:
  "run_ops perform (xs @ ys) s =
     (case run_ops perform xs s of (trace, s') \<Rightarrow> case run_ops perform ys s' of (trace', s'') \<Rightarrow> (trace @ trace', s''))"
  by (induction xs arbitrary: s) (simp_all split: prod.splits)

text \<open>
  Operations that keep an invariant of the state, the history of the calls included: the invariant
  relates the state to the calls that led to it and to what they returned.
\<close>

locale effect_machine =
  fixes perform :: "'i \<Rightarrow> ('s, 'o) op"
    and good :: "('i \<times> 'o result) list \<Rightarrow> 's \<Rightarrow> bool"
  assumes perform_good: "good past s \<Longrightarrow> good (past @ [(i, fst (perform i s))]) (snd (perform i s))"
begin

lemma run_good: "good past s \<Longrightarrow> run_ops perform is s = (trace, s') \<Longrightarrow> good (past @ trace) s'"
proof (induction "is" arbitrary: past s trace)
  case (Cons i "is")
  obtain r s1 where step: "perform i s = (r, s1)" by fastforce
  obtain rest where rest: "run_ops perform is s1 = (rest, s')" and trace: "trace = (i, r) # rest"
    using Cons.prems(2) step by (auto split: prod.splits)
  have "good (past @ [(i, r)]) s1" using perform_good [OF Cons.prems(1), of i] by (simp add: step)
  from Cons.IH [OF this rest] show ?case by (simp add: trace)
qed simp

lemma reached_good: "good [] s \<Longrightarrow> run_ops perform is s = (trace, s') \<Longrightarrow> good trace s'"
  using run_good [of "[]"] by simp

end

end
