(* ===== verification/DryRunShadow.thy ===== *)
theory DryRunShadow
  imports JsEffects LiveRiskAuthority
begin

text \<open>
  The shadow ledger of dry-run orders (\<open>src/order/dryRunShadowState.ts\<close>).  A state is an object
  without content; the module keeps its snapshot, and a state can be used once: every transition
  mints a new state and consumes the old one.
\<close>

section \<open>Records\<close>

datatype DryRunShadowRecordStatus =
  ShadowReserved | ShadowCompleted | ShadowTimeoutUnknown | ShadowReconciledNoExternalEffect

text \<open>An entry of a history, or the status an event comes from.\<close>

datatype DryRunShadowHistoryEntry = ShadowCreated | Reached DryRunShadowRecordStatus

datatype DryRunShadowTransitionOutcome = Moved DryRunShadowRecordStatus | ShadowDuplicateRejected

record DryRunShadowIdentity =
  sh_scenarioId :: string
  sh_syntheticIntentHash :: string

record DryRunShadowRecord = DryRunShadowIdentity +
  rec_shadowKey :: string
  rec_status :: DryRunShadowRecordStatus
  rec_version :: nat
  rec_stateHistory :: "DryRunShadowHistoryEntry list"

record DryRunShadowTombstone = DryRunShadowIdentity +
  tomb_shadowKey :: string
  tomb_permanent :: bool
  tomb_reservedAtSequence :: nat

record DryRunShadowAuditEvent = DryRunShadowIdentity +
  aud_sequence :: nat
  aud_shadowKey :: string
  aud_event :: DryRunShadowTransitionOutcome
  aud_fromStatus :: DryRunShadowHistoryEntry
  aud_toStatus :: DryRunShadowRecordStatus
  aud_simulationOnly :: bool
  aud_externalEffect :: string

record DryRunShadowSnapshot =
  snap_records :: "DryRunShadowRecord list"
  snap_tombstones :: "DryRunShadowTombstone list"
  snap_audit :: "DryRunShadowAuditEvent list"

text \<open>A state is the number of its object.\<close>

record DryRunShadowTransitionResult =
  tr_state :: nat
  tr_outcome :: DryRunShadowTransitionOutcome
  tr_record :: DryRunShadowRecord
  tr_auditEvent :: "DryRunShadowAuditEvent option"

text \<open>The objects of the program, the authorities among them, and the sets and the map of the module.\<close>

record ShadowStore =
  ds_objects :: AuthorityStore
  ds_stateBrands :: "nat list"
  ds_activeStates :: "nat list"
  ds_stateValues :: "(nat \<times> DryRunShadowSnapshot) list"

definition new_object :: "bool \<Rightarrow> 'z ShadowStore_scheme \<Rightarrow> nat \<times> 'z ShadowStore_scheme" where
  "new_object frozen st =
     (let heap = ds_objects st; object = st_nextObject heap
      in (object, st\<lparr>ds_objects := heap\<lparr>st_nextObject := Suc object,
           st_frozen := (if frozen then [object] else []) @ st_frozen heap\<rparr>\<rparr>))"

section \<open>Identities\<close>

definition is_alnum :: "char \<Rightarrow> bool" where
  "is_alnum c \<longleftrightarrow> is_digit c \<or> 65 \<le> (of_char c :: nat) \<and> of_char c \<le> (90 :: nat) \<or>
     97 \<le> (of_char c :: nat) \<and> of_char c \<le> (122 :: nat)"

text \<open>\<open>/^scenario_[A-Za-z0-9][A-Za-z0-9._-]{0,79}$/\<close>.\<close>

definition is_scenario_id :: "string \<Rightarrow> bool" where
  "is_scenario_id s \<longleftrightarrow> take 9 s = ''scenario_'' \<and>
     (case drop 9 s of
        [] \<Rightarrow> False
      | c # cs \<Rightarrow> is_alnum c \<and> length cs \<le> 79 \<and> list_all (\<lambda>x. is_alnum x \<or> x \<in> set ''._-'') cs)"

definition createShadowKey :: "js_env \<Rightarrow> 'z DryRunShadowIdentity_scheme \<Rightarrow> string" where
  "createShadowKey env identity =
     ''shadow:sha256:'' @ sha256 env (utf8_string (''toss-trading/dry-run-shadow/v1'' @
       length_prefix (sh_scenarioId identity) @ length_prefix (sh_syntheticIntentHash identity)))"

definition createScenarioRef :: "js_env \<Rightarrow> string \<Rightarrow> string" where
  "createScenarioRef env scenarioId =
     ''scenario:sha256:'' @ sha256 env (utf8_string (''toss-trading/dry-run-shadow-scenario/v1'' @ length_prefix scenarioId))"

text \<open>As for the authority, of objects whose prototype is that of plain objects or null.\<close>

definition materialize_shadow_input :: "jsval \<Rightarrow> string list \<Rightarrow> jsval result" where
  "materialize_shadow_input v keys =
     (case v of
        JObject proto props \<Rightarrow>
          if proto = OtherPrototype then Inl (Error ''dry-run shadow input must use plain data objects'')
          else if list_ex (\<lambda>key. key \<notin> set keys) (map fst props)
          then Inl (Error ''dry-run shadow input contains unknown fields'')
          else if list_ex (\<lambda>key. \<not> has_own v key) keys
          then Inl (Error ''dry-run shadow input is missing required fields'')
          else Inr (JObject ObjectPrototype props)
      | _ \<Rightarrow> Inl (Error ''dry-run shadow input must use plain data objects''))"

definition parseIdentity :: "js_env \<Rightarrow> jsval \<Rightarrow> DryRunShadowIdentity result" where
  "parseIdentity env v =
     bind_result (materialize_shadow_input v [''scenarioId'', ''syntheticIntentHash'']) (\<lambda>record.
       let scenarioId = get_property record ''scenarioId''; hash = get_property record ''syntheticIntentHash''
       in if \<not> isString scenarioId \<or> \<not> is_scenario_id (string_of scenarioId)
          then Inl (Error ''dry-run shadow scenarioId must use the synthetic scenario_ namespace'')
          else if \<not> isString hash \<or> \<not> is_sha256_text (string_of hash)
          then Inl (Error ''dry-run shadow syntheticIntentHash must be a canonical sha256 value'')
          else Inr \<lparr>sh_scenarioId = createScenarioRef env (string_of scenarioId),
                 sh_syntheticIntentHash = string_of hash\<rparr>)"

definition matchesIdentity :: "'y DryRunShadowIdentity_scheme \<Rightarrow> 'z DryRunShadowIdentity_scheme \<Rightarrow> bool" where
  "matchesIdentity value identity \<longleftrightarrow>
     sh_scenarioId value = sh_scenarioId identity \<and>
     sh_syntheticIntentHash value = sh_syntheticIntentHash identity"

definition findRecord :: "DryRunShadowSnapshot \<Rightarrow> DryRunShadowIdentity \<Rightarrow> DryRunShadowRecord option" where
  "findRecord snapshot identity = find (\<lambda>r. matchesIdentity r identity) (snap_records snapshot)"

text \<open>The index of the first match; the code has -1 for none.\<close>

definition findRecordIndex :: "DryRunShadowSnapshot \<Rightarrow> DryRunShadowIdentity \<Rightarrow> nat option" where
  "findRecordIndex snapshot identity =
     find (\<lambda>i. matchesIdentity (snap_records snapshot ! i) identity) [0..< length (snap_records snapshot)]"

definition findTombstone :: "DryRunShadowSnapshot \<Rightarrow> DryRunShadowIdentity \<Rightarrow> DryRunShadowTombstone option" where
  "findTombstone snapshot identity = find (\<lambda>t. matchesIdentity t identity) (snap_tombstones snapshot)"

definition nextSequence :: "DryRunShadowSnapshot \<Rightarrow> nat" where
  "nextSequence snapshot = length (snap_audit snapshot) + 1"

definition identityIndexKey :: "'z DryRunShadowIdentity_scheme \<Rightarrow> string" where
  "identityIndexKey identity =
     length_prefix (sh_scenarioId identity) @ length_prefix (sh_syntheticIntentHash identity)"

section \<open>Consistency\<close>

text \<open>A map under construction lists its entries in the order of insertion.\<close>

definition index_step ::
  "string \<Rightarrow> (string \<times> string) list \<Rightarrow> (string \<times> string) \<Rightarrow> (string \<times> string) list result" where
  "index_step duplicate index entry =
     (if fst entry \<in> set (map fst index) then Inl (Error duplicate) else Inr (index @ [entry]))"

definition assertSnapshotConsistency :: "DryRunShadowSnapshot \<Rightarrow> unit result" where
  "assertSnapshotConsistency snapshot =
     bind_result (fold_result (index_step ''dry-run shadow snapshot has duplicate records'') []
         (map (\<lambda>r. (identityIndexKey r, rec_shadowKey r)) (snap_records snapshot))) (\<lambda>records.
     bind_result (fold_result (index_step ''dry-run shadow snapshot has duplicate tombstones'') []
         (map (\<lambda>t. (identityIndexKey t, tomb_shadowKey t)) (snap_tombstones snapshot))) (\<lambda>tombstones.
       if length records \<noteq> length tombstones
       then Inl (Error ''dry-run shadow snapshot is inconsistent'')
       else if list_ex (\<lambda>(key, shadowKey). map_of tombstones key \<noteq> Some shadowKey) records
       then Inl (Error ''dry-run shadow snapshot is inconsistent'')
       else Inr ()))"

section \<open>States\<close>

definition mintState :: "DryRunShadowSnapshot \<Rightarrow> ('z ShadowStore_scheme, nat) op" where
  "mintState snapshot =
     bind_op (lift_op (assertSnapshotConsistency snapshot)) (\<lambda>_ st.
       case new_object True st of (state, st') \<Rightarrow>
         (Inr state, st'\<lparr>ds_stateBrands := state # ds_stateBrands st',
            ds_activeStates := state # ds_activeStates st',
            ds_stateValues := (state, snapshot) # ds_stateValues st'\<rparr>))"

definition requireOwnedState :: "'z ShadowStore_scheme \<Rightarrow> reference \<Rightarrow> DryRunShadowSnapshot result" where
  "requireOwnedState st value =
     (case value of
        None \<Rightarrow> Inl (Error ''dry-run shadow state must be created by the isolated shadow module'')
      | Some object \<Rightarrow>
          if object \<notin> set (st_frozen (ds_objects st)) \<or> object \<notin> set (ds_stateBrands st) \<or>
             object \<notin> set (ds_activeStates st)
          then Inl (Error ''dry-run shadow state must be created by the isolated shadow module'')
          else case map_of (ds_stateValues st) object of
                 None \<Rightarrow> Inl (Error ''dry-run shadow state ownership is invalid'')
               | Some snapshot \<Rightarrow> bind_result (assertSnapshotConsistency snapshot) (\<lambda>_. Inr snapshot))"

definition consumeState :: "reference \<Rightarrow> ('z ShadowStore_scheme, unit) op" where
  "consumeState value st =
     (case value of
        Some object \<Rightarrow>
          if object \<in> set (ds_activeStates st)
          then (Inr (), st\<lparr>ds_activeStates := removeAll object (ds_activeStates st)\<rparr>)
          else (Inl (Error ''dry-run shadow state handle is stale or already consumed''), st)
      | None \<Rightarrow> (Inl (Error ''dry-run shadow state handle is stale or already consumed''), st))"

definition createDryRunShadowState :: "('z ShadowStore_scheme, nat) op" where
  "createDryRunShadowState = mintState \<lparr>snap_records = [], snap_tombstones = [], snap_audit = []\<rparr>"

definition inspectDryRunShadowState :: "'z ShadowStore_scheme \<Rightarrow> reference \<Rightarrow> DryRunShadowSnapshot result" where
  "inspectDryRunShadowState st state = requireOwnedState st state"

section \<open>Transitions\<close>

definition audit_event ::
  "DryRunShadowIdentity \<Rightarrow> nat \<Rightarrow> string \<Rightarrow> DryRunShadowTransitionOutcome \<Rightarrow> DryRunShadowHistoryEntry \<Rightarrow>
   DryRunShadowRecordStatus \<Rightarrow> DryRunShadowAuditEvent" where
  "audit_event identity sequence shadowKey event from to =
     \<lparr>sh_scenarioId = sh_scenarioId identity, sh_syntheticIntentHash = sh_syntheticIntentHash identity,
      aud_sequence = sequence, aud_shadowKey = shadowKey, aud_event = event, aud_fromStatus = from,
      aud_toStatus = to, aud_simulationOnly = True, aud_externalEffect = ''none''\<rparr>"

text \<open>The new state is minted before the old one is consumed.\<close>

definition replace_state ::
  "reference \<Rightarrow> DryRunShadowSnapshot \<Rightarrow> DryRunShadowTransitionOutcome \<Rightarrow> DryRunShadowRecord \<Rightarrow>
   DryRunShadowAuditEvent \<Rightarrow> ('z ShadowStore_scheme, DryRunShadowTransitionResult) op" where
  "replace_state state snapshot outcome record auditEvent =
     bind_op (mintState snapshot) (\<lambda>nextState.
     bind_op (consumeState state) (\<lambda>_.
       return_op \<lparr>tr_state = nextState, tr_outcome = outcome, tr_record = record,
         tr_auditEvent = Some auditEvent\<rparr>))"

definition reject_duplicate ::
  "reference \<Rightarrow> DryRunShadowSnapshot \<Rightarrow> DryRunShadowIdentity \<Rightarrow> DryRunShadowRecord \<Rightarrow>
   ('z ShadowStore_scheme, DryRunShadowTransitionResult) op" where
  "reject_duplicate state snapshot identity existing =
     (let auditEvent = audit_event identity (nextSequence snapshot) (rec_shadowKey existing)
            ShadowDuplicateRejected (Reached (rec_status existing)) (rec_status existing)
      in replace_state state (snapshot\<lparr>snap_audit := snap_audit snapshot @ [auditEvent]\<rparr>)
           ShadowDuplicateRejected existing auditEvent)"

definition reserve_new ::
  "js_env \<Rightarrow> reference \<Rightarrow> DryRunShadowSnapshot \<Rightarrow> DryRunShadowIdentity \<Rightarrow>
   ('z ShadowStore_scheme, DryRunShadowTransitionResult) op" where
  "reserve_new env state snapshot identity =
     (let sequence = nextSequence snapshot; shadowKey = createShadowKey env identity;
          record = \<lparr>sh_scenarioId = sh_scenarioId identity,
            sh_syntheticIntentHash = sh_syntheticIntentHash identity, rec_shadowKey = shadowKey,
            rec_status = ShadowReserved, rec_version = 1,
            rec_stateHistory = [ShadowCreated, Reached ShadowReserved]\<rparr>;
          tombstone = \<lparr>sh_scenarioId = sh_scenarioId identity,
            sh_syntheticIntentHash = sh_syntheticIntentHash identity, tomb_shadowKey = shadowKey,
            tomb_permanent = True, tomb_reservedAtSequence = sequence\<rparr>;
          auditEvent = audit_event identity sequence shadowKey (Moved ShadowReserved) ShadowCreated ShadowReserved
      in replace_state state
           \<lparr>snap_records = snap_records snapshot @ [record],
            snap_tombstones = snap_tombstones snapshot @ [tombstone],
            snap_audit = snap_audit snapshot @ [auditEvent]\<rparr>
           (Moved ShadowReserved) record auditEvent)"

definition reserveDryRunShadow ::
  "js_env \<Rightarrow> reference \<Rightarrow> jsval \<Rightarrow> ('z ShadowStore_scheme, DryRunShadowTransitionResult) op" where
  "reserveDryRunShadow env state v =
     bind_op (read_op (\<lambda>st. requireOwnedState st state)) (\<lambda>snapshot.
     bind_op (lift_op (parseIdentity env v)) (\<lambda>identity.
       case (findRecord snapshot identity, findTombstone snapshot identity) of
         (None, None) \<Rightarrow> reserve_new env state snapshot identity
       | (Some existing, Some tombstone) \<Rightarrow> reject_duplicate state snapshot identity existing
       | _ \<Rightarrow> lift_op (Inl (Error ''dry-run shadow state requires record and tombstone consistency''))))"

fun status_text :: "DryRunShadowRecordStatus \<Rightarrow> string" where
  "status_text ShadowReserved = ''shadow_reserved''"
| "status_text ShadowCompleted = ''shadow_completed''"
| "status_text ShadowTimeoutUnknown = ''shadow_timeout_unknown''"
| "status_text ShadowReconciledNoExternalEffect = ''shadow_reconciled_no_external_effect''"

definition advance_record :: "DryRunShadowRecord \<Rightarrow> DryRunShadowRecordStatus \<Rightarrow> DryRunShadowRecord" where
  "advance_record current nextStatus =
     current\<lparr>rec_status := nextStatus, rec_version := rec_version current + 1,
       rec_stateHistory := rec_stateHistory current @ [Reached nextStatus]\<rparr>"

definition transitionRecord ::
  "js_env \<Rightarrow> reference \<Rightarrow> jsval \<Rightarrow> DryRunShadowRecordStatus \<Rightarrow> DryRunShadowRecordStatus \<Rightarrow>
   ('z ShadowStore_scheme, DryRunShadowTransitionResult) op" where
  "transitionRecord env state v expectedStatus nextStatus =
     bind_op (read_op (\<lambda>st. requireOwnedState st state)) (\<lambda>snapshot.
     bind_op (lift_op (parseIdentity env v)) (\<lambda>identity.
       case findRecordIndex snapshot identity of
         None \<Rightarrow> lift_op (Inl (Error ''dry-run shadow transition requires a reserved record''))
       | Some recordIndex \<Rightarrow>
           let current = snap_records snapshot ! recordIndex
           in if (case findTombstone snapshot identity of
                    None \<Rightarrow> True | Some tombstone \<Rightarrow> tomb_shadowKey tombstone \<noteq> rec_shadowKey current)
              then lift_op (Inl (Error ''dry-run shadow transition requires a permanent tombstone''))
              else if rec_status current \<noteq> expectedStatus
              then lift_op (Inl (Error (''dry-run shadow transition requires '' @ status_text expectedStatus @
                '', got '' @ status_text (rec_status current))))
              else let record = advance_record current nextStatus;
                       auditEvent = audit_event identity (nextSequence snapshot) (rec_shadowKey current)
                         (Moved nextStatus) (Reached (rec_status current)) nextStatus
                   in replace_state state
                        \<lparr>snap_records = (snap_records snapshot)[recordIndex := record],
                         snap_tombstones = snap_tombstones snapshot,
                         snap_audit = snap_audit snapshot @ [auditEvent]\<rparr>
                        (Moved nextStatus) record auditEvent))"

definition completeDryRunShadow ::
  "js_env \<Rightarrow> reference \<Rightarrow> jsval \<Rightarrow> ('z ShadowStore_scheme, DryRunShadowTransitionResult) op" where
  "completeDryRunShadow env state v = transitionRecord env state v ShadowReserved ShadowCompleted"

definition markDryRunShadowTimeoutUnknown ::
  "js_env \<Rightarrow> reference \<Rightarrow> jsval \<Rightarrow> ('z ShadowStore_scheme, DryRunShadowTransitionResult) op" where
  "markDryRunShadowTimeoutUnknown env state v = transitionRecord env state v ShadowReserved ShadowTimeoutUnknown"

definition reconcileDryRunShadowNoExternalEffect ::
  "js_env \<Rightarrow> reference \<Rightarrow> jsval \<Rightarrow> ('z ShadowStore_scheme, DryRunShadowTransitionResult) op" where
  "reconcileDryRunShadowNoExternalEffect env state v =
     transitionRecord env state v ShadowTimeoutUnknown ShadowReconciledNoExternalEffect"

end
