(* ===== verification/DryRunFacts.thy ===== *)
theory DryRunFacts
  imports DryRunShadow
begin

text \<open>
  What is always true of the shadow ledger: its snapshots are consistent, the records are what the
  audit log says, and every operation on a store in order either returns or leaves it as it was.
\<close>

section \<open>Consistent snapshots\<close>

lemma identity_key_inj: "identityIndexKey a = identityIndexKey b \<longleftrightarrow> matchesIdentity a b"
proof
  assume "identityIndexKey a = identityIndexKey b"
  then have "sh_scenarioId a = sh_scenarioId b \<and>
      length_prefix (sh_syntheticIntentHash a) = length_prefix (sh_syntheticIntentHash b)"
    unfolding identityIndexKey_def by (rule length_prefix_inj)
  moreover have "x = y" if "length_prefix x = length_prefix y" for x y
    using length_prefix_inj [of x "[]" y "[]"] that by simp
  ultimately show "matchesIdentity a b" by (simp add: matchesIdentity_def)
qed (simp add: identityIndexKey_def matchesIdentity_def)

lemma matches_sym: "matchesIdentity a b \<longleftrightarrow> matchesIdentity b a"
  by (auto simp: matchesIdentity_def)

lemma matches_trans: "matchesIdentity a b \<Longrightarrow> matchesIdentity a c \<longleftrightarrow> matchesIdentity b c"
  by (auto simp: matchesIdentity_def)

lemma index_distinct:
  "distinct (map fst (index @ entries)) \<Longrightarrow> fold_result (index_step message) index entries = Inr (index @ entries)"
proof (induction entries arbitrary: index)
  case (Cons entry entries)
  then show ?case using Cons.IH [of "index @ [entry]"] by (simp add: index_step_def)
qed simp

text \<open>A tombstone stands beside every record, in the same order, with the key of their identity.\<close>

definition buried :: "js_env \<Rightarrow> DryRunShadowRecord \<Rightarrow> DryRunShadowTombstone \<Rightarrow> bool" where
  "buried env r t \<longleftrightarrow> matchesIdentity t r \<and> rec_shadowKey r = createShadowKey env r \<and>
     tomb_shadowKey t = rec_shadowKey r \<and> tomb_permanent t"

definition ledger_ok :: "js_env \<Rightarrow> DryRunShadowRecord list \<Rightarrow> DryRunShadowTombstone list \<Rightarrow> bool" where
  "ledger_ok env rs ts \<longleftrightarrow> list_all2 (buried env) rs ts \<and> distinct (map identityIndexKey rs)"

lemma ledger_consistent:
  assumes "ledger_ok env (snap_records snapshot) (snap_tombstones snapshot)"
  shows "assertSnapshotConsistency snapshot = Inr ()"
proof -
  let ?rs = "map (\<lambda>r. (identityIndexKey r, rec_shadowKey r)) (snap_records snapshot)"
  let ?ts = "map (\<lambda>t. (identityIndexKey t, tomb_shadowKey t)) (snap_tombstones snapshot)"
  have "list_all2 (buried env) (snap_records snapshot) (snap_tombstones snapshot)"
    using assms by (simp add: ledger_ok_def)
  then have same: "?ts = ?rs"
    by induction (auto simp: buried_def identity_key_inj)
  have "distinct (map fst ?rs)" using assms by (simp add: ledger_ok_def comp_def)
  then have index: "fold_result (index_step message) [] ?rs = Inr ?rs" for message
    using index_distinct [of "[]" ?rs message] by simp
  have "map_of ?rs key = Some shadowKey" if "(key, shadowKey) \<in> set ?rs" for key shadowKey
    using \<open>distinct (map fst ?rs)\<close> that by (rule map_of_is_SomeI)
  then have "\<not> list_ex (\<lambda>(key, shadowKey). map_of ?rs key \<noteq> Some shadowKey) ?rs"
    by (auto simp: list_ex_iff)
  then show ?thesis
    unfolding assertSnapshotConsistency_def same index by simp
qed

section \<open>Records and the audit log\<close>

text \<open>The moves of an identity that the log has, duplicates left out.\<close>

definition moves :: "'z DryRunShadowIdentity_scheme \<Rightarrow> DryRunShadowAuditEvent list \<Rightarrow> DryRunShadowAuditEvent list" where
  "moves identity audit = filter (\<lambda>e. matchesIdentity e identity \<and> aud_event e \<noteq> ShadowDuplicateRejected) audit"

fun legal_history :: "DryRunShadowHistoryEntry list \<Rightarrow> bool" where
  "legal_history [ShadowCreated, Reached ShadowReserved] = True"
| "legal_history [ShadowCreated, Reached ShadowReserved, Reached ShadowCompleted] = True"
| "legal_history [ShadowCreated, Reached ShadowReserved, Reached ShadowTimeoutUnknown] = True"
| "legal_history [ShadowCreated, Reached ShadowReserved, Reached ShadowTimeoutUnknown,
     Reached ShadowReconciledNoExternalEffect] = True"
| "legal_history _ = False"

definition record_logged :: "DryRunShadowAuditEvent list \<Rightarrow> DryRunShadowRecord \<Rightarrow> bool" where
  "record_logged audit r \<longleftrightarrow>
     rec_stateHistory r = ShadowCreated # map (\<lambda>e. Reached (aud_toStatus e)) (moves r audit) \<and>
     last (rec_stateHistory r) = Reached (rec_status r) \<and>
     length (rec_stateHistory r) = Suc (rec_version r) \<and> legal_history (rec_stateHistory r)"

definition log_ok :: "DryRunShadowRecord list \<Rightarrow> DryRunShadowAuditEvent list \<Rightarrow> bool" where
  "log_ok rs audit \<longleftrightarrow>
     map aud_sequence audit = [1..< Suc (length audit)] \<and>
     (\<forall>r \<in> set rs. record_logged audit r) \<and>
     (\<forall>e \<in> set audit. (\<exists>r \<in> set rs. matchesIdentity e r) \<and> aud_simulationOnly e \<and> aud_externalEffect e = ''none'')"

definition snapshot_ok :: "js_env \<Rightarrow> DryRunShadowSnapshot \<Rightarrow> bool" where
  "snapshot_ok env snapshot \<longleftrightarrow>
     ledger_ok env (snap_records snapshot) (snap_tombstones snapshot) \<and>
     log_ok (snap_records snapshot) (snap_audit snapshot)"

lemma moves_snoc: "moves i (audit @ [e]) =
    moves i audit @ (if matchesIdentity e i \<and> aud_event e \<noteq> ShadowDuplicateRejected then [e] else [])"
  by (simp add: moves_def)

lemma record_logged_other:
  "\<not> (matchesIdentity e r \<and> aud_event e \<noteq> ShadowDuplicateRejected) \<Longrightarrow>
     record_logged (audit @ [e]) r \<longleftrightarrow> record_logged audit r"
  by (auto simp: record_logged_def moves_snoc)

lemma empty_snapshot_ok: "snapshot_ok env \<lparr>snap_records = [], snap_tombstones = [], snap_audit = []\<rparr>"
  by (simp add: snapshot_ok_def ledger_ok_def log_ok_def)

lemma audit_event_fields [simp]:
  "matchesIdentity (audit_event identity n key event from to) x \<longleftrightarrow> matchesIdentity identity x"
  "aud_event (audit_event identity n key event from to) = event"
  "aud_toStatus (audit_event identity n key event from to) = to"
  "aud_sequence (audit_event identity n key event from to) = n"
  "aud_simulationOnly (audit_event identity n key event from to)"
  "aud_externalEffect (audit_event identity n key event from to) = ''none''"
  by (simp_all add: audit_event_def matchesIdentity_def)

lemma log_snoc:
  assumes "log_ok rs audit" and "aud_sequence e = length audit + 1" "aud_simulationOnly e" "aud_externalEffect e = ''none''"
    and "\<forall>r \<in> set rs'. record_logged (audit @ [e]) r" and "\<exists>r \<in> set rs'. matchesIdentity e r"
    and "\<forall>x. (\<exists>r \<in> set rs. matchesIdentity x r) \<longrightarrow> (\<exists>r \<in> set rs'. matchesIdentity (x :: DryRunShadowAuditEvent) r)"
  shows "log_ok rs' (audit @ [e])"
  using assms by (auto simp: log_ok_def)

lemma duplicate_keeps:
  assumes "snapshot_ok env snapshot" and "r \<in> set (snap_records snapshot)" "matchesIdentity r identity"
  shows "snapshot_ok env (snapshot\<lparr>snap_audit := snap_audit snapshot @
    [audit_event identity (nextSequence snapshot) key ShadowDuplicateRejected from to]\<rparr>)"
proof -
  let ?e = "audit_event identity (nextSequence snapshot) key ShadowDuplicateRejected from to"
  have log: "log_ok (snap_records snapshot) (snap_audit snapshot)" using assms(1) by (simp add: snapshot_ok_def)
  have "log_ok (snap_records snapshot) (snap_audit snapshot @ [?e])"
    by (rule log_snoc [OF log]) (use log assms(2,3) in \<open>auto simp: nextSequence_def log_ok_def record_logged_other
        matches_sym [of identity]\<close>)
  then show ?thesis using assms(1) by (simp add: snapshot_ok_def)
qed

lemma absent_moves:
  assumes "log_ok rs audit" "\<forall>r \<in> set rs. \<not> matchesIdentity r identity"
  shows "moves identity audit = []"
  using assms matches_trans matches_sym unfolding moves_def log_ok_def filter_empty_conv by metis

lemma moves_cong: "matchesIdentity a b \<Longrightarrow> moves a audit = moves b audit"
  unfolding moves_def by (metis matches_sym matches_trans)

lemma reserve_keeps:
  fixes identity :: DryRunShadowIdentity
  assumes "snapshot_ok env snapshot" and "\<forall>r \<in> set (snap_records snapshot). \<not> matchesIdentity r identity"
    and r: "r = \<lparr>sh_scenarioId = sh_scenarioId identity,
      sh_syntheticIntentHash = sh_syntheticIntentHash identity, rec_shadowKey = createShadowKey env identity,
      rec_status = ShadowReserved, rec_version = 1, rec_stateHistory = [ShadowCreated, Reached ShadowReserved]\<rparr>"
    and t: "t = \<lparr>sh_scenarioId = sh_scenarioId identity,
      sh_syntheticIntentHash = sh_syntheticIntentHash identity, tomb_shadowKey = createShadowKey env identity,
      tomb_permanent = True, tomb_reservedAtSequence = n\<rparr>"
    and e: "e = audit_event identity (nextSequence snapshot) key (Moved ShadowReserved) from ShadowReserved"
  shows "snapshot_ok env \<lparr>snap_records = snap_records snapshot @ [r],
    snap_tombstones = snap_tombstones snapshot @ [t], snap_audit = snap_audit snapshot @ [e]\<rparr>"
proof -
  have log: "log_ok (snap_records snapshot) (snap_audit snapshot)"
    and ledger: "ledger_ok env (snap_records snapshot) (snap_tombstones snapshot)"
    using assms(1) by (simp_all add: snapshot_ok_def)
  have same: "matchesIdentity r x \<longleftrightarrow> matchesIdentity identity x" "matchesIdentity t x \<longleftrightarrow> matchesIdentity identity x"
    for x :: DryRunShadowRecord by (simp_all add: r t matchesIdentity_def)
  have self: "matchesIdentity identity r" by (simp add: r matchesIdentity_def)
  have "createShadowKey env r = createShadowKey env identity" by (simp add: r createShadowKey_def)
  then have "buried env r t" using self by (simp add: buried_def same) (simp add: r t)
  moreover have "identityIndexKey r \<notin> set (map identityIndexKey (snap_records snapshot))"
    using assms(2) self by (auto simp: identity_key_inj matchesIdentity_def)
  ultimately have "ledger_ok env (snap_records snapshot @ [r]) (snap_tombstones snapshot @ [t])"
    using ledger by (auto simp: ledger_ok_def list_all2_appendI)
  moreover have "moves r (snap_audit snapshot) = []"
    using absent_moves [OF log assms(2)] moves_cong [OF self] by simp
  then have new: "record_logged (snap_audit snapshot @ [e]) r"
    using self by (simp add: record_logged_def moves_snoc e) (simp add: r)
  have old: "record_logged (snap_audit snapshot @ [e]) x" if "x \<in> set (snap_records snapshot)" for x
    using that assms(2) log matches_sym [of x identity]
    by (subst record_logged_other) (auto simp: e log_ok_def)
  have "log_ok (snap_records snapshot @ [r]) (snap_audit snapshot @ [e])"
    by (rule log_snoc [OF log]) (use new old self in \<open>auto simp: e nextSequence_def\<close>)
  ultimately show ?thesis by (simp add: snapshot_ok_def)
qed

definition next_status :: "DryRunShadowRecordStatus \<Rightarrow> DryRunShadowRecordStatus \<Rightarrow> bool" where
  "next_status from to \<longleftrightarrow> (from, to) \<in> {(ShadowReserved, ShadowCompleted), (ShadowReserved, ShadowTimeoutUnknown),
     (ShadowTimeoutUnknown, ShadowReconciledNoExternalEffect)}"

lemma legal_step: "legal_history h \<Longrightarrow> last h = Reached from \<Longrightarrow> next_status from to \<Longrightarrow> legal_history (h @ [Reached to])"
  by (cases h rule: legal_history.cases) (auto simp: next_status_def)

lemma advance_keeps:
  fixes identity :: DryRunShadowIdentity
  assumes "snapshot_ok env snapshot" and "i < length (snap_records snapshot)"
    and "matchesIdentity (snap_records snapshot ! i) identity"
    and "next_status (rec_status (snap_records snapshot ! i)) to"
    and e: "e = audit_event identity (nextSequence snapshot) key (Moved to) from to"
  shows "snapshot_ok env \<lparr>snap_records = (snap_records snapshot)[i := advance_record (snap_records snapshot ! i) to],
    snap_tombstones = snap_tombstones snapshot, snap_audit = snap_audit snapshot @ [e]\<rparr>"
proof -
  let ?rs = "snap_records snapshot" and ?r = "snap_records snapshot ! i"
  let ?new = "advance_record ?r to"
  have log: "log_ok ?rs (snap_audit snapshot)" and ledger: "ledger_ok env ?rs (snap_tombstones snapshot)"
    using assms(1) by (simp_all add: snapshot_ok_def)
  have same: "matchesIdentity x ?new \<longleftrightarrow> matchesIdentity x ?r" "buried env ?new = buried env ?r"
    "identityIndexKey ?new = identityIndexKey ?r" "moves ?new audit = moves ?r audit" for x audit
    by (auto simp: advance_record_def matchesIdentity_def buried_def createShadowKey_def identityIndexKey_def moves_def
        fun_eq_iff)
  have "list_all2 (buried env) (?rs[i := ?new]) (snap_tombstones snapshot)"
    using ledger assms(2)
    by (auto simp: ledger_ok_def list_all2_conv_all_nth nth_list_update fun_cong [OF same(2)])
  moreover have "map identityIndexKey (?rs[i := ?new]) = map identityIndexKey ?rs"
    using assms(2) by (metis list_update_id map_update nth_map same(3))
  ultimately have ledger': "ledger_ok env (?rs[i := ?new]) (snap_tombstones snapshot)"
    using ledger by (simp add: ledger_ok_def)
  have logged: "record_logged (snap_audit snapshot) ?r" using log assms(2) by (simp add: log_ok_def)
  then have "legal_history (rec_stateHistory ?r @ [Reached to])"
    using assms(4) legal_step unfolding record_logged_def by blast
  moreover have "moves ?new (snap_audit snapshot @ [e]) = moves ?r (snap_audit snapshot) @ [e]"
    using assms(3) matches_sym [of identity ?r] by (simp add: same(1,4) moves_snoc e)
  ultimately have new: "record_logged (snap_audit snapshot @ [e]) ?new"
    using logged unfolding record_logged_def by (auto simp: advance_record_def e)
  have old: "record_logged (snap_audit snapshot @ [e]) x" if x: "x \<in> set (?rs[i := ?new])" for x
  proof (cases "x = ?new")
    case False
    obtain k where at: "k < length (?rs[i := ?new])" "x = ?rs[i := ?new] ! k"
      using x unfolding in_set_conv_nth by blast
    with False have k: "k < length ?rs" "k \<noteq> i" "x = ?rs ! k"
      using assms(2) by (auto simp: nth_list_update)
    have "distinct (map identityIndexKey ?rs)" using ledger by (simp add: ledger_ok_def)
    then have "identityIndexKey ?r \<noteq> identityIndexKey x"
      using k assms(2) by (metis distinct_map inj_on_def nth_eq_iff_index_eq nth_mem)
    then have "\<not> matchesIdentity ?r x" by (simp add: identity_key_inj)
    then have "\<not> matchesIdentity e x"
      using assms(3) matches_trans [OF assms(3), of x] by (simp add: e)
    then show ?thesis using log k by (subst record_logged_other) (auto simp: log_ok_def)
  qed (simp add: new)
  have "log_ok (?rs[i := ?new]) (snap_audit snapshot @ [e])"
  proof (rule log_snoc [OF log])
    have new_in: "?new \<in> set (?rs[i := ?new])" using assms(2) by (rule set_update_memI)
    show "\<exists>r \<in> set (?rs[i := ?new]). matchesIdentity e r"
      using assms(3) new_in matches_sym [of identity ?r] by (intro bexI [of _ ?new]) (simp_all add: e same)
    show "\<forall>x. (\<exists>r \<in> set ?rs. matchesIdentity x r) \<longrightarrow> (\<exists>r \<in> set (?rs[i := ?new]). matchesIdentity x r)"
    proof (intro allI impI)
      fix x assume "\<exists>r \<in> set ?rs. matchesIdentity x r"
      then obtain k where k: "k < length ?rs" "matchesIdentity x (?rs ! k)" by (auto simp: in_set_conv_nth)
      then have "matchesIdentity x (?rs[i := ?new] ! k)"
        using assms(2) same(1) [of x] by (cases "k = i") simp_all
      moreover have "?rs[i := ?new] ! k \<in> set (?rs[i := ?new])" using k(1) by (intro nth_mem) simp
      ultimately show "\<exists>r \<in> set (?rs[i := ?new]). matchesIdentity x r" by blast
    qed
  qed (use old in \<open>auto simp: e nextSequence_def\<close>)
  with ledger' show ?thesis by (simp add: snapshot_ok_def)
qed

section \<open>Stores in order\<close>

definition shadow_ok :: "js_env \<Rightarrow> 'z ShadowStore_scheme \<Rightarrow> bool" where
  "shadow_ok env st \<longleftrightarrow>
     ds_stateBrands st = map fst (ds_stateValues st) \<and> distinct (map fst (ds_stateValues st)) \<and>
     set (ds_activeStates st) \<subseteq> fst ` set (ds_stateValues st) \<and>
     fst ` set (ds_stateValues st) \<subseteq> set (st_frozen (ds_objects st)) \<and>
     set (st_frozen (ds_objects st)) \<subseteq> {..< st_nextObject (ds_objects st)} \<and>
     (\<forall>(h, snapshot) \<in> set (ds_stateValues st). snapshot_ok env snapshot)"

text \<open>The store after a new state with this snapshot, and after it has taken the place of another.\<close>

definition minted_store :: "DryRunShadowSnapshot \<Rightarrow> 'z ShadowStore_scheme \<Rightarrow> 'z ShadowStore_scheme" where
  "minted_store snapshot st =
     (let n = st_nextObject (ds_objects st)
      in st\<lparr>ds_objects := (ds_objects st)\<lparr>st_nextObject := Suc n, st_frozen := n # st_frozen (ds_objects st)\<rparr>,
           ds_stateBrands := n # ds_stateBrands st, ds_activeStates := n # ds_activeStates st,
           ds_stateValues := (n, snapshot) # ds_stateValues st\<rparr>)"

definition next_store :: "nat \<Rightarrow> DryRunShadowSnapshot \<Rightarrow> 'z ShadowStore_scheme \<Rightarrow> 'z ShadowStore_scheme" where
  "next_store h snapshot st =
     (let st' = minted_store snapshot st in st'\<lparr>ds_activeStates := removeAll h (ds_activeStates st')\<rparr>)"

lemma snapshot_consistent: "snapshot_ok env snapshot \<Longrightarrow> assertSnapshotConsistency snapshot = Inr ()"
  by (rule ledger_consistent [of env]) (simp add: snapshot_ok_def)

lemma mint_ok:
  "snapshot_ok env snapshot \<Longrightarrow> mintState snapshot st = (Inr (st_nextObject (ds_objects st)), minted_store snapshot st)"
  by (simp add: mintState_def bind_op_lift snapshot_consistent new_object_def minted_store_def Let_def)

lemma minted_store_ok: "shadow_ok env st \<Longrightarrow> snapshot_ok env snapshot \<Longrightarrow> shadow_ok env (minted_store snapshot st)"
  unfolding shadow_ok_def minted_store_def Let_def by (simp add: lessThan_Suc) blast

lemma consumed_ok: "shadow_ok env st \<Longrightarrow> shadow_ok env (st\<lparr>ds_activeStates := removeAll h (ds_activeStates st)\<rparr>)"
  unfolding shadow_ok_def by (simp del: list.set_map) blast

lemma next_store_ok: "shadow_ok env st \<Longrightarrow> snapshot_ok env snapshot \<Longrightarrow> shadow_ok env (next_store h snapshot st)"
  using minted_store_ok [of env st snapshot] consumed_ok unfolding next_store_def Let_def by blast

lemma replace_ok:
  "snapshot_ok env snapshot \<Longrightarrow> h \<in> set (ds_activeStates st) \<Longrightarrow>
     replace_state (Some h) snapshot outcome r e st =
       (Inr \<lparr>tr_state = st_nextObject (ds_objects st), tr_outcome = outcome, tr_record = r, tr_auditEvent = Some e\<rparr>,
        next_store h snapshot st)"
  by (simp add: replace_state_def bind_op_def mint_ok consumeState_def next_store_def minted_store_def return_op_def Let_def)

lemma owned_state:
  assumes "shadow_ok env st"
  shows "requireOwnedState st state = Inr snapshot \<longleftrightarrow>
    (\<exists>h. state = Some h \<and> h \<in> set (ds_activeStates st) \<and> map_of (ds_stateValues st) h = Some snapshot)"
proof (cases state)
  case (Some h)
  have "h \<in> set (ds_stateBrands st) \<and> h \<in> set (st_frozen (ds_objects st))" if "h \<in> set (ds_activeStates st)"
    using assms that by (auto simp: shadow_ok_def)
  moreover have "assertSnapshotConsistency s = Inr ()" if "map_of (ds_stateValues st) h = Some s" for s
    using assms map_of_SomeD [OF that] by (auto simp: shadow_ok_def intro: snapshot_consistent)
  ultimately show ?thesis
    by (auto simp: requireOwnedState_def Some bind_result_Inr split: option.split)
qed (simp add: requireOwnedState_def)

lemma active_has_value:
  assumes "shadow_ok env st" "h \<in> set (ds_activeStates st)"
  obtains snapshot where "map_of (ds_stateValues st) h = Some snapshot" "snapshot_ok env snapshot"
proof -
  have "h \<in> fst ` set (ds_stateValues st)" using assms by (auto simp: shadow_ok_def)
  then obtain snapshot where "map_of (ds_stateValues st) h = Some snapshot"
    by (metis map_of_eq_None_iff option.exhaust)
  moreover from map_of_SomeD [OF this] have "snapshot_ok env snapshot" using assms(1) by (auto simp: shadow_ok_def)
  ultimately show thesis by (rule that)
qed

lemma found_record: "findRecord snapshot identity = Some r \<Longrightarrow> r \<in> set (snap_records snapshot) \<and> matchesIdentity r identity"
  unfolding findRecord_def by (drule find_set)

lemma found_index:
  "findRecordIndex snapshot identity = Some i \<Longrightarrow>
     i < length (snap_records snapshot) \<and> matchesIdentity (snap_records snapshot ! i) identity"
  unfolding findRecordIndex_def by (drule find_set) simp

lemma found_pair:
  assumes "snapshot_ok env snapshot"
  shows "findRecord snapshot identity = None \<longleftrightarrow> findTombstone snapshot identity = None"
    and "findRecord snapshot identity = None \<longleftrightarrow> findRecordIndex snapshot identity = None"
proof -
  have "list_all2 (buried env) (snap_records snapshot) (snap_tombstones snapshot)"
    using assms by (simp add: snapshot_ok_def ledger_ok_def)
  then have "(\<forall>r \<in> set (snap_records snapshot). \<not> matchesIdentity r identity) \<longleftrightarrow>
      (\<forall>t \<in> set (snap_tombstones snapshot). \<not> matchesIdentity t identity)"
    by induction (auto simp: buried_def matchesIdentity_def)
  then show "findRecord snapshot identity = None \<longleftrightarrow> findTombstone snapshot identity = None"
    by (simp add: findRecord_def findTombstone_def find_None_iff Ball_def)
  show "findRecord snapshot identity = None \<longleftrightarrow> findRecordIndex snapshot identity = None"
    by (auto simp: findRecord_def findRecordIndex_def find_None_iff in_set_conv_nth)
qed

section \<open>The operations on a store in order\<close>

text \<open>A transition that returned: which state it used, and the snapshot of the one it minted.\<close>

definition transition_from ::
  "js_env \<Rightarrow> reference \<Rightarrow> 'z ShadowStore_scheme \<Rightarrow> DryRunShadowTransitionResult \<Rightarrow> 'z ShadowStore_scheme \<Rightarrow> bool" where
  "transition_from env state st res st' \<longleftrightarrow>
     (\<exists>h snapshot. state = Some h \<and> h \<in> set (ds_activeStates st) \<and> snapshot_ok env snapshot \<and>
        st' = next_store h snapshot st \<and> tr_state res = st_nextObject (ds_objects st) \<and> tr_auditEvent res \<noteq> None)"

lemma transition_replace:
  assumes "snapshot_ok env snapshot" "h \<in> set (ds_activeStates st)"
  shows "\<exists>res st'. replace_state (Some h) snapshot outcome r e st = (Inr res, st') \<and>
    transition_from env (Some h) st res st' \<and> tr_outcome res = outcome \<and> tr_record res = r \<and>
    map_of (ds_stateValues st') (tr_state res) = Some snapshot"
  using assms
  by (simp add: replace_ok transition_from_def) (auto simp: next_store_def minted_store_def Let_def)

lemma reserve_fresh:
  assumes "shadow_ok env st" "h \<in> set (ds_activeStates st)" "map_of (ds_stateValues st) h = Some snapshot"
    and "parseIdentity env v = Inr identity" "findRecord snapshot identity = None"
  shows "\<exists>res st' snapshot'. reserveDryRunShadow env (Some h) v st = (Inr res, st') \<and>
    transition_from env (Some h) st res st' \<and> tr_outcome res = Moved ShadowReserved \<and>
    matchesIdentity (tr_record res) identity \<and> rec_status (tr_record res) = ShadowReserved \<and>
    map_of (ds_stateValues st') (tr_state res) = Some snapshot' \<and>
    snap_records snapshot' = snap_records snapshot @ [tr_record res]"
proof -
  have ok: "snapshot_ok env snapshot"
    using assms(1) map_of_SomeD [OF assms(3)] by (auto simp: shadow_ok_def)
  have absent: "\<forall>r \<in> set (snap_records snapshot). \<not> matchesIdentity r identity"
    using assms(5) by (auto simp: findRecord_def find_None_iff)
  have "requireOwnedState st (Some h) = Inr snapshot" using assms(2,3) by (simp add: owned_state [OF assms(1)])
  moreover have "findTombstone snapshot identity = None" using assms(5) found_pair(1) [OF ok] by blast
  ultimately have run: "reserveDryRunShadow env (Some h) v st = reserve_new env (Some h) snapshot identity st"
    by (simp add: reserveDryRunShadow_def bind_op_read bind_op_lift assms(4,5))
  note kept = reserve_keeps [OF ok absent refl refl refl]
  obtain res st' where
    moved: "reserve_new env (Some h) snapshot identity st = (Inr res, st')" "transition_from env (Some h) st res st'"
      "tr_outcome res = Moved ShadowReserved" and
    res: "tr_record res = \<lparr>sh_scenarioId = sh_scenarioId identity,
      sh_syntheticIntentHash = sh_syntheticIntentHash identity, rec_shadowKey = createShadowKey env identity,
      rec_status = ShadowReserved, rec_version = 1, rec_stateHistory = [ShadowCreated, Reached ShadowReserved]\<rparr>" and
    snap: "\<exists>snapshot'. map_of (ds_stateValues st') (tr_state res) = Some snapshot' \<and>
      snap_records snapshot' = snap_records snapshot @ [tr_record res]"
    using transition_replace [OF kept assms(2)] unfolding reserve_new_def Let_def
    by (metis (no_types, lifting) DryRunShadowSnapshot.select_convs(1))
  show ?thesis
    using run moved snap res by (auto simp: matchesIdentity_def)
qed

lemma reserve_known:
  assumes "shadow_ok env st" "h \<in> set (ds_activeStates st)" "map_of (ds_stateValues st) h = Some snapshot"
    and "parseIdentity env v = Inr identity" "findRecord snapshot identity = Some r"
  shows "\<exists>res st' snapshot'. reserveDryRunShadow env (Some h) v st = (Inr res, st') \<and>
    transition_from env (Some h) st res st' \<and> tr_outcome res = ShadowDuplicateRejected \<and> tr_record res = r \<and>
    map_of (ds_stateValues st') (tr_state res) = Some snapshot' \<and>
    snap_records snapshot' = snap_records snapshot"
proof -
  have ok: "snapshot_ok env snapshot"
    using assms(1) map_of_SomeD [OF assms(3)] by (auto simp: shadow_ok_def)
  have r: "r \<in> set (snap_records snapshot)" "matchesIdentity r identity"
    using found_record [OF assms(5)] by simp_all
  have "requireOwnedState st (Some h) = Inr snapshot" using assms(2,3) by (simp add: owned_state [OF assms(1)])
  moreover obtain t where "findTombstone snapshot identity = Some t"
    using assms(5) found_pair(1) [OF ok, of identity] by (metis not_None_eq)
  ultimately have "reserveDryRunShadow env (Some h) v st = reject_duplicate (Some h) snapshot identity r st"
    by (simp add: reserveDryRunShadow_def bind_op_read bind_op_lift assms(4,5))
  then show ?thesis
    using transition_replace [OF duplicate_keeps [OF ok r] assms(2)] unfolding reject_duplicate_def Let_def
    by fastforce
qed

lemma reserve_refused:
  assumes "shadow_ok env st"
    and "\<not> (\<exists>h. state = Some h \<and> h \<in> set (ds_activeStates st)) \<or> (\<exists>e. parseIdentity env v = Inl e)"
  shows "\<exists>e. reserveDryRunShadow env state v st = (Inl e, st)"
  using assms owned_state [OF assms(1), of state]
  by (cases "requireOwnedState st state") (auto simp: reserveDryRunShadow_def bind_op_read bind_op_lift)

text \<open>The other transitions return, or leave the store as it was.\<close>

lemma transition_effect:
  assumes "shadow_ok env st" "next_status expected to" "transitionRecord env state v expected to st = (r, st')"
  shows "(\<exists>e. r = Inl e \<and> st' = st) \<or> (\<exists>res. r = Inr res \<and> transition_from env state st res st')"
proof (cases "requireOwnedState st state")
  case (Inr snapshot)
  then obtain h where h: "state = Some h" "h \<in> set (ds_activeStates st)" "map_of (ds_stateValues st) h = Some snapshot"
    using owned_state [OF assms(1)] by blast
  have ok: "snapshot_ok env snapshot"
    using assms(1) map_of_SomeD [OF h(3)] by (auto simp: shadow_ok_def)
  show ?thesis
  proof (cases "parseIdentity env v")
    case parsed: (Inr identity)
    show ?thesis
    proof (cases "findRecordIndex snapshot identity")
      case (Some i)
      then have i: "i < length (snap_records snapshot)" "matchesIdentity (snap_records snapshot ! i) identity"
        using found_index by blast+
      note run = transitionRecord_def [of env "Some h" v expected to] bind_op_read bind_op_lift
        Inr [unfolded h(1)] parsed Some Let_def h(1)
      show ?thesis
      proof (cases "rec_status (snap_records snapshot ! i) = expected")
        case True
        let ?current = "snap_records snapshot ! i"
        let ?e = "audit_event identity (nextSequence snapshot) (rec_shadowKey ?current) (Moved to) (Reached expected) to"
        obtain res st'' where moved: "replace_state (Some h)
            \<lparr>snap_records = (snap_records snapshot)[i := advance_record ?current to],
             snap_tombstones = snap_tombstones snapshot, snap_audit = snap_audit snapshot @ [?e]\<rparr>
            (Moved to) (advance_record ?current to) ?e st = (Inr res, st'')"
          "transition_from env (Some h) st res st''"
          using transition_replace [OF advance_keeps [OF ok i, unfolded True, OF assms(2) refl] h(2)] by metis
        show ?thesis
        proof (cases "(r, st') = (Inr res, st'')")
          case False
          then show ?thesis
            using assms(3) moved(1) by (auto simp: run True lift_op_def split: if_splits)
        qed (use moved(2) h(1) in simp)
      next
        case False
        then show ?thesis using assms(3) by (auto simp: run lift_op_def split: if_splits)
      qed
    qed (use assms(3) Inr parsed in \<open>auto simp: transitionRecord_def bind_op_read bind_op_lift lift_op_def\<close>)
  qed (use assms(3) Inr in \<open>auto simp: transitionRecord_def bind_op_read bind_op_lift\<close>)
qed (use assms(3) in \<open>auto simp: transitionRecord_def bind_op_read\<close>)

lemma reserve_effect:
  assumes "shadow_ok env st" "reserveDryRunShadow env state v st = (r, st')"
  shows "(\<exists>e. r = Inl e \<and> st' = st) \<or> (\<exists>res identity. r = Inr res \<and> transition_from env state st res st' \<and>
    parseIdentity env v = Inr identity \<and> matchesIdentity (tr_record res) identity)"
proof (cases "(\<exists>h. state = Some h \<and> h \<in> set (ds_activeStates st)) \<and> (\<exists>identity. parseIdentity env v = Inr identity)")
  case True
  then obtain h identity where h: "state = Some h" "h \<in> set (ds_activeStates st)" "parseIdentity env v = Inr identity"
    by blast
  obtain snapshot where snapshot: "map_of (ds_stateValues st) h = Some snapshot"
    by (rule active_has_value [OF assms(1) h(2)])
  show ?thesis
  proof (cases "findRecord snapshot identity")
    case None
    then show ?thesis using reserve_fresh [OF assms(1) h(2) snapshot h(3)] assms(2) h by fastforce
  next
    case (Some r)
    moreover have "matchesIdentity r identity" using found_record [OF Some] by simp
    ultimately show ?thesis using reserve_known [OF assms(1) h(2) snapshot h(3)] assms(2) h by fastforce
  qed
next
  case False
  then have "\<exists>e. reserveDryRunShadow env state v st = (Inl e, st)"
    by (intro reserve_refused [OF assms(1)]) (metis sum.exhaust)
  then show ?thesis using assms(2) by auto
qed

lemma transition_from_ok: "shadow_ok env st \<Longrightarrow> transition_from env state st res st' \<Longrightarrow> shadow_ok env st'"
  by (auto simp: transition_from_def intro: next_store_ok)

end
