(* ===== verification/DryRunRouter.thy ===== *)
theory DryRunRouter
  imports DryRunShadow
begin

text \<open>
  The router of dry-run orders (\<open>src/order/dryRunOrderRouter.ts\<close>): approvals bound to an authority,
  its intent and a scenario, each good for one order, and the route that verifies the authority,
  consumes the approval and reserves the order in the shadow ledger.
\<close>

section \<open>Records\<close>

datatype DryRunOrderRouterOutcome = DryRunValidated | RouterDuplicateRejected

record DryRunOrderRouterAuditEvent =
  ra_event :: DryRunOrderRouterOutcome
  ra_scenarioRef :: string
  ra_syntheticIntentHash :: string
  ra_shadowKey :: string
  ra_riskAuthorityVerified :: bool
  ra_syntheticApprovalConsumed :: bool
  ra_simulationOnly :: bool
  ra_externalEffect :: string

record DryRunOrderRouterResult =
  rr_state :: nat
  rr_outcome :: DryRunOrderRouterOutcome
  rr_record :: DryRunShadowRecord
  rr_shadowAuditEvent :: DryRunShadowAuditEvent
  rr_auditEvent :: DryRunOrderRouterAuditEvent

record SyntheticDryRunApprovalState =
  ap_scenarioBindingHash :: string
  ap_intent :: reference
  ap_authority :: reference
  ap_evaluatedIntentHash :: string

text \<open>The fields of an input whose own fields are the six of the type.\<close>

record DryRunOrderRouterInput =
  ri_config :: jsval
  ri_scenarioId :: jsval
  ri_intent :: reference
  ri_authority :: reference
  ri_approval :: reference
  ri_shadowState :: reference

record DryRunStore = ShadowStore +
  dr_approvalBrands :: "nat list"
  dr_activeApprovals :: "nat list"
  dr_approvalStates :: "(nat \<times> SyntheticDryRunApprovalState) list"

section \<open>Approvals\<close>

definition createScenarioBindingHash :: "js_env \<Rightarrow> jsval \<Rightarrow> string result" where
  "createScenarioBindingHash env v =
     (if \<not> isString v \<or> \<not> is_scenario_id (string_of v)
      then Inl (Error ''dry-run router scenarioId must use the synthetic scenario_ namespace'')
      else Inr (''sha256:'' @ sha256 env
        (utf8_string (''toss-trading/synthetic-dry-run-approval-scenario/v1'' @ length_prefix (string_of v)))))"

definition createSyntheticDryRunApprovalFixture ::
  "js_env \<Rightarrow> jsval \<Rightarrow> reference \<Rightarrow> reference \<Rightarrow> (DryRunStore, nat) op" where
  "createSyntheticDryRunApprovalFixture env scenarioId intent authority =
     bind_op (lift_op (createScenarioBindingHash env scenarioId)) (\<lambda>scenarioBindingHash.
     bind_op (read_op (\<lambda>st. verifyLiveRiskAuthority env (ds_objects st) authority intent)) (\<lambda>decision st.
       case new_object True st of (approval, st') \<Rightarrow>
         (Inr approval, st'\<lparr>dr_approvalBrands := approval # dr_approvalBrands st',
            dr_activeApprovals := approval # dr_activeApprovals st',
            dr_approvalStates := (approval, \<lparr>ap_scenarioBindingHash = scenarioBindingHash, ap_intent = intent,
              ap_authority = authority, ap_evaluatedIntentHash = lrd_evaluatedIntentHash decision\<rparr>)
              # dr_approvalStates st'\<rparr>)))"

definition requireActiveApproval :: "DryRunStore \<Rightarrow> reference \<Rightarrow> SyntheticDryRunApprovalState result" where
  "requireActiveApproval st value =
     (case value of
        None \<Rightarrow> Inl (Error ''synthetic dry-run approval must be an active fixture minted by the router'')
      | Some object \<Rightarrow>
          if object \<notin> set (st_frozen (ds_objects st)) \<or> object \<notin> set (dr_approvalBrands st) \<or>
             object \<notin> set (dr_activeApprovals st)
          then Inl (Error ''synthetic dry-run approval must be an active fixture minted by the router'')
          else case map_of (dr_approvalStates st) object of
                 None \<Rightarrow> Inl (Error ''synthetic dry-run approval ownership is invalid'')
               | Some state \<Rightarrow> Inr state)"

definition consumeApproval :: "reference \<Rightarrow> (DryRunStore, unit) op" where
  "consumeApproval value st =
     (case value of
        Some object \<Rightarrow>
          if object \<in> set (dr_activeApprovals st)
          then (Inr (), st\<lparr>dr_activeApprovals := removeAll object (dr_activeApprovals st)\<rparr>)
          else (Inl (Error ''synthetic dry-run approval is stale or already consumed''), st)
      | None \<Rightarrow> (Inl (Error ''synthetic dry-run approval is stale or already consumed''), st))"

section \<open>Routing\<close>

text \<open>As for the shadow ledger, but a null prototype is refused.\<close>

definition materialize_router_config :: "jsval \<Rightarrow> string list \<Rightarrow> jsval result" where
  "materialize_router_config v keys =
     (case v of
        JObject ObjectPrototype props \<Rightarrow>
          if list_ex (\<lambda>key. key \<notin> set keys) (map fst props)
          then Inl (Error ''dry-run router input contains unknown fields'')
          else if list_ex (\<lambda>key. \<not> has_own v key) keys
          then Inl (Error ''dry-run router input is missing required fields'')
          else Inr v
      | _ \<Rightarrow> Inl (Error ''dry-run router input must be a plain data object''))"

definition parseSafeConfig :: "jsval \<Rightarrow> jsval result" where
  "parseSafeConfig v =
     bind_result (materialize_router_config v [''BROKER_PROVIDER'', ''TRADING_ENABLED'',
         ''TOSS_OPEN_API_ORDER_MUTATIONS_ENABLED'', ''TOSS_OPEN_API_DRY_RUN'']) (\<lambda>config.
       if get_property config ''BROKER_PROVIDER'' \<noteq> JString ''mock''
       then Inl (Error ''dry-run router requires exact BROKER_PROVIDER=mock'')
       else if get_property config ''TRADING_ENABLED'' \<noteq> JBoolean False
       then Inl (Error ''dry-run router requires exact TRADING_ENABLED=false'')
       else if get_property config ''TOSS_OPEN_API_ORDER_MUTATIONS_ENABLED'' \<noteq> JBoolean False
       then Inl (Error ''dry-run router requires exact TOSS_OPEN_API_ORDER_MUTATIONS_ENABLED=false'')
       else if get_property config ''TOSS_OPEN_API_DRY_RUN'' \<noteq> JBoolean True
       then Inl (Error ''dry-run router requires exact TOSS_OPEN_API_DRY_RUN=true'')
       else Inr config)"

definition shadow_identity :: "jsval \<Rightarrow> string \<Rightarrow> jsval" where
  "shadow_identity scenarioId hash =
     JObject ObjectPrototype [(''scenarioId'', scenarioId), (''syntheticIntentHash'', JString hash)]"

definition router_result :: "DryRunShadowTransitionResult \<Rightarrow> DryRunOrderRouterResult result" where
  "router_result shadow =
     (case tr_auditEvent shadow of
        None \<Rightarrow> Inl (Error ''dry-run router requires a shadow audit event'')
      | Some shadowAuditEvent \<Rightarrow>
          let outcome = (if tr_outcome shadow = Moved ShadowReserved then DryRunValidated
                         else RouterDuplicateRejected);
              record = tr_record shadow
          in Inr \<lparr>rr_state = tr_state shadow, rr_outcome = outcome, rr_record = record,
               rr_shadowAuditEvent = shadowAuditEvent,
               rr_auditEvent = \<lparr>ra_event = outcome, ra_scenarioRef = sh_scenarioId record,
                 ra_syntheticIntentHash = sh_syntheticIntentHash record, ra_shadowKey = rec_shadowKey record,
                 ra_riskAuthorityVerified = True, ra_syntheticApprovalConsumed = True,
                 ra_simulationOnly = True, ra_externalEffect = ''none''\<rparr>\<rparr>)"

text \<open>What \<open>routeDryRunOrder\<close> checks before it changes anything; it returns the decision.\<close>

definition route_checks :: "js_env \<Rightarrow> DryRunOrderRouterInput \<Rightarrow> DryRunStore \<Rightarrow> LiveRiskAuthorityDecision result" where
  "route_checks env input st =
     bind_result (parseSafeConfig (ri_config input)) (\<lambda>_.
     bind_result (createScenarioBindingHash env (ri_scenarioId input)) (\<lambda>scenarioBindingHash.
     bind_result (requireActiveApproval st (ri_approval input)) (\<lambda>approval.
     bind_result (require_that (\<not> (ap_intent approval \<noteq> ri_intent input \<or>
           ap_authority approval \<noteq> ri_authority input \<or>
           ap_scenarioBindingHash approval \<noteq> scenarioBindingHash))
         ''synthetic dry-run approval does not match the exact authority, intent, and scenario'') (\<lambda>_.
     bind_result (verifyLiveRiskAuthority env (ds_objects st) (ri_authority input) (ri_intent input)) (\<lambda>decision.
     bind_result (require_that (lrd_evaluatedIntentHash decision = ap_evaluatedIntentHash approval)
         ''synthetic dry-run approval intent hash mismatch'') (\<lambda>_.
       Inr decision))))))"

definition routeDryRunOrder :: "js_env \<Rightarrow> DryRunOrderRouterInput \<Rightarrow> (DryRunStore, DryRunOrderRouterResult) op" where
  "routeDryRunOrder env input =
     bind_op (read_op (route_checks env input)) (\<lambda>decision.
     bind_op (consumeApproval (ri_approval input)) (\<lambda>_.
     bind_op (reserveDryRunShadow env (ri_shadowState input)
         (shadow_identity (ri_scenarioId input) (lrd_evaluatedIntentHash decision))) (\<lambda>shadow.
       lift_op (router_result shadow))))"

section \<open>The calls of a program\<close>

text \<open>
  A program evaluates authorities, mints approvals and states, moves shadow records and routes
  orders, in any order and with any arguments; it also has objects of its own.
\<close>

datatype DryRunCall =
    Evaluate jsnum jsval
  | OtherObject bool
  | CreateState
  | Reserve reference jsval
  | Complete reference jsval
  | MarkTimeout reference jsval
  | Reconcile reference jsval
  | Approve jsval reference reference
  | Route DryRunOrderRouterInput

datatype DryRunReply =
    Evaluated nat nat LiveRiskAuthorityDecision
  | Created nat
  | Transitioned DryRunShadowTransitionResult
  | Routed DryRunOrderRouterResult

definition map_op :: "('a \<Rightarrow> 'b) \<Rightarrow> ('s, 'a) op \<Rightarrow> ('s, 'b) op" where
  "map_op f m = bind_op m (\<lambda>x. return_op (f x))"

definition evaluate_op :: "js_env \<Rightarrow> jsval \<Rightarrow> ('z ShadowStore_scheme, DryRunReply) op" where
  "evaluate_op env input st =
     (case evaluateLiveRiskAuthority env input (ds_objects st) of
        Inl e \<Rightarrow> (Inl e, st)
      | Inr ((intent, authority, decision), heap) \<Rightarrow>
          (Inr (Evaluated intent authority decision), st\<lparr>ds_objects := heap\<rparr>))"

definition other_object_op :: "bool \<Rightarrow> ('z ShadowStore_scheme, DryRunReply) op" where
  "other_object_op frozen st = (case new_object frozen st of (object, st') \<Rightarrow> (Inr (Created object), st'))"

fun call_op :: "js_env \<Rightarrow> DryRunCall \<Rightarrow> (DryRunStore, DryRunReply) op" where
  "call_op env (Evaluate t input) = evaluate_op (env\<lparr>clock := t\<rparr>) input"
| "call_op env (OtherObject frozen) = other_object_op frozen"
| "call_op env CreateState = map_op Created createDryRunShadowState"
| "call_op env (Reserve state v) = map_op Transitioned (reserveDryRunShadow env state v)"
| "call_op env (Complete state v) = map_op Transitioned (completeDryRunShadow env state v)"
| "call_op env (MarkTimeout state v) = map_op Transitioned (markDryRunShadowTimeoutUnknown env state v)"
| "call_op env (Reconcile state v) = map_op Transitioned (reconcileDryRunShadowNoExternalEffect env state v)"
| "call_op env (Approve scenarioId intent authority) =
     map_op Created (createSyntheticDryRunApprovalFixture env scenarioId intent authority)"
| "call_op env (Route input) = map_op Routed (routeDryRunOrder env input)"

definition initial_store :: DryRunStore where
  "initial_store =
     \<lparr>ds_objects = \<lparr>st_nextObject = 0, st_frozen = [], st_intents = [], st_brands = [], st_states = []\<rparr>,
      ds_stateBrands = [], ds_activeStates = [], ds_stateValues = [],
      dr_approvalBrands = [], dr_activeApprovals = [], dr_approvalStates = []\<rparr>"

end
