(* ===== verification/DryRunRuns.thy ===== *)
theory DryRunRuns
  imports DryRunFacts DryRunRouter LiveAuthorityFacts
begin

text \<open>
  The runs of a program that uses the authorities, the shadow ledger and the router together: what
  the history of its calls and the store have in common.
\<close>

section \<open>The history of the calls\<close>

fun evaluation_of_call :: "DryRunCall \<times> DryRunReply result \<Rightarrow> evaluation list" where
  "evaluation_of_call (Evaluate t input, Inr (Evaluated i a d)) = [(input, i, a, d)]"
| "evaluation_of_call _ = []"

text \<open>The evaluations of a history, the last one first.\<close>

definition evaluations :: "(DryRunCall \<times> DryRunReply result) list \<Rightarrow> evaluation list" where
  "evaluations past = rev (concat (map evaluation_of_call past))"

fun reference_list :: "reference \<Rightarrow> nat list" where
  "reference_list (Some n) = [n]"
| "reference_list None = []"

text \<open>The state and the approval that a call which returned has used.\<close>

fun state_used :: "DryRunCall \<times> DryRunReply result \<Rightarrow> nat list" where
  "state_used (Reserve state v, Inr r) = reference_list state"
| "state_used (Complete state v, Inr r) = reference_list state"
| "state_used (MarkTimeout state v, Inr r) = reference_list state"
| "state_used (Reconcile state v, Inr r) = reference_list state"
| "state_used (Route input, Inr r) = reference_list (ri_shadowState input)"
| "state_used _ = []"

fun approval_used :: "DryRunCall \<times> DryRunReply result \<Rightarrow> nat list" where
  "approval_used (Route input, Inr r) = reference_list (ri_approval input)"
| "approval_used _ = []"

definition states_used :: "(DryRunCall \<times> DryRunReply result) list \<Rightarrow> nat list" where
  "states_used past = concat (map state_used past)"

definition approvals_used :: "(DryRunCall \<times> DryRunReply result) list \<Rightarrow> nat list" where
  "approvals_used past = concat (map approval_used past)"

lemma history_snoc [simp]:
  "evaluations (past @ [e]) = rev (evaluation_of_call e) @ evaluations past"
  "states_used (past @ [e]) = states_used past @ state_used e"
  "approvals_used (past @ [e]) = approvals_used past @ approval_used e"
  by (simp_all add: evaluations_def states_used_def approvals_used_def)

text \<open>A route that returned used a safe configuration and an evaluation that approved the order.\<close>

fun route_approved :: "evaluation list \<Rightarrow> DryRunCall \<times> DryRunReply result \<Rightarrow> bool" where
  "route_approved trace (Route input, Inr (Routed result)) \<longleftrightarrow>
     parseSafeConfig (ri_config input) = Inr (ri_config input) \<and>
     (\<exists>given m n d. ri_intent input = Some m \<and> ri_authority input = Some n \<and> (given, m, n, d) \<in> set trace \<and>
        lrd_approved d \<and> sh_syntheticIntentHash (rr_record result) = lrd_evaluatedIntentHash d)"
| "route_approved trace _ \<longleftrightarrow> True"

lemma route_approved_mono: "route_approved trace e \<Longrightarrow> set trace \<subseteq> set trace' \<Longrightarrow> route_approved trace' e"
  by (induction trace e rule: route_approved.induct) (auto 4 4)

section \<open>The invariant\<close>

text \<open>Handles that can still be used have not been, and no number is used twice.\<close>

definition once_ok :: "nat list \<Rightarrow> nat list \<Rightarrow> nat \<Rightarrow> bool" where
  "once_ok used active n \<longleftrightarrow> distinct used \<and> set used \<inter> set active = {} \<and> set used \<union> set active \<subseteq> {..< n}"

definition run_ok :: "js_env \<Rightarrow> (DryRunCall \<times> DryRunReply result) list \<Rightarrow> DryRunStore \<Rightarrow> bool" where
  "run_ok env past st \<longleftrightarrow>
     authority_run env (ds_objects st) (evaluations past) \<and> shadow_ok env st \<and>
     once_ok (states_used past) (ds_activeStates st) (st_nextObject (ds_objects st)) \<and>
     once_ok (approvals_used past) (dr_activeApprovals st) (st_nextObject (ds_objects st)) \<and>
     (\<forall>e \<in> set past. route_approved (evaluations past) e)"

lemma once_mono: "once_ok used active n \<Longrightarrow> n \<le> n' \<Longrightarrow> once_ok used active n'"
  by (auto simp: once_ok_def)

lemma once_new: "once_ok used active n \<Longrightarrow> n < n' \<Longrightarrow> once_ok used (n # active) n'"
  by (auto simp: once_ok_def)

lemma once_use: "once_ok used active n \<Longrightarrow> h \<in> set active \<Longrightarrow> once_ok (used @ [h]) (removeAll h active) n"
  by (auto simp: once_ok_def)

section \<open>Every call keeps the invariant\<close>

lemma new_object_run:
  assumes "authority_run env (ds_objects st) trace" "new_object frozen st = (n, st')"
  shows "authority_run env (ds_objects st') trace" "n = st_nextObject (ds_objects st)"
    "st_nextObject (ds_objects st') = Suc n"
  using authority_run.other_object [OF assms(1), of frozen] assms(2)
  by (auto simp: new_object_def Let_def cong: AuthorityStore.unfold_congs)

lemma minted_heap:
  "ds_objects (minted_store snapshot st) = (ds_objects st)\<lparr>st_nextObject := Suc (st_nextObject (ds_objects st)),
     st_frozen := st_nextObject (ds_objects st) # st_frozen (ds_objects st)\<rparr>"
  "ds_objects (next_store h snapshot st) = ds_objects (minted_store snapshot st)"
  "ds_activeStates (next_store h snapshot st) =
     removeAll h (st_nextObject (ds_objects st) # ds_activeStates st)"
  "ds_activeStates (minted_store snapshot st) = st_nextObject (ds_objects st) # ds_activeStates st"
  by (simp_all add: minted_store_def next_store_def Let_def)

lemma minted_run: "authority_run env (ds_objects st) trace \<Longrightarrow> authority_run env (ds_objects (minted_store snapshot st)) trace"
  using authority_run.other_object [of env "ds_objects st" trace True] by (simp add: minted_heap)

lemma approvals_kept:
  fixes st :: DryRunStore
  shows "dr_activeApprovals (minted_store snapshot st) = dr_activeApprovals st"
    "dr_activeApprovals (next_store h snapshot st) = dr_activeApprovals st"
  by (simp_all add: minted_store_def next_store_def Let_def)

text \<open>A call that threw and changed nothing, or only consumed an approval.\<close>

lemma threw_ok: "run_ok env past st \<Longrightarrow> run_ok env (past @ [(call, Inl e)]) st"
proof -
  have "evaluation_of_call (call, Inl e) = []" "state_used (call, Inl e) = []" "approval_used (call, Inl e) = []"
    "route_approved t (call, Inl e)" for t
    by (cases call; simp)+
  then show "run_ok env past st \<Longrightarrow> run_ok env (past @ [(call, Inl e)]) st"
    by (simp add: run_ok_def)
qed

lemma moved_ok:
  fixes st st' :: DryRunStore
  assumes "run_ok env past st" "transition_from env state st res st'"
    and "evaluation_of_call e = []" "state_used e = reference_list state"
    and "once_ok (approvals_used past @ approval_used e) (dr_activeApprovals st) (st_nextObject (ds_objects st))"
    and "route_approved (evaluations past) e"
  shows "run_ok env (past @ [e]) st'"
proof -
  obtain h snapshot where h: "state = Some h" "h \<in> set (ds_activeStates st)" "snapshot_ok env snapshot"
    "st' = next_store h snapshot st"
    using assms(2) by (auto simp: transition_from_def)
  let ?n = "st_nextObject (ds_objects st)"
  note ok = assms(1) [unfolded run_ok_def]
  have "once_ok (states_used past) (?n # ds_activeStates st) (Suc ?n)" using ok by (auto intro: once_new)
  then have "once_ok (states_used past @ [h]) (removeAll h (?n # ds_activeStates st)) (Suc ?n)"
    by (rule once_use) (use h(2) in simp)
  then show ?thesis
    using ok h assms(3-6) minted_run [of env st "evaluations past" snapshot] transition_from_ok [OF _ assms(2)]
    by (auto simp: run_ok_def minted_heap approvals_kept intro: once_mono simp del: removeAll.simps)
qed

lemma consumed_approval_ok:
  assumes "run_ok env past st" "n \<in> set (dr_activeApprovals st)"
  shows "run_ok env past (st\<lparr>dr_activeApprovals := removeAll n (dr_activeApprovals st)\<rparr>)"
    and "once_ok (approvals_used past @ [n]) (removeAll n (dr_activeApprovals st)) (st_nextObject (ds_objects st))"
  using assms once_use [OF _ assms(2)] by (auto simp: run_ok_def once_ok_def shadow_ok_def)

lemma map_op_cases: "map_op f m st = (case m st of (Inl e, st') \<Rightarrow> (Inl e, st') | (Inr x, st') \<Rightarrow> (Inr (f x), st'))"
  by (auto simp: map_op_def bind_op_def return_op_def split: prod.splits sum.splits)

lemma transition_call_ok:
  fixes st :: DryRunStore
  assumes "run_ok env past st"
    and "(\<exists>e. r = Inl e \<and> st' = st) \<or> (\<exists>res. r = Inr res \<and> transition_from env state st res st')"
    and "call_op env call st = (case r of Inl e \<Rightarrow> (Inl e, st') | Inr x \<Rightarrow> (Inr (Transitioned x), st'))"
    and "\<And>x. evaluation_of_call (call, Inr (Transitioned x)) = []"
    and "\<And>x. state_used (call, Inr (Transitioned x)) = reference_list state"
    and "\<And>x. approval_used (call, Inr (Transitioned x)) = []"
    and "\<And>x. route_approved (evaluations past) (call, Inr (Transitioned x))"
  shows "run_ok env (past @ [(call, fst (call_op env call st))]) (snd (call_op env call st))"
  using assms(2)
proof (elim disjE exE conjE)
  fix res assume "r = Inr res" "transition_from env state st res st'"
  moreover have "once_ok (approvals_used past) (dr_activeApprovals st) (st_nextObject (ds_objects st))"
    using assms(1) by (simp add: run_ok_def)
  ultimately show ?thesis
    using moved_ok [OF assms(1), of state res st' "(call, Inr (Transitioned res))"] assms(3-7) by simp
qed (use assms(1,3) in \<open>simp add: threw_ok\<close>)

lemma identity_hash:
  "parseIdentity env (shadow_identity scenarioId hash) = Inr identity \<Longrightarrow> sh_syntheticIntentHash identity = hash"
  by (auto simp: parseIdentity_def shadow_identity_def materialize_shadow_input_def has_own_def or_else_def
      bind_result_Inr Let_def split: if_splits)

lemma checked_route:
  assumes "run_ok env past st" "route_checks env input st = Inr decision"
  obtains p m n given where "ri_approval input = Some p" "p \<in> set (dr_activeApprovals st)"
    "parseSafeConfig (ri_config input) = Inr (ri_config input)"
    "ri_intent input = Some m" "ri_authority input = Some n"
    "(given, m, n, decision) \<in> set (evaluations past)" "lrd_approved decision"
proof -
  have ok: "store_ok env (ds_objects st) (evaluations past)"
    using assms(1) by (auto simp: run_ok_def intro: run_store_ok)
  obtain config a where config: "parseSafeConfig (ri_config input) = Inr config"
    and a: "requireActiveApproval st (ri_approval input) = Inr a"
    and verified: "verifyLiveRiskAuthority env (ds_objects st) (ri_authority input) (ri_intent input) = Inr decision"
    using assms(2) by (auto simp: route_checks_def bind_result_Inr)
  have "config = ri_config input"
    using config by (auto simp: parseSafeConfig_def bind_result_Inr materialize_router_config_def
        split: jsval.splits prototype.splits if_splits)
  moreover obtain p where "ri_approval input = Some p" "p \<in> set (dr_activeApprovals st)"
    using a by (auto simp: requireActiveApproval_def split: option.splits if_splits)
  ultimately show thesis
    using that config verified unfolding verify_iff [OF ok] by blast
qed

lemma route_ok:
  assumes "run_ok env past st"
  shows "run_ok env (past @ [(Route input, fst (call_op env (Route input) st))]) (snd (call_op env (Route input) st))"
proof (cases "route_checks env input st")
  case (Inl e)
  then have "call_op env (Route input) st = (Inl e, st)"
    by (simp add: map_op_cases routeDryRunOrder_def bind_op_read)
  then show ?thesis using threw_ok [OF assms] by simp
next
  case (Inr decision)
  obtain p m n given where p: "ri_approval input = Some p" "p \<in> set (dr_activeApprovals st)"
    and approved: "parseSafeConfig (ri_config input) = Inr (ri_config input)"
    "ri_intent input = Some m" "ri_authority input = Some n"
    "(given, m, n, decision) \<in> set (evaluations past)" "lrd_approved decision"
    by (rule checked_route [OF assms Inr])
  let ?st = "st\<lparr>dr_activeApprovals := removeAll p (dr_activeApprovals st)\<rparr>"
  let ?v = "shadow_identity (ri_scenarioId input) (lrd_evaluatedIntentHash decision)"
  note ok = consumed_approval_ok [OF assms p(2)]
  obtain r st' where reserve: "reserveDryRunShadow env (ri_shadowState input) ?v ?st = (r, st')" by fastforce
  have run: "call_op env (Route input) st =
      (case r of Inl e \<Rightarrow> (Inl e, st')
        | Inr shadow \<Rightarrow> (case router_result shadow of Inl e \<Rightarrow> (Inl e, st') | Inr x \<Rightarrow> (Inr (Routed x), st')))"
    using Inr p reserve
    by (simp add: map_op_cases routeDryRunOrder_def bind_op_def read_op_def consumeApproval_def lift_op_def
        split: sum.split)
  have "shadow_ok env ?st" using ok(1) by (simp add: run_ok_def)
  from reserve_effect [OF this reserve] show ?thesis
  proof (elim disjE exE conjE)
    fix res identity
    assume res: "r = Inr res" "transition_from env (ri_shadowState input) ?st res st'"
      "parseIdentity env ?v = Inr identity" "matchesIdentity (tr_record res) identity"
    obtain result where result: "router_result res = Inr result" "rr_record result = tr_record res"
      using res(2) by (auto simp: transition_from_def router_result_def Let_def)
    have "sh_syntheticIntentHash (rr_record result) = lrd_evaluatedIntentHash decision"
      using res(4) identity_hash [OF res(3)] by (simp add: result(2) matchesIdentity_def)
    then have "route_approved (evaluations past) (Route input, Inr (Routed result))"
      using approved by auto
    with moved_ok [OF ok(1) res(2), of "(Route input, Inr (Routed result))"] ok(2) p(1)
    show ?thesis unfolding run by (simp add: res(1) result(1))
  qed (use threw_ok [OF ok(1)] in \<open>unfold run, simp\<close>)
qed

text \<open>A call that only mints objects: the heap has more frozen objects, the handles stay or gain a new one.\<close>

lemma grown_ok:
  assumes "run_ok env past st"
    and "authority_run env (ds_objects st') (rev (evaluation_of_call e) @ evaluations past)"
    and "shadow_ok env st'" "st_nextObject (ds_objects st) \<le> st_nextObject (ds_objects st')"
    and "ds_activeStates st' = ds_activeStates st \<or>
      ds_activeStates st' = st_nextObject (ds_objects st) # ds_activeStates st \<and>
      st_nextObject (ds_objects st) < st_nextObject (ds_objects st')"
    and "dr_activeApprovals st' = dr_activeApprovals st \<or>
      dr_activeApprovals st' = st_nextObject (ds_objects st) # dr_activeApprovals st \<and>
      st_nextObject (ds_objects st) < st_nextObject (ds_objects st')"
    and "state_used e = []" "approval_used e = []" "\<And>t. route_approved t e"
  shows "run_ok env (past @ [e]) st'"
proof -
  have "route_approved (rev (evaluation_of_call e) @ evaluations past) x" if "x \<in> set past" for x
    using assms(1) that by (auto simp: run_ok_def intro: route_approved_mono)
  moreover have "once_ok (states_used past) (ds_activeStates st') (st_nextObject (ds_objects st'))"
    "once_ok (approvals_used past) (dr_activeApprovals st') (st_nextObject (ds_objects st'))"
    using assms(1,4-6) by (auto simp: run_ok_def intro: once_mono once_new)
  ultimately show ?thesis
    using assms by (auto simp: run_ok_def)
qed

lemma shadow_heap:
  assumes "shadow_ok env st" "ds_stateBrands st' = ds_stateBrands st" "ds_activeStates st' = ds_activeStates st"
    and "ds_stateValues st' = ds_stateValues st"
    and "set (st_frozen (ds_objects st)) \<subseteq> set (st_frozen (ds_objects st'))"
    and "set (st_frozen (ds_objects st')) \<subseteq> {..< st_nextObject (ds_objects st')}"
  shows "shadow_ok env st'"
  using assms unfolding shadow_ok_def by (metis order_trans)

lemma frozen_bound: "authority_run env st trace \<Longrightarrow> set (st_frozen st) \<subseteq> {..< st_nextObject st}"
  using run_store_ok unfolding store_ok_def by blast

lemma evaluate_ok:
  assumes "run_ok env past st"
  shows "run_ok env (past @ [(Evaluate t input, fst (call_op env (Evaluate t input) st))])
    (snd (call_op env (Evaluate t input) st))"
proof (cases "evaluateLiveRiskAuthority (env\<lparr>clock := t\<rparr>) input (ds_objects st)")
  case (Inr x)
  then obtain i a d heap where eval: "evaluateLiveRiskAuthority (env\<lparr>clock := t\<rparr>) input (ds_objects st) = Inr ((i, a, d), heap)"
    by (metis prod.exhaust)
  have run: "authority_run env (ds_objects st) (evaluations past)" using assms by (simp add: run_ok_def)
  have next_run: "authority_run env heap ((input, i, a, d) # evaluations past)"
    by (rule authority_run.evaluated [OF run eval])
  obtain intent where heap: "i = st_nextObject (ds_objects st)" "a = Suc i"
    "heap = (ds_objects st)\<lparr>st_nextObject := Suc a, st_frozen := a # i # st_frozen (ds_objects st),
       st_intents := (i, intent) # st_intents (ds_objects st), st_brands := a # st_brands (ds_objects st),
       st_states := (a, \<lparr>as_intentObject = i, as_decision = d\<rparr>) # st_states (ds_objects st)\<rparr>"
    by (rule evaluated_authority [OF eval])
  have "shadow_ok env (st\<lparr>ds_objects := heap\<rparr>)"
    by (rule shadow_heap [of env st]) (use assms frozen_bound [OF next_run] in \<open>auto simp: run_ok_def heap(3)\<close>)
  then show ?thesis
    using grown_ok [OF assms, of "st\<lparr>ds_objects := heap\<rparr>" "(Evaluate t input, Inr (Evaluated i a d))"] next_run heap
    by (simp add: evaluate_op_def eval)
qed (use threw_ok [OF assms] in \<open>simp add: evaluate_op_def\<close>)

lemma minting_ok:
  assumes "run_ok env past st" "new_object frozen st = (n, st1)"
    and "ds_objects st' = ds_objects st1" "ds_stateBrands st' = ds_stateBrands st"
    and "ds_activeStates st' = ds_activeStates st" "ds_stateValues st' = ds_stateValues st"
    and "dr_activeApprovals st' = dr_activeApprovals st \<or> dr_activeApprovals st' = n # dr_activeApprovals st"
    and "evaluation_of_call e = []" "state_used e = []" "approval_used e = []" "\<And>t. route_approved t e"
  shows "run_ok env (past @ [e]) st'"
proof -
  have run: "authority_run env (ds_objects st) (evaluations past)" using assms(1) by (simp add: run_ok_def)
  note new = new_object_run [OF run assms(2)]
  have "set (st_frozen (ds_objects st)) \<subseteq> set (st_frozen (ds_objects st1))"
    using assms(2) by (auto simp: new_object_def Let_def)
  then have "shadow_ok env st'"
    by (intro shadow_heap [of env st st'])
      (use assms(1,3-6) frozen_bound [OF new(1)] in \<open>auto simp: run_ok_def\<close>)
  then show ?thesis
    using grown_ok [OF assms(1), of st' e] new assms(3-11) by auto
qed

lemma create_ok:
  assumes "run_ok env past st"
  shows "run_ok env (past @ [(CreateState, fst (call_op env CreateState st))]) (snd (call_op env CreateState st))"
proof -
  have "shadow_ok env st" "authority_run env (ds_objects st) (evaluations past)" using assms by (simp_all add: run_ok_def)
  note minted = mint_ok [OF empty_snapshot_ok, of st] minted_store_ok [OF this(1) empty_snapshot_ok] minted_run [OF this(2)]
  show ?thesis
    using grown_ok [OF assms, of "minted_store \<lparr>snap_records = [], snap_tombstones = [], snap_audit = []\<rparr> st"
        "(CreateState, Inr (Created (st_nextObject (ds_objects st))))"] minted
    by (simp add: map_op_cases createDryRunShadowState_def minted_heap approvals_kept)
qed

lemma approve_ok:
  fixes scenarioId intent authority
  defines "call \<equiv> Approve scenarioId intent authority"
  assumes "run_ok env past st"
  shows "run_ok env (past @ [(call, fst (call_op env call st))]) (snd (call_op env call st))"
proof (cases "fst (call_op env call st)")
  case (Inl e)
  then have "snd (call_op env call st) = st"
    by (auto simp: call_def map_op_cases createSyntheticDryRunApprovalFixture_def bind_op_lift bind_op_read
        split: sum.splits prod.splits)
  then show ?thesis using threw_ok [OF assms(2)] Inl by simp
next
  case (Inr reply)
  then obtain n st1 where new: "new_object True st = (n, st1)" "reply = Created n"
    "ds_objects (snd (call_op env call st)) = ds_objects st1"
    "ds_stateBrands (snd (call_op env call st)) = ds_stateBrands st"
    "ds_activeStates (snd (call_op env call st)) = ds_activeStates st"
    "ds_stateValues (snd (call_op env call st)) = ds_stateValues st"
    "dr_activeApprovals (snd (call_op env call st)) = n # dr_activeApprovals st"
    by (auto simp: call_def map_op_cases createSyntheticDryRunApprovalFixture_def bind_op_lift bind_op_read
        new_object_def Let_def split: sum.splits prod.splits)
  show ?thesis
    using minting_ok [OF assms(2) new(1), of "snd (call_op env call st)" "(call, Inr reply)"] new Inr
    by (simp add: call_def)
qed

lemma call_ok:
  assumes "run_ok env past st"
  shows "run_ok env (past @ [(call, fst (call_op env call st))]) (snd (call_op env call st))"
proof (cases call)
  case (Evaluate t input)
  then show ?thesis using evaluate_ok [OF assms] by simp
next
  case (OtherObject frozen)
  obtain n st' where "new_object frozen st = (n, st')" by fastforce
  moreover from this have "ds_stateBrands st' = ds_stateBrands st" "ds_activeStates st' = ds_activeStates st"
    "ds_stateValues st' = ds_stateValues st" "dr_activeApprovals st' = dr_activeApprovals st"
    by (auto simp: new_object_def Let_def)
  ultimately show ?thesis
    using minting_ok [OF assms, of frozen n st' st' "(OtherObject frozen, Inr (Created n))"]
    by (simp add: OtherObject other_object_op_def)
next
  case CreateState
  then show ?thesis using create_ok [OF assms] by simp
next
  case (Approve scenarioId intent authority)
  then show ?thesis using approve_ok [OF assms] by simp
next
  case (Route input)
  then show ?thesis using route_ok [OF assms] by simp
next
  case (Reserve state v)
  obtain r st' where run: "reserveDryRunShadow env state v st = (r, st')" by fastforce
  have "shadow_ok env st" using assms by (simp add: run_ok_def)
  from reserve_effect [OF this run] show ?thesis
    by (intro transition_call_ok [OF assms, of r st' state]) (auto simp: Reserve map_op_cases run split: sum.split)
next
  case (Complete state v)
  obtain r st' where run: "transitionRecord env state v ShadowReserved ShadowCompleted st = (r, st')" by fastforce
  have "shadow_ok env st" using assms by (simp add: run_ok_def)
  from transition_effect [OF this _ run] show ?thesis
    by (intro transition_call_ok [OF assms, of r st' state])
      (auto simp: Complete completeDryRunShadow_def map_op_cases run next_status_def split: sum.split)
next
  case (MarkTimeout state v)
  obtain r st' where run: "transitionRecord env state v ShadowReserved ShadowTimeoutUnknown st = (r, st')" by fastforce
  have "shadow_ok env st" using assms by (simp add: run_ok_def)
  from transition_effect [OF this _ run] show ?thesis
    by (intro transition_call_ok [OF assms, of r st' state])
      (auto simp: MarkTimeout markDryRunShadowTimeoutUnknown_def map_op_cases run next_status_def split: sum.split)
next
  case (Reconcile state v)
  obtain r st' where run: "transitionRecord env state v ShadowTimeoutUnknown ShadowReconciledNoExternalEffect st = (r, st')"
    by fastforce
  have "shadow_ok env st" using assms by (simp add: run_ok_def)
  from transition_effect [OF this _ run] show ?thesis
    by (intro transition_call_ok [OF assms, of r st' state])
      (auto simp: Reconcile reconcileDryRunShadowNoExternalEffect_def map_op_cases run next_status_def split: sum.split)
qed

interpretation calls: effect_machine "call_op env" "run_ok env" for env
  by unfold_locales (rule call_ok)

lemma initial_ok: "run_ok env [] initial_store"
  using authority_run.start [of env]
  by (simp add: run_ok_def initial_store_def empty_store_def evaluations_def states_used_def approvals_used_def
      once_ok_def shadow_ok_def)

end
