(* ===== verification/DryRunClaims.thy ===== *)
theory DryRunClaims
  imports DryRunRuns LiveAuthorityClaims
begin

text \<open>
  The properties of dry-run orders: the ledger is what its log says, handles are used once, a routed
  order was approved, and a reservation is decided by the ledger.
\<close>

section \<open>A run\<close>

definition shadow_env :: js_env where
  "shadow_env = sample_env\<lparr>sha256 := \<lambda>_. replicate 64 (CHR ''0'')\<rparr>"

definition sample_scenario :: jsval where
  "sample_scenario = JString ''scenario_a''"

definition sample_config :: jsval where
  "sample_config = JObject ObjectPrototype [(''BROKER_PROVIDER'', JString ''mock''), (''TRADING_ENABLED'', JBoolean False),
     (''TOSS_OPEN_API_ORDER_MUTATIONS_ENABLED'', JBoolean False), (''TOSS_OPEN_API_DRY_RUN'', JBoolean True)]"

definition sample_route :: DryRunOrderRouterInput where
  "sample_route = \<lparr>ri_config = sample_config, ri_scenarioId = sample_scenario, ri_intent = Some 0,
     ri_authority = Some 1, ri_approval = Some 2, ri_shadowState = Some 3\<rparr>"

definition sample_calls :: "DryRunCall list" where
  "sample_calls = [Evaluate (clock sample_env) (sample_live_input sample_live_policy),
     Approve sample_scenario (Some 0) (Some 1), CreateState, Route sample_route]"

lemma shadow_env_clock: "is_finite (clock shadow_env)" "shadow_env\<lparr>clock := clock sample_env\<rparr> = shadow_env"
  using sample_live_rules(1) by (simp_all add: shadow_env_def)

lemma sample_config_safe: "parseSafeConfig sample_config = Inr sample_config"
  by (simp add: parseSafeConfig_def materialize_router_config_def sample_config_def has_own_def or_else_def)

lemma sample_scenario_valid: "is_scenario_id ''scenario_a''"
  by (simp add: is_scenario_id_def is_alnum_def)

lemma zero_digest: "is_sha256_text (''sha256:'' @ replicate 64 (CHR ''0''))"
  by (simp add: is_sha256_text_def is_digit_def list_all_iff)

lemma sample_identity:
  "\<exists>identity. parseIdentity shadow_env (shadow_identity sample_scenario (createLiveOrderIntentHash shadow_env i)) = Inr identity"
  using zero_digest sample_scenario_valid
  by (simp add: parseIdentity_def shadow_identity_def materialize_shadow_input_def has_own_def or_else_def
      sample_scenario_def createLiveOrderIntentHash_def frozen_intent_hash_def shadow_env_def)

text \<open>A route returns when its checks pass and the shadow state can be used.\<close>

lemma route_returns:
  assumes "shadow_ok env st" "route_checks env input st = Inr d" "ri_approval input = Some p"
    and "p \<in> set (dr_activeApprovals st)" "ri_shadowState input = Some h" "h \<in> set (ds_activeStates st)"
    and "map_of (ds_stateValues st) h = Some snapshot" "snap_records snapshot = []"
    and "parseIdentity env (shadow_identity (ri_scenarioId input) (lrd_evaluatedIntentHash d)) = Inr identity"
  shows "\<exists>result st'. call_op env (Route input) st = (Inr (Routed result), st') \<and>
    rr_outcome result = DryRunValidated \<and> rr_state result \<in> set (ds_activeStates st')"
proof -
  let ?st = "st\<lparr>dr_activeApprovals := removeAll p (dr_activeApprovals st)\<rparr>"
  let ?v = "shadow_identity (ri_scenarioId input) (lrd_evaluatedIntentHash d)"
  have "shadow_ok env ?st" using assms(1) by (simp add: shadow_ok_def)
  moreover have "findRecord snapshot identity = None" using assms(8) by (simp add: findRecord_def)
  ultimately obtain res st' where res: "reserveDryRunShadow env (Some h) ?v ?st = (Inr res, st')"
    "transition_from env (Some h) ?st res st'" "tr_outcome res = Moved ShadowReserved"
    using reserve_fresh [of env ?st h snapshot ?v identity] assms(6,7,9) by auto
  obtain result where result: "router_result res = Inr result" "rr_state result = tr_state res"
      "rr_outcome result = DryRunValidated"
    using res(2,3) by (auto simp: transition_from_def router_result_def Let_def)
  have "call_op env (Route input) st = (Inr (Routed result), st')"
    using assms(2-5) res(1) result(1)
    by (simp add: map_op_cases routeDryRunOrder_def bind_op_def read_op_def consumeApproval_def lift_op_def)
  moreover have "set (ds_activeStates st) \<subseteq> {..< st_nextObject (ds_objects st)}"
    using assms(1) unfolding shadow_ok_def by blast
  then have "rr_state result \<in> set (ds_activeStates st')"
    using res(2) assms(6) by (auto simp: transition_from_def minted_heap result(2))
  ultimately show ?thesis using result(3) by blast
qed

text \<open>The store after the first three calls.\<close>

definition prepared_store :: "AuthorityStore \<Rightarrow> string \<Rightarrow> string \<Rightarrow> DryRunStore" where
  "prepared_store heap binding hash =
     minted_store \<lparr>snap_records = [], snap_tombstones = [], snap_audit = []\<rparr>
       (initial_store\<lparr>ds_objects := heap\<lparr>st_nextObject := 3, st_frozen := [2, 1, 0]\<rparr>,
          dr_approvalBrands := [2], dr_activeApprovals := [2],
          dr_approvalStates := [(2, \<lparr>ap_scenarioBindingHash = binding, ap_intent = Some 0, ap_authority = Some 1,
            ap_evaluatedIntentHash = hash\<rparr>)]\<rparr>)"

lemma prepared_ok: "shadow_ok env (prepared_store heap binding hash)"
  unfolding prepared_store_def
  by (rule minted_store_ok [OF _ empty_snapshot_ok]) (auto simp: shadow_ok_def initial_store_def)

lemma prepared_run:
  assumes "evaluateLiveRiskAuthority shadow_env (sample_live_input sample_live_policy) (ds_objects initial_store) =
      Inr ((0, 1, d), heap)" "st_nextObject heap = 2" "st_frozen heap = [1, 0]"
    and "verifyLiveRiskAuthority shadow_env heap (Some 1) (Some 0) = Inr d"
    and "createScenarioBindingHash shadow_env sample_scenario = Inr binding"
  shows "run_ops (call_op shadow_env) (take 3 sample_calls) initial_store =
    ([(sample_calls ! 0, Inr (Evaluated 0 1 d)), (sample_calls ! 1, Inr (Created 2)), (sample_calls ! 2, Inr (Created 3))],
     prepared_store heap binding (lrd_evaluatedIntentHash d))"
  using assms
  by (simp add: sample_calls_def evaluate_op_def shadow_env_clock(2) map_op_cases
      createSyntheticDryRunApprovalFixture_def bind_op_lift bind_op_read new_object_def Let_def
      createDryRunShadowState_def mint_ok [OF empty_snapshot_ok] prepared_store_def initial_store_def)

lemma sample_dry_run:
  obtains trace st result where "run_ops (call_op shadow_env) sample_calls initial_store = (trace, st)"
    "(Route sample_route, Inr (Routed result)) \<in> set trace" "rr_outcome result = DryRunValidated"
    "rr_state result \<in> set (ds_activeStates st)"
proof -
  obtain i a d heap where eval: "evaluateLiveRiskAuthority shadow_env (sample_live_input sample_live_policy)
      (ds_objects initial_store) = Inr ((i, a, d), heap)" "lrd_approved d"
    by (rule sample_evaluated [OF shadow_env_clock(1)])
  have start: "authority_run shadow_env (ds_objects initial_store) []"
    using authority_run.start [of shadow_env] by (simp add: initial_store_def empty_store_def)
  have run: "authority_run shadow_env heap [(sample_live_input sample_live_policy, i, a, d)]"
    by (rule authority_run.evaluated [OF start, where t = "clock sample_env"])
      (simp only: shadow_env_clock(2) eval(1))
  obtain intent where intent: "evaluation_of shadow_env (sample_live_input sample_live_policy) d intent"
    and objects: "i = 0" "a = 1" "st_nextObject heap = 2" "st_frozen heap = [1, 0]"
    by (rule evaluated_authority [of "clock sample_env" shadow_env, unfolded shadow_env_clock(2), OF eval(1)])
      (rule that, auto simp: initial_store_def)
  have hash: "lrd_evaluatedIntentHash d = createLiveOrderIntentHash shadow_env intent"
    using intent by (auto simp: evaluation_of_def freezeAuthorityDecision_def)
  have verified: "verifyLiveRiskAuthority shadow_env h (Some 1) (Some 0) = Inr d"
    if "authority_run shadow_env h [(sample_live_input sample_live_policy, i, a, d)]" for h
    unfolding verify_iff [OF run_store_ok [OF that]] using eval(2) objects by simp
  obtain binding where binding: "createScenarioBindingHash shadow_env sample_scenario = Inr binding"
    using sample_scenario_valid by (simp add: createScenarioBindingHash_def sample_scenario_def)
  let ?st = "prepared_store heap binding (lrd_evaluatedIntentHash d)"
  note before = prepared_run [OF eval(1) [unfolded objects(1,2)] objects(3,4) verified [OF run] binding]
  have "authority_run shadow_env (heap\<lparr>st_nextObject := 3, st_frozen := [2, 1, 0]\<rparr>)
      [(sample_live_input sample_live_policy, i, a, d)]"
    using authority_run.other_object [OF run, of True] objects by simp
  then have "authority_run shadow_env (ds_objects ?st) [(sample_live_input sample_live_policy, i, a, d)]"
    using minted_run [of shadow_env "initial_store\<lparr>ds_objects := heap\<lparr>st_nextObject := 3, st_frozen := [2, 1, 0]\<rparr>\<rparr>"]
    by (simp add: prepared_store_def minted_heap)
  from verified [OF this] have "route_checks shadow_env sample_route ?st = Inr d"
    using binding sample_config_safe
    by (simp add: route_checks_def sample_route_def requireActiveApproval_def require_that_def prepared_store_def
        minted_store_def Let_def initial_store_def)
  from route_returns [OF prepared_ok this] sample_identity [of intent]
  obtain result st' where "call_op shadow_env (Route sample_route) ?st = (Inr (Routed result), st')"
    "rr_outcome result = DryRunValidated" "rr_state result \<in> set (ds_activeStates st')"
    by (fastforce simp: sample_route_def prepared_store_def minted_store_def Let_def initial_store_def hash)
  moreover have "run_ops (call_op shadow_env) sample_calls initial_store =
      run_ops (call_op shadow_env) (take 3 sample_calls @ [Route sample_route]) initial_store"
    by (simp add: sample_calls_def)
  ultimately have "\<exists>trace. run_ops (call_op shadow_env) sample_calls initial_store = (trace, st') \<and>
      (Route sample_route, Inr (Routed result)) \<in> set trace"
    by (simp add: run_ops_append before del: call_op.simps)
  then show thesis using that \<open>rr_outcome result = DryRunValidated\<close> \<open>rr_state result \<in> set (ds_activeStates st')\<close>
    by blast
qed

section \<open>The properties\<close>

text \<open>
  C10. The ledger is what its log says.  In every snapshot the module keeps, after any calls, each
  record has a permanent tombstone with its key beside it and no identity has two records; the
  history of a record is the moves of its identity in the audit log, one of the four legal ones,
  with its last entry as status and its length as version; the events are numbered from 1, each is
  of a recorded identity and none has an external effect.  So an identity is reserved at most once.
\<close>

theorem ledger_follows_log:
  assumes "run_ops (call_op env) calls initial_store = (trace, st)" and "(h, snapshot) \<in> set (ds_stateValues st)"
  shows "list_all2 (\<lambda>r t. matchesIdentity t r \<and> tomb_permanent t \<and> tomb_shadowKey t = rec_shadowKey r \<and>
        rec_shadowKey r = createShadowKey env r) (snap_records snapshot) (snap_tombstones snapshot) \<and>
    distinct (map (\<lambda>r. (sh_scenarioId r, sh_syntheticIntentHash r)) (snap_records snapshot)) \<and>
    (\<forall>r \<in> set (snap_records snapshot).
       rec_stateHistory r = ShadowCreated # map (\<lambda>e. Reached (aud_toStatus e))
         (filter (\<lambda>e. matchesIdentity e r \<and> aud_event e \<noteq> ShadowDuplicateRejected) (snap_audit snapshot)) \<and>
       legal_history (rec_stateHistory r) \<and> last (rec_stateHistory r) = Reached (rec_status r) \<and>
       length (rec_stateHistory r) = Suc (rec_version r)) \<and>
    map aud_sequence (snap_audit snapshot) = [1..< Suc (length (snap_audit snapshot))] \<and>
    (\<forall>e \<in> set (snap_audit snapshot). (\<exists>r \<in> set (snap_records snapshot). matchesIdentity e r) \<and>
       aud_externalEffect e = ''none'')"
proof -
  have "run_ok env trace st" by (rule calls.reached_good [OF initial_ok assms(1)])
  then have ok: "snapshot_ok env snapshot" using assms(2) by (auto simp: run_ok_def shadow_ok_def)
  have "distinct (map (\<lambda>r. (sh_scenarioId r, sh_syntheticIntentHash r)) rs)" if "distinct (map identityIndexKey rs)" for rs
    using that by (induction rs) (auto simp: identityIndexKey_def)
  moreover have "list_all2 (buried env) rs ts \<Longrightarrow> list_all2 (\<lambda>r t. matchesIdentity t r \<and> tomb_permanent t \<and>
      tomb_shadowKey t = rec_shadowKey r \<and> rec_shadowKey r = createShadowKey env r) rs ts" for rs ts
    by (erule list_all2_mono) (simp add: buried_def)
  ultimately show ?thesis
    using ok by (auto simp: snapshot_ok_def ledger_ok_def log_ok_def record_logged_def moves_def)
qed

theorem ledger_follows_log_witness:
  "\<exists>trace st h snapshot. run_ops (call_op shadow_env) sample_calls initial_store = (trace, st) \<and>
     (h, snapshot) \<in> set (ds_stateValues st) \<and> (\<forall>r \<in> set (snap_records snapshot). legal_history (rec_stateHistory r))"
proof (rule sample_dry_run)
  fix trace st result
  assume run: "run_ops (call_op shadow_env) sample_calls initial_store = (trace, st)"
    and active: "rr_state result \<in> set (ds_activeStates st)"
  have "shadow_ok shadow_env st" using calls.reached_good [OF initial_ok run] by (simp add: run_ok_def)
  then obtain snapshot where "map_of (ds_stateValues st) (rr_state result) = Some snapshot"
    by (rule active_has_value [OF _ active])
  from map_of_SomeD [OF this] show ?thesis using run ledger_follows_log [OF run] by blast
qed

text \<open>
  C11. Handles are used once.  Over any calls, no shadow state and no approval is used by two calls
  that returned, and one that was used is no longer active: a ledger has one line of states, and an
  approval is good for one order.
\<close>

theorem handles_used_once:
  assumes "run_ops (call_op env) calls initial_store = (trace, st)"
  shows "distinct (states_used trace) \<and> distinct (approvals_used trace) \<and>
    set (states_used trace) \<inter> set (ds_activeStates st) = {} \<and>
    set (approvals_used trace) \<inter> set (dr_activeApprovals st) = {}"
  using calls.reached_good [OF initial_ok assms] by (simp add: run_ok_def once_ok_def)

theorem handles_used_once_witness:
  "\<exists>trace st. run_ops (call_op shadow_env) sample_calls initial_store = (trace, st) \<and>
     2 \<in> set (approvals_used trace) \<and> 2 \<notin> set (dr_activeApprovals st)"
proof (rule sample_dry_run)
  fix trace st result
  assume run: "run_ops (call_op shadow_env) sample_calls initial_store = (trace, st)"
    and routed: "(Route sample_route, Inr (Routed result)) \<in> set trace"
  have "2 \<in> set (approvals_used trace)"
    using routed by (force simp: approvals_used_def sample_route_def)
  then show ?thesis using run handles_used_once [OF run] by blast
qed

text \<open>
  C9. A routed order was approved.  Over any calls, a route that returned had the safe
  configuration, with trading and order mutations off and the dry run on, and an evaluation of the
  live risk engine had minted the authority for the very intent routed, found no reject code and
  given the hash under which the order is recorded.
\<close>

theorem routed_order_was_approved:
  assumes "run_ops (call_op env) calls initial_store = (trace, st)"
    and "(Route input, Inr (Routed result)) \<in> set trace"
  shows "get_property (ri_config input) ''BROKER_PROVIDER'' = JString ''mock'' \<and>
    get_property (ri_config input) ''TRADING_ENABLED'' = JBoolean False \<and>
    get_property (ri_config input) ''TOSS_OPEN_API_ORDER_MUTATIONS_ENABLED'' = JBoolean False \<and>
    get_property (ri_config input) ''TOSS_OPEN_API_DRY_RUN'' = JBoolean True \<and>
    (\<exists>given m n d t engineInput. ri_intent input = Some m \<and> ri_authority input = Some n \<and>
       (given, m, n, d) \<in> set (evaluations trace) \<and>
       authority_engine_input (env\<lparr>clock := t\<rparr>) given = Inr engineInput \<and>
       live_reject_codes (env\<lparr>clock := t\<rparr>) engineInput = [] \<and>
       sh_syntheticIntentHash (rr_record result) =
         createLiveOrderIntentHash env (get_property engineInput ''intent''))"
proof -
  have ok: "run_ok env trace st" by (rule calls.reached_good [OF initial_ok assms(1)])
  then have "route_approved (evaluations trace) (Route input, Inr (Routed result))"
    using assms(2) by (simp only: run_ok_def)
  then obtain given m n d where safe: "parseSafeConfig (ri_config input) = Inr (ri_config input)"
    and route: "ri_intent input = Some m" "ri_authority input = Some n" "(given, m, n, d) \<in> set (evaluations trace)"
      "lrd_approved d" "sh_syntheticIntentHash (rr_record result) = lrd_evaluatedIntentHash d"
    by auto
  have "store_ok env (ds_objects st) (evaluations trace)" using ok by (auto simp: run_ok_def intro: run_store_ok)
  from store_trace(4) [OF this route(3)] obtain t engineInput where
    "authority_engine_input (env\<lparr>clock := t\<rparr>) given = Inr engineInput"
    "live_reject_codes (env\<lparr>clock := t\<rparr>) engineInput = []"
    "lrd_evaluatedIntentHash d = createLiveOrderIntentHash env (get_property engineInput ''intent'')"
    using route(4) approved_no_codes by (fastforce simp: evaluation_of_def freezeAuthorityDecision_def)
  then show ?thesis
    using safe route by (auto simp: parseSafeConfig_def bind_result_Inr materialize_router_config_def
        split: jsval.splits prototype.splits if_splits)
qed

theorem routed_order_was_approved_witness:
  "\<exists>trace st result t engineInput. run_ops (call_op shadow_env) sample_calls initial_store = (trace, st) \<and>
     (Route sample_route, Inr (Routed result)) \<in> set trace \<and>
     live_reject_codes (shadow_env\<lparr>clock := t\<rparr>) engineInput = []"
proof (rule sample_dry_run)
  fix trace st result
  assume run: "run_ops (call_op shadow_env) sample_calls initial_store = (trace, st)"
    "(Route sample_route, Inr (Routed result)) \<in> set trace"
  then show ?thesis using routed_order_was_approved [OF run] by blast
qed

text \<open>
  C12. The ledger decides a reservation.  In any store the calls reach, a reservation returns exactly
  when its state is active and its identity is well formed; it is a new reservation exactly when the
  snapshot of the state has no record of the identity, and then the record is added, else the records
  stay as they are; when it throws, the store is as it was.
\<close>

theorem ledger_decides_reservation:
  assumes "run_ops (call_op env) calls initial_store = (trace, st)"
  shows "((\<exists>res st'. reserveDryRunShadow env state v st = (Inr res, st')) \<longleftrightarrow>
      (\<exists>h identity. state = Some h \<and> h \<in> set (ds_activeStates st) \<and> parseIdentity env v = Inr identity)) \<and>
    (\<forall>e st'. reserveDryRunShadow env state v st = (Inl e, st') \<longrightarrow> st' = st) \<and>
    (\<forall>res st'. reserveDryRunShadow env state v st = (Inr res, st') \<longrightarrow>
      (\<exists>h snapshot identity snapshot'. state = Some h \<and> map_of (ds_stateValues st) h = Some snapshot \<and>
         parseIdentity env v = Inr identity \<and> map_of (ds_stateValues st') (tr_state res) = Some snapshot' \<and>
         (if \<exists>r \<in> set (snap_records snapshot). matchesIdentity r identity
          then tr_outcome res = ShadowDuplicateRejected \<and> snap_records snapshot' = snap_records snapshot
          else tr_outcome res = Moved ShadowReserved \<and>
            snap_records snapshot' = snap_records snapshot @ [tr_record res])))"
proof (cases "\<exists>h identity. state = Some h \<and> h \<in> set (ds_activeStates st) \<and> parseIdentity env v = Inr identity")
  case True
  have ok: "shadow_ok env st" using calls.reached_good [OF initial_ok assms] by (simp add: run_ok_def)
  from True obtain h identity where h: "state = Some h" "h \<in> set (ds_activeStates st)" "parseIdentity env v = Inr identity"
    by blast
  obtain snapshot where snapshot: "map_of (ds_stateValues st) h = Some snapshot" by (rule active_has_value [OF ok h(2)])
  show ?thesis
  proof (cases "findRecord snapshot identity")
    case None
    then have "\<not> (\<exists>r \<in> set (snap_records snapshot). matchesIdentity r identity)"
      by (auto simp: findRecord_def find_None_iff)
    with reserve_fresh [OF ok h(2) snapshot h(3) None] h snapshot show ?thesis by auto
  next
    case (Some r)
    then have "\<exists>r \<in> set (snap_records snapshot). matchesIdentity r identity" using found_record by blast
    with reserve_known [OF ok h(2) snapshot h(3) Some] h snapshot show ?thesis by auto
  qed
next
  case False
  have "shadow_ok env st" using calls.reached_good [OF initial_ok assms] by (simp add: run_ok_def)
  then obtain e where "reserveDryRunShadow env state v st = (Inl e, st)"
    using reserve_refused [of env st state v] False by (metis sum.exhaust)
  with False show ?thesis by auto
qed

theorem ledger_decides_reservation_witness:
  "\<exists>trace st. run_ops (call_op shadow_env) sample_calls initial_store = (trace, st) \<and>
     (\<exists>e. reserveDryRunShadow shadow_env None JUndefined st = (Inl e, st))"
proof (rule sample_dry_run)
  fix trace st result
  assume run: "run_ops (call_op shadow_env) sample_calls initial_store = (trace, st)"
  obtain r st' where "reserveDryRunShadow shadow_env None JUndefined st = (r, st')" by fastforce
  then show ?thesis
    using ledger_decides_reservation [OF run, of None JUndefined] run by (cases r) auto
qed

end
