(* ===== verification/CanonicalJson.thy ===== *)
theory CanonicalJson
  imports JsValue PaperExposure JsUnicode
begin

text \<open>
  The canonical text of a value and the hash that identifies a record
  (\<open>src/portfolio/runtimePolicyContracts.ts\<close>): the keys of every object are sorted, then the value
  is written by \<open>JSON.stringify\<close> and its digest taken.  No key is an array index, so that objects
  keep the order of their properties.  The schema library reads the properties of an object of any
  prototype and returns plain objects with the same properties, so that a value which passes a
  strict schema equals its own parse, \<open>isDeepStrictEqual(value, parsed)\<close>, exactly when every object in
  it has the prototype of plain objects.
\<close>

section \<open>JSON text\<close>

definition hex_char :: "nat \<Rightarrow> char" where
  "hex_char d = (if d < 10 then char_of (48 + d) else char_of (87 + d))"

definition json_char :: "char \<Rightarrow> string" where
  "json_char c =
     (let n = of_char c :: nat in
      if n = 34 then [CHR 0x5C, CHR 0x22] else if n = 92 then [CHR 0x5C, CHR 0x5C]
      else if n = 8 then [CHR 0x5C, CHR ''b''] else if n = 9 then [CHR 0x5C, CHR ''t'']
      else if n = 10 then [CHR 0x5C, CHR ''n''] else if n = 12 then [CHR 0x5C, CHR ''f'']
      else if n = 13 then [CHR 0x5C, CHR ''r'']
      else if n < 32 then [CHR 0x5C, CHR ''u'', CHR ''0'', CHR ''0'', hex_char (n div 16), hex_char (n mod 16)]
      else [c])"

definition json_string :: "string \<Rightarrow> string" where
  "json_string s = CHR 0x22 # concat (map json_char s) @ [CHR 0x22]"

fun comma_separated :: "string list \<Rightarrow> string" where
  "comma_separated [] = []"
| "comma_separated [s] = s"
| "comma_separated (s # t # ts) = s @ CHR '','' # comma_separated (t # ts)"

text \<open>What is omitted from an object is \<open>null\<close> in an array.\<close>

fun json_text :: "js_env \<Rightarrow> jsval \<Rightarrow> string option" where
  "json_text env JUndefined = None"
| "json_text env JFunction = None"
| "json_text env JNull = Some ''null''"
| "json_text env (JBoolean b) = Some (if b then ''true'' else ''false'')"
| "json_text env (JNumber x) = Some (if is_finite x then number_text env x else ''null'')"
| "json_text env JNegativeZero = Some ''0''"
| "json_text env (JString s) = Some (json_string s)"
| "json_text env (JDate t) = Some (case t of Fin ms \<Rightarrow> json_string (iso_string \<lfloor>ms\<rfloor>) | _ \<Rightarrow> ''null'')"
| "json_text env (JArray xs) =
     Some (CHR ''['' # comma_separated (map (\<lambda>x. or_else (json_text env x) ''null'') xs) @ '']'')"
| "json_text env (JObject proto ps) =
     Some (CHR ''{'' # comma_separated (concat (map (\<lambda>p. case json_text env (snd p) of
        None \<Rightarrow> [] | Some t \<Rightarrow> [json_string (fst p) @ CHR '':'' # t]) ps)) @ ''}'')"

fun canonicalValue :: "jsval \<Rightarrow> jsval" where
  "canonicalValue (JArray xs) = JArray (map canonicalValue xs)"
| "canonicalValue (JObject proto ps) =
     JObject ObjectPrototype (sort_by (\<lambda>p q. str_le (fst p) (fst q)) (map (\<lambda>p. (fst p, canonicalValue (snd p))) ps))"
| "canonicalValue (JDate t) = JObject ObjectPrototype []"
| "canonicalValue v = v"

definition canonicalJson :: "js_env \<Rightarrow> jsval \<Rightarrow> string option" where
  "canonicalJson env v = json_text env (canonicalValue v)"

definition hashCanonicalPayload :: "js_env \<Rightarrow> jsval \<Rightarrow> string result" where
  "hashCanonicalPayload env v =
     (case canonicalJson env v of
        None \<Rightarrow> Inl (Error ''ERR_INVALID_ARG_TYPE'')
      | Some t \<Rightarrow>
          (let hash = ''sha256:'' @ sha256 env (utf8_string t) in
           if is_sha256_text hash then Inr hash else Inl (Error ''ZodError'')))"

definition hashDerivedId :: "string \<Rightarrow> string \<Rightarrow> string" where
  "hashDerivedId prefix hash = prefix @ ''_'' @ drop 7 hash"

section \<open>Schemas of the fields\<close>

definition sha256HashSchema :: "jsval \<Rightarrow> bool" where
  "sha256HashSchema v \<longleftrightarrow> isString v \<and> is_sha256_text (string_of v)"

definition strategyBucketSchema :: "jsval \<Rightarrow> bool" where
  "strategyBucketSchema v \<longleftrightarrow>
     v \<in> {JString ''long_term'', JString ''swing'', JString ''short_term'', JString ''intraday'', JString ''hedge''}"

text \<open>A text matches a template in which \<open>d\<close> stands for a digit.\<close>

definition fits :: "string \<Rightarrow> string \<Rightarrow> bool" where
  "fits template s \<longleftrightarrow> list_all2 (\<lambda>t c. if t = CHR ''d'' then is_digit c else t = c) template s"

definition is_offset_date_time :: "string \<Rightarrow> bool" where
  "is_offset_date_time s \<longleftrightarrow> fits ''dddd-dd-ddTdd:dd:dd'' (take 19 s) \<and>
     (let rest = drop 19 s;
          offset = (case rest of CHR ''.'' # r \<Rightarrow>
                       (let n = length (takeWhile is_digit r) in
                        if 1 \<le> n \<and> n \<le> 3 then drop n r else rest)
                     | _ \<Rightarrow> rest)
      in offset = ''Z'' \<or> fits ''+dd:dd'' offset \<or> fits ''-dd:dd'' offset)"

definition isValidCalendarDate :: "js_env \<Rightarrow> string \<Rightarrow> bool" where
  "isValidCalendarDate env value =
     (case date_parse env (value @ ''T00:00:00.000Z'') of
        Fin t \<Rightarrow> take 10 (iso_string \<lfloor>t\<rfloor>) = value | _ \<Rightarrow> False)"

definition offsetQualifiedIsoDateTimeSchema :: "js_env \<Rightarrow> jsval \<Rightarrow> bool" where
  "offsetQualifiedIsoDateTimeSchema env v \<longleftrightarrow> isString v \<and>
     is_finite (date_parse env (string_of v)) \<and> is_offset_date_time (string_of v) \<and>
     fits ''dddd-dd-dd'' (take 10 (string_of v)) \<and> isValidCalendarDate env (take 10 (string_of v))"

text \<open>A strict object has exactly the keys of the schema.\<close>

fun strict_object :: "string list \<Rightarrow> jsval \<Rightarrow> bool" where
  "strict_object keys (JObject proto ps) \<longleftrightarrow> distinct (map fst ps) \<and> set (map fst ps) = set keys"
| "strict_object keys _ \<longleftrightarrow> False"

text \<open>The prototypes of the objects in a value are those of its parse.\<close>

fun equals_parse :: "jsval \<Rightarrow> bool" where
  "equals_parse (JArray xs) \<longleftrightarrow> (\<forall>x \<in> set xs. equals_parse x)"
| "equals_parse (JObject proto ps) \<longleftrightarrow> proto = ObjectPrototype \<and> (\<forall>p \<in> set ps. equals_parse (snd p))"
| "equals_parse _ \<longleftrightarrow> True"

text \<open>\<open>const { a, b, ...rest } = value\<close>.\<close>

definition omit_keys :: "string list \<Rightarrow> jsval \<Rightarrow> jsval" where
  "omit_keys keys v = JObject ObjectPrototype (filter (\<lambda>p. fst p \<notin> set keys) (object_entries v))"

end
