(* ===== verification/OpeningCapacity.thy ===== *)
theory OpeningCapacity
  imports CanonicalJson "HOL-Library.AList"
begin

text \<open>
  The ledger of reservations of opening capacity: the events of a reservation
  (\<open>src/portfolio/openingCapacityReservationEvent.ts\<close>) and the replay of one ledger from version zero
  (\<open>src/portfolio/openingCapacityReservationEventReplay.ts\<close>).  An event arrives as a value of unknown
  type, passes a strict schema, has to equal its own parse, is hashed again and narrowed to a record; a
  failed schema is the error \<open>ZodError\<close>.  Freezing is not tracked.
\<close>

section \<open>Events\<close>

datatype ReservationSource =
    ManualSource (manualCapacityReservationId: string) (manualCapacityReservationHash: string)
  | SelectorSource (candidateAssignmentSetId: string) (candidateAssignmentSetHash: string)
      (candidateAssignmentId: string) (reservedSlotOrdinal: jsnum)

text \<open>A mandate is its identifier and its hash.\<close>

type_synonym mandate = "string \<times> string"

datatype ReleaseOrigin =
    RequestCancelled (requestOrManualEventId: string)
  | MandateTerminal (terminalMandate: mandate) (mandateEventId: string) (mandateEventHash: string)

record CapacityFill =
  cf_fillId :: string
  cf_paperFillRecordId :: string
  cf_paperFillHash :: string

text \<open>The first component of every variant but the first is the previous event of the reservation.\<close>

datatype CapacityEventBody =
    Reserved ReservationSource
  | BoundToMandate string mandate
  | PartiallyConsumed string mandate CapacityFill
  | ConsumedByPosition string mandate CapacityFill string
  | Released string ReleaseOrigin string

record OpeningCapacityReservationEvent =
  ce_reservationId :: string
  ce_reservationHash :: string
  ce_portfolioId :: string
  ce_policyHash :: string
  ce_bucket :: string
  ce_remainingReservedNotionalKrw :: jsnum
  ce_occupiesNewPositionSlot :: bool
  ce_capacityLedgerVersion :: jsnum
  ce_asOf :: string
  ce_capacityReservationEventId :: string
  ce_capacityReservationEventHash :: string
  ce_createdAt :: string
  ce_body :: CapacityEventBody

subsection \<open>Schemas\<close>

fun capacity_identifier :: "jsval \<Rightarrow> bool" where
  "capacity_identifier (JString s) \<longleftrightarrow> 1 \<le> length s \<and> length s \<le> 160 \<and> trim s = s"
| "capacity_identifier _ \<longleftrightarrow> False"

fun capacity_count :: "jsval \<Rightarrow> bool" where
  "capacity_count (JNumber x) \<longleftrightarrow> is_safe_integer x \<and> jle (Fin 0) x"
| "capacity_count _ \<longleftrightarrow> False"

definition positiveAmount :: "jsval \<Rightarrow> bool" where
  "positiveAmount v \<longleftrightarrow> capacity_count v \<and> jlt (Fin 0) (number_of v)"

fun capacity_timestamp :: "js_env \<Rightarrow> jsval \<Rightarrow> bool" where
  "capacity_timestamp env (JString s) \<longleftrightarrow> offsetQualifiedIsoDateTimeSchema env (JString s) \<and>
     to_iso (date_parse env s) = Inr s"
| "capacity_timestamp env _ \<longleftrightarrow> False"

definition reservation_source_schema :: "jsval \<Rightarrow> bool" where
  "reservation_source_schema v \<longleftrightarrow>
     (if get_property v ''sourceKind'' = JString ''manual'' then
        strict_object [''sourceKind'', ''manualCapacityReservationId'', ''manualCapacityReservationHash''] v \<and>
        capacity_identifier (get_property v ''manualCapacityReservationId'') \<and>
        sha256HashSchema (get_property v ''manualCapacityReservationHash'')
      else get_property v ''sourceKind'' = JString ''selector'' \<and>
        strict_object [''sourceKind'', ''candidateAssignmentSetId'', ''candidateAssignmentSetHash'',
          ''candidateAssignmentId'', ''reservedSlotOrdinal''] v \<and>
        capacity_identifier (get_property v ''candidateAssignmentSetId'') \<and>
        sha256HashSchema (get_property v ''candidateAssignmentSetHash'') \<and>
        capacity_identifier (get_property v ''candidateAssignmentId'') \<and>
        capacity_count (get_property v ''reservedSlotOrdinal''))"

definition mandate_schema :: "jsval \<Rightarrow> bool" where
  "mandate_schema v \<longleftrightarrow> capacity_identifier (get_property v ''mandateId'') \<and>
     sha256HashSchema (get_property v ''mandateHash'')"

definition release_origin_schema :: "jsval \<Rightarrow> bool" where
  "release_origin_schema v \<longleftrightarrow>
     (if get_property v ''originKind'' = JString ''request_cancelled'' then
        strict_object [''originKind'', ''requestOrManualEventId''] v \<and>
        capacity_identifier (get_property v ''requestOrManualEventId'')
      else get_property v ''originKind'' = JString ''mandate_terminal'' \<and>
        strict_object [''originKind'', ''mandateId'', ''mandateHash'', ''mandateEventId'', ''mandateEventHash''] v \<and>
        mandate_schema v \<and> capacity_identifier (get_property v ''mandateEventId'') \<and>
        sha256HashSchema (get_property v ''mandateEventHash''))"

definition fill_schema :: "jsval \<Rightarrow> bool" where
  "fill_schema v \<longleftrightarrow> capacity_identifier (get_property v ''fillId'') \<and>
     capacity_identifier (get_property v ''paperFillRecordId'') \<and>
     sha256HashSchema (get_property v ''paperFillHash'')"

definition base_keys :: "string list" where
  "base_keys = [''reservationId'', ''reservationHash'', ''portfolioId'', ''policyHash'', ''bucket'',
     ''remainingReservedNotionalKrw'', ''occupiesNewPositionSlot'', ''capacityLedgerVersion'', ''asOf'', ''eventType'']"

definition base_schema :: "js_env \<Rightarrow> jsval \<Rightarrow> bool" where
  "base_schema env v \<longleftrightarrow>
     capacity_identifier (get_property v ''reservationId'') \<and> sha256HashSchema (get_property v ''reservationHash'') \<and>
     capacity_identifier (get_property v ''portfolioId'') \<and> sha256HashSchema (get_property v ''policyHash'') \<and>
     strategyBucketSchema (get_property v ''bucket'') \<and>
     isBoolean (get_property v ''occupiesNewPositionSlot'') \<and>
     capacity_count (get_property v ''capacityLedgerVersion'') \<and> capacity_timestamp env (get_property v ''asOf'')"

definition identity_keys :: "string list" where
  "identity_keys = [''capacityReservationEventId'', ''capacityReservationEventHash'', ''createdAt'']"

definition identity_schema :: "js_env \<Rightarrow> jsval \<Rightarrow> bool" where
  "identity_schema env v \<longleftrightarrow> capacity_identifier (get_property v ''capacityReservationEventId'') \<and>
     sha256HashSchema (get_property v ''capacityReservationEventHash'') \<and>
     capacity_timestamp env (get_property v ''createdAt'')"

text \<open>The discriminated union of the five variants, with or without the identity of an event.\<close>

definition capacity_variant_schema :: "js_env \<Rightarrow> string list \<Rightarrow> jsval \<Rightarrow> bool" where
  "capacity_variant_schema env more_keys v \<longleftrightarrow>
     (let kind = get_property v ''eventType''; remaining = get_property v ''remainingReservedNotionalKrw'';
          keys = (\<lambda>more. strict_object (base_keys @ more_keys @ more) v);
          predecessor = capacity_identifier (get_property v ''previousCapacityReservationEventId'');
          no_slot = (get_property v ''occupiesNewPositionSlot'' = JBoolean False)
      in base_schema env v \<and>
        (if kind = JString ''reserved'' then
           keys [''reservationSource''] \<and> positiveAmount remaining \<and>
           reservation_source_schema (get_property v ''reservationSource'')
         else if kind = JString ''bound_to_mandate'' then
           keys [''previousCapacityReservationEventId'', ''mandateId'', ''mandateHash''] \<and> predecessor \<and>
           mandate_schema v \<and> positiveAmount remaining
         else if kind = JString ''partially_consumed'' then
           keys [''previousCapacityReservationEventId'', ''mandateId'', ''mandateHash'',
             ''fillId'', ''paperFillRecordId'', ''paperFillHash''] \<and> predecessor \<and>
           mandate_schema v \<and> fill_schema v \<and> positiveAmount remaining \<and> no_slot
         else if kind = JString ''consumed_by_position'' then
           keys [''previousCapacityReservationEventId'', ''mandateId'', ''mandateHash'',
             ''fillId'', ''paperFillRecordId'', ''paperFillHash'', ''resultingPositionRef''] \<and> predecessor \<and>
           mandate_schema v \<and> fill_schema v \<and>
           capacity_identifier (get_property v ''resultingPositionRef'') \<and> capacity_count remaining \<and> no_slot
         else kind = JString ''released'' \<and>
           keys [''previousCapacityReservationEventId'', ''releaseOrigin'', ''releaseReasonCode''] \<and> predecessor \<and>
           release_origin_schema (get_property v ''releaseOrigin'') \<and>
           capacity_identifier (get_property v ''releaseReasonCode'') \<and> remaining \<in> {JNumber (Fin 0), JNegativeZero} \<and> no_slot))"

definition openingCapacityReservationEventPayloadSchema :: "js_env \<Rightarrow> jsval \<Rightarrow> bool" where
  "openingCapacityReservationEventPayloadSchema env v \<longleftrightarrow> capacity_variant_schema env [] v"

definition openingCapacityReservationEventSchema :: "js_env \<Rightarrow> jsval \<Rightarrow> bool" where
  "openingCapacityReservationEventSchema env v \<longleftrightarrow>
     capacity_variant_schema env identity_keys v \<and> identity_schema env v"

subsection \<open>Narrowing\<close>

definition text_at :: "jsval \<Rightarrow> string \<Rightarrow> string" where
  "text_at v key = string_of (get_property v key)"

definition source_of :: "jsval \<Rightarrow> ReservationSource" where
  "source_of v =
     (if text_at v ''sourceKind'' = ''manual''
      then ManualSource (text_at v ''manualCapacityReservationId'') (text_at v ''manualCapacityReservationHash'')
      else SelectorSource (text_at v ''candidateAssignmentSetId'') (text_at v ''candidateAssignmentSetHash'')
        (text_at v ''candidateAssignmentId'') (number_of (get_property v ''reservedSlotOrdinal'')))"

definition mandate_at :: "jsval \<Rightarrow> mandate" where
  "mandate_at v = (text_at v ''mandateId'', text_at v ''mandateHash'')"

definition origin_of :: "jsval \<Rightarrow> ReleaseOrigin" where
  "origin_of v =
     (if text_at v ''originKind'' = ''request_cancelled'' then RequestCancelled (text_at v ''requestOrManualEventId'')
      else MandateTerminal (mandate_at v) (text_at v ''mandateEventId'') (text_at v ''mandateEventHash''))"

definition fill_at :: "jsval \<Rightarrow> CapacityFill" where
  "fill_at v = \<lparr>cf_fillId = text_at v ''fillId'', cf_paperFillRecordId = text_at v ''paperFillRecordId'',
     cf_paperFillHash = text_at v ''paperFillHash''\<rparr>"

definition body_of :: "jsval \<Rightarrow> CapacityEventBody" where
  "body_of v =
     (let kind = text_at v ''eventType''; previous = text_at v ''previousCapacityReservationEventId'' in
      if kind = ''reserved'' then Reserved (source_of (get_property v ''reservationSource''))
      else if kind = ''bound_to_mandate'' then BoundToMandate previous (mandate_at v)
      else if kind = ''partially_consumed'' then PartiallyConsumed previous (mandate_at v) (fill_at v)
      else if kind = ''consumed_by_position''
      then ConsumedByPosition previous (mandate_at v) (fill_at v) (text_at v ''resultingPositionRef'')
      else Released previous (origin_of (get_property v ''releaseOrigin'')) (text_at v ''releaseReasonCode''))"

definition event_of :: "jsval \<Rightarrow> OpeningCapacityReservationEvent" where
  "event_of v =
     \<lparr>ce_reservationId = text_at v ''reservationId'', ce_reservationHash = text_at v ''reservationHash'',
      ce_portfolioId = text_at v ''portfolioId'', ce_policyHash = text_at v ''policyHash'',
      ce_bucket = text_at v ''bucket'',
      ce_remainingReservedNotionalKrw = number_of (get_property v ''remainingReservedNotionalKrw''),
      ce_occupiesNewPositionSlot = (get_property v ''occupiesNewPositionSlot'' = JBoolean True),
      ce_capacityLedgerVersion = number_of (get_property v ''capacityLedgerVersion''),
      ce_asOf = text_at v ''asOf'', ce_capacityReservationEventId = text_at v ''capacityReservationEventId'',
      ce_capacityReservationEventHash = text_at v ''capacityReservationEventHash'',
      ce_createdAt = text_at v ''createdAt'', ce_body = body_of v\<rparr>"

definition event_payload :: "jsval \<Rightarrow> jsval" where
  "event_payload v = omit_keys identity_keys v"

text \<open>The identity checks of a reserved event against its source.\<close>

definition check_reserved :: "OpeningCapacityReservationEvent \<Rightarrow> OpeningCapacityReservationEvent result" where
  "check_reserved event =
     (case ce_body event of
        Reserved (ManualSource reservation hash) \<Rightarrow>
          if ce_reservationId event \<noteq> reservation \<or> ce_reservationHash event \<noteq> hash
          then Inl (Error ''manual capacity event must preserve its reservation identity'') else Inr event
      | Reserved (SelectorSource set_id set_hash assignment ordinal) \<Rightarrow>
          if \<not> ce_occupiesNewPositionSlot event
          then Inl (Error ''selector capacity reservation must occupy its allocated new-position slot'') else Inr event
      | _ \<Rightarrow> Inr event)"

definition parseOpeningCapacityReservationEvent ::
  "js_env \<Rightarrow> jsval \<Rightarrow> OpeningCapacityReservationEvent result" where
  "parseOpeningCapacityReservationEvent env v =
     (if \<not> openingCapacityReservationEventSchema env v then Inl (Error ''ZodError'')
      else if \<not> equals_parse v then Inl (Error ''opening capacity event must already be canonical'')
      else let event = event_of v in
        bind_result (hashCanonicalPayload env (event_payload v)) (\<lambda>hash.
          if ce_capacityReservationEventHash event \<noteq> hash \<or>
            ce_capacityReservationEventId event \<noteq> hashDerivedId ''opening_capacity_event'' hash
          then Inl (Error ''opening capacity event identity does not match its complete payload'')
          else if jlt (date_parse env (ce_createdAt event)) (date_parse env (ce_asOf event)) \<or>
            get_property v ''remainingReservedNotionalKrw'' = JNegativeZero
          then Inl (Error ''opening capacity event has invalid chronology or remaining notional'')
          else check_reserved event))"

text \<open>The value created from a payload and its creation time, and the event parsed from it.\<close>

definition created_value :: "js_env \<Rightarrow> jsval \<Rightarrow> jsval result" where
  "created_value env input =
     (let payload = omit_keys [''createdAt''] input in
      if \<not> openingCapacityReservationEventPayloadSchema env payload then Inl (Error ''ZodError'')
      else if \<not> equals_parse payload then Inl (Error ''opening capacity event payload must already be canonical'')
      else bind_result (hashCanonicalPayload env payload) (\<lambda>hash.
        Inr (JObject ObjectPrototype (object_entries payload @
          [(''createdAt'', get_property input ''createdAt''), (''capacityReservationEventHash'', JString hash),
           (''capacityReservationEventId'', JString (hashDerivedId ''opening_capacity_event'' hash))]))))"

definition createOpeningCapacityReservationEvent ::
  "js_env \<Rightarrow> jsval \<Rightarrow> OpeningCapacityReservationEvent result" where
  "createOpeningCapacityReservationEvent env input =
     bind_result (created_value env input) (parseOpeningCapacityReservationEvent env)"

section \<open>Replay\<close>

record CapacityChain =
  ch_reservedEvent :: OpeningCapacityReservationEvent
  ch_head :: OpeningCapacityReservationEvent
  ch_mandate :: "mandate option"
  ch_resultingPositionRef :: "string option"
  ch_consumedNotionalKrw :: jsnum
  ch_releasedNotionalKrw :: jsnum

text \<open>The variables of the loop.  A map keeps the order in which its keys were added.\<close>

record CapacityLedger =
  cl_chains :: "(string \<times> CapacityChain) list"
  cl_eventIds :: "string set"
  cl_mandateIds :: "string set"
  cl_fillIds :: "string set"
  cl_paperFillIds :: "string set"
  cl_selectorAssignmentIds :: "string set"
  cl_remaining :: int
  cl_previous :: "OpeningCapacityReservationEvent option"

definition empty_capacity_ledger :: CapacityLedger where
  "empty_capacity_ledger = \<lparr>cl_chains = [], cl_eventIds = {}, cl_mandateIds = {}, cl_fillIds = {},
     cl_paperFillIds = {}, cl_selectorAssignmentIds = {}, cl_remaining = 0, cl_previous = None\<rparr>"

text \<open>\<open>BigInt(x)\<close> of an integer.\<close>

fun bigint :: "jsnum \<Rightarrow> int" where
  "bigint (Fin r) = \<lfloor>r\<rfloor>"
| "bigint _ = 0"

abbreviation event_left :: "OpeningCapacityReservationEvent \<Rightarrow> jsnum" where
  "event_left \<equiv> ce_remainingReservedNotionalKrw"

definition open_reservation ::
  "CapacityLedger \<Rightarrow> OpeningCapacityReservationEvent \<Rightarrow> ReservationSource \<Rightarrow> CapacityLedger result" where
  "open_reservation l event source =
     (if map_of (cl_chains l) (ce_reservationId event) \<noteq> None
      then Inl (Error ''opening capacity replay reservation identity reused'')
      else let opened = (\<lambda>assigned. l\<lparr>cl_selectorAssignmentIds := assigned,
          cl_chains := AList.update (ce_reservationId event)
            \<lparr>ch_reservedEvent = event, ch_head = event, ch_mandate = None, ch_resultingPositionRef = None,
             ch_consumedNotionalKrw = Fin 0, ch_releasedNotionalKrw = Fin 0\<rparr> (cl_chains l),
          cl_remaining := cl_remaining l + bigint (event_left event)\<rparr>) in
        case source of
          SelectorSource set_id set_hash assignment ordinal \<Rightarrow>
            if assignment \<in> cl_selectorAssignmentIds l
            then Inl (Error ''opening capacity replay selector assignment reused'')
            else Inr (opened (insert assignment (cl_selectorAssignmentIds l)))
        | ManualSource _ _ \<Rightarrow> Inr (opened (cl_selectorAssignmentIds l)))"

fun is_released :: "CapacityEventBody \<Rightarrow> bool" where
  "is_released (Released _ _ _) = True"
| "is_released _ = False"

fun is_reserved :: "CapacityEventBody \<Rightarrow> bool" where
  "is_reserved (Reserved _) = True"
| "is_reserved _ = False"

fun previous_id :: "CapacityEventBody \<Rightarrow> string option" where
  "previous_id (Reserved _) = None"
| "previous_id (BoundToMandate p _) = Some p"
| "previous_id (PartiallyConsumed p _ _) = Some p"
| "previous_id (ConsumedByPosition p _ _ _) = Some p"
| "previous_id (Released p _ _) = Some p"

definition bind_chain ::
  "CapacityLedger \<Rightarrow> CapacityChain \<Rightarrow> OpeningCapacityReservationEvent \<Rightarrow> mandate \<Rightarrow>
    (CapacityLedger \<times> CapacityChain) result" where
  "bind_chain l chain event m =
     (let head = ch_head chain in
      if \<not> is_reserved (ce_body head) \<or> ch_mandate chain \<noteq> None \<or> fst m \<in> cl_mandateIds l
      then Inl (Error ''opening capacity replay duplicate or invalid mandate binding'')
      else if \<not> jeq (event_left event) (event_left head) \<or>
        ce_occupiesNewPositionSlot event \<noteq> ce_occupiesNewPositionSlot head
      then Inl (Error ''opening capacity replay binding must preserve reserved notional and slot'')
      else Inr (l\<lparr>cl_mandateIds := insert (fst m) (cl_mandateIds l)\<rparr>, chain\<lparr>ch_mandate := Some m\<rparr>))"

definition release_chain ::
  "CapacityLedger \<Rightarrow> CapacityChain \<Rightarrow> ReleaseOrigin \<Rightarrow> (CapacityLedger \<times> CapacityChain) result" where
  "release_chain l chain origin =
     (if (case ch_mandate chain of
            None \<Rightarrow> (case origin of RequestCancelled _ \<Rightarrow> False | _ \<Rightarrow> True)
          | Some m \<Rightarrow> (case origin of MandateTerminal m' _ _ \<Rightarrow> m' \<noteq> m | _ \<Rightarrow> True))
      then Inl (Error ''opening capacity replay release origin differs from binding lifecycle'')
      else Inr (l, chain\<lparr>ch_releasedNotionalKrw := event_left (ch_head chain)\<rparr>))"

text \<open>A partial fill carries no position; a consuming one names it.\<close>

definition fill_chain ::
  "CapacityLedger \<Rightarrow> CapacityChain \<Rightarrow> OpeningCapacityReservationEvent \<Rightarrow> mandate \<Rightarrow> CapacityFill \<Rightarrow>
    string option \<Rightarrow> (CapacityLedger \<times> CapacityChain) result" where
  "fill_chain l chain event m fill position =
     (let head = ch_head chain in
      if ch_mandate chain \<noteq> Some m
      then Inl (Error ''opening capacity replay fill does not match the bound mandate'')
      else if jle (event_left head) (event_left event)
      then Inl (Error ''opening capacity replay fill must reduce remaining notional'')
      else if ce_occupiesNewPositionSlot head \<and> position = None
      then Inl (Error ''opening capacity replay first new-position fill must consume its slot'')
      else if cf_fillId fill \<in> cl_fillIds l \<or> cf_paperFillRecordId fill \<in> cl_paperFillIds l
      then Inl (Error ''opening capacity replay reuses a fill identity'')
      else if position \<noteq> None \<and> ch_resultingPositionRef chain \<noteq> None \<and> ch_resultingPositionRef chain \<noteq> position
      then Inl (Error ''opening capacity replay changes the consumed position identity'')
      else Inr (l\<lparr>cl_fillIds := insert (cf_fillId fill) (cl_fillIds l),
          cl_paperFillIds := insert (cf_paperFillRecordId fill) (cl_paperFillIds l)\<rparr>,
        chain\<lparr>ch_resultingPositionRef := or_opt position (ch_resultingPositionRef chain),
          ch_consumedNotionalKrw := jadd (ch_consumedNotionalKrw chain)
            (jsub (event_left head) (event_left event))\<rparr>))"

definition advance_chain ::
  "CapacityLedger \<Rightarrow> CapacityChain \<Rightarrow> OpeningCapacityReservationEvent \<Rightarrow>
    (CapacityLedger \<times> CapacityChain) result" where
  "advance_chain l chain event =
     (let head = ch_head chain in
      if is_released (ce_body head) \<or> jeq (event_left head) (Fin 0)
      then Inl (Error ''opening capacity replay transition after terminal reservation'')
      else case ce_body event of
        BoundToMandate _ m \<Rightarrow> bind_chain l chain event m
      | Released _ origin _ \<Rightarrow> release_chain l chain origin
      | PartiallyConsumed _ m fill \<Rightarrow> fill_chain l chain event m fill None
      | ConsumedByPosition _ m fill position \<Rightarrow> fill_chain l chain event m fill (Some position)
      | Reserved _ \<Rightarrow> Inr (l, chain))"

definition apply_capacity_event ::
  "CapacityLedger \<Rightarrow> OpeningCapacityReservationEvent \<Rightarrow> CapacityLedger result" where
  "apply_capacity_event l event =
     (case ce_body event of
        Reserved source \<Rightarrow> open_reservation l event source
      | _ \<Rightarrow>
         (case map_of (cl_chains l) (ce_reservationId event) of
            None \<Rightarrow> Inl (Error ''opening capacity replay missing source, wrong predecessor or reservation hash'')
          | Some chain \<Rightarrow>
              if previous_id (ce_body event) \<noteq> Some (ce_capacityReservationEventId (ch_head chain)) \<or>
                ce_reservationHash event \<noteq> ce_reservationHash (ch_reservedEvent chain)
              then Inl (Error ''opening capacity replay missing source, wrong predecessor or reservation hash'')
              else bind_result (advance_chain l chain event) (\<lambda>(l', chain').
                Inr (l'\<lparr>cl_chains := AList.update (ce_reservationId event) (chain'\<lparr>ch_head := event\<rparr>) (cl_chains l'),
                  cl_remaining := cl_remaining l' +
                    (bigint (event_left event) - bigint (event_left (ch_head chain)))\<rparr>))))"

text \<open>The scope of a ledger: its portfolio, policy and bucket.\<close>

type_synonym capacity_scope = "string \<times> string \<times> string"

definition scope_of :: "OpeningCapacityReservationEvent \<Rightarrow> capacity_scope" where
  "scope_of event = (ce_portfolioId event, ce_policyHash event, ce_bucket event)"

definition moved_backwards ::
  "js_env \<Rightarrow> OpeningCapacityReservationEvent \<Rightarrow> OpeningCapacityReservationEvent \<Rightarrow> bool" where
  "moved_backwards env previous event \<longleftrightarrow>
     jlt (date_parse env (ce_asOf event)) (date_parse env (ce_asOf previous)) \<or>
     jlt (date_parse env (ce_createdAt event)) (date_parse env (ce_createdAt previous))"

definition replay_capacity_event ::
  "js_env \<Rightarrow> capacity_scope \<Rightarrow> CapacityLedger \<Rightarrow> nat \<times> OpeningCapacityReservationEvent \<Rightarrow> CapacityLedger result" where
  "replay_capacity_event env scope l entry =
     (case entry of (index, event) \<Rightarrow>
      if scope_of event \<noteq> scope then Inl (Error ''opening capacity replay scope mismatch'')
      else if \<not> jeq (ce_capacityLedgerVersion event) (num (int index + 1))
      then Inl (Error ''opening capacity replay ledger version gap or reuse'')
      else if ce_capacityReservationEventId event \<in> cl_eventIds l
      then Inl (Error ''opening capacity replay duplicate event'')
      else if (case cl_previous l of None \<Rightarrow> False | Some previous \<Rightarrow> moved_backwards env previous event)
      then Inl (Error ''opening capacity replay time moved backwards'')
      else bind_result (apply_capacity_event
          (l\<lparr>cl_eventIds := insert (ce_capacityReservationEventId event) (cl_eventIds l)\<rparr>) event) (\<lambda>l'.
        if cl_remaining l' < 0 \<or> bigint MAX_SAFE_INTEGER < cl_remaining l'
        then Inl (Error ''opening capacity replay aggregate notional is unsafe'')
        else Inr (l'\<lparr>cl_previous := Some event\<rparr>)))"

definition replay_capacity_ledger ::
  "js_env \<Rightarrow> capacity_scope \<Rightarrow> OpeningCapacityReservationEvent list \<Rightarrow> CapacityLedger result" where
  "replay_capacity_ledger env scope events =
     fold_result (replay_capacity_event env scope) empty_capacity_ledger (List.enumerate 0 events)"

record CapacityReplay =
  cr_scope :: capacity_scope
  cr_capacityLedgerVersion :: jsnum
  cr_historyHash :: string
  cr_remainingReservedNotionalKrw :: jsnum
  cr_pendingNewPositionSlotCount :: jsnum
  cr_boundUnusedNewPositionSlotCount :: jsnum
  cr_reservations :: "CapacityChain list"
  cr_events :: "OpeningCapacityReservationEvent list"

definition capacity_replay_schema :: "jsval \<Rightarrow> bool" where
  "capacity_replay_schema v \<longleftrightarrow> strict_object [''portfolioId'', ''policyHash'', ''bucket'', ''events''] v \<and>
     capacity_identifier (get_property v ''portfolioId'') \<and> sha256HashSchema (get_property v ''policyHash'') \<and>
     strategyBucketSchema (get_property v ''bucket'') \<and> isArray (get_property v ''events'') \<and>
     length (elements (get_property v ''events'')) \<le> 100000"

fun is_bound :: "CapacityEventBody \<Rightarrow> bool" where
  "is_bound (BoundToMandate _ _) = True"
| "is_bound _ = False"

definition slot_count :: "(CapacityEventBody \<Rightarrow> bool) \<Rightarrow> CapacityChain list \<Rightarrow> jsnum" where
  "slot_count kind reservations =
     num (int (length (filter (\<lambda>c. kind (ce_body (ch_head c)) \<and> ce_occupiesNewPositionSlot (ch_head c)) reservations)))"

definition replayOpeningCapacityReservationEvents :: "js_env \<Rightarrow> jsval \<Rightarrow> CapacityReplay result" where
  "replayOpeningCapacityReservationEvents env input =
     (if \<not> capacity_replay_schema input then Inl (Error ''ZodError'')
      else let scope = (text_at input ''portfolioId'', text_at input ''policyHash'', text_at input ''bucket'') in
        bind_result (map_result (parseOpeningCapacityReservationEvent env) (elements (get_property input ''events'')))
          (\<lambda>events. bind_result (replay_capacity_ledger env scope events) (\<lambda>l.
            let reservations = sort_by (\<lambda>c d. str_le (ce_reservationId (ch_reservedEvent c))
                  (ce_reservationId (ch_reservedEvent d))) (map snd (cl_chains l))
            in bind_result (hashCanonicalPayload env (JObject ObjectPrototype
                [(''portfolioId'', get_property input ''portfolioId''), (''policyHash'', get_property input ''policyHash''),
                 (''bucket'', get_property input ''bucket''), (''events'', get_property input ''events'')])) (\<lambda>hash.
              Inr \<lparr>cr_scope = scope, cr_capacityLedgerVersion = num (int (length events)),
                cr_historyHash = hash, cr_remainingReservedNotionalKrw = mk (of_int (cl_remaining l)),
                cr_pendingNewPositionSlotCount = slot_count is_reserved reservations,
                cr_boundUnusedNewPositionSlotCount = slot_count is_bound reservations,
                cr_reservations = reservations, cr_events = events\<rparr>))))"

end
