(* ===== verification/OpeningCapacityFacts.thy ===== *)
theory OpeningCapacityFacts
  imports OpeningCapacity
begin

text \<open>
  What a ledger of reservations promises, stated of its events alone: the life of one reservation as
  a step relation, identities used once, versions and times in order, and the notional outstanding.
  The replay keeps in its variables exactly what the events seen so far say, so that it accepts a
  ledger exactly when it is valid.
\<close>

section \<open>The life of a reservation\<close>

datatype capacity_stage =
    Absent
  | Pending jsnum bool
  | Mandated mandate jsnum bool "string option"
  | Closed

inductive capacity_step :: "capacity_stage \<Rightarrow> OpeningCapacityReservationEvent \<Rightarrow> capacity_stage \<Rightarrow> bool" where
  reserve: "ce_body e = Reserved source \<Longrightarrow>
    capacity_step Absent e (Pending (event_left e) (ce_occupiesNewPositionSlot e))"
| bind: "ce_body e = BoundToMandate p m \<Longrightarrow> event_left e = a \<Longrightarrow> ce_occupiesNewPositionSlot e = s \<Longrightarrow>
    capacity_step (Pending a s) e (Mandated m a s None)"
| cancel: "ce_body e = Released p (RequestCancelled i) r \<Longrightarrow> capacity_step (Pending a s) e Closed"
| fill: "ce_body e = PartiallyConsumed p m f \<Longrightarrow> jlt (event_left e) a \<Longrightarrow>
    capacity_step (Mandated m a False pos) e (Mandated m (event_left e) False pos)"
| consume: "ce_body e = ConsumedByPosition p m f pos \<Longrightarrow> jlt (event_left e) a \<Longrightarrow> old \<in> {None, Some pos} \<Longrightarrow>
    event_left e \<noteq> Fin 0 \<Longrightarrow> capacity_step (Mandated m a s old) e (Mandated m (event_left e) False (Some pos))"
| deplete: "ce_body e = ConsumedByPosition p m f pos \<Longrightarrow> jlt (event_left e) a \<Longrightarrow> old \<in> {None, Some pos} \<Longrightarrow>
    event_left e = Fin 0 \<Longrightarrow> capacity_step (Mandated m a s old) e Closed"
| expire: "ce_body e = Released p (MandateTerminal m i h) r \<Longrightarrow> capacity_step (Mandated m a s old) e Closed"

inductive_simps step_absent: "capacity_step Absent e s"
inductive_simps step_pending: "capacity_step (Pending a b) e s"
inductive_simps step_mandated: "capacity_step (Mandated m a b pos) e s"
inductive_simps step_closed: "capacity_step Closed e s"
lemmas step_simps = step_absent step_pending step_mandated step_closed

lemma step_deterministic: "capacity_step s e t \<Longrightarrow> capacity_step s e u \<Longrightarrow> t = u"
  by (induction rule: capacity_step.induct) (auto simp: step_simps)

text \<open>The events of one reservation, each naming its predecessor and the hash of the reservation.\<close>

inductive reservation_life :: "OpeningCapacityReservationEvent list \<Rightarrow> capacity_stage \<Rightarrow> bool" where
  none: "reservation_life [] Absent"
| first: "capacity_step Absent e s \<Longrightarrow> reservation_life [e] s"
| later: "reservation_life es s \<Longrightarrow> es \<noteq> [] \<Longrightarrow>
    previous_id (ce_body e) = Some (ce_capacityReservationEventId (last es)) \<Longrightarrow>
    ce_reservationHash e = ce_reservationHash (hd es) \<Longrightarrow> capacity_step s e s' \<Longrightarrow>
    reservation_life (es @ [e]) s'"

inductive_simps life_empty [simp]: "reservation_life [] s"
inductive_simps into_absent [simp]: "capacity_step s e Absent"
inductive_simps into_pending: "capacity_step s e (Pending a b)"
inductive_cases life_snocE: "reservation_life (es @ [e]) s"
inductive_cases life_oneE: "reservation_life [e] s"

lemma life_one [simp]: "reservation_life [e] s \<longleftrightarrow> capacity_step Absent e s"
  by (auto elim: life_oneE intro: first)

lemma life_snoc: "reservation_life (es @ [e]) s' \<longleftrightarrow>
    (if es = [] then capacity_step Absent e s'
     else \<exists>s. reservation_life es s \<and> previous_id (ce_body e) = Some (ce_capacityReservationEventId (last es)) \<and>
       ce_reservationHash e = ce_reservationHash (hd es) \<and> capacity_step s e s')"
  by (auto elim: life_snocE intro: later)

lemma life_deterministic: "reservation_life es s \<Longrightarrow> reservation_life es t \<Longrightarrow> s = t"
proof (induction es arbitrary: s t rule: rev_induct)
  case (snoc e es)
  show ?case
  proof (cases "es = []")
    case True
    with snoc.prems show ?thesis by (auto dest: step_deterministic)
  next
    case False
    with snoc.prems obtain u v where "reservation_life es u" "capacity_step u e s"
      "reservation_life es v" "capacity_step v e t"
      by (auto simp: life_snoc)
    then show ?thesis using snoc.IH step_deterministic by blast
  qed
qed simp

lemma life_absent: "reservation_life es Absent \<longleftrightarrow> es = []"
  by (cases es rule: rev_cases) (auto simp: life_snoc)

lemma life_pending:
  assumes "reservation_life es (Pending a b)"
  shows "\<exists>e. es = [e] \<and> is_reserved (ce_body e)"
proof (cases es rule: rev_cases)
  case Nil
  with assms show ?thesis by simp
next
  case (snoc es' e)
  with assms show ?thesis
    by (cases "es' = []") (auto simp: life_snoc into_pending life_absent)
qed

section \<open>Amounts\<close>

lemma jeq_Fin_iff: "jeq x (Fin a) \<longleftrightarrow> x = Fin a"
  by (cases x) (auto simp: jeq_def)

text \<open>What the schema says of the amounts of a parsed event.\<close>

definition capacity_event_ok :: "OpeningCapacityReservationEvent \<Rightarrow> bool" where
  "capacity_event_ok e \<longleftrightarrow>
     (\<exists>n. event_left e = num n \<and> 0 \<le> n \<and> n \<le> 9007199254740991 \<and>
       (case ce_body e of
          Reserved _ \<Rightarrow> 0 < n
        | BoundToMandate _ _ \<Rightarrow> 0 < n
        | PartiallyConsumed _ _ _ \<Rightarrow> 0 < n \<and> \<not> ce_occupiesNewPositionSlot e
        | ConsumedByPosition _ _ _ _ \<Rightarrow> \<not> ce_occupiesNewPositionSlot e
        | Released _ _ _ \<Rightarrow> n = 0 \<and> \<not> ce_occupiesNewPositionSlot e))"

lemma count_num: "capacity_count v \<Longrightarrow> \<exists>n. number_of v = num n \<and> 0 \<le> n \<and> n \<le> 9007199254740991"
  by (cases v) (auto simp: is_safe_integer_def is_integer_iff MAX_SAFE_INTEGER_def)

lemma positive_num: "positiveAmount v \<Longrightarrow> \<exists>n. number_of v = num n \<and> 0 < n \<and> n \<le> 9007199254740991"
  by (auto simp: positiveAmount_def dest: count_num)

lemma schema_event_ok:
  assumes "openingCapacityReservationEventSchema env v"
  shows "capacity_event_ok (event_of v)"
proof -
  let ?r = "get_property v ''remainingReservedNotionalKrw''"
  have v: "capacity_variant_schema env identity_keys v"
    using assms by (simp add: openingCapacityReservationEventSchema_def)
  then have "capacity_count ?r \<or> number_of ?r = num 0"
    by (auto simp: capacity_variant_schema_def positiveAmount_def Let_def split: if_splits)
  then obtain n where n: "number_of ?r = num n" "0 \<le> n" "n \<le> 9007199254740991" using count_num by fastforce
  have pos: "positiveAmount ?r \<Longrightarrow> 0 < n" using n by (simp add: positiveAmount_def)
  show ?thesis
    using v n pos
    by (auto simp: capacity_event_ok_def event_of_def body_of_def text_at_def capacity_variant_schema_def Let_def
        intro!: exI [of _ n] split: if_splits)
qed

lemma parsed_event:
  "parseOpeningCapacityReservationEvent env v = Inr e \<longleftrightarrow>
     openingCapacityReservationEventSchema env v \<and> equals_parse v \<and> e = event_of v \<and>
     hashCanonicalPayload env (event_payload v) = Inr (ce_capacityReservationEventHash e) \<and>
     ce_capacityReservationEventId e = hashDerivedId ''opening_capacity_event'' (ce_capacityReservationEventHash e) \<and>
     \<not> jlt (date_parse env (ce_createdAt e)) (date_parse env (ce_asOf e)) \<and>
     get_property v ''remainingReservedNotionalKrw'' \<noteq> JNegativeZero \<and> check_reserved e = Inr e"
proof -
  have "check_reserved f = Inr e \<Longrightarrow> e = f" for f
    by (auto simp: check_reserved_def split: CapacityEventBody.splits ReservationSource.splits if_splits)
  then show ?thesis
    by (auto simp: parseOpeningCapacityReservationEvent_def Let_def bind_result_Inr split: if_splits)
qed

lemma parsed_event_ok: "parseOpeningCapacityReservationEvent env v = Inr e \<Longrightarrow> capacity_event_ok e"
  by (auto simp: parsed_event schema_event_ok)

lemma event_ok_amount:
  assumes "capacity_event_ok e"
  obtains n where "event_left e = num n" "bigint (event_left e) = n" "0 \<le> n" "n \<le> 9007199254740991"
  using assms by (auto simp: capacity_event_ok_def)

section \<open>One transition\<close>

text \<open>The identities that an event uses up.\<close>

fun bound_mandates :: "CapacityEventBody \<Rightarrow> string list" where
  "bound_mandates (BoundToMandate _ m) = [fst m]"
| "bound_mandates _ = []"

fun body_fill :: "CapacityEventBody \<Rightarrow> CapacityFill list" where
  "body_fill (PartiallyConsumed _ _ f) = [f]"
| "body_fill (ConsumedByPosition _ _ f _) = [f]"
| "body_fill _ = []"

fun assigned_slots :: "CapacityEventBody \<Rightarrow> string list" where
  "assigned_slots (Reserved (SelectorSource _ _ assignment _)) = [assignment]"
| "assigned_slots _ = []"

definition fill_ids :: "CapacityEventBody \<Rightarrow> string list" where
  "fill_ids b = map cf_fillId (body_fill b)"

definition paper_fill_ids :: "CapacityEventBody \<Rightarrow> string list" where
  "paper_fill_ids b = map cf_paperFillRecordId (body_fill b)"

lemma body_ids [simp]:
  "fill_ids (Reserved s) = []" "fill_ids (BoundToMandate p m) = []" "fill_ids (Released p i r) = []"
  "fill_ids (PartiallyConsumed p m f) = [cf_fillId f]" "fill_ids (ConsumedByPosition p m f pos) = [cf_fillId f]"
  "paper_fill_ids (Reserved s) = []" "paper_fill_ids (BoundToMandate p m) = []"
  "paper_fill_ids (Released p i r) = []" "paper_fill_ids (PartiallyConsumed p m f) = [cf_paperFillRecordId f]"
  "paper_fill_ids (ConsumedByPosition p m f pos) = [cf_paperFillRecordId f]"
  by (simp_all add: fill_ids_def paper_fill_ids_def)

text \<open>The variables after an event, given that it passes its checks.\<close>

definition noted :: "CapacityLedger \<Rightarrow> CapacityEventBody \<Rightarrow> CapacityLedger" where
  "noted l b = l\<lparr>cl_mandateIds := set (bound_mandates b) \<union> cl_mandateIds l,
     cl_fillIds := set (fill_ids b) \<union> cl_fillIds l, cl_paperFillIds := set (paper_fill_ids b) \<union> cl_paperFillIds l,
     cl_selectorAssignmentIds := set (assigned_slots b) \<union> cl_selectorAssignmentIds l\<rparr>"

definition unused :: "CapacityLedger \<Rightarrow> CapacityEventBody \<Rightarrow> bool" where
  "unused l b \<longleftrightarrow> set (bound_mandates b) \<inter> cl_mandateIds l = {} \<and> set (fill_ids b) \<inter> cl_fillIds l = {} \<and>
     set (paper_fill_ids b) \<inter> cl_paperFillIds l = {} \<and> set (assigned_slots b) \<inter> cl_selectorAssignmentIds l = {}"

definition fill_booking :: "CapacityChain \<Rightarrow> OpeningCapacityReservationEvent \<Rightarrow> jsnum" where
  "fill_booking c e = jadd (ch_consumedNotionalKrw c) (jsub (event_left (ch_head c)) (event_left e))"

definition chain_after :: "CapacityChain \<Rightarrow> OpeningCapacityReservationEvent \<Rightarrow> CapacityChain" where
  "chain_after c e =
     (case ce_body e of
        Reserved _ \<Rightarrow> c
      | BoundToMandate _ m \<Rightarrow> c\<lparr>ch_mandate := Some m\<rparr>
      | Released _ _ _ \<Rightarrow> c\<lparr>ch_releasedNotionalKrw := event_left (ch_head c)\<rparr>
      | PartiallyConsumed _ _ _ \<Rightarrow> c\<lparr>ch_consumedNotionalKrw := fill_booking c e\<rparr>
      | ConsumedByPosition _ _ _ pos \<Rightarrow> c\<lparr>ch_resultingPositionRef := Some pos, ch_consumedNotionalKrw := fill_booking c e\<rparr>)"

definition stage_of :: "CapacityChain \<Rightarrow> capacity_stage" where
  "stage_of c =
     (if is_released (ce_body (ch_head c)) \<or> event_left (ch_head c) = Fin 0 then Closed
      else case ch_mandate c of
        None \<Rightarrow> Pending (event_left (ch_head c)) (ce_occupiesNewPositionSlot (ch_head c))
      | Some m \<Rightarrow> Mandated m (event_left (ch_head c)) (ce_occupiesNewPositionSlot (ch_head c)) (ch_resultingPositionRef c))"

text \<open>What every chain of the replay satisfies: its amounts balance and its head fits its mandate.\<close>

definition chain_balanced :: "CapacityChain \<Rightarrow> bool" where
  "chain_balanced c \<longleftrightarrow>
     (\<exists>r a k j. event_left (ch_reservedEvent c) = num r \<and> event_left (ch_head c) = num a \<and>
        ch_consumedNotionalKrw c = num k \<and> ch_releasedNotionalKrw c = num j \<and>
        0 \<le> a \<and> 0 \<le> k \<and> 0 \<le> j \<and> r = k + j + a \<and> r \<le> 9007199254740991 \<and>
        (\<not> is_released (ce_body (ch_head c)) \<longrightarrow> j = 0))"

definition chain_shaped :: "CapacityChain \<Rightarrow> bool" where
  "chain_shaped c \<longleftrightarrow> capacity_event_ok (ch_head c) \<and>
     (is_reserved (ce_body (ch_head c)) \<longrightarrow> ch_mandate c = None \<and> ch_resultingPositionRef c = None) \<and>
     (\<not> is_reserved (ce_body (ch_head c)) \<and> \<not> is_released (ce_body (ch_head c)) \<longrightarrow> ch_mandate c \<noteq> None) \<and>
     (is_bound (ce_body (ch_head c)) \<longrightarrow> ch_resultingPositionRef c = None)"

lemma stage_closed: "stage_of c = Closed \<longleftrightarrow> is_released (ce_body (ch_head c)) \<or> event_left (ch_head c) = Fin 0"
  by (simp add: stage_of_def split: option.split)

text \<open>The code advances a chain exactly when the life of its reservation goes on and its identities are unused.\<close>

lemma advance_iff:
  assumes c: "chain_shaped c" and e: "capacity_event_ok e" and new: "\<not> is_reserved (ce_body e)"
  shows "advance_chain l c e = Inr r \<longleftrightarrow>
    r = (noted l (ce_body e), chain_after c e) \<and> unused l (ce_body e) \<and> (\<exists>s. capacity_step (stage_of c) e s)"
proof (cases "stage_of c = Closed")
  case True
  obtain n where "event_left (ch_head c) = num n" using c by (auto simp: chain_shaped_def capacity_event_ok_def)
  then have "advance_chain l c e \<noteq> Inr r" using True by (auto simp: advance_chain_def stage_closed Let_def)
  moreover have "\<not> (\<exists>s. capacity_step (stage_of c) e s)" using True by (simp add: step_closed)
  ultimately show ?thesis by blast
next
  case False
  then have open_head: "\<not> is_released (ce_body (ch_head c))" "event_left (ch_head c) \<noteq> Fin 0"
    by (auto simp: stage_closed)
  obtain n where n: "event_left (ch_head c) = num n" "0 \<le> n"
    using c by (auto simp: chain_shaped_def capacity_event_ok_def)
  obtain k where k: "event_left e = num k" "0 \<le> k" using e by (auto simp: capacity_event_ok_def)
  show ?thesis
    using c new open_head n k
    by (cases "ce_body e"; cases "ch_mandate c")
      (auto simp: advance_chain_def bind_chain_def release_chain_def fill_chain_def chain_shaped_def stage_of_def
        step_simps noted_def unused_def chain_after_def fill_booking_def Let_def split: ReleaseOrigin.splits option.splits)
qed

lemma stage_after:
  assumes c: "chain_shaped c" and e: "capacity_event_ok e" and new: "\<not> is_reserved (ce_body e)"
    and s: "capacity_step (stage_of c) e s"
  shows "stage_of ((chain_after c e)\<lparr>ch_head := e\<rparr>) = s" and "chain_shaped ((chain_after c e)\<lparr>ch_head := e\<rparr>)"
proof -
  have "\<not> is_released (ce_body (ch_head c))" "event_left (ch_head c) \<noteq> Fin 0"
    using s stage_closed [of c] by (auto simp: step_closed)
  then show "stage_of ((chain_after c e)\<lparr>ch_head := e\<rparr>) = s" "chain_shaped ((chain_after c e)\<lparr>ch_head := e\<rparr>)"
    using assms
    by (auto simp: stage_of_def chain_shaped_def capacity_event_ok_def chain_after_def step_simps
        split: CapacityEventBody.splits option.splits)
qed

lemma chain_balancedI:
  "event_left (ch_reservedEvent c) = num r \<Longrightarrow> event_left (ch_head c) = num a \<Longrightarrow>
   ch_consumedNotionalKrw c = num k \<Longrightarrow> ch_releasedNotionalKrw c = num j \<Longrightarrow> 0 \<le> a \<Longrightarrow> 0 \<le> k \<Longrightarrow> 0 \<le> j \<Longrightarrow>
   r = k + j + a \<Longrightarrow> r \<le> 9007199254740991 \<Longrightarrow> (\<not> is_released (ce_body (ch_head c)) \<Longrightarrow> j = 0) \<Longrightarrow> chain_balanced c"
  by (auto simp: chain_balanced_def)

lemma balanced_after:
  assumes c: "chain_shaped c" "chain_balanced c" and e: "capacity_event_ok e" and new: "\<not> is_reserved (ce_body e)"
    and s: "capacity_step (stage_of c) e s"
  shows "chain_balanced ((chain_after c e)\<lparr>ch_head := e\<rparr>)"
proof -
  have live: "\<not> is_released (ce_body (ch_head c))" using s stage_closed [of c] by (auto simp: step_closed)
  obtain n where n: "event_left e = num n" "0 \<le> n" using e by (auto simp: capacity_event_ok_def)
  obtain r a k where b: "event_left (ch_reservedEvent c) = num r" "event_left (ch_head c) = num a"
    "ch_consumedNotionalKrw c = num k" "ch_releasedNotionalKrw c = Fin 0" "0 \<le> a" "0 \<le> k" "r = k + a" "r \<le> 9007199254740991"
    using c(2) live by (auto simp: chain_balanced_def)
  have book: "fill_booking c e = num (k + (a - n))" if "n \<le> a"
    using that b n mk_of_int [of "k + (a - n)"] by (simp add: fill_booking_def jsub_exact)
  let ?d = "(chain_after c e)\<lparr>ch_head := e\<rparr>"
  have fixed: "ch_reservedEvent ?d = ch_reservedEvent c" "ch_head ?d = e"
    by (auto simp: chain_after_def split: CapacityEventBody.split)
  have "ch_consumedNotionalKrw ?d = num (k + (a - n)) \<and> ch_releasedNotionalKrw ?d = num 0 \<and> n \<le> a \<or>
      ch_consumedNotionalKrw ?d = num k \<and> ch_releasedNotionalKrw ?d = num 0 \<and> n = a \<or>
      is_released (ce_body e) \<and> ch_consumedNotionalKrw ?d = num k \<and> ch_releasedNotionalKrw ?d = num a \<and> n = 0"
    using s b(1-6) n book live e new
    by (cases "ce_body e") (auto simp: chain_after_def stage_of_def step_simps capacity_event_ok_def
        split: option.splits if_splits)
  then show ?thesis
  proof (elim disjE)
    assume "ch_consumedNotionalKrw ?d = num (k + (a - n)) \<and> ch_releasedNotionalKrw ?d = num 0 \<and> n \<le> a"
    then show ?thesis using n b by (intro chain_balancedI [of _ r n "k + (a - n)" 0]) (simp_all add: fixed)
  next
    assume "ch_consumedNotionalKrw ?d = num k \<and> ch_releasedNotionalKrw ?d = num 0 \<and> n = a"
    then show ?thesis using n b by (intro chain_balancedI [of _ r n k 0]) (simp_all add: fixed)
  next
    assume "is_released (ce_body e) \<and> ch_consumedNotionalKrw ?d = num k \<and> ch_releasedNotionalKrw ?d = num a \<and> n = 0"
    then show ?thesis using n b by (intro chain_balancedI [of _ r n k a]) (simp_all add: fixed)
  qed
qed

end
