(* ===== verification/OpeningCapacityRuns.thy ===== *)
theory OpeningCapacityRuns
  imports OpeningCapacityFacts
begin

text \<open>
  Valid ledgers and the loop that accepts them: the variables track the events, a step is taken
  exactly when the longer ledger is valid.
\<close>

section \<open>Valid ledgers\<close>

definition of_reservation ::
  "string \<Rightarrow> OpeningCapacityReservationEvent list \<Rightarrow> OpeningCapacityReservationEvent list" where
  "of_reservation rid es = filter (\<lambda>e. ce_reservationId e = rid) es"

text \<open>The notional that the reservations of a ledger still hold.\<close>

definition outstanding :: "OpeningCapacityReservationEvent list \<Rightarrow> int" where
  "outstanding es = (\<Sum>rid \<in> ce_reservationId ` set es. bigint (event_left (last (of_reservation rid es))))"

definition ids_of :: "(CapacityEventBody \<Rightarrow> string list) \<Rightarrow> OpeningCapacityReservationEvent list \<Rightarrow> string list" where
  "ids_of f es = concat (map (\<lambda>e. f (ce_body e)) es)"

definition valid_capacity_ledger ::
  "js_env \<Rightarrow> capacity_scope \<Rightarrow> OpeningCapacityReservationEvent list \<Rightarrow> bool" where
  "valid_capacity_ledger env scope es \<longleftrightarrow>
     (\<forall>e \<in> set es. scope_of e = scope) \<and>
     map ce_capacityLedgerVersion es = map (\<lambda>n. num (int n + 1)) [0..<length es] \<and>
     distinct (map ce_capacityReservationEventId es) \<and>
     successively (\<lambda>a b. \<not> moved_backwards env a b) es \<and>
     distinct (ids_of bound_mandates es) \<and> distinct (ids_of fill_ids es) \<and>
     distinct (ids_of paper_fill_ids es) \<and> distinct (ids_of assigned_slots es) \<and>
     (\<forall>rid. \<exists>s. reservation_life (of_reservation rid es) s) \<and>
     (\<forall>n \<le> length es. outstanding (take n es) \<le> 9007199254740991)"

lemma of_reservation_simps [simp]:
  "of_reservation rid [] = []"
  "of_reservation rid (es @ [e]) = of_reservation rid es @ (if ce_reservationId e = rid then [e] else [])"
  by (simp_all add: of_reservation_def)

lemma ids_of_simps [simp]: "ids_of f [] = []" "ids_of f (es @ [e]) = ids_of f es @ f (ce_body e)"
  by (simp_all add: ids_of_def)

lemma of_reservation_Nil: "of_reservation rid es = [] \<longleftrightarrow> rid \<notin> ce_reservationId ` set es"
  by (auto simp: of_reservation_def filter_empty_conv)

lemma of_reservation_set: "of_reservation rid es \<noteq> [] \<Longrightarrow> last (of_reservation rid es) \<in> set es"
  using last_in_set [of "of_reservation rid es"] by (auto simp: of_reservation_def)

lemma outstanding_Nil [simp]: "outstanding [] = 0"
  by (simp add: outstanding_def)

lemma outstanding_snoc:
  "outstanding (es @ [e]) = outstanding es + bigint (event_left e) -
     (if of_reservation (ce_reservationId e) es = [] then 0
      else bigint (event_left (last (of_reservation (ce_reservationId e) es))))"
proof -
  let ?r = "ce_reservationId e" and ?S = "ce_reservationId ` set es"
  let ?f = "\<lambda>es rid. bigint (event_left (last (of_reservation rid es)))"
  have same: "?f (es @ [e]) rid = ?f es rid" if "rid \<in> ?S - {?r}" for rid
    using that by auto
  have "outstanding (es @ [e]) = sum (?f (es @ [e])) (insert ?r (?S - {?r}))"
    unfolding outstanding_def by (rule sum.cong) auto
  also have "\<dots> = ?f (es @ [e]) ?r + sum (?f (es @ [e])) (?S - {?r})"
    by (rule sum.insert) simp_all
  also have "sum (?f (es @ [e])) (?S - {?r}) = sum (?f es) (?S - {?r})" by (intro sum.cong same) simp_all
  also have "?f (es @ [e]) ?r = bigint (event_left e)" by simp
  also have "sum (?f es) (?S - {?r}) = outstanding es - (if ?r \<in> ?S then ?f es ?r else 0)"
    unfolding outstanding_def by (simp add: sum_diff1)
  finally show ?thesis by (simp add: of_reservation_Nil)
qed

lemma outstanding_nonneg: "\<forall>e \<in> set es. capacity_event_ok e \<Longrightarrow> 0 \<le> outstanding es"
  unfolding outstanding_def
proof (rule sum_nonneg)
  fix rid assume "\<forall>e \<in> set es. capacity_event_ok e" and "rid \<in> ce_reservationId ` set es"
  then have "capacity_event_ok (last (of_reservation rid es))"
    using of_reservation_set of_reservation_Nil by metis
  then show "0 \<le> bigint (event_left (last (of_reservation rid es)))" by (auto elim: event_ok_amount)
qed

text \<open>What makes a valid ledger longer.\<close>

definition extends_ledger ::
  "js_env \<Rightarrow> capacity_scope \<Rightarrow> OpeningCapacityReservationEvent list \<Rightarrow> OpeningCapacityReservationEvent \<Rightarrow> bool" where
  "extends_ledger env scope es e \<longleftrightarrow>
     scope_of e = scope \<and> ce_capacityLedgerVersion e = num (int (length es) + 1) \<and>
     ce_capacityReservationEventId e \<notin> ce_capacityReservationEventId ` set es \<and>
     (es \<noteq> [] \<longrightarrow> \<not> moved_backwards env (last es) e) \<and>
     (\<forall>f \<in> {bound_mandates, fill_ids, paper_fill_ids, assigned_slots}. set (f (ce_body e)) \<inter> set (ids_of f es) = {}) \<and>
     (\<exists>s. reservation_life (of_reservation (ce_reservationId e) es @ [e]) s) \<and>
     outstanding (es @ [e]) \<le> 9007199254740991"

lemma body_ids_distinct: "f \<in> {bound_mandates, fill_ids, paper_fill_ids, assigned_slots} \<Longrightarrow> distinct (f b)"
  by (cases b rule: bound_mandates.cases; cases b rule: assigned_slots.cases) auto

lemma life_prefix: "reservation_life (es @ [e]) s \<Longrightarrow> \<exists>t. reservation_life es t"
  by (auto simp: life_snoc split: if_splits)

lemma valid_Nil [simp]: "valid_capacity_ledger env scope []"
  by (auto simp: valid_capacity_ledger_def)

lemma valid_snoc:
  "valid_capacity_ledger env scope (es @ [e]) \<longleftrightarrow>
     valid_capacity_ledger env scope es \<and> extends_ledger env scope es e"
proof -
  have lives: "(\<forall>rid. \<exists>s. reservation_life (of_reservation rid (es @ [e])) s) \<longleftrightarrow>
      (\<forall>rid. \<exists>s. reservation_life (of_reservation rid es) s) \<and>
      (\<exists>s. reservation_life (of_reservation (ce_reservationId e) es @ [e]) s)"
  proof (intro iffI conjI allI)
    fix rid assume all: "\<forall>rid. \<exists>s. reservation_life (of_reservation rid (es @ [e])) s"
    then show "\<exists>s. reservation_life (of_reservation rid es) s"
      by (cases "ce_reservationId e = rid") (auto dest!: spec [of _ rid] life_prefix)
    from all show "\<exists>s. reservation_life (of_reservation (ce_reservationId e) es @ [e]) s"
      by (auto dest!: spec [of _ "ce_reservationId e"])
  next
    fix rid assume "(\<forall>rid. \<exists>s. reservation_life (of_reservation rid es) s) \<and>
      (\<exists>s. reservation_life (of_reservation (ce_reservationId e) es @ [e]) s)"
    then show "\<exists>s. reservation_life (of_reservation rid (es @ [e])) s" by auto
  qed
  have caps: "(\<forall>n \<le> length (es @ [e]). outstanding (take n (es @ [e])) \<le> 9007199254740991) \<longleftrightarrow>
      (\<forall>n \<le> length es. outstanding (take n es) \<le> 9007199254740991) \<and> outstanding (es @ [e]) \<le> 9007199254740991"
    by (auto simp: le_Suc_eq)
  have ids: "distinct (ids_of f (es @ [e])) \<longleftrightarrow> distinct (ids_of f es) \<and> set (f (ce_body e)) \<inter> set (ids_of f es) = {}"
    if "f \<in> {bound_mandates, fill_ids, paper_fill_ids, assigned_slots}" for f
    using body_ids_distinct [OF that, of "ce_body e"] by auto
  have times: "successively P (es @ [e]) \<longleftrightarrow> successively P es \<and> (es \<noteq> [] \<longrightarrow> P (last es) e)" for P
    by (auto simp: successively_append_iff)
  show ?thesis
    unfolding valid_capacity_ledger_def extends_ledger_def lives caps times
    using ids by auto
qed

section \<open>The variables track the events\<close>

definition tracks :: "CapacityLedger \<Rightarrow> OpeningCapacityReservationEvent list \<Rightarrow> bool" where
  "tracks l es \<longleftrightarrow>
     cl_eventIds l = ce_capacityReservationEventId ` set es \<and>
     cl_mandateIds l = set (ids_of bound_mandates es) \<and> cl_fillIds l = set (ids_of fill_ids es) \<and>
     cl_paperFillIds l = set (ids_of paper_fill_ids es) \<and>
     cl_selectorAssignmentIds l = set (ids_of assigned_slots es) \<and>
     cl_previous l = (if es = [] then None else Some (last es)) \<and> cl_remaining l = outstanding es \<and>
     distinct (map fst (cl_chains l)) \<and>
     (\<forall>rid. map_of (cl_chains l) rid = None \<longleftrightarrow> of_reservation rid es = []) \<and>
     (\<forall>rid c. map_of (cl_chains l) rid = Some c \<longrightarrow>
        ch_reservedEvent c = hd (of_reservation rid es) \<and> ch_head c = last (of_reservation rid es) \<and>
        reservation_life (of_reservation rid es) (stage_of c) \<and> chain_shaped c \<and> chain_balanced c)"

lemma tracks_empty: "tracks empty_capacity_ledger []"
  by (simp add: tracks_def empty_capacity_ledger_def)

lemma unused_tracked: "tracks l es \<Longrightarrow> unused l b \<longleftrightarrow>
    (\<forall>f \<in> {bound_mandates, fill_ids, paper_fill_ids, assigned_slots}. set (f b) \<inter> set (ids_of f es) = {})"
  by (simp add: tracks_def unused_def)

definition opened_chain :: "OpeningCapacityReservationEvent \<Rightarrow> CapacityChain" where
  "opened_chain e = \<lparr>ch_reservedEvent = e, ch_head = e, ch_mandate = None, ch_resultingPositionRef = None,
     ch_consumedNotionalKrw = Fin 0, ch_releasedNotionalKrw = Fin 0\<rparr>"

text \<open>The chain that an event leaves, if there is one, and the ledger with it.\<close>

definition next_chain :: "CapacityLedger \<Rightarrow> OpeningCapacityReservationEvent \<Rightarrow> CapacityChain" where
  "next_chain l e =
     (case map_of (cl_chains l) (ce_reservationId e) of
        None \<Rightarrow> opened_chain e
      | Some c \<Rightarrow> (chain_after c e)\<lparr>ch_head := e\<rparr>)"

definition left_before :: "CapacityLedger \<Rightarrow> OpeningCapacityReservationEvent \<Rightarrow> int" where
  "left_before l e =
     (case map_of (cl_chains l) (ce_reservationId e) of None \<Rightarrow> 0 | Some c \<Rightarrow> bigint (event_left (ch_head c)))"

definition ledger_after :: "CapacityLedger \<Rightarrow> OpeningCapacityReservationEvent \<Rightarrow> CapacityLedger" where
  "ledger_after l e = (noted l (ce_body e))
     \<lparr>cl_chains := AList.update (ce_reservationId e) (next_chain l e) (cl_chains l),
      cl_remaining := cl_remaining l + bigint (event_left e) - left_before l e\<rparr>"

lemma open_iff:
  assumes "ce_body e = Reserved source"
  shows "apply_capacity_event l e = Inr l' \<longleftrightarrow>
    map_of (cl_chains l) (ce_reservationId e) = None \<and> unused l (ce_body e) \<and> l' = ledger_after l e"
  using assms
  by (cases source)
    (auto simp: apply_capacity_event_def open_reservation_def unused_def ledger_after_def noted_def next_chain_def
      left_before_def opened_chain_def)

lemma advance_apply:
  assumes c: "map_of (cl_chains l) (ce_reservationId e) = Some c" and shaped: "chain_shaped c"
    and e: "capacity_event_ok e" and new: "\<not> is_reserved (ce_body e)"
  shows "apply_capacity_event l e = Inr l' \<longleftrightarrow>
    previous_id (ce_body e) = Some (ce_capacityReservationEventId (ch_head c)) \<and>
    ce_reservationHash e = ce_reservationHash (ch_reservedEvent c) \<and>
    unused l (ce_body e) \<and> (\<exists>s. capacity_step (stage_of c) e s) \<and> l' = ledger_after l e"
proof -
  have noted: "cl_chains (noted l b) = cl_chains l" "cl_remaining (noted l b) = cl_remaining l" for b
    by (simp_all add: noted_def)
  have "apply_capacity_event l e =
     (if previous_id (ce_body e) \<noteq> Some (ce_capacityReservationEventId (ch_head c)) \<or>
        ce_reservationHash e \<noteq> ce_reservationHash (ch_reservedEvent c)
      then Inl (Error ''opening capacity replay missing source, wrong predecessor or reservation hash'')
      else bind_result (advance_chain l c e) (\<lambda>(l', chain').
        Inr (l'\<lparr>cl_chains := AList.update (ce_reservationId e) (chain'\<lparr>ch_head := e\<rparr>) (cl_chains l'),
          cl_remaining := cl_remaining l' + (bigint (event_left e) - bigint (event_left (ch_head c)))\<rparr>)))"
    using c new by (cases "ce_body e") (simp_all add: apply_capacity_event_def)
  then show ?thesis
    using c by (auto simp: bind_result_Inr advance_iff [OF shaped e new] noted ledger_after_def next_chain_def
        left_before_def algebra_simps)
qed

lemma life_extends:
  assumes t: "tracks l es" and c: "map_of (cl_chains l) (ce_reservationId e) = Some c"
  shows "(\<exists>s. reservation_life (of_reservation (ce_reservationId e) es @ [e]) s) \<longleftrightarrow>
    previous_id (ce_body e) = Some (ce_capacityReservationEventId (ch_head c)) \<and>
    ce_reservationHash e = ce_reservationHash (ch_reservedEvent c) \<and> (\<exists>s. capacity_step (stage_of c) e s)"
proof -
  let ?es = "of_reservation (ce_reservationId e) es"
  from t c have life: "reservation_life ?es (stage_of c)" and ends: "ch_reservedEvent c = hd ?es" "ch_head c = last ?es"
    by (auto simp: tracks_def)
  from t c have "?es \<noteq> []" unfolding tracks_def by (metis option.distinct(1))
  with life ends show ?thesis by (auto simp: life_snoc dest: life_deterministic)
qed

lemma apply_extends:
  assumes t: "tracks l es" and e: "capacity_event_ok e"
  shows "apply_capacity_event (l\<lparr>cl_eventIds := X\<rparr>) e = Inr l' \<longleftrightarrow>
    unused l (ce_body e) \<and> (\<exists>s. reservation_life (of_reservation (ce_reservationId e) es @ [e]) s) \<and>
    l' = ledger_after (l\<lparr>cl_eventIds := X\<rparr>) e"
proof -
  let ?l = "l\<lparr>cl_eventIds := X\<rparr>" and ?rid = "ce_reservationId e"
  have unused: "unused ?l b = unused l b" for b by (simp add: unused_def)
  show ?thesis
  proof (cases "map_of (cl_chains l) ?rid")
    case None
    with t have "of_reservation ?rid es = []" by (simp add: tracks_def)
    moreover have "apply_capacity_event ?l e = Inr l' \<longleftrightarrow>
        unused l (ce_body e) \<and> (\<exists>s. capacity_step Absent e s) \<and> l' = ledger_after ?l e"
    proof (cases "ce_body e")
      case (Reserved source)
      with None show ?thesis by (auto simp: open_iff unused step_absent)
    qed (use None in \<open>auto simp: apply_capacity_event_def step_absent\<close>)
    ultimately show ?thesis by simp
  next
    case (Some c)
    then have c: "map_of (cl_chains ?l) ?rid = Some c" by simp
    from Some t have shaped: "chain_shaped c" by (auto simp: tracks_def)
    show ?thesis
    proof (cases "is_reserved (ce_body e)")
      case True
      then obtain source where "ce_body e = Reserved source" by (cases "ce_body e") auto
      with c Some show ?thesis by (auto simp: open_iff life_extends [OF t Some])
    next
      case False
      show ?thesis unfolding advance_apply [OF c shaped e False] life_extends [OF t Some] unused by blast
    qed
  qed
qed

lemma opened_good:
  assumes e: "capacity_event_ok e" and s: "capacity_step Absent e s"
  shows "stage_of (opened_chain e) = s" "chain_shaped (opened_chain e)" "chain_balanced (opened_chain e)"
proof -
  obtain source where body: "ce_body e = Reserved source" and s: "s = Pending (event_left e) (ce_occupiesNewPositionSlot e)"
    using s by (auto simp: step_absent)
  obtain n where n: "event_left e = num n" "0 < n" "n \<le> 9007199254740991"
    using e body by (auto simp: capacity_event_ok_def)
  show "stage_of (opened_chain e) = s" using body s n by (simp add: stage_of_def opened_chain_def)
  show "chain_shaped (opened_chain e)" using body e by (simp add: chain_shaped_def opened_chain_def)
  show "chain_balanced (opened_chain e)"
    using n by (intro chain_balancedI [of _ n n 0 0]) (simp_all add: opened_chain_def)
qed

text \<open>The chain after an event is again what its reservation's events say.\<close>

lemma next_chain_good:
  assumes t: "tracks l es" and e: "capacity_event_ok e"
    and s: "reservation_life (of_reservation (ce_reservationId e) es @ [e]) s"
  shows "ch_reservedEvent (next_chain l e) = hd (of_reservation (ce_reservationId e) es @ [e])"
    and "ch_head (next_chain l e) = e" and "stage_of (next_chain l e) = s"
    and "chain_shaped (next_chain l e)" and "chain_balanced (next_chain l e)"
proof -
  let ?rid = "ce_reservationId e" and ?c = "next_chain l e"
  have "ch_reservedEvent ?c = hd (of_reservation ?rid es @ [e]) \<and> ch_head ?c = e \<and> stage_of ?c = s \<and>
      chain_shaped ?c \<and> chain_balanced ?c"
  proof (cases "map_of (cl_chains l) ?rid")
    case None
    with t have "of_reservation ?rid es = []" by (simp add: tracks_def)
    with None s show ?thesis
      using opened_good [OF e, of s] by (simp add: next_chain_def) (simp add: opened_chain_def)
  next
    case (Some c)
    with t have ne: "of_reservation ?rid es \<noteq> []" unfolding tracks_def by (metis option.distinct(1))
    from t Some have c: "ch_reservedEvent c = hd (of_reservation ?rid es)"
      "reservation_life (of_reservation ?rid es) (stage_of c)" "chain_shaped c" "chain_balanced c"
      by (auto simp: tracks_def)
    from s ne c(2) have step: "capacity_step (stage_of c) e s" and previous: "previous_id (ce_body e) \<noteq> None"
      by (auto simp: life_snoc dest: life_deterministic)
    from previous have new: "\<not> is_reserved (ce_body e)" by (cases "ce_body e") auto
    have "ch_reservedEvent (chain_after c e) = ch_reservedEvent c"
      by (simp add: chain_after_def split: CapacityEventBody.split)
    then show ?thesis
      using Some ne c(1) stage_after [OF c(3) e new step] balanced_after [OF c(3,4) e new step]
      by (simp add: next_chain_def)
  qed
  then show "ch_reservedEvent ?c = hd (of_reservation ?rid es @ [e])" "ch_head ?c = e" "stage_of ?c = s"
    "chain_shaped ?c" "chain_balanced ?c" by auto
qed

text \<open>The ledger of the loop after an event.\<close>

definition replayed :: "CapacityLedger \<Rightarrow> OpeningCapacityReservationEvent \<Rightarrow> CapacityLedger" where
  "replayed l e =
     (ledger_after (l\<lparr>cl_eventIds := insert (ce_capacityReservationEventId e) (cl_eventIds l)\<rparr>) e)
       \<lparr>cl_previous := Some e\<rparr>"

lemma next_chain_ids [simp]: "next_chain (l\<lparr>cl_eventIds := X\<rparr>) e = next_chain l e"
  "left_before (l\<lparr>cl_eventIds := X\<rparr>) e = left_before l e"
  by (simp_all add: next_chain_def left_before_def)

lemma left_before_tracked:
  assumes "tracks l es"
  shows "left_before l e = (if of_reservation (ce_reservationId e) es = [] then 0
    else bigint (event_left (last (of_reservation (ce_reservationId e) es))))"
proof (cases "map_of (cl_chains l) (ce_reservationId e)")
  case None
  moreover from None assms have "of_reservation (ce_reservationId e) es = []" by (simp add: tracks_def)
  ultimately show ?thesis by (simp add: left_before_def)
next
  case (Some c)
  with assms have "of_reservation (ce_reservationId e) es \<noteq> []" unfolding tracks_def by (metis option.distinct(1))
  with Some assms show ?thesis by (auto simp: left_before_def tracks_def)
qed

lemma replayed_fields:
  "cl_chains (replayed l e) = AList.update (ce_reservationId e) (next_chain l e) (cl_chains l)"
  "cl_remaining (replayed l e) = cl_remaining l + bigint (event_left e) - left_before l e"
  "cl_previous (replayed l e) = Some e"
  "cl_eventIds (replayed l e) = insert (ce_capacityReservationEventId e) (cl_eventIds l)"
  "cl_mandateIds (replayed l e) = set (bound_mandates (ce_body e)) \<union> cl_mandateIds l"
  "cl_fillIds (replayed l e) = set (fill_ids (ce_body e)) \<union> cl_fillIds l"
  "cl_paperFillIds (replayed l e) = set (paper_fill_ids (ce_body e)) \<union> cl_paperFillIds l"
  "cl_selectorAssignmentIds (replayed l e) = set (assigned_slots (ce_body e)) \<union> cl_selectorAssignmentIds l"
  by (simp_all add: replayed_def ledger_after_def noted_def)

lemma remaining_replayed: "tracks l es \<Longrightarrow> cl_remaining (replayed l e) = outstanding (es @ [e])"
  by (simp add: replayed_fields outstanding_snoc left_before_tracked) (simp add: tracks_def)

lemma tracks_replayed:
  assumes t: "tracks l es" and e: "capacity_event_ok e"
    and s: "reservation_life (of_reservation (ce_reservationId e) es @ [e]) s"
  shows "tracks (replayed l e) (es @ [e])"
proof -
  let ?rid = "ce_reservationId e"
  have chains: "map_of (cl_chains (replayed l e)) = (map_of (cl_chains l))(?rid \<mapsto> next_chain l e)"
    by (simp add: replayed_fields update_conv')
  have none: "map_of (cl_chains (replayed l e)) rid = None \<longleftrightarrow> of_reservation rid (es @ [e]) = []" for rid
    using t unfolding chains by (auto simp: tracks_def)
  have some: "ch_reservedEvent c = hd (of_reservation rid (es @ [e])) \<and> ch_head c = last (of_reservation rid (es @ [e])) \<and>
      reservation_life (of_reservation rid (es @ [e])) (stage_of c) \<and> chain_shaped c \<and> chain_balanced c"
    if "map_of (cl_chains (replayed l e)) rid = Some c" for rid c
  proof (cases "rid = ?rid")
    case True
    with that chains have "c = next_chain l e" by simp
    then show ?thesis using next_chain_good [OF t e s] s True by simp
  next
    case False
    with that chains t show ?thesis by (auto simp: tracks_def)
  qed
  have keys: "distinct (map fst (cl_chains (replayed l e)))"
    using t by (simp add: replayed_fields tracks_def distinct_update)
  show ?thesis
    unfolding tracks_def using none some keys remaining_replayed [OF t, of e] t
    by (auto simp: replayed_fields(3-8) tracks_def)
qed

lemma replay_step_iff:
  assumes t: "tracks l es" and ok: "\<forall>x \<in> set es. capacity_event_ok x" and e: "capacity_event_ok e"
  shows "replay_capacity_event env scope l (length es, e) = Inr l' \<longleftrightarrow>
    extends_ledger env scope es e \<and> l' = replayed l e"
proof -
  have nonneg: "0 \<le> outstanding (es @ [e])" using ok e by (intro outstanding_nonneg) simp
  have left: "cl_remaining (ledger_after (l\<lparr>cl_eventIds := X\<rparr>) e) = outstanding (es @ [e])" for X
    using remaining_replayed [OF t, of e] by (simp add: replayed_def ledger_after_def noted_def)
  have "replay_capacity_event env scope l (length es, e) = Inr l' \<longleftrightarrow>
      scope_of e = scope \<and> ce_capacityLedgerVersion e = num (int (length es) + 1) \<and>
      ce_capacityReservationEventId e \<notin> cl_eventIds l \<and>
      \<not> (case cl_previous l of None \<Rightarrow> False | Some p \<Rightarrow> moved_backwards env p e) \<and>
      unused l (ce_body e) \<and> (\<exists>s. reservation_life (of_reservation (ce_reservationId e) es @ [e]) s) \<and>
      outstanding (es @ [e]) \<le> 9007199254740991 \<and> l' = replayed l e"
    using nonneg left
    by (auto simp: replay_capacity_event_def jeq_Fin_iff bind_result_Inr apply_extends [OF t e] replayed_def MAX_SAFE_INTEGER_def)
  moreover have "cl_eventIds l = ce_capacityReservationEventId ` set es"
    "(case cl_previous l of None \<Rightarrow> False | Some p \<Rightarrow> moved_backwards env p e) \<longleftrightarrow> es \<noteq> [] \<and> moved_backwards env (last es) e"
    using t by (auto simp: tracks_def)
  ultimately show ?thesis by (auto simp: extends_ledger_def unused_tracked [OF t])
qed

section \<open>The loop\<close>

definition replayed_ledger :: "OpeningCapacityReservationEvent list \<Rightarrow> CapacityLedger" where
  "replayed_ledger es = foldl replayed empty_capacity_ledger es"

lemma replayed_ledger_snoc [simp]: "replayed_ledger (es @ [e]) = replayed (replayed_ledger es) e"
  by (simp add: replayed_ledger_def)

lemma loop_snoc: "replay_capacity_ledger env scope (es @ [e]) =
    bind_result (replay_capacity_ledger env scope es) (\<lambda>l. replay_capacity_event env scope l (length es, e))"
  by (simp add: replay_capacity_ledger_def enumerate_append_eq fold_result_append bind_result_def split: sum.split)

lemma loop_iff:
  assumes "\<forall>e \<in> set es. capacity_event_ok e"
  shows "(replay_capacity_ledger env scope es = Inr l \<longleftrightarrow>
      valid_capacity_ledger env scope es \<and> l = replayed_ledger es) \<and>
    (valid_capacity_ledger env scope es \<longrightarrow> tracks (replayed_ledger es) es)"
  using assms
proof (induction es arbitrary: l rule: rev_induct)
  case Nil
  show ?case
    by (auto simp: replay_capacity_ledger_def replayed_ledger_def tracks_empty)
next
  case (snoc e es)
  then have ok: "\<forall>x \<in> set es. capacity_event_ok x" and e: "capacity_event_ok e" by auto
  note IH = snoc.IH [OF ok]
  show ?case
  proof (cases "valid_capacity_ledger env scope es")
    case False
    with IH show ?thesis by (auto simp: loop_snoc bind_result_Inr valid_snoc)
  next
    case True
    with IH have t: "tracks (replayed_ledger es) es" by blast
    have "tracks (replayed_ledger (es @ [e])) (es @ [e])" if "extends_ledger env scope es e"
      using that tracks_replayed [OF t e] by (auto simp: extends_ledger_def)
    with IH True show ?thesis
      by (auto simp: loop_snoc bind_result_Inr valid_snoc replay_step_iff [OF t ok e])
  qed
qed

lemma outstanding_chains:
  assumes "tracks l es"
  shows "outstanding es = sum_list (map (\<lambda>c. bigint (event_left (ch_head c))) (map snd (cl_chains l)))"
proof -
  have d: "distinct (map fst (cl_chains l))" using assms by (simp add: tracks_def)
  have heads: "ch_head c = last (of_reservation rid es)" if "(rid, c) \<in> set (cl_chains l)" for rid c
    using that assms d by (auto simp: tracks_def)
  have keys: "ce_reservationId ` set es = set (map fst (cl_chains l))"
  proof (rule set_eqI)
    fix rid
    show "rid \<in> ce_reservationId ` set es \<longleftrightarrow> rid \<in> set (map fst (cl_chains l))"
      using assms of_reservation_Nil [of rid es] map_of_eq_None_iff [of "cl_chains l" rid]
      by (auto simp: tracks_def)
  qed
  have "outstanding es = (\<Sum>rid \<leftarrow> map fst (cl_chains l). bigint (event_left (last (of_reservation rid es))))"
    unfolding outstanding_def keys by (rule sum_list_distinct_conv_sum_set [OF d, symmetric])
  also have "\<dots> = sum_list (map (\<lambda>p. bigint (event_left (ch_head (snd p)))) (cl_chains l))"
    unfolding map_map by (intro arg_cong [of _ _ sum_list] map_cong refl) (auto simp: heads)
  finally show ?thesis by (simp add: o_def)
qed

lemma parsed_events_ok:
  "map_result (parseOpeningCapacityReservationEvent env) vs = Inr es \<Longrightarrow> \<forall>e \<in> set es. capacity_event_ok e"
  by (auto simp: map_result_Inr in_set_conv_nth) (metis parsed_event_ok)

end
