(* ===== verification/OpeningCapacitySample.thy ===== *)
theory OpeningCapacitySample
  imports OpeningCapacityRuns PaperSamples
begin

text \<open>
  A ledger of three events on which the witnesses evaluate: 1000 reserved with a position slot, bound
  to a mandate, and 600 of it consumed by a position.  The digest is the number of the bytes.
\<close>

definition length_digest :: "string \<Rightarrow> string" where
  "length_digest t = replicate 60 (CHR ''0'') @
     map (\<lambda>d. digit_char (length t div d mod 10)) [1000, 100, 10, 1]"

definition ledger_env :: js_env where
  "ledger_env = sample_env\<lparr>sha256 := length_digest,
     number_text := \<lambda>x. case x of Fin a \<Rightarrow> nat_str (nat \<lfloor>a\<rfloor>) | _ \<Rightarrow> []\<rparr>"

lemma is_digit_char: "is_digit (digit_char (n mod 10))"
proof -
  have "n mod 10 < 10" by simp
  then have "48 + n mod 10 < 256" by linarith
  then show ?thesis by (simp add: is_digit_def digit_char_def)
qed

lemma length_digest_hex: "is_sha256_text (''sha256:'' @ length_digest t)"
proof -
  have "is_digit (CHR ''0'')" by (simp add: is_digit_def)
  then show ?thesis by (simp add: is_sha256_text_def length_digest_def list_all_iff is_digit_char)
qed

definition zero_hash :: string where
  "zero_hash = ''sha256:'' @ replicate 64 (CHR ''0'')"

definition numbered_hash :: "string \<Rightarrow> string" where
  "numbered_hash digits = ''sha256:'' @ replicate 60 (CHR ''0'') @ digits"

text \<open>The fields that all events have, with the identity that the digest gives them.\<close>

definition sample_base :: "string \<Rightarrow> int \<Rightarrow> bool \<Rightarrow> int \<Rightarrow> string \<Rightarrow> (string \<times> jsval) list" where
  "sample_base kind left slot version digits =
     [(''reservationId'', JString ''r''), (''reservationHash'', JString zero_hash),
      (''portfolioId'', JString ''p''), (''policyHash'', JString zero_hash), (''bucket'', JString ''swing''),
      (''remainingReservedNotionalKrw'', JNumber (num left)), (''occupiesNewPositionSlot'', JBoolean slot),
      (''capacityLedgerVersion'', JNumber (num version)), (''asOf'', JString ''2026-01-01T00:00:00.000Z''),
      (''eventType'', JString kind),
      (''capacityReservationEventId'', JString (hashDerivedId ''opening_capacity_event'' (numbered_hash digits))),
      (''capacityReservationEventHash'', JString (numbered_hash digits)),
      (''createdAt'', JString ''2026-01-01T00:00:00.000Z'')]"

definition sample_reserved :: jsval where
  "sample_reserved = JObject ObjectPrototype (sample_base ''reserved'' 1000 True 1 ''0569'' @
     [(''reservationSource'', JObject ObjectPrototype [(''sourceKind'', JString ''manual''),
        (''manualCapacityReservationId'', JString ''r''), (''manualCapacityReservationHash'', JString zero_hash)])])"

definition sample_bound :: jsval where
  "sample_bound = JObject ObjectPrototype (sample_base ''bound_to_mandate'' 1000 True 2 ''0624'' @
     [(''previousCapacityReservationEventId'', JString (hashDerivedId ''opening_capacity_event'' (numbered_hash ''0569''))),
      (''mandateId'', JString ''m''), (''mandateHash'', JString zero_hash)])"

definition sample_consumed :: jsval where
  "sample_consumed = JObject ObjectPrototype (sample_base ''consumed_by_position'' 400 False 3 ''0782'' @
     [(''previousCapacityReservationEventId'', JString (hashDerivedId ''opening_capacity_event'' (numbered_hash ''0624''))),
      (''mandateId'', JString ''m''), (''mandateHash'', JString zero_hash),
      (''fillId'', JString ''f''), (''paperFillRecordId'', JString ''g''), (''paperFillHash'', JString zero_hash),
      (''resultingPositionRef'', JString ''q'')])"

definition sample_ledger :: jsval where
  "sample_ledger = JObject ObjectPrototype [(''portfolioId'', JString ''p''), (''policyHash'', JString zero_hash),
     (''bucket'', JString ''swing''), (''events'', JArray [sample_reserved, sample_bound, sample_consumed])]"

subsection \<open>The texts and identities\<close>

lemma sample_hex [simp]: "is_sha256_text zero_hash" "is_sha256_text (numbered_hash ''0569'')"
  "is_sha256_text (numbered_hash ''0624'')" "is_sha256_text (numbered_hash ''0782'')"
  by (simp_all add: is_sha256_text_def zero_hash_def numbered_hash_def list_all_iff is_digit_def)

lemmas sample_text = canonicalJson_def event_payload_def omit_keys_def identity_keys_def sample_reserved_def
  sample_bound_def sample_consumed_def hashDerivedId_def sample_base_def zero_hash_def numbered_hash_def sort_by_def
  json_string_def json_char_def ledger_env_def nat_str.simps

lemma digit_chars: "digit_char 0 = CHR ''0''" "digit_char (Suc 0) = CHR ''1''" "digit_char 2 = CHR ''2''" "digit_char 3 = CHR ''3''" "digit_char 4 = CHR ''4''"
  "digit_char 5 = CHR ''5''" "digit_char 6 = CHR ''6''" "digit_char 7 = CHR ''7''" "digit_char 8 = CHR ''8''"
  "digit_char 9 = CHR ''9''"
  by code_simp+

lemma sample_lengths:
  "map_option utf8_length (canonicalJson ledger_env (event_payload sample_reserved)) = Some 569"
  "map_option utf8_length (canonicalJson ledger_env (event_payload sample_bound)) = Some 624"
  "map_option utf8_length (canonicalJson ledger_env (event_payload sample_consumed)) = Some 782"
  by (simp_all add: sample_text utf8_length_def digit_chars sum_list_replicate)

lemma digest_of_length:
  assumes "map_option utf8_length (canonicalJson ledger_env v) = Some n"
  shows "hashCanonicalPayload ledger_env v = Inr (''sha256:'' @ replicate 60 (CHR ''0'') @
     map (\<lambda>d. digit_char (n div d mod 10)) [1000, 100, 10, 1])"
proof -
  obtain t where "canonicalJson ledger_env v = Some t" and t: "utf8_length t = n" using assms by auto
  moreover have "sha256 ledger_env = length_digest" by (simp add: ledger_env_def)
  ultimately show ?thesis using length_digest_hex [of "utf8_string t"]
    by (simp add: hashCanonicalPayload_def length_digest_def utf8_string_length)
qed

lemma sample_hashes:
  "hashCanonicalPayload ledger_env (event_payload sample_reserved) = Inr (numbered_hash ''0569'')"
  "hashCanonicalPayload ledger_env (event_payload sample_bound) = Inr (numbered_hash ''0624'')"
  "hashCanonicalPayload ledger_env (event_payload sample_consumed) = Inr (numbered_hash ''0782'')"
  by (simp_all add: digest_of_length sample_lengths numbered_hash_def digit_chars)

subsection \<open>The events\<close>

lemma sample_timestamp: "offsetQualifiedIsoDateTimeSchema env (JString ''2026-01-01T00:00:00.000Z'')"
  "to_iso (date_parse env ''2026-01-01T00:00:00.000Z'') = Inr ''2026-01-01T00:00:00.000Z''"
  by (simp_all add: offsetQualifiedIsoDateTimeSchema_def is_offset_date_time_def fits_def is_digit_def isValidCalendarDate_def
      sample_dates sample_iso)

definition sample_event :: "int \<Rightarrow> bool \<Rightarrow> int \<Rightarrow> string \<Rightarrow> CapacityEventBody \<Rightarrow> OpeningCapacityReservationEvent" where
  "sample_event left slot version digits body =
     \<lparr>ce_reservationId = ''r'', ce_reservationHash = zero_hash, ce_portfolioId = ''p'', ce_policyHash = zero_hash,
      ce_bucket = ''swing'', ce_remainingReservedNotionalKrw = num left, ce_occupiesNewPositionSlot = slot,
      ce_capacityLedgerVersion = num version, ce_asOf = ''2026-01-01T00:00:00.000Z'',
      ce_capacityReservationEventId = hashDerivedId ''opening_capacity_event'' (numbered_hash digits),
      ce_capacityReservationEventHash = numbered_hash digits, ce_createdAt = ''2026-01-01T00:00:00.000Z'',
      ce_body = body\<rparr>"

definition sample_events :: "OpeningCapacityReservationEvent list" where
  "sample_events =
     [sample_event 1000 True 1 ''0569'' (Reserved (ManualSource ''r'' zero_hash)),
      sample_event 1000 True 2 ''0624'' (BoundToMandate
        (hashDerivedId ''opening_capacity_event'' (numbered_hash ''0569'')) (''m'', zero_hash)),
      sample_event 400 False 3 ''0782'' (ConsumedByPosition
        (hashDerivedId ''opening_capacity_event'' (numbered_hash ''0624'')) (''m'', zero_hash)
        \<lparr>cf_fillId = ''f'', cf_paperFillRecordId = ''g'', cf_paperFillHash = zero_hash\<rparr> ''q'')]"

lemmas sample_schema = openingCapacityReservationEventSchema_def capacity_variant_schema_def base_schema_def
  identity_schema_def base_keys_def identity_keys_def sample_base_def sample_timestamp sha256HashSchema_def
  strategyBucketSchema_def positiveAmount_def is_safe_integer_def MAX_SAFE_INTEGER_def trim_def is_space_def
  reservation_source_schema_def mandate_schema_def fill_schema_def hashDerivedId_def

lemma sample_id_length: "capacity_identifier (JString (hashDerivedId ''opening_capacity_event'' (numbered_hash digits)))"
  if "digits \<in> {''0569'', ''0624'', ''0782''}"
  using that by (auto simp: hashDerivedId_def numbered_hash_def trim_def is_space_def)

lemma sample_schemas:
  "openingCapacityReservationEventSchema ledger_env sample_reserved"
  "openingCapacityReservationEventSchema ledger_env sample_bound"
  "openingCapacityReservationEventSchema ledger_env sample_consumed"
  using sample_id_length
  by (simp_all add: sample_reserved_def sample_bound_def sample_consumed_def sample_schema)

lemma sample_parsed:
  "map_result (parseOpeningCapacityReservationEvent ledger_env) [sample_reserved, sample_bound, sample_consumed] =
     Inr sample_events"
proof -
  have "parseOpeningCapacityReservationEvent ledger_env sample_reserved = Inr (sample_events ! 0)"
    "parseOpeningCapacityReservationEvent ledger_env sample_bound = Inr (sample_events ! 1)"
    "parseOpeningCapacityReservationEvent ledger_env sample_consumed = Inr (sample_events ! 2)"
    by (simp_all add: parsed_event sample_schemas sample_hashes)
      (simp_all add: sample_events_def sample_event_def event_of_def body_of_def text_at_def sample_reserved_def
        sample_bound_def sample_consumed_def sample_base_def source_of_def mandate_at_def fill_at_def check_reserved_def
        sample_dates)
  then show ?thesis by (simp add: sample_events_def)
qed

lemma sample_ids [simp]:
  "hashDerivedId ''opening_capacity_event'' (numbered_hash a) =
     hashDerivedId ''opening_capacity_event'' (numbered_hash b) \<longleftrightarrow> a = b"
  by (simp add: hashDerivedId_def numbered_hash_def)

definition sample_chain :: CapacityChain where
  "sample_chain = \<lparr>ch_reservedEvent = sample_events ! 0, ch_head = sample_events ! 2, ch_mandate = Some (''m'', zero_hash),
     ch_resultingPositionRef = Some ''q'', ch_consumedNotionalKrw = num 600, ch_releasedNotionalKrw = num 0\<rparr>"

lemma sample_replayed:
  "\<exists>l. replay_capacity_ledger ledger_env (''p'', zero_hash, ''swing'') sample_events = Inr l \<and>
     cl_chains l = [(''r'', sample_chain)] \<and> cl_remaining l = 400"
  by (simp add: replay_capacity_ledger_def sample_events_def sample_event_def replay_capacity_event_def scope_of_def
      empty_capacity_ledger_def apply_capacity_event_def open_reservation_def advance_chain_def bind_chain_def
      fill_chain_def moved_backwards_def sample_dates MAX_SAFE_INTEGER_def jsub_def num_eval sample_chain_def Let_def)

lemma sample_ledger_schema: "capacity_replay_schema sample_ledger"
  by (simp add: capacity_replay_schema_def sample_ledger_def sha256HashSchema_def strategyBucketSchema_def trim_def
      is_space_def)

end
