(* ===== verification/CanonicalFacts.thy ===== *)
theory CanonicalFacts
  imports CanonicalJson LiveAuthorityFacts
begin

text \<open>
  The canonical text of a value can be read back: two values of plain data with the same text are the
  same up to the order of their properties, so that records with the same hash agree unless the
  digest collides.
\<close>

section \<open>Characters and strings\<close>

definition hex_val :: "char \<Rightarrow> nat" where
  "hex_val c = (let n = of_char c in if n < 58 then n - 48 else n - 87)"

lemma hex_val_char [simp]: "d < 16 \<Longrightarrow> hex_val (hex_char d) = d"
  by (auto simp: hex_val_def hex_char_def Let_def)

text \<open>The character that a JSON string begins with, and what follows it.\<close>

definition read_char :: "string \<Rightarrow> (char \<times> string) option" where
  "read_char s =
     (case s of [] \<Rightarrow> None
      | c # r \<Rightarrow>
          if c = CHR 0x22 then None
          else if c \<noteq> CHR 0x5C then Some (c, r)
          else (case r of [] \<Rightarrow> None
            | d # r' \<Rightarrow>
                if d = CHR ''b'' then Some (CHR 0x08, r') else if d = CHR ''t'' then Some (CHR 0x09, r')
                else if d = CHR ''n'' then Some (CHR 0x0A, r') else if d = CHR ''f'' then Some (CHR 0x0C, r')
                else if d = CHR ''r'' then Some (CHR 0x0D, r')
                else if d = CHR ''u'' then Some (char_of (16 * hex_val (r' ! 2) + hex_val (r' ! 3)), drop 4 r')
                else Some (d, r')))"

lemma char_codes:
  "of_char c = (34 :: nat) \<longleftrightarrow> c = CHR 0x22" "of_char c = (92 :: nat) \<longleftrightarrow> c = CHR 0x5C"
  "of_char c = (8 :: nat) \<longleftrightarrow> c = CHR 0x08" "of_char c = (9 :: nat) \<longleftrightarrow> c = CHR 0x09"
  "of_char c = (10 :: nat) \<longleftrightarrow> c = CHR 0x0A" "of_char c = (12 :: nat) \<longleftrightarrow> c = CHR 0x0C"
  "of_char c = (13 :: nat) \<longleftrightarrow> c = CHR 0x0D"
  using of_char_eq_iff [of c "CHR 0x22", where 'a = nat] of_char_eq_iff [of c "CHR 0x5C", where 'a = nat]
    of_char_eq_iff [of c "CHR 0x08", where 'a = nat] of_char_eq_iff [of c "CHR 0x09", where 'a = nat]
    of_char_eq_iff [of c "CHR 0x0A", where 'a = nat] of_char_eq_iff [of c "CHR 0x0C", where 'a = nat]
    of_char_eq_iff [of c "CHR 0x0D", where 'a = nat]
  by simp_all

lemma read_json_char [simp]: "read_char (json_char c @ r) = Some (c, r)"
proof (cases "of_char c < (32 :: nat)")
  case True
  let ?n = "of_char c :: nat"
  have "16 * (?n div 16) + ?n mod 16 = ?n" by simp
  then have "char_of (16 * hex_val (hex_char (?n div 16)) + hex_val (hex_char (?n mod 16))) = c"
    using True by (simp del: mult_div_mod_eq)
  then show ?thesis by (auto simp: json_char_def Let_def char_codes read_char_def)
next
  case False
  then show ?thesis by (auto simp: json_char_def Let_def char_codes read_char_def)
qed

lemma json_char_start: "json_char c @ r \<noteq> CHR 0x22 # s"
proof
  assume "json_char c @ r = CHR 0x22 # s"
  then have "read_char (json_char c @ r) = read_char (CHR 0x22 # s)" by simp
  then show False unfolding read_json_char by (simp add: read_char_def)
qed

lemma json_chars_inj:
  "concat (map json_char a) @ CHR 0x22 # x = concat (map json_char b) @ CHR 0x22 # y \<Longrightarrow> a = b \<and> x = y"
proof (induction a arbitrary: b)
  case Nil
  then show ?case by (cases b) (auto dest: sym [THEN notE [OF json_char_start]])
next
  case (Cons c a)
  show ?case
  proof (cases b)
    case Nil
    with Cons.prems show ?thesis using json_char_start by simp
  next
    case (Cons d b')
    have "read_char (json_char c @ concat (map json_char a) @ CHR 0x22 # x) =
        read_char (json_char d @ concat (map json_char b') @ CHR 0x22 # y)"
      using Cons.prems Cons by simp
    then show ?thesis using Cons.IH [of b'] Cons by simp
  qed
qed

lemma json_string_inj: "json_string a @ x = json_string b @ y \<Longrightarrow> a = b \<and> x = y"
  by (rule json_chars_inj) (simp add: json_string_def)

section \<open>Values\<close>

text \<open>Plain data: no undefined value, function or date, and numbers whose texts tell them apart.\<close>

definition number_chars :: string where
  "number_chars = ''0123456789.e+-''"

definition readable_numbers :: "js_env \<Rightarrow> (jsnum \<Rightarrow> bool) \<Rightarrow> bool" where
  "readable_numbers env P \<longleftrightarrow>
     (\<forall>x. P x \<longrightarrow> is_finite x \<and> number_text env x \<noteq> [] \<and> set (number_text env x) \<subseteq> set number_chars) \<and>
     (\<forall>x y. P x \<and> P y \<and> number_text env x = number_text env y \<longrightarrow> x = y)"

fun json_plain :: "(jsnum \<Rightarrow> bool) \<Rightarrow> jsval \<Rightarrow> bool" where
  "json_plain P JUndefined \<longleftrightarrow> False"
| "json_plain P JFunction \<longleftrightarrow> False"
| "json_plain P JNull \<longleftrightarrow> True"
| "json_plain P (JBoolean b) \<longleftrightarrow> True"
| "json_plain P (JNumber x) \<longleftrightarrow> P x"
| "json_plain P JNegativeZero \<longleftrightarrow> False"
| "json_plain P (JString s) \<longleftrightarrow> True"
| "json_plain P (JDate t) \<longleftrightarrow> False"
| "json_plain P (JArray xs) \<longleftrightarrow> (\<forall>x \<in> set xs. json_plain P x)"
| "json_plain P (JObject proto ps) \<longleftrightarrow> proto = ObjectPrototype \<and> (\<forall>p \<in> set ps. json_plain P (snd p))"

definition jtext :: "js_env \<Rightarrow> jsval \<Rightarrow> string" where
  "jtext env v = or_else (json_text env v) ''null''"

definition property_text :: "js_env \<Rightarrow> string \<times> jsval \<Rightarrow> string" where
  "property_text env p = json_string (fst p) @ CHR '':'' # jtext env (snd p)"

lemma plain_text: "json_plain P v \<Longrightarrow> json_text env v = Some (jtext env v)"
  by (cases v) (auto simp: jtext_def)

lemma jtext_simps:
  "jtext env JNull = ''null''" "jtext env (JBoolean b) = (if b then ''true'' else ''false'')"
  "is_finite x \<Longrightarrow> jtext env (JNumber x) = number_text env x" "jtext env (JString s) = json_string s"
  "jtext env (JArray xs) = CHR ''['' # comma_separated (map (jtext env) xs) @ '']''"
  "json_plain P (JObject ObjectPrototype ps) \<Longrightarrow>
     jtext env (JObject ObjectPrototype ps) = CHR ''{'' # comma_separated (map (property_text env) ps) @ ''}''"
proof -
  assume plain: "json_plain P (JObject ObjectPrototype ps)"
  then have "concat (map (\<lambda>p. case json_text env (snd p) of None \<Rightarrow> [] | Some t \<Rightarrow> [json_string (fst p) @ CHR '':'' # t]) ps) =
      map (property_text env) ps"
    by (induction ps) (auto simp: plain_text property_text_def)
  then show "jtext env (JObject ObjectPrototype ps) = CHR ''{'' # comma_separated (map (property_text env) ps) @ ''}''"
    by (simp add: jtext_def)
qed (simp_all add: jtext_def [abs_def])

text \<open>What a text can be followed by.\<close>

definition ends :: "string \<Rightarrow> bool" where
  "ends x \<longleftrightarrow> x = [] \<or> hd x \<in> {CHR '','', CHR '']'', CHR ''}''}"

lemma ends_simps [simp]: "ends []" "ends (c # x) \<longleftrightarrow> c \<in> {CHR '','', CHR '']'', CHR ''}''}"
  by (simp_all add: ends_def)

text \<open>Comma-separated items can be told apart when each item can.\<close>

lemma separated_inj:
  assumes item: "\<And>a b x y. a \<in> set as \<Longrightarrow> ok b \<Longrightarrow> ends x \<Longrightarrow> ends y \<Longrightarrow> f a @ x = f b @ y \<Longrightarrow> a = b \<and> x = y"
    and start: "\<And>b. b \<in> set as \<or> ok b \<Longrightarrow> f b \<noteq> [] \<and> hd (f b) \<notin> {CHR '','', CHR '']'', CHR ''}''}"
    and close: "e \<in> {CHR '']'', CHR ''}''}" and ok: "\<forall>b \<in> set bs. ok b"
    and eq: "comma_separated (map f as) @ e # x = comma_separated (map f bs) @ e # y"
  shows "as = bs \<and> x = y"
  using item start ok eq
proof (induction as arbitrary: bs)
  case Nil
  show ?case
  proof (cases bs)
    case (Cons b bs')
    have "hd (comma_separated (map f bs) @ e # y) = hd (f b)"
      using Nil.prems(2) [of b] Nil.prems(3) Cons by (cases bs') auto
    moreover have "hd (comma_separated (map f bs) @ e # y) = e" using Nil.prems(4) by (metis append_Nil comma_separated.simps(1) list.map(1) list.sel(1))
    ultimately show ?thesis using Nil.prems(2) [of b] Nil.prems(3) Cons close by auto
  qed (use Nil.prems(4) in simp)
next
  case (Cons a as)
  let ?rest = "\<lambda>zs z. if zs = [] then e # z else CHR '','' # comma_separated (map f zs) @ e # z"
  have split: "comma_separated (map f (c # cs)) @ e # z = f c @ ?rest cs z" for c cs z
    by (cases cs) simp_all
  have rest: "ends (?rest zs z)" for zs z using close by auto
  show ?case
  proof (cases bs)
    case Nil
    have "f a @ ?rest as x = e # y" using Cons.prems(4) Nil by (simp only: split) simp
    then show ?thesis using Cons.prems(2) [of a] close by (cases "f a") auto
  next
    case (Cons b bs')
    have "f a @ ?rest as x = f b @ ?rest bs' y" using Cons.prems(4) unfolding Cons split .
    then have "a = b \<and> ?rest as x = ?rest bs' y"
      by (rule Cons.prems(1) [rotated -1]) (use rest Cons.prems(3) Cons in simp_all)
    then have "a = b" and r: "?rest as x = ?rest bs' y" by blast+
    show ?thesis
    proof (cases "as = [] \<or> bs' = []")
      case True
      then show ?thesis using r close \<open>a = b\<close> Cons by (auto split: if_splits)
    next
      case False
      then have "comma_separated (map f as) @ e # x = comma_separated (map f bs') @ e # y" using r by simp
      then have "as = bs' \<and> x = y" using Cons.IH [of bs'] Cons.prems(1,2,3) Cons by auto
      then show ?thesis using \<open>a = b\<close> Cons by simp
    qed
  qed
qed

text \<open>The first character of a text says what kind of value it stands for.\<close>

definition kind_of_char :: "char \<Rightarrow> nat" where
  "kind_of_char c = (if c = CHR ''n'' then 0 else if c = CHR ''t'' then 1 else if c = CHR ''f'' then 2
     else if c = CHR 0x22 then 3 else if c = CHR ''['' then 4 else if c = CHR ''{'' then 5 else 6)"

fun kind_of_value :: "jsval \<Rightarrow> nat" where
  "kind_of_value (JBoolean b) = (if b then 1 else 2)"
| "kind_of_value (JString s) = 3"
| "kind_of_value (JArray xs) = 4"
| "kind_of_value (JObject proto ps) = 5"
| "kind_of_value (JNumber x) = 6"
| "kind_of_value _ = 0"

lemma number_char_kind: "c \<in> set number_chars \<Longrightarrow>
    kind_of_char c = 6 \<and> c \<notin> {CHR '','', CHR '']'', CHR ''}''}"
  by (auto simp: number_chars_def kind_of_char_def)

lemma jtext_start:
  assumes "readable_numbers env P" "json_plain P v"
  shows "jtext env v \<noteq> [] \<and> hd (jtext env v) \<notin> {CHR '','', CHR '']'', CHR ''}''} \<and>
    kind_of_char (hd (jtext env v)) = kind_of_value v"
proof (cases v)
  case (JNumber x)
  with assms have "is_finite x" "number_text env x \<noteq> []" "set (number_text env x) \<subseteq> set number_chars"
    by (auto simp: readable_numbers_def)
  moreover from this have "hd (number_text env x) \<in> set number_chars" by (meson hd_in_set subsetD)
  ultimately show ?thesis using JNumber number_char_kind by (simp add: jtext_simps)
next
  case (JObject proto ps)
  with assms have "proto = ObjectPrototype" by simp
  with JObject assms show ?thesis using jtext_simps(6) [of P ps env] by (simp add: kind_of_char_def)
qed (use assms in \<open>auto simp: jtext_simps json_string_def kind_of_char_def\<close>)

lemma number_text_inj:
  assumes "readable_numbers env P" "P a" "P b" "ends x" "ends y" "number_text env a @ x = number_text env b @ y"
  shows "a = b \<and> x = y"
proof -
  have whole: "takeWhile (\<lambda>c. c \<in> set number_chars) (number_text env n @ z) = number_text env n" if "P n" "ends z" for n z
  proof -
    have "\<forall>c \<in> set (number_text env n). c \<in> set number_chars" using assms(1) that by (auto simp: readable_numbers_def)
    moreover have "takeWhile (\<lambda>c. c \<in> set number_chars) z = []"
      using that(2) number_char_kind by (cases z) auto
    ultimately show ?thesis by (simp add: takeWhile_append2)
  qed
  then have "number_text env a = number_text env b" using assms by metis
  then show ?thesis using assms by (auto simp: readable_numbers_def)
qed

lemma same_kind:
  assumes "readable_numbers env P" "json_plain P v" "json_plain P w" "jtext env v @ x = jtext env w @ y"
  shows "kind_of_value v = kind_of_value w"
  using jtext_start [OF assms(1,2)] jtext_start [OF assms(1,3)] assms(4) by (metis hd_append2)

lemma scalar_inj:
  assumes "readable_numbers env P" "json_plain P v" "json_plain P w" "ends x" "ends y"
    and eq: "jtext env v @ x = jtext env w @ y" and scalar: "kind_of_value v \<noteq> 4" "kind_of_value v \<noteq> 5"
  shows "v = w \<and> x = y"
proof -
  have kind: "kind_of_value v = kind_of_value w" by (rule same_kind [OF assms(1,2,3) eq])
  have finite: "P a \<Longrightarrow> is_finite a" for a using assms(1) by (simp add: readable_numbers_def)
  show ?thesis
    using kind scalar assms(2,3) eq finite number_text_inj [OF assms(1) _ _ assms(4,5)]
    by (cases v; cases w) (auto simp: jtext_simps dest!: json_string_inj split: if_splits)
qed

lemma jtext_inj:
  assumes readable: "readable_numbers env P"
  shows "json_plain P v \<Longrightarrow> json_plain P w \<Longrightarrow> ends x \<Longrightarrow> ends y \<Longrightarrow>
    jtext env v @ x = jtext env w @ y \<Longrightarrow> v = w \<and> x = y"
proof (induction v arbitrary: w x y)
  case (JArray as)
  note start = jtext_start [OF readable]
  have "kind_of_value w = 4" using same_kind [OF readable JArray.prems(1,2,5)] by simp
  then obtain bs where w: "w = JArray bs" by (cases w) (auto split: if_splits)
  have "as = bs \<and> x = y"
  proof (rule separated_inj [where f = "jtext env" and ok = "json_plain P"])
    show "comma_separated (map (jtext env) as) @ CHR '']'' # x = comma_separated (map (jtext env) bs) @ CHR '']'' # y"
      using JArray.prems(5) by (simp add: w jtext_simps)
  qed (use JArray w start in auto)
  then show ?case by (simp add: w)
next
  case (JObject proto ps)
  have "kind_of_value w = 5" using same_kind [OF readable JObject.prems(1,2,5)] by simp
  then obtain qs where w: "w = JObject ObjectPrototype qs" using JObject.prems(2) by (cases w) (auto split: if_splits)
  have plain: "proto = ObjectPrototype" using JObject.prems(1) by simp
  let ?ok = "\<lambda>p. json_plain P (snd p)"
  have "ps = qs \<and> x = y"
  proof (rule separated_inj [where f = "property_text env" and ok = ?ok])
    show "comma_separated (map (property_text env) ps) @ CHR ''}'' # x = comma_separated (map (property_text env) qs) @ CHR ''}'' # y"
      using JObject.prems(1,2,5) jtext_simps(6) [of P _ env] by (simp add: w plain)
  next
    fix p q u v
    assume p: "p \<in> set ps" and q: "?ok q" and uv: "ends u" "ends v" "property_text env p @ u = property_text env q @ v"
    from uv(3) have "fst p = fst q \<and> jtext env (snd p) @ u = jtext env (snd q) @ v"
      by (auto simp: property_text_def dest!: json_string_inj)
    moreover have "json_plain P (snd p)" using JObject.prems(1) p by auto
    ultimately show "p = q \<and> u = v"
      using JObject.IH [OF p _ _ q uv(1,2)] by (cases p; cases q) (auto simp: prod_set_simps)
  qed (use JObject.prems w in \<open>auto simp: property_text_def json_string_def\<close>)
  then show ?case by (simp add: w plain)
qed (erule (4) scalar_inj [OF readable], simp, simp)+

section \<open>Hashes of records\<close>

lemma map_of_sort_by: "distinct (map fst ps) \<Longrightarrow> map_of (sort_by le ps) = map_of ps"
proof -
  assume d: "distinct (map fst ps)"
  have "mset (map fst (sort_by le ps)) = mset (map fst ps)" by (metis mset_map mset_sort_by)
  then have "distinct (map fst (sort_by le ps))" using d mset_eq_imp_distinct_iff by blast
  then show ?thesis using d by (intro map_of_inject_set [THEN iffD2]) simp_all
qed

lemma map_of_values: "map_of (map (\<lambda>p. (fst p, f (snd p))) ps) k = map_option f (map_of ps k)"
  by (induction ps) auto

text \<open>The canonical value has the same properties, in canonical form.\<close>

lemma get_canonical:
  assumes "distinct (map fst ps)"
  shows "get_property (canonicalValue (JObject proto ps)) key = canonicalValue (get_property (JObject proto ps) key)"
proof -
  have "map fst (map (\<lambda>p. (fst p, canonicalValue (snd p))) ps) = map fst ps" by simp
  then have "map_of (sort_by le (map (\<lambda>p. (fst p, canonicalValue (snd p))) ps)) = map_of (map (\<lambda>p. (fst p, canonicalValue (snd p))) ps)" for le
    using assms by (intro map_of_sort_by) metis
  then show ?thesis by (cases "map_of ps key") (simp_all add: map_of_values)
qed

lemma strict_object_get: "strict_object keys v \<Longrightarrow> get_property (canonicalValue v) key = canonicalValue (get_property v key)"
  by (cases v) (auto simp del: canonicalValue.simps get_property.simps intro: get_canonical)

lemma canonical_plain: "json_plain P v \<Longrightarrow> json_plain P (canonicalValue v)"
  by (induction v) (auto simp: prod_set_simps)

lemma strict_object_plain:
  assumes "strict_object keys v" "equals_parse v" "\<And>key. key \<in> set keys \<Longrightarrow> json_plain P (get_property v key)"
  shows "json_plain P v"
proof -
  obtain ps where v: "v = JObject ObjectPrototype ps" "distinct (map fst ps)" "set (map fst ps) = set keys"
    using assms(1,2) by (cases v) auto
  have "json_plain P x" if "(k, x) \<in> set ps" for k x
  proof -
    have "map_of ps k = Some x" "k \<in> set keys" using that v by (auto simp: map_of_eq_Some_iff rev_image_eqI)
    then show ?thesis using assms(3) [of k] v(1) by simp
  qed
  then show ?thesis by (auto simp: v(1))
qed

lemma omit_strict: "strict_object keys v \<Longrightarrow>
    strict_object (filter (\<lambda>k. k \<notin> set omitted) keys) (omit_keys omitted v)"
  by (cases v) (auto simp: omit_keys_def distinct_map_filter)

lemma omit_get: "key \<notin> set omitted \<Longrightarrow> get_property (omit_keys omitted v) key = get_property v key"
proof -
  assume key: "key \<notin> set omitted"
  have "map_of (filter (\<lambda>p. fst p \<notin> set omitted) ps) key = map_of ps key" for ps :: "(string \<times> jsval) list"
    using key by (induction ps) auto
  then show ?thesis by (cases v) (simp_all add: omit_keys_def)
qed

lemma omit_plain: "json_plain P v \<Longrightarrow> json_plain P (omit_keys omitted v)"
  by (cases v) (auto simp: omit_keys_def)

lemma canonical_scalars [simp]:
  "string_of (canonicalValue v) = string_of v" "number_of (canonicalValue v) = number_of v"
  "canonicalValue v = JBoolean b \<longleftrightarrow> v = JBoolean b"
  by (cases v; simp)+

text \<open>Values of plain data with the same hash have the same canonical form, or the digest collides.\<close>

lemma hash_fixes_value:
  assumes "readable_numbers env P" "json_plain P v" "json_plain P w"
    and "hashCanonicalPayload env v = Inr h" "hashCanonicalPayload env w = Inr h"
  shows "canonicalValue v = canonicalValue w \<or> sha256_collision env"
proof -
  note plain = canonical_plain [OF assms(2)] canonical_plain [OF assms(3)]
  have "h = ''sha256:'' @ sha256 env (utf8_string (jtext env (canonicalValue v)))"
    "h = ''sha256:'' @ sha256 env (utf8_string (jtext env (canonicalValue w)))"
    using assms(4,5) plain_text [OF plain(1)] plain_text [OF plain(2)]
    by (auto simp: hashCanonicalPayload_def canonicalJson_def Let_def split: if_splits)
  then have "sha256 env (utf8_string (jtext env (canonicalValue v))) = sha256 env (utf8_string (jtext env (canonicalValue w)))"
    by simp
  then consider "jtext env (canonicalValue v) @ [] = jtext env (canonicalValue w) @ []" | "sha256_collision env"
    unfolding sha256_collision_def by (metis append_Nil2 utf8_string_inj)
  then show ?thesis using jtext_inj [OF assms(1) plain, of "[]" "[]"] by cases auto
qed

lemma derived_id_hash:
  assumes "hashCanonicalPayload env v = Inr h" "hashCanonicalPayload env w = Inr h'"
    and "hashDerivedId prefix h = hashDerivedId prefix h'"
  shows "h = h'"
  using assms by (auto simp: hashDerivedId_def hashCanonicalPayload_def Let_def split: option.splits if_splits)

text \<open>Numbers that are whole and safe have their decimal digits as text.\<close>

definition decimal_text :: "js_env \<Rightarrow> bool" where
  "decimal_text env \<longleftrightarrow> (\<forall>n. 0 \<le> n \<and> n \<le> 9007199254740991 \<longrightarrow> number_text env (num n) = nat_str (nat n))"

definition safe_count :: "jsnum \<Rightarrow> bool" where
  "safe_count x \<longleftrightarrow> (\<exists>n. x = num n \<and> 0 \<le> n \<and> n \<le> 9007199254740991)"

lemma char_digits: "char_of (48 :: nat) = CHR ''0''" "char_of (49 :: nat) = CHR ''1''" "char_of (50 :: nat) = CHR ''2''"
  "char_of (51 :: nat) = CHR ''3''" "char_of (52 :: nat) = CHR ''4''" "char_of (53 :: nat) = CHR ''5''"
  "char_of (54 :: nat) = CHR ''6''" "char_of (55 :: nat) = CHR ''7''" "char_of (56 :: nat) = CHR ''8''"
  "char_of (57 :: nat) = CHR ''9''"
  by code_simp+

lemma digit_number_char: "is_digit c \<Longrightarrow> c \<in> set number_chars"
proof -
  assume "is_digit c"
  then obtain d where d: "of_char c = 48 + d" "d \<le> (9 :: nat)" by (auto simp: is_digit_def dest: le_Suc_ex)
  then have "c = char_of (48 + d)" by (metis char_of_char)
  moreover have "d = 0 \<or> d = 1 \<or> d = 2 \<or> d = 3 \<or> d = 4 \<or> d = 5 \<or> d = 6 \<or> d = 7 \<or> d = 8 \<or> d = 9"
    using d(2) by presburger
  ultimately consider "c = char_of (48 :: nat)" | "c = char_of (49 :: nat)" | "c = char_of (50 :: nat)"
    | "c = char_of (51 :: nat)" | "c = char_of (52 :: nat)" | "c = char_of (53 :: nat)" | "c = char_of (54 :: nat)"
    | "c = char_of (55 :: nat)" | "c = char_of (56 :: nat)" | "c = char_of (57 :: nat)" by fastforce
  then show ?thesis by cases (simp_all add: number_chars_def char_digits)
qed

lemma counts_readable:
  assumes "decimal_text env"
  shows "readable_numbers env safe_count"
proof -
  have "nat_str n \<noteq> []" for n by (simp add: nat_str.simps [of n])
  moreover have "set (nat_str n) \<subseteq> set number_chars" for n using nat_str_digits digit_number_char by blast
  ultimately show ?thesis
    using assms unfolding readable_numbers_def safe_count_def decimal_text_def
    by (fastforce dest: nat_str_inj)
qed

end
