(* ===== verification/OpeningCapacityClaims.thy ===== *)
theory OpeningCapacityClaims
  imports OpeningCapacitySample CanonicalFacts
begin

text \<open>
  What the replay of a ledger of opening capacity shows: it accepts exactly the valid ledgers, the
  notional of every reservation balances, and its report is read off the events.
\<close>

section \<open>The report\<close>

lemma sum_list_map_mset: "mset xs = mset ys \<Longrightarrow> sum_list (map f xs) = (sum_list (map f ys) :: int)"
  by (metis mset_map sum_mset_sum_list)

definition scope_at :: "jsval \<Rightarrow> capacity_scope" where
  "scope_at v = (text_at v ''portfolioId'', text_at v ''policyHash'', text_at v ''bucket'')"

abbreviation ledger_values :: "jsval \<Rightarrow> jsval list" where
  "ledger_values v \<equiv> elements (get_property v ''events'')"

lemma hash_exists:
  assumes "\<forall>t. is_sha256_text (''sha256:'' @ sha256 env t)"
  shows "\<exists>h. hashCanonicalPayload env (JObject proto ps) = Inr h"
  using assms by (simp add: hashCanonicalPayload_def canonicalJson_def)

lemma replay_report:
  assumes "replayOpeningCapacityReservationEvents env input = Inr r"
  obtains es where "map_result (parseOpeningCapacityReservationEvent env) (ledger_values input) = Inr es"
    "capacity_replay_schema input" "valid_capacity_ledger env (scope_at input) es" "tracks (replayed_ledger es) es"
    "cr_events r = es" "cr_reservations r = sort_by (\<lambda>c d. str_le (ce_reservationId (ch_reservedEvent c))
       (ce_reservationId (ch_reservedEvent d))) (map snd (cl_chains (replayed_ledger es)))"
    "cr_remainingReservedNotionalKrw r = mk (of_int (outstanding es))"
    "cr_pendingNewPositionSlotCount r = slot_count is_reserved (cr_reservations r)"
    "cr_boundUnusedNewPositionSlotCount r = slot_count is_bound (cr_reservations r)"
proof -
  obtain es l where es: "map_result (parseOpeningCapacityReservationEvent env) (ledger_values input) = Inr es"
    and l: "replay_capacity_ledger env (scope_at input) es = Inr l"
    and r: "capacity_replay_schema input" "cr_events r = es" "cr_remainingReservedNotionalKrw r = mk (of_int (cl_remaining l))"
      "cr_reservations r = sort_by (\<lambda>c d. str_le (ce_reservationId (ch_reservedEvent c))
         (ce_reservationId (ch_reservedEvent d))) (map snd (cl_chains l))"
      "cr_pendingNewPositionSlotCount r = slot_count is_reserved (cr_reservations r)"
      "cr_boundUnusedNewPositionSlotCount r = slot_count is_bound (cr_reservations r)"
    using assms
    by (auto simp: replayOpeningCapacityReservationEvents_def bind_result_Inr Let_def scope_at_def split: if_splits)
  have v: "valid_capacity_ledger env (scope_at input) es" "l = replayed_ledger es"
    using loop_iff [OF parsed_events_ok [OF es], of env "scope_at input" l] l by blast+
  then have "tracks l es" using loop_iff [OF parsed_events_ok [OF es], of env "scope_at input" l] by blast
  moreover from this have "cl_remaining l = outstanding es" by (simp add: tracks_def)
  ultimately show thesis using es r v by (intro that) auto
qed

abbreviation chain_id :: "CapacityChain \<Rightarrow> string" where
  "chain_id c \<equiv> ce_reservationId (ch_reservedEvent c)"

lemma of_reservation_hd: "of_reservation rid es \<noteq> [] \<Longrightarrow> ce_reservationId (hd (of_reservation rid es)) = rid"
  using hd_in_set [of "of_reservation rid es"] by (auto simp: of_reservation_def)

lemma tracked_chain:
  assumes t: "tracks l es" and c: "(rid, c) \<in> set (cl_chains l)"
  shows "chain_id c = rid" "reservation_life (of_reservation rid es) (stage_of c)" "chain_shaped c"
    "of_reservation rid es \<noteq> []"
proof -
  have some: "map_of (cl_chains l) rid = Some c" using t c by (simp add: tracks_def)
  with t show ne: "of_reservation rid es \<noteq> []" unfolding tracks_def by (metis option.distinct(1))
  from t some show "reservation_life (of_reservation rid es) (stage_of c)" "chain_shaped c" by (auto simp: tracks_def)
  from t some ne show "chain_id c = rid" by (auto simp: tracks_def of_reservation_hd)
qed

lemma chain_ids: "tracks l es \<Longrightarrow> map (\<lambda>p. chain_id (snd p)) (cl_chains l) = map fst (cl_chains l)"
  using tracked_chain(1) by force

lemma tracked_keys: "tracks l es \<Longrightarrow> set (map fst (cl_chains l)) = ce_reservationId ` set es"
proof (rule set_eqI)
  fix rid assume t: "tracks l es"
  show "rid \<in> set (map fst (cl_chains l)) \<longleftrightarrow> rid \<in> ce_reservationId ` set es"
    using t of_reservation_Nil [of rid es] map_of_eq_None_iff [of "cl_chains l" rid] by (auto simp: tracks_def)
qed

text \<open>Counting the reservations whose life has reached a stage of some kind.\<close>

lemma count_lives:
  assumes t: "tracks l es" and rs: "mset rs = mset (map snd (cl_chains l))"
    and Q: "\<And>c. chain_shaped c \<Longrightarrow> Q (stage_of c) \<longleftrightarrow> P c" "\<not> Q Absent"
  shows "length (filter P rs) = card {rid. \<exists>s. Q s \<and> reservation_life (of_reservation rid es) s}"
proof -
  let ?hits = "filter (\<lambda>p. P (snd p)) (cl_chains l)"
  have "size (filter_mset P (mset rs)) = size (filter_mset P (mset (map snd (cl_chains l))))" using rs by simp
  then have "length (filter P rs) = length (filter P (map snd (cl_chains l)))" by (metis mset_filter size_mset)
  also have "\<dots> = length ?hits" by (simp add: filter_map o_def)
  also have "\<dots> = card (set (map fst ?hits))"
  proof -
    have "distinct (map fst ?hits)" using t by (simp add: tracks_def distinct_map_filter)
    then show ?thesis by (metis distinct_card length_map)
  qed
  also have "set (map fst ?hits) = {rid. \<exists>s. Q s \<and> reservation_life (of_reservation rid es) s}"
  proof (intro set_eqI iffI)
    fix rid assume "rid \<in> set (map fst ?hits)"
    then obtain c where c: "(rid, c) \<in> set (cl_chains l)" "P c" by auto
    with tracked_chain [OF t c(1)] Q(1) show "rid \<in> {rid. \<exists>s. Q s \<and> reservation_life (of_reservation rid es) s}"
      by blast
  next
    fix rid assume "rid \<in> {rid. \<exists>s. Q s \<and> reservation_life (of_reservation rid es) s}"
    then obtain s where s: "Q s" "reservation_life (of_reservation rid es) s" by blast
    with Q(2) have "of_reservation rid es \<noteq> []" by auto
    then have "rid \<in> set (map fst (cl_chains l))" unfolding tracked_keys [OF t] by (simp add: of_reservation_Nil)
    then obtain c where c: "(rid, c) \<in> set (cl_chains l)" by auto
    from tracked_chain [OF t c] s Q(1) have "P c" using life_deterministic by blast
    with c show "rid \<in> set (map fst ?hits)" by force
  qed
  finally show ?thesis .
qed

lemma pending_slot: "chain_shaped c \<Longrightarrow> (\<exists>a. stage_of c = Pending a True) \<longleftrightarrow>
    is_reserved (ce_body (ch_head c)) \<and> ce_occupiesNewPositionSlot (ch_head c)"
  by (cases "ce_body (ch_head c)")
    (auto simp: chain_shaped_def stage_of_def capacity_event_ok_def split: option.splits)

lemma bound_slot: "chain_shaped c \<Longrightarrow> (\<exists>m a p. stage_of c = Mandated m a True p) \<longleftrightarrow>
    is_bound (ce_body (ch_head c)) \<and> ce_occupiesNewPositionSlot (ch_head c)"
  by (cases "ce_body (ch_head c)")
    (auto simp: chain_shaped_def stage_of_def capacity_event_ok_def split: option.splits)

lemma replay_returns:
  assumes hex: "\<forall>t. is_sha256_text (''sha256:'' @ sha256 env t)" and input: "capacity_replay_schema input"
    and es: "map_result (parseOpeningCapacityReservationEvent env) (ledger_values input) = Inr es"
    and l: "replay_capacity_ledger env (scope_at input) es = Inr l"
  shows "\<exists>r. replayOpeningCapacityReservationEvents env input = Inr r \<and> cr_events r = es \<and>
    cr_reservations r = sort_by (\<lambda>c d. str_le (ce_reservationId (ch_reservedEvent c))
      (ce_reservationId (ch_reservedEvent d))) (map snd (cl_chains l))"
proof -
  obtain h where "hashCanonicalPayload env (JObject ObjectPrototype
      [(''portfolioId'', get_property input ''portfolioId''), (''policyHash'', get_property input ''policyHash''),
       (''bucket'', get_property input ''bucket''), (''events'', get_property input ''events'')]) = Inr h"
    using hash_exists [OF hex] by blast
  with input es l show ?thesis
    by (simp add: replayOpeningCapacityReservationEvents_def Let_def scope_at_def)
qed

section \<open>Claims\<close>

text \<open>
  C13.  The replay returns exactly for an input of the right shape, of any prototype, whose events
  parse and form a valid ledger: versions 1, 2, ... in order, times that do not go back, every identity
  used once, every reservation a life of the step relation, and never more outstanding than a safe
  integer.  To parse, an event must equal its own parse, so that it and its parts are plain objects,
  and have no negative zero.
\<close>

theorem ledger_accepted_exactly:
  assumes hex: "\<forall>t. is_sha256_text (''sha256:'' @ sha256 env t)"
  shows "(\<exists>r. replayOpeningCapacityReservationEvents env input = Inr r) \<longleftrightarrow>
    capacity_replay_schema input \<and>
    (\<exists>es. map_result (parseOpeningCapacityReservationEvent env) (ledger_values input) = Inr es \<and>
       valid_capacity_ledger env (scope_at input) es)"
proof (intro iffI; (elim exE conjE)?)
  fix r assume "replayOpeningCapacityReservationEvents env input = Inr r"
  then show "capacity_replay_schema input \<and>
    (\<exists>es. map_result (parseOpeningCapacityReservationEvent env) (ledger_values input) = Inr es \<and>
       valid_capacity_ledger env (scope_at input) es)"
    by (auto elim: replay_report)
next
  fix es assume input: "capacity_replay_schema input"
    and es: "map_result (parseOpeningCapacityReservationEvent env) (ledger_values input) = Inr es"
    and v: "valid_capacity_ledger env (scope_at input) es"
  have "replay_capacity_ledger env (scope_at input) es = Inr (replayed_ledger es)"
    using loop_iff [OF parsed_events_ok [OF es]] v by blast
  with replay_returns [OF hex input es] show "\<exists>r. replayOpeningCapacityReservationEvents env input = Inr r"
    by blast
qed

lemma sample_scope: "scope_at sample_ledger = (''p'', zero_hash, ''swing'')"
  "ledger_values sample_ledger = [sample_reserved, sample_bound, sample_consumed]"
  by (simp_all add: scope_at_def text_at_def sample_ledger_def)

lemma sample_ledger_replays: "\<exists>r. replayOpeningCapacityReservationEvents ledger_env sample_ledger = Inr r \<and>
    cr_events r = sample_events \<and> cr_reservations r = [sample_chain]"
proof -
  have hex: "\<forall>t. is_sha256_text (''sha256:'' @ sha256 ledger_env t)"
    using length_digest_hex by (simp add: ledger_env_def)
  obtain l where l: "replay_capacity_ledger ledger_env (scope_at sample_ledger) sample_events = Inr l"
    "cl_chains l = [(''r'', sample_chain)]"
    using sample_replayed by (auto simp: sample_scope)
  have "map_result (parseOpeningCapacityReservationEvent ledger_env) (ledger_values sample_ledger) = Inr sample_events"
    using sample_parsed by (simp only: sample_scope)
  from replay_returns [OF hex sample_ledger_schema this l(1)] l(2) show ?thesis
    by (simp add: sort_by_def)
qed

theorem ledger_accepted_exactly_witness:
  "capacity_replay_schema sample_ledger \<and>
    (\<exists>es. map_result (parseOpeningCapacityReservationEvent ledger_env) (ledger_values sample_ledger) = Inr es \<and>
       valid_capacity_ledger ledger_env (scope_at sample_ledger) es)"
proof -
  have "\<forall>t. is_sha256_text (''sha256:'' @ sha256 ledger_env t)"
    using length_digest_hex by (simp add: ledger_env_def)
  with ledger_accepted_exactly [of ledger_env sample_ledger] sample_ledger_replays show ?thesis by blast
qed

text \<open>
  C14.  Of every reservation in a report the notional reserved is exactly what was consumed, what was
  released and what is left, as whole numbers without rounding, and the report's remaining notional
  is the sum of what is left.
\<close>

theorem notional_conserved:
  assumes "replayOpeningCapacityReservationEvents env input = Inr r"
  shows "(\<forall>c \<in> set (cr_reservations r). \<exists>reserved consumed released left.
      event_left (ch_reservedEvent c) = num reserved \<and> ch_consumedNotionalKrw c = num consumed \<and>
      ch_releasedNotionalKrw c = num released \<and> event_left (ch_head c) = num left \<and>
      0 \<le> consumed \<and> 0 \<le> released \<and> 0 \<le> left \<and> reserved = consumed + released + left) \<and>
    cr_remainingReservedNotionalKrw r =
      num (sum_list (map (\<lambda>c. bigint (event_left (ch_head c))) (cr_reservations r))) \<and>
    sum_list (map (\<lambda>c. bigint (event_left (ch_head c))) (cr_reservations r)) \<le> 9007199254740991"
proof -
  from assms obtain es where es: "map_result (parseOpeningCapacityReservationEvent env) (ledger_values input) = Inr es"
    and v: "valid_capacity_ledger env (scope_at input) es" and t: "tracks (replayed_ledger es) es"
    and r: "cr_reservations r = sort_by (\<lambda>c d. str_le (ce_reservationId (ch_reservedEvent c))
         (ce_reservationId (ch_reservedEvent d))) (map snd (cl_chains (replayed_ledger es)))"
      "cr_remainingReservedNotionalKrw r = mk (of_int (outstanding es))"
    by (rule replay_report)
  have balanced: "chain_balanced c" if "c \<in> set (cr_reservations r)" for c
    using that t by (auto simp: r tracks_def)
  have sum: "sum_list (map (\<lambda>c. bigint (event_left (ch_head c))) (cr_reservations r)) = outstanding es"
    unfolding outstanding_chains [OF t] r(1) by (rule sum_list_map_mset) simp
  have "0 \<le> outstanding es" using parsed_events_ok [OF es] by (rule outstanding_nonneg)
  moreover have "outstanding es \<le> 9007199254740991"
    using v unfolding valid_capacity_ledger_def by (metis order_refl take_all)
  ultimately have "cr_remainingReservedNotionalKrw r = num (outstanding es)" "outstanding es \<le> 9007199254740991"
    by (simp_all add: r(2) mk_of_int)
  then show ?thesis unfolding sum using balanced unfolding chain_balanced_def by blast
qed

theorem notional_conserved_witness:
  "event_left (ch_reservedEvent sample_chain) = num 1000 \<and> ch_consumedNotionalKrw sample_chain = num 600 \<and>
   (\<exists>released left. ch_releasedNotionalKrw sample_chain = num released \<and> event_left (ch_head sample_chain) = num left \<and>
      1000 = 600 + released + left)"
proof -
  obtain r where "replayOpeningCapacityReservationEvents ledger_env sample_ledger = Inr r"
    and "cr_reservations r = [sample_chain]"
    using sample_ledger_replays by blast
  with notional_conserved [of ledger_env sample_ledger r] show ?thesis
    by (auto simp: sample_chain_def sample_events_def sample_event_def)
qed

text \<open>
  C15.  The report is read off the events: it lists every reservation of the ledger once, in the order
  of their identifiers, each with the stage that the life of its own events has reached, and its two
  slot counts are the numbers of reservations that hold a position slot before and after the mandate.
\<close>

theorem report_follows_events:
  assumes "replayOpeningCapacityReservationEvents env input = Inr r"
  shows "set (map (\<lambda>c. ce_reservationId (ch_reservedEvent c)) (cr_reservations r)) =
      ce_reservationId ` set (cr_events r) \<and>
    distinct (map (\<lambda>c. ce_reservationId (ch_reservedEvent c)) (cr_reservations r)) \<and>
    sorted_wrt (\<lambda>c d. str_le (ce_reservationId (ch_reservedEvent c)) (ce_reservationId (ch_reservedEvent d)))
      (cr_reservations r) \<and>
    (\<forall>c \<in> set (cr_reservations r). reservation_life
       (of_reservation (ce_reservationId (ch_reservedEvent c)) (cr_events r)) (stage_of c)) \<and>
    cr_pendingNewPositionSlotCount r = num (int (card {rid. \<exists>a. reservation_life (of_reservation rid (cr_events r)) (Pending a True)})) \<and>
    cr_boundUnusedNewPositionSlotCount r =
      num (int (card {rid. \<exists>m a p. reservation_life (of_reservation rid (cr_events r)) (Mandated m a True p)}))"
proof -
  from assms obtain es where t: "tracks (replayed_ledger es) es" and es: "cr_events r = es"
    and rs: "cr_reservations r = sort_by (\<lambda>c d. str_le (chain_id c) (chain_id d)) (map snd (cl_chains (replayed_ledger es)))"
    and slots: "cr_pendingNewPositionSlotCount r = slot_count is_reserved (cr_reservations r)"
      "cr_boundUnusedNewPositionSlotCount r = slot_count is_bound (cr_reservations r)"
    by (rule replay_report)
  let ?l = "replayed_ledger es"
  have perm: "mset (cr_reservations r) = mset (map snd (cl_chains ?l))" by (simp add: rs)
  have "mset (map chain_id (cr_reservations r)) = image_mset chain_id (mset (map snd (cl_chains ?l)))"
    by (simp only: mset_map perm)
  also have "\<dots> = mset (map (\<lambda>p. chain_id (snd p)) (cl_chains ?l))" by (simp add: multiset.map_comp o_def)
  finally have ids: "mset (map chain_id (cr_reservations r)) = mset (map fst (cl_chains ?l))"
    by (simp only: chain_ids [OF t])
  have set: "set (map chain_id (cr_reservations r)) = ce_reservationId ` set es"
    using mset_eq_setD [OF ids] tracked_keys [OF t] by simp
  have distinct: "distinct (map chain_id (cr_reservations r))"
    using mset_eq_imp_distinct_iff [OF ids] t by (simp add: tracks_def)
  have sorted: "sorted_wrt (\<lambda>c d. str_le (chain_id c) (chain_id d)) (cr_reservations r)"
    unfolding rs by (rule key_order.sorted_sort_by) simp
  have lives: "reservation_life (of_reservation (chain_id c) es) (stage_of c)" if "c \<in> set (cr_reservations r)" for c
    using that tracked_chain [OF t] by (auto simp: rs)
  have pending: "cr_pendingNewPositionSlotCount r =
      num (int (card {rid. \<exists>s. (\<exists>a. s = Pending a True) \<and> reservation_life (of_reservation rid es) s}))"
    unfolding slots slot_count_def using count_lives [OF t perm, where Q = "\<lambda>s. \<exists>a. s = Pending a True", OF pending_slot] by simp
  have bound: "cr_boundUnusedNewPositionSlotCount r =
      num (int (card {rid. \<exists>s. (\<exists>m a p. s = Mandated m a True p) \<and> reservation_life (of_reservation rid es) s}))"
    unfolding slots slot_count_def using count_lives [OF t perm, where Q = "\<lambda>s. \<exists>m a p. s = Mandated m a True p", OF bound_slot] by simp
  have stages: "{rid. \<exists>s. (\<exists>a. s = Pending a True) \<and> reservation_life (of_reservation rid es) s} =
      {rid. \<exists>a. reservation_life (of_reservation rid es) (Pending a True)}"
    "{rid. \<exists>s. (\<exists>m a p. s = Mandated m a True p) \<and> reservation_life (of_reservation rid es) s} =
      {rid. \<exists>m a p. reservation_life (of_reservation rid es) (Mandated m a True p)}" by (blast+)
  show ?thesis
    unfolding es
    by (intro conjI ballI set distinct sorted lives pending [unfolded stages] bound [unfolded stages])
qed

theorem report_follows_events_witness:
  "reservation_life (of_reservation ''r'' sample_events) (Mandated (''m'', zero_hash) (num 400) False (Some ''q''))"
proof -
  obtain r where r: "replayOpeningCapacityReservationEvents ledger_env sample_ledger = Inr r"
    "cr_reservations r = [sample_chain]" "cr_events r = sample_events"
    using sample_ledger_replays by blast
  have "stage_of sample_chain = Mandated (''m'', zero_hash) (num 400) False (Some ''q'')" "chain_id sample_chain = ''r''"
    by (simp_all add: sample_chain_def sample_events_def sample_event_def stage_of_def)
  then show ?thesis using report_follows_events [OF r(1)] by (simp add: r)
qed

section \<open>Identities\<close>

lemma text_plain: "isString v \<Longrightarrow> json_plain P v"
  by (cases v) simp_all

lemma field_plain:
  "capacity_identifier v \<Longrightarrow> json_plain P v" "sha256HashSchema v \<Longrightarrow> json_plain P v"
  "capacity_timestamp env v \<Longrightarrow> json_plain P v" "strategyBucketSchema v \<Longrightarrow> json_plain P v"
proof -
  show "capacity_identifier v \<Longrightarrow> json_plain P v" "capacity_timestamp env v \<Longrightarrow> json_plain P v"
    by (cases v; simp)+
qed (auto simp: sha256HashSchema_def strategyBucketSchema_def intro: text_plain)

lemma boolean_plain: "isBoolean v \<Longrightarrow> json_plain P v"
  by (cases v) simp_all

lemma safe_count_num [simp]: "safe_count (num n) \<longleftrightarrow> 0 \<le> n \<and> n \<le> 9007199254740991"
  and safe_count_0 [simp]: "safe_count (Fin 0)"
  by (auto simp: safe_count_def)

lemma count_plain: "capacity_count v \<Longrightarrow> json_plain safe_count v"
  using count_num [of v] by (cases v) auto

lemmas schema_plain = field_plain boolean_plain count_plain

lemma source_plain: "reservation_source_schema v \<Longrightarrow> equals_parse v \<Longrightarrow> json_plain safe_count v"
  unfolding reservation_source_schema_def
  by (auto elim!: strict_object_plain simp: schema_plain split: if_splits)

lemma origin_plain: "release_origin_schema v \<Longrightarrow> equals_parse v \<Longrightarrow> json_plain safe_count v"
  unfolding release_origin_schema_def mandate_schema_def
  by (auto elim!: strict_object_plain simp: schema_plain split: if_splits)

lemma nested_equals_parse:
  assumes "equals_parse v"
  shows "equals_parse (get_property v key)"
proof (cases v)
  case (JObject proto ps)
  show ?thesis
  proof (cases "map_of ps key")
    case (Some a)
    then have "(key, a) \<in> set ps" by (rule map_of_SomeD)
    with assms show ?thesis using JObject Some by (auto simp: or_else_def)
  qed (simp add: JObject or_else_def)
qed (auto simp: or_else_def)

lemma event_plain:
  assumes "openingCapacityReservationEventSchema env v" "equals_parse v"
    and "get_property v ''remainingReservedNotionalKrw'' \<noteq> JNegativeZero"
  shows "json_plain safe_count v"
  using assms unfolding openingCapacityReservationEventSchema_def capacity_variant_schema_def base_schema_def identity_schema_def
    mandate_schema_def fill_schema_def positiveAmount_def base_keys_def identity_keys_def Let_def
  by (auto elim!: strict_object_plain simp: schema_plain source_plain origin_plain nested_equals_parse split: if_splits)

text \<open>The canonical payload has the content of the event.\<close>

definition event_content :: "OpeningCapacityReservationEvent \<Rightarrow> OpeningCapacityReservationEvent" where
  "event_content e = e\<lparr>ce_capacityReservationEventId := [], ce_capacityReservationEventHash := [], ce_createdAt := []\<rparr>"

lemma schema_strict: "openingCapacityReservationEventSchema env v \<Longrightarrow> \<exists>keys. strict_object keys v"
  by (auto simp: openingCapacityReservationEventSchema_def capacity_variant_schema_def Let_def split: if_splits)

lemma payload_get:
  assumes "openingCapacityReservationEventSchema env v" and key: "key \<notin> set identity_keys"
  shows "get_property (canonicalValue (event_payload v)) key = canonicalValue (get_property v key)"
proof -
  from schema_strict [OF assms(1)] obtain keys where "strict_object keys v" by blast
  then have "strict_object (filter (\<lambda>k. k \<notin> set identity_keys) keys) (event_payload v)"
    unfolding event_payload_def by (rule omit_strict)
  from strict_object_get [OF this, of key] key show ?thesis by (simp add: event_payload_def omit_get)
qed

lemma payload_content:
  assumes v: "openingCapacityReservationEventSchema env v"
  shows "event_content (event_of v) = event_content (event_of (canonicalValue (event_payload v)))"
proof -
  note get = payload_get [OF v]
  have reads: "text_at (canonicalValue (event_payload v)) key = text_at v key" if "key \<notin> set identity_keys" for key
    using get [OF that] by (simp add: text_at_def)
  have source: "source_of (canonicalValue s) = source_of s" if "reservation_source_schema s" for s
    using that strict_object_get [of _ s]
    by (auto simp: reservation_source_schema_def source_of_def text_at_def split: if_splits)
  have origin: "origin_of (canonicalValue s) = origin_of s" if "release_origin_schema s" for s
    using that strict_object_get [of _ s]
    by (auto simp: release_origin_schema_def origin_of_def text_at_def mandate_at_def split: if_splits)
  let ?C = "canonicalValue (event_payload v)"
  have parts: "mandate_at ?C = mandate_at v" "fill_at ?C = fill_at v"
    by (simp_all add: mandate_at_def fill_at_def reads identity_keys_def)
  have nested: "get_property ?C ''reservationSource'' = canonicalValue (get_property v ''reservationSource'')"
    "get_property ?C ''releaseOrigin'' = canonicalValue (get_property v ''releaseOrigin'')"
    by (simp_all add: get identity_keys_def)
  have kinds: "text_at v ''eventType'' = ''reserved'' \<Longrightarrow> reservation_source_schema (get_property v ''reservationSource'')"
    "text_at v ''eventType'' \<notin> {''reserved'', ''bound_to_mandate'', ''partially_consumed'', ''consumed_by_position''} \<Longrightarrow>
      release_origin_schema (get_property v ''releaseOrigin'')"
    using v by (auto simp: openingCapacityReservationEventSchema_def capacity_variant_schema_def Let_def text_at_def
        split: if_splits)
  have "body_of ?C = body_of v"
    using kinds source origin by (simp add: body_of_def Let_def reads parts nested identity_keys_def)
  then show ?thesis using get reads by (simp add: event_content_def event_of_def identity_keys_def)
qed

text \<open>
  C16.  An event's identifier fixes its content: two parsed events with the same identifier agree in
  every field but the time of creation, which the identity leaves out, unless the digest collides.
  The digits of a whole number are its text, as in the language.
\<close>

theorem event_id_fixes_content:
  assumes "decimal_text env"
    and e: "parseOpeningCapacityReservationEvent env v = Inr e"
    and f: "parseOpeningCapacityReservationEvent env w = Inr f"
    and ids: "ce_capacityReservationEventId e = ce_capacityReservationEventId f"
  shows "e\<lparr>ce_createdAt := ce_createdAt f\<rparr> = f \<or> sha256_collision env"
proof -
  from e have v: "openingCapacityReservationEventSchema env v" "e = event_of v" "equals_parse v"
      "get_property v ''remainingReservedNotionalKrw'' \<noteq> JNegativeZero"
    and hv: "hashCanonicalPayload env (event_payload v) = Inr (ce_capacityReservationEventHash e)"
    and ie: "ce_capacityReservationEventId e = hashDerivedId ''opening_capacity_event'' (ce_capacityReservationEventHash e)"
    by (auto simp: parsed_event)
  from f have w: "openingCapacityReservationEventSchema env w" "f = event_of w" "equals_parse w"
      "get_property w ''remainingReservedNotionalKrw'' \<noteq> JNegativeZero"
    and hw: "hashCanonicalPayload env (event_payload w) = Inr (ce_capacityReservationEventHash f)"
    and jf: "ce_capacityReservationEventId f = hashDerivedId ''opening_capacity_event'' (ce_capacityReservationEventHash f)"
    by (auto simp: parsed_event)
  have hash: "ce_capacityReservationEventHash e = ce_capacityReservationEventHash f"
    using derived_id_hash [OF hv hw] ids ie jf by simp
  have "json_plain safe_count (event_payload v)" "json_plain safe_count (event_payload w)"
    using event_plain [OF v(1,3,4)] event_plain [OF w(1,3,4)] by (simp_all add: event_payload_def omit_plain)
  from hash_fixes_value [OF counts_readable [OF assms(1)] this hv] hw hash
  have "canonicalValue (event_payload v) = canonicalValue (event_payload w) \<or> sha256_collision env" by simp
  moreover have "e\<lparr>ce_createdAt := ce_createdAt f\<rparr> = f" if "canonicalValue (event_payload v) = canonicalValue (event_payload w)"
  proof -
    have "event_content e = event_content f" using payload_content v w that by metis
    with ids hash show ?thesis by (cases e; cases f) (simp add: event_content_def)
  qed
  ultimately show ?thesis by blast
qed

lemma ledger_env_decimal: "decimal_text ledger_env"
  by (simp add: decimal_text_def ledger_env_def)

text \<open>The first event of the sample, created a day later.\<close>

definition sample_later :: jsval where
  "sample_later = JObject ObjectPrototype (map (\<lambda>p. if fst p = ''createdAt'' then (fst p, JString ''2026-01-02T00:00:00.000Z'') else p)
     (object_entries sample_reserved))"

lemma later_date: "date_parse env ''2026-01-02T00:00:00.000Z'' = num 1767312000000"
  by (simp_all add: date_parse_def parse_iso_def parse_date_def two_def is_digit_def digit_val_def
    parse_time_def parse_fraction_def parse_offset_def days_in_month_def days_from_civil_def)

lemma later_iso: "iso_string 1767312000000 = ''2026-01-02T00:00:00.000Z''"
  by code_simp

lemma later_timestamp: "offsetQualifiedIsoDateTimeSchema env (JString ''2026-01-02T00:00:00.000Z'')"
  "to_iso (date_parse env ''2026-01-02T00:00:00.000Z'') = Inr ''2026-01-02T00:00:00.000Z''"
  by (simp_all add: offsetQualifiedIsoDateTimeSchema_def is_offset_date_time_def fits_def is_digit_def
      isValidCalendarDate_def later_date later_iso)

lemma sample_later_parsed: "parseOpeningCapacityReservationEvent ledger_env sample_later =
    Inr ((sample_events ! 0)\<lparr>ce_createdAt := ''2026-01-02T00:00:00.000Z''\<rparr>)"
proof -
  have "event_payload sample_later = event_payload sample_reserved"
    by (simp add: event_payload_def omit_keys_def sample_later_def sample_reserved_def sample_base_def identity_keys_def)
  then have hash: "hashCanonicalPayload ledger_env (event_payload sample_later) = Inr (numbered_hash ''0569'')"
    by (simp only: sample_hashes)
  have "openingCapacityReservationEventSchema ledger_env sample_later"
    using sample_id_length later_timestamp by (simp add: sample_later_def sample_reserved_def sample_schema)
  then show ?thesis
    by (simp add: parsed_event hash)
      (simp add: sample_events_def sample_event_def event_of_def body_of_def text_at_def sample_later_def sample_reserved_def
        sample_base_def source_of_def check_reserved_def sample_dates later_date)
qed

theorem event_id_fixes_content_witness:
  "(sample_events ! 0)\<lparr>ce_createdAt := ''2026-01-02T00:00:00.000Z''\<rparr> \<noteq> sample_events ! 0 \<and>
   ((sample_events ! 0)\<lparr>ce_createdAt := ''2026-01-02T00:00:00.000Z''\<rparr> =
      (sample_events ! 0)\<lparr>ce_createdAt := ''2026-01-02T00:00:00.000Z''\<rparr> \<or> sha256_collision ledger_env)"
proof -
  have "parseOpeningCapacityReservationEvent ledger_env sample_reserved = Inr (sample_events ! 0)"
    using sample_parsed unfolding map_result_Inr by (auto dest!: spec [of _ 0])
  from event_id_fixes_content [OF ledger_env_decimal this sample_later_parsed] show ?thesis
    by (simp add: sample_events_def sample_event_def)
qed

end
