(* ===== verification/Spec2Isabelle.thy ===== *)
theory Spec2Isabelle
  imports PaperClaims RiskClaims MarketClaims ExecutionClaims ExitClaims CpcvClaims OleClaims
    LiveClaims LiveAuthorityClaims DryRunClaims OpeningCapacityClaims
begin

text \<open>
  Verification of the deterministic core of the trading repository: the paper trading engine
  (src/paper), the risk engine of live orders and its authority (src/risk), the router of dry-run
  orders and its ledger (src/order), the ledger of opening capacity (src/portfolio), the replay of
  decisions and the cross-validation plan (src/replay), and the reader of OLE compound files
  (src/replay/officialMarketCalendarOleCompoundFile*.ts).

  Parts and how they interact.  A virtual decision (an order asked for by a model) is checked by
  the risk engine against the portfolio, the candidates of a market packet and the policies; the
  order engine sizes an approved decision, has the execution simulator fill it, checks the funds and
  books the fill in the portfolio; the replay runs decisions one after the other over a packet.
  The exit policy produces decisions of the same type from the positions held.  A live order goes
  through an engine of its own, which takes values of unknown type, and an authority that copies its
  input, keeps the decision and is verified before the order is sent; the dry-run router verifies it,
  consumes an approval and reserves the order in the shadow ledger.  The portfolio cycle reserves notional
  for openings in a ledger of hashed events, whose replay says what is still held.  The
  cross-validation plan splits labelled samples into training and test sets.  The compound file
  reader is the first stage of the official calendar's evidence and is independent of the engine.

  Common ground.  JsNumber models the numbers of the language: binary64 with infinities and NaN,
  every operation rounded to nearest even, comparisons false on NaN.  The sign of zero is not kept.
  JsText has the results of fallible code (an error or a value), texts, decimal numerals and the
  ISO dates; Prelude the array idioms, stable sorting, loops that may throw, and the interfaces:
  comparison (total and transitive comparisons sort), guarded_machine and its extension
  booking_machine (steps that keep an invariant and a balance), accumulator (maps of amounts).
  Each is interpreted on definitions of the code: the key orders of the exposures, the order of
  directory names, the replay of decisions, the maps of exposures.  A collation, the environment of
  date parsing and the limit of array allocations belong to the platform and are arguments.

  Theories and code.
  PaperSchemas: the enumerations and records of src/domain/schemas.ts with their numeric
  refinements.  PaperExecution: executionModel.ts, liquidityModel.ts, costModel.ts.
  PaperRiskPolicy: riskPolicy.ts, dynamicCashReservePolicy.ts.  MarketRegime: the result types that the reserve
  reads; RegimeClassifier: src/analytics/marketRegimeClassifier.ts and its call by the reserve.
  PaperAllocation: allocationPolicy.ts.  PaperSizing: decisionNormalizer.ts, dustPosition.ts.
  PaperExposure: portfolioExposureAggregator.ts, hedgePolicy.ts.  PaperRiskEngine: riskEngine.ts,
  riskBranches.ts.  PaperOrder: orderEngine.ts, ledger.ts.  PaperAccounting: the amounts and the
  keys of the portfolio through an order.  PaperReplay: paperReplay.ts, with the invariant of the
  books.  DecisionSchema and PaperExitPolicy: the refinements of a decision and exitPolicy.ts.
  JsValue: values of unknown type with the guards that narrow them.  LiveRiskPolicy, LiveRiskEngine,
  LiveRiskAuthority: the three files of src/risk; LiveRiskFacts and LiveAuthorityFacts: their lemmas,
  with the runs of the store of authorities.
  JsEffects: operations that change a state and may throw, and the interface effect_machine, an
  invariant of the state and the history of the calls, interpreted on the calls of a program that
  uses authorities, ledger and router.  DryRunShadow, DryRunRouter: the two files of src/order;
  DryRunFacts, DryRunRuns: their lemmas and that interpretation.
  CanonicalJson: the canonical text of a value and its hash (runtimePolicyContracts.ts); CanonicalFacts: it
  can be read back.  OpeningCapacity: openingCapacityReservationEvent.ts and its Replay; OpeningCapacityFacts,
  OpeningCapacityRuns: the step relation of one reservation, valid ledgers, and the loop that accepts them.
  CrossValidation and CpcvPlan: combinatorialPurgedCv.ts and the sample schema of purgedSplit.ts.
  OleCompound, OleDirectory, OleStreams: the ten phases of the compound file reader;
  OleChains, OleReads, OleNames, OleTree, OleContents: its lemmas.
  PaperSamples, OleSample and OpeningCapacitySample hold the concrete inputs of the witnesses.

  What the lemmas show.  PaperClaims: a purchase is within the cash and its amounts, a sale within
  the position, the books balance over any replay, nothing changes without approval, a trade
  records its decision, other positions are untouched.  RiskClaims: the reject codes of the rules
  shared by all decisions and of the funding rules exactly, what an approved order respects, the
  reserve never below its base ratio, hedges that reduce the downside, exposures as exact sums.
  MarketClaims: what a classification reports of each symbol, and a buy within the allocation.
  ExecutionClaims: every fill is rejected or priced, participation caps, costs that add up, whole
  shares.  ExitClaims: the decisions of the exit policy pass the schema, are for held positions,
  partial profits are taken once, peaks only rise.  CpcvClaims: no leakage from test to training
  samples, the partition of the samples, the ranking of combinations, refusal exactly on bad
  inputs, the drawing of ranks.  OleClaims: no read out of range, chains read exactly, one owner
  per sector, stream contents, the directory as a forest of search trees, names.

  LiveClaims: a live order is approved exactly when every rule holds, whatever the types of
  its input, and nothing is approved by default.  LiveAuthorityClaims: only approved decisions are verified,
  for the very object evaluated; the hash fixes the intent; the strict copies pass the guards.
  DryRunClaims: a routed order was approved, the ledger is what its log says, handles are used once.
  OpeningCapacityClaims: exactly the valid ledgers are accepted, the notional of every reservation balances,
  the report is read off the events, an identifier fixes the content of its event.

  Bounds and fuel.  The rejection loop of the seeded generator runs on fuel, one unit per draw:
  2^32 draws per rank are enough, since the generator goes through all even multiples of its
  increment within a full cycle.  The collection of distinct ranks has the same fuel for each
  rank, and is shown not to return with any fuel when more than 2^31 ranks are asked for.  The
  other loops are total functions: the walk of a chain and the loops over the directory end
  because every round uses up a sector or an entry.  Arrays are taken shorter than 2^32.

  Not modelled, and why.  The rest of src/portfolio (policies, cycles, selection, file stores and bindings
  between records) checks and stores records whose arithmetic is in the modelled parts.  Brokers, collectors, AI providers, storage, the HTTP interface, the
  dashboard, reports and schedulers are input, output and presentation.  The parsing of stored
  records by the schema library is replaced by typed records with predicates for the refinements the
  code relies on.  The copy of the paper engine under src/paper/executionModels/v1 is not mapped
  separately.  Of the values
  of unknown type, accessors, symbol keys, proxies and sparse arrays are left out: the authority refuses
  all of these but proxies.  The frozen objects, the shared-memory checks of byte arrays and the texts of error
  messages of the compound file reader are left out: an error is its code.
\<close>

end
